(* ===== verification/Prelude.thy ===== *)
theory Prelude
  imports Main "HOL-Library.Word"
begin

text \<open>
  The shared vocabulary of the development: machine integers, the outcome of a Rust call that
  may fail or panic, monotonic time, the operations on strings the sources use (\<open>split\<close>,
  \<open>trim\<close>, \<open>lines\<close>, \<open>parse\<close>, decimal formatting), and a generic locale for the invariants of
  state machines.

  Conventions. A Rust \<open>String\<close> is the list of its bytes, so \<open>length\<close> is Rust's \<open>len()\<close>;
  white space is the ASCII white space. An \<open>Instant\<close> is a number of nanoseconds, as is a
  \<open>Duration\<close>; \<open>Instant::elapsed\<close> saturates at zero, which is what subtraction on \<open>nat\<close>
  does. Arithmetic on fixed-width integers wraps, as in the release profile of the crate.
\<close>

named_theorems time_simps \<open>units of time\<close>
named_theorems str_simps \<open>string operations on concrete arguments\<close>

subsection \<open>Machine integers and outcomes\<close>

type_synonym u8 = "8 word"
type_synonym u16 = "16 word"
type_synonym u32 = "32 word"
type_synonym u64 = "64 word"

text \<open>Rust's \<open>saturating_add\<close> and \<open>saturating_sub\<close> on unsigned integers.\<close>

definition saturating_add :: "'a::len word \<Rightarrow> 'a word \<Rightarrow> 'a word" where
  "saturating_add a b = (if unat a + unat b < 2 ^ LENGTH('a) then a + b else - 1)"

definition saturating_sub :: "'a::len word \<Rightarrow> 'a word \<Rightarrow> 'a word" where
  "saturating_sub a b = (if b \<le> a then a - b else 0)"

text \<open>
  The value of a fallible call: \<open>Ok\<close>, an error returned to the caller, or a panic, which in the
  release profile (\<open>panic = "abort"\<close>) ends the process.
\<close>

datatype ('e, 'a) outcome = Ok 'a | Err 'e | Panic string

fun is_ok :: "('e, 'a) outcome \<Rightarrow> bool" where
  "is_ok (Ok _) = True"
| "is_ok _ = False"

subsection \<open>Time\<close>

type_synonym instant = nat
type_synonym duration = nat

definition from_secs :: "nat \<Rightarrow> duration" where
  "from_secs n = n * 1000000000"

definition from_millis :: "nat \<Rightarrow> duration" where
  "from_millis n = n * 1000000"

definition as_secs :: "duration \<Rightarrow> nat" where
  "as_secs d = d div 1000000000"

definition as_millis :: "duration \<Rightarrow> nat" where
  "as_millis d = d div 1000000"

definition elapsed :: "instant \<Rightarrow> instant \<Rightarrow> duration" where
  "elapsed now t = now - t"

subsection \<open>Strings\<close>

definition is_ws :: "char \<Rightarrow> bool" where
  "is_ws c \<longleftrightarrow> c \<in> set [CHR 0x20, CHR 0x09, CHR 0x0A, CHR 0x0B, CHR 0x0C, CHR 0x0D]"

definition trim :: "string \<Rightarrow> string" where
  "trim s = rev (dropWhile is_ws (rev (dropWhile is_ws s)))"

fun strip_prefix :: "string \<Rightarrow> string \<Rightarrow> string option" where
  "strip_prefix [] s = Some s"
| "strip_prefix (p # ps) [] = None"
| "strip_prefix (p # ps) (c # s) = (if p = c then strip_prefix ps s else None)"

definition starts_with :: "string \<Rightarrow> string \<Rightarrow> bool" where
  "starts_with p s \<longleftrightarrow> strip_prefix p s \<noteq> None"

fun contains_str :: "string \<Rightarrow> string \<Rightarrow> bool" where
  "contains_str p [] = (p = [])"
| "contains_str p (c # s) = (starts_with p (c # s) \<or> contains_str p s)"

text \<open>\<open>str::split(char)\<close>: never the empty list.\<close>

fun split_char :: "char \<Rightarrow> string \<Rightarrow> string list" where
  "split_char d [] = [[]]"
| "split_char d (c # s) =
     (if c = d then [] # split_char d s
      else case split_char d s of [] \<Rightarrow> [[c]] | w # ws \<Rightarrow> (c # w) # ws)"

definition nth_opt :: "'a list \<Rightarrow> nat \<Rightarrow> 'a option" where
  "nth_opt xs i = (if i < length xs then Some (xs ! i) else None)"

text \<open>
  \<open>str::lines\<close>: split at line feeds, a final empty piece dropped, the carriage return of a
  \<open>CR LF\<close> ending cut (the last piece, when it has no line feed, is left as it is).
\<close>

definition strip_cr :: "string \<Rightarrow> string" where
  "strip_cr l = (if l \<noteq> [] \<and> last l = CHR 0x0D then butlast l else l)"

definition lines :: "string \<Rightarrow> string list" where
  "lines s = (let ps = split_char (CHR 0x0A) s
              in map strip_cr (butlast ps) @ (if last ps = [] then [] else [last ps]))"

subsection \<open>Decimal numbers\<close>

definition digit_char :: "nat \<Rightarrow> char" where
  "digit_char d = char_of (48 + d)"

definition digit_val :: "char \<Rightarrow> nat option" where
  "digit_val c = (let n = of_char c in if 48 \<le> n \<and> n \<le> 57 then Some (n - 48) else None)"

fun show_nat :: "nat \<Rightarrow> string" where
  "show_nat n = (if n < 10 then [digit_char n] else show_nat (n div 10) @ [digit_char (n mod 10)])"

declare show_nat.simps [simp del]

definition show_int :: "int \<Rightarrow> string" where
  "show_int i = (if i < 0 then CHR ''-'' # show_nat (nat (- i)) else show_nat (nat i))"

fun parse_digits :: "nat \<Rightarrow> string \<Rightarrow> nat option" where
  "parse_digits acc [] = Some acc"
| "parse_digits acc (c # s) =
     (case digit_val c of None \<Rightarrow> None | Some d \<Rightarrow> parse_digits (acc * 10 + d) s)"

text \<open>\<open>str::parse\<close> to an unsigned type of \<open>w\<close> bits: an optional plus sign, at least one digit, in range.\<close>

definition parse_uint :: "nat \<Rightarrow> string \<Rightarrow> nat option" where
  "parse_uint w s =
     (let t = (case s of [] \<Rightarrow> [] | c # r \<Rightarrow> if c = CHR ''+'' then r else s)
      in if t = [] then None
         else case parse_digits 0 t of
             None \<Rightarrow> None
           | Some n \<Rightarrow> if n < 2 ^ w then Some n else None)"

text \<open>\<open>str::parse::<i32>\<close>: an optional sign, at least one digit, in range.\<close>

definition in_i32 :: "int \<Rightarrow> bool" where
  "in_i32 i \<longleftrightarrow> - (2 ^ 31) \<le> i \<and> i < 2 ^ 31"

definition parse_i32 :: "string \<Rightarrow> int option" where
  "parse_i32 s =
     (let (neg, t) = (case s of [] \<Rightarrow> (False, [])
          | c # r \<Rightarrow> if c = CHR ''-'' then (True, r)
                    else if c = CHR ''+'' then (False, r) else (False, s))
      in if t = [] then None
         else case parse_digits 0 t of
             None \<Rightarrow> None
           | Some n \<Rightarrow> (let i = (if neg then - int n else int n)
                       in if in_i32 i then Some i else None))"

subsection \<open>Calls into the operating system\<close>

text \<open>
  The effects of the session layer on processes: \<open>libc::kill(target, signal)\<close> (a negative target
  is a process group, zero is the caller's own group) and the abort of the I/O tasks of a session.
  A \<open>u32\<close> process id is reinterpreted as \<open>i32\<close> (\<open>pid as i32\<close>), which is \<open>sint\<close>.
\<close>

datatype os_call = Kill int int | AbortTasks

definition SIGTERM :: int where "SIGTERM = 15"
definition SIGKILL :: int where "SIGKILL = 9"

definition neg_i32 :: "u32 \<Rightarrow> int" where
  "neg_i32 pid = sint (- pid)"

subsection \<open>Facts on time and integers\<close>

text \<open>Kernel evaluation of the division and of the range check goes through binary integers.\<close>

lemma parse_uint_code [code]:
  "parse_uint w s =
     (let t = (case s of [] \<Rightarrow> [] | c # r \<Rightarrow> if c = CHR ''+'' then r else s)
      in if t = [] then None
         else case parse_digits 0 t of
             None \<Rightarrow> None
           | Some n \<Rightarrow> if int n < 2 ^ w then Some n else None)"
proof -
  have "int n < 2 ^ w \<longleftrightarrow> n < 2 ^ w" for n by (metis of_nat_less_iff of_nat_numeral of_nat_power)
  then show ?thesis by (simp only: parse_uint_def)
qed

lemma as_millis_code [code]: "as_millis d = nat (int d div 1000000)"
  by (simp add: as_millis_def zdiv_int nat_div_distrib)

lemmas time_defs [time_simps] = from_secs_def from_millis_def as_secs_def as_millis_def elapsed_def

lemma as_secs_from_secs [simp]: "as_secs (from_secs n) = n"
  by (simp add: time_defs)

lemma unat_saturating_add:
  fixes a b :: "'a::len word"
  shows "unat (saturating_add a b) = min (unat a + unat b) (2 ^ LENGTH('a) - 1)"
proof (cases "unat a + unat b < 2 ^ LENGTH('a)")
  case True
  then have "unat (a + b) = unat a + unat b" by (simp add: unat_add_lem)
  moreover have "unat a + unat b \<le> 2 ^ LENGTH('a) - 1" using True by simp
  ultimately show ?thesis using True by (simp add: saturating_add_def min_absorb1)
next
  case False
  then show ?thesis by (simp add: saturating_add_def unsigned_minus_1_eq_mask mask_eq_exp_minus_1)
qed

lemma unat_saturating_sub:
  fixes a b :: "'a::len word"
  shows "unat (saturating_sub a b) = unat a - unat b"
  by (simp add: saturating_sub_def unat_sub word_le_nat_alt)

lemma unat_bound: "unat w < 2 ^ LENGTH('a)" for w :: "'a::len word"
  by (rule unsigned_less)

lemma unat_of_nat_small: "k < 2 ^ LENGTH('a) \<Longrightarrow> unat (of_nat k :: 'a::len word) = k"
  by (simp add: unsigned_of_nat take_bit_nat_eq_self)

lemma unat_ucast_u64 [simp]: "unat (ucast w :: u64) = unat w" for w :: u32
proof -
  have "unat w < 2 ^ 64" using unat_bound [of w] by simp
  then show ?thesis by (simp add: unsigned_ucast_eq take_bit_nat_eq_self)
qed

lemma unat_Suc_word:
  fixes a :: "'a::len word"
  assumes "Suc (unat a) < 2 ^ LENGTH('a)"
  shows "unat (a + 1) = Suc (unat a)"
proof -
  have "unat a + unat (1 :: 'a word) < 2 ^ LENGTH('a)"
    using assms by simp
  then have "unat (a + 1) = unat a + unat (1 :: 'a word)"
    by (rule unat_add_lem [THEN iffD1])
  then show ?thesis by simp
qed

subsection \<open>Facts on strings and numbers\<close>

lemma strip_prefix_Some_iff: "strip_prefix p s = Some r \<longleftrightarrow> s = p @ r"
  by (induction p s rule: strip_prefix.induct) auto

lemma strip_prefix_append [simp]: "strip_prefix p (p @ r) = Some r"
  by (simp add: strip_prefix_Some_iff)

lemma split_char_ne [simp]: "split_char d s \<noteq> []"
  by (induction s) (auto split: list.splits)

lemma split_char_no_sep: "d \<notin> set s \<Longrightarrow> split_char d s = [s]"
  by (induction s) auto

lemma split_char_append: "d \<notin> set l \<Longrightarrow> split_char d (l @ d # s) = l # split_char d s"
  by (induction l) auto

lemma split_char_pieces: "w \<in> set (split_char d s) \<Longrightarrow> d \<notin> set w"
  by (induction s arbitrary: w) (auto split: if_splits list.splits)

lemma digit_val_digit_char: "d < 10 \<Longrightarrow> digit_val (digit_char d) = Some d"
  by (simp add: digit_val_def digit_char_def Let_def of_char_of take_bit_nat_def)

lemma digit_char_not_ws: "d < 10 \<Longrightarrow> \<not> is_ws (digit_char d)"
  by (auto simp: is_ws_def digit_char_def char_of_eq_iff take_bit_nat_def)

lemma digit_char_not_sign: "d < 10 \<Longrightarrow> digit_char d \<noteq> CHR ''-'' \<and> digit_char d \<noteq> CHR ''+''"
  by (auto simp: digit_char_def char_of_eq_iff take_bit_nat_def)

lemma parse_digits_append:
  "parse_digits acc (s @ t) = Option.bind (parse_digits acc s) (\<lambda>a. parse_digits a t)"
  by (induction s arbitrary: acc) (auto split: option.splits)

lemma parse_digits_show_nat: "parse_digits 0 (show_nat n) = Some n"
proof (induction n rule: show_nat.induct)
  case (1 n)
  show ?case
  proof (cases "n < 10")
    case True
    then show ?thesis by (simp add: show_nat.simps digit_val_digit_char)
  next
    case False
    with 1 show ?thesis
      by (simp add: show_nat.simps [of n] parse_digits_append digit_val_digit_char)
  qed
qed

lemma show_nat_chars: "c \<in> set (show_nat n) \<Longrightarrow> \<exists>d < 10. c = digit_char d"
proof (induction n rule: show_nat.induct)
  case (1 n)
  then show ?case
    by (cases "n < 10") (auto simp: show_nat.simps [of n] intro: exI [of _ "n mod 10"])
qed

lemma show_nat_ne [simp]: "show_nat n \<noteq> []"
  by (subst show_nat.simps) simp

lemma show_int_not_ws: "c \<in> set (show_int i) \<Longrightarrow> \<not> is_ws c"
  using digit_char_not_ws show_nat_chars
  by (fastforce simp: show_int_def is_ws_def split: if_splits)

lemma trim_id: "(\<And>c. c \<in> set s \<Longrightarrow> \<not> is_ws c) \<Longrightarrow> trim s = s"
proof -
  assume no: "\<And>c. c \<in> set s \<Longrightarrow> \<not> is_ws c"
  have "dropWhile is_ws xs = xs" if "set xs = set s" for xs
    using that no by (cases xs) auto
  then show ?thesis by (simp add: trim_def)
qed

lemma parse_i32_show_int: "in_i32 i \<Longrightarrow> parse_i32 (show_int i) = Some i"
proof (cases "i < 0")
  case True
  assume "in_i32 i"
  with True show ?thesis
    by (simp add: parse_i32_def show_int_def parse_digits_show_nat)
next
  case False
  assume r: "in_i32 i"
  obtain c r where cr: "show_nat (nat i) = c # r"
    using show_nat_ne by (metis list.exhaust)
  then obtain d where "d < 10" "c = digit_char d"
    using show_nat_chars [of c "nat i"] by auto
  then have "c \<noteq> CHR ''-'' \<and> c \<noteq> CHR ''+''"
    using digit_char_not_sign by simp
  with False r show ?thesis
    using parse_digits_show_nat [of "nat i"]
    by (simp add: parse_i32_def show_int_def cr del: parse_digits.simps)
qed

subsection \<open>Invariants of state machines\<close>

text \<open>
  A component is driven by a sequence of operations. \<open>invariant_machine\<close> is the contract of a
  step function that keeps an invariant under a guard on the operation; a run keeps it.
\<close>

locale invariant_machine =
  fixes step :: "'op \<Rightarrow> 's \<Rightarrow> 's"
    and admissible :: "'op \<Rightarrow> 's \<Rightarrow> bool"
    and invar :: "'s \<Rightarrow> bool"
  assumes step_invar: "invar s \<Longrightarrow> admissible e s \<Longrightarrow> invar (step e s)"
begin

fun run :: "'op list \<Rightarrow> 's \<Rightarrow> 's" where
  "run [] s = s"
| "run (e # es) s = run es (step e s)"

fun admissible_run :: "'op list \<Rightarrow> 's \<Rightarrow> bool" where
  "admissible_run [] s = True"
| "admissible_run (e # es) s = (admissible e s \<and> admissible_run es (step e s))"

lemma run_append: "run (xs @ ys) s = run ys (run xs s)"
  by (induction xs arbitrary: s) auto

lemma run_fold: "run es s = fold step es s"
  by (induction es arbitrary: s) auto

lemma run_invar: "invar s \<Longrightarrow> admissible_run es s \<Longrightarrow> invar (run es s)"
  by (induction es arbitrary: s) (auto intro: step_invar)

lemma run_invar_all:
  "invar s \<Longrightarrow> (\<And>e t. admissible e t) \<Longrightarrow> invar (run es s)"
  by (induction es arbitrary: s) (auto intro: step_invar)

end

text \<open>
  A machine that refines an abstract specification: every step is matched by a move of the
  specification between the abstractions of the two states, under the label of the operation.
\<close>

inductive labelled_run :: "('l \<Rightarrow> 'a \<Rightarrow> 'a \<Rightarrow> bool) \<Rightarrow> 'l list \<Rightarrow> 'a \<Rightarrow> 'a \<Rightarrow> bool" for move where
  labelled_run_Nil: "labelled_run move [] a a"
| labelled_run_Cons: "move l a b \<Longrightarrow> labelled_run move ls b c \<Longrightarrow> labelled_run move (l # ls) a c"

locale refining_machine = invariant_machine +
  fixes abstr :: "'b \<Rightarrow> 'c"
    and lab :: "'a \<Rightarrow> 'd"
    and move :: "'d \<Rightarrow> 'c \<Rightarrow> 'c \<Rightarrow> bool"
  assumes step_refines: "invar s \<Longrightarrow> admissible e s \<Longrightarrow> move (lab e) (abstr s) (abstr (step e s))"
begin

lemma run_refines:
  "invar s \<Longrightarrow> admissible_run es s \<Longrightarrow> labelled_run move (map lab es) (abstr s) (abstr (run es s))"
  by (induction es arbitrary: s) (auto intro: labelled_run.intros step_invar step_refines)

end

end
