(* ===== verification/Seq_Ring.thy ===== *)
theory Seq_Ring
  imports Prelude
begin

text \<open>
  Bounded logs. Several components keep the last entries of a stream in a \<open>VecDeque\<close> and drop the
  oldest when it is full: \<open>OutputBuffer\<close>, \<open>ActivityLog\<close>, \<open>ExecResultsCache\<close>, the watchdog's
  snapshot. \<open>ring_push\<close> is that idiom. The locale \<open>seq_ring\<close> is the contract of the two logs that
  number their entries: what a reader that polls with the last number it has seen can rely on.
\<close>

definition ring_push :: "nat \<Rightarrow> 'a \<Rightarrow> 'a list \<Rightarrow> 'a list" where
  "ring_push cap x xs = (if length xs \<ge> cap then drop 1 xs else xs) @ [x]"

lemma ring_push_ne [simp]: "ring_push cap x xs \<noteq> []"
  by (simp add: ring_push_def)

lemma last_ring_push [simp]: "last (ring_push cap x xs) = x"
  by (simp add: ring_push_def)

lemma length_ring_push_le: "length xs \<le> max 1 cap \<Longrightarrow> length (ring_push cap x xs) \<le> max 1 cap"
  by (auto simp: ring_push_def)

lemma ring_push_suffix: "\<exists>k. ring_push cap x xs = drop k (xs @ [x]) \<and> k \<le> 1 \<and> k \<le> length xs"
proof (cases "length xs \<ge> cap \<and> xs \<noteq> []")
  case True
  then have "ring_push cap x xs = drop 1 (xs @ [x]) \<and> 1 \<le> length xs"
    by (cases xs) (auto simp: ring_push_def)
  then show ?thesis by (metis order_refl)
next
  case False
  then have "ring_push cap x xs = drop 0 (xs @ [x])"
    by (auto simp: ring_push_def)
  then show ?thesis by blast
qed

lemma map_ring_push: "map f (ring_push cap x xs) = ring_push cap (f x) (map f xs)"
  by (simp add: ring_push_def drop_map)

text \<open>In a consecutively numbered list, the entries above a number are a suffix.\<close>

lemma filter_numbered:
  "map f xs = [a ..< b] \<Longrightarrow> filter (\<lambda>x. f x > k) xs = drop (Suc k - a) xs"
proof (induction xs arbitrary: a)
  case Nil
  then show ?case by simp
next
  case (Cons x xs)
  then have lt: "a < b" by (cases "a < b") auto
  then have "f x = a" "map f xs = [Suc a ..< b]"
    using Cons.prems by (auto simp: upt_conv_Cons)
  moreover from this have "filter (\<lambda>x. f x > k) xs = drop (Suc k - Suc a) xs"
    using Cons.IH by blast
  ultimately show ?case
    by (cases "a > k") (auto simp: Suc_diff_le not_less)
qed

locale seq_ring =
  fixes entries :: "'s \<Rightarrow> 'e list"
    and next_no :: "'s \<Rightarrow> nat"
    and cap :: "'s \<Rightarrow> nat"
    and no :: "'e \<Rightarrow> nat"
    and push :: "'x \<Rightarrow> 's \<Rightarrow> 's"
    and mk :: "'x \<Rightarrow> 's \<Rightarrow> 'e"
    and room :: "'s \<Rightarrow> bool"
  assumes entries_push: "entries (push x s) = ring_push (cap s) (mk x s) (entries s)"
    and next_push: "room s \<Longrightarrow> next_no (push x s) = Suc (next_no s)"
    and cap_push: "cap (push x s) = cap s"
    and no_mk: "no (mk x s) = next_no s"
begin

text \<open>The entries are numbered without gaps, the newest just below the next number.\<close>

definition ring_wf :: "'s \<Rightarrow> bool" where
  "ring_wf s \<longleftrightarrow>
     length (entries s) \<le> max 1 (cap s) \<and> length (entries s) < next_no s \<and>
     map no (entries s) = [next_no s - length (entries s) ..< next_no s]"

lemma ring_wf_push:
  assumes "ring_wf s" and "room s"
  shows "ring_wf (push x s)"
proof -
  let ?n = "next_no s" and ?l = "length (entries s)"
  from assms(1) have nums: "map no (entries s) = [?n - ?l ..< ?n]"
    and l: "?l \<le> max 1 (cap s)" "?l < ?n"
    by (auto simp: ring_wf_def)
  obtain k where k: "ring_push (cap s) (mk x s) (entries s) = drop k (entries s @ [mk x s])"
      "k \<le> 1" "k \<le> ?l"
    using ring_push_suffix [of "cap s" "mk x s" "entries s"] by auto
  have upt: "[?n - ?l ..< ?n] @ [?n] = [?n - ?l ..< Suc ?n]" using l by simp
  have "map no (entries (push x s)) = drop k (map no (entries s @ [mk x s]))"
    by (simp only: entries_push k(1) drop_map)
  also have "\<dots> = drop k ([?n - ?l ..< ?n] @ [?n])"
    by (simp only: map_append nums list.map no_mk)
  also have "\<dots> = [?n - ?l + k ..< Suc ?n]"
    by (simp add: upt drop_upt del: upt_Suc)
  also have "?n - ?l + k = Suc ?n - length (entries (push x s))"
    using k l by (simp add: entries_push k(1) del: drop_append)
  finally have "map no (entries (push x s)) = [Suc ?n - length (entries (push x s)) ..< Suc ?n]" .
  moreover have "length (entries (push x s)) \<le> max 1 (cap (push x s))"
    using length_ring_push_le [OF l(1)] by (simp add: entries_push cap_push)
  moreover have "length (entries (push x s)) < Suc ?n"
    using l(2) k by (simp add: entries_push k(1) del: drop_append)
  ultimately show ?thesis
    using next_push [OF assms(2)] by (simp add: ring_wf_def)
qed

text \<open>A read with the number of the last entry seen: everything newer that is still held.\<close>

definition newer :: "nat \<Rightarrow> 's \<Rightarrow> 'e list" where
  "newer since s = filter (\<lambda>e. no e > since) (entries s)"

definition oldest :: "'s \<Rightarrow> nat" where
  "oldest s = (case entries s of [] \<Rightarrow> next_no s | e # _ \<Rightarrow> no e)"

lemma oldest_eq: "ring_wf s \<Longrightarrow> oldest s = next_no s - length (entries s)"
  by (cases "entries s") (auto simp: ring_wf_def oldest_def upt_conv_Cons)

lemma filter_upt_gt: "filter (\<lambda>i. i > k) [a ..< b] = [max a (Suc k) ..< b]"
proof (induction b)
  case 0
  show ?case by simp
next
  case (Suc b)
  then show ?case by (auto simp: max_def)
qed

lemma newer_numbers:
  assumes "ring_wf s"
  shows "map no (newer since s) = [max (oldest s) (Suc since) ..< next_no s]"
proof -
  have "map no (newer since s) = filter (\<lambda>i. i > since) (map no (entries s))"
    by (simp add: newer_def filter_map comp_def)
  also have "\<dots> = filter (\<lambda>i. i > since) [oldest s ..< next_no s]"
    using assms by (simp add: oldest_eq) (simp add: ring_wf_def)
  finally show ?thesis by (simp add: filter_upt_gt)
qed

lemma newer_drop: "ring_wf s \<Longrightarrow> newer since s = drop (Suc since - oldest s) (entries s)"
  unfolding newer_def by (rule filter_numbered [of _ _ _ "next_no s"]) (auto simp: ring_wf_def oldest_eq)

text \<open>
  What a poll returns and what it has missed add up to every entry numbered after \<open>since\<close>:
  nothing is lost silently and nothing is returned twice.
\<close>

lemma newer_accounts:
  assumes "ring_wf s" and "since < next_no s"
  shows "length (newer since s) + (oldest s - Suc since) = next_no s - Suc since"
proof -
  have "length (newer since s) = next_no s - max (oldest s) (Suc since)"
    using newer_numbers [OF assms(1), of since] by (metis length_map length_upt)
  moreover have "oldest s \<le> next_no s"
    using assms(1) by (simp add: oldest_eq)
  ultimately show ?thesis using assms(2) by (auto simp: max_def)
qed

lemma newer_push:
  assumes "ring_wf s" and "room s" and "since < next_no s"
  shows "last (newer since (push x s)) = mk x s \<and> newer since (push x s) \<noteq> []"
proof -
  have "mk x s \<in> set (entries (push x s))"
    by (simp add: entries_push ring_push_def)
  moreover have "no (mk x s) > since"
    using assms(3) by (simp add: no_mk)
  ultimately have ne: "newer since (push x s) \<noteq> []"
    by (auto simp: newer_def filter_empty_conv)
  have "newer since (push x s) =
      filter (\<lambda>e. no e > since) (if length (entries s) \<ge> cap s then drop 1 (entries s) else entries s)
        @ [mk x s]"
    using \<open>no (mk x s) > since\<close> by (simp add: newer_def entries_push ring_push_def)
  with ne show ?thesis by simp
qed

end

end
