(* ===== verification/Output_Buffer.thy ===== *)
theory Output_Buffer
  imports Seq_Ring
begin

text \<open>
  The per-session output buffer (\<open>server/src/sessions/buffer.rs\<close>) and the conversions between its
  entries and journal lines (\<open>server/src/sessions/journal.rs\<close>, lines 41 to 80).

  The environment of a push is an argument: the wall clock (\<open>None\<close> when it reads before the epoch)
  and whether the bounded journal channel accepted the entry (\<open>try_send\<close> may drop it). The
  channel is recorded as the list of entries it has accepted, the \<open>Notify\<close> as the number of
  wake-ups issued.
\<close>

datatype output_stream = Stdout | Stderr | System

fun stream_as_str :: "output_stream \<Rightarrow> string" where
  "stream_as_str Stdout = ''stdout''"
| "stream_as_str Stderr = ''stderr''"
| "stream_as_str System = ''system''"

record output_entry =
  oe_seq :: u64
  oe_stream :: output_stream
  oe_data :: string
  oe_timestamp_ms :: u64

record journal_entry =
  je_s :: u64
  je_t :: char
  je_d :: string
  je_ts :: u64

definition from_output_entry :: "output_entry \<Rightarrow> journal_entry" where
  "from_output_entry e =
     \<lparr>je_s = oe_seq e,
      je_t = (case oe_stream e of Stdout \<Rightarrow> CHR ''o'' | Stderr \<Rightarrow> CHR ''e'' | System \<Rightarrow> CHR ''x''),
      je_d = oe_data e,
      je_ts = oe_timestamp_ms e\<rparr>"

definition to_output_entry :: "journal_entry \<Rightarrow> output_entry" where
  "to_output_entry j =
     \<lparr>oe_seq = je_s j,
      oe_stream = (if je_t j = CHR ''o'' then Stdout else if je_t j = CHR ''e'' then Stderr else System),
      oe_data = je_d j,
      oe_timestamp_ms = je_ts j\<rparr>"

record output_buffer =
  ob_entries :: "output_entry list"
  ob_next_seq :: u64
  ob_max_entries :: nat
  ob_wakeups :: nat
  ob_journal_tx :: "journal_entry list option"

definition new_buffer :: "nat \<Rightarrow> output_buffer" where
  "new_buffer max_entries =
     \<lparr>ob_entries = [], ob_next_seq = 1, ob_max_entries = max_entries, ob_wakeups = 0,
      ob_journal_tx = None\<rparr>"

definition set_journal :: "output_buffer \<Rightarrow> output_buffer" where
  "set_journal b = b\<lparr>ob_journal_tx := Some []\<rparr>"

record push_env =
  pe_clock :: "nat option"
  pe_accepted :: bool

definition timestamp_ms :: "nat option \<Rightarrow> u64" where
  "timestamp_ms clock = (case clock of None \<Rightarrow> 0 | Some d \<Rightarrow> word_of_nat d)"

definition mk_entry :: "push_env \<times> output_stream \<times> string \<Rightarrow> output_buffer \<Rightarrow> output_entry" where
  "mk_entry x b = (case x of (env, stream, data) \<Rightarrow>
     \<lparr>oe_seq = ob_next_seq b, oe_stream = stream, oe_data = data,
      oe_timestamp_ms = timestamp_ms (pe_clock env)\<rparr>)"

definition push :: "push_env \<Rightarrow> output_stream \<Rightarrow> string \<Rightarrow> output_buffer \<Rightarrow> output_buffer" where
  "push env stream data b =
     (let entry = mk_entry (env, stream, data) b;
          kept = (if length (ob_entries b) \<ge> ob_max_entries b then drop 1 (ob_entries b)
                  else ob_entries b);
          journal = (case ob_journal_tx b of
              None \<Rightarrow> None
            | Some sent \<Rightarrow> Some (if pe_accepted env then sent @ [from_output_entry entry] else sent))
      in b\<lparr>ob_entries := kept @ [entry],
           ob_next_seq := ob_next_seq b + 1,
           ob_wakeups := Suc (ob_wakeups b),
           ob_journal_tx := journal\<rparr>)"

definition read_since :: "u64 \<Rightarrow> output_buffer \<Rightarrow> output_entry list \<times> u64" where
  "read_since since b =
     (let oldest_available = (case ob_entries b of [] \<Rightarrow> ob_next_seq b | e # _ \<Rightarrow> oe_seq e);
          dropped = (if oldest_available > saturating_add since 1
                     then oldest_available - since - 1 else 0)
      in (filter (\<lambda>e. oe_seq e > since) (ob_entries b), dropped))"

definition has_entries_since :: "u64 \<Rightarrow> output_buffer \<Rightarrow> bool" where
  "has_entries_since since b \<longleftrightarrow> ob_entries b \<noteq> [] \<and> oe_seq (last (ob_entries b)) > since"

text \<open>A sequence of pushes by the reader tasks of a session.\<close>

definition push_all ::
    "(push_env \<times> output_stream \<times> string) list \<Rightarrow> output_buffer \<Rightarrow> output_buffer" where
  "push_all xs b = fold (\<lambda>(env, stream, data). push env stream data) xs b"

subsection \<open>The buffer is a numbered ring\<close>

definition seq_room :: "output_buffer \<Rightarrow> bool" where
  "seq_room b \<longleftrightarrow> Suc (unat (ob_next_seq b)) < 2 ^ 64"

lemma push_ring:
  "ob_entries (push env st d b) =
     ring_push (ob_max_entries b) (mk_entry (env, st, d) b) (ob_entries b)"
  by (simp add: push_def ring_push_def Let_def)

lemma mk_entry_seq [simp]: "oe_seq (mk_entry x b) = ob_next_seq b"
  by (simp add: mk_entry_def split: prod.splits)

lemma push_next [simp]: "ob_next_seq (push env st d b) = ob_next_seq b + 1"
  by (simp add: push_def Let_def)

lemma push_max [simp]: "ob_max_entries (push env st d b) = ob_max_entries b"
  by (simp add: push_def Let_def)

interpretation ob: seq_ring
  ob_entries "\<lambda>b. unat (ob_next_seq b)" ob_max_entries "\<lambda>e. unat (oe_seq e)"
  "\<lambda>(env, st, d). push env st d" mk_entry seq_room
  by unfold_locales (auto simp: push_ring unat_Suc_word seq_room_def split: prod.splits)

lemma new_buffer_wf: "ob.ring_wf (new_buffer n)"
  by (simp add: ob.ring_wf_def new_buffer_def)

lemma push_all_wf:
  assumes "ob.ring_wf b" and "unat (ob_next_seq b) + length xs < 2 ^ 64"
  shows "ob.ring_wf (push_all xs b) \<and> unat (ob_next_seq (push_all xs b)) = unat (ob_next_seq b) + length xs
     \<and> ob_max_entries (push_all xs b) = ob_max_entries b"
  using assms
proof (induction xs arbitrary: b)
  case Nil
  then show ?case by (simp add: push_all_def)
next
  case (Cons x xs)
  obtain env st d where x: "x = (env, st, d)" by (cases x)
  have room: "seq_room b" using Cons.prems(2) by (simp add: seq_room_def)
  have wf: "ob.ring_wf (push env st d b)"
    using ob.ring_wf_push [OF Cons.prems(1) room, of x] by (simp add: x)
  have nx: "unat (ob_next_seq (push env st d b)) = Suc (unat (ob_next_seq b))"
    using room by (simp add: unat_Suc_word seq_room_def)
  show ?case
    using Cons.IH [OF wf] Cons.prems(2) nx by (simp add: push_all_def x)
qed

lemma read_since_entries: "fst (read_since since b) = ob.newer (unat since) b"
  by (simp add: read_since_def ob.newer_def Let_def word_less_nat_alt)

lemma read_since_dropped:
  assumes "ob.ring_wf b"
  shows "unat (snd (read_since since b)) = ob.oldest b - Suc (unat since)"
proof -
  define old where "old = (case ob_entries b of [] \<Rightarrow> ob_next_seq b | e # _ \<Rightarrow> oe_seq e)"
  have old: "unat old = ob.oldest b"
    by (simp add: old_def ob.oldest_def split: list.splits)
  have lt: "unat old < 2 ^ 64" using unsigned_less [of old] by simp
  have s: "unat (saturating_add since 1) = min (Suc (unat since)) (2 ^ 64 - 1)"
    using unat_saturating_add [of since 1] by simp
  have eq: "snd (read_since since b) = (if old > saturating_add since 1 then old - since - 1 else 0)"
    by (simp add: read_since_def old_def Let_def)
  show ?thesis
  proof (cases "old > saturating_add since 1")
    case True
    then have gt: "unat old > Suc (unat since)"
      using s lt by (simp add: word_less_nat_alt)
    then have "unat (old - since) = unat old - unat since"
      by (simp add: unat_sub word_le_nat_alt)
    moreover from this gt have "unat (old - since - 1) = unat (old - since) - 1"
      by (simp add: unat_sub word_le_nat_alt)
    ultimately show ?thesis using True eq old by simp
  next
    case False
    then have "unat old \<le> Suc (unat since)"
      using s lt by (auto simp: word_less_nat_alt not_less)
    with False eq old show ?thesis by simp
  qed
qed

subsection \<open>Properties\<close>

text \<open>
  The buffer invariant: whatever a session writes, starting from an empty buffer and for fewer
  than \<open>2 ^ 64 - 1\<close> entries, the buffer holds at most \<open>max 1 max_entries\<close> entries, their sequence
  numbers are consecutive, and the newest is one below \<open>next_seq\<close>.
\<close>

theorem buffer_invariant:
  assumes "length xs < 2 ^ 64 - 1"
  shows "let b = push_all xs (new_buffer n)
    in length (ob_entries b) \<le> max 1 n
     \<and> map (unat \<circ> oe_seq) (ob_entries b)
         = [Suc (length xs) - length (ob_entries b) ..< Suc (length xs)]
     \<and> unat (ob_next_seq b) = Suc (length xs)"
proof -
  let ?b = "push_all xs (new_buffer n)"
  have "unat (ob_next_seq (new_buffer n)) + length xs < 2 ^ 64"
    using assms by (simp add: new_buffer_def)
  from push_all_wf [OF new_buffer_wf this]
  have wf: "ob.ring_wf ?b" and nx: "unat (ob_next_seq ?b) = Suc (length xs)"
    and mx: "ob_max_entries ?b = n"
    by (simp_all add: new_buffer_def)
  have "map (\<lambda>e. unat (oe_seq e)) (ob_entries ?b)
      = [Suc (length xs) - length (ob_entries ?b) ..< Suc (length xs)]"
    using wf nx unfolding ob.ring_wf_def by simp
  moreover have "length (ob_entries ?b) \<le> max 1 n"
    using wf mx unfolding ob.ring_wf_def by simp
  ultimately show ?thesis using nx by (simp add: Let_def comp_def del: upt_Suc)
qed

theorem buffer_invariant_witness:
  "let b = push_all [(\<lparr>pe_clock = Some 7, pe_accepted = True\<rparr>, Stdout, ''a''),
                     (\<lparr>pe_clock = None, pe_accepted = True\<rparr>, Stderr, ''b'')] (new_buffer 1)
    in length (ob_entries b) \<le> max 1 1
     \<and> map (unat \<circ> oe_seq) (ob_entries b) = [Suc (Suc (Suc 0)) - length (ob_entries b) ..< Suc (Suc (Suc 0))]
     \<and> unat (ob_next_seq b) = Suc (Suc (Suc 0))"
  using buffer_invariant [of "[(\<lparr>pe_clock = Some 7, pe_accepted = True\<rparr>, Stdout, ''a''),
                     (\<lparr>pe_clock = None, pe_accepted = True\<rparr>, Stderr, ''b'')]" 1]
  by (simp del: upt_Suc)



subsection \<open>Further facts the session layer uses\<close>

lemma has_entries_since_iff:
  assumes "ob.ring_wf b"
  shows "has_entries_since since b \<longleftrightarrow> fst (read_since since b) \<noteq> []"
proof (cases "ob_entries b = []")
  case True
  then show ?thesis by (simp add: has_entries_since_def read_since_def Let_def)
next
  case False
  let ?n = "unat (ob_next_seq b)" and ?l = "length (ob_entries b)"
  have nums: "map (\<lambda>e. unat (oe_seq e)) (ob_entries b) = [?n - ?l ..< ?n]" and lt: "?l < ?n"
    using assms unfolding ob.ring_wf_def by auto
  have "unat (oe_seq (last (ob_entries b))) = last [?n - ?l ..< ?n]"
    using False by (metis (no_types) last_map nums)
  also have "\<dots> = ?n - 1" using lt False by (simp add: last_upt)
  finally have l: "unat (oe_seq (last (ob_entries b))) = ?n - 1" .
  have "map (\<lambda>e. unat (oe_seq e)) (ob.newer (unat since) b)
      = [max (ob.oldest b) (Suc (unat since)) ..< ?n]"
    by (rule ob.newer_numbers [OF assms])
  moreover have "ob.oldest b < ?n"
    using ob.oldest_eq [OF assms] False lt by simp
  ultimately have "ob.newer (unat since) b \<noteq> [] \<longleftrightarrow> Suc (unat since) < ?n"
    by (metis (no_types, lifting) list.map_disc_iff max_less_iff_conj upt_eq_Nil_conv not_le
        not_less0 less_zeroE)
  with l False lt show ?thesis
    by (auto simp: has_entries_since_def read_since_entries word_less_nat_alt)
qed

lemma to_from_output_entry: "to_output_entry (from_output_entry e) = e"
  by (cases "oe_stream e") (simp_all add: to_output_entry_def from_output_entry_def)

lemma push_wakes: "ob_wakeups (push env st d b) = Suc (ob_wakeups b)"
  by (simp add: push_def Let_def)

lemma push_all_Cons: "push_all ((env, st, d) # xs) b = push_all xs (push env st d b)"
  by (simp add: push_all_def)

lemma push_all_data:
  "map oe_data (ob_entries (push_all xs b)) =
     fold (\<lambda>x. ring_push (ob_max_entries b) (snd (snd x))) xs (map oe_data (ob_entries b))"
proof (induction xs arbitrary: b)
  case Nil
  show ?case by (simp add: push_all_def)
next
  case (Cons x xs)
  obtain env st d where x: "x = (env, st, d)" by (cases x)
  have "map oe_data (ob_entries (push env st d b))
      = ring_push (ob_max_entries b) d (map oe_data (ob_entries b))"
    by (simp add: push_ring map_ring_push mk_entry_def)
  then show ?case
    using Cons.IH [of "push env st d b"] by (simp add: x push_all_Cons)
qed

end
