(* ===== verification/Journal.thy ===== *)
theory Journal
  imports Output_Buffer
begin

text \<open>
  The append-only session journal (\<open>server/src/sessions/journal.rs\<close>): the background writer, the
  recovery of a journal file, the scan of the journal directory, the removal of old journals and
  the clean-up of orphaned processes.

  \<open>serde_json\<close> is not part of the sources: the printers and parsers of a line are the arguments
  \<open>ser\<close>, \<open>dec\<close> and \<open>dec_meta\<close>, and \<open>json_codec\<close> collects what the code relies on. A failed
  \<open>write_all\<close> leaves a prefix of its buffer in the file; how much is an argument of the event.
\<close>

record session_metadata =
  sm_v :: u32
  sm_pid :: u32
  sm_shell :: string
  sm_working_dir :: string
  sm_persistent :: bool
  sm_pty :: bool
  sm_created :: u64

record archived_session =
  ar_session_id :: string
  ar_metadata :: session_metadata
  ar_entries :: "output_entry list"
  ar_exit_code :: "int option"

abbreviation LF :: char where "LF \<equiv> CHR 0x0A"
abbreviation CR :: char where "CR \<equiv> CHR 0x0D"

subsection \<open>The writer task\<close>

text \<open>\<open>SessionJournal::create\<close>: the file starts with the metadata line.\<close>

definition journal_create :: "string \<Rightarrow> string" where
  "journal_create header = header @ [LF]"

datatype io_write = Wrote | WriteFailed nat

datatype writer_event =
    WEntry journal_entry io_write io_write
  | WFlush bool

fun journal_writer_task ::
    "(journal_entry \<Rightarrow> string option) \<Rightarrow> writer_event list \<Rightarrow> string \<Rightarrow> bool \<Rightarrow> string \<times> bool" where
  "journal_writer_task ser [] file alive = (file, alive)"
| "journal_writer_task ser (WEntry e w_line w_nl # evs) file alive =
     (case ser e of
        None \<Rightarrow> journal_writer_task ser evs file alive
      | Some line \<Rightarrow>
          (case w_line of
             WriteFailed k \<Rightarrow> (file @ take k line, False)
           | Wrote \<Rightarrow>
               (case w_nl of
                  WriteFailed k \<Rightarrow> (file @ line @ take k [LF], False)
                | Wrote \<Rightarrow> journal_writer_task ser evs (file @ line @ [LF]) alive)))"
| "journal_writer_task ser (WFlush ok # evs) file alive =
     (if ok then journal_writer_task ser evs file alive else (file, False))"

subsection \<open>Recovery\<close>

definition parse_exit_code :: "string \<Rightarrow> int option" where
  "parse_exit_code msg =
     Option.bind (strip_prefix ''Process exited with code '' msg) (\<lambda>s. parse_i32 (trim s))"

text \<open>The line the exit watcher pushes (\<open>session.rs\<close>: \<open>format!("Process exited with code {code}")\<close>).\<close>

definition exit_message :: "int \<Rightarrow> string" where
  "exit_message code = ''Process exited with code '' @ show_int code"

fun recover_lines ::
    "(string \<Rightarrow> journal_entry option) \<Rightarrow> string list \<Rightarrow> output_entry list \<Rightarrow> int option
       \<Rightarrow> output_entry list \<times> int option" where
  "recover_lines dec [] es code = (es, code)"
| "recover_lines dec (l # ls) es code =
     (if l = [] then recover_lines dec ls es code
      else case dec l of
          None \<Rightarrow> recover_lines dec ls es code
        | Some je \<Rightarrow>
            recover_lines dec ls (es @ [to_output_entry je])
              (if je_t je = CHR ''x''
               then (case parse_exit_code (je_d je) of Some c \<Rightarrow> Some c | None \<Rightarrow> code)
               else code))"

definition recover_single_journal ::
    "(string \<Rightarrow> session_metadata option) \<Rightarrow> (string \<Rightarrow> journal_entry option)
       \<Rightarrow> string option \<Rightarrow> string \<Rightarrow> string + archived_session" where
  "recover_single_journal dec_meta dec file session_id =
     (case file of
        None \<Rightarrow> Inl ''open''
      | Some contents \<Rightarrow>
          (case lines contents of
             [] \<Rightarrow> Inl ''empty journal file''
           | meta_line # rest \<Rightarrow>
               (case dec_meta meta_line of
                  None \<Rightarrow> Inl ''parse metadata''
                | Some m \<Rightarrow>
                    (let (es, code) = recover_lines dec rest [] None
                     in Inr \<lparr>ar_session_id = session_id, ar_metadata = m, ar_entries = es,
                             ar_exit_code = code\<rparr>))))"

text \<open>\<open>Path::extension\<close> and \<open>Path::file_stem\<close> of a plain file name.\<close>

definition path_stem_ext :: "string \<Rightarrow> string \<times> string option" where
  "path_stem_ext name =
     (let r = rev name; rest = dropWhile (\<lambda>c. c \<noteq> CHR ''.'') r
      in if rest = [] \<or> tl rest = [] then (name, None)
         else (rev (tl rest), Some (rev (takeWhile (\<lambda>c. c \<noteq> CHR ''.'') r))))"

fun recover_sessions ::
    "(string \<Rightarrow> session_metadata option) \<Rightarrow> (string \<Rightarrow> journal_entry option)
       \<Rightarrow> (string \<times> string option) list option \<Rightarrow> archived_session list" where
  "recover_sessions dec_meta dec None = []"
| "recover_sessions dec_meta dec (Some []) = []"
| "recover_sessions dec_meta dec (Some ((name, file) # rest)) =
     (let (stem, ext) = path_stem_ext name in
      if ext \<noteq> Some ''jsonl'' then recover_sessions dec_meta dec (Some rest)
      else case recover_single_journal dec_meta dec file stem of
          Inr a \<Rightarrow> a # recover_sessions dec_meta dec (Some rest)
        | Inl _ \<Rightarrow> recover_sessions dec_meta dec (Some rest))"

subsection \<open>Clean-up\<close>

text \<open>
  \<open>cleanup_old_journals\<close>: the files that stay. A directory entry carries its modification time
  (\<open>None\<close> when \<open>metadata\<close> or \<open>modified\<close> fails) and whether \<open>remove_file\<close> would succeed; a file
  modified after \<open>now\<close> has no age.
\<close>

definition cleanup_old_journals ::
    "nat \<Rightarrow> nat \<Rightarrow> (string \<times> nat option \<times> bool) list \<Rightarrow> (string \<times> nat option \<times> bool) list" where
  "cleanup_old_journals max_age_hours now dir =
     filter (\<lambda>(name, modified, removable).
       \<not> (snd (path_stem_ext name) = Some ''jsonl'' \<and> removable \<and>
          (case modified of None \<Rightarrow> False
           | Some m \<Rightarrow> m \<le> now \<and> now - m > from_secs (max_age_hours * 3600)))) dir"

text \<open>
  \<open>kill_orphaned_processes\<close>, one directory entry. The probe answers \<open>kill(pid, 0)\<close>, the first
  argument in \<open>/proc/pid/cmdline\<close> (\<open>None\<close> when unreadable or not UTF-8), and whether the process
  is still there two seconds after \<open>SIGTERM\<close>.
\<close>

record pid_probe =
  pp_alive :: bool
  pp_exe :: "string option"
  pp_still_alive :: bool

definition kill_orphan ::
    "(string \<Rightarrow> session_metadata option) \<Rightarrow> (string \<Rightarrow> journal_entry option)
       \<Rightarrow> (u32 \<Rightarrow> pid_probe) \<Rightarrow> string \<times> string option \<Rightarrow> os_call list" where
  "kill_orphan dec_meta dec probe f =
     (let (name, file) = f; (stem, ext) = path_stem_ext name in
      if ext \<noteq> Some ''jsonl'' then []
      else case recover_single_journal dec_meta dec file stem of
          Inl _ \<Rightarrow> []
        | Inr a \<Rightarrow>
            (let pid = sm_pid (ar_metadata a) in
             if ar_exit_code a \<noteq> None then []
             else if pid = 0 then []
             else if \<not> pp_alive (probe pid) then []
             else if \<not> (case pp_exe (probe pid) of None \<Rightarrow> False
                        | Some exe \<Rightarrow> contains_str (sm_shell (ar_metadata a)) exe) then []
             else Kill (neg_i32 pid) SIGTERM
                  # (if pp_still_alive (probe pid) then [Kill (neg_i32 pid) SIGKILL] else [])))"

definition kill_orphaned_processes ::
    "(string \<Rightarrow> session_metadata option) \<Rightarrow> (string \<Rightarrow> journal_entry option)
       \<Rightarrow> (u32 \<Rightarrow> pid_probe) \<Rightarrow> (string \<times> string option) list option \<Rightarrow> os_call list" where
  "kill_orphaned_processes dec_meta dec probe dir =
     (case dir of None \<Rightarrow> [] | Some fs \<Rightarrow> concat (map (kill_orphan dec_meta dec probe) fs))"

subsection \<open>What is relied on of the JSON printer and parser\<close>

definition json_line :: "string \<Rightarrow> bool" where
  "json_line l \<longleftrightarrow> l \<noteq> [] \<and> LF \<notin> set l \<and> last l \<noteq> CR"

text \<open>
  Compact JSON is one non-empty line, parsing inverts printing, and a proper prefix of a printed
  object is not a JSON value.
\<close>

definition json_codec ::
    "(journal_entry \<Rightarrow> string option) \<Rightarrow> (string \<Rightarrow> journal_entry option) \<Rightarrow> journal_entry \<Rightarrow> bool" where
  "json_codec ser dec e \<longleftrightarrow>
     (\<exists>l. ser e = Some l \<and> json_line l \<and> dec l = Some e \<and> (\<forall>k < length l. dec (take k l) = None))"

fun event_entries :: "writer_event list \<Rightarrow> journal_entry list" where
  "event_entries [] = []"
| "event_entries (WEntry e _ _ # evs) = e # event_entries evs"
| "event_entries (WFlush _ # evs) = event_entries evs"

text \<open>The entries whose whole line reached the file before the first failure.\<close>

fun durable_entries :: "(journal_entry \<Rightarrow> string option) \<Rightarrow> writer_event list \<Rightarrow> journal_entry list" where
  "durable_entries ser [] = []"
| "durable_entries ser (WEntry e w_line w_nl # evs) =
     (case w_line of
        Wrote \<Rightarrow> (case w_nl of Wrote \<Rightarrow> e # durable_entries ser evs | WriteFailed _ \<Rightarrow> [e])
      | WriteFailed k \<Rightarrow>
          (case ser e of Some l \<Rightarrow> if length l \<le> k then [e] else [] | None \<Rightarrow> []))"
| "durable_entries ser (WFlush ok # evs) = (if ok then durable_entries ser evs else [])"

definition exit_code_of :: "journal_entry list \<Rightarrow> int option" where
  "exit_code_of js =
     fold (\<lambda>j c. if je_t j = CHR ''x''
                 then (case parse_exit_code (je_d j) of Some d \<Rightarrow> Some d | None \<Rightarrow> c) else c) js None"

subsection \<open>Lines of a file\<close>

lemma lines_Cons: "json_line l \<Longrightarrow> lines (l @ LF # s) = l # lines s"
  by (auto simp: lines_def json_line_def split_char_append strip_cr_def Let_def)

lemma lines_fragment: "LF \<notin> set t \<Longrightarrow> lines t = (if t = [] then [] else [t])"
  by (simp add: lines_def split_char_no_sep Let_def)

subsection \<open>The writer leaves whole lines and at most one torn line\<close>

definition journal_text :: "(journal_entry \<Rightarrow> string option) \<Rightarrow> journal_entry list \<Rightarrow> string" where
  "journal_text ser js = concat (map (\<lambda>j. the (ser j) @ [LF]) js)"

lemma journal_text_simps [simp]:
  "journal_text ser [] = []"
  "journal_text ser (j # js) = the (ser j) @ LF # journal_text ser js"
  by (simp_all add: journal_text_def)

lemma writer_lines:
  assumes "\<And>e. e \<in> set (event_entries evs) \<Longrightarrow> json_codec ser dec e"
  shows "\<exists>ws t. fst (journal_writer_task ser evs buf alive) = buf @ journal_text ser ws @ t
     \<and> set ws \<subseteq> set (event_entries evs) \<and> LF \<notin> set t
     \<and> (t = [] \<and> durable_entries ser evs = ws
        \<or> (\<exists>e. e \<in> set (event_entries evs) \<and> ser e = Some t \<and> durable_entries ser evs = ws @ [e])
        \<or> t \<noteq> [] \<and> dec t = None \<and> durable_entries ser evs = ws)"
  using assms
proof (induction evs arbitrary: buf)
  case Nil
  show ?case by (rule exI [of _ "[]"], rule exI [of _ "[]"]) simp
next
  case (Cons ev evs)
  show ?case
  proof (cases ev)
    case (WFlush ok)
    then show ?thesis using Cons.IH [of buf] Cons.prems by (cases ok) force+
  next
    case (WEntry e w_line w_nl)
    then obtain l where l: "ser e = Some l" "json_line l" "dec l = Some e"
        "\<And>k. k < length l \<Longrightarrow> dec (take k l) = None"
      using Cons.prems [of e] by (auto simp: json_codec_def)
    have nolf: "LF \<notin> set l" using l(2) by (simp add: json_line_def)
    show ?thesis
    proof (cases w_line)
      case (WriteFailed k)
      show ?thesis
      proof (cases "length l \<le> k")
        case True
        then show ?thesis using WEntry WriteFailed l nolf
          by (intro exI [of _ "[]"] exI [of _ l]) auto
      next
        case False
        then show ?thesis using WEntry WriteFailed l nolf
          by (intro exI [of _ "[]"] exI [of _ "take k l"]) (auto dest: in_set_takeD)
      qed
    next
      case Wrote
      note wl = this
      show ?thesis
      proof (cases w_nl)
        case Wrote
        obtain ws t where ih: "fst (journal_writer_task ser evs (buf @ l @ [LF]) alive)
              = (buf @ l @ [LF]) @ journal_text ser ws @ t"
            "set ws \<subseteq> set (event_entries evs)" "LF \<notin> set t"
            "t = [] \<and> durable_entries ser evs = ws
             \<or> (\<exists>e. e \<in> set (event_entries evs) \<and> ser e = Some t \<and> durable_entries ser evs = ws @ [e])
             \<or> t \<noteq> [] \<and> dec t = None \<and> durable_entries ser evs = ws"
          using Cons.IH [of "buf @ l @ [LF]"] Cons.prems WEntry by auto
        show ?thesis
          using ih WEntry wl Wrote l by (intro exI [of _ "e # ws"] exI [of _ t]) auto
      next
        case (WriteFailed k)
        show ?thesis
        proof (cases k)
          case 0
          then show ?thesis using WEntry wl WriteFailed l nolf
            by (intro exI [of _ "[]"] exI [of _ l]) auto
        next
          case (Suc m)
          then show ?thesis using WEntry wl WriteFailed l nolf
            by (intro exI [of _ "[e]"] exI [of _ "[]"]) auto
        qed
      qed
    qed
  qed
qed

subsection \<open>Recovery inverts the writer\<close>

lemma recover_lines_append:
  "recover_lines dec (ls @ ms) es c =
     (let (es', c') = recover_lines dec ls es c in recover_lines dec ms es' c')"
  by (induction ls arbitrary: es c) (auto split: option.splits)

lemma lines_journal_text:
  assumes "\<And>j. j \<in> set js \<Longrightarrow> json_codec ser dec j"
  shows "lines (journal_text ser js @ t) = map (\<lambda>j. the (ser j)) js @ lines t"
  using assms
proof (induction js)
  case Nil
  then show ?case by simp
next
  case (Cons j js)
  then obtain l where "ser j = Some l" "json_line l" by (auto simp: json_codec_def)
  with Cons show ?case by (simp add: lines_Cons)
qed

lemma recover_lines_text:
  assumes "\<And>j. j \<in> set js \<Longrightarrow> json_codec ser dec j"
  shows "recover_lines dec (map (\<lambda>j. the (ser j)) js) es c =
     (es @ map to_output_entry js,
      fold (\<lambda>j c. if je_t j = CHR ''x''
                  then (case parse_exit_code (je_d j) of Some d \<Rightarrow> Some d | None \<Rightarrow> c) else c) js c)"
  using assms
proof (induction js arbitrary: es c)
  case Nil
  then show ?case by simp
next
  case (Cons j js)
  from Cons.prems [of j] obtain l where "ser j = Some l" "json_line l" "dec l = Some j"
    by (auto simp: json_codec_def)
  with Cons show ?case by (simp add: json_line_def)
qed

lemma durable_subset:
  "set (durable_entries ser evs) \<subseteq> set (event_entries evs)"
  by (induction evs rule: event_entries.induct)
    (auto split: io_write.splits option.splits if_splits)

lemma recovered_tail:
  assumes "LF \<notin> set t"
    and "t = [] \<and> D = ws \<or> (\<exists>e. json_codec ser dec e \<and> ser e = Some t \<and> D = ws @ [e])
         \<or> t \<noteq> [] \<and> dec t = None \<and> D = ws"
    and "\<And>j. j \<in> set ws \<Longrightarrow> json_codec ser dec j"
  shows "recover_lines dec (lines (journal_text ser ws @ t)) [] None
    = (map to_output_entry D, exit_code_of D)"
proof -
  note base = lines_journal_text [OF assms(3)] recover_lines_text [OF assms(3)]
    recover_lines_append exit_code_of_def
  consider (empty) "t = []" "D = ws"
    | (whole) e where "json_codec ser dec e" "ser e = Some t" "D = ws @ [e]"
    | (torn) "t \<noteq> []" "dec t = None" "D = ws"
    using assms(2) by metis
  then show ?thesis
  proof cases
    case empty
    have "lines (journal_text ser ws @ []) = map (\<lambda>j. the (ser j)) ws @ lines []"
      by (rule lines_journal_text [OF assms(3)])
    then show ?thesis using empty by (simp add: base lines_fragment)
  next
    case whole
    then have "t \<noteq> []" "dec t = Some e" by (auto simp: json_codec_def json_line_def)
    with whole show ?thesis by (simp add: base lines_fragment [OF assms(1)])
  next
    case torn
    then show ?thesis by (simp add: base lines_fragment [OF assms(1)])
  qed
qed

subsection \<open>Properties\<close>

text \<open>
  C9. Crash recovery: whatever the writer task was doing when the server died, including a line
  torn by a failed write, recovering the journal succeeds and returns exactly the entries whose
  line was written completely, in order, with the exit code the last exit message among them
  names. The hypotheses are the round-trip and single-line guarantees of \<open>serde_json\<close>.
\<close>

theorem journal_recovery:
  assumes "json_line header" and "dec_meta header = Some m"
    and "\<And>e. e \<in> set (event_entries evs) \<Longrightarrow> json_codec ser dec e"
  shows "recover_single_journal dec_meta dec
           (Some (fst (journal_writer_task ser evs (journal_create header) True))) sid
       = Inr \<lparr>ar_session_id = sid, ar_metadata = m,
              ar_entries = map to_output_entry (durable_entries ser evs),
              ar_exit_code = exit_code_of (durable_entries ser evs)\<rparr>"
proof -
  obtain ws t where w: "fst (journal_writer_task ser evs (journal_create header) True)
        = journal_create header @ journal_text ser ws @ t"
      "set ws \<subseteq> set (event_entries evs)" "LF \<notin> set t"
    and c: "t = [] \<and> durable_entries ser evs = ws
        \<or> (\<exists>e. e \<in> set (event_entries evs) \<and> ser e = Some t \<and> durable_entries ser evs = ws @ [e])
        \<or> t \<noteq> [] \<and> dec t = None \<and> durable_entries ser evs = ws"
    using writer_lines [of evs ser dec "journal_create header" True] assms(3) by blast
  have "recover_lines dec (lines (journal_text ser ws @ t)) [] None
      = (map to_output_entry (durable_entries ser evs), exit_code_of (durable_entries ser evs))"
  proof (rule recovered_tail [OF w(3)])
    show "t = [] \<and> durable_entries ser evs = ws
        \<or> (\<exists>e. json_codec ser dec e \<and> ser e = Some t \<and> durable_entries ser evs = ws @ [e])
        \<or> t \<noteq> [] \<and> dec t = None \<and> durable_entries ser evs = ws"
      using c assms(3) by blast
  qed (use w(2) assms(3) in blast)
  moreover have "lines (journal_create header @ journal_text ser ws @ t)
      = header # lines (journal_text ser ws @ t)"
    using lines_Cons [OF assms(1)] by (simp add: journal_create_def)
  ultimately show ?thesis
    by (simp add: recover_single_journal_def w(1) assms(2))
qed

theorem journal_recovery_witness:
  "recover_single_journal
     (\<lambda>s. if s = ''m'' then Some \<lparr>sm_v = 1, sm_pid = 42, sm_shell = ''sh'', sm_working_dir = ''/'',
            sm_persistent = True, sm_pty = False, sm_created = 5\<rparr> else None)
     (\<lambda>s. if s = ''{e}'' then Some \<lparr>je_s = 1, je_t = CHR ''x'', je_d = ''Process exited with code 7'', je_ts = 9\<rparr>
          else None)
     (Some (fst (journal_writer_task (\<lambda>_. Some ''{e}'')
        [WEntry \<lparr>je_s = 1, je_t = CHR ''x'', je_d = ''Process exited with code 7'', je_ts = 9\<rparr> Wrote Wrote,
         WFlush True,
         WEntry \<lparr>je_s = 1, je_t = CHR ''x'', je_d = ''Process exited with code 7'', je_ts = 9\<rparr> (WriteFailed 2) Wrote]
        (journal_create ''m'') True))) ''id''
   = Inr \<lparr>ar_session_id = ''id'',
          ar_metadata = \<lparr>sm_v = 1, sm_pid = 42, sm_shell = ''sh'', sm_working_dir = ''/'',
            sm_persistent = True, sm_pty = False, sm_created = 5\<rparr>,
          ar_entries = [\<lparr>oe_seq = 1, oe_stream = System, oe_data = ''Process exited with code 7'', oe_timestamp_ms = 9\<rparr>],
          ar_exit_code = Some 7\<rparr>"
proof -
  define e where "e = \<lparr>je_s = (1::u64), je_t = CHR ''x'', je_d = ''Process exited with code 7'', je_ts = (9::u64)\<rparr>"
  define m where "m = \<lparr>sm_v = (1::u32), sm_pid = (42::u32), sm_shell = ''sh'', sm_working_dir = ''/'',
            sm_persistent = True, sm_pty = False, sm_created = (5::u64)\<rparr>"
  let ?dec = "\<lambda>s. if s = ''{e}'' then Some e else None"
  let ?evs = "[WEntry e Wrote Wrote, WFlush True, WEntry e (WriteFailed 2) Wrote]"
  have codec: "json_codec (\<lambda>_. Some ''{e}'') ?dec e"
    by (auto simp: json_codec_def json_line_def less_Suc_eq numeral_3_eq_3)
  have ec: "exit_code_of [e] = Some 7" by (simp add: e_def exit_code_of_def) code_simp
  have te: "to_output_entry e = \<lparr>oe_seq = 1, oe_stream = System,
      oe_data = ''Process exited with code 7'', oe_timestamp_ms = 9\<rparr>"
    by (simp add: e_def to_output_entry_def)
  have "recover_single_journal (\<lambda>s. if s = ''m'' then Some m else None) ?dec
      (Some (fst (journal_writer_task (\<lambda>_. Some ''{e}'') ?evs (journal_create ''m'') True))) ''id''
    = Inr \<lparr>ar_session_id = ''id'', ar_metadata = m, ar_entries = [to_output_entry e],
           ar_exit_code = Some 7\<rparr>"
    using journal_recovery [of "''m''" "\<lambda>s. if s = ''m'' then Some m else None" m ?evs
        "\<lambda>_. Some ''{e}''" ?dec "''id''"] codec ec
    by (simp add: json_line_def)
  then show ?thesis
    unfolding te by (simp only: e_def m_def)
qed

text \<open>
  The exit line round trip: the message the exit watcher writes for any 32-bit exit code is
  parsed back to that code when the journal is recovered.
\<close>

theorem exit_code_roundtrip:
  assumes "in_i32 code"
  shows "parse_exit_code (exit_message code) = Some code"
proof -
  have "trim (show_int code) = show_int code"
    by (rule trim_id) (rule show_int_not_ws)
  with assms show ?thesis
    by (simp add: parse_exit_code_def exit_message_def parse_i32_show_int)
qed

theorem exit_code_roundtrip_witness:
  "in_i32 (-1) \<and> parse_exit_code (exit_message (-1)) = Some (-1)"
  using exit_code_roundtrip [of "-1"] by (simp add: in_i32_def)

subsection \<open>Orphan clean-up\<close>

lemma kill_orphan_targets:
  assumes "Kill g s \<in> set (kill_orphan dec_meta dec probe f)"
  shows "\<exists>a. recover_single_journal dec_meta dec (snd f) (fst (path_stem_ext (fst f))) = Inr a
     \<and> ar_exit_code a = None \<and> sm_pid (ar_metadata a) \<noteq> 0 \<and> pp_alive (probe (sm_pid (ar_metadata a)))
     \<and> g = neg_i32 (sm_pid (ar_metadata a)) \<and> s \<in> {SIGTERM, SIGKILL}"
proof (cases "recover_single_journal dec_meta dec (snd f) (fst (path_stem_ext (fst f)))")
  case (Inl e)
  with assms show ?thesis
    by (simp add: kill_orphan_def Let_def case_prod_beta split: if_splits)
next
  case (Inr a)
  with assms show ?thesis
    by (auto simp: kill_orphan_def Let_def case_prod_beta split: if_splits)
qed

end
