(* ===== verification/Session.thy ===== *)
theory Session
  imports Journal
begin

text \<open>
  A managed shell session (\<open>server/src/sessions/session.rs\<close>): how it is built from a child
  process, what its background tasks do to the shared buffer, status and exit code, and how it is
  signalled and killed.

  The child process, the results of the system calls and the clock are arguments. The tasks are
  steps on the session: a chunk read from an output pipe (already decoded as UTF-8) and the end of
  the process. \<open>ms_stdin\<close> is the sequence of chunks the stdin channel has accepted.
\<close>

datatype session_status = Running | Exited

record managed_session =
  ms_pid :: u32
  ms_pgid :: u32
  ms_buffer :: output_buffer
  ms_status :: session_status
  ms_exit_code :: "int option"
  ms_stdin :: "string list"
  ms_stdin_open :: bool
  ms_tasks :: nat
  ms_pty_master :: bool
  ms_exit_events :: bool

record child =
  ch_id :: "u32 option"
  ch_stdin :: bool
  ch_stdout :: bool
  ch_stderr :: bool

definition unwrap_or :: "'a \<Rightarrow> 'a option \<Rightarrow> 'a" where
  "unwrap_or d x = (case x of None \<Rightarrow> d | Some v \<Rightarrow> v)"

subsection \<open>Construction\<close>

definition spawn :: "child \<Rightarrow> nat \<Rightarrow> bool \<Rightarrow> string + managed_session" where
  "spawn child buffer_size exit_events =
     (let process_id = unwrap_or 0 (ch_id child);
          process_group_id = process_id
      in if \<not> ch_stdout child then Inl ''Failed to take stdout pipe''
         else if \<not> ch_stderr child then Inl ''Failed to take stderr pipe''
         else Inr \<lparr>ms_pid = process_id, ms_pgid = process_group_id,
                   ms_buffer = new_buffer buffer_size, ms_status = Running, ms_exit_code = None,
                   ms_stdin = [], ms_stdin_open = True, ms_tasks = 4, ms_pty_master = False,
                   ms_exit_events = exit_events\<rparr>)"

text \<open>
  \<open>spawn_pty\<close> duplicates the master descriptor twice and makes both copies non-blocking. The
  result carries the raw descriptors that no owner closes afterwards: on the paths that return
  before \<open>File::from_raw_fd\<close> takes them over.
\<close>

record pty_env =
  pt_dup_writer :: "int option"
  pt_dup_reader :: "int option"
  pt_nonblock_writer :: bool
  pt_nonblock_reader :: bool
  pt_async_writer :: bool
  pt_async_reader :: bool

definition spawn_pty ::
    "child \<Rightarrow> pty_env \<Rightarrow> nat \<Rightarrow> bool \<Rightarrow> (string + managed_session) \<times> int list" where
  "spawn_pty child e buffer_size exit_events =
     (let process_id = unwrap_or 0 (ch_id child) in
      case pt_dup_writer e of
        None \<Rightarrow> (Inl ''dup() failed for PTY master writer'', [])
      | Some writer_fd \<Rightarrow>
          (case pt_dup_reader e of
             None \<Rightarrow> (Inl ''dup() failed for PTY master reader'', [])
           | Some reader_fd \<Rightarrow>
               if \<not> pt_nonblock_writer e then (Inl ''fcntl failed'', [writer_fd, reader_fd])
               else if \<not> pt_nonblock_reader e then (Inl ''fcntl failed'', [writer_fd, reader_fd])
               else if \<not> pt_async_writer e then (Inl ''AsyncFd::new(writer) failed'', [reader_fd])
               else if \<not> pt_async_reader e then (Inl ''AsyncFd::new(reader) failed'', [])
               else (Inr \<lparr>ms_pid = process_id, ms_pgid = process_id,
                          ms_buffer = new_buffer buffer_size, ms_status = Running,
                          ms_exit_code = None, ms_stdin = [], ms_stdin_open = True, ms_tasks = 3,
                          ms_pty_master = True, ms_exit_events = exit_events\<rparr>, [])))"

definition archived :: "output_buffer \<Rightarrow> int option \<Rightarrow> managed_session" where
  "archived buffer exit_code =
     \<lparr>ms_pid = 0, ms_pgid = 0, ms_buffer = buffer, ms_status = Exited, ms_exit_code = exit_code,
      ms_stdin = [], ms_stdin_open = False, ms_tasks = 0, ms_pty_master = False,
      ms_exit_events = False\<rparr>"

subsection \<open>The background tasks\<close>

text \<open>One chunk of the stdout or stderr reader (for a PTY everything is \<open>Stdout\<close>).\<close>

definition reader_step :: "push_env \<Rightarrow> output_stream \<Rightarrow> string \<Rightarrow> managed_session \<Rightarrow> managed_session" where
  "reader_step env stream data s = s\<lparr>ms_buffer := push env stream data (ms_buffer s)\<rparr>"

datatype session_frame = SessionExited string int

text \<open>The exit watcher: \<open>wait\<close> returned a status (with its code, if it was not a signal) or failed.\<close>

definition exit_watcher ::
    "string \<Rightarrow> push_env \<Rightarrow> string + int option \<Rightarrow> managed_session \<Rightarrow> managed_session \<times> session_frame list" where
  "exit_watcher sid env w s =
     (let (code, message) = (case w of
          Inr c \<Rightarrow> (unwrap_or (-1) c, exit_message (unwrap_or (-1) c))
        | Inl e \<Rightarrow> (-1, ''Process wait error: '' @ e))
      in (s\<lparr>ms_exit_code := Some code,
            ms_buffer := push env System message (ms_buffer s),
            ms_status := Exited\<rparr>,
          if ms_exit_events s then [SessionExited sid code] else []))"

definition write_stdin :: "string \<Rightarrow> managed_session \<Rightarrow> (string + unit) \<times> managed_session" where
  "write_stdin data s =
     (if ms_stdin_open s then (Inr (), s\<lparr>ms_stdin := ms_stdin s @ [data]\<rparr>)
      else (Inl ''Session stdin closed'', s))"

subsection \<open>Signals\<close>

definition pgid_i32 :: "managed_session \<Rightarrow> int" where
  "pgid_i32 s = sint (ms_pgid s)"

definition send_signal :: "bool \<Rightarrow> int \<Rightarrow> managed_session \<Rightarrow> (string + unit) \<times> os_call list" where
  "send_signal kill_ok signal s =
     (if kill_ok then Inr () else Inl ''kill failed'', [Kill (neg_i32 (ms_pgid s)) signal])"

definition kill_session_now :: "managed_session \<Rightarrow> os_call list" where
  "kill_session_now s =
     (if pgid_i32 s > 0 then [Kill (neg_i32 (ms_pgid s)) SIGKILL] else []) @ [AbortTasks]"

text \<open>
  The polling loop of \<open>graceful_kill\<close>. \<open>exited t\<close> is whether the status reads \<open>Exited\<close> at time \<open>t\<close>;
  the \<open>i\<close>-th sleep takes 100 ms plus some lag. The result is whether the deadline passed first.
\<close>

function poll_exit :: "(instant \<Rightarrow> bool) \<Rightarrow> (nat \<Rightarrow> duration) \<Rightarrow> nat \<Rightarrow> instant \<Rightarrow> instant \<Rightarrow> bool" where
  "poll_exit exited lag i now deadline =
     (if exited now then False
      else if now \<ge> deadline then True
      else poll_exit exited lag (Suc i) (now + from_millis 100 + lag i) deadline)"
  by pat_completeness auto
termination
  by (relation "measure (\<lambda>(exited, lag, i, now, deadline). deadline - now)")
    (auto simp: time_simps)

declare poll_exit.simps [simp del]

definition graceful_kill ::
    "(instant \<Rightarrow> bool) \<Rightarrow> (nat \<Rightarrow> duration) \<Rightarrow> instant \<Rightarrow> managed_session \<Rightarrow> os_call list" where
  "graceful_kill exited lag now s =
     (if pgid_i32 s \<le> 0 then [AbortTasks]
      else Kill (neg_i32 (ms_pgid s)) SIGTERM
           # (if poll_exit exited lag 0 now (now + from_secs 3)
              then [Kill (neg_i32 (ms_pgid s)) SIGKILL] else [])
           @ [AbortTasks])"

definition resize :: "bool \<Rightarrow> managed_session \<Rightarrow> string + unit" where
  "resize ioctl_ok s =
     (if ms_pty_master s then (if ioctl_ok then Inr () else Inl ''ioctl failed'')
      else Inl ''Not a PTY session'')"

definition abort_tasks :: "managed_session \<Rightarrow> os_call list" where
  "abort_tasks s = [AbortTasks]"

definition is_pty :: "managed_session \<Rightarrow> bool" where
  "is_pty s = ms_pty_master s"

subsection \<open>The polling loop\<close>

lemma poll_exit_False:
  "\<not> poll_exit exited lag i now deadline \<Longrightarrow> \<exists>t \<ge> now. exited t"
proof (induction exited lag i now deadline rule: poll_exit.induct)
  case (1 exited lag i now deadline)
  show ?case
  proof (cases "exited now")
    case True
    then show ?thesis by auto
  next
    case False
    with 1 have "now < deadline"
        and "\<not> poll_exit exited lag (Suc i) (now + from_millis 100 + lag i) deadline"
      by (auto simp: poll_exit.simps [of exited lag i now deadline] split: if_splits)
    with 1 False obtain t where "t \<ge> now + from_millis 100 + lag i" "exited t" by auto
    then show ?thesis by (intro exI [of _ t]) simp
  qed
qed

lemma poll_exit_True:
  "poll_exit exited lag i now deadline \<Longrightarrow> \<exists>t \<ge> deadline. t \<ge> now \<and> \<not> exited t"
proof (induction exited lag i now deadline rule: poll_exit.induct)
  case (1 exited lag i now deadline)
  then have ne: "\<not> exited now"
    by (auto simp: poll_exit.simps [of exited lag i now deadline])
  show ?case
  proof (cases "now \<ge> deadline")
    case True
    with ne show ?thesis by (intro exI [of _ now]) simp
  next
    case False
    with 1 ne obtain t where "t \<ge> deadline" "t \<ge> now + from_millis 100 + lag i" "\<not> exited t"
      by (auto simp: poll_exit.simps [of exited lag i now deadline])
    then show ?thesis by (intro exI [of _ t]) simp
  qed
qed

lemma sint_pos_pgid: "0 < sint (p :: u32) \<Longrightarrow> neg_i32 p = - sint p"
proof -
  assume pos: "0 < sint p"
  have "sint p < 2 ^ 31" using sint_lt [of p] by simp
  then have "signed_take_bit 31 (- sint p) = - sint p"
    using pos by (intro signed_take_bit_int_eq_self) auto
  then show ?thesis
    by (simp add: neg_i32_def sint_word_ariths(4))
qed

end
