(* ===== verification/Hash_Map.thy ===== *)
theory Hash_Map
  imports Prelude "HOL-Library.AList"
begin

text \<open>
  \<open>std::collections::HashMap\<close> as the sources use it. A map is an association list with distinct
  keys: the list's order stands for the iteration order, which Rust leaves unspecified, and no
  theorem of the development that speaks of lookups depends on it. The interface the components
  rely on is the locale \<open>keyed_store\<close>; its derived facts cover the loops over key lists that
  \<open>SessionManager\<close> and \<open>TransferManager\<close> run.
\<close>

named_theorems hm_simps \<open>lookups after map operations\<close>

type_synonym ('k, 'v) hmap = "('k \<times> 'v) list"

definition hm_get :: "('k, 'v) hmap \<Rightarrow> 'k \<Rightarrow> 'v option" where
  "hm_get m k = map_of m k"

definition hm_insert :: "'k \<Rightarrow> 'v \<Rightarrow> ('k, 'v) hmap \<Rightarrow> ('k, 'v) hmap" where
  "hm_insert k v m = AList.update k v m"

definition hm_remove :: "'k \<Rightarrow> ('k, 'v) hmap \<Rightarrow> ('k, 'v) hmap" where
  "hm_remove k m = AList.delete k m"

text \<open>\<open>if let Some(v) = map.get_mut(k) { *v = f(v) }\<close>\<close>

definition hm_modify :: "'k \<Rightarrow> ('v \<Rightarrow> 'v) \<Rightarrow> ('k, 'v) hmap \<Rightarrow> ('k, 'v) hmap" where
  "hm_modify k f m = map (\<lambda>(k', v). (k', if k' = k then f v else v)) m"

text \<open>\<open>for v in map.values_mut() { *v = f(v) }\<close>\<close>

definition hm_map_values :: "('v \<Rightarrow> 'v) \<Rightarrow> ('k, 'v) hmap \<Rightarrow> ('k, 'v) hmap" where
  "hm_map_values f m = map (\<lambda>(k, v). (k, f v)) m"

text \<open>\<open>map.iter().filter(p).map(|(k, _)| k.clone()).collect()\<close>\<close>

definition hm_keys_where :: "('v \<Rightarrow> bool) \<Rightarrow> ('k, 'v) hmap \<Rightarrow> 'k list" where
  "hm_keys_where p m = map fst (filter (p \<circ> snd) m)"

definition hm_remove_all :: "'k list \<Rightarrow> ('k, 'v) hmap \<Rightarrow> ('k, 'v) hmap" where
  "hm_remove_all ks m = fold hm_remove ks m"

definition hm_wf :: "('k, 'v) hmap \<Rightarrow> bool" where
  "hm_wf m \<longleftrightarrow> distinct (map fst m)"

subsection \<open>The interface\<close>

locale keyed_store =
  fixes get :: "'m \<Rightarrow> 'k \<Rightarrow> 'v option"
    and insert :: "'k \<Rightarrow> 'v \<Rightarrow> 'm \<Rightarrow> 'm"
    and remove :: "'k \<Rightarrow> 'm \<Rightarrow> 'm"
    and modify :: "'k \<Rightarrow> ('v \<Rightarrow> 'v) \<Rightarrow> 'm \<Rightarrow> 'm"
    and len :: "'m \<Rightarrow> nat"
    and wf :: "'m \<Rightarrow> bool"
  assumes get_insert: "get (insert k v m) k' = (if k' = k then Some v else get m k')"
    and get_remove: "get (remove k m) k' = (if k' = k then None else get m k')"
    and get_modify: "get (modify k f m) k' = (if k' = k then map_option f (get m k) else get m k')"
    and wf_insert: "wf m \<Longrightarrow> wf (insert k v m)"
    and wf_remove: "wf m \<Longrightarrow> wf (remove k m)"
    and wf_modify: "wf m \<Longrightarrow> wf (modify k f m)"
    and len_insert: "len (insert k v m) = (if get m k = None then Suc (len m) else len m)"
    and len_remove_le: "len (remove k m) \<le> len m"
    and len_remove: "wf m \<Longrightarrow> get m k \<noteq> None \<Longrightarrow> Suc (len (remove k m)) = len m"
    and len_modify: "len (modify k f m) = len m"
begin

lemma get_remove_all:
  "get (fold remove ks m) k = (if k \<in> set ks then None else get m k)"
  by (induction ks arbitrary: m) (auto simp: get_remove)

lemma wf_remove_all: "wf m \<Longrightarrow> wf (fold remove ks m)"
  by (induction ks arbitrary: m) (auto intro: wf_remove)

lemma len_remove_all_le: "len (fold remove ks m) \<le> len m"
  by (induction ks arbitrary: m) (auto intro: le_trans len_remove_le)

lemma len_remove_all:
  assumes "wf m" and "distinct ks" and "\<And>k. k \<in> set ks \<Longrightarrow> get m k \<noteq> None"
  shows "len (fold remove ks m) + length ks = len m"
  using assms
proof (induction ks arbitrary: m)
  case Nil
  then show ?case by simp
next
  case (Cons k ks)
  have "len (fold remove ks (remove k m)) + length ks = len (remove k m)"
    using Cons.prems by (intro Cons.IH) (auto simp: get_remove intro: wf_remove)
  with len_remove [of m k] Cons.prems show ?case by auto
qed

lemma get_modify_all:
  "get (fold (\<lambda>k. modify k f) ks m) k = map_option (f ^^ count_list ks k) (get m k)"
proof (induction ks arbitrary: m)
  case Nil
  show ?case by (simp add: option.map_id0 id_def [symmetric])
next
  case (Cons k' ks)
  then show ?case
    by (cases "get m k") (auto simp: get_modify funpow_swap1)
qed

lemma wf_modify_all: "wf m \<Longrightarrow> wf (fold (\<lambda>k. modify k f) ks m)"
  by (induction ks arbitrary: m) (auto intro: wf_modify)

lemma len_modify_all: "len (fold (\<lambda>k. modify k f) ks m) = len m"
  by (induction ks arbitrary: m) (auto simp: len_modify)

end

subsection \<open>The association lists implement it\<close>

lemma hm_get_Nil [simp]: "hm_get [] k = None"
  by (simp add: hm_get_def)

lemma hm_get_Cons: "hm_get ((k, v) # m) k' = (if k' = k then Some v else hm_get m k')"
  by (simp add: hm_get_def)

lemma hm_get_modify:
  "hm_get (hm_modify k f m) k' = (if k' = k then map_option f (hm_get m k) else hm_get m k')"
  by (induction m) (auto simp: hm_get_def hm_modify_def)

lemma hm_modify_keys: "map fst (hm_modify k f m) = map fst m"
  by (induction m) (auto simp: hm_modify_def)

lemma hm_length_insert:
  "length (hm_insert k v m) = (if hm_get m k = None then Suc (length m) else length m)"
  by (induction m) (auto simp: hm_insert_def hm_get_def)

lemma hm_length_remove:
  assumes "hm_wf m" and "hm_get m k \<noteq> None"
  shows "Suc (length (hm_remove k m)) = length m"
  using assms
proof (induction m)
  case Nil
  then show ?case by simp
next
  case (Cons a m)
  obtain k' v where a: "a = (k', v)" by (cases a)
  show ?case
  proof (cases "k' = k")
    case True
    with Cons.prems a have "k \<notin> fst ` set m" by (auto simp: hm_wf_def)
    then have "AList.delete k m = m" by (rule delete_id)
    with True a show ?thesis by (simp add: hm_remove_def)
  next
    case False
    with Cons a show ?thesis by (simp add: hm_remove_def hm_wf_def hm_get_def)
  qed
qed

interpretation hm: keyed_store hm_get hm_insert hm_remove hm_modify length hm_wf
proof unfold_locales
  fix m :: "('a, 'b) hmap" and k k' :: 'a and v :: 'b and f :: "'b \<Rightarrow> 'b"
  show "hm_get (hm_insert k v m) k' = (if k' = k then Some v else hm_get m k')"
    by (auto simp: hm_get_def hm_insert_def update_conv')
  show "hm_get (hm_remove k m) k' = (if k' = k then None else hm_get m k')"
    by (auto simp: hm_get_def hm_remove_def delete_conv')
  show "hm_get (hm_modify k f m) k' =
      (if k' = k then map_option f (hm_get m k) else hm_get m k')"
    by (rule hm_get_modify)
  show "hm_wf m \<Longrightarrow> hm_wf (hm_insert k v m)"
    by (simp add: hm_wf_def hm_insert_def distinct_update)
  show "hm_wf m \<Longrightarrow> hm_wf (hm_remove k m)"
    by (simp add: hm_wf_def hm_remove_def distinct_delete)
  show "hm_wf m \<Longrightarrow> hm_wf (hm_modify k f m)"
    by (simp add: hm_wf_def hm_modify_keys)
  show "length (hm_insert k v m) = (if hm_get m k = None then Suc (length m) else length m)"
    by (rule hm_length_insert)
  show "length (hm_remove k m) \<le> length m"
    by (simp add: hm_remove_def length_delete_le)
  show "hm_wf m \<Longrightarrow> hm_get m k \<noteq> None \<Longrightarrow> Suc (length (hm_remove k m)) = length m"
    by (rule hm_length_remove)
  show "length (hm_modify k f m) = length m"
    by (simp add: hm_modify_def)
qed

lemmas hm_laws [hm_simps] =
  hm.get_insert hm.get_remove hm.get_modify hm_get_Nil hm_get_Cons

lemma hm_get_map_values [hm_simps]:
  "hm_get (hm_map_values f m) k = map_option f (hm_get m k)"
  by (induction m) (auto simp: hm_get_def hm_map_values_def)

lemma hm_wf_map_values [simp]: "hm_wf (hm_map_values f m) = hm_wf m"
  by (induction m) (auto simp: hm_wf_def hm_map_values_def image_image split_beta)

lemma hm_length_map_values [simp]: "length (hm_map_values f m) = length m"
  by (simp add: hm_map_values_def)

lemma hm_get_remove_all [hm_simps]:
  "hm_get (hm_remove_all ks m) k = (if k \<in> set ks then None else hm_get m k)"
  by (simp add: hm_remove_all_def hm.get_remove_all)

lemma hm_keys_where_iff:
  assumes "hm_wf m"
  shows "k \<in> set (hm_keys_where p m) \<longleftrightarrow> (\<exists>v. hm_get m k = Some v \<and> p v)"
proof -
  have "k \<in> set (hm_keys_where p m) \<longleftrightarrow> (\<exists>v. (k, v) \<in> set m \<and> p v)"
    by (force simp: hm_keys_where_def)
  also have "\<dots> \<longleftrightarrow> (\<exists>v. hm_get m k = Some v \<and> p v)"
    using assms by (simp add: hm_get_def hm_wf_def)
  finally show ?thesis .
qed

lemma hm_keys_where_distinct: "hm_wf m \<Longrightarrow> distinct (hm_keys_where p m)"
  by (simp add: hm_wf_def hm_keys_where_def distinct_map_filter)

lemma hm_wf_Nil [simp]: "hm_wf []"
  by (simp add: hm_wf_def)

lemma hm_get_Some_set: "hm_get m k = Some v \<Longrightarrow> (k, v) \<in> set m"
  by (simp add: hm_get_def map_of_SomeD)

lemma hm_get_iff_set: "hm_wf m \<Longrightarrow> hm_get m k = Some v \<longleftrightarrow> (k, v) \<in> set m"
  by (simp add: hm_get_def hm_wf_def)

subsection \<open>A property of every value\<close>

definition hm_all :: "('v \<Rightarrow> bool) \<Rightarrow> ('k, 'v) hmap \<Rightarrow> bool" where
  "hm_all P m \<longleftrightarrow> (\<forall>v \<in> snd ` set m. P v)"

lemma hm_all_Nil [simp]: "hm_all P []"
  by (simp add: hm_all_def)

lemma hm_all_insert: "P v \<Longrightarrow> hm_all P m \<Longrightarrow> hm_all P (hm_insert k v m)"
  by (induction m) (auto simp: hm_all_def hm_insert_def split: if_splits)

lemma hm_all_remove: "hm_all P m \<Longrightarrow> hm_all P (hm_remove k m)"
  by (induction m) (auto simp: hm_all_def hm_remove_def)

lemma hm_all_remove_all: "hm_all P m \<Longrightarrow> hm_all P (hm_remove_all ks m)"
  by (induction ks arbitrary: m) (auto simp: hm_remove_all_def hm_all_remove)

lemma hm_all_modify:
  "(\<And>v. P v \<Longrightarrow> P (f v)) \<Longrightarrow> hm_all P m \<Longrightarrow> hm_all P (hm_modify k f m)"
  by (induction m) (auto simp: hm_all_def hm_modify_def)

lemma hm_all_modify_all:
  "(\<And>v. P v \<Longrightarrow> P (f v)) \<Longrightarrow> hm_all P m \<Longrightarrow> hm_all P (fold (\<lambda>k. hm_modify k f) ks m)"
  by (induction ks arbitrary: m) (auto simp: hm_all_modify)

lemma hm_all_map_values:
  "(\<And>v. P v \<Longrightarrow> P (f v)) \<Longrightarrow> hm_all P m \<Longrightarrow> hm_all P (hm_map_values f m)"
  by (auto simp: hm_all_def hm_map_values_def)

lemma hm_all_get: "hm_all P m \<Longrightarrow> hm_get m k = Some v \<Longrightarrow> P v"
  by (force simp: hm_all_def dest: hm_get_Some_set)

lemma hm_all_modify_at:
  assumes "hm_wf m" and "hm_all P m" and "\<And>v. hm_get m k = Some v \<Longrightarrow> P (f v)"
  shows "hm_all P (hm_modify k f m)"
  using assms by (fastforce simp: hm_all_def hm_modify_def hm_get_iff_set)

lemmas hm_all_intros = hm_all_insert hm_all_remove hm_all_remove_all hm_all_modify
  hm_all_modify_all hm_all_map_values

lemma hm_wf_remove_all: "hm_wf m \<Longrightarrow> hm_wf (hm_remove_all ks m)"
  by (simp add: hm_remove_all_def hm.wf_remove_all)

lemma hm_length_remove_all_le: "length (hm_remove_all ks m) \<le> length m"
  by (simp add: hm_remove_all_def hm.len_remove_all_le)

lemma hm_length_remove_all:
  "hm_wf m \<Longrightarrow> distinct ks \<Longrightarrow> set ks \<subseteq> fst ` set m
     \<Longrightarrow> length (hm_remove_all ks m) + length ks = length m"
  unfolding hm_remove_all_def
  by (rule hm.len_remove_all) (auto simp: hm_get_def map_of_eq_None_iff)

end
