(* ===== verification/Session_Manager.thy ===== *)
theory Session_Manager
  imports Session Hash_Map
begin

text \<open>
  The session pool (\<open>server/src/sessions/mod.rs\<close>). Every operation of \<open>SessionManager\<close> is a
  function on \<open>session_manager\<close>; the write lock it holds makes it one step. The clock, the fresh
  UUID, the results of spawning and of the system calls, and whether a status lock is contended
  are arguments.
\<close>

datatype session_kind = Terminal | Job

fun kind_as_str :: "session_kind \<Rightarrow> string" where
  "kind_as_str Terminal = ''terminal''"
| "kind_as_str Job = ''job''"

definition JOB_IDLE_TIMEOUT_SECS :: nat where
  "JOB_IDLE_TIMEOUT_SECS = 600"

datatype sweep_event = Destroyed string string | AiAutoCleared string

record session_entry =
  se_session :: managed_session
  se_kind :: session_kind
  se_persistent :: bool
  se_last_activity :: instant
  se_attached_count :: u32
  se_idle_timeout :: nat
  se_name :: "string option"
  se_created_at :: u64
  se_user_allows_ai :: bool
  se_ai_is_working :: bool
  se_ai_activity :: "string option"
  se_ai_status_message :: "string option"
  se_ai_last_activity :: "instant option"

record session_manager =
  mgr_sessions :: "(string, session_entry) hmap"
  mgr_max_sessions :: nat
  mgr_buffer_size :: nat
  mgr_data_dir :: "string option"

definition new_manager :: "nat \<Rightarrow> nat \<Rightarrow> session_manager" where
  "new_manager max_sessions buffer_size =
     \<lparr>mgr_sessions = [], mgr_max_sessions = max_sessions, mgr_buffer_size = buffer_size,
      mgr_data_dir = None\<rparr>"

definition with_journal :: "nat \<Rightarrow> nat \<Rightarrow> string \<Rightarrow> session_manager" where
  "with_journal max_sessions buffer_size data_dir =
     \<lparr>mgr_sessions = [], mgr_max_sessions = max_sessions, mgr_buffer_size = buffer_size,
      mgr_data_dir = Some data_dir\<rparr>"

subsection \<open>Creating sessions\<close>

type_synonym env_vars = "(string, string) hmap"

datatype spawn_request =
    SpawnPtyShell string string env_vars
  | SpawnCommand string string string "env_vars option"
  | SpawnShell string string "env_vars option"

record create_env =
  ce_uuid :: string
  ce_allocate_pty :: "u16 \<Rightarrow> u16 \<Rightarrow> string option"
  ce_spawn :: "spawn_request \<Rightarrow> string + child"
  ce_pty :: pty_env
  ce_journal_ok :: bool
  ce_now :: instant
  ce_now_ms :: u64

text \<open>\<open>pty_env.entry("TERM").or_insert_with(...)\<close> on the caller's environment.\<close>

definition pty_environment :: "env_vars option \<Rightarrow> env_vars" where
  "pty_environment env =
     (let e = unwrap_or [] env in
      if hm_get e ''TERM'' = None then hm_insert ''TERM'' ''xterm-256color'' e else e)"

definition start_process ::
    "create_env \<Rightarrow> nat \<Rightarrow> string \<Rightarrow> string \<Rightarrow> env_vars option \<Rightarrow> bool \<Rightarrow> u16 \<Rightarrow> u16
       \<Rightarrow> string option \<Rightarrow> bool \<Rightarrow> string + managed_session" where
  "start_process c buffer_size shell working_dir env use_pty rows cols command exit_events =
     (if use_pty then
        (case ce_allocate_pty c rows cols of
           Some e \<Rightarrow> Inl (''Failed to allocate PTY: '' @ e)
         | None \<Rightarrow>
             (case ce_spawn c (SpawnPtyShell shell working_dir (pty_environment env)) of
                Inl e \<Rightarrow> Inl (''Failed to spawn PTY shell: '' @ e)
              | Inr ch \<Rightarrow> fst (spawn_pty ch (ce_pty c) buffer_size exit_events)))
      else case command of
          Some cmd \<Rightarrow>
            (case ce_spawn c (SpawnCommand shell working_dir cmd env) of
               Inl e \<Rightarrow> Inl (''Failed to spawn command: '' @ e)
             | Inr ch \<Rightarrow> spawn ch buffer_size exit_events)
        | None \<Rightarrow>
            (case ce_spawn c (SpawnShell shell working_dir env) of
               Inl e \<Rightarrow> Inl (''Failed to spawn shell: '' @ e)
             | Inr ch \<Rightarrow> spawn ch buffer_size exit_events))"

definition create_session_inner ::
    "create_env \<Rightarrow> string \<Rightarrow> string \<Rightarrow> env_vars option \<Rightarrow> bool \<Rightarrow> bool \<Rightarrow> u16 \<Rightarrow> u16 \<Rightarrow> nat
       \<Rightarrow> string option \<Rightarrow> string option \<Rightarrow> session_kind \<Rightarrow> bool \<Rightarrow> session_manager
       \<Rightarrow> (string + string \<times> u32) \<times> session_manager" where
  "create_session_inner c shell working_dir env persistent use_pty rows cols idle_timeout name
       command kind exit_events m =
     (if length (mgr_sessions m) \<ge> mgr_max_sessions m
      then (Inl (''Session limit reached (max '' @ show_nat (mgr_max_sessions m) @ '')''), m)
      else case start_process c (mgr_buffer_size m) shell working_dir env use_pty rows cols command
                  exit_events of
          Inl e \<Rightarrow> (Inl e, m)
        | Inr s \<Rightarrow>
            (let s' = (if mgr_data_dir m \<noteq> None \<and> ce_journal_ok c
                       then s\<lparr>ms_buffer := set_journal (ms_buffer s)\<rparr> else s);
                 entry = \<lparr>se_session = s', se_kind = kind, se_persistent = persistent,
                          se_last_activity = ce_now c, se_attached_count = 1,
                          se_idle_timeout = idle_timeout, se_name = name,
                          se_created_at = ce_now_ms c, se_user_allows_ai = True,
                          se_ai_is_working = False, se_ai_activity = None,
                          se_ai_status_message = None, se_ai_last_activity = None\<rparr>
             in (Inr (ce_uuid c, ms_pid s),
                 m\<lparr>mgr_sessions := hm_insert (ce_uuid c) entry (mgr_sessions m)\<rparr>)))"

definition create_session ::
    "create_env \<Rightarrow> string \<Rightarrow> string \<Rightarrow> env_vars option \<Rightarrow> bool \<Rightarrow> session_manager
       \<Rightarrow> (string + string \<times> u32) \<times> session_manager" where
  "create_session c shell working_dir env persistent =
     create_session_inner c shell working_dir env persistent False 24 80 0 None None Terminal False"

definition create_session_with_pty ::
    "create_env \<Rightarrow> string \<Rightarrow> string \<Rightarrow> env_vars option \<Rightarrow> bool \<Rightarrow> bool \<Rightarrow> u16 \<Rightarrow> u16 \<Rightarrow> nat
       \<Rightarrow> string option \<Rightarrow> session_manager \<Rightarrow> (string + string \<times> u32) \<times> session_manager" where
  "create_session_with_pty c shell working_dir env persistent use_pty rows cols idle_timeout name =
     create_session_inner c shell working_dir env persistent use_pty rows cols idle_timeout name
       None Terminal False"

definition create_job ::
    "create_env \<Rightarrow> string \<Rightarrow> string \<Rightarrow> string \<Rightarrow> env_vars option \<Rightarrow> string option \<Rightarrow> nat
       \<Rightarrow> session_manager \<Rightarrow> (string + string \<times> u32) \<times> session_manager" where
  "create_job c shell working_dir command env name idle_timeout =
     create_session_inner c shell working_dir env True False 24 80 idle_timeout name
       (Some command) Job True"

subsection \<open>Talking to a session\<close>

definition not_found :: "string \<Rightarrow> string" where
  "not_found sid = ''Session '' @ sid @ '' not found''"

definition send_to_session ::
    "string \<Rightarrow> string \<Rightarrow> session_manager \<Rightarrow> (string + unit) \<times> session_manager" where
  "send_to_session sid data m =
     (case hm_get (mgr_sessions m) sid of
        None \<Rightarrow> (Inl (not_found sid), m)
      | Some e \<Rightarrow>
          (let (r, s) = write_stdin data (se_session e)
           in (r, m\<lparr>mgr_sessions := hm_modify sid (\<lambda>e. e\<lparr>se_session := s\<rparr>) (mgr_sessions m)\<rparr>)))"

definition exec_command ::
    "string \<Rightarrow> string \<Rightarrow> session_manager \<Rightarrow> (string + unit) \<times> session_manager" where
  "exec_command sid command m =
     (case hm_get (mgr_sessions m) sid of
        None \<Rightarrow> (Inl (not_found sid), m)
      | Some e \<Rightarrow>
          (let line_ending = (if is_pty (se_session e) then [CR] else [LF])
           in send_to_session sid (command @ line_ending) m))"

definition touch_ai_activity :: "instant \<Rightarrow> string \<Rightarrow> session_manager \<Rightarrow> session_manager" where
  "touch_ai_activity now sid m =
     m\<lparr>mgr_sessions := hm_modify sid (\<lambda>e.
         if se_ai_is_working e then e\<lparr>se_ai_last_activity := Some now\<rparr> else e) (mgr_sessions m)\<rparr>"

definition signal_session ::
    "bool \<Rightarrow> string \<Rightarrow> int \<Rightarrow> session_manager \<Rightarrow> (string + unit) \<times> os_call list" where
  "signal_session kill_ok sid signal m =
     (case hm_get (mgr_sessions m) sid of
        None \<Rightarrow> (Inl (not_found sid), [])
      | Some e \<Rightarrow> send_signal kill_ok signal (se_session e))"

record kill_env =
  ke_exited :: "string \<Rightarrow> instant \<Rightarrow> bool"
  ke_lag :: "string \<Rightarrow> nat \<Rightarrow> duration"
  ke_now :: "string \<Rightarrow> instant"

definition kill_entry :: "kill_env \<Rightarrow> string \<Rightarrow> session_entry \<Rightarrow> os_call list" where
  "kill_entry k sid e = graceful_kill (ke_exited k sid) (ke_lag k sid) (ke_now k sid) (se_session e)"

definition kill_session ::
    "kill_env \<Rightarrow> string \<Rightarrow> session_manager \<Rightarrow> bool \<times> session_manager \<times> os_call list" where
  "kill_session k sid m =
     (case hm_get (mgr_sessions m) sid of
        None \<Rightarrow> (False, m, [])
      | Some e \<Rightarrow> (True, m\<lparr>mgr_sessions := hm_remove sid (mgr_sessions m)\<rparr>, kill_entry k sid e))"

text \<open>\<open>kill_all\<close>: \<open>SIGTERM\<close> to every group, the wait (which has no effect of its own), then \<open>kill\<close>.\<close>

definition kill_all :: "session_manager \<Rightarrow> session_manager \<times> os_call list" where
  "kill_all m =
     (let es = map snd (mgr_sessions m) in
      if es = [] then (m, [])
      else (m\<lparr>mgr_sessions := []\<rparr>,
            concat (map (\<lambda>e. if pgid_i32 (se_session e) > 0
                             then [Kill (neg_i32 (ms_pgid (se_session e))) SIGTERM] else []) es)
            @ concat (map (kill_session_now \<circ> se_session) es)))"

subsection \<open>Attachment\<close>

definition attach :: "instant \<Rightarrow> string \<Rightarrow> session_manager \<Rightarrow> output_buffer option \<times> session_manager" where
  "attach now sid m =
     (map_option (ms_buffer \<circ> se_session) (hm_get (mgr_sessions m) sid),
      m\<lparr>mgr_sessions := hm_modify sid (\<lambda>e. e\<lparr>se_attached_count := saturating_add (se_attached_count e) 1,
          se_last_activity := now\<rparr>) (mgr_sessions m)\<rparr>)"

definition attach_shared ::
    "instant \<Rightarrow> string \<Rightarrow> session_manager \<Rightarrow> output_buffer option \<times> session_manager" where
  "attach_shared now sid m =
     (map_option (ms_buffer \<circ> se_session) (hm_get (mgr_sessions m) sid),
      m\<lparr>mgr_sessions := hm_modify sid (\<lambda>e. e\<lparr>se_attached_count := 1,
          se_last_activity := now\<rparr>) (mgr_sessions m)\<rparr>)"

definition detach_entry :: "instant \<Rightarrow> session_entry \<Rightarrow> session_entry" where
  "detach_entry now e = e\<lparr>se_attached_count := saturating_sub (se_attached_count e) 1,
     se_last_activity := now\<rparr>"

definition detach :: "instant \<Rightarrow> string \<Rightarrow> session_manager \<Rightarrow> session_manager" where
  "detach now sid m = m\<lparr>mgr_sessions := hm_modify sid (detach_entry now) (mgr_sessions m)\<rparr>"

definition detach_all :: "instant \<Rightarrow> string list \<Rightarrow> session_manager \<Rightarrow> session_manager" where
  "detach_all now sids m =
     m\<lparr>mgr_sessions := fold (\<lambda>sid. hm_modify sid (detach_entry now)) sids (mgr_sessions m)\<rparr>"

definition get_status :: "string \<Rightarrow> session_manager \<Rightarrow> (session_status \<times> int option) option" where
  "get_status sid m =
     map_option (\<lambda>e. (ms_status (se_session e), ms_exit_code (se_session e)))
       (hm_get (mgr_sessions m) sid)"

definition is_persistent :: "string \<Rightarrow> session_manager \<Rightarrow> bool" where
  "is_persistent sid m =
     (case hm_get (mgr_sessions m) sid of None \<Rightarrow> False | Some e \<Rightarrow> se_persistent e)"

definition get_buffer :: "string \<Rightarrow> session_manager \<Rightarrow> output_buffer option" where
  "get_buffer sid m = map_option (ms_buffer \<circ> se_session) (hm_get (mgr_sessions m) sid)"

definition rename_session ::
    "string \<Rightarrow> string \<Rightarrow> session_manager \<Rightarrow> (string + unit) \<times> session_manager" where
  "rename_session sid name m =
     (case hm_get (mgr_sessions m) sid of
        None \<Rightarrow> (Inl (not_found sid), m)
      | Some _ \<Rightarrow> (Inr (),
          m\<lparr>mgr_sessions := hm_modify sid (\<lambda>e. e\<lparr>se_name := Some name\<rparr>) (mgr_sessions m)\<rparr>))"

subsection \<open>AI permission and status\<close>

definition set_user_allows_ai ::
    "string \<Rightarrow> bool \<Rightarrow> session_manager \<Rightarrow> (string + bool) \<times> session_manager" where
  "set_user_allows_ai sid allowed m =
     (case hm_get (mgr_sessions m) sid of
        None \<Rightarrow> (Inl (not_found sid), m)
      | Some entry \<Rightarrow>
          (let cleared = (\<not> allowed \<and> se_ai_is_working entry);
               upd = (\<lambda>e. let e' = e\<lparr>se_user_allows_ai := allowed\<rparr> in
                  if cleared then e'\<lparr>se_ai_is_working := False, se_ai_activity := None,
                                     se_ai_status_message := None\<rparr> else e')
           in (Inr cleared, m\<lparr>mgr_sessions := hm_modify sid upd (mgr_sessions m)\<rparr>)))"

definition set_ai_status ::
    "instant \<Rightarrow> string \<Rightarrow> bool \<Rightarrow> string option \<Rightarrow> string option \<Rightarrow> session_manager
       \<Rightarrow> (string + unit) \<times> session_manager" where
  "set_ai_status now sid working activity message m =
     (case hm_get (mgr_sessions m) sid of
        None \<Rightarrow> (Inl (not_found sid), m)
      | Some entry \<Rightarrow>
          if working \<and> \<not> se_user_allows_ai entry
          then (Inl ''Cannot set working=true: user has not allowed AI for this session'', m)
          else (Inr (), m\<lparr>mgr_sessions := hm_modify sid (\<lambda>e.
            if working then e\<lparr>se_ai_is_working := working, se_ai_activity := activity,
                 se_ai_status_message := message, se_ai_last_activity := Some now\<rparr>
            else e\<lparr>se_ai_is_working := working, se_ai_activity := None,
                 se_ai_status_message := None, se_ai_last_activity := None\<rparr>) (mgr_sessions m)\<rparr>))"

definition session_count :: "session_manager \<Rightarrow> nat" where
  "session_count m = length (mgr_sessions m)"

record session_list_item =
  li_session_id :: string
  li_pid :: u32
  li_persistent :: bool
  li_pty :: bool
  li_kind :: string
  li_attached :: bool
  li_status :: string
  li_exit_code :: "int option"
  li_idle :: bool
  li_idle_timeout :: nat
  li_name :: "string option"
  li_created_at :: u64
  li_user_allows_ai :: bool
  li_ai_is_working :: bool
  li_ai_activity :: "string option"
  li_ai_status_message :: "string option"

definition list_item :: "instant \<Rightarrow> string \<times> session_entry \<Rightarrow> session_list_item" where
  "list_item now x =
     (let (sid, e) = x; s = se_session e; is_attached = (se_attached_count e > 0)
      in \<lparr>li_session_id = sid, li_pid = ms_pid s, li_persistent = se_persistent e, li_pty = is_pty s,
          li_kind = kind_as_str (se_kind e), li_attached = is_attached,
          li_status = (case ms_status s of Running \<Rightarrow> ''running'' | Exited \<Rightarrow> ''exited''),
          li_exit_code = ms_exit_code s,
          li_idle = (\<not> is_attached \<and> elapsed now (se_last_activity e) > from_secs 60),
          li_idle_timeout = se_idle_timeout e, li_name = se_name e, li_created_at = se_created_at e,
          li_user_allows_ai = se_user_allows_ai e, li_ai_is_working = se_ai_is_working e,
          li_ai_activity = se_ai_activity e, li_ai_status_message = se_ai_status_message e\<rparr>)"

definition list_sessions :: "instant \<Rightarrow> session_manager \<Rightarrow> session_list_item list" where
  "list_sessions now m = map (list_item now) (mgr_sessions m)"

definition resize_session :: "bool \<Rightarrow> string \<Rightarrow> session_manager \<Rightarrow> string + unit" where
  "resize_session ioctl_ok sid m =
     (case hm_get (mgr_sessions m) sid of
        None \<Rightarrow> Inl (not_found sid)
      | Some e \<Rightarrow> resize ioctl_ok (se_session e))"

subsection \<open>Recovery and sweep\<close>

definition recovered_entry :: "(output_entry \<Rightarrow> push_env) \<Rightarrow> instant \<Rightarrow> nat \<Rightarrow> archived_session \<Rightarrow> session_entry" where
  "recovered_entry env now buffer_size arch =
     (let buf = push_all (map (\<lambda>e. (env e, oe_stream e, oe_data e)) (ar_entries arch))
                  (new_buffer buffer_size)
      in \<lparr>se_session = archived buf (ar_exit_code arch), se_kind = Terminal,
          se_persistent = sm_persistent (ar_metadata arch), se_last_activity = now,
          se_attached_count = 0, se_idle_timeout = 0, se_name = None,
          se_created_at = sm_created (ar_metadata arch), se_user_allows_ai = True,
          se_ai_is_working = False, se_ai_activity = None, se_ai_status_message = None,
          se_ai_last_activity = None\<rparr>)"

definition load_archived ::
    "(output_entry \<Rightarrow> push_env) \<Rightarrow> instant \<Rightarrow> nat \<Rightarrow> archived_session list \<Rightarrow> (string, session_entry) hmap
       \<Rightarrow> (string, session_entry) hmap" where
  "load_archived env now buffer_size archs sessions =
     fold (\<lambda>a m. if ar_exit_code a \<noteq> None then m
                 else hm_insert (ar_session_id a) (recovered_entry env now buffer_size a) m)
       archs sessions"

definition trim_oldest :: "nat \<Rightarrow> (string, session_entry) hmap \<Rightarrow> (string, session_entry) hmap" where
  "trim_oldest max_sessions sessions =
     (if length sessions > max_sessions
      then (let excess = length sessions - max_sessions;
                ids_by_created = sort_key snd (map (\<lambda>(sid, e). (sid, se_created_at e)) sessions)
            in hm_remove_all (map fst (take excess ids_by_created)) sessions)
      else sessions)"

definition recover_from_journal ::
    "(output_entry \<Rightarrow> push_env) \<Rightarrow> instant \<Rightarrow> archived_session list \<Rightarrow> session_manager \<Rightarrow> session_manager" where
  "recover_from_journal env now archs m =
     (if archs = [] then m
      else m\<lparr>mgr_sessions := trim_oldest (mgr_max_sessions m)
               (load_archived env now (mgr_buffer_size m) archs (mgr_sessions m))\<rparr>)"

definition ai_idle :: "instant \<Rightarrow> session_entry \<Rightarrow> bool" where
  "ai_idle now e \<longleftrightarrow> se_ai_is_working e \<and>
     (case se_ai_last_activity e of None \<Rightarrow> False
      | Some last_at \<Rightarrow> elapsed now last_at > from_secs 60)"

definition ai_clear :: "instant \<Rightarrow> session_entry \<Rightarrow> session_entry" where
  "ai_clear now e =
     (if ai_idle now e
      then e\<lparr>se_ai_is_working := False, se_ai_activity := None, se_ai_status_message := None,
             se_ai_last_activity := None\<rparr>
      else e)"

definition idle_expired :: "instant \<Rightarrow> session_entry \<Rightarrow> bool" where
  "idle_expired now e \<longleftrightarrow> se_idle_timeout e > 0 \<and> se_attached_count e = 0 \<and>
     elapsed now (se_last_activity e) > from_secs (se_idle_timeout e)"

definition observed_exited :: "(string \<Rightarrow> bool) \<Rightarrow> string \<times> session_entry \<Rightarrow> bool" where
  "observed_exited contended x \<longleftrightarrow>
     \<not> contended (fst x) \<and> ms_status (se_session (snd x)) = Exited"

definition sweep ::
    "instant \<Rightarrow> (string \<Rightarrow> bool) \<Rightarrow> kill_env \<Rightarrow> session_manager
       \<Rightarrow> sweep_event list \<times> session_manager \<times> os_call list" where
  "sweep now contended k m =
     (if mgr_sessions m = [] then ([], m, [])
      else
        (let cleared = map (AiAutoCleared \<circ> fst) (filter (ai_idle now \<circ> snd) (mgr_sessions m));
             s1 = hm_map_values (ai_clear now) (mgr_sessions m);
             dead = filter (observed_exited contended) s1;
             s2 = hm_remove_all (map fst dead) s1;
             expired = filter (idle_expired now \<circ> snd) s2;
             s3 = hm_remove_all (map fst expired) s2
         in (cleared
             @ map (\<lambda>x. Destroyed (fst x) ''exited'') dead
             @ map (\<lambda>x. Destroyed (fst x) ''idle_timeout'') expired,
             m\<lparr>mgr_sessions := s3\<rparr>,
             concat (map (abort_tasks \<circ> se_session \<circ> snd) dead)
             @ concat (map (\<lambda>x. kill_entry k (fst x) (snd x)) expired))))"

end
