(* ===== verification/Session_Props.thy ===== *)
theory Session_Props
  imports Session_Manager "HOL-Library.Multiset"
begin

text \<open>
  The session pool as a state machine over all of its operations and over the steps of the
  background tasks of its sessions, with the invariants that hold in every run: the pool never
  exceeds \<open>max_sessions\<close>, and an AI works in a session only with the user's permission. Then the
  exact effect of the periodic sweep, of recovery, and of killing and signalling.
\<close>

datatype mgr_op =
    OpCreate create_env string string "env_vars option" bool bool u16 u16 nat "string option"
      "string option" session_kind bool
  | OpSend string string
  | OpExec string string
  | OpTouchAi instant string
  | OpKill kill_env string
  | OpKillAll
  | OpAttach instant string
  | OpAttachShared instant string
  | OpDetach instant string
  | OpDetachAll instant "string list"
  | OpRename string string
  | OpAllowAi string bool
  | OpAiStatus instant string bool "string option" "string option"
  | OpRecover "output_entry \<Rightarrow> push_env" instant "archived_session list"
  | OpSweep instant "string \<Rightarrow> bool" kill_env
  | OpOutput string push_env output_stream string
  | OpExit string push_env "string + int option"

text \<open>A step of a background task acts on the session its handles point to.\<close>

definition on_session :: "string \<Rightarrow> (managed_session \<Rightarrow> managed_session) \<Rightarrow> session_manager \<Rightarrow> session_manager" where
  "on_session sid f m =
     m\<lparr>mgr_sessions := hm_modify sid (\<lambda>e. e\<lparr>se_session := f (se_session e)\<rparr>) (mgr_sessions m)\<rparr>"

fun mgr_step :: "mgr_op \<Rightarrow> session_manager \<Rightarrow> session_manager" where
  "mgr_step (OpCreate c sh wd env p pty r co it n cmd kd ev) m =
     snd (create_session_inner c sh wd env p pty r co it n cmd kd ev m)"
| "mgr_step (OpSend sid d) m = snd (send_to_session sid d m)"
| "mgr_step (OpExec sid c) m = snd (exec_command sid c m)"
| "mgr_step (OpTouchAi now sid) m = touch_ai_activity now sid m"
| "mgr_step (OpKill k sid) m = fst (snd (kill_session k sid m))"
| "mgr_step OpKillAll m = fst (kill_all m)"
| "mgr_step (OpAttach now sid) m = snd (attach now sid m)"
| "mgr_step (OpAttachShared now sid) m = snd (attach_shared now sid m)"
| "mgr_step (OpDetach now sid) m = detach now sid m"
| "mgr_step (OpDetachAll now sids) m = detach_all now sids m"
| "mgr_step (OpRename sid n) m = snd (rename_session sid n m)"
| "mgr_step (OpAllowAi sid a) m = snd (set_user_allows_ai sid a m)"
| "mgr_step (OpAiStatus now sid w a msg) m = snd (set_ai_status now sid w a msg m)"
| "mgr_step (OpRecover env now archs) m = recover_from_journal env now archs m"
| "mgr_step (OpSweep now cont k) m = fst (snd (sweep now cont k m))"
| "mgr_step (OpOutput sid env st d) m = on_session sid (reader_step env st d) m"
| "mgr_step (OpExit sid env w) m = on_session sid (\<lambda>s. fst (exit_watcher sid env w s)) m"

definition mgr_run :: "mgr_op list \<Rightarrow> session_manager \<Rightarrow> session_manager" where
  "mgr_run ops m = fold mgr_step ops m"

subsection \<open>The pool is bounded\<close>

definition pool_inv :: "session_manager \<Rightarrow> bool" where
  "pool_inv m \<longleftrightarrow> hm_wf (mgr_sessions m) \<and> length (mgr_sessions m) \<le> mgr_max_sessions m"

text \<open>An operation either maps over the pool or only removes from it.\<close>

lemma pool_inv_modify [intro]:
  "pool_inv m \<Longrightarrow> pool_inv (m\<lparr>mgr_sessions := hm_modify k f (mgr_sessions m)\<rparr>)"
  by (simp add: pool_inv_def hm.wf_modify hm.len_modify)

lemma pool_inv_modify_all [intro]:
  "pool_inv m \<Longrightarrow> pool_inv (m\<lparr>mgr_sessions := fold (\<lambda>k. hm_modify k f) ks (mgr_sessions m)\<rparr>)"
  by (simp add: pool_inv_def hm.wf_modify_all hm.len_modify_all)

lemma pool_inv_remove [intro]:
  "pool_inv m \<Longrightarrow> pool_inv (m\<lparr>mgr_sessions := hm_remove k (mgr_sessions m)\<rparr>)"
  using hm.len_remove_le [of k "mgr_sessions m"]
  by (auto simp: pool_inv_def hm.wf_remove)

lemma load_archived_wf: "hm_wf s \<Longrightarrow> hm_wf (load_archived env now b archs s)"
  by (induction archs arbitrary: s) (auto simp: load_archived_def hm.wf_insert)

lemma trim_keys:
  fixes s :: "(string, session_entry) hmap"
  assumes "hm_wf s"
  shows "distinct (map fst (take n (sort_key snd (map (\<lambda>(sid, e). (sid, se_created_at e)) s))))"
    and "set (map fst (take n (sort_key snd (map (\<lambda>(sid, e). (sid, se_created_at e)) s)))) \<subseteq> fst ` set s"
proof -
  let ?ids = "map (\<lambda>(sid, e). (sid, se_created_at e)) s"
  have fst_ids: "map fst ?ids = map fst s" by (simp add: split_beta)
  have "distinct (map fst (sort_key snd ?ids))"
  proof -
    have "mset (map fst (sort_key snd ?ids)) = image_mset fst (mset ?ids)"
      by (simp only: mset_map mset_sort)
    also have "\<dots> = mset (map fst s)"
      by (simp only: mset_map [symmetric] fst_ids)
    finally have "mset (map fst (sort_key snd ?ids)) = mset (map fst s)" .
    moreover have "distinct (map fst s)" using assms by (simp add: hm_wf_def)
    ultimately show ?thesis by (metis mset_eq_imp_distinct_iff)
  qed
  then show "distinct (map fst (take n (sort_key snd ?ids)))"
    by (simp only: take_map [symmetric] distinct_take)
  have "set (take n (sort_key snd ?ids)) \<subseteq> set ?ids"
    using set_take_subset [of n "sort_key snd ?ids"] by simp
  then show "set (map fst (take n (sort_key snd ?ids))) \<subseteq> fst ` set s"
    by (force simp: image_iff)
qed

lemma trim_oldest_wf: "hm_wf s \<Longrightarrow> hm_wf (trim_oldest n s)"
  by (simp add: trim_oldest_def Let_def hm_wf_remove_all)

lemma trim_oldest_length: "hm_wf s \<Longrightarrow> length (trim_oldest n s) = min n (length s)"
proof (cases "length s > n")
  case True
  assume wf: "hm_wf s"
  note k = trim_keys [OF wf, of "length s - n"]
  from hm_length_remove_all [OF wf k] True show ?thesis
    by (simp add: trim_oldest_def Let_def)
next
  case False
  then show ?thesis by (simp add: trim_oldest_def)
qed

lemma pool_inv_create:
  assumes "pool_inv m"
  shows "pool_inv (snd (create_session_inner c sh wd env p pty r co it n cmd kd ev m))"
  using assms
  by (auto simp: create_session_inner_def pool_inv_def Let_def hm.wf_insert hm.len_insert
      split: sum.splits)

lemma pool_inv_sweep: "pool_inv m \<Longrightarrow> pool_inv (fst (snd (sweep now cont k m)))"
proof -
  assume inv: "pool_inv m"
  have "length (hm_remove_all ks (hm_remove_all js (hm_map_values f (mgr_sessions m))))
      \<le> length (mgr_sessions m)" for ks js f
    using hm_length_remove_all_le le_trans hm_length_map_values by metis
  with inv show ?thesis
    by (auto simp: sweep_def pool_inv_def Let_def hm_wf_remove_all intro: le_trans)
qed

lemma sweep_frame [simp]:
  "mgr_max_sessions (fst (snd (sweep now cont k m))) = mgr_max_sessions m"
  by (simp add: sweep_def Let_def)

lemma pool_step: "pool_inv m \<Longrightarrow> pool_inv (mgr_step op m)"
proof (cases op)
  case OpCreate
  moreover assume "pool_inv m"
  ultimately show ?thesis by (simp add: pool_inv_create)
next
  case OpSweep
  moreover assume "pool_inv m"
  ultimately show ?thesis by (simp add: pool_inv_sweep)
next
  case (OpRecover env now archs)
  moreover assume "pool_inv m"
  ultimately show ?thesis
    by (simp add: recover_from_journal_def pool_inv_def trim_oldest_wf trim_oldest_length
        load_archived_wf)
qed (auto simp: send_to_session_def exec_command_def touch_ai_activity_def kill_session_def
      kill_all_def attach_def attach_shared_def detach_def detach_all_def rename_session_def
      set_user_allows_ai_def set_ai_status_def on_session_def Let_def case_prod_beta pool_inv_def [of "_\<lparr>mgr_sessions := []\<rparr>"]
      split: option.splits)

interpretation pool: invariant_machine mgr_step "\<lambda>_ _. True" pool_inv
  by unfold_locales (rule pool_step)

lemma mgr_step_frame: "mgr_max_sessions (mgr_step op m) = mgr_max_sessions m"
  by (cases op)
    (auto simp: create_session_inner_def send_to_session_def exec_command_def touch_ai_activity_def
      kill_session_def kill_all_def attach_def attach_shared_def detach_def detach_all_def
      rename_session_def set_user_allows_ai_def set_ai_status_def on_session_def
      recover_from_journal_def Let_def case_prod_beta split: option.splits sum.splits)

text \<open>
  C10. The session limit holds in every run: starting from an empty pool, whatever operations
  clients, the sweeper, recovery and the background tasks perform, in any order, the pool never
  holds more than \<open>max_sessions\<close> sessions.
\<close>

theorem session_limit:
  "length (mgr_sessions (mgr_run ops (new_manager n b))) \<le> n"
proof -
  have max: "mgr_max_sessions (mgr_run ops m) = mgr_max_sessions m" for m
  proof (induction ops arbitrary: m)
    case Nil
    show ?case by (simp add: mgr_run_def)
  next
    case (Cons op ops)
    then show ?case by (simp add: mgr_run_def mgr_step_frame)
  qed
  have "pool_inv (pool.run ops (new_manager n b))"
    by (rule pool.run_invar_all) (simp_all add: pool_inv_def new_manager_def)
  then have "pool_inv (mgr_run ops (new_manager n b))"
    by (simp add: pool.run_fold mgr_run_def)
  with max show ?thesis by (simp add: pool_inv_def new_manager_def)
qed

subsection \<open>The AI works only with permission\<close>

definition ai_entry_inv :: "session_entry \<Rightarrow> bool" where
  "ai_entry_inv e \<longleftrightarrow> (se_ai_is_working e \<longrightarrow> se_user_allows_ai e) \<and>
     (\<not> se_ai_is_working e \<longrightarrow> se_ai_activity e = None \<and> se_ai_status_message e = None)"

definition ai_inv :: "session_manager \<Rightarrow> bool" where
  "ai_inv m \<longleftrightarrow> hm_wf (mgr_sessions m) \<and> hm_all ai_entry_inv (mgr_sessions m)"

lemma ai_entry_keep:
  "ai_entry_inv e \<Longrightarrow> ai_entry_inv (e\<lparr>se_session := x\<rparr>)"
  "ai_entry_inv e \<Longrightarrow> ai_entry_inv (e\<lparr>se_attached_count := c, se_last_activity := t\<rparr>)"
  "ai_entry_inv e \<Longrightarrow> ai_entry_inv (e\<lparr>se_name := nm\<rparr>)"
  "ai_entry_inv e \<Longrightarrow> ai_entry_inv (e\<lparr>se_ai_last_activity := l\<rparr>)"
  "ai_entry_inv e \<Longrightarrow> ai_entry_inv (detach_entry t e)"
  "ai_entry_inv e \<Longrightarrow> ai_entry_inv (ai_clear t e)"
  by (auto simp: ai_entry_inv_def detach_entry_def ai_clear_def)

lemma ai_inv_modify:
  "ai_inv m \<Longrightarrow> (\<And>e. ai_entry_inv e \<Longrightarrow> ai_entry_inv (f e))
     \<Longrightarrow> ai_inv (m\<lparr>mgr_sessions := hm_modify k f (mgr_sessions m)\<rparr>)"
  by (simp add: ai_inv_def hm.wf_modify hm_all_modify)

lemma ai_inv_modify_at:
  "ai_inv m \<Longrightarrow> (\<And>e. hm_get (mgr_sessions m) k = Some e \<Longrightarrow> ai_entry_inv e \<Longrightarrow> ai_entry_inv (f e))
     \<Longrightarrow> ai_inv (m\<lparr>mgr_sessions := hm_modify k f (mgr_sessions m)\<rparr>)"
  unfolding ai_inv_def
  by (auto simp: hm.wf_modify intro!: hm_all_modify_at dest: hm_all_get)

lemma ai_inv_allow: "ai_inv m \<Longrightarrow> ai_inv (snd (set_user_allows_ai sid a m))"
  by (auto simp: set_user_allows_ai_def ai_entry_inv_def Let_def split: option.splits
      intro!: ai_inv_modify_at)

lemma ai_inv_status: "ai_inv m \<Longrightarrow> ai_inv (snd (set_ai_status now sid w act msg m))"
  by (auto simp: set_ai_status_def ai_entry_inv_def split: option.splits intro!: ai_inv_modify_at)

lemma ai_inv_create:
  "ai_inv m \<Longrightarrow> ai_inv (snd (create_session_inner c sh wd env p pty r co it n cmd kd ev m))"
  by (auto simp: create_session_inner_def ai_inv_def ai_entry_inv_def Let_def hm.wf_insert
      split: sum.splits intro!: hm_all_insert)

lemma load_archived_all:
  assumes "\<And>a. ar_exit_code a = None \<Longrightarrow> P (recovered_entry env now b a)"
  shows "hm_all P s \<Longrightarrow> hm_all P (load_archived env now b archs s)"
  by (induction archs arbitrary: s) (auto simp: load_archived_def hm_all_insert assms)

lemma trim_oldest_all: "hm_all P s \<Longrightarrow> hm_all P (trim_oldest n s)"
  by (simp add: trim_oldest_def Let_def hm_all_remove_all)

lemma ai_step: "ai_inv m \<Longrightarrow> ai_inv (mgr_step op m)"
proof (cases op)
  case (OpRecover env now archs)
  moreover assume "ai_inv m"
  moreover have "ai_entry_inv (recovered_entry env now b a)" for b a
    by (simp add: recovered_entry_def ai_entry_inv_def Let_def)
  ultimately show ?thesis
    by (simp add: recover_from_journal_def ai_inv_def trim_oldest_wf load_archived_wf
        trim_oldest_all load_archived_all)
next
  case OpSweep
  moreover assume "ai_inv m"
  ultimately show ?thesis
    by (auto simp: sweep_def ai_inv_def Let_def hm_wf_remove_all
        intro!: hm_all_remove_all hm_all_map_values ai_entry_keep)
next
  case (OpTouchAi now sid)
  moreover assume "ai_inv m"
  ultimately show ?thesis
    by (auto simp: touch_ai_activity_def intro!: ai_inv_modify ai_entry_keep)
next
  case (OpDetachAll now sids)
  moreover assume "ai_inv m"
  ultimately show ?thesis
    by (simp add: detach_all_def ai_inv_def hm.wf_modify_all hm_all_modify_all ai_entry_keep)
next
  case (OpKill k sid)
  moreover assume "ai_inv m"
  ultimately show ?thesis
    by (auto simp: kill_session_def ai_inv_def hm.wf_remove hm_all_remove split: option.splits)
qed (auto simp: send_to_session_def exec_command_def kill_all_def attach_def attach_shared_def
      detach_def rename_session_def on_session_def Let_def case_prod_beta
      ai_inv_def [of "_\<lparr>mgr_sessions := []\<rparr>"]
      split: option.splits
      intro!: ai_inv_modify ai_entry_keep ai_inv_create ai_inv_allow ai_inv_status)

interpretation ai: invariant_machine mgr_step "\<lambda>_ _. True" ai_inv
  by unfold_locales (rule ai_step)

text \<open>
  C14. Human control of the AI: in every run of the pool, a session in which the AI is marked as
  working is one whose user allows AI, and a session in which it is not working carries no stale
  activity or status message (\<open>ai_entry_inv\<close>).
\<close>

theorem ai_needs_permission:
  "hm_all ai_entry_inv (mgr_sessions (mgr_run ops (new_manager n b)))"
proof -
  have "ai_inv (ai.run ops (new_manager n b))"
    by (rule ai.run_invar_all) (simp_all add: ai_inv_def new_manager_def)
  then show ?thesis by (simp add: ai.run_fold mgr_run_def ai_inv_def)
qed

subsection \<open>The sweep\<close>

lemma observed_exited_ai_clear [simp]:
  "observed_exited c (sid, ai_clear t e) = observed_exited c (sid, e)"
  by (simp add: observed_exited_def ai_clear_def)

lemma idle_expired_ai_clear [simp]: "idle_expired now (ai_clear t e) = idle_expired now e"
  by (simp add: idle_expired_def ai_clear_def)

lemma key_in_filter:
  "hm_wf m \<Longrightarrow> k \<in> fst ` {x \<in> set m. P x} \<longleftrightarrow> (\<exists>v. hm_get m k = Some v \<and> P (k, v))"
  by (force simp: hm_get_iff_set)

lemma sweep_get:
  assumes "hm_wf (mgr_sessions m)"
  shows "hm_get (mgr_sessions (fst (snd (sweep now contended k m)))) sid =
    (case hm_get (mgr_sessions m) sid of
       None \<Rightarrow> None
     | Some e \<Rightarrow> if observed_exited contended (sid, e) \<or> idle_expired now e then None
                 else Some (ai_clear now e))"
proof (cases "mgr_sessions m = []")
  case True
  then show ?thesis by (simp add: sweep_def)
next
  case False
  let ?s1 = "hm_map_values (ai_clear now) (mgr_sessions m)"
  let ?s2 = "hm_remove_all (map fst (filter (observed_exited contended) ?s1)) ?s1"
  let ?s3 = "hm_remove_all (map fst (filter (idle_expired now \<circ> snd) ?s2)) ?s2"
  have s: "mgr_sessions (fst (snd (sweep now contended k m))) = ?s3"
    using False by (simp add: sweep_def Let_def)
  have wf1: "hm_wf ?s1" using assms by simp
  then have wf2: "hm_wf ?s2" by (rule hm_wf_remove_all)
  have g1: "hm_get ?s1 sid = map_option (ai_clear now) (hm_get (mgr_sessions m) sid)"
    by (rule hm_get_map_values)
  have "hm_get ?s2 sid = (if \<exists>v. hm_get ?s1 sid = Some v \<and> observed_exited contended (sid, v)
      then None else hm_get ?s1 sid)"
    using key_in_filter [OF wf1, of sid "observed_exited contended"]
    by (simp add: hm_get_remove_all)
  with g1 have g2: "hm_get ?s2 sid = (case hm_get (mgr_sessions m) sid of None \<Rightarrow> None
      | Some e \<Rightarrow> if observed_exited contended (sid, e) then None else Some (ai_clear now e))"
    by (auto split: option.splits)
  have "hm_get ?s3 sid = (if \<exists>v. hm_get ?s2 sid = Some v \<and> idle_expired now v
      then None else hm_get ?s2 sid)"
    using key_in_filter [OF wf2, of sid "idle_expired now \<circ> snd"]
    by (simp add: hm_get_remove_all)
  with g2 show ?thesis unfolding s by (auto split: option.splits if_splits)
qed


text \<open>Concrete sessions for the examples: a running shell, and the kill environment of one that never exits.\<close>

definition sample_entry :: session_entry where
  "sample_entry =
     \<lparr>se_session = \<lparr>ms_pid = 10, ms_pgid = 10, ms_buffer = new_buffer 4, ms_status = Running,
        ms_exit_code = None, ms_stdin = [], ms_stdin_open = True, ms_tasks = 4,
        ms_pty_master = False, ms_exit_events = False\<rparr>,
      se_kind = Terminal, se_persistent = True, se_last_activity = 0, se_attached_count = 0,
      se_idle_timeout = 30, se_name = None, se_created_at = 1, se_user_allows_ai = True,
      se_ai_is_working = False, se_ai_activity = None, se_ai_status_message = None,
      se_ai_last_activity = None\<rparr>"

definition sample_kill :: kill_env where
  "sample_kill = \<lparr>ke_exited = (\<lambda>_ _. False), ke_lag = (\<lambda>_ _. 0), ke_now = (\<lambda>_. 0)\<rparr>"

definition sample_manager :: session_manager where
  "sample_manager =
     \<lparr>mgr_sessions = [(''a'', sample_entry), (''b'', sample_entry\<lparr>se_idle_timeout := 0\<rparr>)],
      mgr_max_sessions = 2, mgr_buffer_size = 4, mgr_data_dir = None\<rparr>"


lemma sweep_events:
  assumes "hm_wf (mgr_sessions m)"
  shows "Destroyed sid ''exited'' \<in> set (fst (sweep now contended k m)) \<longleftrightarrow>
    (\<exists>e. hm_get (mgr_sessions m) sid = Some e \<and> observed_exited contended (sid, e))"
proof (cases "mgr_sessions m = []")
  case True
  then show ?thesis by (simp add: sweep_def)
next
  case False
  let ?s1 = "hm_map_values (ai_clear now) (mgr_sessions m)"
  have "Destroyed sid ''exited'' \<in> set (fst (sweep now contended k m)) \<longleftrightarrow>
      sid \<in> fst ` {x \<in> set ?s1. observed_exited contended x}"
    using False by (force simp: sweep_def Let_def)
  also have "\<dots> \<longleftrightarrow> (\<exists>v. hm_get ?s1 sid = Some v \<and> observed_exited contended (sid, v))"
    using assms by (intro key_in_filter) simp
  also have "\<dots> \<longleftrightarrow> (\<exists>e. hm_get (mgr_sessions m) sid = Some e \<and> observed_exited contended (sid, e))"
    by (auto simp: hm_get_map_values)
  finally show ?thesis .
qed

subsection \<open>Recovery\<close>

lemma recovered_exited: "ms_status (se_session (recovered_entry env now b a)) = Exited"
  by (simp add: recovered_entry_def archived_def Let_def)

lemma hm_empty_iff: "m = [] \<longleftrightarrow> (\<forall>k. hm_get m k = None)"
proof
  assume none: "\<forall>k. hm_get m k = None"
  show "m = []"
  proof (cases m)
    case (Cons x xs)
    with none [rule_format, of "fst x"] show ?thesis by (cases x) (simp add: hm_get_Cons)
  qed
qed simp

text \<open>
  A recovered session does not survive the first sweep: recovery marks every session it loads
  as exited, so the next sweep whose status locks are free empties the recovered pool. The comment
  on \<open>recover_from_journal\<close> gives this as the reason for skipping sessions that had exited; it
  holds of the sessions that are loaded as well.
\<close>

theorem recovered_sessions_swept:
  "mgr_sessions (fst (snd (sweep now' (\<lambda>_. False) k
     (recover_from_journal env now archs (new_manager n b))))) = []"
proof -
  let ?m = "recover_from_journal env now archs (new_manager n b)"
  have "hm_all (\<lambda>e. ms_status (se_session e) = Exited) (mgr_sessions ?m)"
    by (simp add: recover_from_journal_def new_manager_def trim_oldest_all load_archived_all
        recovered_exited)
  then have ex: "ms_status (se_session e) = Exited" if "hm_get (mgr_sessions ?m) sid = Some e" for sid e
    using that by (rule hm_all_get)
  have wf: "hm_wf (mgr_sessions ?m)"
    by (simp add: recover_from_journal_def new_manager_def trim_oldest_wf load_archived_wf)
  show ?thesis
    unfolding hm_empty_iff
    using ex by (auto simp: sweep_get [OF wf] observed_exited_def split: option.splits)
qed

text \<open>
  Over capacity, recovery drops the oldest sessions: every session it drops was created no
  later than any session it keeps.
\<close>

theorem trim_keeps_newest:
  assumes "hm_wf s" and "hm_get s a = Some ea" and "hm_get (trim_oldest n s) a = None"
    and "hm_get (trim_oldest n s) c = Some ec"
  shows "se_created_at ea \<le> se_created_at ec"
proof (cases "length s > n")
  case False
  with assms show ?thesis by (simp add: trim_oldest_def)
next
  case True
  let ?ids = "map (\<lambda>(sid, e). (sid, se_created_at e)) s"
  let ?sorted = "sort_key snd ?ids" and ?x = "length s - n"
  have t: "trim_oldest n s = hm_remove_all (map fst (take ?x ?sorted)) s"
    using True by (simp add: trim_oldest_def Let_def)
  from assms(2,3) have "a \<in> fst ` set (take ?x ?sorted)"
    by (auto simp: t hm_get_remove_all split: if_splits)
  then obtain va where va: "(a, va) \<in> set (take ?x ?sorted)" by auto
  from assms(4) have gc: "hm_get s c = Some ec" and nc: "c \<notin> fst ` set (take ?x ?sorted)"
    by (auto simp: t hm_get_remove_all split: if_splits)
  have "(c, se_created_at ec) \<in> set ?sorted"
    using gc by (force simp: dest: hm_get_Some_set)
  moreover have "set ?sorted = set (take ?x ?sorted) \<union> set (drop ?x ?sorted)"
    by (metis append_take_drop_id set_append)
  ultimately have vc: "(c, se_created_at ec) \<in> set (drop ?x ?sorted)"
    using nc by force
  have "(a, va) \<in> set ?ids" using va by (metis in_set_takeD set_sort)
  then obtain b where "(a, b) \<in> set s" and "va = se_created_at b" by auto
  then have "va = se_created_at ea"
    using assms(2) hm_get_iff_set [OF assms(1), of a b] by simp
  moreover have "va \<le> se_created_at ec"
  proof -
    have "sorted (map snd (take ?x ?sorted) @ map snd (drop ?x ?sorted))"
      by (metis append_take_drop_id map_append sorted_sort_key)
    then show ?thesis using va vc by (force simp: sorted_append)
  qed
  ultimately show ?thesis by simp
qed

theorem trim_keeps_newest_witness:
  "se_created_at sample_entry \<le> se_created_at (sample_entry\<lparr>se_created_at := 9\<rparr>)
   \<and> hm_get (trim_oldest 1 [(''new'', sample_entry\<lparr>se_created_at := 9\<rparr>), (''old'', sample_entry)]) ''old'' = None"
proof -
  let ?s = "[(''new'', sample_entry\<lparr>se_created_at := 9\<rparr>), (''old'', sample_entry)]"
  have t: "trim_oldest 1 ?s = [(''new'', sample_entry\<lparr>se_created_at := 9\<rparr>)]"
    by (simp add: trim_oldest_def sample_entry_def hm_remove_all_def hm_remove_def Let_def
        word_le_nat_alt)
  show ?thesis
    using trim_keeps_newest [of ?s "''old''" sample_entry 1 "''new''" "sample_entry\<lparr>se_created_at := 9\<rparr>"]
    unfolding t by (simp add: hm_get_Cons hm_wf_def)
qed

subsection \<open>Signals\<close>

text \<open>
  A signal to a recovered session goes to the server's own process group: an archived session
  has process group 0, \<open>send_signal\<close> does not guard against it (\<open>kill\<close> and \<open>graceful_kill\<close> do),
  and \<open>kill(0, signal)\<close> addresses every process in the group of the caller.
\<close>

theorem signal_recovered_hits_own_group:
  assumes "ar_exit_code a = None" and "0 < n"
  shows "snd (signal_session kill_ok (ar_session_id a) signal
     (recover_from_journal env now [a] (new_manager n b))) = [Kill 0 signal]"
proof -
  have "hm_get (mgr_sessions (recover_from_journal env now [a] (new_manager n b))) (ar_session_id a)
      = Some (recovered_entry env now b a)"
    using assms by (simp add: recover_from_journal_def new_manager_def load_archived_def
        trim_oldest_def hm_laws hm.len_insert)
  then show ?thesis
    by (simp add: signal_session_def send_signal_def recovered_entry_def archived_def Let_def
        neg_i32_def)
qed

definition sample_archive :: archived_session where
  "sample_archive =
     \<lparr>ar_session_id = ''s'',
      ar_metadata = \<lparr>sm_v = 1, sm_pid = 42, sm_shell = ''sh'', sm_working_dir = ''/'',
        sm_persistent = True, sm_pty = False, sm_created = 5\<rparr>,
      ar_entries = [], ar_exit_code = None\<rparr>"

theorem signal_recovered_hits_own_group_witness:
  "snd (signal_session True ''s'' SIGTERM
     (recover_from_journal (\<lambda>_. \<lparr>pe_clock = None, pe_accepted = False\<rparr>) 0 [sample_archive]
        (new_manager 20 1000))) = [Kill 0 SIGTERM]"
  using signal_recovered_hits_own_group [of sample_archive 20 True SIGTERM
      "\<lambda>_. \<lparr>pe_clock = None, pe_accepted = False\<rparr>" 0 1000]
  by (simp add: sample_archive_def)

text \<open>
  Graceful kill, for a session with a real process group: \<open>SIGTERM\<close> to the group comes first
  and the tasks are aborted last; \<open>SIGKILL\<close> follows only if the process was still running at least
  three seconds later, and is certain to follow if the process never exits (the loop ends).
\<close>

theorem graceful_kill_escalates:
  assumes "0 < pgid_i32 s"
  shows "\<exists>rest. graceful_kill exited lag now s
      = Kill (- pgid_i32 s) SIGTERM # rest @ [AbortTasks]
    \<and> set rest \<subseteq> {Kill (- pgid_i32 s) SIGKILL}
    \<and> (rest \<noteq> [] \<longrightarrow> (\<exists>t \<ge> now + from_secs 3. \<not> exited t))
    \<and> ((\<forall>t \<ge> now. \<not> exited t) \<longrightarrow> rest = [Kill (- pgid_i32 s) SIGKILL])"
proof -
  have neg: "neg_i32 (ms_pgid s) = - pgid_i32 s"
    using assms sint_pos_pgid by (simp add: pgid_i32_def)
  let ?late = "poll_exit exited lag 0 now (now + from_secs 3)"
  have "graceful_kill exited lag now s = Kill (- pgid_i32 s) SIGTERM
      # (if ?late then [Kill (- pgid_i32 s) SIGKILL] else []) @ [AbortTasks]"
    using assms by (simp add: graceful_kill_def neg)
  moreover have "?late \<longrightarrow> (\<exists>t \<ge> now + from_secs 3. \<not> exited t)"
    using poll_exit_True by blast
  moreover have "(\<forall>t \<ge> now. \<not> exited t) \<longrightarrow> ?late"
    using poll_exit_False by blast
  ultimately show ?thesis
    by (intro exI [of _ "if ?late then [Kill (- pgid_i32 s) SIGKILL] else []"]) auto
qed

theorem graceful_kill_escalates_witness:
  "\<exists>rest. graceful_kill (\<lambda>_. False) (\<lambda>_. 0) 0 (se_session sample_entry)
      = Kill (- 10) SIGTERM # rest @ [AbortTasks] \<and> rest = [Kill (- 10) SIGKILL]"
  using graceful_kill_escalates [of "se_session sample_entry" "\<lambda>_. False" "\<lambda>_. 0" 0]
  by (auto simp: pgid_i32_def sample_entry_def)

end
