(* ===== verification/Json.thy ===== *)
theory Json
  imports Prelude
begin

text \<open>
  \<open>serde_json::Value\<close> as far as the server inspects it. A number that is an integer is \<open>JNum\<close>, any
  other number \<open>JFloat\<close> with its text. Indexing with a key gives \<open>Null\<close> on a missing key and on a
  value that is not an object; assigning to a key turns \<open>Null\<close> into an object and panics on every
  other value that is not one. \<open>as_str\<close>, \<open>as_u64\<close>, \<open>as_array\<close> and \<open>as_object\<close> read a value of the
  right kind.
\<close>

datatype json =
    JNull
  | JBool bool
  | JNum int
  | JFloat string
  | JStr string
  | JArr "json list"
  | JObj "(string \<times> json) list"

definition json_index :: "json \<Rightarrow> string \<Rightarrow> json" where
  "json_index v k =
     (case v of
        JObj kvs \<Rightarrow> (case map_of kvs k of Some x \<Rightarrow> x | None \<Rightarrow> JNull)
      | _ \<Rightarrow> JNull)"

definition json_as_str :: "json \<Rightarrow> string option" where
  "json_as_str v = (case v of JStr s \<Rightarrow> Some s | _ \<Rightarrow> None)"

definition json_as_u64 :: "json \<Rightarrow> u64 option" where
  "json_as_u64 v = (case v of JNum i \<Rightarrow> if 0 \<le> i \<and> i < 2 ^ 64 then Some (word_of_int i) else None | _ \<Rightarrow> None)"

definition json_as_bool :: "json \<Rightarrow> bool option" where
  "json_as_bool v = (case v of JBool b \<Rightarrow> Some b | _ \<Rightarrow> None)"

definition json_as_array :: "json \<Rightarrow> json list option" where
  "json_as_array v = (case v of JArr vs \<Rightarrow> Some vs | _ \<Rightarrow> None)"

definition json_as_object :: "json \<Rightarrow> (string \<times> json) list option" where
  "json_as_object v = (case v of JObj kvs \<Rightarrow> Some kvs | _ \<Rightarrow> None)"

text \<open>\<open>Value::get(key)\<close>\<close>

definition json_get :: "json \<Rightarrow> string \<Rightarrow> json option" where
  "json_get v k = (case v of JObj kvs \<Rightarrow> map_of kvs k | _ \<Rightarrow> None)"

text \<open>\<open>v[k] = x\<close>\<close>

definition put_field :: "string \<Rightarrow> json \<Rightarrow> (string \<times> json) list \<Rightarrow> (string \<times> json) list" where
  "put_field k x kvs = (k, x) # filter (\<lambda>(k', _). k' \<noteq> k) kvs"

definition json_set :: "json \<Rightarrow> string \<Rightarrow> json \<Rightarrow> ('e, json) outcome" where
  "json_set v k x =
     (case v of
        JObj kvs \<Rightarrow> Ok (JObj (put_field k x kvs))
      | JNull \<Rightarrow> Ok (JObj [(k, x)])
      | _ \<Rightarrow> Panic ''cannot access key in JSON value'')"

definition is_record :: "json \<Rightarrow> bool" where
  "is_record v = (case v of JObj _ \<Rightarrow> True | JNull \<Rightarrow> True | _ \<Rightarrow> False)"

definition json_str_or :: "string \<Rightarrow> json \<Rightarrow> string" where
  "json_str_or d v = (case json_as_str v of None \<Rightarrow> d | Some s \<Rightarrow> s)"

named_theorems json_simps \<open>fields of JSON values\<close>

lemma map_of_put_field [json_simps]: "map_of (put_field k x kvs) k' = (if k' = k then Some x else map_of kvs k')"
  by (induction kvs) (auto simp: put_field_def)

lemma json_index_obj [json_simps]:
  "json_index (JObj kvs) k = (case map_of kvs k of Some x \<Rightarrow> x | None \<Rightarrow> JNull)"
  by (simp add: json_index_def)

lemma json_as_str_simps [json_simps]: "json_as_str (JStr s) = Some s" "json_as_str JNull = None"
  by (simp_all add: json_as_str_def)

lemma json_as_str_Some: "json_as_str v = Some s \<longleftrightarrow> v = JStr s"
  by (cases v) (auto simp: json_as_str_def)

lemma json_set_Ok:
  "json_set v k x = Ok w \<Longrightarrow>
     is_record v \<and> json_index w k = x \<and> (k' \<noteq> k \<longrightarrow> json_index w k' = json_index v k')"
  by (cases v) (auto simp: json_set_def is_record_def json_index_def map_of_put_field)

lemma json_set_cases:
  "json_set v k x = (if is_record v then Ok (JObj (put_field k x (case v of JObj kvs \<Rightarrow> kvs | _ \<Rightarrow> [])))
     else Panic ''cannot access key in JSON value'')"
  by (cases v) (auto simp: json_set_def is_record_def put_field_def)

lemma json_index_set_obj [json_simps]:
  "json_index (JObj (put_field k x kvs)) k' = (if k' = k then x else json_index (JObj kvs) k')"
  by (simp add: json_index_def map_of_put_field)

end
