(* ===== verification/Activity.thy ===== *)
theory Activity
  imports Json Hash_Map Seq_Ring
begin

text \<open>
  The activity journal (\<open>server/src/activity.rs\<close>) and its endpoints
  (\<open>server/src/routes/activity.rs\<close>): the ring of numbered entries with its filters, the broadcast
  of each new entry, and the cache of exec results.

  \<open>ActivityLog::log\<close> takes no lock until its last step: it draws the number from an atomic
  counter, broadcasts, and only then appends under the write lock. The three steps are separate
  definitions; \<open>log_activity\<close> composes them for a call that runs alone, and the relation
  \<open>log_reach\<close> interleaves the steps of concurrent calls.
\<close>

subsection \<open>Entries and sources\<close>

datatype activity_type =
    Exec | FileRead | FileWrite | FileList
  | SessionStart | SessionExec | SessionKill | SessionSignal
  | FileDelete | PlaybookList | PlaybookRead | PlaybookWrite | PlaybookDelete
  | WsConnect | WsDisconnect | TunnelConnect | TunnelDisconnect
  | TransferStart | TransferComplete

datatype activity_source = Mcp | Ws | Rest | Tunnel | Unknown

record activity_entry =
  ae_id :: u64
  ae_timestamp :: u64
  ae_type :: activity_type
  ae_source :: activity_source
  ae_summary :: string
  ae_detail :: "json option"
  ae_request_id :: "string option"

text \<open>The name \<open>serde(rename_all = "snake_case")\<close> gives each variant.\<close>

fun type_name :: "activity_type \<Rightarrow> string" where
  "type_name Exec = ''exec''"
| "type_name FileRead = ''file_read''"
| "type_name FileWrite = ''file_write''"
| "type_name FileList = ''file_list''"
| "type_name SessionStart = ''session_start''"
| "type_name SessionExec = ''session_exec''"
| "type_name SessionKill = ''session_kill''"
| "type_name SessionSignal = ''session_signal''"
| "type_name FileDelete = ''file_delete''"
| "type_name PlaybookList = ''playbook_list''"
| "type_name PlaybookRead = ''playbook_read''"
| "type_name PlaybookWrite = ''playbook_write''"
| "type_name PlaybookDelete = ''playbook_delete''"
| "type_name WsConnect = ''ws_connect''"
| "type_name WsDisconnect = ''ws_disconnect''"
| "type_name TunnelConnect = ''tunnel_connect''"
| "type_name TunnelDisconnect = ''tunnel_disconnect''"
| "type_name TransferStart = ''transfer_start''"
| "type_name TransferComplete = ''transfer_complete''"

fun source_name :: "activity_source \<Rightarrow> string" where
  "source_name Mcp = ''mcp''"
| "source_name Ws = ''ws''"
| "source_name Rest = ''rest''"
| "source_name Tunnel = ''tunnel''"
| "source_name Unknown = ''unknown''"

text \<open>\<open>ActivityType::from_str_opt\<close>, arm by arm in the order of the source.\<close>

definition type_from_str_opt :: "string \<Rightarrow> activity_type option" where
  "type_from_str_opt s = map_of
     [(''exec'', Exec), (''file_read'', FileRead), (''file_write'', FileWrite),
      (''file_list'', FileList), (''file_delete'', FileDelete),
      (''session_start'', SessionStart), (''session_exec'', SessionExec),
      (''session_kill'', SessionKill), (''session_signal'', SessionSignal),
      (''playbook_list'', PlaybookList), (''playbook_read'', PlaybookRead),
      (''playbook_write'', PlaybookWrite), (''playbook_delete'', PlaybookDelete),
      (''ws_connect'', WsConnect), (''ws_disconnect'', WsDisconnect),
      (''tunnel_connect'', TunnelConnect), (''tunnel_disconnect'', TunnelDisconnect),
      (''transfer_start'', TransferStart), (''transfer_complete'', TransferComplete)] s"

definition source_from_str_opt :: "string \<Rightarrow> activity_source option" where
  "source_from_str_opt s = map_of
     [(''mcp'', Mcp), (''ws'', Ws), (''rest'', Rest), (''tunnel'', Tunnel),
      (''unknown'', Unknown)] s"

text \<open>
  Request headers as a lookup by lower-case name; \<open>None\<close> also stands for a value that is not
  visible ASCII (\<open>to_str().ok()\<close>).
\<close>

type_synonym headers = "string \<Rightarrow> string option"

definition source_from_headers :: "headers \<Rightarrow> activity_source" where
  "source_from_headers hs =
     (case hs ''x-sctl-client'' of
        None \<Rightarrow> Rest
      | Some v \<Rightarrow> if v = ''mcp'' then Mcp else if v = ''tunnel'' then Tunnel else Rest)"

definition request_id_from_headers :: "headers \<Rightarrow> string option" where
  "request_id_from_headers hs = hs ''x-request-id''"

subsection \<open>The log\<close>

record activity_log =
  al_entries :: "activity_entry list"
  al_next_id :: u64
  al_max_entries :: nat
  al_broadcast :: "activity_entry list"

definition new_log :: "nat \<Rightarrow> activity_log" where
  "new_log n = \<lparr>al_entries = [], al_next_id = 1, al_max_entries = n, al_broadcast = []\<rparr>"

text \<open>The arguments of one call and the clock it reads (\<open>None\<close>: before the epoch).\<close>

record log_call =
  lc_type :: activity_type
  lc_source :: activity_source
  lc_summary :: string
  lc_detail :: "json option"
  lc_request_id :: "string option"
  lc_clock_ms :: "nat option"

definition log_entry :: "log_call \<Rightarrow> activity_log \<Rightarrow> activity_entry" where
  "log_entry c l =
     \<lparr>ae_id = al_next_id l,
      ae_timestamp = (case lc_clock_ms c of None \<Rightarrow> 0 | Some t \<Rightarrow> of_nat t),
      ae_type = lc_type c, ae_source = lc_source c, ae_summary = lc_summary c,
      ae_detail = lc_detail c, ae_request_id = lc_request_id c\<rparr>"

definition log_alloc :: "activity_log \<Rightarrow> activity_log" where
  "log_alloc l = l\<lparr>al_next_id := al_next_id l + 1\<rparr>"

definition log_broadcast :: "activity_entry \<Rightarrow> activity_log \<Rightarrow> activity_log" where
  "log_broadcast e l = l\<lparr>al_broadcast := al_broadcast l @ [e]\<rparr>"

definition log_append :: "activity_entry \<Rightarrow> activity_log \<Rightarrow> activity_log" where
  "log_append e l = l\<lparr>al_entries := ring_push (al_max_entries l) e (al_entries l)\<rparr>"

definition log_activity :: "log_call \<Rightarrow> activity_log \<Rightarrow> u64 \<times> activity_log" where
  "log_activity c l =
     (let e = log_entry c l in (ae_id e, log_append e (log_broadcast e (log_alloc l))))"

definition activity_read_since :: "u64 \<Rightarrow> nat \<Rightarrow> activity_log \<Rightarrow> activity_entry list" where
  "activity_read_since since limit l = take limit (filter (\<lambda>e. ae_id e > since) (al_entries l))"

definition entry_session :: "activity_entry \<Rightarrow> string option" where
  "entry_session e =
     (case ae_detail e of None \<Rightarrow> None | Some d \<Rightarrow> json_as_str (json_index d ''session_id''))"

definition read_since_filtered ::
  "u64 \<Rightarrow> nat \<Rightarrow> activity_type option \<Rightarrow> activity_source option \<Rightarrow> string option
     \<Rightarrow> activity_log \<Rightarrow> activity_entry list" where
  "read_since_filtered since limit ty src sid l =
     take limit
      (filter (\<lambda>e. case sid of None \<Rightarrow> True | Some s \<Rightarrow> entry_session e = Some s)
        (filter (\<lambda>e. case src of None \<Rightarrow> True | Some s \<Rightarrow> ae_source e = s)
          (filter (\<lambda>e. case ty of None \<Rightarrow> True | Some t \<Rightarrow> ae_type e = t)
            (filter (\<lambda>e. ae_id e > since) (al_entries l)))))"

subsection \<open>The endpoints\<close>

record activity_query =
  aq_since_id :: u64
  aq_limit :: nat
  aq_type :: "string option"
  aq_source :: "string option"
  aq_session_id :: "string option"

definition default_limit :: nat where
  "default_limit = 50"

definition get_activity :: "activity_query \<Rightarrow> activity_log \<Rightarrow> activity_entry list" where
  "get_activity q l =
     read_since_filtered (aq_since_id q) (min (aq_limit q) 200)
       (Option.bind (aq_type q) type_from_str_opt) (Option.bind (aq_source q) source_from_str_opt)
       (aq_session_id q) l"

subsection \<open>The cache of exec results\<close>

record exec_result =
  er_activity_id :: u64
  er_exit_code :: int
  er_stdout :: string
  er_stderr :: string
  er_duration_ms :: u64
  er_command :: string
  er_status :: string
  er_error_message :: "string option"

record exec_cache =
  ec_order :: "u64 list"
  ec_map :: "(u64, exec_result) hmap"
  ec_max_entries :: nat

definition new_cache :: "nat \<Rightarrow> exec_cache" where
  "new_cache n = \<lparr>ec_order = [], ec_map = [], ec_max_entries = n\<rparr>"

definition cache_store :: "exec_result \<Rightarrow> exec_cache \<Rightarrow> exec_cache" where
  "cache_store r c =
     (let c1 = (if length (ec_order c) \<ge> ec_max_entries c
                then case ec_order c of
                    [] \<Rightarrow> c
                  | old # rest \<Rightarrow> c\<lparr>ec_order := rest, ec_map := hm_remove old (ec_map c)\<rparr>
                else c)
      in c1\<lparr>ec_order := ec_order c1 @ [er_activity_id r],
            ec_map := hm_insert (er_activity_id r) r (ec_map c1)\<rparr>)"

definition cache_get :: "u64 \<Rightarrow> exec_cache \<Rightarrow> exec_result option" where
  "cache_get k c = hm_get (ec_map c) k"

definition get_exec_result :: "u64 \<Rightarrow> exec_cache \<Rightarrow> (nat \<times> string) + exec_result" where
  "get_exec_result k c =
     (case cache_get k c of Some r \<Rightarrow> Inr r | None \<Rightarrow> Inl (404, ''NOT_FOUND''))"

subsection \<open>Summaries\<close>

text \<open>
  \<open>truncate_str\<close> counts characters; here a string is the list of its characters, which on ASCII
  is the list of its bytes.
\<close>

function split_whitespace :: "string \<Rightarrow> string list" where
  "split_whitespace s =
     (case dropWhile is_ws s of
        [] \<Rightarrow> []
      | t \<Rightarrow> takeWhile (\<lambda>x. \<not> is_ws x) t # split_whitespace (dropWhile (\<lambda>x. \<not> is_ws x) t))"
  by pat_completeness auto

termination
proof (relation "measure length")
  fix s t :: string and c :: char and r :: string
  assume t: "dropWhile is_ws s = c # r"
  then have "\<not> is_ws c" by (metis dropWhile_eq_Cons_conv)
  then have "length (dropWhile (\<lambda>x. \<not> is_ws x) (c # r)) \<le> length r"
    by (simp add: length_dropWhile_le)
  also have "length r < length s"
    using length_dropWhile_le [of is_ws s] t by simp
  finally show "(dropWhile (\<lambda>x. \<not> is_ws x) (c # r), s) \<in> measure length" by simp
qed simp

declare split_whitespace.simps [simp del]

fun join_with :: "string \<Rightarrow> string list \<Rightarrow> string" where
  "join_with sep [] = []"
| "join_with sep [w] = w"
| "join_with sep (w # v # ws) = w @ sep @ join_with sep (v # ws)"

definition truncate_str :: "string \<Rightarrow> nat \<Rightarrow> string" where
  "truncate_str s n =
     (let cleaned = join_with '' '' (split_whitespace s)
      in if length cleaned \<le> n then cleaned else take (n - 3) cleaned @ ''...'')"

subsection \<open>Facts\<close>

lemma type_from_str_opt_name: "type_from_str_opt (type_name t) = Some t"
  by (cases t) (simp_all add: type_from_str_opt_def)

lemma source_from_str_opt_name: "source_from_str_opt (source_name t) = Some t"
  by (cases t) (simp_all add: source_from_str_opt_def)

lemma length_truncate_str: "length (truncate_str s n) \<le> max n 3"
  by (auto simp: truncate_str_def Let_def)

definition id_room :: "activity_log \<Rightarrow> bool" where
  "id_room l \<longleftrightarrow> Suc (unat (al_next_id l)) < 2 ^ 64"

interpretation al: seq_ring
  al_entries "\<lambda>l. unat (al_next_id l)" al_max_entries "\<lambda>e. unat (ae_id e)"
  "\<lambda>c l. snd (log_activity c l)" log_entry id_room
proof unfold_locales
  fix c :: log_call and l :: activity_log
  show "al_entries (snd (log_activity c l)) =
      ring_push (al_max_entries l) (log_entry c l) (al_entries l)"
    by (simp add: log_activity_def Let_def log_append_def log_broadcast_def log_alloc_def)
  show "al_max_entries (snd (log_activity c l)) = al_max_entries l"
    by (simp add: log_activity_def Let_def log_append_def log_broadcast_def log_alloc_def)
  show "unat (ae_id (log_entry c l)) = unat (al_next_id l)"
    by (simp add: log_entry_def)
  assume "id_room l"
  then show "unat (al_next_id (snd (log_activity c l))) = Suc (unat (al_next_id l))"
    by (simp add: log_activity_def Let_def log_append_def log_broadcast_def log_alloc_def
        id_room_def unat_Suc_word)
qed

definition log_all :: "log_call list \<Rightarrow> activity_log \<Rightarrow> activity_log" where
  "log_all cs l = fold (\<lambda>c l. snd (log_activity c l)) cs l"

lemma log_all_wf:
  assumes "al.ring_wf l" and "unat (al_next_id l) + length cs < 2 ^ 64"
  shows "al.ring_wf (log_all cs l)"
  using assms
proof (induction cs arbitrary: l)
  case Nil
  then show ?case by (simp add: log_all_def)
next
  case (Cons c cs)
  then have room: "id_room l" by (simp add: id_room_def)
  have "al.ring_wf (log_all cs (snd (log_activity c l)))"
    using Cons.prems al.next_push [OF room, of c]
    by (intro Cons.IH al.ring_wf_push room) simp_all
  then show ?case by (simp add: log_all_def)
qed

lemma new_log_wf: "al.ring_wf (new_log n)"
  by (simp add: al.ring_wf_def new_log_def)

lemma activity_read_since_newer: "activity_read_since since n l = take n (al.newer (unat since) l)"
  by (simp add: activity_read_since_def al.newer_def word_less_nat_alt)

subsection \<open>Paging\<close>

text \<open>A client that asks for pages of \<open>limit\<close> entries, each after the last one it has seen.\<close>

fun page_all :: "nat \<Rightarrow> u64 \<Rightarrow> nat \<Rightarrow> activity_log \<Rightarrow> activity_entry list" where
  "page_all 0 since limit l = []"
| "page_all (Suc k) since limit l =
     (case activity_read_since since limit l of
        [] \<Rightarrow> []
      | es \<Rightarrow> es @ page_all k (ae_id (last es)) limit l)"

lemma filter_after_prefix:
  fixes f :: "'a \<Rightarrow> nat"
  assumes "sorted_wrt (<) (map f xs)" and "0 < k" and "xs \<noteq> []"
  shows "filter (\<lambda>x. f x > f (last (take k xs))) xs = drop k xs"
proof -
  let ?t = "take k xs" and ?d = "drop k xs"
  have ne: "?t \<noteq> []" using assms by simp
  have tl: "f x \<le> f (last ?t)" if "x \<in> set ?t" for x
  proof -
    have st: "sorted_wrt (<) (map f (butlast ?t @ [last ?t]))"
      using assms(1) ne by (simp add: sorted_wrt_take take_map [symmetric] del: map_append)
    have "x \<in> set (butlast ?t @ [last ?t])" using that ne by simp
    with st show ?thesis by (auto simp: sorted_wrt_append)
  qed
  have "sorted_wrt (<) (map f ?t @ map f ?d)"
    using assms(1) by (metis append_take_drop_id map_append)
  then have dl: "f x > f (last ?t)" if "x \<in> set ?d" for x
    using that last_in_set [OF ne] by (auto simp: sorted_wrt_append)
  have "filter (\<lambda>x. f x > f (last ?t)) (?t @ ?d) = ?d"
    using tl dl by (auto simp: filter_empty_conv filter_id_conv not_less simp del: append_take_drop_id)
  then show ?thesis by simp
qed

lemma newer_sorted: "al.ring_wf l \<Longrightarrow> sorted_wrt (<) (map (\<lambda>e. unat (ae_id e)) (al.newer n l))"
  by (simp only: al.newer_numbers sorted_wrt_upt)

lemma newer_after_page:
  assumes "al.ring_wf l" and "0 < k" and "al.newer n l \<noteq> []"
  shows "al.newer (unat (ae_id (last (take k (al.newer n l))))) l = drop k (al.newer n l)"
proof -
  let ?v = "unat (ae_id (last (take k (al.newer n l))))"
  have "last (take k (al.newer n l)) \<in> set (take k (al.newer n l))"
    using assms(2,3) by (intro last_in_set) simp
  then have "?v > n" by (auto simp: al.newer_def dest: in_set_takeD)
  then have "al.newer ?v l = filter (\<lambda>e. unat (ae_id e) > ?v) (al.newer n l)"
    unfolding al.newer_def filter_filter by (intro filter_cong) auto
  also have "\<dots> = drop k (al.newer n l)"
    using filter_after_prefix [OF newer_sorted [OF assms(1)] assms(2,3)] .
  finally show ?thesis .
qed

lemma page_all_newer:
  assumes "al.ring_wf l" and "0 < limit"
  shows "length (al.newer (unat since) l) \<le> k \<Longrightarrow> page_all k since limit l = al.newer (unat since) l"
proof (induction k arbitrary: since)
  case 0
  then show ?case by simp
next
  case (Suc k)
  let ?xs = "al.newer (unat since) l"
  show ?case
  proof (cases "?xs = []")
    case True
    then show ?thesis by (simp add: activity_read_since_newer)
  next
    case False
    let ?es = "take limit ?xs"
    have ne: "?es \<noteq> []" using False assms(2) by simp
    have nx: "al.newer (unat (ae_id (last ?es))) l = drop limit ?xs"
      by (rule newer_after_page [OF assms False])
    have "page_all (Suc k) since limit l = ?es @ page_all k (ae_id (last ?es)) limit l"
      using ne by (simp add: activity_read_since_newer split: list.splits)
    also have "page_all k (ae_id (last ?es)) limit l = drop limit ?xs"
      using Suc.IH [of "ae_id (last ?es)"] Suc.prems assms(2) by (simp add: nx)
    finally show ?thesis by simp
  qed
qed

text \<open>
  When calls of \<open>log\<close> do not overlap, a client that pages through the journal with any
  positive limit sees every entry still held after its cursor, each once and in order; the number
  of requests it needs is at most the capacity of the ring.
\<close>

theorem activity_paging:
  assumes "length cs < 2 ^ 64 - 1" and "0 < limit" and "max 1 n \<le> k"
  shows "page_all k since limit (log_all cs (new_log n)) =
    filter (\<lambda>e. ae_id e > since) (al_entries (log_all cs (new_log n)))"
proof -
  let ?l = "log_all cs (new_log n)"
  have wf: "al.ring_wf ?l"
    using assms(1) by (intro log_all_wf new_log_wf) (simp add: new_log_def)
  have cap: "al_max_entries ?l = n"
    unfolding log_all_def by (rule fold_invariant [where Q = "\<lambda>_. True"])
      (simp_all add: new_log_def al.cap_push)
  have "length (al.newer (unat since) ?l) \<le> length (al_entries ?l)"
    by (simp add: al.newer_def)
  also have "\<dots> \<le> max 1 n" using wf cap by (simp add: al.ring_wf_def)
  also note assms(3)
  finally show ?thesis
    using page_all_newer [OF wf assms(2)] by (simp add: al.newer_def word_less_nat_alt)
qed

definition sample_call :: log_call where
  "sample_call = \<lparr>lc_type = Exec, lc_source = Rest, lc_summary = ''ls'', lc_detail = None,
     lc_request_id = None, lc_clock_ms = Some 5\<rparr>"

theorem activity_paging_witness:
  "page_all 2 1 1 (log_all [sample_call, sample_call, sample_call] (new_log 2)) =
     filter (\<lambda>e. ae_id e > 1) (al_entries (log_all [sample_call, sample_call, sample_call] (new_log 2)))
   \<and> length (al_entries (log_all [sample_call, sample_call, sample_call] (new_log 2))) = 2"
  using activity_paging [of "[sample_call, sample_call, sample_call]" 1 2 2 1]
  by (simp add: log_all_def log_activity_def Let_def log_append_def log_broadcast_def log_alloc_def
      new_log_def ring_push_def)

subsection \<open>Concurrent callers\<close>

text \<open>
  \<open>log_reach n l fl\<close>: the log \<open>l\<close> with the calls \<open>fl\<close> in flight can be reached after \<open>n\<close> calls
  have drawn a number. A call in flight carries its entry and whether it has broadcast it.
\<close>

inductive log_reach :: "nat \<Rightarrow> activity_log \<Rightarrow> (bool \<times> activity_entry) list \<Rightarrow> bool" where
  start: "log_reach 0 (new_log cap) []"
| alloc: "log_reach n l fl \<Longrightarrow> log_reach (Suc n) (log_alloc l) (fl @ [(False, log_entry c l)])"
| bcast: "log_reach n l (a @ (False, e) # b) \<Longrightarrow> log_reach n (log_broadcast e l) (a @ (True, e) # b)"
| append: "log_reach n l (a @ (True, e) # b) \<Longrightarrow> log_reach n (log_append e l) (a @ b)"

lemma ring_push_subset: "set (ring_push cap x xs) \<subseteq> insert x (set xs)"
  by (auto simp: ring_push_def dest: in_set_dropD)

lemma ring_push_distinct:
  "distinct xs \<Longrightarrow> x \<notin> set xs \<Longrightarrow> distinct (ring_push cap x xs)"
  by (auto simp: ring_push_def distinct_drop dest: in_set_dropD)

text \<open>The identifiers the log holds and those of the calls in flight.\<close>

definition held_ids :: "activity_log \<Rightarrow> u64 list" where
  "held_ids l = map ae_id (al_entries l)"

definition flying_ids :: "(bool \<times> activity_entry) list \<Rightarrow> u64 list" where
  "flying_ids fl = map (ae_id \<circ> snd) fl"

definition log_inv :: "nat \<Rightarrow> activity_log \<Rightarrow> (bool \<times> activity_entry) list \<Rightarrow> bool" where
  "log_inv n l fl \<longleftrightarrow>
     distinct (held_ids l @ flying_ids fl) \<and>
     (\<forall>i \<in> set (held_ids l @ flying_ids fl). i < al_next_id l) \<and>
     set (al_entries l) \<union> {e. (True, e) \<in> set fl} \<subseteq> set (al_broadcast l) \<and>
     length (al_entries l) \<le> max 1 (al_max_entries l) \<and>
     unat (al_next_id l) = Suc n"

lemmas log_inv_defs = log_inv_def held_ids_def flying_ids_def log_entry_def log_alloc_def
  log_broadcast_def log_append_def

lemma log_inv_alloc:
  assumes inv: "log_inv n l fl" and room: "Suc n < 2 ^ 64 - 1"
  shows "log_inv (Suc n) (log_alloc l) (fl @ [(False, log_entry c l)])"
proof -
  have u: "unat (al_next_id l + 1) = Suc (Suc n)"
    using inv room by (subst unat_Suc_word) (auto simp: log_inv_def)
  then have lt: "al_next_id l < al_next_id l + 1"
    using inv by (simp add: log_inv_def word_less_nat_alt)
  have old: "i < al_next_id l" if "i \<in> set (held_ids l @ flying_ids fl)" for i
    using inv that by (simp add: log_inv_def)
  show ?thesis
    using inv u lt old by (auto simp: log_inv_defs intro: less_trans)
qed

lemma flying_ids_simps [simp]:
  "flying_ids (a @ b) = flying_ids a @ flying_ids b" "flying_ids (x # b) = ae_id (snd x) # flying_ids b"
  by (simp_all add: flying_ids_def)

lemma log_inv_append:
  assumes inv: "log_inv n l (a @ (True, e) # b)"
  shows "log_inv n (log_append e l) (a @ b)"
proof -
  have h: "held_ids (log_append e l) = ring_push (al_max_entries l) (ae_id e) (held_ids l)"
    by (simp add: held_ids_def log_append_def map_ring_push)
  have f: "set (held_ids (log_append e l)) \<subseteq> insert (ae_id e) (set (held_ids l))"
    unfolding h by (rule ring_push_subset)
  have "distinct (held_ids l)" "ae_id e \<notin> set (held_ids l)"
    using inv by (auto simp: log_inv_def)
  then have "distinct (held_ids (log_append e l))"
    unfolding h by (rule ring_push_distinct)
  moreover have "set (held_ids (log_append e l)) \<inter> set (flying_ids (a @ b)) = {}"
    using f inv unfolding log_inv_def by auto
  moreover have "distinct (flying_ids (a @ b))"
    using inv by (auto simp: log_inv_def)
  moreover have "\<forall>i \<in> set (held_ids (log_append e l) @ flying_ids (a @ b)). i < al_next_id l"
    using f inv by (auto simp: log_inv_def)
  moreover have "set (al_entries (log_append e l)) \<subseteq> set (al_broadcast l)"
    using inv ring_push_subset [of "al_max_entries l" e "al_entries l"]
    by (auto simp: log_inv_def log_append_def)
  moreover have "length (al_entries (log_append e l)) \<le> max 1 (al_max_entries l)"
    using inv length_ring_push_le [of "al_entries l" "al_max_entries l" e]
    by (simp add: log_inv_def log_append_def)
  ultimately show ?thesis
    using inv by (auto simp: log_inv_def log_append_def)
qed

lemma log_reach_inv: "log_reach n l fl \<Longrightarrow> n < 2 ^ 64 - 1 \<Longrightarrow> log_inv n l fl"
proof (induction rule: log_reach.induct)
  case (start cap)
  show ?case by (simp add: log_inv_defs new_log_def)
next
  case (alloc n l fl c)
  then show ?case by (intro log_inv_alloc) simp_all
next
  case (bcast n l a e b)
  then show ?case by (auto simp: log_inv_defs)
next
  case (append n l a e b)
  then show ?case by (intro log_inv_append) simp
qed

text \<open>
  However the steps of concurrent calls of \<open>log\<close> interleave, no two entries held or in flight
  share a number, every entry a reader can see was broadcast before, and the ring stays within
  its capacity.
\<close>

theorem activity_log_concurrent:
  assumes "log_reach n l fl" and "n < 2 ^ 64 - 1"
  shows "distinct (map ae_id (al_entries l @ map snd fl))
    \<and> set (al_entries l) \<subseteq> set (al_broadcast l)
    \<and> length (al_entries l) \<le> max 1 (al_max_entries l)"
  using log_reach_inv [OF assms] by (auto simp: log_inv_defs comp_def)

theorem activity_log_concurrent_witness:
  "distinct (map ae_id (al_entries (log_alloc (new_log 4)) @ map snd [(False, log_entry sample_call (new_log 4))]))
    \<and> set (al_entries (log_alloc (new_log 4))) \<subseteq> set (al_broadcast (log_alloc (new_log 4)))
    \<and> length (al_entries (log_alloc (new_log 4))) \<le> max 1 (al_max_entries (log_alloc (new_log 4)))"
  using log_reach.alloc [OF log_reach.start [of 4], of sample_call]
  by (intro activity_log_concurrent [of "Suc 0"]) simp_all

text \<open>
  The numbers need not arrive in order. Two overlapping calls can append entry 2 before
  entry 1: a client that polls in between sees entry 2, and its next poll, after 2, never returns
  entry 1 although the log holds it. Polling \<open>since_id\<close> is complete only for calls that do not
  overlap.
\<close>

theorem activity_poll_can_miss:
  "\<exists>l l' e. log_reach 2 l [(True, e)] \<and> log_reach 2 l' [] \<and> l' = log_append e l
     \<and> map ae_id (activity_read_since 0 50 l) = [2]
     \<and> e \<in> set (al_entries l') \<and> activity_read_since 2 50 l' = []"
proof -
  let ?l0 = "new_log 200"
  let ?e1 = "log_entry sample_call ?l0"
  let ?l1 = "log_alloc ?l0"
  let ?e2 = "log_entry sample_call ?l1"
  let ?l2 = "log_broadcast ?e2 (log_broadcast ?e1 (log_alloc ?l1))"
  let ?l = "log_append ?e2 ?l2"
  have "log_reach 1 ?l1 [(False, ?e1)]"
    using log_reach.alloc [OF log_reach.start] by fastforce
  then have "log_reach 2 (log_alloc ?l1) [(False, ?e1), (False, ?e2)]"
    using log_reach.alloc [of 1 ?l1 "[(False, ?e1)]"] by (simp add: numeral_2_eq_2)
  then have "log_reach 2 (log_broadcast ?e1 (log_alloc ?l1)) [(True, ?e1), (False, ?e2)]"
    using log_reach.bcast [of 2 _ "[]" ?e1 "[(False, ?e2)]"] by simp
  then have "log_reach 2 ?l2 [(True, ?e1), (True, ?e2)]"
    using log_reach.bcast [of 2 _ "[(True, ?e1)]" ?e2 "[]"] by simp
  then have r: "log_reach 2 ?l [(True, ?e1)]"
    using log_reach.append [of 2 _ "[(True, ?e1)]" ?e2 "[]"] by simp
  then have r': "log_reach 2 (log_append ?e1 ?l) []"
    using log_reach.append [of 2 _ "[]" ?e1 "[]"] by simp
  have "map ae_id (activity_read_since 0 50 ?l) = [2]"
    and "?e1 \<in> set (al_entries (log_append ?e1 ?l))"
    and "activity_read_since 2 50 (log_append ?e1 ?l) = []"
    by (simp_all add: activity_read_since_def new_log_def log_entry_def log_alloc_def
        log_broadcast_def log_append_def ring_push_def)
  with r r' show ?thesis
    by (intro exI [of _ ?l] exI [of _ "log_append ?e1 ?l"] exI [of _ ?e1]) simp
qed

subsection \<open>The cache keeps the last results\<close>

definition store_all :: "exec_result list \<Rightarrow> exec_cache \<Rightarrow> exec_cache" where
  "store_all rs c = fold cache_store rs c"

text \<open>The results a cache of \<open>n\<close> entries holds after storing \<open>rs\<close>.\<close>

definition recent :: "nat \<Rightarrow> 'a list \<Rightarrow> 'a list" where
  "recent n xs = drop (length xs - max 1 n) xs"

lemma recent_snoc: "recent n (xs @ [x]) = ring_push n x (recent n xs)"
proof (cases "length xs < max 1 n")
  case True
  then have "xs = [] \<or> length xs < n" by (auto simp: max_def split: if_splits)
  with True show ?thesis by (auto simp: recent_def ring_push_def)
next
  case False
  then show ?thesis by (auto simp: recent_def ring_push_def max_def Suc_diff_le)
qed

definition by_id :: "u64 \<Rightarrow> exec_result list \<Rightarrow> exec_result option" where
  "by_id k rs = find (\<lambda>r. er_activity_id r = k) rs"

lemma by_id_simps [simp]:
  "by_id k [] = None" "by_id k (r # rs) = (if er_activity_id r = k then Some r else by_id k rs)"
  "by_id k (rs @ rs') = (case by_id k rs of None \<Rightarrow> by_id k rs' | Some r \<Rightarrow> Some r)"
  by (induction rs) (auto simp: by_id_def)

lemma by_id_None: "k \<notin> er_activity_id ` set rs \<Longrightarrow> by_id k rs = None"
  by (induction rs) auto

definition cache_of :: "nat \<Rightarrow> exec_result list \<Rightarrow> exec_cache \<Rightarrow> bool" where
  "cache_of n rs c \<longleftrightarrow> ec_max_entries c = n \<and> ec_order c = map er_activity_id rs \<and>
     (\<forall>k. cache_get k c = by_id k rs)"

lemma cache_of_store:
  assumes c: "cache_of n rs c" and d: "distinct (map er_activity_id (rs @ [r]))"
  shows "cache_of n (ring_push n r rs) (cache_store r c)"
proof (cases "length rs \<ge> n \<and> rs \<noteq> []")
  case True
  then obtain q qs where rs: "rs = q # qs" by (cases rs) auto
  have "by_id (er_activity_id q) qs = None" "by_id (er_activity_id r) qs = None"
    using d by (auto simp: rs intro: by_id_None)
  with True c rs d show ?thesis
    by (auto simp: cache_of_def cache_store_def cache_get_def ring_push_def Let_def hm_laws
        split: option.splits)
next
  case False
  have "by_id (er_activity_id r) rs = None"
    using d by (auto intro: by_id_None)
  moreover have "ring_push n r rs = rs @ [r]" using False by (auto simp: ring_push_def)
  ultimately show ?thesis
    using False c by (auto simp: cache_of_def cache_store_def cache_get_def Let_def hm_laws
        split: option.splits list.splits)
qed

lemma cache_of_store_all:
  "distinct (map er_activity_id rs) \<Longrightarrow> cache_of n (recent n rs) (store_all rs (new_cache n))"
proof (induction rs rule: rev_induct)
  case Nil
  show ?case by (simp add: cache_of_def store_all_def recent_def new_cache_def cache_get_def)
next
  case (snoc r rs)
  have "set (recent n rs) \<subseteq> set rs" by (simp add: recent_def set_drop_subset)
  moreover have "distinct (map er_activity_id (recent n rs))"
    using snoc.prems by (simp add: recent_def drop_map [symmetric] distinct_drop)
  ultimately have "distinct (map er_activity_id (recent n rs @ [r]))"
    using snoc.prems by auto
  then show ?case
    using cache_of_store snoc by (simp add: recent_snoc store_all_def)
qed

text \<open>
  The exec cache is a faithful window on the stored results: with distinct activity ids, the
  lookup of an id gives the stored result when it is among the last \<open>max_entries\<close> stored, and the
  not-found error otherwise.
\<close>

theorem exec_cache_exact:
  assumes "distinct (map er_activity_id rs)"
  shows "get_exec_result k (store_all rs (new_cache n)) =
    (case find (\<lambda>r. er_activity_id r = k) (recent n rs) of
       Some r \<Rightarrow> Inr r | None \<Rightarrow> Inl (404, ''NOT_FOUND''))"
  using cache_of_store_all [OF assms, of n]
  by (simp add: get_exec_result_def cache_of_def by_id_def)

definition sample_result :: "u64 \<Rightarrow> exec_result" where
  "sample_result i = \<lparr>er_activity_id = i, er_exit_code = 0, er_stdout = ''ok'', er_stderr = [],
     er_duration_ms = 3, er_command = ''true'', er_status = ''ok'', er_error_message = None\<rparr>"

theorem exec_cache_exact_witness:
  "get_exec_result 1 (store_all (map sample_result [1, 2, 3]) (new_cache 2)) = Inl (404, ''NOT_FOUND'')
   \<and> get_exec_result 2 (store_all (map sample_result [1, 2, 3]) (new_cache 2)) = Inr (sample_result 2)"
proof -
  have "distinct (map er_activity_id (map sample_result [1, 2, 3]))"
    by (simp add: sample_result_def)
  then show ?thesis
    by (subst (1 2) exec_cache_exact) (simp_all add: recent_def sample_result_def)
qed

end
