(* ===== verification/Auth.thy ===== *)
theory Auth
  imports Activity
begin

text \<open>
  Authentication of HTTP requests (\<open>server/src/auth.rs\<close>): the bearer-token middleware and its
  constant-time comparison, with the error codes of \<open>server/src/error.rs\<close>.
\<close>

record api_error =
  err_code :: string
  err_message :: string
  err_detail :: "json option"

definition api_error_new :: "string \<Rightarrow> string \<Rightarrow> api_error" where
  "api_error_new code msg = \<lparr>err_code = code, err_message = msg, err_detail = None\<rparr>"

definition with_detail :: "json \<Rightarrow> api_error \<Rightarrow> api_error" where
  "with_detail d e = e\<lparr>err_detail := Some d\<rparr>"

text \<open>The loop over the indices of the expected key, accumulating differences.\<close>

fun ct_loop :: "nat \<Rightarrow> u8 list \<Rightarrow> u8 list \<Rightarrow> u8 \<Rightarrow> u8" where
  "ct_loop i [] provided diff = diff"
| "ct_loop i (x # expected) provided diff =
     ct_loop (Suc i) expected provided
       (or diff (xor x (if i < length provided then provided ! i else 0xff)))"

definition constant_time_eq :: "u8 list \<Rightarrow> u8 list \<Rightarrow> bool" where
  "constant_time_eq expected provided \<longleftrightarrow>
     ct_loop 0 expected provided (if length expected \<noteq> length provided then 1 else 0) = 0"

definition bytes :: "string \<Rightarrow> u8 list" where
  "bytes s = map of_char s"

text \<open>The middleware: \<open>Inr ()\<close> hands the request to the next layer.\<close>

definition require_api_key :: "string option \<Rightarrow> headers \<Rightarrow> (nat \<times> api_error) + unit" where
  "require_api_key key hs =
     (case key of
        None \<Rightarrow> Inl (500, api_error_new ''SERVER_CONFIG_ERROR'' ''Server configuration error'')
      | Some api_key \<Rightarrow>
          (case Option.bind (hs ''authorization'') (strip_prefix ''Bearer '') of
             None \<Rightarrow> Inl (401, api_error_new ''AUTH_MISSING_TOKEN''
                            ''Missing or invalid Authorization header'')
           | Some provided \<Rightarrow>
               if \<not> constant_time_eq (bytes api_key) (bytes provided)
               then Inl (403, api_error_new ''AUTH_INVALID_TOKEN'' ''Invalid API key'')
               else Inr ()))"

lemma ct_loop_zero:
  "ct_loop i expected provided diff = 0 \<longleftrightarrow>
     diff = 0 \<and> (\<forall>j < length expected.
        expected ! j = (if i + j < length provided then provided ! (i + j) else 0xff))"
proof (induction expected arbitrary: i diff)
  case Nil
  show ?case by simp
next
  case (Cons x expected)
  have xz: "xor a b = 0 \<longleftrightarrow> a = b" for a b :: u8
    by (metis xor_self_eq xor.right_neutral xor.assoc)
  show ?case
    by (auto simp: Cons.IH or_eq_0_iff xz nth_Cons All_less_Suc2 split: nat.splits)
qed

lemma constant_time_eq_iff: "constant_time_eq a b \<longleftrightarrow> a = b"
  by (auto simp: constant_time_eq_def ct_loop_zero list_eq_iff_nth_eq)

lemma bytes_inject: "bytes a = bytes b \<longleftrightarrow> a = b"
proof -
  have "unat (of_char c :: u8) = of_char c" for c :: char
    by (simp add: of_char_def unsigned_of_nat take_bit_eq_mod) 
  then have "inj (of_char :: char \<Rightarrow> u8)"
    by (intro injI) (metis of_char_eq_iff)
  then show ?thesis by (simp add: bytes_def inj_map_eq_map)
qed

text \<open>
  A request passes the middleware exactly when it carries \<open>Authorization: Bearer\<close> followed by
  the configured key, byte for byte; comparing in constant time changes nothing of the outcome.
\<close>

theorem api_key_exact:
  "require_api_key key hs = Inr () \<longleftrightarrow>
     (\<exists>k. key = Some k \<and> hs ''authorization'' = Some (''Bearer '' @ k))"
  by (auto simp: require_api_key_def constant_time_eq_iff bytes_inject strip_prefix_Some_iff
      split: option.splits bind_splits if_splits)

end
