(* ===== verification/Supervisor.thy ===== *)
theory Supervisor
  imports Prelude
begin

text \<open>
  The process supervisor (\<open>server/src/supervisor.rs\<close>): restart of the server with exponential
  backoff, crash-loop detection and the safe-mode flag, and the forwarding of shutdown signals.

  One iteration of the endless loop of \<open>run_supervisor\<close> is \<open>sup_iter\<close>; what the world contributes
  to it (the child's process id, when it started and ended, how it ended, the signals that
  arrive, whether the flag file can be written) is a record. A run is a list of such records.
\<close>

definition CRASH_LOOP_THRESHOLD :: nat where "CRASH_LOOP_THRESHOLD = 3"
definition CRASH_LOOP_WINDOW :: duration where "CRASH_LOOP_WINDOW = from_secs 180"
definition SAFE_MODE_BACKOFF_SECS :: u64 where "SAFE_MODE_BACKOFF_SECS = 300"

record sup_config =
  max_backoff :: u64
  stable_threshold :: u64

text \<open>The contents of \<open>safe_mode.flag\<close>: \<open>since_unix\<close>, \<open>reason\<close>, \<open>consecutive_crashes\<close>.\<close>

record safe_flag =
  sf_since_unix :: nat
  sf_reason :: string
  sf_consecutive :: nat

text \<open>Whether the temporary file can be written and renamed, and the wall clock.\<close>

record flag_env =
  fe_write_ok :: bool
  fe_rename_ok :: bool
  fe_unix_secs :: "nat option"

definition write_safe_mode_flag ::
  "flag_env \<Rightarrow> string \<Rightarrow> nat \<Rightarrow> safe_flag option \<Rightarrow> safe_flag option" where
  "write_safe_mode_flag env reason consecutive flag =
     (if \<not> fe_write_ok env then flag
      else if \<not> fe_rename_ok env then flag
      else Some \<lparr>sf_since_unix = (case fe_unix_secs env of None \<Rightarrow> 0 | Some t \<Rightarrow> t),
                 sf_reason = reason, sf_consecutive = consecutive\<rparr>)"

record sup_state =
  ss_backoff :: u64
  ss_history :: "instant list"
  ss_engaged :: bool
  ss_flag :: "safe_flag option"
  ss_forward :: "u32 option list"

definition sup_init :: sup_state where
  "sup_init = \<lparr>ss_backoff = 1, ss_history = [], ss_engaged = False, ss_flag = None, ss_forward = []\<rparr>"

text \<open>The loop that trims the front of the crash history.\<close>

fun trim_history :: "instant \<Rightarrow> instant list \<Rightarrow> instant list" where
  "trim_history now [] = []"
| "trim_history now (t # ts) = (if now - t > CRASH_LOOP_WINDOW then trim_history now ts else t # ts)"

definition record_crash_and_pick_backoff ::
  "instant \<Rightarrow> flag_env \<Rightarrow> u64 \<Rightarrow> string \<Rightarrow> sup_state \<Rightarrow> u64 \<times> sup_state" where
  "record_crash_and_pick_backoff now env normal_backoff reason s =
     (let h = trim_history now (ss_history s @ [now])
      in if length h \<ge> CRASH_LOOP_THRESHOLD
         then (SAFE_MODE_BACKOFF_SECS,
               s\<lparr>ss_history := h, ss_engaged := True,
                 ss_flag := write_safe_mode_flag env reason (length h) (ss_flag s)\<rparr>)
         else (normal_backoff, s\<lparr>ss_history := h\<rparr>))"

text \<open>
  How the child ends: an exit status, whose code is \<open>None\<close> when a signal killed it, or an error of
  \<open>wait\<close>.
\<close>

datatype child_end = ExitStatus "int option" | WaitError

record child_run =
  cr_pid :: "u32 option"
  cr_started :: instant
  cr_ended :: instant
  cr_end :: child_end
  cr_signal :: "int option"
  cr_crash_at :: instant
  cr_flag_env :: flag_env
  cr_backoff_signal :: "int option"

datatype sup_outcome = Stop int | Restart u64 sup_state

text \<open>
  The task that waits for a shutdown signal holds the process id of its own child. A new task is
  started for each child and none is ever cancelled, so one signal reaches all of them.
\<close>

definition forward_signal :: "int \<Rightarrow> sup_state \<Rightarrow> os_call list" where
  "forward_signal sg s = concat (map (\<lambda>p. case p of None \<Rightarrow> [] | Some pid \<Rightarrow> [Kill (sint pid) sg]) (ss_forward s))"

definition next_backoff :: "sup_config \<Rightarrow> duration \<Rightarrow> u64 \<Rightarrow> u64" where
  "next_backoff cfg uptime b =
     (if uptime \<ge> from_secs (unat (stable_threshold cfg)) then 1 else min (b * 2) (max_backoff cfg))"

definition after_crash ::
  "sup_config \<Rightarrow> child_run \<Rightarrow> string \<Rightarrow> sup_state \<Rightarrow> sup_outcome \<times> os_call list" where
  "after_crash cfg r reason s =
     (let (eff, s') = record_crash_and_pick_backoff (cr_crash_at r) (cr_flag_env r) (ss_backoff s) reason s
      in case cr_backoff_signal r of
           Some sg \<Rightarrow> (Stop 0, forward_signal sg s')
         | None \<Rightarrow> (Restart eff
             (s'\<lparr>ss_backoff := next_backoff cfg (elapsed (cr_ended r) (cr_started r)) (ss_backoff s)\<rparr>), []))"

definition sup_iter :: "sup_config \<Rightarrow> child_run \<Rightarrow> sup_state \<Rightarrow> sup_outcome \<times> os_call list" where
  "sup_iter cfg r s0 =
     (let s = s0\<lparr>ss_forward := ss_forward s0 @ [cr_pid r]\<rparr>
      in case cr_signal r of
           Some sg \<Rightarrow> (Stop 0, forward_signal sg s)
         | None \<Rightarrow>
             (case cr_end r of
                ExitStatus c \<Rightarrow>
                  if c = Some 99 then (Stop 0, [])
                  else if c = Some 0 then (Stop 0, [])
                  else after_crash cfg r ''child_exit_nonzero'' s
              | WaitError \<Rightarrow> after_crash cfg r ''child_wait_error'' s))"

text \<open>
  A run over the children the world offers: the delays before each restart, and the state in which
  the supervisor still runs, or \<open>None\<close> when it has stopped.
\<close>

fun run_supervisor :: "sup_config \<Rightarrow> child_run list \<Rightarrow> sup_state \<Rightarrow> u64 list \<times> sup_state option" where
  "run_supervisor cfg [] s = ([], Some s)"
| "run_supervisor cfg (r # rs) s =
     (case fst (sup_iter cfg r s) of
        Stop _ \<Rightarrow> ([], None)
      | Restart d s' \<Rightarrow> (let (ds, t) = run_supervisor cfg rs s' in (d # ds, t)))"

subsection \<open>Facts\<close>

lemma trim_history_filter:
  "sorted ts \<Longrightarrow> trim_history now ts = filter (\<lambda>t. now - t \<le> CRASH_LOOP_WINDOW) ts"
proof (induction ts)
  case Nil
  show ?case by simp
next
  case (Cons t ts)
  have "now - u \<le> CRASH_LOOP_WINDOW" if "now - t \<le> CRASH_LOOP_WINDOW" "u \<in> set ts" for u
  proof -
    have "t \<le> u" using Cons.prems that by simp
    then have "now - u \<le> now - t" by simp
    with that show ?thesis by linarith
  qed
  with Cons show ?case by (auto simp: not_less filter_id_conv)
qed

text \<open>A child that crashes: no signal arrives and it does not exit with code 0 or 99.\<close>

definition crashes :: "child_run \<Rightarrow> bool" where
  "crashes r \<longleftrightarrow> cr_signal r = None \<and> cr_backoff_signal r = None \<and>
     cr_end r \<noteq> ExitStatus (Some 99) \<and> cr_end r \<noteq> ExitStatus (Some 0)"

definition unstable :: "sup_config \<Rightarrow> child_run \<Rightarrow> bool" where
  "unstable cfg r \<longleftrightarrow> elapsed (cr_ended r) (cr_started r) < from_secs (unat (stable_threshold cfg))"

lemma sup_iter_crash:
  assumes "crashes r"
  shows "\<exists>eff s'. fst (sup_iter cfg r s) = Restart eff s'
    \<and> ss_backoff s' = next_backoff cfg (elapsed (cr_ended r) (cr_started r)) (ss_backoff s)
    \<and> ss_history s' = trim_history (cr_crash_at r) (ss_history s @ [cr_crash_at r])
    \<and> eff = (if length (ss_history s') \<ge> CRASH_LOOP_THRESHOLD then SAFE_MODE_BACKOFF_SECS else ss_backoff s)
    \<and> ss_engaged s' = (ss_engaged s \<or> length (ss_history s') \<ge> CRASH_LOOP_THRESHOLD)
    \<and> ss_forward s' = ss_forward s @ [cr_pid r]"
  using assms
  by (cases "cr_end r") (auto simp: crashes_def sup_iter_def after_crash_def Let_def
      record_crash_and_pick_backoff_def)

lemma run_supervisor_snoc:
  assumes "run_supervisor cfg rs s = (ds, Some t)"
  shows "run_supervisor cfg (rs @ [r]) s =
    (case fst (sup_iter cfg r t) of Stop _ \<Rightarrow> (ds, None) | Restart d t' \<Rightarrow> (ds @ [d], Some t'))"
  using assms
  by (induction rs arbitrary: s ds)
    (auto simp: Let_def split: sup_outcome.splits prod.splits)

lemma run_supervisor_crashes:
  assumes "\<forall>r \<in> set rs. crashes r"
  shows "\<exists>ds t. run_supervisor cfg rs s = (ds, Some t) \<and> length ds = length rs"
  using assms
proof (induction rs rule: rev_induct)
  case Nil
  then show ?case by simp
next
  case (snoc r rs)
  then obtain ds t where r: "run_supervisor cfg rs s = (ds, Some t)" "length ds = length rs"
    by auto
  obtain eff t' where "fst (sup_iter cfg r t) = Restart eff t'"
    using sup_iter_crash snoc.prems by fastforce
  with run_supervisor_snoc [OF r(1)] r(2) show ?case by simp
qed

text \<open>The delay before restart number \<open>n\<close>, counted from 0, while no child is stable.\<close>

definition ramp :: "sup_config \<Rightarrow> nat \<Rightarrow> nat" where
  "ramp cfg n = (if n = 0 then 1 else min (2 ^ n) (unat (max_backoff cfg)))"

lemma next_backoff_ramp:
  assumes "unat b = ramp cfg n" and "unat (max_backoff cfg) < 2 ^ 62" and "unstable cfg r"
  shows "unat (next_backoff cfg (elapsed (cr_ended r) (cr_started r)) b) = ramp cfg (Suc n)"
proof -
  have "unat b < 2 ^ 62" using assms(1,2) by (auto simp: ramp_def split: if_splits)
  then have "unat b * unat (2 :: u64) < 2 ^ LENGTH(64)" by simp
  then have "unat (b * 2) = unat b * unat (2 :: u64)" by (rule unat_mult_lem [THEN iffD1])
  then have "unat (next_backoff cfg (elapsed (cr_ended r) (cr_started r)) b)
      = min (unat b * 2) (unat (max_backoff cfg))"
    using assms(3) by (auto simp: next_backoff_def unstable_def min_def word_le_nat_alt)
  then show ?thesis using assms(1) by (auto simp: ramp_def min_def)
qed

text \<open>
  While the server keeps crashing before it is stable and no shutdown is requested, the
  supervisor restarts it every time; restart number \<open>i\<close> waits the safe-mode interval or
  \<open>min(2^i, max_backoff)\<close> seconds, one second the first time.
\<close>

theorem supervisor_backoff:
  assumes "\<forall>r \<in> set rs. crashes r \<and> unstable cfg r" and "unat (max_backoff cfg) < 2 ^ 62"
  shows "\<exists>ds t. run_supervisor cfg rs sup_init = (ds, Some t) \<and> length ds = length rs
    \<and> (\<forall>i < length rs. ds ! i = SAFE_MODE_BACKOFF_SECS \<or> unat (ds ! i) = ramp cfg i)"
proof -
  have "\<exists>ds t. run_supervisor cfg rs sup_init = (ds, Some t) \<and> length ds = length rs
    \<and> unat (ss_backoff t) = ramp cfg (length rs)
    \<and> (\<forall>i < length rs. ds ! i = SAFE_MODE_BACKOFF_SECS \<or> unat (ds ! i) = ramp cfg i)"
    using assms(1)
  proof (induction rs rule: rev_induct)
    case Nil
    show ?case by (simp add: sup_init_def ramp_def)
  next
    case (snoc r rs)
    then obtain ds t where r: "run_supervisor cfg rs sup_init = (ds, Some t)" "length ds = length rs"
        "unat (ss_backoff t) = ramp cfg (length rs)"
        "\<forall>i < length rs. ds ! i = SAFE_MODE_BACKOFF_SECS \<or> unat (ds ! i) = ramp cfg i"
      by auto
    have c: "crashes r" "unstable cfg r" using snoc.prems by auto
    obtain eff t' where it: "fst (sup_iter cfg r t) = Restart eff t'"
        "ss_backoff t' = next_backoff cfg (elapsed (cr_ended r) (cr_started r)) (ss_backoff t)"
        "eff = SAFE_MODE_BACKOFF_SECS \<or> eff = ss_backoff t"
      using sup_iter_crash [OF c(1), of cfg t] by metis
    have "unat (ss_backoff t') = ramp cfg (Suc (length rs))"
      unfolding it(2) by (rule next_backoff_ramp [OF r(3) assms(2) c(2)])
    then show ?case
      using run_supervisor_snoc [OF r(1)] it(1,3) r by (auto simp: nth_append less_Suc_eq)
  qed
  then show ?thesis by blast
qed

definition sample_run :: "nat \<Rightarrow> child_run" where
  "sample_run t = \<lparr>cr_pid = Some 7, cr_started = 0, cr_ended = 0, cr_end = ExitStatus (Some 1),
     cr_signal = None, cr_crash_at = from_secs t,
     cr_flag_env = \<lparr>fe_write_ok = True, fe_rename_ok = True, fe_unix_secs = Some 10\<rparr>,
     cr_backoff_signal = None\<rparr>"

definition sample_cfg :: sup_config where
  "sample_cfg = \<lparr>max_backoff = 60, stable_threshold = 60\<rparr>"

lemma sample_run_crashes: "crashes (sample_run t) \<and> unstable sample_cfg (sample_run t)"
  by (simp add: crashes_def unstable_def sample_run_def sample_cfg_def time_defs)

theorem supervisor_backoff_witness:
  "\<exists>ds t. run_supervisor sample_cfg [sample_run 0, sample_run 500] sup_init = (ds, Some t)
    \<and> length ds = length [sample_run 0, sample_run 500]
    \<and> (\<forall>i < length [sample_run 0, sample_run 500].
          ds ! i = SAFE_MODE_BACKOFF_SECS \<or> unat (ds ! i) = ramp sample_cfg i)"
  by (rule supervisor_backoff) (simp_all add: sample_run_crashes, simp add: sample_cfg_def)

lemma run_history:
  assumes "\<forall>r \<in> set rs. crashes r" and "sorted (map cr_crash_at rs)"
    and "run_supervisor cfg rs sup_init = (ds, Some t)" and "rs \<noteq> []"
  shows "ss_history t =
    filter (\<lambda>u. cr_crash_at (last rs) - u \<le> CRASH_LOOP_WINDOW) (map cr_crash_at rs)"
  using assms
proof (induction rs arbitrary: ds t rule: rev_induct)
  case Nil
  then show ?case by simp
next
  case (snoc r rs)
  let ?now = "cr_crash_at r"
  obtain ds0 t0 where r0: "run_supervisor cfg rs sup_init = (ds0, Some t0)"
    using run_supervisor_crashes [of rs cfg sup_init] snoc.prems(1) by auto
  obtain eff t' where it: "fst (sup_iter cfg r t0) = Restart eff t'"
      "ss_history t' = trim_history ?now (ss_history t0 @ [?now])"
    using sup_iter_crash [of r cfg t0] snoc.prems(1) by auto
  have t: "t = t'"
    using snoc.prems(3) it(1) by (simp add: run_supervisor_snoc [OF r0])
  have le: "u \<le> ?now" if "u \<in> set (map cr_crash_at rs)" for u
    using snoc.prems(2) that by (auto simp: sorted_append)
  have h0: "ss_history t0 = filter (\<lambda>u. rs \<noteq> [] \<and> cr_crash_at (last rs) - u \<le> CRASH_LOOP_WINDOW)
      (map cr_crash_at rs)"
  proof (cases "rs = []")
    case True
    with r0 show ?thesis by (auto simp: sup_init_def)
  next
    case False
    with snoc.IH [OF _ _ r0] snoc.prems(1,2) show ?thesis by (simp add: sorted_append)
  qed
  have "sorted (ss_history t0 @ [?now])"
    using snoc.prems(2) le by (auto simp: h0 sorted_append sorted_filter [where f = id, simplified])
  then have "ss_history t' = filter (\<lambda>u. ?now - u \<le> CRASH_LOOP_WINDOW) (ss_history t0 @ [?now])"
    unfolding it(2) by (rule trim_history_filter)
  also have "\<dots> = filter (\<lambda>u. ?now - u \<le> CRASH_LOOP_WINDOW) (map cr_crash_at rs @ [?now])"
  proof -
    have "rs \<noteq> [] \<and> cr_crash_at (last rs) - u \<le> CRASH_LOOP_WINDOW"
      if "u \<in> set (map cr_crash_at rs)" "?now - u \<le> CRASH_LOOP_WINDOW" for u
    proof -
      have ne: "rs \<noteq> []" using that by auto
      then have "cr_crash_at (last rs) \<le> ?now" by (intro le) simp
      with ne that(2) show ?thesis by simp
    qed
    then show ?thesis unfolding h0 by (auto simp: filter_filter intro!: filter_cong)
  qed
  finally show ?case by (simp add: t)
qed

text \<open>
  Crash-loop detection is exact: the restart after a crash waits the safe-mode interval exactly
  when at least three crashes, this one included, fall into the last 180 seconds, and then
  safe mode is engaged; otherwise it waits the regular backoff.
\<close>

theorem crash_loop_detection:
  assumes "\<forall>r \<in> set (rs @ [r]). crashes r" and "sorted (map cr_crash_at (rs @ [r]))"
  shows "\<exists>ds s d t. run_supervisor cfg rs sup_init = (ds, Some s)
    \<and> run_supervisor cfg (rs @ [r]) sup_init = (ds @ [d], Some t)
    \<and> (if length (filter (\<lambda>u. cr_crash_at r - u \<le> from_secs 180) (map cr_crash_at (rs @ [r]))) \<ge> 3
       then d = SAFE_MODE_BACKOFF_SECS \<and> ss_engaged t
       else d = ss_backoff s \<and> ss_engaged t = ss_engaged s)"
proof -
  obtain ds s where r0: "run_supervisor cfg rs sup_init = (ds, Some s)"
    using run_supervisor_crashes [of rs cfg sup_init] assms(1) by auto
  obtain d t where it: "fst (sup_iter cfg r s) = Restart d t"
      "d = (if length (ss_history t) \<ge> CRASH_LOOP_THRESHOLD then SAFE_MODE_BACKOFF_SECS else ss_backoff s)"
      "ss_engaged t = (ss_engaged s \<or> length (ss_history t) \<ge> CRASH_LOOP_THRESHOLD)"
    using sup_iter_crash [of r cfg s] assms(1) by auto
  have r1: "run_supervisor cfg (rs @ [r]) sup_init = (ds @ [d], Some t)"
    by (simp add: run_supervisor_snoc [OF r0] it(1))
  have "ss_history t = filter (\<lambda>u. cr_crash_at r - u \<le> from_secs 180) (map cr_crash_at (rs @ [r]))"
    using run_history [OF assms r1] by (simp only: CRASH_LOOP_WINDOW_def) simp
  then show ?thesis
    using r0 r1 it(2,3) unfolding CRASH_LOOP_THRESHOLD_def by auto
qed

theorem crash_loop_detection_witness:
  "\<exists>ds s d t. run_supervisor sample_cfg [sample_run 0, sample_run 10] sup_init = (ds, Some s)
    \<and> run_supervisor sample_cfg ([sample_run 0, sample_run 10] @ [sample_run 20]) sup_init = (ds @ [d], Some t)
    \<and> d = SAFE_MODE_BACKOFF_SECS \<and> ss_engaged t"
  using crash_loop_detection [of "[sample_run 0, sample_run 10]" "sample_run 20" sample_cfg]
  by (simp add: sample_run_crashes) (simp add: sample_run_def time_defs)

text \<open>
  The safe-mode interval does not persist. It is longer than the window the crashes are counted
  in, so the first crash after a safe-mode pause is alone in the window and the supervisor falls
  back to the regular ramp, although safe mode is still engaged.
\<close>

theorem safe_mode_pause_resets:
  assumes "crashes r" and "ss_engaged s" and "\<forall>u \<in> set (ss_history s). u \<le> paused"
    and "cr_crash_at r \<ge> paused + from_secs (unat SAFE_MODE_BACKOFF_SECS)"
  shows "\<exists>t. fst (sup_iter cfg r s) = Restart (ss_backoff s) t \<and> ss_engaged t
    \<and> ss_history t = [cr_crash_at r]"
proof -
  have "trim_history n (ts @ [n]) = [n]"
    if "\<forall>u \<in> set ts. n - u > CRASH_LOOP_WINDOW" for n ts
    using that by (induction ts) (auto simp: CRASH_LOOP_WINDOW_def time_defs)
  moreover have "\<forall>u \<in> set (ss_history s). cr_crash_at r - u > CRASH_LOOP_WINDOW"
  proof
    fix u assume "u \<in> set (ss_history s)"
    with assms(3,4) have "u + from_secs 300 \<le> cr_crash_at r"
      by (fastforce simp: SAFE_MODE_BACKOFF_SECS_def time_defs)
    then show "cr_crash_at r - u > CRASH_LOOP_WINDOW"
      by (simp add: CRASH_LOOP_WINDOW_def time_defs)
  qed
  ultimately show ?thesis
    using sup_iter_crash [OF assms(1), of cfg s] assms(2) by (auto simp: CRASH_LOOP_THRESHOLD_def)
qed

theorem safe_mode_pause_resets_witness:
  "\<exists>t. fst (sup_iter sample_cfg (sample_run 400) (sup_init\<lparr>ss_engaged := True, ss_history := [0, 5, 9]\<rparr>))
      = Restart 1 t \<and> ss_engaged t \<and> ss_history t = [from_secs 400]"
  using safe_mode_pause_resets [of "sample_run 400" "sup_init\<lparr>ss_engaged := True, ss_history := [0, 5, 9]\<rparr>"
      9 sample_cfg] sample_run_crashes [of 400]
  by (simp add: sample_run_def sup_init_def SAFE_MODE_BACKOFF_SECS_def time_defs)

text \<open>
  A shutdown signal while a child runs stops the supervisor. It is forwarded to the running child and to every child that ended before, whose process ids may
  belong to other processes by then.
\<close>

theorem shutdown_signals_every_child:
  assumes "\<forall>r \<in> set rs. crashes r" and "cr_signal q = Some sg"
  shows "\<exists>ds s. run_supervisor cfg rs sup_init = (ds, Some s) \<and> length ds = length rs
    \<and> sup_iter cfg q s = (Stop 0, map (\<lambda>pid. Kill (sint pid) sg) (List.map_filter cr_pid (rs @ [q])))"
proof -
  have fw: "forward_signal sg (s\<lparr>ss_forward := map cr_pid xs\<rparr>)
      = map (\<lambda>pid. Kill (sint pid) sg) (List.map_filter cr_pid xs)"
    for xs :: "child_run list" and s :: sup_state
    by (induction xs) (auto simp: forward_signal_def map_filter_simps split: option.splits)
  have "\<exists>ds s. run_supervisor cfg rs sup_init = (ds, Some s) \<and> length ds = length rs
    \<and> ss_forward s = map cr_pid rs"
    using assms(1)
  proof (induction rs rule: rev_induct)
    case Nil
    show ?case by (simp add: sup_init_def)
  next
    case (snoc r rs)
    then obtain ds s where s: "run_supervisor cfg rs sup_init = (ds, Some s)" "length ds = length rs"
        "ss_forward s = map cr_pid rs"
      by auto
    then show ?case
      using sup_iter_crash [of r cfg s] snoc.prems by (auto simp: run_supervisor_snoc [OF s(1)])
  qed
  then obtain ds s where s: "run_supervisor cfg rs sup_init = (ds, Some s)" "length ds = length rs"
      "ss_forward s = map cr_pid rs"
    by blast
  then have "sup_iter cfg q s = (Stop 0, map (\<lambda>pid. Kill (sint pid) sg) (List.map_filter cr_pid (rs @ [q])))"
    using assms(2) fw [of "rs @ [q]" s] by (simp add: sup_iter_def)
  with s show ?thesis by blast
qed

theorem shutdown_signals_every_child_witness:
  "\<exists>ds s. run_supervisor sample_cfg [sample_run 0] sup_init = (ds, Some s)
    \<and> snd (sup_iter sample_cfg ((sample_run 9)\<lparr>cr_pid := Some 8, cr_signal := Some SIGTERM\<rparr>) s)
      = [Kill 7 15, Kill 8 15]"
  using shutdown_signals_every_child [of "[sample_run 0]"
      "(sample_run 9)\<lparr>cr_pid := Some 8, cr_signal := Some SIGTERM\<rparr>" SIGTERM sample_cfg]
    sample_run_crashes [of 0]
  by (auto simp: sample_run_def map_filter_simps SIGTERM_def)

end
