(* ===== verification/Gawdxfer.thy ===== *)
theory Gawdxfer
  imports Auth
begin

text \<open>
  Chunked file transfers (\<open>server/src/gawdxfer\<close>): hashing and hex encoding (\<open>hasher.rs\<close>), the
  protocol types (\<open>types.rs\<close>), the transfer manager with its chunk I/O (\<open>manager.rs\<close>), and the HTTP
  status of each error (\<open>server/src/routes/stp.rs\<close>).

  The manager runs against a file system, a map from path text to files and directories. The
  digest function of the \<open>sha2\<close> crate is the parameter \<open>sha\<close>. Each call takes an \<open>io_env\<close>, which
  says which of its system calls fail and supplies clocks and identifiers, so every error path of
  the code is a value of the model. \<open>receive_chunk\<close> holds no lock while it writes: it is the
  composition of \<open>receive_check\<close>, \<open>receive_write\<close>, \<open>receive_commit\<close> and \<open>verify_and_finalize\<close>, which
  other calls may interleave.
\<close>

subsection \<open>Hashing\<close>

definition hex_digit :: "nat \<Rightarrow> char" where
  "hex_digit n = (if n < 10 then char_of (48 + n) else char_of (87 + n))"

definition hex_encode :: "u8 list \<Rightarrow> string" where
  "hex_encode bs = fold (\<lambda>b s. s @ [hex_digit (unat b div 16), hex_digit (unat b mod 16)]) bs []"

definition BUF_SIZE :: nat where
  "BUF_SIZE = 64 * 1024"

text \<open>The blocks a streaming read of \<open>data\<close> returns.\<close>

function read_blocks :: "nat \<Rightarrow> 'a list \<Rightarrow> 'a list list" where
  "read_blocks n data = (if n = 0 \<or> data = [] then [] else take n data # read_blocks n (drop n data))"
  by pat_completeness auto

termination
  by (relation "measure (length \<circ> snd)") auto

declare read_blocks.simps [simp del]

type_synonym digest = "u8 list \<Rightarrow> u8 list"

definition hash_bytes :: "digest \<Rightarrow> u8 list \<Rightarrow> string" where
  "hash_bytes sha data = hex_encode (sha data)"

definition hash_file :: "digest \<Rightarrow> u8 list \<Rightarrow> string" where
  "hash_file sha data = hex_encode (sha (concat (read_blocks BUF_SIZE data)))"

definition hash_file_region :: "digest \<Rightarrow> nat \<Rightarrow> nat \<Rightarrow> u8 list \<Rightarrow> string" where
  "hash_file_region sha offset len data =
     hex_encode (sha (concat (read_blocks (min BUF_SIZE len) (take len (drop offset data)))))"

subsection \<open>Types\<close>

datatype direction = Upload | Download

datatype phase = Init | Transferring | Paused | Verifying | Complete | Failed string | Aborted

fun phase_as_str :: "phase \<Rightarrow> string" where
  "phase_as_str Init = ''init''"
| "phase_as_str Transferring = ''transferring''"
| "phase_as_str Paused = ''paused''"
| "phase_as_str Verifying = ''verifying''"
| "phase_as_str Complete = ''complete''"
| "phase_as_str (Failed _) = ''failed''"
| "phase_as_str Aborted = ''aborted''"

record transfer_spec =
  ts_transfer_id :: string
  ts_direction :: direction
  ts_path :: string
  ts_filename :: string
  ts_file_size :: u64
  ts_file_hash :: string
  ts_chunk_size :: u32
  ts_total_chunks :: u32
  ts_mode :: "string option"
  ts_created_at :: instant
  ts_source_mtime :: "u64 option"

record transfer_progress =
  tp_phase :: phase
  tp_chunks_done :: "bool list"
  tp_bytes_transferred :: u64
  tp_last_activity :: instant
  tp_temp_path :: string
  tp_error_count :: u32

record transfer =
  t_spec :: transfer_spec
  t_progress :: transfer_progress

record init_download_result =
  id_transfer_id :: string
  id_file_size :: u64
  id_file_hash :: string
  id_chunk_size :: u32
  id_total_chunks :: u32
  id_filename :: string

record init_upload_req =
  iu_path :: string
  iu_filename :: string
  iu_file_size :: u64
  iu_file_hash :: string
  iu_chunk_size :: u32
  iu_total_chunks :: u32
  iu_mode :: "string option"

record init_upload_result =
  ir_transfer_id :: string
  ir_chunk_size :: u32
  ir_total_chunks :: u32

record chunk_header =
  ch_transfer_id :: string
  ch_chunk_index :: u32
  ch_chunk_hash :: string

record chunk_ack =
  ca_transfer_id :: string
  ca_chunk_index :: u32
  ca_ok :: bool
  ca_error :: "string option"

record gx_progress =
  gp_transfer_id :: string
  gp_direction :: direction
  gp_path :: string
  gp_filename :: string
  gp_chunks_done :: u32
  gp_total_chunks :: u32
  gp_bytes_transferred :: u64
  gp_file_size :: u64
  gp_elapsed_ms :: u64
  gp_rate_bps :: u64

record gx_complete =
  gc_transfer_id :: string
  gc_direction :: direction
  gc_path :: string
  gc_filename :: string
  gc_file_size :: u64
  gc_file_hash :: string
  gc_elapsed_ms :: u64

datatype gx_event = GxProgress gx_progress | GxComplete gx_complete

record transfer_error =
  te_transfer_id :: string
  te_code :: string
  te_message :: string
  te_recoverable :: bool

record resume_result =
  rr_transfer_id :: string
  rr_direction :: direction
  rr_chunks_received :: "u32 list"
  rr_total_chunks :: u32
  rr_chunk_size :: u32
  rr_file_size :: u64
  rr_file_hash :: string

record status_result =
  sr_transfer_id :: string
  sr_direction :: direction
  sr_phase :: string
  sr_filename :: string
  sr_file_size :: u64
  sr_chunks_done :: u32
  sr_total_chunks :: u32
  sr_bytes_transferred :: u64
  sr_elapsed_ms :: u64
  sr_error_count :: u32

record transfer_summary =
  sm_transfer_id :: string
  sm_direction :: direction
  sm_filename :: string
  sm_file_size :: u64
  sm_phase :: string
  sm_chunks_done :: u32
  sm_total_chunks :: u32
  sm_bytes_transferred :: u64

record transfer_config =
  tc_max_concurrent :: nat
  tc_chunk_size :: u32
  tc_max_file_size :: u64
  tc_stale_timeout_secs :: u64
  tc_max_chunk_retries :: u32

definition new_config :: "nat \<Rightarrow> u32 \<Rightarrow> u64 \<Rightarrow> u64 \<Rightarrow> transfer_config" where
  "new_config max_concurrent chunk_size max_file_size stale_timeout_secs =
     \<lparr>tc_max_concurrent = max_concurrent, tc_chunk_size = chunk_size,
      tc_max_file_size = max_file_size, tc_stale_timeout_secs = stale_timeout_secs,
      tc_max_chunk_retries = 3\<rparr>"

subsection \<open>The file system\<close>

datatype node = FileNode "u8 list" "u64 option" u32 | DirNode

type_synonym filesystem = "string \<Rightarrow> node option"

datatype io_kind = PermissionDenied | OtherIo

record io_env =
  io_stat_err :: "io_kind option"
  io_open_ok :: bool
  io_seek_ok :: bool
  io_write_fails_after :: "nat option"
  io_sync_ok :: bool
  io_read_ok :: bool
  io_hash_ok :: bool
  io_create_ok :: bool
  io_set_len_ok :: bool
  io_chmod_ok :: bool
  io_rename_ok :: bool
  io_remove_ok :: bool
  io_statvfs :: "(u64 \<times> u64) option"
  io_text :: string
  io_now :: instant
  io_wall_ms :: "nat option"
  io_mtime :: "u64 option"
  io_uuid :: string
  io_create_mode :: u32

definition file_data :: "filesystem \<Rightarrow> string \<Rightarrow> u8 list option" where
  "file_data fs p = (case fs p of Some (FileNode d _ _) \<Rightarrow> Some d | _ \<Rightarrow> None)"

text \<open>\<open>seek\<close> and \<open>write_all\<close> on a file opened for writing: a gap is filled with zeros.\<close>

definition write_at :: "nat \<Rightarrow> 'a list \<Rightarrow> 'a::zero list \<Rightarrow> 'a list" where
  "write_at off data old =
     (if data = [] then old
      else take off (old @ replicate (off - length old) 0) @ data @ drop (off + length data) old)"

definition fs_write :: "io_env \<Rightarrow> string \<Rightarrow> nat \<Rightarrow> u8 list \<Rightarrow> filesystem \<Rightarrow> filesystem" where
  "fs_write env p off data fs =
     (case fs p of
        Some (FileNode d _ m) \<Rightarrow> fs(p \<mapsto> FileNode (write_at off data d) (io_mtime env) m)
      | _ \<Rightarrow> fs)"

definition fs_remove :: "io_env \<Rightarrow> string \<Rightarrow> filesystem \<Rightarrow> filesystem" where
  "fs_remove env p fs =
     (if io_remove_ok env then (case fs p of Some (FileNode _ _ _) \<Rightarrow> fs(p := None) | _ \<Rightarrow> fs) else fs)"

definition join_path :: "string \<Rightarrow> string \<Rightarrow> string" where
  "join_path dir name =
     (if starts_with ''/'' name then name
      else if dir = [] \<or> last dir = CHR ''/'' then dir @ name else dir @ ''/'' @ name)"

subsection \<open>Helpers of the manager\<close>

definition make_error :: "string \<Rightarrow> string \<Rightarrow> string \<Rightarrow> bool \<Rightarrow> transfer_error" where
  "make_error tid code msg recoverable =
     \<lparr>te_transfer_id = tid, te_code = code, te_message = msg, te_recoverable = recoverable\<rparr>"

text \<open>
  \<open>u64::div_ceil\<close> panics on a zero divisor; the quotient is cut to 32 bits. An empty file has one
  empty chunk.
\<close>

definition compute_chunks :: "u64 \<Rightarrow> u32 \<Rightarrow> (transfer_error, u32) outcome" where
  "compute_chunks file_size chunk_size =
     (if file_size = 0 then Ok 1
      else if chunk_size = 0 then Panic ''attempt to divide by zero''
      else let c = ucast chunk_size :: u64; q = file_size div c
           in Ok (ucast (if file_size mod c > 0 then q + 1 else q)))"

definition validate_transfer_path :: "string \<Rightarrow> transfer_error + string" where
  "validate_transfer_path path =
     (if \<not> starts_with ''/'' path
      then Inl (make_error [] ''INVALID_PATH'' ''Path must be absolute'' False)
      else if CHR 0x00 \<in> set path
      then Inl (make_error [] ''INVALID_PATH'' ''Path contains null bytes'' False)
      else if list_ex (\<lambda>c. c = ''..'') (split_char (CHR ''/'') path)
      then Inl (make_error [] ''INVALID_PATH'' ''Path traversal (..) not allowed'' False)
      else Inr path)"

definition check_disk_space :: "(u64 \<times> u64) option \<Rightarrow> u64 \<Rightarrow> transfer_error + unit" where
  "check_disk_space stat required =
     (case stat of
        None \<Rightarrow> Inr ()
      | Some (blocks, fragment) \<Rightarrow>
          (let available = blocks * fragment; needed = required + required div 10
           in if available < needed
              then Inl (make_error [] ''DISK_FULL''
                (''Insufficient disk space: '' @ show_nat (unat available) @ '' bytes available, ''
                  @ show_nat (unat needed) @ '' bytes needed'') False)
              else Inr ()))"

definition file_name :: "string \<Rightarrow> string option" where
  "file_name path =
     (case filter (\<lambda>c. c \<noteq> [] \<and> c \<noteq> ''.'') (split_char (CHR ''/'') path) of
        [] \<Rightarrow> None
      | cs \<Rightarrow> Some (last cs))"

fun parse_octal_digits :: "nat \<Rightarrow> string \<Rightarrow> nat option" where
  "parse_octal_digits acc [] = Some acc"
| "parse_octal_digits acc (c # s) =
     (case digit_val c of
        Some d \<Rightarrow> if d < 8 then parse_octal_digits (acc * 8 + d) s else None
      | None \<Rightarrow> None)"

text \<open>\<open>u32::from_str_radix(mode, 8)\<close>\<close>

definition parse_octal_u32 :: "string \<Rightarrow> u32 option" where
  "parse_octal_u32 s =
     (let t = (case s of [] \<Rightarrow> [] | c # r \<Rightarrow> if c = CHR ''+'' then r else s)
      in if t = [] then None
         else case parse_octal_digits 0 t of
             None \<Rightarrow> None
           | Some n \<Rightarrow> if n < 2 ^ 32 then Some (of_nat n) else None)"

subsection \<open>The manager\<close>

record transfer_manager =
  tm_transfers :: "(string, transfer) hmap"
  tm_config :: transfer_config
  tm_events :: "gx_event list"
  tm_log :: activity_log

definition new_transfer_manager :: "transfer_config \<Rightarrow> activity_log \<Rightarrow> transfer_manager" where
  "new_transfer_manager cfg log = \<lparr>tm_transfers = [], tm_config = cfg, tm_events = [], tm_log = log\<rparr>"

definition active_count :: "transfer_manager \<Rightarrow> nat" where
  "active_count tm = length (filter (\<lambda>(_, t). tp_phase (t_progress t) \<in> {Init, Transferring}) (tm_transfers tm))"

text \<open>The limit both \<open>init\<close> operations check, and the error of a failed \<open>metadata\<close> call.\<close>

definition limit_error :: "transfer_manager \<Rightarrow> transfer_error option" where
  "limit_error tm =
     (if active_count tm \<ge> tc_max_concurrent (tm_config tm)
      then Some (make_error [] ''MAX_TRANSFERS''
        (''Concurrent transfer limit reached (max '' @ show_nat (tc_max_concurrent (tm_config tm)) @ '')'') True)
      else None)"

definition stat_path :: "io_env \<Rightarrow> string \<Rightarrow> filesystem \<Rightarrow> string \<Rightarrow> transfer_error + node" where
  "stat_path env missing fs p =
     (case io_stat_err env of
        Some PermissionDenied \<Rightarrow>
          Inl (make_error [] ''PERMISSION_DENIED'' (''Permission denied: '' @ io_text env) False)
      | Some OtherIo \<Rightarrow> Inl (make_error [] ''IO_ERROR'' (''I/O error: '' @ io_text env) False)
      | None \<Rightarrow>
          (case fs p of
             None \<Rightarrow> Inl (make_error [] ''FILE_NOT_FOUND'' (missing @ '': '' @ io_text env) False)
           | Some n \<Rightarrow> Inr n))"

definition size_error :: "u64 \<Rightarrow> transfer_manager \<Rightarrow> transfer_error" where
  "size_error fsize tm = make_error [] ''FILE_TOO_LARGE''
     (''File too large ('' @ show_nat (unat fsize) @ '' bytes, max ''
       @ show_nat (unat (tc_max_file_size (tm_config tm))) @ '')'') False"

definition direction_name :: "direction \<Rightarrow> string" where
  "direction_name d = (case d of Upload \<Rightarrow> ''upload'' | Download \<Rightarrow> ''download'')"

definition log_start :: "io_env \<Rightarrow> transfer_spec \<Rightarrow> transfer_manager \<Rightarrow> transfer_manager" where
  "log_start env sp tm = tm\<lparr>tm_log := snd (log_activity
     \<lparr>lc_type = TransferStart, lc_source = Rest,
      lc_summary = direction_name (ts_direction sp) @ '' '' @ ts_filename sp @ '' (''
        @ show_nat (unat (ts_file_size sp)) @ '' bytes)'',
      lc_detail = Some (JObj [(''transfer_id'', JStr (ts_transfer_id sp)),
        (''direction'', JStr (direction_name (ts_direction sp))),
        (''filename'', JStr (ts_filename sp)), (''file_size'', JNum (uint (ts_file_size sp))),
        (''total_chunks'', JNum (uint (ts_total_chunks sp)))]),
      lc_request_id = None, lc_clock_ms = io_wall_ms env\<rparr> (tm_log tm))\<rparr>"

definition new_progress :: "instant \<Rightarrow> u32 \<Rightarrow> string \<Rightarrow> transfer_progress" where
  "new_progress now nchunks temp =
     \<lparr>tp_phase = Transferring, tp_chunks_done = replicate (unat nchunks) False,
      tp_bytes_transferred = 0, tp_last_activity = now, tp_temp_path = temp, tp_error_count = 0\<rparr>"

definition register :: "io_env \<Rightarrow> transfer_spec \<Rightarrow> string \<Rightarrow> transfer_manager \<Rightarrow> transfer_manager" where
  "register env sp temp tm = log_start env sp (tm\<lparr>tm_transfers :=
     hm_insert (ts_transfer_id sp)
       \<lparr>t_spec = sp, t_progress = new_progress (io_now env) (ts_total_chunks sp) temp\<rparr> (tm_transfers tm)\<rparr>)"

definition init_download ::
  "digest \<Rightarrow> io_env \<Rightarrow> string \<Rightarrow> u32 option \<Rightarrow> filesystem \<Rightarrow> transfer_manager
     \<Rightarrow> (transfer_error, init_download_result) outcome \<times> transfer_manager" where
  "init_download sha env path chunk_size fs tm =
     (case validate_transfer_path path of Inl e \<Rightarrow> (Err e, tm) | Inr validated \<Rightarrow>
      (case stat_path env ''File not found'' fs validated of
         Inl e \<Rightarrow> (Err e, tm)
       | Inr DirNode \<Rightarrow> (Err (make_error [] ''INVALID_PATH'' ''Path is a directory'' False), tm)
       | Inr (FileNode data mtime _) \<Rightarrow>
          (let fsize = of_nat (length data) :: u64 in
           if fsize > tc_max_file_size (tm_config tm) then (Err (size_error fsize tm), tm)
           else (case limit_error tm of Some e \<Rightarrow> (Err e, tm) | None \<Rightarrow>
            (let cs = (case chunk_size of Some c \<Rightarrow> c | None \<Rightarrow> tc_chunk_size (tm_config tm)) in
             case compute_chunks fsize cs of
               Panic m \<Rightarrow> (Panic m, tm)
             | Err e \<Rightarrow> (Err e, tm)
             | Ok nchunks \<Rightarrow>
                 if \<not> io_hash_ok env
                 then (Err (make_error [] ''IO_ERROR'' (''Failed to hash file: '' @ io_text env) False), tm)
                 else
                  (let fh = hash_file sha data;
                       name = (case file_name validated of Some n \<Rightarrow> n | None \<Rightarrow> ''download'');
                       sp = \<lparr>ts_transfer_id = io_uuid env, ts_direction = Download, ts_path = validated,
                             ts_filename = name, ts_file_size = fsize, ts_file_hash = fh,
                             ts_chunk_size = cs, ts_total_chunks = nchunks, ts_mode = None,
                             ts_created_at = io_now env, ts_source_mtime = mtime\<rparr>
                   in (Ok \<lparr>id_transfer_id = io_uuid env, id_file_size = fsize, id_file_hash = fh,
                           id_chunk_size = cs, id_total_chunks = nchunks, id_filename = name\<rparr>,
                       register env sp [] tm)))))))"

definition valid_filename :: "string \<Rightarrow> bool" where
  "valid_filename f \<longleftrightarrow> f \<noteq> [] \<and> CHR ''/'' \<notin> set f \<and> CHR 0x5C \<notin> set f \<and> f \<noteq> ''..''"

text \<open>The guards of \<open>init_upload\<close>, in order, up to the creation of the temporary file.\<close>

definition upload_guards ::
  "io_env \<Rightarrow> init_upload_req \<Rightarrow> filesystem \<Rightarrow> transfer_manager
     \<Rightarrow> (transfer_error, string \<times> u32 \<times> u32) outcome" where
  "upload_guards env req fs tm =
     (case validate_transfer_path (iu_path req) of Inl e \<Rightarrow> Err e | Inr dir \<Rightarrow>
      (case stat_path env ''Directory not found'' fs dir of
         Inl e \<Rightarrow> Err e
       | Inr (FileNode _ _ _) \<Rightarrow>
           Err (make_error [] ''INVALID_PATH'' ''Target path is not a directory'' False)
       | Inr DirNode \<Rightarrow>
          if \<not> valid_filename (iu_filename req)
          then Err (make_error [] ''INVALID_PATH'' (''Invalid filename: '' @ iu_filename req) False)
          else if iu_file_size req > tc_max_file_size (tm_config tm)
          then Err (size_error (iu_file_size req) tm)
          else (case limit_error tm of Some e \<Rightarrow> Err e | None \<Rightarrow>
           (case check_disk_space (io_statvfs env) (iu_file_size req) of Inl e \<Rightarrow> Err e | Inr _ \<Rightarrow>
            (let cs = max (iu_chunk_size req) 1024 in
             case compute_chunks (iu_file_size req) cs of
               Panic m \<Rightarrow> Panic m
             | Err e \<Rightarrow> Err e
             | Ok nchunks \<Rightarrow>
                 if iu_total_chunks req \<noteq> nchunks
                 then Err (make_error [] ''INVALID_REQUEST''
                   (''Chunk count mismatch: client sent '' @ show_nat (unat (iu_total_chunks req))
                     @ '', expected '' @ show_nat (unat nchunks)) False)
                 else Ok (dir, cs, nchunks))))))"

definition temp_name :: "string \<Rightarrow> string \<Rightarrow> string" where
  "temp_name dir tid = join_path dir (''.gx_tmp_'' @ tid)"

definition init_upload ::
  "io_env \<Rightarrow> init_upload_req \<Rightarrow> filesystem \<Rightarrow> transfer_manager
     \<Rightarrow> (transfer_error, init_upload_result) outcome \<times> filesystem \<times> transfer_manager" where
  "init_upload env req fs tm =
     (case upload_guards env req fs tm of
        Err e \<Rightarrow> (Err e, fs, tm)
      | Panic m \<Rightarrow> (Panic m, fs, tm)
      | Ok (dir, cs, nchunks) \<Rightarrow>
         (let tid = io_uuid env; temp = temp_name dir tid in
          if \<not> io_create_ok env
          then (Err (make_error [] ''IO_ERROR'' (''Failed to create temp file: '' @ io_text env) False), fs, tm)
          else if \<not> io_set_len_ok env
          then (Err (make_error [] ''DISK_FULL''
                 (''Failed to pre-allocate '' @ show_nat (unat (iu_file_size req)) @ '': '' @ io_text env) False),
                fs_remove env temp (fs(temp \<mapsto> FileNode [] (io_mtime env) (io_create_mode env))), tm)
          else
           (let sp = \<lparr>ts_transfer_id = tid, ts_direction = Upload, ts_path = dir,
                      ts_filename = iu_filename req, ts_file_size = iu_file_size req,
                      ts_file_hash = iu_file_hash req, ts_chunk_size = cs, ts_total_chunks = nchunks,
                      ts_mode = iu_mode req, ts_created_at = io_now env, ts_source_mtime = None\<rparr>
            in (Ok \<lparr>ir_transfer_id = tid, ir_chunk_size = cs, ir_total_chunks = nchunks\<rparr>,
                fs(temp \<mapsto> FileNode (replicate (unat (iu_file_size req)) 0) (io_mtime env) (io_create_mode env)),
                register env sp temp tm))))"

subsection \<open>Progress events\<close>

definition count_done :: "bool list \<Rightarrow> u32" where
  "count_done ds = of_nat (length (filter id ds))"

definition elapsed_ms :: "instant \<Rightarrow> transfer_spec \<Rightarrow> u64" where
  "elapsed_ms now sp = of_nat (as_millis (elapsed now (ts_created_at sp)))"

definition progress_snapshot :: "instant \<Rightarrow> transfer \<Rightarrow> gx_progress" where
  "progress_snapshot now t =
     (let sp = t_spec t; pr = t_progress t; ms = elapsed_ms now sp in
      \<lparr>gp_transfer_id = ts_transfer_id sp, gp_direction = ts_direction sp, gp_path = ts_path sp,
       gp_filename = ts_filename sp, gp_chunks_done = count_done (tp_chunks_done pr),
       gp_total_chunks = ts_total_chunks sp, gp_bytes_transferred = tp_bytes_transferred pr,
       gp_file_size = ts_file_size sp, gp_elapsed_ms = ms,
       gp_rate_bps = (if ms = 0 then 0 else (tp_bytes_transferred pr * 1000) div ms)\<rparr>)"

definition emit_progress :: "instant \<Rightarrow> transfer \<Rightarrow> transfer_manager \<Rightarrow> transfer_manager" where
  "emit_progress now t tm = tm\<lparr>tm_events := tm_events tm @ [GxProgress (progress_snapshot now t)]\<rparr>"

text \<open>The event and the activity entry of a completed transfer; \<open>path\<close> is the path reported.\<close>

definition announce_complete ::
  "io_env \<Rightarrow> string \<Rightarrow> transfer_spec \<Rightarrow> transfer_manager \<Rightarrow> transfer_manager" where
  "announce_complete env path sp tm =
     (let ms = elapsed_ms (io_now env) sp in
      tm\<lparr>tm_events := tm_events tm @ [GxComplete
           \<lparr>gc_transfer_id = ts_transfer_id sp, gc_direction = ts_direction sp, gc_path = path,
            gc_filename = ts_filename sp, gc_file_size = ts_file_size sp,
            gc_file_hash = ts_file_hash sp, gc_elapsed_ms = ms\<rparr>],
         tm_log := snd (log_activity
           \<lparr>lc_type = TransferComplete, lc_source = Rest,
            lc_summary = direction_name (ts_direction sp) @ '' '' @ ts_filename sp @ '' (''
              @ show_nat (unat (ts_file_size sp)) @ '' bytes, '' @ show_nat (unat ms) @ ''ms)'',
            lc_detail = Some (JObj [(''transfer_id'', JStr (ts_transfer_id sp)),
              (''direction'', JStr (direction_name (ts_direction sp))),
              (''filename'', JStr (ts_filename sp)), (''file_size'', JNum (uint (ts_file_size sp))),
              (''elapsed_ms'', JNum (uint ms))]),
            lc_request_id = None, lc_clock_ms = io_wall_ms env\<rparr> (tm_log tm))\<rparr>)"

definition set_transfer :: "string \<Rightarrow> (transfer \<Rightarrow> transfer) \<Rightarrow> transfer_manager \<Rightarrow> transfer_manager" where
  "set_transfer tid f tm = tm\<lparr>tm_transfers := hm_modify tid f (tm_transfers tm)\<rparr>"

definition get_transfer :: "string \<Rightarrow> transfer_manager \<Rightarrow> transfer option" where
  "get_transfer tid tm = hm_get (tm_transfers tm) tid"

definition set_phase :: "phase \<Rightarrow> transfer \<Rightarrow> transfer" where
  "set_phase ph t = t\<lparr>t_progress := (t_progress t)\<lparr>tp_phase := ph\<rparr>\<rparr>"

text \<open>\<open>if let Some(slot) = v.get_mut(i) { *slot = true }\<close>, then the counters.\<close>

definition mark_chunk :: "instant \<Rightarrow> u32 \<Rightarrow> nat \<Rightarrow> transfer \<Rightarrow> transfer" where
  "mark_chunk now idx len t =
     t\<lparr>t_progress := (t_progress t)\<lparr>
         tp_chunks_done := (tp_chunks_done (t_progress t))[unat idx := True],
         tp_bytes_transferred := tp_bytes_transferred (t_progress t) + of_nat len,
         tp_last_activity := now\<rparr>\<rparr>"

definition all_done :: "transfer \<Rightarrow> bool" where
  "all_done t = list_all id (tp_chunks_done (t_progress t))"

definition tnf :: "string \<Rightarrow> transfer_error" where
  "tnf tid = make_error tid ''TRANSFER_NOT_FOUND'' ''Transfer not found'' False"

definition out_of_range :: "string \<Rightarrow> u32 \<Rightarrow> u32 \<Rightarrow> transfer_error" where
  "out_of_range tid idx nchunks = make_error tid ''INVALID_REQUEST''
     (''Chunk index '' @ show_nat (unat idx) @ '' out of range (total '' @ show_nat (unat nchunks) @ '')'') False"

subsection \<open>Serving chunks\<close>

definition chunk_offset :: "transfer_spec \<Rightarrow> u32 \<Rightarrow> u64" where
  "chunk_offset sp idx = ucast idx * ucast (ts_chunk_size sp)"

definition serve_check ::
  "io_env \<Rightarrow> string \<Rightarrow> u32 \<Rightarrow> filesystem \<Rightarrow> transfer_manager \<Rightarrow> transfer_error + (u64 \<times> nat \<times> string)" where
  "serve_check env tid idx fs tm =
     (case get_transfer tid tm of None \<Rightarrow> Inl (tnf tid) | Some t \<Rightarrow>
      (let sp = t_spec t; ph = tp_phase (t_progress t) in
       if ts_direction sp \<noteq> Download
       then Inl (make_error tid ''INVALID_REQUEST'' ''Not a download transfer'' False)
       else if ph \<notin> {Transferring, Paused}
       then Inl (make_error tid ''INVALID_REQUEST''
         (''Transfer in phase '' @ [CHR 0x22] @ phase_as_str ph @ [CHR 0x22] @ '', cannot serve chunks'') False)
       else if idx \<ge> ts_total_chunks sp then Inl (out_of_range tid idx (ts_total_chunks sp))
       else if (case (ts_source_mtime sp, io_stat_err env, fs (ts_path sp)) of
                  (Some m, None, Some (FileNode _ m' _)) \<Rightarrow> m' \<noteq> Some m
                | (Some m, None, Some DirNode) \<Rightarrow> io_mtime env \<noteq> Some m
                | _ \<Rightarrow> False)
       then Inl (make_error tid ''FILE_CHANGED'' ''Source file modified during transfer'' False)
       else let off = chunk_offset sp idx
            in Inr (off, unat (min (ucast (ts_chunk_size sp)) (saturating_sub (ts_file_size sp) off)), ts_path sp)))"

definition serve_commit ::
  "io_env \<Rightarrow> string \<Rightarrow> u32 \<Rightarrow> nat \<Rightarrow> transfer_manager \<Rightarrow> transfer_manager" where
  "serve_commit env tid idx len tm =
     (case get_transfer tid tm of
        None \<Rightarrow> tm
      | Some t0 \<Rightarrow>
         (let t1 = mark_chunk (io_now env) idx len t0;
              t2 = (if all_done t1 then set_phase Complete t1 else t1);
              tm1 = set_transfer tid (\<lambda>_. t2) tm;
              tm2 = (if all_done t1 then announce_complete env (ts_path (t_spec t2)) (t_spec t2) tm1 else tm1)
          in emit_progress (io_now env) t2 tm2))"

definition serve_chunk ::
  "digest \<Rightarrow> io_env \<Rightarrow> string \<Rightarrow> u32 \<Rightarrow> filesystem \<Rightarrow> transfer_manager
     \<Rightarrow> (transfer_error, chunk_header \<times> u8 list) outcome \<times> transfer_manager" where
  "serve_chunk sha env tid idx fs tm =
     (case serve_check env tid idx fs tm of Inl e \<Rightarrow> (Err e, tm) | Inr (off, len, path) \<Rightarrow>
      (case file_data fs path of
         None \<Rightarrow> (Err (make_error tid ''IO_ERROR'' (''Failed to open source: '' @ io_text env) False), tm)
       | Some data \<Rightarrow>
          if \<not> io_open_ok env
          then (Err (make_error tid ''IO_ERROR'' (''Failed to open source: '' @ io_text env) False), tm)
          else if \<not> io_seek_ok env
          then (Err (make_error tid ''IO_ERROR'' (''Seek failed: '' @ io_text env) False), tm)
          else if \<not> io_read_ok env \<or> length (take len (drop (unat off) data)) < len
          then (Err (make_error tid ''IO_ERROR'' (''Read failed: '' @ io_text env) False), tm)
          else let buf = take len (drop (unat off) data) in
             (Ok (\<lparr>ch_transfer_id = tid, ch_chunk_index = idx, ch_chunk_hash = hash_bytes sha buf\<rparr>, buf),
              serve_commit env tid idx len tm)))"

subsection \<open>Receiving chunks\<close>

text \<open>What \<open>receive_chunk\<close> copies out of the transfer while it holds the read lock.\<close>

record receive_plan =
  rp_offset :: u64
  rp_temp :: string
  rp_total :: u32
  rp_file_hash :: string
  rp_file_size :: u64
  rp_final :: string
  rp_mode :: "string option"

definition receive_check :: "string \<Rightarrow> u32 \<Rightarrow> transfer_manager \<Rightarrow> transfer_error + receive_plan" where
  "receive_check tid idx tm =
     (case get_transfer tid tm of None \<Rightarrow> Inl (tnf tid) | Some t \<Rightarrow>
      (let sp = t_spec t; ph = tp_phase (t_progress t) in
       if ts_direction sp \<noteq> Upload
       then Inl (make_error tid ''INVALID_REQUEST'' ''Not an upload transfer'' False)
       else if ph \<noteq> Transferring
       then Inl (make_error tid ''INVALID_REQUEST''
         (''Transfer in phase '' @ phase_as_str ph @ '', cannot receive chunks'') False)
       else if idx \<ge> ts_total_chunks sp then Inl (out_of_range tid idx (ts_total_chunks sp))
       else Inr \<lparr>rp_offset = chunk_offset sp idx, rp_temp = tp_temp_path (t_progress t),
                 rp_total = ts_total_chunks sp, rp_file_hash = ts_file_hash sp,
                 rp_file_size = ts_file_size sp, rp_final = join_path (ts_path sp) (ts_filename sp),
                 rp_mode = ts_mode sp\<rparr>))"

definition receive_reject :: "io_env \<Rightarrow> string \<Rightarrow> u32 \<Rightarrow> transfer_manager \<Rightarrow> transfer_manager" where
  "receive_reject env tid nchunks tm =
     set_transfer tid (\<lambda>t.
       let pr = (t_progress t)\<lparr>tp_error_count := tp_error_count (t_progress t) + 1,
                               tp_last_activity := io_now env\<rparr>
       in t\<lparr>t_progress :=
            (if tp_error_count pr \<ge> tc_max_chunk_retries (tm_config tm) * nchunks
             then pr\<lparr>tp_phase := Failed ''Too many chunk errors''\<rparr> else pr)\<rparr>) tm"

definition receive_write ::
  "io_env \<Rightarrow> string \<Rightarrow> string \<Rightarrow> u64 \<Rightarrow> u8 list \<Rightarrow> filesystem \<Rightarrow> transfer_error option \<times> filesystem" where
  "receive_write env tid temp off data fs =
     (if \<not> io_open_ok env \<or> file_data fs temp = None
      then (Some (make_error tid ''IO_ERROR'' (''Failed to open temp file: '' @ io_text env) False), fs)
      else if \<not> io_seek_ok env
      then (Some (make_error tid ''IO_ERROR'' (''Seek failed: '' @ io_text env) False), fs)
      else (case io_write_fails_after env of
          Some n \<Rightarrow> (Some (make_error tid ''IO_ERROR'' (''Write failed: '' @ io_text env) False),
                     fs_write env temp (unat off) (take n data) fs)
        | None \<Rightarrow>
            (let fs' = fs_write env temp (unat off) data fs
             in if \<not> io_sync_ok env
                then (Some (make_error tid ''IO_ERROR'' (''Sync failed: '' @ io_text env) False), fs')
                else (None, fs'))))"

definition receive_commit ::
  "io_env \<Rightarrow> string \<Rightarrow> u32 \<Rightarrow> nat \<Rightarrow> transfer_manager \<Rightarrow> transfer_error + (bool \<times> transfer_manager)" where
  "receive_commit env tid idx len tm =
     (case get_transfer tid tm of
        None \<Rightarrow> Inl (tnf tid)
      | Some t0 \<Rightarrow>
         (let t1 = mark_chunk (io_now env) idx len t0;
              t2 = (if all_done t1 then set_phase Verifying t1 else t1)
          in Inr (all_done t1, emit_progress (io_now env) t2 (set_transfer tid (\<lambda>_. t2) tm))))"

definition set_file_hash :: "string \<Rightarrow> transfer \<Rightarrow> transfer" where
  "set_file_hash h t = t\<lparr>t_spec := (t_spec t)\<lparr>ts_file_hash := h\<rparr>\<rparr>"

definition apply_mode :: "io_env \<Rightarrow> string option \<Rightarrow> string \<Rightarrow> filesystem \<Rightarrow> filesystem" where
  "apply_mode env mode p fs =
     (case Option.bind mode parse_octal_u32 of
        None \<Rightarrow> fs
      | Some m \<Rightarrow>
         (case fs p of
            Some (FileNode d t _) \<Rightarrow> if io_chmod_ok env then fs(p \<mapsto> FileNode d t m) else fs
          | _ \<Rightarrow> fs))"

text \<open>The end of \<open>verify_and_finalize\<close>: permissions, rename, completion.\<close>

definition finalize ::
  "io_env \<Rightarrow> string \<Rightarrow> receive_plan \<Rightarrow> filesystem \<Rightarrow> transfer_manager
     \<Rightarrow> (transfer_error + unit) \<times> filesystem \<times> transfer_manager" where
  "finalize env tid plan fs tm =
     (let fs1 = apply_mode env (rp_mode plan) (rp_temp plan) fs in
      if \<not> io_rename_ok env \<or> fs1 (rp_final plan) = Some DirNode \<or> fs1 (rp_temp plan) = None
      then (Inl (make_error tid ''IO_ERROR'' (''Failed to finalize: '' @ io_text env) False),
            fs_remove env (rp_temp plan) fs1, tm)
      else
        (let fs2 = (if rp_final plan = rp_temp plan then fs1
                    else fs1(rp_final plan := fs1 (rp_temp plan), rp_temp plan := None));
             tm1 = set_transfer tid (set_phase Complete) tm
         in (Inr (), fs2,
             (case get_transfer tid tm1 of
                None \<Rightarrow> tm1
              | Some t \<Rightarrow> announce_complete env (rp_final plan) (t_spec t) tm1))))"

definition verify_and_finalize ::
  "digest \<Rightarrow> io_env \<Rightarrow> string \<Rightarrow> receive_plan \<Rightarrow> filesystem \<Rightarrow> transfer_manager
     \<Rightarrow> (transfer_error + unit) \<times> filesystem \<times> transfer_manager" where
  "verify_and_finalize sha env tid plan fs tm =
     (case file_data fs (rp_temp plan) of
        None \<Rightarrow> (Inl (make_error tid ''IO_ERROR'' (''Hash verification failed: '' @ io_text env) False), fs, tm)
      | Some data \<Rightarrow>
         if \<not> io_hash_ok env
         then (Inl (make_error tid ''IO_ERROR'' (''Hash verification failed: '' @ io_text env) False), fs, tm)
         else
          (let actual = hash_file sha data in
           if rp_file_hash plan = []
           then finalize env tid plan fs (set_transfer tid (set_file_hash actual) tm)
           else if actual \<noteq> rp_file_hash plan
           then (Inl (make_error tid ''HASH_MISMATCH''
                   (''Expected '' @ rp_file_hash plan @ '', got '' @ actual) False),
                 fs_remove env (rp_temp plan) fs,
                 set_transfer tid (set_phase (Failed ''Whole-file hash mismatch after all chunks received'')) tm)
           else finalize env tid plan fs tm))"

definition ack :: "string \<Rightarrow> u32 \<Rightarrow> chunk_ack" where
  "ack tid idx = \<lparr>ca_transfer_id = tid, ca_chunk_index = idx, ca_ok = True, ca_error = None\<rparr>"

definition nack :: "string \<Rightarrow> u32 \<Rightarrow> chunk_ack" where
  "nack tid idx = \<lparr>ca_transfer_id = tid, ca_chunk_index = idx, ca_ok = False,
     ca_error = Some ''Chunk hash mismatch''\<rparr>"

text \<open>The part of \<open>receive_chunk\<close> after the chunk is on disk.\<close>

definition receive_finish ::
  "digest \<Rightarrow> io_env \<Rightarrow> string \<Rightarrow> u32 \<Rightarrow> nat \<Rightarrow> receive_plan \<Rightarrow> filesystem \<Rightarrow> transfer_manager
     \<Rightarrow> (transfer_error, chunk_ack) outcome \<times> filesystem \<times> transfer_manager" where
  "receive_finish sha env tid idx len plan fs tm =
     (case receive_commit env tid idx len tm of
        Inl e \<Rightarrow> (Err e, fs, tm)
      | Inr (complete, tm1) \<Rightarrow>
         if complete
         then (case verify_and_finalize sha env tid plan fs tm1 of
                 (Inl e, fs2, tm2) \<Rightarrow> (Err e, fs2, tm2)
               | (Inr _, fs2, tm2) \<Rightarrow> (Ok (ack tid idx), fs2, tm2))
         else (Ok (ack tid idx), fs, tm1))"

definition receive_chunk ::
  "digest \<Rightarrow> io_env \<Rightarrow> string \<Rightarrow> u32 \<Rightarrow> string \<Rightarrow> u8 list \<Rightarrow> filesystem \<Rightarrow> transfer_manager
     \<Rightarrow> (transfer_error, chunk_ack) outcome \<times> filesystem \<times> transfer_manager" where
  "receive_chunk sha env tid idx chunk_hash data fs tm =
     (case receive_check tid idx tm of
        Inl e \<Rightarrow> (Err e, fs, tm)
      | Inr plan \<Rightarrow>
         if hash_bytes sha data \<noteq> chunk_hash
         then (Ok (nack tid idx), fs, receive_reject env tid (rp_total plan) tm)
         else (case receive_write env tid (rp_temp plan) (rp_offset plan) data fs of
                 (Some e, fs1) \<Rightarrow> (Err e, fs1, tm)
               | (None, fs1) \<Rightarrow> receive_finish sha env tid idx (length data) plan fs1 tm))"

subsection \<open>Control and maintenance\<close>

definition done_indices :: "bool list \<Rightarrow> u32 list" where
  "done_indices ds = map (\<lambda>(i, _). of_nat i) (filter (\<lambda>(_, d). d) (enumerate 0 ds))"

definition resume :: "io_env \<Rightarrow> string \<Rightarrow> transfer_manager
     \<Rightarrow> (transfer_error + resume_result) \<times> transfer_manager" where
  "resume env tid tm =
     (case get_transfer tid tm of None \<Rightarrow> (Inl (tnf tid), tm) | Some t \<Rightarrow>
      (let ph = tp_phase (t_progress t); sp = t_spec t in
       if ph \<notin> {Paused, Transferring}
       then (Inl (make_error tid ''INVALID_REQUEST''
              (''Cannot resume transfer in phase '' @ phase_as_str ph) False), tm)
       else
        (Inr \<lparr>rr_transfer_id = tid, rr_direction = ts_direction sp,
              rr_chunks_received = done_indices (tp_chunks_done (t_progress t)),
              rr_total_chunks = ts_total_chunks sp, rr_chunk_size = ts_chunk_size sp,
              rr_file_size = ts_file_size sp, rr_file_hash = ts_file_hash sp\<rparr>,
         set_transfer tid (\<lambda>t. t\<lparr>t_progress := (t_progress t)\<lparr>tp_phase := Transferring,
           tp_last_activity := io_now env\<rparr>\<rparr>) tm)))"

definition abort :: "io_env \<Rightarrow> string \<Rightarrow> filesystem \<Rightarrow> transfer_manager
     \<Rightarrow> (transfer_error + unit) \<times> filesystem \<times> transfer_manager" where
  "abort env tid fs tm =
     (case get_transfer tid tm of None \<Rightarrow> (Inl (tnf tid), fs, tm) | Some t \<Rightarrow>
       (Inr (),
        (if tp_temp_path (t_progress t) \<noteq> [] then fs_remove env (tp_temp_path (t_progress t)) fs else fs),
        set_transfer tid (set_phase Aborted) tm))"

definition transfer_status :: "instant \<Rightarrow> string \<Rightarrow> transfer_manager \<Rightarrow> transfer_error + status_result" where
  "transfer_status now tid tm =
     (case get_transfer tid tm of None \<Rightarrow> Inl (tnf tid) | Some t \<Rightarrow>
      (let sp = t_spec t; pr = t_progress t in
       Inr \<lparr>sr_transfer_id = tid, sr_direction = ts_direction sp, sr_phase = phase_as_str (tp_phase pr),
            sr_filename = ts_filename sp, sr_file_size = ts_file_size sp,
            sr_chunks_done = count_done (tp_chunks_done pr), sr_total_chunks = ts_total_chunks sp,
            sr_bytes_transferred = tp_bytes_transferred pr, sr_elapsed_ms = elapsed_ms now sp,
            sr_error_count = tp_error_count pr\<rparr>))"

definition list_transfers :: "transfer_manager \<Rightarrow> transfer_summary list" where
  "list_transfers tm = map (\<lambda>(_, t). let sp = t_spec t; pr = t_progress t in
     \<lparr>sm_transfer_id = ts_transfer_id sp, sm_direction = ts_direction sp, sm_filename = ts_filename sp,
      sm_file_size = ts_file_size sp, sm_phase = phase_as_str (tp_phase pr),
      sm_chunks_done = count_done (tp_chunks_done pr), sm_total_chunks = ts_total_chunks sp,
      sm_bytes_transferred = tp_bytes_transferred pr\<rparr>) (tm_transfers tm)"

definition pause_all :: "transfer_manager \<Rightarrow> transfer_manager" where
  "pause_all tm = tm\<lparr>tm_transfers := hm_map_values (\<lambda>t.
     if tp_phase (t_progress t) \<in> {Transferring, Init} then set_phase Paused t else t) (tm_transfers tm)\<rparr>"

fun sweepable :: "phase \<Rightarrow> bool" where
  "sweepable Paused = True"
| "sweepable (Failed _) = True"
| "sweepable Aborted = True"
| "sweepable Complete = True"
| "sweepable _ = False"

definition stale :: "transfer_config \<Rightarrow> instant \<Rightarrow> transfer \<Rightarrow> bool" where
  "stale cfg now t \<longleftrightarrow> sweepable (tp_phase (t_progress t)) \<and>
     elapsed now (tp_last_activity (t_progress t)) > from_secs (unat (tc_stale_timeout_secs cfg))"

definition remove_temps :: "io_env \<Rightarrow> transfer_manager \<Rightarrow> string list \<Rightarrow> filesystem \<Rightarrow> filesystem" where
  "remove_temps env tm ids fs = fold (\<lambda>tid fs.
     case get_transfer tid tm of
       None \<Rightarrow> fs
     | Some t \<Rightarrow> if tp_temp_path (t_progress t) \<noteq> []
                then fs_remove env (tp_temp_path (t_progress t)) fs else fs) ids fs"

definition sweep_stale :: "io_env \<Rightarrow> filesystem \<Rightarrow> transfer_manager
     \<Rightarrow> string list \<times> filesystem \<times> transfer_manager" where
  "sweep_stale env fs tm =
     (let ids = hm_keys_where (stale (tm_config tm) (io_now env)) (tm_transfers tm)
      in (ids, remove_temps env tm ids fs,
          tm\<lparr>tm_transfers := hm_remove_all ids (tm_transfers tm)\<rparr>))"

subsection \<open>The HTTP surface\<close>

definition transfer_status_code :: "string \<Rightarrow> nat" where
  "transfer_status_code code =
     (if code \<in> {''FILE_NOT_FOUND'', ''TRANSFER_NOT_FOUND''} then 404
      else if code = ''PERMISSION_DENIED'' then 403
      else if code \<in> {''FILE_TOO_LARGE'', ''INVALID_PATH'', ''INVALID_REQUEST'', ''HASH_MISMATCH'',
                      ''CHUNK_INTEGRITY'', ''FILE_CHANGED''} then 400
      else if code = ''DISK_FULL'' then 507
      else if code = ''MAX_TRANSFERS'' then 429
      else 500)"

definition transfer_error_to_http :: "transfer_error \<Rightarrow> nat \<times> api_error" where
  "transfer_error_to_http e =
     (transfer_status_code (te_code e),
      with_detail (JObj [(''transfer_id'', JStr (te_transfer_id e)), (''recoverable'', JBool (te_recoverable e))])
        (api_error_new (te_code e) (te_message e)))"

definition post_chunk ::
  "digest \<Rightarrow> io_env \<Rightarrow> string \<Rightarrow> u32 \<Rightarrow> headers \<Rightarrow> u8 list \<Rightarrow> filesystem \<Rightarrow> transfer_manager
     \<Rightarrow> (nat \<times> api_error, chunk_ack) outcome \<times> filesystem \<times> transfer_manager" where
  "post_chunk sha env tid idx hs body fs tm =
     (let h = (case hs ''x-gx-chunk-hash'' of Some v \<Rightarrow> v | None \<Rightarrow> []) in
      if h = [] then (Err (400, api_error_new ''INVALID_REQUEST'' ''Missing X-Gx-Chunk-Hash header''), fs, tm)
      else (case receive_chunk sha env tid idx h body fs tm of
              (Ok a, s) \<Rightarrow> (Ok a, s)
            | (Err e, s) \<Rightarrow> (Err (transfer_error_to_http e), s)
            | (Panic m, s) \<Rightarrow> (Panic m, s)))"

end
