(* ===== verification/Gawdxfer_Props.thy ===== *)
theory Gawdxfer_Props
  imports Gawdxfer
begin

text \<open>
  Properties of the file transfers: the geometry of chunks, downloads and uploads end to end, the
  integrity of completed uploads, the invariant of the manager under every operation, resuming and
  sweeping, and the interleavings the lock-free part of \<open>receive_chunk\<close> admits.
\<close>

subsection \<open>Hex encoding and hashing\<close>

lemma hex_encode_acc:
  "fold (\<lambda>b s. s @ [hex_digit (unat b div 16), hex_digit (unat b mod 16)]) bs acc =
     acc @ concat (map (\<lambda>b. [hex_digit (unat b div 16), hex_digit (unat b mod 16)]) bs)"
  by (induction bs arbitrary: acc) auto

lemma hex_encode_concat:
  "hex_encode bs = concat (map (\<lambda>b. [hex_digit (unat b div 16), hex_digit (unat b mod 16)]) bs)"
  by (simp add: hex_encode_def hex_encode_acc)

lemma hex_digit_inj: "hex_digit a = hex_digit b \<Longrightarrow> a < 16 \<Longrightarrow> b < 16 \<Longrightarrow> a = b"
  by (auto simp: hex_digit_def char_of_eq_iff take_bit_nat_def of_char_of split: if_splits)

lemma hex_byte_inj:
  fixes x y :: u8
  assumes "hex_digit (unat x div 16) = hex_digit (unat y div 16)"
    and "hex_digit (unat x mod 16) = hex_digit (unat y mod 16)"
  shows "x = y"
proof -
  have b: "unat z div 16 < 16" for z :: u8 using unat_bound [of z] by simp
  have "unat x div 16 = unat y div 16" using assms(1) b by (intro hex_digit_inj)
  moreover have "unat x mod 16 = unat y mod 16" using assms(2) by (intro hex_digit_inj) auto
  ultimately have "unat x = unat y" by (metis div_mod_decomp)
  then show ?thesis by (rule word_eq_iff_unsigned [THEN iffD2])
qed

lemma hex_encode_inj: "hex_encode a = hex_encode b \<Longrightarrow> a = b"
proof (induction a arbitrary: b)
  case Nil
  then show ?case by (cases b) (auto simp: hex_encode_concat)
next
  case (Cons x a)
  then show ?case
    by (cases b) (auto simp: hex_encode_concat intro: hex_byte_inj)
qed

lemma concat_read_blocks: "0 < n \<Longrightarrow> concat (read_blocks n data) = data"
proof (induction n data rule: read_blocks.induct)
  case (1 n data)
  then show ?case by (subst read_blocks.simps) simp
qed

lemma hash_file_bytes [simp]: "hash_file sha data = hash_bytes sha data"
  by (simp add: hash_file_def hash_bytes_def concat_read_blocks BUF_SIZE_def)

subsection \<open>The geometry of chunks\<close>

definition chunk_of :: "nat \<Rightarrow> 'a list \<Rightarrow> nat \<Rightarrow> 'a list" where
  "chunk_of cs f i = take cs (drop (i * cs) f)"

definition chunks_for :: "nat \<Rightarrow> nat \<Rightarrow> nat" where
  "chunks_for fsize cs = (if fsize = 0 then 1 else (fsize + cs - 1) div cs)"

lemma chunks_for_pos: "0 < cs \<Longrightarrow> 0 < chunks_for fsize cs"
  by (auto simp: chunks_for_def div_greater_zero_iff)

lemma chunks_for_cover:
  assumes "0 < cs"
  shows "fsize \<le> chunks_for fsize cs * cs"
proof (cases "fsize = 0")
  case False
  have "fsize + cs - 1 < Suc ((fsize + cs - 1) div cs) * cs"
    using assms by (metis dividend_less_times_div mult.commute mult_Suc_right)
  then show ?thesis using False assms by (auto simp: chunks_for_def)
qed simp

lemma chunks_for_tight:
  assumes "0 < cs" and "i < chunks_for fsize cs"
  shows "i * cs < fsize \<or> i = 0"
proof (cases "fsize = 0")
  case True
  with assms show ?thesis by (simp add: chunks_for_def)
next
  case False
  with assms have "Suc i \<le> (fsize + cs - 1) div cs" by (simp add: chunks_for_def)
  then have "Suc i * cs \<le> fsize + cs - 1"
    using assms(1) by (simp add: less_eq_div_iff_mult_less_eq)
  with assms(1) False show ?thesis by auto
qed

lemma concat_chunks: "concat (map (chunk_of cs f) [0..<n]) = take (n * cs) f"
proof (induction n)
  case 0
  show ?case by simp
next
  case (Suc n)
  have "take (Suc n * cs) f = take (n * cs) f @ chunk_of cs f n"
    using take_add [of "n * cs" cs f] by (simp add: chunk_of_def add.commute)
  with Suc show ?case by simp
qed

lemma length_chunk_of: "length (chunk_of cs f i) = min cs (length f - i * cs)"
  by (simp add: chunk_of_def)

lemma ceil_div:
  fixes a c :: nat
  assumes "0 < c"
  shows "(a + c - 1) div c = (if a mod c > 0 then Suc (a div c) else a div c)"
proof -
  have "a + c - 1 = (a mod c + c - 1) + (a div c) * c"
    using assms mod_mult_div_eq [of a c] by (simp add: mult.commute)
  then have "(a + c - 1) div c = ((a mod c + c - 1) + (a div c) * c) div c"
    by (rule arg_cong)
  also have "\<dots> = a div c + (a mod c + c - 1) div c"
    using assms by (intro div_mult_self1) simp
  finally have "(a + c - 1) div c = a div c + (a mod c + c - 1) div c" .
  moreover have "(a mod c + c - 1) div c = (if a mod c > 0 then 1 else 0)"
  proof (cases "a mod c > 0")
    case True
    then obtain r where r: "a mod c = Suc r" by (metis gr0_implies_Suc)
    then have "r < c" using mod_less_divisor [OF assms, of a] by simp
    then have "(r + c) div c = 1" by (subst div_add_self2) auto
    with r show ?thesis by simp
  next
    case False
    with assms show ?thesis by simp
  qed
  ultimately show ?thesis by simp
qed

lemma unat_word_div_ceil:
  fixes a c :: u64
  assumes "c \<noteq> 0"
  shows "unat (if a mod c > 0 then a div c + 1 else a div c) = (unat a + unat c - 1) div unat c"
proof -
  let ?A = "unat a" and ?C = "unat c"
  have c: "0 < ?C" using assms(1) by (simp add: unat_gt_0)
  have m: "a mod c > 0 \<longleftrightarrow> ?A mod ?C > 0"
    by (simp add: word_less_nat_alt unat_mod)
  have "Suc (?A div ?C) < 2 ^ 64" if "?A mod ?C > 0"
  proof -
    have "?C \<noteq> 1" using that by auto
    with c have "?A div ?C \<le> ?A div 2" by (intro div_le_mono2) auto
    with unat_bound [of a] show ?thesis by simp
  qed
  then have "?A mod ?C > 0 \<Longrightarrow> unat (a div c + 1) = Suc (?A div ?C)"
    by (subst unat_Suc_word) (simp_all add: unat_div)
  then show ?thesis using m ceil_div [OF c, of ?A] by (simp add: unat_div)
qed

lemma compute_chunks_Ok:
  assumes "cs \<noteq> 0" and "chunks_for (unat fsize) (unat cs) < 2 ^ 32"
  shows "\<exists>n. compute_chunks fsize cs = Ok n \<and> unat n = chunks_for (unat fsize) (unat cs)"
proof (cases "fsize = 0")
  case True
  then show ?thesis by (simp add: compute_chunks_def chunks_for_def)
next
  case False
  let ?c = "ucast cs :: u64"
  let ?q = "if fsize mod ?c > 0 then fsize div ?c + 1 else fsize div ?c"
  have u: "unat ?c = unat cs" by simp
  then have "?c \<noteq> 0" using assms(1) by (metis unat_eq_zero)
  then have q: "unat ?q = chunks_for (unat fsize) (unat cs)"
    using False by (subst unat_word_div_ceil) (auto simp: u chunks_for_def unat_eq_zero)
  then have "unat (ucast ?q :: u32) = chunks_for (unat fsize) (unat cs)"
    using assms(2) by (simp add: unsigned_ucast_eq take_bit_nat_def)
  then show ?thesis using False assms(1) by (simp add: compute_chunks_def Let_def)
qed

subsection \<open>Lookups after updates\<close>

named_theorems xfer_simps \<open>the transfers of an updated manager\<close>

lemma get_set_transfer [xfer_simps]:
  "get_transfer k (set_transfer tid f tm) =
     (if k = tid then map_option f (get_transfer tid tm) else get_transfer k tm)"
  by (simp add: get_transfer_def set_transfer_def hm_laws)

lemma get_announce [xfer_simps]: "get_transfer k (announce_complete env p sp tm) = get_transfer k tm"
  by (simp add: get_transfer_def announce_complete_def Let_def)

lemma get_emit [xfer_simps]: "get_transfer k (emit_progress now t tm) = get_transfer k tm"
  by (simp add: get_transfer_def emit_progress_def)

lemma get_register [xfer_simps]:
  "get_transfer k (register env sp temp tm) =
     (if k = ts_transfer_id sp
      then Some \<lparr>t_spec = sp, t_progress = new_progress (io_now env) (ts_total_chunks sp) temp\<rparr>
      else get_transfer k tm)"
  by (simp add: get_transfer_def register_def log_start_def hm_laws)

lemma mark_chunk_simps [simp]:
  "t_spec (mark_chunk now i n t) = t_spec t"
  "tp_chunks_done (t_progress (mark_chunk now i n t)) = (tp_chunks_done (t_progress t))[unat i := True]"
  "tp_phase (t_progress (mark_chunk now i n t)) = tp_phase (t_progress t)"
  "tp_temp_path (t_progress (mark_chunk now i n t)) = tp_temp_path (t_progress t)"
  by (simp_all add: mark_chunk_def)

lemma set_phase_simps [simp]:
  "t_spec (set_phase ph t) = t_spec t"
  "tp_chunks_done (t_progress (set_phase ph t)) = tp_chunks_done (t_progress t)"
  "tp_phase (t_progress (set_phase ph t)) = ph"
  "tp_temp_path (t_progress (set_phase ph t)) = tp_temp_path (t_progress t)"
  "tp_last_activity (t_progress (set_phase ph t)) = tp_last_activity (t_progress t)"
  by (simp_all add: set_phase_def)

lemma get_serve_commit [xfer_simps]:
  "get_transfer k (serve_commit env tid idx len tm) =
     (if k = tid
      then map_option (\<lambda>t. let t1 = mark_chunk (io_now env) idx len t
             in if all_done t1 then set_phase Complete t1 else t1) (get_transfer tid tm)
      else get_transfer k tm)"
  by (auto simp: serve_commit_def Let_def xfer_simps split: option.splits)

subsection \<open>Downloads\<close>

text \<open>No system call of the operation fails.\<close>

definition no_fault :: "io_env \<Rightarrow> bool" where
  "no_fault env \<longleftrightarrow> io_stat_err env = None \<and> io_open_ok env \<and> io_seek_ok env
     \<and> io_write_fails_after env = None \<and> io_sync_ok env \<and> io_read_ok env \<and> io_hash_ok env
     \<and> io_create_ok env \<and> io_set_len_ok env \<and> io_chmod_ok env \<and> io_rename_ok env \<and> io_remove_ok env"

lemma unat_chunk_offset: "unat (chunk_offset sp idx) = unat idx * unat (ts_chunk_size sp)"
proof -
  have "unat idx * unat (ts_chunk_size sp) < 2 ^ 32 * 2 ^ 32"
    using unat_bound [of idx] unat_bound [of "ts_chunk_size sp"] by (intro mult_strict_mono) auto
  then have "unat (ucast idx :: u64) * unat (ucast (ts_chunk_size sp) :: u64) < 2 ^ LENGTH(64)"
    by simp
  then show ?thesis
    unfolding chunk_offset_def by (subst unat_mult_lem [THEN iffD1]) simp_all
qed

text \<open>A download of the file \<open>f\<close>, which is still in place.\<close>

definition serves :: "filesystem \<Rightarrow> u8 list \<Rightarrow> transfer \<Rightarrow> bool" where
  "serves fs f t \<longleftrightarrow> ts_direction (t_spec t) = Download
     \<and> (\<exists>m. fs (ts_path (t_spec t)) = Some (FileNode f (ts_source_mtime (t_spec t)) m))
     \<and> unat (ts_file_size (t_spec t)) = length f
     \<and> unat (ts_total_chunks (t_spec t)) = chunks_for (length f) (unat (ts_chunk_size (t_spec t)))
     \<and> length (tp_chunks_done (t_progress t)) = unat (ts_total_chunks (t_spec t))"

lemma serve_chunk_ok:
  assumes t: "get_transfer tid tm = Some t" and s: "serves fs f t"
    and ph: "tp_phase (t_progress t) \<in> {Transferring, Paused}"
    and i: "idx < ts_total_chunks (t_spec t)" and env: "no_fault env"
  shows "serve_chunk sha env tid idx fs tm =
    (let c = chunk_of (unat (ts_chunk_size (t_spec t))) f (unat idx)
     in (Ok (\<lparr>ch_transfer_id = tid, ch_chunk_index = idx, ch_chunk_hash = hash_bytes sha c\<rparr>, c),
         serve_commit env tid idx (length c) tm))"
proof -
  let ?sp = "t_spec t"
  let ?cs = "unat (ts_chunk_size ?sp)"
  let ?off = "chunk_offset ?sp idx"
  let ?len = "unat (min (ucast (ts_chunk_size ?sp)) (saturating_sub (ts_file_size ?sp) ?off))"
  obtain m where fs: "fs (ts_path ?sp) = Some (FileNode f (ts_source_mtime ?sp) m)"
    using s by (auto simp: serves_def)
  have len: "?len = length (chunk_of ?cs f (unat idx))"
    using s by (simp add: length_chunk_of serves_def unat_saturating_sub unat_chunk_offset
        min_def word_le_nat_alt)
  have "serve_check env tid idx fs tm = Inr (?off, ?len, ts_path ?sp)"
    using t s ph i env fs
    by (auto simp: serve_check_def serves_def no_fault_def Let_def split: option.splits)
  moreover have "take ?len (drop (unat ?off) f) = chunk_of ?cs f (unat idx)"
    unfolding len by (auto simp: chunk_of_def unat_chunk_offset min_def)
  ultimately show ?thesis
    using env fs len by (simp add: serve_chunk_def file_data_def no_fault_def Let_def)
qed

text \<open>A client that fetches chunks one after the other.\<close>

fun fetch ::
  "digest \<Rightarrow> io_env \<Rightarrow> string \<Rightarrow> nat list \<Rightarrow> filesystem \<Rightarrow> transfer_manager
     \<Rightarrow> (chunk_header \<times> u8 list) list \<times> transfer_manager" where
  "fetch sha env tid [] fs tm = ([], tm)"
| "fetch sha env tid (i # is) fs tm =
     (case serve_chunk sha env tid (of_nat i) fs tm of
        (Ok r, tm') \<Rightarrow> (let (rs, tm'') = fetch sha env tid is fs tm' in (r # rs, tm''))
      | (_, tm') \<Rightarrow> ([], tm'))"

definition first_done :: "nat \<Rightarrow> nat \<Rightarrow> bool list" where
  "first_done k n = map (\<lambda>i. i < k) [0..<n]"

lemma first_done_all [simp]: "list_all id (first_done k n) \<longleftrightarrow> n \<le> k"
  by (auto simp: first_done_def list_all_iff)

lemma first_done_0: "first_done 0 n = replicate n False"
  by (simp add: first_done_def map_replicate_const)

lemma first_done_update: "k < n \<Longrightarrow> (first_done k n)[k := True] = first_done (Suc k) n"
  by (rule nth_equalityI) (auto simp: first_done_def nth_list_update)

lemma fetch_rest:
  assumes env: "no_fault env" and f: "n = unat (ts_total_chunks sp)" and k: "k \<le> n" and n: "0 < n"
    and t: "get_transfer tid tm = Some t" and sp: "t_spec t = sp" and s: "serves fs f t"
    and d: "tp_chunks_done (t_progress t) = first_done k n"
    and ph: "tp_phase (t_progress t) = (if k = n then Complete else Transferring)"
  shows "map snd (fst (fetch sha env tid [k..<n] fs tm)) = map (chunk_of (unat (ts_chunk_size sp)) f) [k..<n]
    \<and> list_all (\<lambda>(h, c). ch_chunk_hash h = hash_bytes sha c) (fst (fetch sha env tid [k..<n] fs tm))
    \<and> map_option (\<lambda>t. tp_phase (t_progress t)) (get_transfer tid (snd (fetch sha env tid [k..<n] fs tm)))
      = Some Complete"
  using k t sp s d ph
proof (induction "n - k" arbitrary: k tm t)
  case 0
  then show ?case by simp
next
  case (Suc m)
  have kn: "k < n" using Suc.hyps by simp
  have uk: "unat (of_nat k :: u32) = k"
    using kn f unat_bound [of "ts_total_chunks sp"] by (intro unat_of_nat_small) simp
  have i: "(of_nat k :: u32) < ts_total_chunks (t_spec t)"
    using kn f uk Suc.prems by (simp add: word_less_nat_alt)
  let ?c = "chunk_of (unat (ts_chunk_size sp)) f k"
  let ?tm = "serve_commit env tid (of_nat k) (length ?c) tm"
  let ?t1 = "mark_chunk (io_now env) (of_nat k) (length ?c) t"
  let ?t2 = "if all_done ?t1 then set_phase Complete ?t1 else ?t1"
  have sc: "serve_chunk sha env tid (of_nat k) fs tm =
      (Ok (\<lparr>ch_transfer_id = tid, ch_chunk_index = of_nat k, ch_chunk_hash = hash_bytes sha ?c\<rparr>, ?c), ?tm)"
    using serve_chunk_ok [OF Suc.prems(2,4) _ i env] Suc.prems kn by (simp add: uk Let_def)
  have d1: "tp_chunks_done (t_progress ?t1) = first_done (Suc k) n"
    using Suc.prems(5) kn by (simp add: uk first_done_update)
  have t2: "get_transfer tid ?tm = Some ?t2"
    using Suc.prems(2) by (simp add: xfer_simps Let_def)
  have ih: "map snd (fst (fetch sha env tid [Suc k..<n] fs ?tm)) =
        map (chunk_of (unat (ts_chunk_size sp)) f) [Suc k..<n]
    \<and> list_all (\<lambda>(h, c). ch_chunk_hash h = hash_bytes sha c) (fst (fetch sha env tid [Suc k..<n] fs ?tm))
    \<and> map_option (\<lambda>t. tp_phase (t_progress t)) (get_transfer tid (snd (fetch sha env tid [Suc k..<n] fs ?tm)))
      = Some Complete"
  proof (rule Suc.hyps(1) [OF _ _ t2])
    show "m = n - Suc k" "Suc k \<le> n" using Suc.hyps kn by simp_all
    show "t_spec ?t2 = sp" using Suc.prems by simp
    show "serves fs f ?t2" using Suc.prems(4) by (simp add: serves_def)
    show "tp_chunks_done (t_progress ?t2) = first_done (Suc k) n" using d1 by simp
    show "tp_phase (t_progress ?t2) = (if Suc k = n then Complete else Transferring)"
      using d1 kn Suc.prems(6) by (simp add: all_done_def)
  qed
  have "fetch sha env tid [k..<n] fs tm =
      (let (rs, tm'') = fetch sha env tid [Suc k..<n] fs ?tm
       in ((\<lparr>ch_transfer_id = tid, ch_chunk_index = of_nat k, ch_chunk_hash = hash_bytes sha ?c\<rparr>, ?c) # rs, tm''))"
    by (simp add: upt_conv_Cons [OF kn] sc)
  with ih kn show ?case by (simp add: upt_conv_Cons split: prod.splits)
qed

lemma init_download_Ok:
  assumes "init_download sha env path cs fs tm = (Ok r, tm1)"
  shows "\<exists>data mtime m name. id_transfer_id r = io_uuid env \<and> fs path = Some (FileNode data mtime m)
    \<and> compute_chunks (of_nat (length data)) (id_chunk_size r) = Ok (id_total_chunks r)
    \<and> id_file_hash r = hash_bytes sha data
    \<and> tm1 = register env
        \<lparr>ts_transfer_id = id_transfer_id r, ts_direction = Download, ts_path = path, ts_filename = name,
         ts_file_size = of_nat (length data), ts_file_hash = id_file_hash r,
         ts_chunk_size = id_chunk_size r, ts_total_chunks = id_total_chunks r, ts_mode = None,
         ts_created_at = io_now env, ts_source_mtime = mtime\<rparr> [] tm"
  using assms
  by (auto simp: init_download_def validate_transfer_path_def stat_path_def Let_def
      split: if_splits option.splits io_kind.splits node.splits sum.splits outcome.splits)

text \<open>
  C17. A download delivers the file. After \<open>init_download\<close> succeeds on a file that does not change,
  fetching all announced chunks in order gives, put together, exactly the contents of the file;
  every chunk carries its own hash, the announced hash is that of the whole file, and the
  transfer ends \<open>Complete\<close>.
\<close>

theorem download_roundtrip:
  assumes init: "init_download sha env path cs fs tm = (Ok r, tm1)" and src: "file_data fs path = Some f"
    and env: "no_fault env'"
    and fits: "length f < 2 ^ 64" "id_chunk_size r \<noteq> 0" "chunks_for (length f) (unat (id_chunk_size r)) < 2 ^ 32"
  shows "\<exists>rs tm2. fetch sha env' (id_transfer_id r) [0..<unat (id_total_chunks r)] fs tm1 = (rs, tm2)
    \<and> concat (map snd rs) = f \<and> list_all (\<lambda>(h, c). ch_chunk_hash h = hash_bytes sha c) rs
    \<and> id_file_hash r = hash_bytes sha f
    \<and> map_option (\<lambda>t. tp_phase (t_progress t)) (get_transfer (id_transfer_id r) tm2) = Some Complete"
proof -
  obtain mt m name where fs: "fs path = Some (FileNode f mt m)"
    and cc: "compute_chunks (of_nat (length f)) (id_chunk_size r) = Ok (id_total_chunks r)"
    and h: "id_file_hash r = hash_bytes sha f"
    and tm1: "tm1 = register env
        \<lparr>ts_transfer_id = id_transfer_id r, ts_direction = Download, ts_path = path, ts_filename = name,
         ts_file_size = of_nat (length f), ts_file_hash = id_file_hash r,
         ts_chunk_size = id_chunk_size r, ts_total_chunks = id_total_chunks r, ts_mode = None,
         ts_created_at = io_now env, ts_source_mtime = mt\<rparr> [] tm"
    using init_download_Ok [OF init] src by (auto simp: file_data_def)
  let ?n = "unat (id_total_chunks r)" and ?cs = "unat (id_chunk_size r)"
  have cs: "0 < ?cs" using fits(2) by (simp add: unat_gt_0)
  have u: "unat (of_nat (length f) :: u64) = length f"
    using fits(1) by (intro unat_of_nat_small) simp
  have n: "?n = chunks_for (length f) ?cs"
    using compute_chunks_Ok [OF fits(2), of "of_nat (length f)"] fits(3) cc by (auto simp: u)
  obtain t where t: "get_transfer (id_transfer_id r) tm1 = Some t"
      "unat (ts_total_chunks (t_spec t)) = ?n" "ts_chunk_size (t_spec t) = id_chunk_size r"
      "tp_chunks_done (t_progress t) = first_done 0 ?n" "tp_phase (t_progress t) = Transferring"
      "serves fs f t"
    by (simp add: tm1 xfer_simps serves_def fs u n new_progress_def first_done_0)
  have "concat (map (chunk_of ?cs f) [0..<?n]) = f"
    using chunks_for_cover [OF cs, of "length f"] by (simp add: concat_chunks n)
  then show ?thesis
    using fetch_rest [OF env t(2) [symmetric] _ _ t(1) refl t(6,4), of sha] t(3,5) h
      chunks_for_pos [OF cs, of "length f"]
    by (cases "fetch sha env' (id_transfer_id r) [0..<?n] fs tm1") (simp add: n)
qed

subsection \<open>A concrete world\<close>

definition sample_env :: io_env where
  "sample_env = \<lparr>io_stat_err = None, io_open_ok = True, io_seek_ok = True, io_write_fails_after = None,
     io_sync_ok = True, io_read_ok = True, io_hash_ok = True, io_create_ok = True, io_set_len_ok = True,
     io_chmod_ok = True, io_rename_ok = True, io_remove_ok = True, io_statvfs = None, io_text = [],
     io_now = 0, io_wall_ms = None, io_mtime = None, io_uuid = ''u'', io_create_mode = 0\<rparr>"

definition sample_fs :: filesystem where
  "sample_fs = [''/f'' \<mapsto> FileNode [1, 2, 3] None 0, ''/d'' \<mapsto> DirNode]"

definition sample_tm :: transfer_manager where
  "sample_tm = new_transfer_manager (new_config 2 1024 5000 60) (new_log 10)"

text \<open>A stand-in for the digest: any function on bytes.\<close>

definition sample_sha :: digest where
  "sample_sha data = [of_nat (length data)]"

lemma sample_no_fault: "no_fault sample_env"
  by (simp add: no_fault_def sample_env_def)

lemma sample_init_download:
  "\<exists>r tm1. init_download sample_sha sample_env ''/f'' (Some 2) sample_fs sample_tm = (Ok r, tm1)
     \<and> id_transfer_id r = ''u'' \<and> id_total_chunks r = 2 \<and> id_chunk_size r = 2"
  by (simp add: init_download_def validate_transfer_path_def starts_with_def stat_path_def sample_env_def
      sample_fs_def sample_tm_def new_transfer_manager_def new_config_def limit_error_def active_count_def
      compute_chunks_def Let_def)

theorem download_roundtrip_witness:
  "\<exists>r tm1 rs tm2. init_download sample_sha sample_env ''/f'' (Some 2) sample_fs sample_tm = (Ok r, tm1)
    \<and> fetch sample_sha sample_env ''u'' [0..<2] sample_fs tm1 = (rs, tm2)
    \<and> concat (map snd rs) = [1, 2, 3]"
proof -
  obtain r tm1 where i: "init_download sample_sha sample_env ''/f'' (Some 2) sample_fs sample_tm = (Ok r, tm1)"
      "id_transfer_id r = ''u''" "id_total_chunks r = 2" "id_chunk_size r = 2"
    using sample_init_download by blast
  have "file_data sample_fs ''/f'' = Some [1, 2, 3]"
    by (simp add: file_data_def sample_fs_def)
  from download_roundtrip [OF i(1) this sample_no_fault] i show ?thesis
    by (auto simp: chunks_for_def)
qed

subsection \<open>Writing chunks\<close>

lemma length_write_at:
  "off + length data \<le> length old \<Longrightarrow> length (write_at off data old) = length old"
  by (simp add: write_at_def)

lemma nth_write_at:
  assumes "off + length data \<le> length old" and "k < length old"
  shows "write_at off data old ! k =
    (if off \<le> k \<and> k < off + length data then data ! (k - off) else old ! k)"
  using assms by (auto simp: write_at_def nth_append min_def)

lemma nth_chunk_of: "m < length (chunk_of cs d j) \<Longrightarrow> chunk_of cs d j ! m = d ! (j * cs + m)"
  by (cases "j * cs \<le> length d") (auto simp: chunk_of_def)

lemma write_chunk:
  fixes d f :: "'a::zero list"
  assumes l: "length d = length f" and d': "d' = write_at (i * cs) (chunk_of cs f i) d"
    and i: "i * cs \<le> length f"
  shows "length d' = length f" and "chunk_of cs d' i = chunk_of cs f i"
    and "\<And>j. j \<noteq> i \<Longrightarrow> chunk_of cs d' j = chunk_of cs d j"
proof -
  have le: "i * cs + length (chunk_of cs f i) \<le> length d"
    using i l by (simp add: length_chunk_of)
  show l': "length d' = length f" using length_write_at [OF le] l d' by simp
  show "chunk_of cs d' i = chunk_of cs f i"
  proof (rule nth_equalityI)
    show "length (chunk_of cs d' i) = length (chunk_of cs f i)" using l' by (simp add: length_chunk_of)
    fix m assume m: "m < length (chunk_of cs d' i)"
    then have "m < cs" "i * cs + m < length d" using l l' by (auto simp: length_chunk_of)
    moreover have "m < length (chunk_of cs f i)" using m l' by (simp add: length_chunk_of)
    ultimately show "chunk_of cs d' i ! m = chunk_of cs f i ! m"
      using nth_write_at [OF le, of "i * cs + m"] m by (simp add: nth_chunk_of d')
  qed
  fix j assume j: "j \<noteq> i"
  show "chunk_of cs d' j = chunk_of cs d j"
  proof (rule nth_equalityI)
    show "length (chunk_of cs d' j) = length (chunk_of cs d j)" using l l' by (simp add: length_chunk_of)
    fix m assume m: "m < length (chunk_of cs d' j)"
    then have mc: "m < cs" "j * cs + m < length d" using l l' by (auto simp: length_chunk_of)
    have "\<not> (i * cs \<le> j * cs + m \<and> j * cs + m < i * cs + length (chunk_of cs f i))"
    proof (cases "j < i")
      case True
      then have "j * cs + cs \<le> i * cs" by (metis Suc_leI add.commute mult_Suc mult_le_mono1)
      with mc show ?thesis by simp
    next
      case False
      with j have "i * cs + cs \<le> j * cs" by (metis Suc_leI add.commute linorder_neqE_nat mult_Suc mult_le_mono1)
      then show ?thesis by (simp add: length_chunk_of)
    qed
    moreover have "m < length (chunk_of cs d j)" using m l l' by (simp add: length_chunk_of)
    ultimately show "chunk_of cs d' j ! m = chunk_of cs d j ! m"
      using nth_write_at [OF le mc(2)] m by (auto simp: nth_chunk_of d')
  qed
qed

lemma chunks_determine:
  assumes "length d = length f" and "length f \<le> n * cs"
    and "\<And>i. i < n \<Longrightarrow> chunk_of cs d i = chunk_of cs f i"
  shows "d = f"
proof -
  have "concat (map (chunk_of cs d) [0..<n]) = concat (map (chunk_of cs f) [0..<n])"
    using assms(3) by (intro arg_cong [where f = concat] map_cong) auto
  then show ?thesis using assms(1,2) by (simp add: concat_chunks)
qed

subsection \<open>Uploads\<close>

lemma file_data_Some: "file_data fs p = Some d \<longleftrightarrow> (\<exists>mt m. fs p = Some (FileNode d mt m))"
  by (auto simp: file_data_def split: option.splits node.splits)

lemma file_data_write:
  assumes "file_data fs p = Some d"
  shows "file_data (fs_write env p off data fs) p = Some (write_at off data d)"
    and "q \<noteq> p \<Longrightarrow> fs_write env p off data fs q = fs q"
  using assms by (auto simp: file_data_Some fs_write_def)

lemma apply_mode_data [simp]: "file_data (apply_mode env mode p fs) q = file_data fs q"
  by (auto simp: apply_mode_def file_data_def split: option.splits node.splits)

lemma apply_mode_dir [simp]: "apply_mode env mode p fs q = Some DirNode \<longleftrightarrow> fs q = Some DirNode"
  by (auto simp: apply_mode_def split: option.splits node.splits)

text \<open>
  An upload of \<open>f\<close> under way: every chunk marked as received is in the temporary file.
\<close>

definition uploads :: "digest \<Rightarrow> filesystem \<Rightarrow> u8 list \<Rightarrow> transfer \<Rightarrow> bool" where
  "uploads sha fs f t \<longleftrightarrow>
     (let sp = t_spec t; cs = unat (ts_chunk_size sp); temp = tp_temp_path (t_progress t);
          final = join_path (ts_path sp) (ts_filename sp)
      in ts_direction sp = Upload \<and> 0 < cs \<and> unat (ts_file_size sp) = length f
       \<and> unat (ts_total_chunks sp) = chunks_for (length f) cs
       \<and> length (tp_chunks_done (t_progress t)) = unat (ts_total_chunks sp)
       \<and> ts_file_hash sp \<in> {[], hash_bytes sha f}
       \<and> temp \<noteq> final \<and> fs final \<noteq> Some DirNode
       \<and> (\<exists>d. file_data fs temp = Some d \<and> length d = length f
            \<and> (\<forall>i < unat (ts_total_chunks sp). tp_chunks_done (t_progress t) ! i
                 \<longrightarrow> chunk_of cs d i = chunk_of cs f i)))"

lemma receive_write_uploads:
  assumes u: "uploads sha fs f t" and i: "unat idx < unat (ts_total_chunks (t_spec t))" and env: "no_fault env"
    and c: "c = chunk_of (unat (ts_chunk_size (t_spec t))) f (unat idx)"
  shows "\<exists>fs1. receive_write env tid (tp_temp_path (t_progress t)) (chunk_offset (t_spec t) idx) c fs = (None, fs1)
    \<and> uploads sha fs1 f (mark_chunk now idx len t)"
proof -
  let ?sp = "t_spec t"
  let ?cs = "unat (ts_chunk_size ?sp)" and ?temp = "tp_temp_path (t_progress t)"
  let ?fs1 = "fs_write env ?temp (unat (chunk_offset ?sp idx)) c fs"
  obtain d where d: "file_data fs ?temp = Some d" "length d = length f"
      "\<forall>i < unat (ts_total_chunks ?sp). tp_chunks_done (t_progress t) ! i \<longrightarrow> chunk_of ?cs d i = chunk_of ?cs f i"
    using u by (auto simp: uploads_def Let_def)
  define d' where "d' = write_at (unat idx * ?cs) (chunk_of ?cs f (unat idx)) d"
  have le: "unat idx * ?cs \<le> length f"
    using u i chunks_for_tight [of ?cs "unat idx" "length f"] by (auto simp: uploads_def Let_def)
  note w = write_chunk [OF d(2) d'_def le]
  have fd: "file_data ?fs1 ?temp = Some d'"
    using file_data_write(1) [OF d(1)] by (simp add: d'_def c unat_chunk_offset)
  have "receive_write env tid ?temp (chunk_offset ?sp idx) c fs = (None, ?fs1)"
    using env d(1) by (simp add: receive_write_def no_fault_def Let_def)
  moreover have "chunk_of ?cs d' k = chunk_of ?cs f k"
    if "k < unat (ts_total_chunks ?sp)" "((tp_chunks_done (t_progress t))[unat idx := True]) ! k" for k
    using that w(2,3) d(3) by (cases "k = unat idx") auto
  moreover have "?fs1 (join_path (ts_path ?sp) (ts_filename ?sp)) \<noteq> Some DirNode"
    using u file_data_write(2) [OF d(1)] by (auto simp: uploads_def Let_def)
  ultimately show ?thesis
    using u fd w(1) by (auto simp: uploads_def Let_def)
qed

lemma uploads_set_phase [simp]: "uploads sha fs f (set_phase ph t) = uploads sha fs f t"
  by (simp add: uploads_def)

lemma get_receive_commit:
  assumes "get_transfer tid tm = Some t"
  shows "\<exists>tm1. receive_commit env tid idx len tm = Inr (all_done (mark_chunk (io_now env) idx len t), tm1)
    \<and> get_transfer tid tm1 = Some (let t1 = mark_chunk (io_now env) idx len t
        in if all_done t1 then set_phase Verifying t1 else t1)"
  using assms by (simp add: receive_commit_def Let_def xfer_simps)

lemma receive_finish_more:
  assumes t: "get_transfer tid tm = Some t" and nd: "\<not> all_done (mark_chunk (io_now env) idx len t)"
  shows "\<exists>tm1. receive_finish sha env tid idx len plan fs tm = (Ok (ack tid idx), fs, tm1)
    \<and> get_transfer tid tm1 = Some (mark_chunk (io_now env) idx len t)"
  using get_receive_commit [OF t, of env idx len] nd by (auto simp: receive_finish_def Let_def)

lemma uploads_complete:
  assumes "uploads sha fs f t" and "all_done t"
  shows "file_data fs (tp_temp_path (t_progress t)) = Some f"
proof -
  let ?sp = "t_spec t"
  let ?cs = "unat (ts_chunk_size ?sp)"
  obtain d where d: "file_data fs (tp_temp_path (t_progress t)) = Some d" "length d = length f"
      "\<forall>i < unat (ts_total_chunks ?sp). tp_chunks_done (t_progress t) ! i \<longrightarrow> chunk_of ?cs d i = chunk_of ?cs f i"
    using assms(1) by (auto simp: uploads_def Let_def)
  have "chunk_of ?cs d i = chunk_of ?cs f i" if "i < unat (ts_total_chunks ?sp)" for i
    using assms d(3) that by (auto simp: all_done_def list_all_length uploads_def Let_def)
  then have "d = f"
    using assms(1) d(2) chunks_for_cover [of ?cs "length f"]
    by (intro chunks_determine [of d f "unat (ts_total_chunks ?sp)" ?cs]) (auto simp: uploads_def Let_def)
  with d(1) show ?thesis by simp
qed

definition plan_of :: "u32 \<Rightarrow> transfer \<Rightarrow> receive_plan" where
  "plan_of idx t =
     \<lparr>rp_offset = chunk_offset (t_spec t) idx, rp_temp = tp_temp_path (t_progress t),
      rp_total = ts_total_chunks (t_spec t), rp_file_hash = ts_file_hash (t_spec t),
      rp_file_size = ts_file_size (t_spec t),
      rp_final = join_path (ts_path (t_spec t)) (ts_filename (t_spec t)), rp_mode = ts_mode (t_spec t)\<rparr>"

lemma receive_check_Inr_iff:
  "receive_check tid idx tm = Inr plan \<longleftrightarrow>
     (\<exists>t. get_transfer tid tm = Some t \<and> ts_direction (t_spec t) = Upload
        \<and> tp_phase (t_progress t) = Transferring \<and> idx < ts_total_chunks (t_spec t) \<and> plan = plan_of idx t)"
  by (auto simp: receive_check_def plan_of_def Let_def not_le split: option.splits if_splits)

lemma finalize_Inr:
  assumes "finalize env tid plan fs tm = (Inr (), fs2, tm2)" and "file_data fs (rp_temp plan) = Some d"
  shows "file_data fs2 (rp_final plan) = Some d"
    and "get_transfer tid tm2 = map_option (set_phase Complete) (get_transfer tid tm)"
    and "rp_final plan \<noteq> rp_temp plan \<Longrightarrow> file_data fs2 (rp_temp plan) = None"
proof -
  show "rp_final plan \<noteq> rp_temp plan \<Longrightarrow> file_data fs2 (rp_temp plan) = None"
    using assms(1) by (auto simp: finalize_def Let_def file_data_def split: if_splits)
  have "file_data (apply_mode env (rp_mode plan) (rp_temp plan) fs) (rp_temp plan) = Some d"
    using assms(2) by simp
  then show "file_data fs2 (rp_final plan) = Some d"
    using assms(1) by (auto simp: finalize_def Let_def file_data_def split: if_splits)
  show "get_transfer tid tm2 = map_option (set_phase Complete) (get_transfer tid tm)"
    using assms(1) by (auto simp: finalize_def Let_def xfer_simps split: if_splits option.splits)
qed

lemma finalize_ok:
  assumes "no_fault env" and "fs (rp_final plan) \<noteq> Some DirNode" and "file_data fs (rp_temp plan) = Some d"
  shows "\<exists>fs2 tm2. finalize env tid plan fs tm = (Inr (), fs2, tm2)"
proof -
  have "file_data (apply_mode env (rp_mode plan) (rp_temp plan) fs) (rp_temp plan) = Some d"
    using assms(3) by simp
  then have "apply_mode env (rp_mode plan) (rp_temp plan) fs (rp_temp plan) \<noteq> None"
    unfolding file_data_Some by auto
  then show ?thesis using assms(1,2) by (simp add: finalize_def no_fault_def Let_def)
qed

lemma verify_ok:
  assumes t: "get_transfer tid tm = Some t" and env: "no_fault env"
    and d: "file_data fs (rp_temp plan) = Some f" and dir: "fs (rp_final plan) \<noteq> Some DirNode"
    and h: "rp_file_hash plan = ts_file_hash (t_spec t)" "ts_file_hash (t_spec t) \<in> {[], hash_bytes sha f}"
  shows "\<exists>fs2 tm2 t2. verify_and_finalize sha env tid plan fs tm = (Inr (), fs2, tm2)
    \<and> file_data fs2 (rp_final plan) = Some f \<and> (rp_final plan \<noteq> rp_temp plan \<longrightarrow> file_data fs2 (rp_temp plan) = None)
    \<and> tp_chunks_done (t_progress t2) = tp_chunks_done (t_progress t) \<and> get_transfer tid tm2 = Some t2
    \<and> tp_phase (t_progress t2) = Complete \<and> ts_file_hash (t_spec t2) = hash_bytes sha f"
proof (cases "rp_file_hash plan = []")
  case True
  let ?tm = "set_transfer tid (set_file_hash (hash_bytes sha f)) tm"
  obtain fs2 tm2 where fin: "finalize env tid plan fs ?tm = (Inr (), fs2, tm2)"
    using finalize_ok [OF env dir d] by blast
  have "verify_and_finalize sha env tid plan fs tm = (Inr (), fs2, tm2)"
    using True d env fin by (simp add: verify_and_finalize_def no_fault_def Let_def)
  with finalize_Inr [OF fin d] t show ?thesis
    by (auto simp: xfer_simps set_file_hash_def set_phase_def)
next
  case False
  obtain fs2 tm2 where fin: "finalize env tid plan fs tm = (Inr (), fs2, tm2)"
    using finalize_ok [OF env dir d] by blast
  have "verify_and_finalize sha env tid plan fs tm = (Inr (), fs2, tm2)"
    using False d env fin h by (simp add: verify_and_finalize_def no_fault_def Let_def)
  with finalize_Inr [OF fin d] t False h show ?thesis by auto
qed

lemma receive_last:
  assumes t: "get_transfer tid tm = Some t" and env: "no_fault env" and u: "uploads sha fs f (mark_chunk (io_now env) idx len t)"
    and dn: "all_done (mark_chunk (io_now env) idx len t)"
  shows "\<exists>fs2 tm2 t2. receive_finish sha env tid idx len (plan_of idx t) fs tm = (Ok (ack tid idx), fs2, tm2)
    \<and> file_data fs2 (join_path (ts_path (t_spec t)) (ts_filename (t_spec t))) = Some f
    \<and> file_data fs2 (tp_temp_path (t_progress t)) = None
    \<and> get_transfer tid tm2 = Some t2 \<and> tp_phase (t_progress t2) = Complete \<and> all_done t2
    \<and> ts_file_hash (t_spec t2) = hash_bytes sha f"
proof -
  let ?t1 = "mark_chunk (io_now env) idx len t"
  obtain tm1 where c: "receive_commit env tid idx len tm = Inr (True, tm1)"
      "get_transfer tid tm1 = Some (set_phase Verifying ?t1)"
    using get_receive_commit [OF t, of env idx len] dn by (auto simp: Let_def)
  have fd: "file_data fs (rp_temp (plan_of idx t)) = Some f"
    using uploads_complete [OF u dn] by (simp add: plan_of_def)
  have dir: "fs (rp_final (plan_of idx t)) \<noteq> Some DirNode"
    using u by (simp add: uploads_def plan_of_def Let_def)
  have h: "rp_file_hash (plan_of idx t) = ts_file_hash (t_spec (set_phase Verifying ?t1))"
    "ts_file_hash (t_spec (set_phase Verifying ?t1)) \<in> {[], hash_bytes sha f}"
    using u by (auto simp: uploads_def plan_of_def Let_def)
  have "rp_final (plan_of idx t) \<noteq> rp_temp (plan_of idx t)"
    using u by (auto simp: uploads_def plan_of_def Let_def)
  with verify_ok [OF c(2) env fd dir h] c(1) dn show ?thesis
    by (auto simp: receive_finish_def plan_of_def all_done_def)
qed

text \<open>A client that sends the chunks of \<open>f\<close> with the given indices and stops when one is refused.\<close>

fun send ::
  "digest \<Rightarrow> io_env \<Rightarrow> string \<Rightarrow> nat \<Rightarrow> u8 list \<Rightarrow> nat list \<Rightarrow> filesystem \<Rightarrow> transfer_manager
     \<Rightarrow> bool \<times> filesystem \<times> transfer_manager" where
  "send sha env tid cs f [] fs tm = (True, fs, tm)"
| "send sha env tid cs f (i # is) fs tm =
     (case receive_chunk sha env tid (of_nat i) (hash_bytes sha (chunk_of cs f i)) (chunk_of cs f i) fs tm of
        (Ok a, fs', tm') \<Rightarrow> if ca_ok a then send sha env tid cs f is fs' tm' else (False, fs', tm')
      | (_, fs', tm') \<Rightarrow> (False, fs', tm'))"

lemma receive_chunk_good:
  assumes t: "get_transfer tid tm = Some t" and u: "uploads sha fs f t"
    and ph: "tp_phase (t_progress t) = Transferring" and env: "no_fault env"
    and i: "i < unat (ts_total_chunks (t_spec t))" and cs: "cs = unat (ts_chunk_size (t_spec t))"
  shows "\<exists>fs1. uploads sha fs1 f (mark_chunk (io_now env) (of_nat i) (length (chunk_of cs f i)) t)
    \<and> receive_chunk sha env tid (of_nat i) (hash_bytes sha (chunk_of cs f i)) (chunk_of cs f i) fs tm
      = receive_finish sha env tid (of_nat i) (length (chunk_of cs f i)) (plan_of (of_nat i) t) fs1 tm"
proof -
  have ui: "unat (of_nat i :: u32) = i"
    using i unat_bound [of "ts_total_chunks (t_spec t)"] by (intro unat_of_nat_small) simp
  have "receive_check tid (of_nat i) tm = Inr (plan_of (of_nat i) t)"
    unfolding receive_check_Inr_iff using t u ph i by (auto simp: ui word_less_nat_alt uploads_def Let_def)
  moreover obtain fs1 where w: "receive_write env tid (tp_temp_path (t_progress t)) (chunk_offset (t_spec t) (of_nat i))
        (chunk_of cs f i) fs = (None, fs1)"
      "uploads sha fs1 f (mark_chunk (io_now env) (of_nat i) (length (chunk_of cs f i)) t)"
    using receive_write_uploads [OF u, where idx = "of_nat i" and env = env and tid = tid
        and now = "io_now env" and len = "length (chunk_of cs f i)"] i env cs by (auto simp: ui)
  ultimately show ?thesis
    by (intro exI [of _ fs1]) (simp add: receive_chunk_def plan_of_def)
qed

lemma send_more:
  assumes env: "no_fault env" and k: "k < n" "\<forall>i \<in> set is. i < n \<and> i \<noteq> k"
    and t: "get_transfer tid tm = Some t" "uploads sha fs f t" "tp_phase (t_progress t) = Transferring"
    and n: "n = unat (ts_total_chunks (t_spec t))" and cs: "cs = unat (ts_chunk_size (t_spec t))"
    and kd: "\<not> tp_chunks_done (t_progress t) ! k"
  shows "\<exists>fs' tm' t'. send sha env tid cs f is fs tm = (True, fs', tm') \<and> get_transfer tid tm' = Some t'
    \<and> uploads sha fs' f t' \<and> tp_phase (t_progress t') = Transferring \<and> t_spec t' = t_spec t
    \<and> (\<forall>i < n. tp_chunks_done (t_progress t') ! i \<longleftrightarrow> i \<in> set is \<or> tp_chunks_done (t_progress t) ! i)"
  using k(2) t n cs kd
proof (induction "is" arbitrary: fs tm t)
  case Nil
  then show ?case by simp
next
  case (Cons i "is")
  let ?c = "chunk_of cs f i"
  let ?t1 = "mark_chunk (io_now env) (of_nat i) (length ?c) t"
  have i: "i < n" "i \<noteq> k" using Cons.prems by auto
  have ui: "unat (of_nat i :: u32) = i"
    using i Cons.prems(5) unat_bound [of "ts_total_chunks (t_spec t)"] by (intro unat_of_nat_small) simp
  have len: "length (tp_chunks_done (t_progress t)) = n"
    using Cons.prems(3,5) by (simp add: uploads_def Let_def)
  obtain fs1 where r: "uploads sha fs1 f ?t1"
      "receive_chunk sha env tid (of_nat i) (hash_bytes sha ?c) ?c fs tm
        = receive_finish sha env tid (of_nat i) (length ?c) (plan_of (of_nat i) t) fs1 tm"
    using receive_chunk_good [OF Cons.prems(2-4) env, of i cs] i Cons.prems by auto
  have kd: "\<not> tp_chunks_done (t_progress ?t1) ! k"
    using Cons.prems(7) i by (simp add: ui)
  then have "\<not> all_done ?t1"
    using k(1) len by (auto simp: all_done_def list_all_length)
  then obtain tm1 where f: "receive_finish sha env tid (of_nat i) (length ?c) (plan_of (of_nat i) t) fs1 tm
        = (Ok (ack tid (of_nat i)), fs1, tm1)" "get_transfer tid tm1 = Some ?t1"
    using receive_finish_more [OF Cons.prems(2)] by blast
  have "\<exists>fs' tm' t'. send sha env tid cs f is fs1 tm1 = (True, fs', tm') \<and> get_transfer tid tm' = Some t'
    \<and> uploads sha fs' f t' \<and> tp_phase (t_progress t') = Transferring \<and> t_spec t' = t_spec ?t1
    \<and> (\<forall>i < n. tp_chunks_done (t_progress t') ! i \<longleftrightarrow> i \<in> set is \<or> tp_chunks_done (t_progress ?t1) ! i)"
    by (rule Cons.IH) (use Cons.prems f(2) r(1) kd in auto)
  moreover have "send sha env tid cs f (i # is) fs tm = send sha env tid cs f is fs1 tm1"
    by (simp add: r(2) f(1) ack_def)
  ultimately show ?case using i len by (auto simp: ui nth_list_update split: if_splits)
qed

lemma send_append:
  "send sha env tid cs f is fs tm = (True, fs', tm') \<Longrightarrow>
     send sha env tid cs f (is @ js) fs tm = send sha env tid cs f js fs' tm'"
  by (induction "is" arbitrary: fs tm)
    (auto split: outcome.splits prod.splits if_splits)

lemma send_completes:
  assumes env: "no_fault env" and t: "get_transfer tid tm = Some t" "uploads sha fs f t"
      "tp_phase (t_progress t) = Transferring"
    and n: "n = unat (ts_total_chunks (t_spec t))" and cs: "cs = unat (ts_chunk_size (t_spec t))"
    and missing: "set (is @ [k]) \<subseteq> {..<n}" "k \<notin> set is" "\<not> tp_chunks_done (t_progress t) ! k"
      "\<And>j. j < n \<Longrightarrow> tp_chunks_done (t_progress t) ! j \<or> j \<in> set (is @ [k])"
  shows "\<exists>fs2 tm2 t2. send sha env tid cs f (is @ [k]) fs tm = (True, fs2, tm2)
    \<and> file_data fs2 (join_path (ts_path (t_spec t)) (ts_filename (t_spec t))) = Some f
    \<and> get_transfer tid tm2 = Some t2 \<and> tp_phase (t_progress t2) = Complete
    \<and> ts_file_hash (t_spec t2) = hash_bytes sha f"
proof -
  have k: "k < n" and others: "\<forall>j \<in> set is. j < n \<and> j \<noteq> k" using missing(1,2) by auto
  obtain fs' tm' t' where s: "send sha env tid cs f is fs tm = (True, fs', tm')"
      "get_transfer tid tm' = Some t'" "uploads sha fs' f t'" "tp_phase (t_progress t') = Transferring"
      "t_spec t' = t_spec t"
      "\<forall>j < n. tp_chunks_done (t_progress t') ! j \<longleftrightarrow> j \<in> set is \<or> tp_chunks_done (t_progress t) ! j"
    using send_more [OF env k others t n cs missing(3)] by blast
  let ?c = "chunk_of cs f k"
  let ?t1 = "mark_chunk (io_now env) (of_nat k) (length ?c) t'"
  have uk: "unat (of_nat k :: u32) = k"
    using k n unat_bound [of "ts_total_chunks (t_spec t)"] by (intro unat_of_nat_small) simp
  obtain fs'' where r: "uploads sha fs'' f ?t1"
      "receive_chunk sha env tid (of_nat k) (hash_bytes sha ?c) ?c fs' tm'
        = receive_finish sha env tid (of_nat k) (length ?c) (plan_of (of_nat k) t') fs'' tm'"
    using receive_chunk_good [OF s(2-4) env, of k cs] k s(5) n cs by auto
  have len: "length (tp_chunks_done (t_progress t')) = n"
    using s(3,5) n by (simp add: uploads_def Let_def)
  have "tp_chunks_done (t_progress ?t1) ! j" if j: "j < n" for j
    using s(6) j len missing(4) [OF j] by (cases "j = k") (auto simp: uk)
  then have "all_done ?t1"
    by (simp add: all_done_def list_all_length len)
  from receive_last [OF s(2) env r(1) this] s(5) show ?thesis
    unfolding send_append [OF s(1)] by (auto simp: r(2) ack_def)
qed

lemma init_upload_Ok:
  assumes "init_upload env req fs tm = (Ok r, fs1, tm1)"
  shows "ir_transfer_id r = io_uuid env
    \<and> compute_chunks (iu_file_size req) (ir_chunk_size r) = Ok (ir_total_chunks r)
    \<and> 1024 \<le> ir_chunk_size r \<and> valid_filename (iu_filename req)
    \<and> fs1 = fs(temp_name (iu_path req) (io_uuid env) \<mapsto>
        FileNode (replicate (unat (iu_file_size req)) 0) (io_mtime env) (io_create_mode env))
    \<and> tm1 = register env
        \<lparr>ts_transfer_id = io_uuid env, ts_direction = Upload, ts_path = iu_path req,
         ts_filename = iu_filename req, ts_file_size = iu_file_size req, ts_file_hash = iu_file_hash req,
         ts_chunk_size = ir_chunk_size r, ts_total_chunks = ir_total_chunks r, ts_mode = iu_mode req,
         ts_created_at = io_now env, ts_source_mtime = None\<rparr> (temp_name (iu_path req) (io_uuid env)) tm"
  using assms
  by (auto simp: init_upload_def upload_guards_def validate_transfer_path_def Let_def
      split: if_splits option.splits node.splits sum.splits outcome.splits)

lemma final_not_temp:
  assumes "valid_filename name" and "name \<noteq> ''.gx_tmp_'' @ tid"
  shows "join_path dir name \<noteq> temp_name dir tid"
  using assms by (cases name) (auto simp: join_path_def temp_name_def starts_with_def valid_filename_def)

lemma upload_delivers:
  assumes init: "init_upload env req fs tm = (Ok r, fs1, tm1)" and size: "unat (iu_file_size req) = length f"
    and hash: "iu_file_hash req \<in> {[], hash_bytes sha f}" and env: "no_fault env'"
    and target: "iu_filename req \<noteq> ''.gx_tmp_'' @ io_uuid env"
      "fs (join_path (iu_path req) (iu_filename req)) \<noteq> Some DirNode"
    and fits: "chunks_for (length f) (unat (ir_chunk_size r)) < 2 ^ 32"
    and order: "set (is @ [k]) = {..<unat (ir_total_chunks r)}" "k \<notin> set is"
  shows "\<exists>fs2 tm2 t. send sha env' (ir_transfer_id r) (unat (ir_chunk_size r)) f (is @ [k]) fs1 tm1 = (True, fs2, tm2)
    \<and> file_data fs2 (join_path (iu_path req) (iu_filename req)) = Some f
    \<and> get_transfer (ir_transfer_id r) tm2 = Some t \<and> tp_phase (t_progress t) = Complete
    \<and> ts_file_hash (t_spec t) = hash_bytes sha f"
proof -
  note i = init_upload_Ok [OF init]
  let ?n = "unat (ir_total_chunks r)" and ?cs = "unat (ir_chunk_size r)" and ?tid = "ir_transfer_id r"
  have csz: "ir_chunk_size r \<noteq> 0" using i by auto
  then have cs: "0 < ?cs" by (simp add: unat_gt_0)
  have n: "?n = chunks_for (length f) ?cs"
    using compute_chunks_Ok [OF csz, of "iu_file_size req"] fits i by (auto simp: size)
  have ft: "join_path (iu_path req) (iu_filename req) \<noteq> temp_name (iu_path req) (io_uuid env)"
    using i target(1) by (intro final_not_temp) auto
  obtain t where t: "get_transfer ?tid tm1 = Some t" "uploads sha fs1 f t" "tp_phase (t_progress t) = Transferring"
      "unat (ts_total_chunks (t_spec t)) = ?n" "unat (ts_chunk_size (t_spec t)) = ?cs"
      "tp_chunks_done (t_progress t) = replicate ?n False"
      "ts_path (t_spec t) = iu_path req" "ts_filename (t_spec t) = iu_filename req"
    using i ft cs n target(2) hash
    by (auto simp: xfer_simps uploads_def new_progress_def Let_def size file_data_def)
  from send_completes [OF env t(1-3), of ?n ?cs "is" k] t(4-8) order show ?thesis
    by auto
qed

text \<open>
  C1. An upload puts the file in place. After \<open>init_upload\<close> succeeds for a file of the right size,
  the client may send the chunks in any order and repeat any of them before the last missing one;
  every chunk is acknowledged, the target path then holds exactly the file, and the transfer is
  \<open>Complete\<close> with the hash of the file, whether the client announced it or left it out.
\<close>

theorem upload_roundtrip:
  assumes init: "init_upload env req fs tm = (Ok r, fs1, tm1)" and size: "unat (iu_file_size req) = length f"
    and hash: "iu_file_hash req \<in> {[], hash_bytes sha f}" and env: "no_fault env'"
    and target: "iu_filename req \<noteq> ''.gx_tmp_'' @ io_uuid env"
      "fs (join_path (iu_path req) (iu_filename req)) \<noteq> Some DirNode"
    and fits: "chunks_for (length f) (unat (ir_chunk_size r)) < 2 ^ 32"
    and order: "set (is @ [k]) = {..<unat (ir_total_chunks r)}" "k \<notin> set is"
  shows "\<exists>fs2 tm2 t. send sha env' (ir_transfer_id r) (unat (ir_chunk_size r)) f (is @ [k]) fs1 tm1 = (True, fs2, tm2)
    \<and> file_data fs2 (join_path (iu_path req) (iu_filename req)) = Some f
    \<and> get_transfer (ir_transfer_id r) tm2 = Some t \<and> tp_phase (t_progress t) = Complete
    \<and> ts_file_hash (t_spec t) = hash_bytes sha f"
  using assms by (rule upload_delivers)

definition sample_req :: init_upload_req where
  "sample_req = \<lparr>iu_path = ''/d'', iu_filename = ''g'', iu_file_size = 3, iu_file_hash = [],
     iu_chunk_size = 1, iu_total_chunks = 1, iu_mode = None\<rparr>"

lemma sample_init_upload:
  "\<exists>r fs1 tm1. init_upload sample_env sample_req sample_fs sample_tm = (Ok r, fs1, tm1)
     \<and> ir_transfer_id r = ''u'' \<and> ir_total_chunks r = 1 \<and> ir_chunk_size r = 1024"
  by (simp add: init_upload_def upload_guards_def validate_transfer_path_def starts_with_def stat_path_def
      sample_env_def sample_fs_def sample_tm_def sample_req_def new_transfer_manager_def new_config_def
      limit_error_def active_count_def compute_chunks_def check_disk_space_def valid_filename_def Let_def max_def)

theorem upload_roundtrip_witness:
  "\<exists>r fs1 tm1 fs2 tm2. init_upload sample_env sample_req sample_fs sample_tm = (Ok r, fs1, tm1)
    \<and> send sample_sha sample_env ''u'' 1024 [1, 2, 3] ([] @ [0]) fs1 tm1 = (True, fs2, tm2)
    \<and> file_data fs2 (join_path ''/d'' ''g'') = Some [1, 2, 3]"
proof -
  obtain r fs1 tm1 where i: "init_upload sample_env sample_req sample_fs sample_tm = (Ok r, fs1, tm1)"
      "ir_transfer_id r = ''u''" "ir_total_chunks r = 1" "ir_chunk_size r = 1024"
    using sample_init_upload by blast
  have j: "join_path ''/d'' ''g'' = ''/d/g''" by (simp add: join_path_def starts_with_def)
  obtain fs2 tm2 where "send sample_sha sample_env (ir_transfer_id r) (unat (ir_chunk_size r)) [1, 2, 3] ([] @ [0]) fs1 tm1
        = (True, fs2, tm2)"
      "file_data fs2 (join_path (iu_path sample_req) (iu_filename sample_req)) = Some [1, 2, 3]"
    using upload_roundtrip [OF i(1), of "[1, 2, 3]" sample_sha sample_env "[]" 0] i sample_no_fault
    by (auto simp: sample_req_def j sample_fs_def sample_env_def chunks_for_def lessThan_Suc)
  with i show ?thesis by (simp add: sample_req_def)
qed

subsection \<open>Integrity of completed uploads\<close>

lemma get_receive_reject [xfer_simps]:
  "get_transfer k (receive_reject env tid n tm) =
     (if k = tid then map_option (\<lambda>t.
        let pr = (t_progress t)\<lparr>tp_error_count := tp_error_count (t_progress t) + 1, tp_last_activity := io_now env\<rparr>
        in t\<lparr>t_progress := (if tp_error_count pr \<ge> tc_max_chunk_retries (tm_config tm) * n
             then pr\<lparr>tp_phase := Failed ''Too many chunk errors''\<rparr> else pr)\<rparr>) (get_transfer tid tm)
      else get_transfer k tm)"
  by (simp add: receive_reject_def xfer_simps)

lemma set_file_hash_simps [simp]:
  "t_progress (set_file_hash h t) = t_progress t" "ts_file_hash (t_spec (set_file_hash h t)) = h"
  "all_done (set_file_hash h t) = all_done t" "all_done (set_phase ph t) = all_done t"
  "set_phase ph (set_phase ph' t) = set_phase ph t"
  "set_file_hash h (set_phase ph t) = set_phase ph (set_file_hash h t)"
  "set_file_hash (ts_file_hash (t_spec t)) t = t" "set_phase (tp_phase (t_progress t)) t = t"
  "ts_path (t_spec (set_file_hash h t)) = ts_path (t_spec t)"
  "ts_filename (t_spec (set_file_hash h t)) = ts_filename (t_spec t)"
  "ts_direction (t_spec (set_file_hash h t)) = ts_direction (t_spec t)"
  "ts_total_chunks (t_spec (set_file_hash h t)) = ts_total_chunks (t_spec t)"
  by (simp_all add: set_file_hash_def set_phase_def all_done_def)

text \<open>
  What the end of \<open>receive_chunk\<close> does to its transfer: the chunk is marked, and when it was the
  last one the transfer is verified. It is \<open>Complete\<close> only with the hash of the file in place.
\<close>

definition verdict :: "digest \<Rightarrow> filesystem \<Rightarrow> string \<Rightarrow> transfer \<Rightarrow> transfer \<Rightarrow> bool" where
  "verdict sha fs path t1 t2 \<longleftrightarrow> (\<exists>ph h. t2 = set_phase ph (set_file_hash h t1)
     \<and> (ph = tp_phase (t_progress t1) \<and> \<not> all_done t1
        \<or> all_done t1 \<and> (ph = Verifying \<or> (\<exists>m. ph = Failed m)
             \<or> ph = Complete \<and> (\<exists>d. file_data fs path = Some d \<and> h = hash_bytes sha d)
                \<and> ts_file_hash (t_spec t1) \<in> {[], h})))"

lemma verdictI:
  "all_done t1 \<Longrightarrow> ph = Verifying \<or> (\<exists>m. ph = Failed m) \<Longrightarrow> verdict sha fs path t1 (set_phase ph (set_file_hash h t1))"
  "all_done t1 \<Longrightarrow> file_data fs path = Some d \<Longrightarrow> ts_file_hash (t_spec t1) \<in> {[], hash_bytes sha d} \<Longrightarrow>
     verdict sha fs path t1 (set_phase Complete (set_file_hash (hash_bytes sha d) t1))"
  unfolding verdict_def by blast+

lemma finalize_verdict:
  assumes t: "get_transfer tid tm = Some (set_phase Verifying (set_file_hash (hash_bytes sha d) t1))"
    and dn: "all_done t1" and d: "file_data fs (rp_temp plan) = Some d"
    and h: "ts_file_hash (t_spec t1) \<in> {[], hash_bytes sha d}"
    and f: "finalize env tid plan fs tm = (res, fs2, tm2)"
  shows "\<exists>t2. get_transfer tid tm2 = Some t2 \<and> verdict sha fs2 (rp_final plan) t1 t2"
proof (cases res)
  case (Inl e)
  then have "tm2 = tm" using f by (auto simp: finalize_def Let_def split: if_splits)
  with t verdictI(1) [OF dn] show ?thesis by simp
next
  case (Inr u)
  then have f': "finalize env tid plan fs tm = (Inr (), fs2, tm2)" using f by simp
  from finalize_Inr [OF f' d] t verdictI(2) [OF dn _ h] show ?thesis by simp
qed

lemma verify_verdict:
  assumes t: "get_transfer tid tm = Some (set_phase Verifying t1)" and dn: "all_done t1"
    and h: "rp_file_hash plan = ts_file_hash (t_spec t1)"
    and v: "verify_and_finalize sha env tid plan fs tm = (res, fs2, tm2)"
  shows "\<exists>t2. get_transfer tid tm2 = Some t2 \<and> verdict sha fs2 (rp_final plan) t1 t2"
proof (cases "file_data fs (rp_temp plan)")
  case None
  then have "tm2 = tm" using v by (simp add: verify_and_finalize_def)
  with t verdictI(1) [OF dn, of Verifying sha fs2 "rp_final plan" "ts_file_hash (t_spec t1)"] show ?thesis by simp
next
  case (Some d)
  let ?tm = "if rp_file_hash plan = [] then set_transfer tid (set_file_hash (hash_bytes sha d)) tm else tm"
  consider "tm2 = tm"
    | m where "get_transfer tid tm2 = Some (set_phase (Failed m) t1)"
    | "finalize env tid plan fs ?tm = (res, fs2, tm2)" "rp_file_hash plan \<in> {[], hash_bytes sha d}"
    using v t Some
    by (auto simp: verify_and_finalize_def Let_def xfer_simps split: if_splits)
  then show ?thesis
  proof cases
    case 1
    with t verdictI(1) [OF dn, of Verifying sha fs2 "rp_final plan" "ts_file_hash (t_spec t1)"]
    show ?thesis by simp
  next
    case 2
    with verdictI(1) [OF dn, of "Failed m" sha fs2 "rp_final plan" "ts_file_hash (t_spec t1)"]
    show ?thesis by simp
  next
    case 3
    have "set_file_hash (hash_bytes sha d) t1 = t1" if "rp_file_hash plan \<noteq> []"
      using 3(2) h that by (metis empty_iff insert_iff set_file_hash_simps(7))
    then have "get_transfer tid ?tm = Some (set_phase Verifying (set_file_hash (hash_bytes sha d) t1))"
      using t by (simp add: xfer_simps)
    from finalize_verdict [OF this dn Some _ 3(1)] 3(2) h show ?thesis by simp
  qed
qed

lemma receive_finish_verdict:
  assumes t: "get_transfer tid tm = Some t" and h: "rp_file_hash plan = ts_file_hash (t_spec t)"
    and r: "receive_finish sha env tid idx len plan fs tm = (res, fs2, tm2)"
  shows "\<exists>t2. get_transfer tid tm2 = Some t2
    \<and> verdict sha fs2 (rp_final plan) (mark_chunk (io_now env) idx len t) t2"
proof -
  let ?t1 = "mark_chunk (io_now env) idx len t"
  obtain tm1 where c: "receive_commit env tid idx len tm = Inr (all_done ?t1, tm1)"
      "get_transfer tid tm1 = Some (if all_done ?t1 then set_phase Verifying ?t1 else ?t1)"
    using get_receive_commit [OF t, of env idx len] by (auto simp: Let_def)
  show ?thesis
  proof (cases "all_done ?t1")
    case True
    obtain v where "verify_and_finalize sha env tid plan fs tm1 = (v, fs2, tm2)"
      using r c(1) True by (auto simp: receive_finish_def split: prod.splits sum.splits)
    with verify_verdict [of tid tm1 ?t1 plan sha env fs] c(2) True h show ?thesis by simp
  next
    case False
    then have "tm2 = tm1" using r c(1) by (simp add: receive_finish_def)
    moreover have "verdict sha fs2 (rp_final plan) ?t1 ?t1"
      unfolding verdict_def using False
      by (intro exI [of _ "tp_phase (t_progress ?t1)"] exI [of _ "ts_file_hash (t_spec ?t1)"])
        (simp del: mark_chunk_simps)
    ultimately show ?thesis using c(2) False by simp
  qed
qed

definition rejected :: "transfer \<Rightarrow> transfer \<Rightarrow> bool" where
  "rejected t t2 \<longleftrightarrow> t_spec t2 = t_spec t
     \<and> tp_chunks_done (t_progress t2) = tp_chunks_done (t_progress t)
     \<and> (tp_phase (t_progress t2) = tp_phase (t_progress t) \<or> (\<exists>m. tp_phase (t_progress t2) = Failed m))"

lemma receive_chunk_effect:
  assumes "receive_chunk sha env tid idx h data fs tm = (res, fs2, tm2)"
  shows "tm2 = tm \<or> (\<exists>t t2. get_transfer tid tm = Some t \<and> get_transfer tid tm2 = Some t2
     \<and> ts_direction (t_spec t) = Upload \<and> tp_phase (t_progress t) = Transferring
     \<and> (rejected t t2 \<or> verdict sha fs2 (join_path (ts_path (t_spec t)) (ts_filename (t_spec t)))
          (mark_chunk (io_now env) idx (length data) t) t2))"
proof (cases "receive_check tid idx tm")
  case (Inl e)
  with assms show ?thesis by (simp add: receive_chunk_def)
next
  case (Inr plan)
  then obtain t where t: "get_transfer tid tm = Some t" "ts_direction (t_spec t) = Upload"
      "tp_phase (t_progress t) = Transferring" "plan = plan_of idx t"
    by (auto simp: receive_check_Inr_iff)
  consider "tm2 = tm" | "tm2 = receive_reject env tid (rp_total plan) tm"
    | fs1 where "receive_finish sha env tid idx (length data) plan fs1 tm = (res, fs2, tm2)"
    using assms Inr by (auto simp: receive_chunk_def split: if_splits option.splits prod.splits)
  then show ?thesis
  proof cases
    case 2
    then have "\<exists>t2. get_transfer tid tm2 = Some t2 \<and> rejected t t2"
      using t(1) by (auto simp: xfer_simps rejected_def Let_def)
    with t show ?thesis by blast
  next
    case 3
    have "rp_file_hash plan = ts_file_hash (t_spec t)" by (simp add: t(4) plan_of_def)
    from receive_finish_verdict [OF t(1) this 3] t show ?thesis by (auto simp: plan_of_def)
  qed simp
qed

text \<open>
  C5. No upload completes unverified: whatever the client sent and whichever system calls failed, when
  \<open>receive_chunk\<close> moves a transfer to \<open>Complete\<close>, all its chunks have been received, the target path
  holds a file, and its hash is the hash the transfer reports.
\<close>

theorem completed_upload_verified:
  assumes "receive_chunk sha env tid idx h data fs tm = (res, fs2, tm2)"
    and "get_transfer tid tm = Some t" and "tp_phase (t_progress t) \<noteq> Complete"
    and "get_transfer tid tm2 = Some t2" and "tp_phase (t_progress t2) = Complete"
  shows "all_done t2 \<and> (\<exists>d. file_data fs2 (join_path (ts_path (t_spec t2)) (ts_filename (t_spec t2))) = Some d
    \<and> ts_file_hash (t_spec t2) = hash_bytes sha d
    \<and> ts_file_hash (t_spec t) \<in> {[], hash_bytes sha d})"
  using receive_chunk_effect [OF assms(1)] assms(2-5)
  by (auto simp: rejected_def verdict_def)

definition sample_upload :: transfer_manager where
  "sample_upload = snd (snd (init_upload sample_env sample_req sample_fs sample_tm))"

definition sample_upload_fs :: filesystem where
  "sample_upload_fs = fst (snd (init_upload sample_env sample_req sample_fs sample_tm))"

lemmas sample_defs = sample_upload_def sample_upload_fs_def init_upload_def upload_guards_def
  validate_transfer_path_def starts_with_def stat_path_def sample_env_def sample_fs_def sample_tm_def
  sample_req_def new_transfer_manager_def new_config_def limit_error_def active_count_def
  compute_chunks_def check_disk_space_def valid_filename_def Let_def max_def

lemmas receive_defs = receive_chunk_def receive_check_def receive_write_def receive_finish_def
  receive_commit_def verify_and_finalize_def finalize_def set_transfer_def get_transfer_def
  emit_progress_def announce_complete_def register_def log_start_def new_progress_def hm_insert_def
  hm_modify_def hm_get_def mark_chunk_def all_done_def set_phase_def set_file_hash_def
  file_data_def fs_write_def write_at_def apply_mode_def temp_name_def join_path_def chunk_offset_def

theorem completed_upload_verified_witness:
  "\<exists>res fs2 tm2 t t2.
     receive_chunk sample_sha sample_env ''u'' 0 (hash_bytes sample_sha [7, 8, 9]) [7, 8, 9]
       sample_upload_fs sample_upload = (res, fs2, tm2)
     \<and> get_transfer ''u'' sample_upload = Some t \<and> tp_phase (t_progress t) = Transferring
     \<and> get_transfer ''u'' tm2 = Some t2 \<and> tp_phase (t_progress t2) = Complete
     \<and> (\<exists>d. file_data fs2 (join_path (ts_path (t_spec t2)) (ts_filename (t_spec t2))) = Some d
          \<and> ts_file_hash (t_spec t2) = hash_bytes sample_sha d)"
proof -
  obtain t where t: "get_transfer ''u'' sample_upload = Some t" "tp_phase (t_progress t) = Transferring"
    by (simp add: sample_defs receive_defs)
  obtain res fs2 tm2 where r: "receive_chunk sample_sha sample_env ''u'' 0 (hash_bytes sample_sha [7, 8, 9]) [7, 8, 9]
       sample_upload_fs sample_upload = (res, fs2, tm2)"
    by (metis prod.exhaust)
  moreover have "\<exists>t2. get_transfer ''u'' (snd (snd (receive_chunk sample_sha sample_env ''u'' 0
      (hash_bytes sample_sha [7, 8, 9]) [7, 8, 9] sample_upload_fs sample_upload))) = Some t2
      \<and> tp_phase (t_progress t2) = Complete"
    by (simp add: sample_defs receive_defs)
  ultimately obtain t2 where "get_transfer ''u'' tm2 = Some t2" "tp_phase (t_progress t2) = Complete"
    by auto
  with completed_upload_verified [OF r t(1) _ this] t r show ?thesis by auto
qed

subsection \<open>Every operation\<close>

datatype xfer_op =
    XInitDownload io_env string "u32 option"
  | XInitUpload io_env init_upload_req
  | XServe io_env string u32
  | XReceive io_env string u32 string "u8 list"
  | XResume io_env string
  | XAbort io_env string
  | XPauseAll
  | XSweep io_env
  | XOutside filesystem

text \<open>One operation on the file system and the manager; \<open>XOutside\<close> is any change by other programs.\<close>

fun xfer_step :: "digest \<Rightarrow> xfer_op \<Rightarrow> filesystem \<times> transfer_manager \<Rightarrow> filesystem \<times> transfer_manager" where
  "xfer_step sha (XInitDownload env path cs) (fs, tm) = (fs, snd (init_download sha env path cs fs tm))"
| "xfer_step sha (XInitUpload env req) (fs, tm) = snd (init_upload env req fs tm)"
| "xfer_step sha (XServe env tid idx) (fs, tm) = (fs, snd (serve_chunk sha env tid idx fs tm))"
| "xfer_step sha (XReceive env tid idx h data) (fs, tm) = snd (receive_chunk sha env tid idx h data fs tm)"
| "xfer_step sha (XResume env tid) (fs, tm) = (fs, snd (resume env tid tm))"
| "xfer_step sha (XAbort env tid) (fs, tm) = snd (abort env tid fs tm)"
| "xfer_step sha XPauseAll (fs, tm) = (fs, pause_all tm)"
| "xfer_step sha (XSweep env) (fs, tm) = snd (sweep_stale env fs tm)"
| "xfer_step sha (XOutside fs') (fs, tm) = (fs', tm)"

fun op_uuid :: "xfer_op \<Rightarrow> string option" where
  "op_uuid (XInitDownload env _ _) = Some (io_uuid env)"
| "op_uuid (XInitUpload env _) = Some (io_uuid env)"
| "op_uuid _ = None"

fun terminal :: "phase \<Rightarrow> bool" where
  "terminal Complete = True"
| "terminal Aborted = True"
| "terminal (Failed _) = True"
| "terminal _ = False"

text \<open>How one operation may change a transfer that it does not create or drop.\<close>

definition evolves :: "transfer \<Rightarrow> transfer \<Rightarrow> bool" where
  "evolves t t' \<longleftrightarrow>
     ts_total_chunks (t_spec t') = ts_total_chunks (t_spec t)
     \<and> ts_direction (t_spec t') = ts_direction (t_spec t)
     \<and> length (tp_chunks_done (t_progress t')) = length (tp_chunks_done (t_progress t))
     \<and> (\<forall>i < length (tp_chunks_done (t_progress t)).
          tp_chunks_done (t_progress t) ! i \<longrightarrow> tp_chunks_done (t_progress t') ! i)
     \<and> (tp_phase (t_progress t') \<in> {Complete, Verifying} \<longrightarrow>
          all_done t' \<or> tp_phase (t_progress t) = tp_phase (t_progress t'))
     \<and> (terminal (tp_phase (t_progress t)) \<longrightarrow>
          tp_phase (t_progress t') \<in> {tp_phase (t_progress t), Aborted})"

definition fresh :: "transfer \<Rightarrow> bool" where
  "fresh t \<longleftrightarrow> tp_phase (t_progress t) = Transferring
     \<and> tp_chunks_done (t_progress t) = replicate (unat (ts_total_chunks (t_spec t))) False"

lemma evolves_refl [simp]: "evolves t t"
  by (simp add: evolves_def)

lemma nth_update_mono: "xs ! i \<Longrightarrow> i < length xs \<Longrightarrow> xs[k := True] ! i"
  by (cases "i = k") auto

lemma evolves_set_phase:
  assumes "\<not> terminal (tp_phase (t_progress t)) \<or> ph = Aborted"
    and "ph \<in> {Complete, Verifying} \<longrightarrow> all_done t"
  shows "evolves t (set_phase ph t)"
  using assms by (auto simp: evolves_def all_done_def)

lemma evolves_mark:
  "evolves t (mark_chunk now i n t)"
  by (auto simp: evolves_def nth_update_mono)

lemma evolves_serve:
  assumes "tp_phase (t_progress t) \<in> {Transferring, Paused}"
  shows "evolves t (let t1 = mark_chunk now i n t in if all_done t1 then set_phase Complete t1 else t1)"
  using assms by (auto simp: evolves_def nth_update_mono Let_def all_done_def)

lemma evolves_receive:
  assumes "tp_phase (t_progress t) = Transferring"
    and "rejected t t2 \<or> verdict sha fs p (mark_chunk now i n t) t2"
  shows "evolves t t2"
  using assms by (auto simp: evolves_def rejected_def verdict_def nth_update_mono all_done_def)

lemma get_receive_other:
  assumes "receive_chunk sha env tid idx h data fs tm = (res, fs2, tm2)" and "k \<noteq> tid"
  shows "get_transfer k tm2 = get_transfer k tm"
proof -
  have fin: "get_transfer k (snd (snd (finalize env tid plan fs' tm'))) = get_transfer k tm'" for plan fs' tm'
    using assms(2) by (auto simp: finalize_def Let_def xfer_simps split: option.splits)
  have ver: "get_transfer k (snd (snd (verify_and_finalize sha env tid plan fs' tm'))) = get_transfer k tm'"
    for plan fs' tm'
    using assms(2) fin by (auto simp: verify_and_finalize_def Let_def xfer_simps split: option.splits)
  have com: "get_transfer k tm'' = get_transfer k tm'"
    if "receive_commit env tid idx n tm' = Inr (b, tm'')" for b n tm' tm''
    using that assms(2) by (auto simp: receive_commit_def Let_def xfer_simps split: option.splits)
  have rf: "get_transfer k (snd (snd (receive_finish sha env tid idx n plan fs' tm'))) = get_transfer k tm'"
    for n plan fs' tm'
  proof (cases "receive_commit env tid idx n tm'")
    case (Inl e)
    then show ?thesis by (simp add: receive_finish_def)
  next
    case (Inr p)
    obtain b tm'' where p: "p = (b, tm'')" by (cases p)
    obtain v f3 t3 where v: "verify_and_finalize sha env tid plan fs' tm'' = (v, f3, t3)"
      by (metis prod.exhaust)
    have "get_transfer k t3 = get_transfer k tm''" using ver [of plan fs' tm''] v by simp
    then show ?thesis
      using com Inr p v by (cases v) (simp_all add: receive_finish_def)
  qed
  show ?thesis
  proof (cases "receive_check tid idx tm")
    case (Inl e)
    then show ?thesis using assms(1) by (simp add: receive_chunk_def)
  next
    case (Inr plan)
    obtain e fs1 where "receive_write env tid (rp_temp plan) (rp_offset plan) data fs = (e, fs1)"
      by (metis prod.exhaust)
    then show ?thesis
      using assms Inr rf [of "length data" plan fs1 tm]
      by (cases e) (auto simp: receive_chunk_def xfer_simps split: if_splits)
  qed
qed

lemma serve_chunk_effect:
  assumes "snd (serve_chunk sha env tid idx fs tm) = tm'"
  shows "tm' = tm \<or> (\<exists>len t. get_transfer tid tm = Some t \<and> tp_phase (t_progress t) \<in> {Transferring, Paused}
     \<and> tm' = serve_commit env tid idx len tm)"
proof (cases "serve_check env tid idx fs tm")
  case (Inl e)
  then show ?thesis using assms by (simp add: serve_chunk_def)
next
  case (Inr p)
  obtain off len path where p: "p = (off, len, path)" by (cases p)
  have "\<exists>t. get_transfer tid tm = Some t \<and> tp_phase (t_progress t) \<in> {Transferring, Paused}"
    using Inr by (auto simp: serve_check_def Let_def split: option.splits if_splits)
  moreover have "tm' = tm \<or> tm' = serve_commit env tid idx len tm"
    using assms Inr p by (auto simp: serve_chunk_def Let_def split: option.splits if_splits)
  ultimately show ?thesis by blast
qed

lemma xfer_step_evolves:
  assumes "xfer_step sha x (fs, tm) = (fs', tm')" and "get_transfer k tm' = Some t'"
  shows "(\<exists>t. get_transfer k tm = Some t \<and> evolves t t') \<or> (fresh t' \<and> op_uuid x = Some k)"
proof (cases x)
  case (XInitDownload env path cs)
  obtain r tm1 where r: "init_download sha env path cs fs tm = (r, tm1)" by (metis prod.exhaust)
  show ?thesis
  proof (cases "\<exists>a. r = Ok a")
    case True
    with r assms XInitDownload show ?thesis
      by (auto dest!: init_download_Ok simp: xfer_simps fresh_def new_progress_def split: if_splits)
  next
    case False
    with r have "tm1 = tm"
      by (auto simp: init_download_def Let_def split: sum.splits node.splits if_splits option.splits outcome.splits)
    with r assms XInitDownload show ?thesis by simp
  qed
next
  case (XInitUpload env req)
  obtain r fs1 tm1 where r: "init_upload env req fs tm = (r, fs1, tm1)" by (metis prod.exhaust)
  show ?thesis
  proof (cases "\<exists>a. r = Ok a")
    case True
    with r assms XInitUpload show ?thesis
      by (auto dest!: init_upload_Ok simp: xfer_simps fresh_def new_progress_def split: if_splits)
  next
    case False
    with r have "tm1 = tm"
      by (auto simp: init_upload_def Let_def split: if_splits prod.splits outcome.splits)
    with r assms XInitUpload show ?thesis by simp
  qed
next
  case (XServe env tid idx)
  then have "snd (serve_chunk sha env tid idx fs tm) = tm'" using assms(1) by auto
  from serve_chunk_effect [OF this] assms(2) show ?thesis
    using evolves_serve by (fastforce simp: xfer_simps split: if_splits)
next
  case (XReceive env tid idx h data)
  obtain res where r: "receive_chunk sha env tid idx h data fs tm = (res, fs', tm')"
    using assms XReceive by (metis prod.collapse xfer_step.simps(4))
  show ?thesis
  proof (cases "k = tid")
    case True
    with receive_chunk_effect [OF r] assms(2) show ?thesis by (auto intro: evolves_receive)
  next
    case False
    with get_receive_other [OF r] assms(2) show ?thesis by simp
  qed
next
  case (XResume env tid)
  then show ?thesis
    using assms by (auto simp: resume_def xfer_simps Let_def evolves_def split: option.splits if_splits)
next
  case (XAbort env tid)
  then show ?thesis
    using assms by (auto simp: abort_def xfer_simps intro: evolves_set_phase split: option.splits if_splits)
next
  case XPauseAll
  then show ?thesis
    using assms by (auto simp: pause_all_def get_transfer_def hm_simps intro!: evolves_set_phase split: if_splits)
next
  case (XSweep env)
  then show ?thesis
    using assms by (auto simp: sweep_stale_def get_transfer_def hm_simps Let_def split: if_splits)
next
  case (XOutside f)
  then show ?thesis using assms by simp
qed

definition xfer_inv :: "filesystem \<times> transfer_manager \<Rightarrow> bool" where
  "xfer_inv s \<longleftrightarrow> (\<forall>k t. get_transfer k (snd s) = Some t \<longrightarrow>
     length (tp_chunks_done (t_progress t)) = unat (ts_total_chunks (t_spec t))
     \<and> (tp_phase (t_progress t) \<in> {Complete, Verifying} \<longrightarrow> all_done t))"

lemma evolves_inv:
  assumes "evolves t t'" and "length (tp_chunks_done (t_progress t)) = unat (ts_total_chunks (t_spec t))"
    and "tp_phase (t_progress t) \<in> {Complete, Verifying} \<longrightarrow> all_done t"
  shows "length (tp_chunks_done (t_progress t')) = unat (ts_total_chunks (t_spec t'))
     \<and> (tp_phase (t_progress t') \<in> {Complete, Verifying} \<longrightarrow> all_done t')"
  using assms by (auto simp: evolves_def all_done_def list_all_length)

lemma xfer_inv_step:
  assumes "xfer_inv s"
  shows "xfer_inv (xfer_step sha x s)"
proof -
  obtain fs tm where s: "s = (fs, tm)" by (cases s)
  obtain fs' tm' where s': "xfer_step sha x s = (fs', tm')" by (cases "xfer_step sha x s")
  have "length (tp_chunks_done (t_progress t')) = unat (ts_total_chunks (t_spec t'))
     \<and> (tp_phase (t_progress t') \<in> {Complete, Verifying} \<longrightarrow> all_done t')"
    if g: "get_transfer k tm' = Some t'" for k t'
    using xfer_step_evolves [OF s' [unfolded s] g]
  proof
    assume "\<exists>t. get_transfer k tm = Some t \<and> evolves t t'"
    then show ?thesis using assms evolves_inv unfolding xfer_inv_def s by fastforce
  next
    assume "fresh t' \<and> op_uuid x = Some k"
    then show ?thesis by (simp add: fresh_def)
  qed
  then show ?thesis by (simp add: s' xfer_inv_def)
qed

interpretation xfer: invariant_machine "xfer_step sha" "\<lambda>_ _. True" xfer_inv for sha
  by unfold_locales (rule xfer_inv_step)

definition xfer_run :: "digest \<Rightarrow> xfer_op list \<Rightarrow> filesystem \<times> transfer_manager \<Rightarrow> filesystem \<times> transfer_manager" where
  "xfer_run sha xs s = fold (xfer_step sha) xs s"

text \<open>
  C18. Whatever operations run, in any order, with any failing system calls and any change of the
  file system by other programs: every transfer tracks exactly \<open>total_chunks\<close> chunks, and a
  transfer that is being verified or complete has received or served every one of them.
\<close>

theorem transfer_invariant:
  assumes "get_transfer k (snd (xfer_run sha xs (fs, new_transfer_manager cfg log))) = Some t"
  shows "length (tp_chunks_done (t_progress t)) = unat (ts_total_chunks (t_spec t))
    \<and> (tp_phase (t_progress t) \<in> {Complete, Verifying} \<longrightarrow> list_all id (tp_chunks_done (t_progress t)))"
proof -
  have "xfer_inv (fs, new_transfer_manager cfg log)"
    by (simp add: xfer_inv_def new_transfer_manager_def get_transfer_def)
  then have "xfer_inv (xfer_run sha xs (fs, new_transfer_manager cfg log))"
    using xfer.run_invar_all by (simp add: xfer.run_fold xfer_run_def)
  then show ?thesis using assms by (simp add: xfer_inv_def all_done_def)
qed

theorem transfer_invariant_witness:
  "\<exists>t. get_transfer ''u'' (snd (xfer_run sample_sha [XInitUpload sample_env sample_req]
        (sample_fs, new_transfer_manager (new_config 2 1024 5000 60) (new_log 10)))) = Some t
    \<and> length (tp_chunks_done (t_progress t)) = unat (ts_total_chunks (t_spec t))"
proof -
  obtain t where t: "get_transfer ''u'' (snd (xfer_run sample_sha [XInitUpload sample_env sample_req]
        (sample_fs, new_transfer_manager (new_config 2 1024 5000 60) (new_log 10)))) = Some t"
    by (simp add: xfer_run_def sample_defs receive_defs)
  with transfer_invariant [OF t] show ?thesis by blast
qed

text \<open>
  An ended transfer stays ended: once a transfer is complete, failed or aborted, no sequence of
  operations brings it back; it keeps its phase, becomes aborted, or is swept away. (Identifiers
  are not reused.)
\<close>

theorem terminal_is_final:
  assumes "get_transfer k (snd s) = Some t" and "terminal (tp_phase (t_progress t))"
    and "Some k \<notin> op_uuid ` set xs" and "get_transfer k (snd (xfer_run sha xs s)) = Some t'"
  shows "tp_phase (t_progress t') \<in> {tp_phase (t_progress t), Aborted}"
  using assms
proof (induction xs arbitrary: t' rule: rev_induct)
  case Nil
  then show ?case by (simp add: xfer_run_def)
next
  case (snoc x xs)
  obtain fs1 tm1 where s1: "xfer_run sha xs s = (fs1, tm1)" by (cases "xfer_run sha xs s")
  obtain fs2 tm2 where s2: "xfer_step sha x (fs1, tm1) = (fs2, tm2)" by (cases "xfer_step sha x (fs1, tm1)")
  have g: "get_transfer k tm2 = Some t'"
    using snoc.prems(4) s1 s2 by (simp add: xfer_run_def)
  then obtain u where u: "get_transfer k tm1 = Some u" "evolves u t'"
    using xfer_step_evolves [OF s2 g] snoc.prems(3) by (auto simp: image_iff)
  have ph: "tp_phase (t_progress u) \<in> {tp_phase (t_progress t), Aborted}"
    using snoc.IH [of u] snoc.prems u(1) s1 by auto
  then have "terminal (tp_phase (t_progress u))" using snoc.prems(2) by auto
  with u(2) have "tp_phase (t_progress t') \<in> {tp_phase (t_progress u), Aborted}"
    by (simp add: evolves_def)
  with ph show ?case by auto
qed

theorem terminal_is_final_witness:
  "\<exists>t t'. get_transfer ''u'' (snd (xfer_run sample_sha [XAbort sample_env ''u''] (sample_fs, sample_upload))) = Some t
    \<and> tp_phase (t_progress t) = Aborted
    \<and> get_transfer ''u'' (snd (xfer_run sample_sha [XResume sample_env ''u'']
          (xfer_run sample_sha [XAbort sample_env ''u''] (sample_fs, sample_upload)))) = Some t'
    \<and> tp_phase (t_progress t') = Aborted"
proof -
  let ?s = "xfer_run sample_sha [XAbort sample_env ''u''] (sample_fs, sample_upload)"
  obtain t where t: "get_transfer ''u'' (snd ?s) = Some t" "tp_phase (t_progress t) = Aborted"
    by (simp add: xfer_run_def abort_def sample_defs receive_defs)
  obtain t' where t': "get_transfer ''u'' (snd (xfer_run sample_sha [XResume sample_env ''u''] ?s)) = Some t'"
    by (simp add: xfer_run_def abort_def resume_def sample_defs receive_defs)
  from terminal_is_final [OF t(1) _ _ t'] t t' show ?thesis by auto
qed

subsection \<open>Resuming and sweeping\<close>

lemma done_indices_eq: "done_indices ds = map of_nat (filter (\<lambda>i. ds ! i) [0..<length ds])"
proof -
  have e: "enumerate 0 ds = map (\<lambda>i. (i, ds ! i)) [0..<length ds]"
    by (rule nth_equalityI) (simp_all add: enumerate_eq_zip)
  show ?thesis by (simp add: done_indices_def e filter_map comp_def)
qed

lemma done_indices_unat:
  assumes "length ds < 2 ^ 32"
  shows "map unat (done_indices ds) = filter (\<lambda>i. ds ! i) [0..<length ds]"
proof -
  have "unat (of_nat i :: u32) = i" if "i < length ds" for i
    using assms that by (intro unat_of_nat_small) simp
  then show ?thesis by (auto simp: done_indices_eq intro: map_idI)
qed

text \<open>
  An interrupted upload can be finished from what \<open>resume\<close> reports. If the chunks marked as
  received are in the temporary file, \<open>resume\<close> returns exactly their indices in ascending order,
  and sending the chunks it does not list, in any order, completes the upload with the right file.
\<close>

theorem resume_completes:
  assumes up: "get_transfer tid tm = Some t" "uploads sha fs f t" "tp_phase (t_progress t) = Paused"
    and env: "no_fault env"
    and missing: "set (is @ [k]) = {..<unat (ts_total_chunks (t_spec t))} - set (map unat (rr_chunks_received r))" "k \<notin> set is"
    and res: "resume env' tid tm = (Inr r, tm1)"
  shows "\<exists>fs2 tm2 t2. send sha env tid (unat (rr_chunk_size r)) f (is @ [k]) fs tm1 = (True, fs2, tm2)
    \<and> file_data fs2 (join_path (ts_path (t_spec t)) (ts_filename (t_spec t))) = Some f
    \<and> get_transfer tid tm2 = Some t2 \<and> tp_phase (t_progress t2) = Complete
    \<and> sorted (map unat (rr_chunks_received r))"
proof -
  let ?n = "unat (ts_total_chunks (t_spec t))" and ?ds = "tp_chunks_done (t_progress t)"
  let ?t1 = "t\<lparr>t_progress := (t_progress t)\<lparr>tp_phase := Transferring, tp_last_activity := io_now env'\<rparr>\<rparr>"
  have len: "length ?ds = ?n" using up(2) by (simp add: uploads_def Let_def)
  have r: "rr_chunks_received r = done_indices ?ds" "rr_chunk_size r = ts_chunk_size (t_spec t)"
      "get_transfer tid tm1 = Some ?t1"
    using res up by (auto simp: resume_def Let_def xfer_simps)
  have rec: "map unat (rr_chunks_received r) = filter (\<lambda>i. ?ds ! i) [0..<?n]"
    using done_indices_unat [of ?ds] unat_bound [of "ts_total_chunks (t_spec t)"] by (simp add: r len)
  have m: "j \<in> set (is @ [k]) \<longleftrightarrow> j < ?n \<and> \<not> ?ds ! j" for j
    unfolding missing(1) rec by auto
  have u1: "uploads sha fs f ?t1" using up(2) by (simp add: uploads_def)
  have kd: "k < ?n" "\<not> ?ds ! k" using m [of k] by simp_all
  have "\<exists>fs2 tm2 t2. send sha env tid (unat (rr_chunk_size r)) f (is @ [k]) fs tm1 = (True, fs2, tm2)
    \<and> file_data fs2 (join_path (ts_path (t_spec ?t1)) (ts_filename (t_spec ?t1))) = Some f
    \<and> get_transfer tid tm2 = Some t2 \<and> tp_phase (t_progress t2) = Complete
    \<and> ts_file_hash (t_spec t2) = hash_bytes sha f"
  proof (rule send_completes [OF env r(3) u1])
    show "set (is @ [k]) \<subseteq> {..<?n}" using missing(1) by auto
    show "tp_chunks_done (t_progress ?t1) ! j \<or> j \<in> set (is @ [k])" if "j < ?n" for j
      using that m [of j] by simp
  qed (use r missing kd in simp_all)
  moreover have "sorted (map unat (rr_chunks_received r))"
    unfolding rec by (simp add: sorted_filter [where f = id, simplified])
  ultimately show ?thesis by auto
qed

lemma sample_paused:
  "\<exists>t r tm1. get_transfer ''u'' (pause_all sample_upload) = Some t \<and> uploads sample_sha sample_upload_fs [1, 2, 3] t
    \<and> tp_phase (t_progress t) = Paused \<and> ts_total_chunks (t_spec t) = 1
    \<and> resume sample_env ''u'' (pause_all sample_upload) = (Inr r, tm1)
    \<and> rr_chunks_received r = [] \<and> rr_chunk_size r = 1024"
  by (simp add: pause_all_def hm_map_values_def resume_def done_indices_eq uploads_def chunks_for_def
      sample_defs receive_defs)

theorem resume_completes_witness:
  "\<exists>t r tm1 fs2 tm2. get_transfer ''u'' (pause_all sample_upload) = Some t
    \<and> resume sample_env ''u'' (pause_all sample_upload) = (Inr r, tm1)
    \<and> send sample_sha sample_env ''u'' 1024 [1, 2, 3] ([] @ [0]) sample_upload_fs tm1 = (True, fs2, tm2)
    \<and> file_data fs2 (join_path (ts_path (t_spec t)) (ts_filename (t_spec t))) = Some [1, 2, 3]"
proof -
  obtain t r tm1 where s: "get_transfer ''u'' (pause_all sample_upload) = Some t"
      "uploads sample_sha sample_upload_fs [1, 2, 3] t" "tp_phase (t_progress t) = Paused"
      "ts_total_chunks (t_spec t) = 1" "resume sample_env ''u'' (pause_all sample_upload) = (Inr r, tm1)"
      "rr_chunks_received r = []" "rr_chunk_size r = 1024"
    using sample_paused by blast
  have "\<exists>fs2 tm2 t2. send sample_sha sample_env ''u'' (unat (rr_chunk_size r)) [1, 2, 3] ([] @ [0]) sample_upload_fs tm1
        = (True, fs2, tm2)
    \<and> file_data fs2 (join_path (ts_path (t_spec t)) (ts_filename (t_spec t))) = Some [1, 2, 3]
    \<and> get_transfer ''u'' tm2 = Some t2 \<and> tp_phase (t_progress t2) = Complete
    \<and> sorted (map unat (rr_chunks_received r))"
    by (rule resume_completes [OF s(1-3) sample_no_fault _ _ s(5)]) (auto simp: s)
  with s show ?thesis by auto
qed

text \<open>
  The sweep drops exactly the transfers that are paused or ended and have been idle for longer
  than the timeout. A transfer left in \<open>Verifying\<close> is never dropped, however old it is.
\<close>

theorem sweep_stale_exact:
  assumes "hm_wf (tm_transfers tm)" and "sweep_stale env fs tm = (ids, fs', tm')"
  shows "get_transfer k tm' =
      (case get_transfer k tm of
         None \<Rightarrow> None
       | Some t \<Rightarrow> if tp_phase (t_progress t) \<notin> {Init, Transferring, Verifying}
             \<and> io_now env - tp_last_activity (t_progress t) > from_secs (unat (tc_stale_timeout_secs (tm_config tm)))
           then None else Some t)
    \<and> (k \<in> set ids \<longleftrightarrow> get_transfer k tm \<noteq> None \<and> get_transfer k tm' = None)"
proof -
  have st: "stale cfg now t \<longleftrightarrow> tp_phase (t_progress t) \<notin> {Init, Transferring, Verifying}
      \<and> now - tp_last_activity (t_progress t) > from_secs (unat (tc_stale_timeout_secs cfg))" for cfg now t
    by (cases "tp_phase (t_progress t)") (auto simp: stale_def elapsed_def)
  show ?thesis
    using assms
    by (auto simp: sweep_stale_def get_transfer_def Let_def hm_simps hm_keys_where_iff st split: option.splits)
qed

theorem sweep_stale_exact_witness:
  "get_transfer ''u'' (snd (snd (sweep_stale (sample_env\<lparr>io_now := from_secs 61\<rparr>) sample_upload_fs
      (pause_all sample_upload)))) = None"
proof -
  let ?tm = "pause_all sample_upload" and ?env = "sample_env\<lparr>io_now := from_secs 61\<rparr>"
  obtain ids fs' tm' where s: "sweep_stale ?env sample_upload_fs ?tm = (ids, fs', tm')" by (metis prod.exhaust)
  have wf: "hm_wf (tm_transfers ?tm)"
    by (simp add: pause_all_def hm_map_values_def sample_defs receive_defs hm_wf_def)
  obtain t where t: "get_transfer ''u'' ?tm = Some t" "tp_phase (t_progress t) = Paused"
      "tp_last_activity (t_progress t) = 0" "tc_stale_timeout_secs (tm_config ?tm) = 60"
    by (simp add: pause_all_def hm_map_values_def sample_defs receive_defs)
  show ?thesis
    unfolding s using sweep_stale_exact [OF wf s, of "''u''"] t by (simp add: time_defs)
qed

subsection \<open>What the locking admits\<close>

text \<open>
  A repeated last chunk can strand a finished upload. The write of a chunk is not covered by a
  lock: when two calls carry the last missing chunk and both have written it, the first to commit
  completes the upload; the second then moves it from \<open>Complete\<close> back to \<open>Verifying\<close> and fails because
  the temporary file is gone. The file is in place, the second caller gets an I/O error, and the
  transfer stays in a phase that no operation but \<open>abort\<close> leaves and the sweep ignores.
\<close>

theorem duplicate_last_chunk_strands:
  assumes "get_transfer tid tm = Some t" and "uploads sha fs f (mark_chunk (io_now env) idx len t)"
    and "all_done (mark_chunk (io_now env) idx len t)" and "no_fault env"
  shows "\<exists>fs1 tm1 e tm2 t1 t2.
      receive_finish sha env tid idx len (plan_of idx t) fs tm = (Ok (ack tid idx), fs1, tm1)
    \<and> get_transfer tid tm1 = Some t1 \<and> tp_phase (t_progress t1) = Complete
    \<and> receive_finish sha env tid idx len (plan_of idx t) fs1 tm1 = (Err e, fs1, tm2) \<and> te_code e = ''IO_ERROR''
    \<and> get_transfer tid tm2 = Some t2 \<and> tp_phase (t_progress t2) = Verifying
    \<and> file_data fs1 (join_path (ts_path (t_spec t)) (ts_filename (t_spec t))) = Some f"
proof -
  obtain fs1 tm1 t1 where a: "receive_finish sha env tid idx len (plan_of idx t) fs tm = (Ok (ack tid idx), fs1, tm1)"
      "file_data fs1 (join_path (ts_path (t_spec t)) (ts_filename (t_spec t))) = Some f"
      "file_data fs1 (rp_temp (plan_of idx t)) = None"
      "get_transfer tid tm1 = Some t1" "tp_phase (t_progress t1) = Complete" "all_done t1"
    using receive_last [OF assms(1,4,2,3)] by (auto simp: plan_of_def)
  let ?t2 = "mark_chunk (io_now env) idx len t1"
  have dn: "all_done ?t2"
    using a(6) by (auto simp: all_done_def list_all_length nth_update_mono)
  obtain tm2 where c: "receive_commit env tid idx len tm1 = Inr (True, tm2)"
      "get_transfer tid tm2 = Some (set_phase Verifying ?t2)"
    using get_receive_commit [OF a(4), of env idx len] dn by (auto simp: Let_def)
  have "receive_finish sha env tid idx len (plan_of idx t) fs1 tm1 =
      (Err (make_error tid ''IO_ERROR'' (''Hash verification failed: '' @ io_text env) False), fs1, tm2)"
    by (simp add: receive_finish_def c(1) verify_and_finalize_def a(3))
  with a c(2) show ?thesis by (auto simp: make_error_def)
qed

lemma sample_last:
  "\<exists>t. get_transfer ''u'' sample_upload = Some t
    \<and> uploads sample_sha (sample_upload_fs(''/d/.gx_tmp_u'' \<mapsto> FileNode [1, 2, 3] None 0)) [1, 2, 3]
        (mark_chunk (io_now sample_env) 0 3 t)
    \<and> all_done (mark_chunk (io_now sample_env) 0 3 t)"
  by (simp add: uploads_def chunks_for_def chunk_of_def sample_defs receive_defs)

theorem duplicate_last_chunk_strands_witness:
  "\<exists>t fs fs1 tm1 tm2 t2 e. get_transfer ''u'' sample_upload = Some t
    \<and> receive_finish sample_sha sample_env ''u'' 0 3 (plan_of 0 t) fs sample_upload = (Ok (ack ''u'' 0), fs1, tm1)
    \<and> receive_finish sample_sha sample_env ''u'' 0 3 (plan_of 0 t) fs1 tm1 = (Err e, fs1, tm2)
    \<and> get_transfer ''u'' tm2 = Some t2 \<and> tp_phase (t_progress t2) = Verifying"
proof -
  obtain t where "get_transfer ''u'' sample_upload = Some t"
      "uploads sample_sha (sample_upload_fs(''/d/.gx_tmp_u'' \<mapsto> FileNode [1, 2, 3] None 0)) [1, 2, 3]
        (mark_chunk (io_now sample_env) 0 3 t)"
      "all_done (mark_chunk (io_now sample_env) 0 3 t)"
    using sample_last by blast
  from duplicate_last_chunk_strands [OF this sample_no_fault] this(1) show ?thesis by blast
qed

text \<open>
  A download request can bring the server down. \<open>init_download\<close> takes the chunk size of the
  request as it is (\<open>init_upload\<close> raises it to 1024): a chunk size of zero for a file that is not
  empty divides by zero, and the release profile aborts the process on a panic.
\<close>

theorem zero_chunk_download_panics:
  assumes "validate_transfer_path path = Inr path" and "fs path = Some (FileNode data mt m)" and "data \<noteq> []"
    and "length data < 2 ^ 64" and "of_nat (length data) \<le> tc_max_file_size (tm_config tm)"
    and "active_count tm < tc_max_concurrent (tm_config tm)" and "io_stat_err env = None"
  shows "init_download sha env path (Some 0) fs tm = (Panic ''attempt to divide by zero'', tm)"
proof -
  have "unat (of_nat (length data) :: u64) = length data"
    using assms(4) by (intro unat_of_nat_small) simp
  then have "(of_nat (length data) :: u64) \<noteq> 0"
    using assms(3) by (metis length_0_conv unsigned_0)
  then show ?thesis
    using assms by (simp add: init_download_def stat_path_def limit_error_def compute_chunks_def Let_def not_less)
qed

theorem zero_chunk_download_panics_witness:
  "init_download sample_sha sample_env ''/f'' (Some 0) sample_fs sample_tm
     = (Panic ''attempt to divide by zero'', sample_tm)"
  by (rule zero_chunk_download_panics [where data = "[1, 2, 3]" and mt = None and m = 0])
    (simp_all add: sample_defs)

end
