(* ===== verification/Watchdog.thy ===== *)
theory Watchdog
  imports Seq_Ring
begin

text \<open>
  The LTE watchdog (\<open>server/src/lte_watchdog.rs\<close>) and the part of \<open>LteState\<close> it uses
  (\<open>server/src/lte.rs\<close>): symptom diagnosis, the per-episode state with its resets and cooldowns,
  the evidence gate of the USB power cycle, and one iteration of the watchdog loop from the
  suppression checks to the verification of the recovery.

  What the world contributes to an iteration (clock readings, answers of the modem, state of the
  interface, outcome of each recovery action) is the record \<open>tick_env\<close>. The commands an iteration
  issues that change the modem or the interface (queries do not) are collected in \<open>w_calls\<close>, the
  events it emits in \<open>w_events\<close>. A \<open>continue\<close> of the loop is \<open>Inl\<close>, going on to the next stage
  is \<open>Inr\<close>.
\<close>

subsection \<open>Constants\<close>

definition PRECHANGE_REVERT_WINDOW :: duration where "PRECHANGE_REVERT_WINDOW = from_secs 180"
definition SAFE_PROMOTE_THRESHOLD :: duration where "SAFE_PROMOTE_THRESHOLD = from_secs 300"
definition LIGHT_RESET_THRESHOLD :: duration where "LIGHT_RESET_THRESHOLD = from_secs 90"
definition MAX_L3_ATTEMPTS :: u32 where "MAX_L3_ATTEMPTS = 3"
definition MAX_L3_COOLDOWN :: duration where "MAX_L3_COOLDOWN = from_secs 1800"
definition DORMANT_TICK_INTERVAL :: duration where "DORMANT_TICK_INTERVAL = from_secs 900"
definition SEARCHING_ACTION_THRESHOLD :: duration where "SEARCHING_ACTION_THRESHOLD = from_secs 180"
definition SEARCHING_GRACE_EXTENSION :: duration where "SEARCHING_GRACE_EXTENSION = from_secs 180"
definition AT_FAILURE_SKIP_THRESHOLD :: u32 where "AT_FAILURE_SKIP_THRESHOLD = 3"
definition USER_ACTIVITY_SUPPRESSION :: duration where "USER_ACTIVITY_SUPPRESSION = from_secs 120"
definition MAX_REREGISTERS_PER_EPISODE :: u32 where "MAX_REREGISTERS_PER_EPISODE = 1"
definition MAX_IFACE_RESTARTS_PER_EPISODE :: u32 where "MAX_IFACE_RESTARTS_PER_EPISODE = 2"
definition MAX_AIRPLANE_CYCLES_PER_EPISODE :: u32 where "MAX_AIRPLANE_CYCLES_PER_EPISODE = 2"
definition MAX_SNAPSHOT_EVENTS :: nat where "MAX_SNAPSHOT_EVENTS = 20"
definition SAFE_BANDS_MIN_RSRP :: int where "SAFE_BANDS_MIN_RSRP = - 110"

subsection \<open>Registration status\<close>

datatype registration =
  RegNone | RegHome | RegSearching | RegDenied | RegUnknown | RegRoam

definition is_registered :: "registration \<Rightarrow> bool" where
  "is_registered r \<longleftrightarrow> r = RegHome \<or> r = RegRoam"

fun registration_as_str :: "registration \<Rightarrow> string" where
  "registration_as_str RegNone = ''not_registered''"
| "registration_as_str RegHome = ''home''"
| "registration_as_str RegSearching = ''searching''"
| "registration_as_str RegDenied = ''denied''"
| "registration_as_str RegUnknown = ''unknown''"
| "registration_as_str RegRoam = ''roaming''"

text \<open>\<open>+CEREG: <n>,<stat>[,...]\<close>; the errors of the source are \<open>None\<close>, every caller drops their text.\<close>

definition parse_cereg :: "string \<Rightarrow> registration option" where
  "parse_cereg response =
     (case find (contains_str ''+CEREG:'') (lines response) of
        None \<Rightarrow> None
      | Some line \<Rightarrow>
         (case nth_opt (split_char (CHR '':'') line) 1 of
            None \<Rightarrow> None
          | Some data \<Rightarrow>
             (case nth_opt (split_char (CHR '','') (trim data)) 1 of
                None \<Rightarrow> None
              | Some stat \<Rightarrow>
                 (case parse_uint 8 (trim stat) of
                    None \<Rightarrow> None
                  | Some n \<Rightarrow> Some (if n = 0 then RegNone else if n = 1 then RegHome
                      else if n = 2 then RegSearching else if n = 3 then RegDenied
                      else if n = 5 then RegRoam else RegUnknown)))))"

subsection \<open>Symptoms and state\<close>

datatype symptom =
    Searching nat | RegisteredNoData | NotRegistered | Unresponsive | RelayProblem
  | TunnelReconnecting | InternetUnreachable | ModemGone | UnknownSymptom

fun symptom_as_str :: "symptom \<Rightarrow> string" where
  "symptom_as_str (Searching _) = ''searching''"
| "symptom_as_str RegisteredNoData = ''registered_no_data''"
| "symptom_as_str NotRegistered = ''not_registered''"
| "symptom_as_str Unresponsive = ''unresponsive''"
| "symptom_as_str RelayProblem = ''relay_problem''"
| "symptom_as_str TunnelReconnecting = ''tunnel_reconnecting''"
| "symptom_as_str InternetUnreachable = ''internet_unreachable''"
| "symptom_as_str ModemGone = ''modem_gone''"
| "symptom_as_str UnknownSymptom = ''unknown''"

record watchdog_state =
  tunnel_disconnect_since :: "instant option"
  tunnel_connected_since :: "instant option"
  last_action_at :: "instant option"
  last_symptom :: "symptom option"
  last_action :: "string option"
  consecutive_at_failures :: u32
  reregisters :: u32
  iface_restarts :: u32
  airplane_cycles :: u32
  l3_attempts :: u32
  dormant :: bool
  searching_since :: "instant option"
  tried_prechange_revert :: bool
  tried_safe_revert :: bool
  episode_actions :: "string list"

definition new_watchdog :: watchdog_state where
  "new_watchdog = \<lparr>tunnel_disconnect_since = None, tunnel_connected_since = None, last_action_at = None,
     last_symptom = None, last_action = None, consecutive_at_failures = 0, reregisters = 0,
     iface_restarts = 0, airplane_cycles = 0, l3_attempts = 0, dormant = False, searching_since = None,
     tried_prechange_revert = False, tried_safe_revert = False, episode_actions = []\<rparr>"

definition light_reset :: "watchdog_state \<Rightarrow> watchdog_state" where
  "light_reset s = s\<lparr>tunnel_disconnect_since := None, last_action_at := None, consecutive_at_failures := 0,
     reregisters := 0, iface_restarts := 0, airplane_cycles := 0, tried_prechange_revert := False,
     tried_safe_revert := False, searching_since := None, episode_actions := []\<rparr>"

definition heavy_reset :: "watchdog_state \<Rightarrow> watchdog_state" where
  "heavy_reset s = (light_reset s)\<lparr>l3_attempts := 0, dormant := False\<rparr>"

definition cooldown_elapsed :: "instant \<Rightarrow> nat \<Rightarrow> watchdog_state \<Rightarrow> bool" where
  "cooldown_elapsed now level s =
     (case last_action_at s of
        None \<Rightarrow> True
      | Some prev \<Rightarrow>
         if dormant s then elapsed now prev \<ge> DORMANT_TICK_INTERVAL
         else if level \<ge> 3 \<and> l3_attempts s > 0
         then elapsed now prev \<ge> min (from_secs (300 * 2 ^ min (unat (l3_attempts s)) 3)) MAX_L3_COOLDOWN
         else elapsed now prev \<ge>
           (if level = 0 then from_secs 60 else if level = 1 \<or> level = 2 then from_secs 120 else from_secs 300))"

definition record_action :: "instant \<Rightarrow> string \<Rightarrow> watchdog_state \<Rightarrow> watchdog_state" where
  "record_action now act s = s\<lparr>last_action_at := Some now, last_action := Some act,
     episode_actions := episode_actions s @ [act]\<rparr>"

subsection \<open>The snapshot\<close>

record watchdog_event =
  we_timestamp :: nat
  we_symptom :: string
  we_action :: string
  we_detail :: string

record watchdog_snapshot =
  sn_state :: string
  sn_disconnect_secs :: "nat option"
  sn_last_symptom :: "string option"
  sn_last_action :: "string option"
  sn_last_action_secs_ago :: "nat option"
  sn_l3_attempts :: u32
  sn_episode_actions :: "string list"
  sn_recent_events :: "watchdog_event list"

definition new_snapshot :: watchdog_snapshot where
  "new_snapshot = \<lparr>sn_state = ''idle'', sn_disconnect_secs = None, sn_last_symptom = None,
     sn_last_action = None, sn_last_action_secs_ago = None, sn_l3_attempts = 0,
     sn_episode_actions = [], sn_recent_events = []\<rparr>"

text \<open>\<open>push_event\<close> leaves the evidence fields of the event at their defaults.\<close>

definition push_event :: "nat \<Rightarrow> string \<Rightarrow> string \<Rightarrow> string \<Rightarrow> watchdog_snapshot \<Rightarrow> watchdog_snapshot" where
  "push_event ts sy act detail snap = snap\<lparr>sn_recent_events :=
     ring_push MAX_SNAPSHOT_EVENTS
       \<lparr>we_timestamp = ts, we_symptom = sy, we_action = act, we_detail = detail\<rparr> (sn_recent_events snap)\<rparr>"

subsection \<open>The LTE state\<close>

record scan_status =
  sc_state :: string
  sc_started_at :: nat
  sc_completed_at :: "nat option"

record safe_band_config =
  sb_bands :: "u16 list"
  sb_priority :: "u16 option"
  sb_confirmed_at :: nat
  sb_rsrp :: "int option"

record lte_signal =
  ls_band_config :: "(u16 list \<times> u16 option) option"
  ls_rsrp :: "int option"

record lte_state =
  lt_signal :: "lte_signal option"
  lt_scan_status :: "scan_status option"
  lt_band_action_until :: "instant option"
  lt_safe_bands :: "safe_band_config option"
  lt_bands_at_connect :: "u16 list option"
  lt_band_stable_since :: "instant option"
  lt_last_band_change_at :: "instant option"
  lt_pre_change_bands :: "(u16 list \<times> u16 option) option"
  lt_last_user_action_at :: "instant option"

definition promote_safe_bands ::
  "nat \<Rightarrow> u16 list \<Rightarrow> u16 option \<Rightarrow> int option \<Rightarrow> lte_state \<Rightarrow> lte_state" where
  "promote_safe_bands epoch bands priority rsrp l =
     (if length bands > 64 then l
      else if (case (rsrp, lt_safe_bands l) of
                 (Some cur, Some old) \<Rightarrow>
                   cur < SAFE_BANDS_MIN_RSRP
                   \<and> (case sb_rsrp old of Some r \<Rightarrow> r | None \<Rightarrow> - (2 ^ 31)) \<ge> cur
               | _ \<Rightarrow> False)
      then l
      else l\<lparr>lt_safe_bands := Some \<lparr>sb_bands = bands, sb_priority = priority, sb_confirmed_at = epoch,
                                    sb_rsrp = rsrp\<rparr>\<rparr>)"

datatype band_change_source = UserChange | WatchdogChange

definition record_band_change ::
  "instant \<Rightarrow> band_change_source \<Rightarrow> u16 list \<Rightarrow> u16 option \<Rightarrow> lte_state \<Rightarrow> lte_state" where
  "record_band_change now src current priority l =
     (let l1 = l\<lparr>lt_band_stable_since := None, lt_bands_at_connect := None\<rparr> in
      if src = UserChange
      then (let l2 = l1\<lparr>lt_last_band_change_at := Some now\<rparr>
            in if current \<noteq> [] then l2\<lparr>lt_pre_change_bands := Some (current, priority)\<rparr> else l2)
      else l1)"

subsection \<open>Readings and outcomes of one iteration\<close>

text \<open>One round of the wait for registration in \<open>apply_band_config\<close>, with its five looks at the interface.\<close>

record band_poll =
  bp_elapsed :: duration
  bp_connected :: bool
  bp_cereg :: "string option"
  bp_ipv4 :: "bool list"
  bp_ipv4_after_restart :: bool

record band_apply =
  ba_set_ok :: bool
  ba_connected :: bool
  ba_polls :: "band_poll list"

text \<open>One round of \<open>verify_recovery\<close>: the time since its start, the interface, the tunnel.\<close>

type_synonym recovery_polls = "(duration \<times> bool \<times> bool) list"

text \<open>
  The readings of an iteration in the order it takes them. The clock is read at six points: before
  the first command (\<open>te_now\<close>), when a band revert is logged (\<open>te_pre_at\<close>, \<open>te_safe_at\<close>), at the
  diagnosis (\<open>te_diag_at\<close>), when the action is logged (\<open>te_action_at\<close>) and at the end
  (\<open>te_end_at\<close>).
\<close>

record tick_env =
  te_now :: instant
  te_epoch :: nat
  te_connected :: bool
  te_cereg_grace :: "string option"
  te_at_ok :: bool
  te_sysfs_diag :: bool
  te_reconnecting :: bool
  te_ipv4 :: bool
  te_cereg_diag :: "string option"
  te_ipv4_reg :: bool
  te_reachable :: bool
  te_current_bands :: "(u16 list \<times> u16 option) option"
  te_pre_at :: instant
  te_pre_apply :: band_apply
  te_pre_recovery :: recovery_polls
  te_safe_at :: instant
  te_safe_apply :: band_apply
  te_safe_recovery :: recovery_polls
  te_diag_at :: instant
  te_sysfs_gate :: bool
  te_cops_ok :: bool
  te_cfun0_ok :: bool
  te_cfun1_ok :: bool
  te_custom_ok :: bool
  te_ifdown_ok :: bool
  te_ifup_ok :: bool
  te_usb_found :: bool
  te_usb_off_ok :: bool
  te_usb_on_ok :: bool
  te_usb_back :: "string option"
  te_action_at :: instant
  te_ipv4_after :: bool
  te_recovery :: recovery_polls
  te_rotated :: bool
  te_append_ok :: bool
  te_persist_ok :: bool
  te_end_at :: instant

record wd_config =
  wc_openwrt :: bool
  wc_custom_cmd :: "string option"
  wc_grace_secs :: u64
  wc_max_escalation_level :: u8
  wc_min_sustained_secs :: u64
  wc_require_sysfs_absent :: bool
  wc_unknown_airplane :: bool
  wc_unknown_escalate :: bool
  wc_notregistered_grace_secs :: u64

text \<open>What the watchdog does to the modem and the interface.\<close>

datatype wd_call = AtCommand string | SetBands "u16 list" | RestartInterface | UsbCycle

datatype wd_event =
    EvAction nat string nat string
  | EvExhausted u32 nat
  | EvRegression string string nat
  | EvReport

record watchdog =
  w_state :: watchdog_state
  w_lte :: lte_state
  w_snap :: watchdog_snapshot
  w_calls :: "wd_call list"
  w_events :: "wd_event list"
  w_exhausted_file :: bool
  w_history :: "(nat \<times> string \<times> string) list"
  w_device :: "string option"

subsection \<open>Actions\<close>

definition call :: "wd_call list \<Rightarrow> watchdog \<Rightarrow> watchdog" where
  "call cs w = w\<lparr>w_calls := w_calls w @ cs\<rparr>"

definition on_state :: "(watchdog_state \<Rightarrow> watchdog_state) \<Rightarrow> watchdog \<Rightarrow> watchdog" where
  "on_state f w = w\<lparr>w_state := f (w_state w)\<rparr>"

definition on_lte :: "(lte_state \<Rightarrow> lte_state) \<Rightarrow> watchdog \<Rightarrow> watchdog" where
  "on_lte f w = w\<lparr>w_lte := f (w_lte w)\<rparr>"

definition update_snapshot :: "instant \<Rightarrow> string \<Rightarrow> watchdog \<Rightarrow> watchdog" where
  "update_snapshot now status w =
     (let s = w_state w in w\<lparr>w_snap := (w_snap w)\<lparr>sn_state := status,
        sn_disconnect_secs := map_option (\<lambda>t. as_secs (elapsed now t)) (tunnel_disconnect_since s),
        sn_last_symptom := map_option symptom_as_str (last_symptom s),
        sn_last_action := last_action s,
        sn_last_action_secs_ago := map_option (\<lambda>t. as_secs (elapsed now t)) (last_action_at s),
        sn_l3_attempts := l3_attempts s, sn_episode_actions := episode_actions s\<rparr>\<rparr>)"

definition update_snapshot_event :: "nat \<Rightarrow> string \<Rightarrow> string \<Rightarrow> string \<Rightarrow> watchdog \<Rightarrow> watchdog" where
  "update_snapshot_event ts sy act detail w =
     on_state (\<lambda>s. s\<lparr>last_action := Some act\<rparr>) (w\<lparr>w_snap := push_event ts sy act detail (w_snap w)\<rparr>)"

definition log_action :: "instant \<Rightarrow> string \<Rightarrow> nat \<Rightarrow> nat \<Rightarrow> string \<Rightarrow> watchdog \<Rightarrow> watchdog" where
  "log_action now act level secs detail w =
     on_state (record_action now act) (w\<lparr>w_events := w_events w @ [EvAction level act secs detail]\<rparr>)"

definition bump_failures :: "bool \<Rightarrow> watchdog_state \<Rightarrow> watchdog_state" where
  "bump_failures ok s =
     s\<lparr>consecutive_at_failures := (if ok then 0 else consecutive_at_failures s + 1)\<rparr>"

definition action_reregister :: "tick_env \<Rightarrow> watchdog \<Rightarrow> string \<times> watchdog" where
  "action_reregister env w =
     (if te_cops_ok env then ''reregister'' else ''reregister_failed'',
      on_state (bump_failures (te_cops_ok env)) (call [AtCommand ''AT+COPS=0''] w))"

definition action_airplane_cycle :: "tick_env \<Rightarrow> watchdog \<Rightarrow> string \<times> watchdog" where
  "action_airplane_cycle env w =
     (let w1 = on_state (bump_failures (te_cfun0_ok env)) (call [AtCommand ''AT+CFUN=0''] w) in
      if \<not> te_cfun0_ok env then (''airplane_cycle_failed'', w1)
      else (if te_cfun1_ok env then ''airplane_cycle'' else ''airplane_cycle_partial'',
            on_state (bump_failures (te_cfun1_ok env)) (call [AtCommand ''AT+CFUN=1''] w1)))"

definition action_restart_interface :: "bool \<Rightarrow> string option \<Rightarrow> tick_env \<Rightarrow> watchdog \<Rightarrow> string \<times> watchdog" where
  "action_restart_interface openwrt custom env w =
     (if custom \<noteq> None then if te_custom_ok env then ''iface_restart_custom'' else ''iface_restart_custom_failed''
      else if \<not> te_ifdown_ok env then ''iface_restart_failed''
      else if \<not> te_ifup_ok env then ''iface_restart_partial''
      else if openwrt then ''iface_restart_netifd'' else ''iface_restart'',
      call [RestartInterface] w)"

text \<open>The new device path is \<open>Some\<close> when the module comes back and can be opened.\<close>

definition action_usb_power_cycle :: "tick_env \<Rightarrow> watchdog \<Rightarrow> string \<times> string option \<times> watchdog" where
  "action_usb_power_cycle env w =
     (if \<not> te_usb_found env then (''usb_cycle_no_device'', None, w)
      else let w1 = call [UsbCycle] w in
           if \<not> te_usb_off_ok env then (''usb_cycle_failed'', None, w1)
           else if \<not> te_usb_on_ok env then (''usb_cycle_partial'', None, w1)
           else (''usb_cycle'', te_usb_back env, w1))"

fun verify_recovery :: "duration \<Rightarrow> recovery_polls \<Rightarrow> bool" where
  "verify_recovery timeout [] = False"
| "verify_recovery timeout ((t, has_ip, connected) # ps) =
     (if t < timeout then (has_ip \<and> connected) \<or> verify_recovery timeout ps else False)"

text \<open>The wait of \<open>apply_band_config\<close> for registration and for an address.\<close>

fun band_wait :: "tick_env \<Rightarrow> band_poll list \<Rightarrow> watchdog \<Rightarrow> bool \<times> watchdog" where
  "band_wait env [] w = (False, w)"
| "band_wait env (p # ps) w =
     (if bp_elapsed p \<ge> from_secs 30 then (False, w)
      else if bp_connected p then (False, w)
      else case Option.bind (bp_cereg p) parse_cereg of
          None \<Rightarrow> band_wait env ps w
        | Some r \<Rightarrow>
            if \<not> is_registered r then band_wait env ps w
            else if list_ex id (take 5 (bp_ipv4 p)) then (True, w)
            else (bp_ipv4_after_restart p, snd (action_restart_interface False None env w)))"

definition apply_band_config ::
  "u16 list \<Rightarrow> u16 option \<Rightarrow> band_apply \<Rightarrow> tick_env \<Rightarrow> watchdog \<Rightarrow> bool \<times> watchdog" where
  "apply_band_config bands priority ba env w =
     (if bands = [] then (False, w)
      else let w1 = call [SetBands bands] w in
        if \<not> ba_set_ok ba then (False, w1)
        else let w2 = call [AtCommand (''AT+QCFG='' @ [CHR 0x22] @ ''bandpri'' @ [CHR 0x22] @ '',''
                     @ show_nat (case priority of Some p \<Rightarrow> unat p | None \<Rightarrow> 0))] w1 in
          if ba_connected ba then (False, w2)
          else band_wait env (ba_polls ba) (call [AtCommand ''AT+COPS=2'', AtCommand ''AT+COPS=0''] w2))"

fun join_comma :: "string list \<Rightarrow> string" where
  "join_comma [] = []"
| "join_comma [x] = x"
| "join_comma (x # y # ys) = x @ '','' @ join_comma (y # ys)"

definition fmt_bands :: "u16 list \<Rightarrow> string" where
  "fmt_bands bands = join_comma (map (\<lambda>b. ''B'' @ show_nat (unat b)) bands)"

definition extract_relay_host :: "string \<Rightarrow> string option" where
  "extract_relay_host url =
     (case (case strip_prefix ''wss://'' url of Some r \<Rightarrow> Some r | None \<Rightarrow> strip_prefix ''ws://'' url) of
        None \<Rightarrow> None
      | Some rest \<Rightarrow>
         (let host = hd (split_char (CHR '':'') (hd (split_char (CHR ''/'') rest)))
          in if host = [] then None else Some host))"

subsection \<open>Diagnosis and gate\<close>

definition diagnose :: "tick_env \<Rightarrow> watchdog_state \<Rightarrow> symptom \<times> registration option" where
  "diagnose env s =
     (if \<not> te_at_ok env then (if \<not> te_sysfs_diag env then ModemGone else Unresponsive, None)
      else if te_reconnecting env \<and> te_ipv4 env then (TunnelReconnecting, None)
      else let reg = Option.bind (te_cereg_diag env) parse_cereg in
        case reg of
          Some RegSearching \<Rightarrow>
            (Searching (case searching_since s of None \<Rightarrow> 0 | Some t \<Rightarrow> as_secs (elapsed (te_diag_at env) t)), reg)
        | Some RegNone \<Rightarrow> (NotRegistered, reg)
        | Some RegDenied \<Rightarrow> (NotRegistered, reg)
        | Some RegHome \<Rightarrow> (if \<not> te_ipv4_reg env then RegisteredNoData
            else if te_reachable env then RelayProblem else InternetUnreachable, reg)
        | Some RegRoam \<Rightarrow> (if \<not> te_ipv4_reg env then RegisteredNoData
            else if te_reachable env then RelayProblem else InternetUnreachable, reg)
        | _ \<Rightarrow> (UnknownSymptom, reg))"

text \<open>The dash of the messages, in UTF-8.\<close>

definition em_dash :: string where
  "em_dash = [CHR 0xE2, CHR 0x80, CHR 0x94]"

definition evaluate_usb_cycle_gate :: "u8 \<Rightarrow> u64 \<Rightarrow> bool \<Rightarrow> nat \<Rightarrow> bool \<Rightarrow> string + unit" where
  "evaluate_usb_cycle_gate max_level min_sustained require_absent secs sysfs_present =
     (if max_level < 4 then Inl (''max_escalation_level='' @ show_nat (unat max_level) @ '' (need 4)'')
      else if secs < unat min_sustained
      then Inl (''sustained='' @ show_nat secs @ ''s (need '' @ show_nat (unat min_sustained) @ '')'')
      else if require_absent \<and> sysfs_present
      then Inl (''sysfs_present=true (modem enumerated) '' @ em_dash @ '' cycle declined'')
      else Inr ())"

text \<open>
  What a dispatch decides: end the iteration in some state, or go on with an action, its level
  and the new device path.
\<close>

type_synonym dispatch = "watchdog + (string \<times> nat \<times> string option \<times> watchdog)"

text \<open>\<open>try_usb_cycle_gated\<close> and the match on its result, which every symptom repeats.\<close>

definition usb_cycle_or_dormant :: "wd_config \<Rightarrow> tick_env \<Rightarrow> nat \<Rightarrow> watchdog \<Rightarrow> dispatch" where
  "usb_cycle_or_dormant cfg env secs w =
     (case evaluate_usb_cycle_gate (wc_max_escalation_level cfg) (wc_min_sustained_secs cfg)
             (wc_require_sysfs_absent cfg) secs (te_sysfs_gate env) of
        Inr _ \<Rightarrow> (case action_usb_power_cycle env w of (act, m, w1) \<Rightarrow> Inr (act, 3, m, w1))
      | Inl _ \<Rightarrow> Inl (update_snapshot (te_diag_at env) ''dormant'' (on_state (\<lambda>s. s\<lparr>dormant := True\<rparr>) w)))"

definition airplane :: "tick_env \<Rightarrow> watchdog \<Rightarrow> dispatch" where
  "airplane env w =
     (case action_airplane_cycle env
        (on_state (\<lambda>s. s\<lparr>airplane_cycles := airplane_cycles s + 1\<rparr>) w) of (act, w1) \<Rightarrow> Inr (act, 1, None, w1))"

definition iface :: "wd_config \<Rightarrow> tick_env \<Rightarrow> watchdog \<Rightarrow> dispatch" where
  "iface cfg env w =
     (case action_restart_interface (wc_openwrt cfg) (wc_custom_cmd cfg) env
        (on_state (\<lambda>s. s\<lparr>iface_restarts := iface_restarts s + 1\<rparr>) w) of (act, w1) \<Rightarrow> Inr (act, 2, None, w1))"

definition cooled :: "tick_env \<Rightarrow> nat \<Rightarrow> dispatch \<Rightarrow> watchdog \<Rightarrow> dispatch" where
  "cooled env level d w = (if cooldown_elapsed (te_diag_at env) level (w_state w) then d else Inl w)"

definition dispatch_searching :: "wd_config \<Rightarrow> tick_env \<Rightarrow> nat \<Rightarrow> nat \<Rightarrow> watchdog \<Rightarrow> dispatch" where
  "dispatch_searching cfg env secs dsecs w =
     (if secs < as_secs SEARCHING_ACTION_THRESHOLD
      then Inl (update_snapshot (te_diag_at env) ''waiting''
        (update_snapshot_event (te_epoch env) ''searching'' ''wait''
          (''symptom=searching secs='' @ show_nat secs @ '' action=wait disconnect='' @ show_nat dsecs @ ''s'') w))
      else if airplane_cycles (w_state w) \<ge> MAX_AIRPLANE_CYCLES_PER_EPISODE
      then (let w1 = update_snapshot (te_diag_at env) ''acting'' w
            in cooled env 3 (usb_cycle_or_dormant cfg env dsecs w1) w1)
      else cooled env 1 (airplane env w) w)"

definition dispatch_no_data :: "wd_config \<Rightarrow> tick_env \<Rightarrow> nat \<Rightarrow> watchdog \<Rightarrow> dispatch" where
  "dispatch_no_data cfg env dsecs w =
     (if iface_restarts (w_state w) \<ge> MAX_IFACE_RESTARTS_PER_EPISODE
      then if airplane_cycles (w_state w) \<ge> MAX_AIRPLANE_CYCLES_PER_EPISODE
           then cooled env 3 (usb_cycle_or_dormant cfg env dsecs w) w
           else cooled env 1 (airplane env w) w
      else cooled env 2 (iface cfg env w) w)"

definition dispatch_not_registered :: "wd_config \<Rightarrow> tick_env \<Rightarrow> nat \<Rightarrow> watchdog \<Rightarrow> dispatch" where
  "dispatch_not_registered cfg env dsecs w =
     (if dsecs < unat (wc_notregistered_grace_secs cfg) then Inl (update_snapshot (te_diag_at env) ''waiting'' w)
      else if reregisters (w_state w) < MAX_REREGISTERS_PER_EPISODE
      then cooled env 0 (case action_reregister env
             (on_state (\<lambda>s. s\<lparr>reregisters := reregisters s + 1\<rparr>) w) of (act, w1) \<Rightarrow> Inr (act, 0, None, w1)) w
      else if airplane_cycles (w_state w) < MAX_AIRPLANE_CYCLES_PER_EPISODE
      then cooled env 1 (airplane env w) w
      else cooled env 3 (usb_cycle_or_dormant cfg env dsecs w) w)"

definition dispatch_unresponsive :: "wd_config \<Rightarrow> tick_env \<Rightarrow> nat \<Rightarrow> watchdog \<Rightarrow> dispatch" where
  "dispatch_unresponsive cfg env dsecs w0 =
     (let w = on_state (\<lambda>s. s\<lparr>consecutive_at_failures := consecutive_at_failures s + 1\<rparr>) w0 in
      if consecutive_at_failures (w_state w) < AT_FAILURE_SKIP_THRESHOLD
      then if iface_restarts (w_state w) < MAX_IFACE_RESTARTS_PER_EPISODE
           then cooled env 2 (iface cfg env w) w
           else Inl w
      else cooled env 3 (usb_cycle_or_dormant cfg env dsecs w) w)"

definition dispatch_unknown :: "wd_config \<Rightarrow> tick_env \<Rightarrow> string \<Rightarrow> nat \<Rightarrow> watchdog \<Rightarrow> dispatch" where
  "dispatch_unknown cfg env reg dsecs w =
     (if \<not> wc_unknown_airplane cfg \<and> \<not> wc_unknown_escalate cfg
      then Inl (update_snapshot (te_diag_at env) ''waiting''
        (update_snapshot_event (te_epoch env) ''unknown'' ''wait''
          (''symptom=unknown reg='' @ reg @ '' disconnect='' @ show_nat dsecs @ ''s unknown_action=disabled'') w))
      else if wc_unknown_airplane cfg \<and> airplane_cycles (w_state w) < MAX_AIRPLANE_CYCLES_PER_EPISODE
      then cooled env 1 (airplane env w) w
      else if wc_unknown_escalate cfg
      then cooled env 3 (usb_cycle_or_dormant cfg env dsecs w) w
      else Inl (update_snapshot (te_diag_at env) ''waiting'' w))"

definition dispatch_symptom ::
  "wd_config \<Rightarrow> tick_env \<Rightarrow> symptom \<Rightarrow> string \<Rightarrow> nat \<Rightarrow> watchdog \<Rightarrow> dispatch" where
  "dispatch_symptom cfg env sy reg dsecs w =
     (case sy of
        Searching secs \<Rightarrow> dispatch_searching cfg env secs dsecs w
      | RegisteredNoData \<Rightarrow> dispatch_no_data cfg env dsecs w
      | NotRegistered \<Rightarrow> dispatch_not_registered cfg env dsecs w
      | Unresponsive \<Rightarrow> dispatch_unresponsive cfg env dsecs w
      | RelayProblem \<Rightarrow> Inl (update_snapshot (te_diag_at env) ''waiting''
          (update_snapshot_event (te_epoch env) ''relay_problem'' ''wait''
            (''symptom=relay_problem disconnect='' @ show_nat dsecs @ ''s'') w))
      | TunnelReconnecting \<Rightarrow> Inl (update_snapshot (te_diag_at env) ''waiting'' w)
      | InternetUnreachable \<Rightarrow> Inl (update_snapshot (te_diag_at env) ''waiting''
          (update_snapshot_event (te_epoch env) ''internet_unreachable'' ''wait''
            (''symptom=internet_unreachable reg='' @ reg @ '' disconnect='' @ show_nat dsecs @ ''s'') w))
      | ModemGone \<Rightarrow> Inl (update_snapshot (te_diag_at env) ''dormant'' (on_state (\<lambda>s. s\<lparr>dormant := True\<rparr>)
          (update_snapshot_event (te_epoch env) ''modem_gone'' ''wait''
            (''symptom=modem_gone '' @ em_dash @ '' no Quectel in /sys/bus/usb/devices disconnect='' @ show_nat dsecs @ ''s'') w)))
      | UnknownSymptom \<Rightarrow> dispatch_unknown cfg env reg dsecs w)"

subsection \<open>The stages of an iteration\<close>

definition scan_running :: "tick_env \<Rightarrow> watchdog \<Rightarrow> bool \<times> watchdog" where
  "scan_running env w =
     (case lt_scan_status (w_lte w) of
        Some scan \<Rightarrow>
          if sc_state scan = ''running''
          then if te_epoch env - sc_started_at scan > 30 * 60
               then (False, on_lte (\<lambda>l. l\<lparr>lt_scan_status := Some (scan\<lparr>sc_state := ''timeout'',
                       sc_completed_at := Some (te_epoch env)\<rparr>)\<rparr>) w)
               else (True, w)
          else (False, w)
      | None \<Rightarrow>
          (case lt_band_action_until (w_lte w) of
             Some until \<Rightarrow> (te_now env < until, w)
           | None \<Rightarrow> (False, w)))"

definition tick_gates :: "tick_env \<Rightarrow> watchdog \<Rightarrow> watchdog + watchdog" where
  "tick_gates env w0 =
     (case scan_running env w0 of (skip, w) \<Rightarrow>
      if skip then Inl (update_snapshot (te_now env) ''suppressed_scan'' w)
      else if (case lt_last_user_action_at (w_lte w) of
                 None \<Rightarrow> False
               | Some t \<Rightarrow> elapsed (te_now env) t < USER_ACTIVITY_SUPPRESSION)
      then Inl (update_snapshot (te_now env) ''suppressed_user'' w)
      else Inr w)"

definition connected_reset :: "tick_env \<Rightarrow> watchdog \<Rightarrow> watchdog" where
  "connected_reset env w0 =
     (let w = on_state (\<lambda>s. s\<lparr>tunnel_connected_since :=
                (case tunnel_connected_since s of None \<Rightarrow> Some (te_now env) | Some t \<Rightarrow> Some t)\<rparr>) w0;
          d = (case tunnel_connected_since (w_state w) of None \<Rightarrow> 0 | Some t \<Rightarrow> elapsed (te_now env) t)
      in if tunnel_disconnect_since (w_state w) = None then w
         else if d \<ge> SAFE_PROMOTE_THRESHOLD
         then (let was_dormant = dormant (w_state w); w1 = on_state heavy_reset w
               in if was_dormant \<or> w_exhausted_file w1
                  then w1\<lparr>w_events := w_events w1 @ (if w_exhausted_file w1 then [EvReport] else []),
                          w_exhausted_file := False\<rparr>
                  else w1)
         else if d \<ge> LIGHT_RESET_THRESHOLD then on_state light_reset w
         else w)"

definition safe_promotion :: "tick_env \<Rightarrow> lte_state \<Rightarrow> lte_state" where
  "safe_promotion env l0 =
     (let l = (if lt_band_stable_since l0 = None
               then (let l1 = l0\<lparr>lt_band_stable_since := Some (te_now env)\<rparr>
                     in if lt_bands_at_connect l1 = None
                        then (case Option.bind (lt_signal l1) ls_band_config of
                                Some (bands, _) \<Rightarrow> l1\<lparr>lt_bands_at_connect := Some bands\<rparr>
                              | None \<Rightarrow> l1)
                        else l1)
               else l0)
      in case lt_band_stable_since l of
           None \<Rightarrow> l
         | Some since \<Rightarrow>
             if elapsed (te_now env) since \<ge> SAFE_PROMOTE_THRESHOLD
             then (let l2 = (case lt_bands_at_connect l of
                         None \<Rightarrow> l
                       | Some bands \<Rightarrow>
                           if (case lt_safe_bands l of None \<Rightarrow> True | Some safe \<Rightarrow> sb_bands safe \<noteq> bands)
                           then promote_safe_bands (te_epoch env) bands
                                  (Option.bind (Option.bind (lt_signal l) ls_band_config) snd)
                                  (Option.bind (lt_signal l) ls_rsrp) l
                           else l)
                   in l2\<lparr>lt_band_stable_since := None, lt_bands_at_connect := None\<rparr>)
             else l)"

definition tick_connected :: "tick_env \<Rightarrow> watchdog \<Rightarrow> watchdog" where
  "tick_connected env w =
     update_snapshot (te_now env) ''connected'' (on_lte (safe_promotion env) (connected_reset env w))"

definition disconnect_duration :: "tick_env \<Rightarrow> watchdog_state \<Rightarrow> duration" where
  "disconnect_duration env s =
     (case tunnel_disconnect_since s of None \<Rightarrow> 0 | Some t \<Rightarrow> elapsed (te_now env) t)"

definition tick_grace :: "wd_config \<Rightarrow> tick_env \<Rightarrow> watchdog \<Rightarrow> watchdog + watchdog" where
  "tick_grace cfg env w0 =
     (let w1 = on_lte (\<lambda>l. l\<lparr>lt_band_stable_since := None, lt_bands_at_connect := None\<rparr>)
            (on_state (\<lambda>s. s\<lparr>tunnel_connected_since := None, tunnel_disconnect_since :=
                (case tunnel_disconnect_since s of None \<Rightarrow> Some (te_now env) | Some t \<Rightarrow> Some t)\<rparr>) w0);
          d = disconnect_duration env (w_state w1);
          searching = (Option.bind (te_cereg_grace env) parse_cereg = Some RegSearching);
          w2 = on_state (\<lambda>s. s\<lparr>searching_since :=
                (if searching then (case searching_since s of None \<Rightarrow> Some (te_now env) | Some t \<Rightarrow> Some t)
                 else None)\<rparr>) w1;
          base = from_secs (unat (wc_grace_secs cfg));
          grace = (if searching then base + SEARCHING_GRACE_EXTENSION else base)
      in if d < grace then Inl (update_snapshot (te_now env) ''grace'' w2) else Inr w2)"

text \<open>
  The two band reverts share their shape: apply the bands, record the change, log, and end the
  iteration when the tunnel recovers.
\<close>

definition revert_bands ::
  "string \<Rightarrow> instant \<Rightarrow> u16 list \<Rightarrow> u16 option \<Rightarrow> band_apply \<Rightarrow> recovery_polls \<Rightarrow> nat \<Rightarrow> tick_env
     \<Rightarrow> watchdog \<Rightarrow> watchdog + watchdog" where
  "revert_bands name at bands priority ba polls dsecs env w =
     (case apply_band_config bands priority ba env w of
        (False, w1) \<Rightarrow> Inr w1
      | (True, w1) \<Rightarrow>
         (let w2 = on_lte (record_band_change at WatchdogChange [] None) w1;
              detail = ''action='' @ name @ '' bands='' @ fmt_bands bands @ '' disconnect='' @ show_nat dsecs @ ''s'';
              w3 = update_snapshot_event (te_epoch env) name name detail
                     (log_action at name 0 dsecs detail w2)
          in if verify_recovery (from_secs 30) polls then Inl (on_state light_reset w3) else Inr w3))"

definition tick_prechange :: "tick_env \<Rightarrow> nat \<Rightarrow> watchdog \<Rightarrow> watchdog + watchdog" where
  "tick_prechange env dsecs w =
     (if tried_prechange_revert (w_state w) then Inr w
      else case (lt_last_band_change_at (w_lte w), lt_pre_change_bands (w_lte w)) of
          (Some changed_at, Some (bands, priority)) \<Rightarrow>
            if elapsed (te_now env) changed_at < PRECHANGE_REVERT_WINDOW
               \<and> (case tunnel_disconnect_since (w_state w) of None \<Rightarrow> False | Some d \<Rightarrow> d > changed_at)
            then revert_bands ''prechange_revert'' (te_pre_at env) bands priority (te_pre_apply env) (te_pre_recovery env) dsecs env
                   (on_state (\<lambda>s. s\<lparr>tried_prechange_revert := True\<rparr>) w)
            else Inr w
        | _ \<Rightarrow> Inr w)"

definition tick_safe_revert :: "tick_env \<Rightarrow> nat \<Rightarrow> watchdog \<Rightarrow> watchdog + watchdog" where
  "tick_safe_revert env dsecs w =
     (if tried_safe_revert (w_state w) then Inr w
      else case lt_safe_bands (w_lte w) of
          None \<Rightarrow> Inr w
        | Some safe \<Rightarrow>
            if (case te_current_bands env of None \<Rightarrow> True | Some (bands, _) \<Rightarrow> bands \<noteq> sb_bands safe)
            then revert_bands ''safe_revert'' (te_safe_at env) (sb_bands safe) (sb_priority safe) (te_safe_apply env)
                   (te_safe_recovery env) dsecs env (on_state (\<lambda>s. s\<lparr>tried_safe_revert := True\<rparr>) w)
            else Inr w)"

definition record_history_and_detect_regression ::
  "tick_env \<Rightarrow> string \<Rightarrow> string \<Rightarrow> watchdog \<Rightarrow> watchdog" where
  "record_history_and_detect_regression env sy act w =
     (let h0 = (if te_rotated env then [] else w_history w);
          h = (if te_append_ok env then h0 @ [(te_epoch env, sy, act)] else h0);
          n = length (filter (\<lambda>(ts, s, a). ts \<ge> te_epoch env - 3600 \<and> s = sy \<and> a = act) h);
          w1 = w\<lparr>w_history := h\<rparr>
      in if n \<ge> 3 then w1\<lparr>w_events := w_events w1 @ [EvRegression sy act n]\<rparr> else w1)"

text \<open>Exhaustion after a failed USB cycle: dormant mode, an event, and a report on disk.\<close>

definition count_l3 :: "tick_env \<Rightarrow> nat \<Rightarrow> watchdog \<Rightarrow> watchdog" where
  "count_l3 env dsecs w0 =
     (let w = on_state (\<lambda>s. s\<lparr>l3_attempts := l3_attempts s + 1\<rparr>) w0 in
      if l3_attempts (w_state w) \<ge> MAX_L3_ATTEMPTS
      then (on_state (\<lambda>s. s\<lparr>dormant := True\<rparr>) w)\<lparr>
             w_events := w_events w @ [EvExhausted (l3_attempts (w_state w)) dsecs],
             w_exhausted_file := w_exhausted_file w \<or> te_persist_ok env\<rparr>
      else w)"

definition tick_after ::
  "wd_config \<Rightarrow> tick_env \<Rightarrow> symptom \<Rightarrow> string \<Rightarrow> nat \<Rightarrow> string \<Rightarrow> nat \<Rightarrow> string option \<Rightarrow> watchdog \<Rightarrow> watchdog" where
  "tick_after cfg env sy reg dsecs act level new_modem w0 =
     (let w1 = (case new_modem of None \<Rightarrow> w0 | Some path \<Rightarrow> w0\<lparr>w_device := Some path\<rparr>);
          w2 = (if sy \<noteq> Unresponsive then on_state (\<lambda>s. s\<lparr>consecutive_at_failures := 0\<rparr>) w1 else w1);
          detail = ''symptom='' @ symptom_as_str sy @ '' level='' @ show_nat level @ '' action='' @ act
            @ '' reg='' @ reg @ '' disconnect='' @ show_nat dsecs @ ''s'';
          w3 = record_history_and_detect_regression env (symptom_as_str sy) act
                 (update_snapshot_event (te_epoch env) (symptom_as_str sy) act detail
                   (log_action (te_action_at env) act level dsecs detail w2));
          w4 = (if level \<le> 1 \<and> \<not> te_ipv4_after env
                then snd (action_restart_interface (wc_openwrt cfg) (wc_custom_cmd cfg) env w3) else w3);
          timeout = (if level = 0 \<or> level = 2 then from_secs 30 else if level = 1 then from_secs 45 else from_secs 60)
      in if verify_recovery timeout (te_recovery env)
         then update_snapshot (te_end_at env) ''recovered'' (on_state light_reset w4)
         else let w5 = (if level \<ge> 3 then count_l3 env dsecs w4 else w4)
              in update_snapshot (te_end_at env) (if dormant (w_state w5) then ''dormant'' else ''acting'') w5)"

definition tick_act :: "wd_config \<Rightarrow> tick_env \<Rightarrow> nat \<Rightarrow> watchdog \<Rightarrow> watchdog" where
  "tick_act cfg env dsecs w0 =
     (case diagnose env (w_state w0) of (sy, reg) \<Rightarrow>
      (let w = on_state (\<lambda>s. s\<lparr>last_symptom := Some sy\<rparr>) w0;
           rs = (case reg of None \<Rightarrow> ''unknown'' | Some r \<Rightarrow> registration_as_str r)
       in case dispatch_symptom cfg env sy rs dsecs w of
            Inl w1 \<Rightarrow> w1
          | Inr (act, level, m, w1) \<Rightarrow> tick_after cfg env sy rs dsecs act level m w1))"

definition tick :: "wd_config \<Rightarrow> tick_env \<Rightarrow> watchdog \<Rightarrow> watchdog" where
  "tick cfg env w =
     (case tick_gates env w of
        Inl w1 \<Rightarrow> w1
      | Inr w1 \<Rightarrow>
         if te_connected env then tick_connected env w1
         else (case tick_grace cfg env w1 of
                 Inl w2 \<Rightarrow> w2
               | Inr w2 \<Rightarrow>
                  (let dsecs = as_secs (disconnect_duration env (w_state w2)) in
                   case tick_prechange env dsecs w2 of
                     Inl w3 \<Rightarrow> w3
                   | Inr w3 \<Rightarrow>
                      (case tick_safe_revert env dsecs w3 of
                         Inl w4 \<Rightarrow> w4
                       | Inr w4 \<Rightarrow> tick_act cfg env dsecs w4))))"

definition run_watchdog :: "wd_config \<Rightarrow> tick_env list \<Rightarrow> watchdog \<Rightarrow> watchdog" where
  "run_watchdog cfg envs w = fold (tick cfg) envs w"

end
