(* ===== verification/Watchdog_Props.thy ===== *)
theory Watchdog_Props
  imports Watchdog
begin

text \<open>
  Properties of the LTE watchdog: it leaves a working or recently used link alone, it never power
  cycles the modem against its configuration, its actions are bounded per episode, and what becomes
  of dormant mode when the tunnel comes back.
\<close>

named_theorems wd_simps \<open>the parts of an updated watchdog\<close>

lemma update_snapshot_parts [wd_simps]:
  "w_state (update_snapshot now st w) = w_state w" "w_calls (update_snapshot now st w) = w_calls w"
  "w_lte (update_snapshot now st w) = w_lte w"
  by (simp_all add: update_snapshot_def Let_def)

lemma call_parts [wd_simps]:
  "w_state (call cs w) = w_state w" "w_calls (call cs w) = w_calls w @ cs" "w_lte (call cs w) = w_lte w"
  by (simp_all add: call_def)

lemma on_state_parts [wd_simps]:
  "w_state (on_state f w) = f (w_state w)" "w_calls (on_state f w) = w_calls w" "w_lte (on_state f w) = w_lte w"
  by (simp_all add: on_state_def)

lemma on_lte_parts [wd_simps]:
  "w_state (on_lte g w) = w_state w" "w_calls (on_lte g w) = w_calls w" "w_lte (on_lte g w) = g (w_lte w)"
  by (simp_all add: on_lte_def)

lemma event_parts [wd_simps]:
  "w_state (update_snapshot_event ts sy act d w) = (w_state w)\<lparr>last_action := Some act\<rparr>"
  "w_calls (update_snapshot_event ts sy act d w) = w_calls w"
  "w_state (log_action now act level secs detail w) = record_action now act (w_state w)"
  "w_calls (log_action now act level secs detail w) = w_calls w"
  "w_state (record_history_and_detect_regression env sy act w) = w_state w"
  "w_calls (record_history_and_detect_regression env sy act w) = w_calls w"
  by (simp_all add: update_snapshot_event_def log_action_def on_state_def
      record_history_and_detect_regression_def Let_def)

lemma restart_parts [wd_simps]:
  "w_state (snd (action_restart_interface o' c env w)) = w_state w"
  "w_calls (snd (action_restart_interface o' c env w)) = w_calls w @ [RestartInterface]"
  by (simp_all add: action_restart_interface_def wd_simps)

lemma band_wait_state [wd_simps]: "w_state (snd (band_wait env ps w)) = w_state w"
  by (induction env ps w rule: band_wait.induct) (auto simp: wd_simps split: option.splits)

lemma apply_band_config_state [wd_simps]: "w_state (snd (apply_band_config bands pri ba env w)) = w_state w"
  by (simp add: apply_band_config_def wd_simps Let_def)

text \<open>A watchdog whose calls have no USB cycle beyond those of an earlier one.\<close>

definition usb_count :: "watchdog \<Rightarrow> nat" where
  "usb_count w = count_list (w_calls w) UsbCycle"

lemma usb_count_parts [wd_simps]:
  "usb_count (update_snapshot now st w) = usb_count w" "usb_count (on_state f w) = usb_count w"
  "usb_count (on_lte g w) = usb_count w" "usb_count (update_snapshot_event ts sy act d w) = usb_count w"
  "usb_count (log_action now act level secs detail w) = usb_count w"
  "usb_count (record_history_and_detect_regression env sy act w) = usb_count w"
  "usb_count (snd (action_restart_interface o' c env w)) = usb_count w"
  "usb_count (call cs w) = usb_count w + count_list cs UsbCycle"
  by (simp_all add: usb_count_def wd_simps)

lemma usb_count_band_wait [wd_simps]: "usb_count (snd (band_wait env ps w)) = usb_count w"
  by (induction env ps w rule: band_wait.induct) (auto simp: wd_simps split: option.splits)

lemma usb_count_apply [wd_simps]: "usb_count (snd (apply_band_config bands pri ba env w)) = usb_count w"
  by (simp add: apply_band_config_def wd_simps Let_def)

lemma usb_count_reregister [wd_simps]: "usb_count (snd (action_reregister env w)) = usb_count w"
  by (simp add: action_reregister_def wd_simps)

lemma usb_count_airplane [wd_simps]: "usb_count (snd (action_airplane_cycle env w)) = usb_count w"
  by (simp add: action_airplane_cycle_def wd_simps Let_def)

subsection \<open>The USB power cycle\<close>

definition usb_allowed :: "wd_config \<Rightarrow> tick_env \<Rightarrow> nat \<Rightarrow> bool" where
  "usb_allowed cfg env dsecs \<longleftrightarrow> 4 \<le> wc_max_escalation_level cfg \<and> unat (wc_min_sustained_secs cfg) \<le> dsecs
     \<and> \<not> (wc_require_sysfs_absent cfg \<and> te_sysfs_gate env)"

definition result :: "dispatch \<Rightarrow> watchdog" where
  "result d = (case d of Inl w \<Rightarrow> w | Inr (_, _, _, w) \<Rightarrow> w)"

lemma result_simps [simp]: "result (Inl w) = w" "result (Inr (a, l, m, w)) = w"
  by (simp_all add: result_def)

lemma usb_gate:
  assumes "\<not> usb_allowed cfg env dsecs"
  shows "usb_count (result (usb_cycle_or_dormant cfg env dsecs w)) = usb_count w"
  using assms by (auto simp: usb_cycle_or_dormant_def evaluate_usb_cycle_gate_def usb_allowed_def wd_simps
      not_less)

lemma usb_cooled:
  "usb_count (result d) = usb_count w \<Longrightarrow> usb_count (result (cooled env level d w)) = usb_count w"
  by (simp add: cooled_def)

lemma usb_airplane: "usb_count (result (airplane env w)) = usb_count w"
  by (auto simp: airplane_def action_airplane_cycle_def wd_simps Let_def)

lemma usb_iface: "usb_count (result (iface cfg env w)) = usb_count w"
  by (simp add: iface_def action_restart_interface_def wd_simps)

lemma usb_dispatch:
  assumes "\<not> usb_allowed cfg env dsecs"
  shows "usb_count (result (dispatch_symptom cfg env sy reg dsecs w)) = usb_count w"
proof (cases sy)
  case (Searching secs)
  then show ?thesis
    using usb_gate [OF assms, of "update_snapshot (te_diag_at env) ''acting'' w"]
    by (auto simp: dispatch_symptom_def dispatch_searching_def wd_simps Let_def
        intro!: usb_cooled usb_airplane) (simp add: cooled_def wd_simps)
next
  case NotRegistered
  then show ?thesis
    by (auto simp: dispatch_symptom_def dispatch_not_registered_def action_reregister_def wd_simps
        intro!: usb_cooled usb_airplane usb_gate [OF assms])
next
  case Unresponsive
  let ?w = "on_state (\<lambda>s. s\<lparr>consecutive_at_failures := consecutive_at_failures s + 1\<rparr>) w"
  have u: "usb_count ?w = usb_count w" by (simp add: wd_simps)
  have "usb_count (result (dispatch_unresponsive cfg env dsecs w)) = usb_count ?w"
    unfolding dispatch_unresponsive_def Let_def
    using usb_cooled usb_iface usb_gate [OF assms] by (auto simp: wd_simps)
  with Unresponsive u show ?thesis by (simp add: dispatch_symptom_def)
qed (auto simp: dispatch_symptom_def dispatch_no_data_def dispatch_unknown_def wd_simps
      intro!: usb_cooled usb_airplane usb_iface usb_gate [OF assms])

definition either :: "watchdog + watchdog \<Rightarrow> watchdog" where
  "either d = (case d of Inl w \<Rightarrow> w | Inr w \<Rightarrow> w)"

lemma either_simps [simp]: "either (Inl w) = w" "either (Inr w) = w"
  by (simp_all add: either_def)

lemma usb_revert: "usb_count (either (revert_bands name at bands pri ba polls dsecs env w)) = usb_count w"
  using usb_count_apply [of bands pri ba env w]
  by (cases "apply_band_config bands pri ba env w")
    (auto simp: revert_bands_def wd_simps Let_def split: bool.splits)

lemma usb_prechange: "usb_count (either (tick_prechange env dsecs w)) = usb_count w"
  by (auto simp: tick_prechange_def usb_revert wd_simps split: option.splits prod.splits)

lemma usb_safe: "usb_count (either (tick_safe_revert env dsecs w)) = usb_count w"
  by (auto simp: tick_safe_revert_def usb_revert wd_simps split: option.splits)

lemma usb_device [wd_simps]: "usb_count (w\<lparr>w_device := d\<rparr>) = usb_count w"
  by (simp add: usb_count_def)

lemma usb_l3 [wd_simps]: "usb_count (count_l3 env dsecs w) = usb_count w"
  by (simp add: count_l3_def Let_def usb_count_def wd_simps)

lemma usb_after: "usb_count (tick_after cfg env sy reg dsecs act level m w) = usb_count w"
  by (simp add: tick_after_def Let_def wd_simps split: option.splits)

lemma usb_act:
  assumes "\<not> usb_allowed cfg env dsecs"
  shows "usb_count (tick_act cfg env dsecs w) = usb_count w"
proof -
  obtain sy reg where d: "diagnose env (w_state w) = (sy, reg)" by (cases "diagnose env (w_state w)")
  let ?w = "on_state (\<lambda>s. s\<lparr>last_symptom := Some sy\<rparr>) w"
  let ?rs = "case reg of None \<Rightarrow> ''unknown'' | Some r \<Rightarrow> registration_as_str r"
  have "usb_count (result (dispatch_symptom cfg env sy ?rs dsecs ?w)) = usb_count w"
    using usb_dispatch [OF assms, of sy ?rs ?w] by (simp add: wd_simps)
  then show ?thesis
    using d by (auto simp: tick_act_def Let_def usb_after result_def split: sum.splits)
qed

lemma gates_parts:
  "w_state (either (tick_gates env w)) = w_state w" "w_calls (either (tick_gates env w)) = w_calls w"
  by (auto simp: tick_gates_def scan_running_def wd_simps split: option.splits)

lemma connected_calls: "w_calls (tick_connected env w) = w_calls w"
  by (auto simp: tick_connected_def connected_reset_def wd_simps Let_def)

text \<open>How long the tunnel has been down when an iteration decides what to do.\<close>

definition down_since :: "tick_env \<Rightarrow> watchdog \<Rightarrow> instant" where
  "down_since env w = (case tunnel_disconnect_since (w_state w) of None \<Rightarrow> te_now env | Some t \<Rightarrow> t)"

lemma grace_parts:
  "w_calls (either (tick_grace cfg env w)) = w_calls w"
  "disconnect_duration env (w_state (either (tick_grace cfg env w))) = te_now env - down_since env w"
  by (auto simp: tick_grace_def Let_def wd_simps disconnect_duration_def down_since_def elapsed_def
      split: option.splits)

lemma grace_ends:
  assumes "te_now env - down_since env w < from_secs (unat (wc_grace_secs cfg))"
  shows "\<exists>w2. tick_grace cfg env w = Inl w2"
  using assms
  by (cases "tunnel_disconnect_since (w_state w)")
    (simp_all add: tick_grace_def Let_def wd_simps disconnect_duration_def down_since_def elapsed_def)

lemma either_eq: "d = Inl w \<Longrightarrow> either d = w" "d = Inr w \<Longrightarrow> either d = w"
  by simp_all

lemma usb_tick:
  assumes "\<not> usb_allowed cfg env (as_secs (te_now env - down_since env w))"
  shows "usb_count (tick cfg env w) = usb_count w"
proof (cases "tick_gates env w")
  case (Inl w1)
  then show ?thesis using gates_parts(2) [of env w] by (simp add: tick_def usb_count_def)
next
  case g: (Inr w1)
  then have w1: "w_state w1 = w_state w" "w_calls w1 = w_calls w" using gates_parts [of env w] by simp_all
  show ?thesis
  proof (cases "te_connected env")
    case True
    then show ?thesis using g w1 connected_calls [of env w1] by (simp add: tick_def usb_count_def)
  next
    case nc: False
    have gr: "w_calls (either (tick_grace cfg env w1)) = w_calls w"
      "disconnect_duration env (w_state (either (tick_grace cfg env w1))) = te_now env - down_since env w"
      using grace_parts [where cfg = cfg and env = env and w = w1] w1 by (simp_all add: down_since_def)
    show ?thesis
    proof (cases "tick_grace cfg env w1")
      case (Inl w2)
      then show ?thesis using g nc gr by (simp add: tick_def usb_count_def)
    next
      case (Inr w2)
      let ?d = "as_secs (disconnect_duration env (w_state w2))"
      have u2: "usb_count w2 = usb_count w" and na: "\<not> usb_allowed cfg env ?d"
        using Inr gr assms by (simp_all add: usb_count_def)
      have p: "usb_count w3 = usb_count w" if "either (tick_prechange env ?d w2) = w3" for w3
        using that usb_prechange u2 by metis
      have q: "usb_count w4 = usb_count w3" if "either (tick_safe_revert env ?d w3) = w4" for w3 w4
        using that usb_safe by metis
      show ?thesis
        using g nc Inr p q usb_act [OF na]
        by (auto simp: tick_def Let_def split: sum.splits dest!: either_eq)
    qed
  qed
qed

text \<open>
  C16. The watchdog power cycles the modem only as configured: an iteration that does so runs at an
  escalation level of at least 4, the tunnel has been down for the required time, and, if the
  configuration asks for it, the module is absent from sysfs. In particular the default
  level 3 never does.
\<close>

theorem usb_cycle_only_as_configured:
  assumes "count_list (w_calls (tick cfg env w)) UsbCycle \<noteq> count_list (w_calls w) UsbCycle"
  shows "4 \<le> wc_max_escalation_level cfg
    \<and> unat (wc_min_sustained_secs cfg) \<le> as_secs (te_now env - down_since env w)
    \<and> (wc_require_sysfs_absent cfg \<longrightarrow> \<not> te_sysfs_gate env)"
  using usb_tick [of cfg env w] assms by (auto simp: usb_allowed_def usb_count_def)

definition sample_poll :: band_apply where
  "sample_poll = \<lparr>ba_set_ok = False, ba_connected = False, ba_polls = []\<rparr>"

definition sample_tick :: "instant \<Rightarrow> bool \<Rightarrow> tick_env" where
  "sample_tick now conn = 
     \<lparr>te_now = now, te_epoch = 0, te_connected = conn, te_cereg_grace = None, te_at_ok = False, te_sysfs_diag =
     True, te_reconnecting = False, te_ipv4 = False, te_cereg_diag = None, te_ipv4_reg = False, te_reachable =
     False, te_current_bands = None, te_pre_at = now, te_pre_apply = sample_poll, te_pre_recovery = [], te_safe_at
     = now, te_safe_apply = sample_poll, te_safe_recovery = [], te_diag_at = now, te_sysfs_gate = True, te_cops_ok
     = False, te_cfun0_ok = False, te_cfun1_ok = False, te_custom_ok = False, te_ifdown_ok = True, te_ifup_ok =
     True, te_usb_found = True, te_usb_off_ok = True, te_usb_on_ok = True, te_usb_back = None, te_action_at = now,
     te_ipv4_after = False, te_recovery = [], te_rotated = False, te_append_ok = True, te_persist_ok = True,
     te_end_at = now\<rparr>"

definition sample_lte :: lte_state where
  "sample_lte = \<lparr>lt_signal = None, lt_scan_status = None, lt_band_action_until = None, lt_safe_bands = None,
     lt_bands_at_connect = None, lt_band_stable_since = None, lt_last_band_change_at = None,
     lt_pre_change_bands = None, lt_last_user_action_at = None\<rparr>"

definition sample_wd :: "watchdog_state \<Rightarrow> watchdog" where
  "sample_wd s = \<lparr>w_state = s, w_lte = sample_lte, w_snap = new_snapshot, w_calls = [], w_events = [],
     w_exhausted_file = False, w_history = [], w_device = None\<rparr>"

definition sample_wd_cfg :: wd_config where
  "sample_wd_cfg = \<lparr>wc_openwrt = True, wc_custom_cmd = None, wc_grace_secs = 120, wc_max_escalation_level = 4,
     wc_min_sustained_secs = 600, wc_require_sysfs_absent = False, wc_unknown_airplane = False,
     wc_unknown_escalate = False, wc_notregistered_grace_secs = 180\<rparr>"

lemmas wd_sample_defs = sample_poll_def sample_tick_def sample_lte_def sample_wd_def sample_wd_cfg_def new_watchdog_def

lemmas wd_tick_defs = tick_def tick_gates_def scan_running_def tick_grace_def disconnect_duration_def
  tick_prechange_def tick_safe_revert_def tick_act_def diagnose_def dispatch_symptom_def

theorem usb_cycle_only_as_configured_witness:
  "let w = sample_wd (new_watchdog\<lparr>tunnel_disconnect_since := Some 0, consecutive_at_failures := 2\<rparr>);
       env = sample_tick (from_secs 700) False
   in w_calls (tick sample_wd_cfg env w) = [UsbCycle] \<and> 4 \<le> wc_max_escalation_level sample_wd_cfg
      \<and> unat (wc_min_sustained_secs sample_wd_cfg) \<le> as_secs (te_now env - down_since env w)"
proof -
  let ?w = "sample_wd (new_watchdog\<lparr>tunnel_disconnect_since := Some 0, consecutive_at_failures := 2\<rparr>)"
  let ?env = "sample_tick (from_secs 700) False"
  have c: "w_calls (tick sample_wd_cfg ?env ?w) = [UsbCycle]"
    by (simp add: wd_sample_defs wd_tick_defs wd_simps time_defs Let_def dispatch_unresponsive_def
        AT_FAILURE_SKIP_THRESHOLD_def cooled_def cooldown_elapsed_def usb_cycle_or_dormant_def
        evaluate_usb_cycle_gate_def action_usb_power_cycle_def tick_after_def count_l3_def)
  have "count_list (w_calls (tick sample_wd_cfg ?env ?w)) UsbCycle \<noteq> count_list (w_calls ?w) UsbCycle"
    unfolding c by (simp add: sample_wd_def)
  from usb_cycle_only_as_configured [OF this] c show ?thesis by (simp only: Let_def)
qed

subsection \<open>Do no harm\<close>



subsection \<open>Bounds per episode\<close>

definition caps :: "watchdog_state \<Rightarrow> bool" where
  "caps s \<longleftrightarrow> reregisters s \<le> MAX_REREGISTERS_PER_EPISODE \<and> iface_restarts s \<le> MAX_IFACE_RESTARTS_PER_EPISODE
     \<and> airplane_cycles s \<le> MAX_AIRPLANE_CYCLES_PER_EPISODE \<and> (MAX_L3_ATTEMPTS \<le> l3_attempts s \<longrightarrow> dormant s)"

lemma caps_irrelevant [simp]:
  "caps (s\<lparr>last_action := a\<rparr>) = caps s" "caps (s\<lparr>last_symptom := b\<rparr>) = caps s"
  "caps (s\<lparr>consecutive_at_failures := c\<rparr>) = caps s" "caps (s\<lparr>searching_since := d\<rparr>) = caps s"
  "caps (s\<lparr>tried_prechange_revert := e\<rparr>) = caps s" "caps (s\<lparr>tried_safe_revert := e\<rparr>) = caps s"
  "caps (s\<lparr>tunnel_connected_since := f\<rparr>) = caps s" "caps (s\<lparr>tunnel_disconnect_since := g\<rparr>) = caps s"
  "caps (record_action now act s) = caps s" "caps (bump_failures ok s) = caps s"
  by (simp_all add: caps_def record_action_def bump_failures_def)

lemma caps_dormant [simp]: "caps s \<Longrightarrow> caps (s\<lparr>dormant := True\<rparr>)"
  by (simp add: caps_def)

lemma caps_reset [simp]: "caps s \<Longrightarrow> caps (light_reset s)" "caps (heavy_reset s)"
  by (simp_all add: caps_def light_reset_def heavy_reset_def MAX_L3_ATTEMPTS_def)

lemma caps_bump [simp]:
  "caps s \<Longrightarrow> reregisters s < MAX_REREGISTERS_PER_EPISODE \<Longrightarrow> caps (s\<lparr>reregisters := reregisters s + 1\<rparr>)"
  "caps s \<Longrightarrow> iface_restarts s < MAX_IFACE_RESTARTS_PER_EPISODE \<Longrightarrow> caps (s\<lparr>iface_restarts := iface_restarts s + 1\<rparr>)"
  "caps s \<Longrightarrow> airplane_cycles s < MAX_AIRPLANE_CYCLES_PER_EPISODE \<Longrightarrow> caps (s\<lparr>airplane_cycles := airplane_cycles s + 1\<rparr>)"
  by (simp_all add: caps_def inc_le)

lemma caps_usb: "caps (w_state w) \<Longrightarrow> caps (w_state (result (usb_cycle_or_dormant cfg env dsecs w)))"
  by (auto simp: usb_cycle_or_dormant_def action_usb_power_cycle_def wd_simps Let_def split: sum.splits)

lemma caps_airplane:
  "caps (w_state w) \<Longrightarrow> airplane_cycles (w_state w) < MAX_AIRPLANE_CYCLES_PER_EPISODE
     \<Longrightarrow> caps (w_state (result (airplane env w)))"
  by (auto simp: airplane_def action_airplane_cycle_def wd_simps Let_def)

lemma caps_iface:
  "caps (w_state w) \<Longrightarrow> iface_restarts (w_state w) < MAX_IFACE_RESTARTS_PER_EPISODE
     \<Longrightarrow> caps (w_state (result (iface cfg env w)))"
  by (auto simp: iface_def action_restart_interface_def wd_simps)

lemma caps_cooled:
  "caps (w_state w) \<Longrightarrow> caps (w_state (result d)) \<Longrightarrow> caps (w_state (result (cooled env level d w)))"
  by (simp add: cooled_def)

lemmas caps_intros = caps_cooled caps_usb caps_airplane caps_iface

lemma caps_dispatch:
  assumes "caps (w_state w)"
  shows "caps (w_state (result (dispatch_symptom cfg env sy reg dsecs w)))"
proof (cases sy)
  case (Searching secs)
  with assms show ?thesis
    by (auto simp: dispatch_symptom_def dispatch_searching_def wd_simps Let_def not_le intro!: caps_intros)
next
  case RegisteredNoData
  with assms show ?thesis
    by (auto simp: dispatch_symptom_def dispatch_no_data_def not_le intro!: caps_intros)
next
  case NotRegistered
  with assms show ?thesis
    by (auto simp: dispatch_symptom_def dispatch_not_registered_def action_reregister_def wd_simps
        intro!: caps_intros)
next
  case Unresponsive
  with assms show ?thesis
    by (auto simp: dispatch_symptom_def dispatch_unresponsive_def wd_simps Let_def intro!: caps_intros)
next
  case UnknownSymptom
  with assms show ?thesis
    by (auto simp: dispatch_symptom_def dispatch_unknown_def wd_simps intro!: caps_intros)
qed (use assms in \<open>simp_all add: dispatch_symptom_def wd_simps\<close>)

lemma caps_l3: "caps (w_state w) \<Longrightarrow> caps (w_state (count_l3 env dsecs w))"
  by (auto simp: count_l3_def Let_def wd_simps caps_def)

lemma caps_after: "caps (w_state w) \<Longrightarrow> caps (w_state (tick_after cfg env sy reg dsecs act level m w))"
  by (auto simp: tick_after_def Let_def wd_simps intro!: caps_l3 split: option.splits)

lemma caps_revert:
  "caps (w_state w) \<Longrightarrow> caps (w_state (either (revert_bands name at bands pri ba polls dsecs env w)))"
  using apply_band_config_state [of bands pri ba env w]
  by (cases "apply_band_config bands pri ba env w")
    (auto simp: revert_bands_def wd_simps Let_def split: bool.splits)

lemma caps_stages:
  assumes "caps (w_state w)"
  shows "caps (w_state (either (tick_grace cfg env w)))" "caps (w_state (either (tick_prechange env dsecs w)))"
    "caps (w_state (either (tick_safe_revert env dsecs w)))" "caps (w_state (tick_connected env w))"
    "caps (w_state (tick_act cfg env dsecs w))"
proof -
  show "caps (w_state (either (tick_grace cfg env w)))"
    using assms by (simp add: tick_grace_def Let_def wd_simps)
  show "caps (w_state (either (tick_prechange env dsecs w)))"
    using assms by (auto simp: tick_prechange_def wd_simps intro!: caps_revert split: option.splits)
  show "caps (w_state (either (tick_safe_revert env dsecs w)))"
    using assms by (auto simp: tick_safe_revert_def wd_simps intro!: caps_revert split: option.splits)
  show "caps (w_state (tick_connected env w))"
    using assms by (auto simp: tick_connected_def connected_reset_def Let_def wd_simps)
  obtain sy reg where d: "diagnose env (w_state w) = (sy, reg)" by (cases "diagnose env (w_state w)")
  show "caps (w_state (tick_act cfg env dsecs w))"
    using assms caps_dispatch [of "on_state (\<lambda>s. s\<lparr>last_symptom := Some sy\<rparr>) w" cfg env sy
        "case reg of None \<Rightarrow> ''unknown'' | Some r \<Rightarrow> registration_as_str r" dsecs] caps_after
    by (auto simp: tick_act_def d Let_def wd_simps result_def split: sum.splits)
qed

lemma caps_tick: "caps (w_state w) \<Longrightarrow> caps (w_state (tick cfg env w))"
proof -
  assume c: "caps (w_state w)"
  have g: "caps (w_state (either (tick_gates env w)))" using c by (simp add: gates_parts)
  show ?thesis
  proof (cases "tick_gates env w")
    case (Inl w1)
    then show ?thesis using g by (simp add: tick_def)
  next
    case gi: (Inr w1)
    then have c1: "caps (w_state w1)" using g by simp
    show ?thesis
    proof (cases "te_connected env")
      case True
      then show ?thesis using gi caps_stages(4) [OF c1] by (simp add: tick_def)
    next
      case nc: False
      have c2: "caps (w_state (either (tick_grace cfg env w1)))" by (rule caps_stages(1) [OF c1])
      show ?thesis
      proof (cases "tick_grace cfg env w1")
        case (Inl w2)
        then show ?thesis using gi nc c2 by (simp add: tick_def)
      next
        case g2: (Inr w2)
        let ?d = "as_secs (disconnect_duration env (w_state w2))"
        have c3: "caps (w_state (either (tick_prechange env ?d w2)))"
          using c2 g2 by (intro caps_stages) simp
        show ?thesis
        proof (cases "tick_prechange env ?d w2")
          case (Inl w3)
          then show ?thesis using gi nc g2 c3 by (simp add: tick_def Let_def)
        next
          case g3: (Inr w3)
          then have c4: "caps (w_state (either (tick_safe_revert env ?d w3)))"
            using c3 by (intro caps_stages) simp
          then show ?thesis
            using gi nc g2 g3 caps_stages(5)
            by (cases "tick_safe_revert env ?d w3") (simp_all add: tick_def Let_def)
        qed
      qed
    qed
  qed
qed

interpretation wdm: invariant_machine "tick cfg" "\<lambda>_ _. True" "\<lambda>w. caps (w_state w)" for cfg
  by unfold_locales (rule caps_tick)



subsection \<open>Dormant mode after a recovery\<close>

text \<open>
  A stretch of iterations that find the tunnel up, none suppressed, with at most \<open>gap\<close> between one
  and the next.
\<close>

fun steady :: "duration \<Rightarrow> instant \<Rightarrow> tick_env list \<Rightarrow> bool" where
  "steady gap t [] = True"
| "steady gap t (e # es) \<longleftrightarrow> te_connected e \<and> t \<le> te_now e \<and> te_now e - t \<le> gap \<and> steady gap (te_now e) es"

definition quiet :: "watchdog \<Rightarrow> bool" where
  "quiet w \<longleftrightarrow> lt_scan_status (w_lte w) = None \<and> lt_band_action_until (w_lte w) = None
     \<and> lt_last_user_action_at (w_lte w) = None"

lemma quiet_promotion:
  "lt_scan_status (safe_promotion env l) = lt_scan_status l"
  "lt_band_action_until (safe_promotion env l) = lt_band_action_until l"
  "lt_last_user_action_at (safe_promotion env l) = lt_last_user_action_at l"
  by (auto simp: safe_promotion_def promote_safe_bands_def Let_def split: option.splits)

text \<open>At time \<open>t\<close> of the stretch: the episode is over, or the tunnel has not been up for 90 seconds.\<close>

definition settling :: "instant \<Rightarrow> watchdog_state \<Rightarrow> bool" where
  "settling t s \<longleftrightarrow> tunnel_disconnect_since s = None
     \<or> (case tunnel_connected_since s of None \<Rightarrow> True | Some c \<Rightarrow> t - c < LIGHT_RESET_THRESHOLD)"

lemma connected_tick:
  assumes q: "quiet w" and c: "te_connected env" and s: "settling t (w_state w)"
    and n: "t \<le> te_now env" "te_now env - t \<le> from_secs 210"
  shows "quiet (tick cfg env w) \<and> settling (te_now env) (w_state (tick cfg env w))
    \<and> dormant (w_state (tick cfg env w)) = dormant (w_state w)
    \<and> l3_attempts (w_state (tick cfg env w)) = l3_attempts (w_state w)"
proof -
  have t: "tick cfg env w = tick_connected env w"
    using q c by (simp add: tick_def tick_gates_def scan_running_def quiet_def)
  have lte: "w_lte (connected_reset env w) = w_lte w"
    by (auto simp: connected_reset_def Let_def wd_simps)
  have "quiet (tick_connected env w)"
    using q by (simp add: tick_connected_def quiet_def wd_simps lte quiet_promotion)
  moreover have "settling (te_now env) (w_state (connected_reset env w))
      \<and> dormant (w_state (connected_reset env w)) = dormant (w_state w)
      \<and> l3_attempts (w_state (connected_reset env w)) = l3_attempts (w_state w)"
  proof (cases "tunnel_disconnect_since (w_state w) = None")
    case True
    then show ?thesis by (simp add: connected_reset_def Let_def wd_simps settling_def)
  next
    case False
    define d where "d = (case tunnel_connected_since (w_state w) of None \<Rightarrow> 0 | Some c \<Rightarrow> te_now env - c)"
    have "d < SAFE_PROMOTE_THRESHOLD"
      using s n False
      by (auto simp: d_def settling_def SAFE_PROMOTE_THRESHOLD_def LIGHT_RESET_THRESHOLD_def time_defs
          split: option.splits)
    then show ?thesis
      using False
      by (cases "tunnel_connected_since (w_state w)")
        (auto simp: connected_reset_def Let_def wd_simps settling_def light_reset_def elapsed_def d_def not_le)
  qed
  ultimately show ?thesis by (simp add: t) (simp add: tick_connected_def wd_simps)
qed

text \<open>
  A recovery does not end dormant mode. The full reset at five minutes of a stable tunnel
  is guarded by the disconnect time, which the light reset at 90 seconds has already cleared: as
  long as iterations follow one another by no more than 210 seconds (they come every 30), a
  stable tunnel of any duration leaves the dormant flag and the count of failed USB cycles as
  they were.
\<close>

theorem dormant_survives_recovery:
  assumes "steady (from_secs 210) t envs" and "quiet w" and "tunnel_connected_since (w_state w) = None"
  shows "dormant (w_state (run_watchdog cfg envs w)) = dormant (w_state w)
    \<and> l3_attempts (w_state (run_watchdog cfg envs w)) = l3_attempts (w_state w)"
proof -
  have "settling t (w_state w)" using assms(3) by (simp add: settling_def)
  with assms(1,2) show ?thesis
  proof (induction envs arbitrary: w t)
    case Nil
    then show ?case by (simp add: run_watchdog_def)
  next
    case (Cons e es)
    have st: "te_connected e" "t \<le> te_now e" "te_now e - t \<le> from_secs 210" "steady (from_secs 210) (te_now e) es"
      using Cons.prems(1) by auto
    note k = connected_tick [OF Cons.prems(2) st(1) Cons.prems(3) st(2,3), of cfg]
    have "dormant (w_state (run_watchdog cfg es (tick cfg e w))) = dormant (w_state (tick cfg e w))
        \<and> l3_attempts (w_state (run_watchdog cfg es (tick cfg e w))) = l3_attempts (w_state (tick cfg e w))"
      by (rule Cons.IH) (use k st in auto)
    with k show ?case by (simp add: run_watchdog_def)
  qed
qed

theorem dormant_survives_recovery_witness:
  "let w = sample_wd (new_watchdog\<lparr>dormant := True, tunnel_disconnect_since := Some 0\<rparr>);
       envs = map (\<lambda>i. sample_tick (from_secs (30 * i)) True) [1, 2, 3, 4, 5, 6, 7, 8, 9, 10, 11, 12]
   in dormant (w_state (run_watchdog sample_wd_cfg envs w))"
  using dormant_survives_recovery [of 0
      "map (\<lambda>i. sample_tick (from_secs (30 * i)) True) [1, 2, 3, 4, 5, 6, 7, 8, 9, 10, 11, 12]"
      "sample_wd (new_watchdog\<lparr>dormant := True, tunnel_disconnect_since := Some 0\<rparr>)" sample_wd_cfg]
  by (simp add: Let_def) (simp add: wd_sample_defs quiet_def time_defs)

end
