(* ===== verification/Tunnel_Frame.thy ===== *)
theory Tunnel_Frame
  imports Json
begin

text \<open>
  The messages of the tunnel (\<open>server/src/tunnel/mod.rs\<close>): text messages are JSON values, binary
  frames carry a JSON header and a payload behind a four-byte length. The JSON printer and parser
  of \<open>serde_json\<close> are the arguments \<open>ser\<close> and \<open>de\<close>.
\<close>

datatype tunnel_message = TText json | TBinary "u8 list"

datatype tunnel_response = RJson json | RBinary json "u8 list"

definition MAX_BINARY_FRAME_HEADER :: nat where
  "MAX_BINARY_FRAME_HEADER = 1048576"

definition to_be_bytes :: "u32 \<Rightarrow> u8 list" where
  "to_be_bytes w = map (\<lambda>i. ucast (drop_bit (8 * i) w)) [3, 2, 1, 0]"

definition from_be_bytes :: "u8 list \<Rightarrow> u32" where
  "from_be_bytes bs = fold (\<lambda>b acc. or (push_bit 8 acc) (ucast b)) bs 0"

definition encode_binary_frame :: "(json \<Rightarrow> u8 list) \<Rightarrow> json \<Rightarrow> u8 list \<Rightarrow> u8 list" where
  "encode_binary_frame ser header payload =
     (let header_bytes = ser header; header_len = of_nat (length header_bytes) :: u32
      in to_be_bytes header_len @ header_bytes @ payload)"

definition decode_binary_frame :: "(u8 list \<Rightarrow> json option) \<Rightarrow> u8 list \<Rightarrow> (json \<times> u8 list) option" where
  "decode_binary_frame de data =
     (if length data < 4 then None
      else let header_len = unat (from_be_bytes (take 4 data)) in
        if header_len > MAX_BINARY_FRAME_HEADER then None
        else let total = 4 + header_len in
          if length data < total then None
          else (case de (take header_len (drop 4 data)) of
                  None \<Rightarrow> None
                | Some header \<Rightarrow> Some (header, drop total data)))"

lemma length_to_be_bytes [simp]: "length (to_be_bytes w) = 4"
  by (simp add: to_be_bytes_def)

lemma from_to_be_bytes [simp]: "from_be_bytes (to_be_bytes w) = w"
proof (rule bit_word_eqI)
  fix n assume "n < LENGTH(32)"
  then consider "n < 8" | "8 \<le> n" "n < 16" | "16 \<le> n" "n < 24" | "24 \<le> n" "n < 32" by fastforce
  then show "bit (from_be_bytes (to_be_bytes w)) n \<longleftrightarrow> bit w n"
    by cases (auto simp: from_be_bytes_def to_be_bytes_def bit_simps)
qed

lemma decode_encode:
  assumes "length (ser h) < 2 ^ 32" and "de (ser h) = Some h"
  shows "decode_binary_frame de (encode_binary_frame ser h p) =
    (if length (ser h) \<le> MAX_BINARY_FRAME_HEADER then Some (h, p) else None)"
proof -
  have "unat (of_nat (length (ser h)) :: u32) = length (ser h)"
    using assms(1) by (simp add: unat_of_nat take_bit_nat_eq_self)
  with assms(2) show ?thesis
    by (simp add: decode_binary_frame_def encode_binary_frame_def Let_def)
qed

text \<open>
  A binary frame is decoded to the header and the payload it was made from, whenever the header's
  JSON is at most the 1 MiB the receiver accepts (and below \<open>2 ^ 32\<close> bytes, what the length field can
  hold); a longer header is refused rather than misread.
\<close>

theorem frame_roundtrip:
  assumes "length (ser h) < 2 ^ 32" and "de (ser h) = Some h"
  shows "decode_binary_frame de (encode_binary_frame ser h p) =
    (if length (ser h) \<le> MAX_BINARY_FRAME_HEADER then Some (h, p) else None)"
  using assms by (rule decode_encode)

theorem frame_roundtrip_witness:
  "decode_binary_frame (\<lambda>bs. if bs = [110, 117, 108, 108] then Some JNull else None)
     (encode_binary_frame (\<lambda>_. [110, 117, 108, 108]) JNull [1, 2]) = Some (JNull, [1, 2])"
  using frame_roundtrip [of "\<lambda>_. [110, 117, 108, 108]" JNull
      "\<lambda>bs. if bs = [110, 117, 108, 108] then Some JNull else None" "[1, 2]"]
  by (simp add: MAX_BINARY_FRAME_HEADER_def)

end
