(* ===== verification/Tunnel_Client.thy ===== *)
theory Tunnel_Client
  imports Output_Buffer Tunnel_Frame
begin

text \<open>
  The device side of the tunnel (\<open>server/src/tunnel/client.rs\<close>): the reconnect loop, the choice of
  an address, registration, the heartbeat and its watchdog, the read loop with its dispatch, and
  the forwarding of session output. \<open>TunnelStats\<close> is that of \<open>server/src/state.rs\<close>.

  The network, the resolver and the clock are arguments. The outbound lanes are bounded queues of
  messages; the tasks of a connection are steps on \<open>tunnel_conn\<close>. A delay is a number of seconds
  (the loop only builds whole seconds). Doubling a delay is exact: it would overflow a
  \<open>Duration\<close> only from \<open>2 ^ 63\<close> seconds on.
\<close>

subsection \<open>Statistics\<close>

datatype tunnel_event_type =
    Connected | Disconnected | PongTimeoutEvent | WriterFailed | ReconnectAttempt | WatchdogAction

fun event_type_as_str :: "tunnel_event_type \<Rightarrow> string" where
  "event_type_as_str Connected = ''connected''"
| "event_type_as_str Disconnected = ''disconnected''"
| "event_type_as_str PongTimeoutEvent = ''pong_timeout''"
| "event_type_as_str WriterFailed = ''writer_failed''"
| "event_type_as_str ReconnectAttempt = ''reconnect_attempt''"
| "event_type_as_str WatchdogAction = ''watchdog_action''"

record connection_event =
  ev_timestamp :: nat
  ev_type :: tunnel_event_type
  ev_detail :: string

definition MAX_TUNNEL_EVENTS :: nat where "MAX_TUNNEL_EVENTS = 200"
definition EVENT_MAX_AGE_SECS :: nat where "EVENT_MAX_AGE_SECS = 48 * 3600"
definition MAX_RTT_SAMPLES :: nat where "MAX_RTT_SAMPLES = 20"

record tunnel_stats =
  ts_connected :: bool
  ts_reconnecting :: bool
  ts_reconnects :: u64
  ts_messages_sent :: u64
  ts_messages_received :: u64
  ts_last_pong_age_ms :: u64
  ts_current_uptime_ms :: u64
  ts_stream_backpressure_events :: u64
  ts_events :: "connection_event list"
  ts_rtt_samples :: "u64 list"
  ts_events_path :: "string option"
  ts_events_dirty :: bool

definition new_stats :: tunnel_stats where
  "new_stats = \<lparr>ts_connected = False, ts_reconnecting = False, ts_reconnects = 0,
     ts_messages_sent = 0, ts_messages_received = 0, ts_last_pong_age_ms = 0,
     ts_current_uptime_ms = 0, ts_stream_backpressure_events = 0, ts_events = [],
     ts_rtt_samples = [], ts_events_path = None, ts_events_dirty = False\<rparr>"

definition stats_push_event :: "nat \<Rightarrow> tunnel_event_type \<Rightarrow> string \<Rightarrow> tunnel_stats \<Rightarrow> tunnel_stats" where
  "stats_push_event timestamp ty detail s =
     s\<lparr>ts_events := ring_push MAX_TUNNEL_EVENTS
          \<lparr>ev_timestamp = timestamp, ev_type = ty, ev_detail = detail\<rparr> (ts_events s),
       ts_events_dirty := True\<rparr>"

definition record_rtt :: "u64 \<Rightarrow> tunnel_stats \<Rightarrow> tunnel_stats" where
  "record_rtt rtt_ms s = s\<lparr>ts_rtt_samples := ring_push MAX_RTT_SAMPLES rtt_ms (ts_rtt_samples s)\<rparr>"

text \<open>
  The index of the 95th percentile is computed in floating point; on the at most 20 samples that
  are kept, that is the exact ceiling.
\<close>

definition rtt_stats :: "tunnel_stats \<Rightarrow> (u64 \<times> u64) option" where
  "rtt_stats s =
     (if ts_rtt_samples s = [] then None
      else let sorted = sort (ts_rtt_samples s); n = length sorted; p95_idx = (95 * n + 99) div 100
        in Some (sorted ! (n div 2), sorted ! min p95_idx (n - 1)))"

text \<open>\<open>read\<close>: the parsed file, \<open>None\<close> when it cannot be read or parsed.\<close>

definition load_events :: "nat \<Rightarrow> connection_event list option \<Rightarrow> connection_event list" where
  "load_events now read =
     (case read of None \<Rightarrow> []
      | Some events \<Rightarrow> filter (\<lambda>e. now - ev_timestamp e < EVENT_MAX_AGE_SECS) events)"

text \<open>
  \<open>save_events\<close>: the dirty flag is cleared first, then the file is replaced. \<open>io_ok\<close>: serialising,
  writing and renaming succeed. The file's new content is part of the result.
\<close>

definition save_events ::
    "bool \<Rightarrow> tunnel_stats \<Rightarrow> bool \<times> (string \<times> connection_event list) option \<times> tunnel_stats" where
  "save_events io_ok s =
     (if \<not> ts_events_dirty s then (False, None, s)
      else let s' = s\<lparr>ts_events_dirty := False\<rparr> in
        case ts_events_path s of
          None \<Rightarrow> (False, None, s')
        | Some path \<Rightarrow> if io_ok then (True, Some (path, ts_events s), s') else (False, None, s'))"

subsection \<open>The reconnect loop\<close>

record client_config =
  cf_relay_url :: string
  cf_tunnel_key :: string
  cf_serial :: string
  cf_api_key :: string
  cf_reconnect_delay_secs :: nat
  cf_reconnect_max_delay_secs :: nat
  cf_heartbeat_interval_secs :: u64
  cf_bind_address :: "string option"

datatype disconnect_reason = RelayShutdown | WsClose | PongTimeout | WriterExit | ReadError

fun reason_as_str :: "disconnect_reason \<Rightarrow> string" where
  "reason_as_str RelayShutdown = ''relay_shutdown''"
| "reason_as_str WsClose = ''ws_close''"
| "reason_as_str PongTimeout = ''pong_timeout''"
| "reason_as_str WriterExit = ''writer_exit''"
| "reason_as_str ReadError = ''read_error''"

datatype connect_error = Permanent string | Transient string

definition FLAP_WINDOW :: nat where "FLAP_WINDOW = 10"
definition FLAP_THRESHOLD_SECS :: nat where "FLAP_THRESHOLD_SECS = 30"
definition FLAP_CHECK_COUNT :: nat where "FLAP_CHECK_COUNT = 3"

record client_loop =
  lp_delay :: nat
  lp_reconnects :: u64
  lp_durations :: "nat list"
  lp_stats :: tunnel_stats

definition loop_start :: "client_config \<Rightarrow> tunnel_stats \<Rightarrow> client_loop" where
  "loop_start cfg st = \<lparr>lp_delay = cf_reconnect_delay_secs cfg, lp_reconnects = 0,
     lp_durations = [], lp_stats = st\<rparr>"

definition bind_unavailable :: "string \<Rightarrow> bool" where
  "bind_unavailable msg \<longleftrightarrow>
     contains_str ''bind_address'' msg \<and> contains_str ''not available'' msg
     \<or> contains_str ''Address not available'' msg \<or> contains_str ''os error 99'' msg"

definition flap_detected :: "nat list \<Rightarrow> bool" where
  "flap_detected durations \<longleftrightarrow>
     length durations \<ge> FLAP_CHECK_COUNT
     \<and> (\<forall>d \<in> set (take FLAP_CHECK_COUNT (rev durations)). d < FLAP_THRESHOLD_SECS)"

text \<open>
  One iteration after \<open>connect_and_run\<close> has returned \<open>result\<close> and left the statistics \<open>st\<close>,
  \<open>duration_secs\<close> after the attempt began: the seconds to sleep and the state of the next
  iteration, or the end of the task.
\<close>

definition after_attempt ::
    "client_config \<Rightarrow> nat \<Rightarrow> connect_error + disconnect_reason \<Rightarrow> nat \<Rightarrow> client_loop
       \<Rightarrow> tunnel_stats + nat \<times> client_loop" where
  "after_attempt cfg now result duration_secs l =
     (let st = (lp_stats l)\<lparr>ts_reconnecting := False\<rparr>;
          go_on = (\<lambda>st delay escalate.
            let reconnects = lp_reconnects l + 1;
                st' = st\<lparr>ts_reconnects := reconnects, ts_connected := False, ts_current_uptime_ms := 0\<rparr>;
                durations = ring_push FLAP_WINDOW duration_secs (lp_durations l);
                flap = flap_detected durations;
                sleep = (if flap then 60 else delay);
                next_delay = (if escalate \<and> \<not> flap then min (sleep * 2) (cf_reconnect_max_delay_secs cfg)
                              else cf_reconnect_delay_secs cfg)
            in Inr (sleep, \<lparr>lp_delay = next_delay, lp_reconnects = reconnects,
                            lp_durations = durations, lp_stats = st'\<rparr>))
      in case result of
           Inr RelayShutdown \<Rightarrow> go_on (stats_push_event now Disconnected ''relay shutdown'' st) 0 False
         | Inr reason \<Rightarrow> go_on (stats_push_event now Disconnected (reason_as_str reason) st) 0 False
         | Inl (Permanent msg) \<Rightarrow>
             Inl ((stats_push_event now Disconnected (''permanent: '' @ msg) st)\<lparr>ts_connected := False\<rparr>)
         | Inl (Transient msg) \<Rightarrow>
             (let st' = stats_push_event now Disconnected msg st
              in if bind_unavailable msg then go_on st' 5 False else go_on st' (lp_delay l) True))"

record attempt =
  at_time :: nat
  at_result :: "connect_error + disconnect_reason"
  at_duration :: nat
  at_effect :: "tunnel_stats \<Rightarrow> tunnel_stats"

definition before_attempt :: "nat \<Rightarrow> client_loop \<Rightarrow> client_loop" where
  "before_attempt now l =
     l\<lparr>lp_stats := (stats_push_event now ReconnectAttempt
                      (''attempt #'' @ show_nat (unat (lp_reconnects l))) (lp_stats l))
                      \<lparr>ts_reconnecting := True\<rparr>\<rparr>"

text \<open>
  The loop over a sequence of attempts: the pauses \<open>(duration, sleep)\<close> it makes, and the final
  state (\<open>None\<close> once a permanent error has ended the task). \<open>at_effect\<close> is what
  \<open>connect_and_run\<close> does to the statistics.
\<close>

fun tunnel_client_loop ::
    "client_config \<Rightarrow> attempt list \<Rightarrow> client_loop \<Rightarrow> (nat \<times> nat) list \<times> client_loop option" where
  "tunnel_client_loop cfg [] l = ([], Some l)"
| "tunnel_client_loop cfg (a # as) l =
     (let l1 = before_attempt (at_time a) l;
          l2 = l1\<lparr>lp_stats := at_effect a (lp_stats l1)\<rparr>
      in case after_attempt cfg (at_time a) (at_result a) (at_duration a) l2 of
           Inl _ \<Rightarrow> ([], None)
         | Inr (sleep, l3) \<Rightarrow>
             (let (ps, r) = tunnel_client_loop cfg as l3 in ((at_duration a, sleep) # ps, r)))"

subsection \<open>Choosing an address\<close>

text \<open>\<open>rfind(':')\<close> with the pieces on its two sides.\<close>

definition rsplit_once :: "char \<Rightarrow> string \<Rightarrow> (string \<times> string) option" where
  "rsplit_once d s =
     (if d \<in> set s
      then Some (rev (tl (dropWhile (\<lambda>c. c \<noteq> d) (rev s))), rev (takeWhile (\<lambda>c. c \<noteq> d) (rev s)))
      else None)"

definition host_and_port :: "string \<Rightarrow> string \<times> nat" where
  "host_and_port url =
     (let without_scheme = (case strip_prefix ''wss://'' url of Some r \<Rightarrow> r
            | None \<Rightarrow> (case strip_prefix ''ws://'' url of Some r \<Rightarrow> r | None \<Rightarrow> url));
          authority = hd (split_char (CHR ''/'') without_scheme);
          default_port = (if starts_with ''wss://'' url then 443 else 80)
      in case rsplit_once (CHR '':'') authority of
           None \<Rightarrow> (authority, default_port)
         | Some (host, port_str) \<Rightarrow>
             (case parse_uint 16 port_str of Some p \<Rightarrow> (host, p) | None \<Rightarrow> (authority, default_port)))"

record socket_addr =
  sa_v4 :: bool
  sa_text :: string

text \<open>\<open>ifaddrs\<close> is the list of \<open>getifaddrs\<close>: name, whether the address is IPv4, and the address.\<close>

definition resolve_bind_address ::
    "(string \<Rightarrow> string option) \<Rightarrow> (string \<times> bool \<times> string) list \<Rightarrow> string \<Rightarrow> string option" where
  "resolve_bind_address parse_ip ifaddrs value =
     (case parse_ip value of
        Some ip \<Rightarrow> Some ip
      | None \<Rightarrow> map_option (snd \<circ> snd) (List.find (\<lambda>(name, v4, _). name = value \<and> v4) ifaddrs))"

datatype 'a timed = Expired | Within 'a

record net_env =
  ne_lookup :: "string \<Rightarrow> (string + socket_addr list) timed"
  ne_parse_ip :: "string \<Rightarrow> string option"
  ne_ifaddrs :: "(string \<times> bool \<times> string) list"
  ne_bindable :: "string \<Rightarrow> bool"
  ne_connect :: "string option \<Rightarrow> string option \<Rightarrow> socket_addr \<Rightarrow> (string + nat) timed"

text \<open>The stable sort by \<open>!is_ipv4\<close>.\<close>

definition order_addrs :: "socket_addr list \<Rightarrow> socket_addr list" where
  "order_addrs addrs = sort_key (\<lambda>a. if sa_v4 a then 0 else 1 :: nat) addrs"

fun try_addrs ::
    "(socket_addr \<Rightarrow> (string + nat) timed) \<Rightarrow> string option \<Rightarrow> socket_addr list \<Rightarrow> string + nat" where
  "try_addrs connect last_err [] =
     Inl (case last_err of Some e \<Rightarrow> e | None \<Rightarrow> ''all addresses failed'')"
| "try_addrs connect last_err (a # as) =
     (case connect a of
        Within (Inr stream) \<Rightarrow> Inr stream
      | Within (Inl e) \<Rightarrow> try_addrs connect (Some e) as
      | Expired \<Rightarrow> try_addrs connect (Some (''connect to '' @ sa_text a @ '' timed out'')) as)"

definition connect_tcp_ipv4_preferred :: "net_env \<Rightarrow> string \<Rightarrow> string option \<Rightarrow> string + nat" where
  "connect_tcp_ipv4_preferred n url bind_address =
     (let (host, port) = host_and_port url in
      case ne_lookup n (host @ '':'' @ show_nat port) of
        Expired \<Rightarrow> Inl (''DNS lookup timed out (10s) for '' @ host)
      | Within (Inl e) \<Rightarrow> Inl e
      | Within (Inr found) \<Rightarrow>
          (let addrs = order_addrs found in
           if addrs = [] then Inl (''DNS resolution failed for '' @ host)
           else case bind_address of
               None \<Rightarrow> try_addrs (ne_connect n None None) None addrs
             | Some s \<Rightarrow>
                 (case resolve_bind_address (ne_parse_ip n) (ne_ifaddrs n) s of
                    None \<Rightarrow> Inl (''bind_address '' @ [CHR 39] @ s @ [CHR 39] @ '' not available (interface down or no IPv4?)'')
                  | Some ip \<Rightarrow>
                      (let iface = (if ne_parse_ip n s = None then Some s else None) in
                       if \<not> ne_bindable n ip
                       then Inl (''bind_address '' @ ip @ '' not available (interface down?)'')
                       else try_addrs (ne_connect n (Some ip) iface) None addrs))))"

subsection \<open>Registration\<close>

definition registration_message :: "client_config \<Rightarrow> json" where
  "registration_message cfg =
     JObj [(''type'', JStr ''tunnel.register''), (''serial'', JStr (cf_serial cfg)),
           (''api_key'', JStr (cf_api_key cfg))]"

datatype ws_message = WText string | WBinary "u8 list" | WClose | WOther

text \<open>
  What the wait for the acknowledgement makes of the first message: \<open>None\<close> is the acknowledgement.
  The parser of \<open>serde_json\<close> is the argument \<open>de\<close>, its error text included.
\<close>

definition registration_error ::
    "(string \<Rightarrow> string + json) \<Rightarrow> (string + ws_message) option timed \<Rightarrow> connect_error option" where
  "registration_error de reply =
     (case reply of
        Expired \<Rightarrow> Some (Transient ''Registration ack timed out (10s)'')
      | Within None \<Rightarrow> Some (Transient ''Connection closed during registration'')
      | Within (Some (Inl e)) \<Rightarrow> Some (Transient e)
      | Within (Some (Inr (WText text))) \<Rightarrow>
          (case de text of
             Inl e \<Rightarrow> Some (Transient (''Invalid JSON from relay during registration: '' @ e))
           | Inr msg \<Rightarrow>
               (let msg_type = json_str_or [] (json_index msg ''type'') in
                if msg_type = ''tunnel.register.ack'' then None
                else if msg_type = ''error'' then
                  (let code = json_str_or [] (json_index msg ''code'');
                       message = json_str_or ''registration rejected'' (json_index msg ''message'')
                   in if code = ''FORBIDDEN''
                      then Some (Permanent (''Registration rejected: '' @ message))
                      else Some (Transient (''Registration error: '' @ message)))
                else Some (Transient (''Unexpected message during registration: '' @ msg_type))))
      | Within (Some (Inr _)) \<Rightarrow> Some (Transient ''Non-text message during registration''))"

subsection \<open>A connection\<close>

text \<open>
  The three outbound lanes are bounded channels. \<open>tn_spawned\<close> lists the messages handed to handler
  tasks. \<open>tn_open\<close>: the writer task, which owns the receiving ends, is running.
\<close>

record lanes =
  ln_priority :: "json list"
  ln_request :: "json list"
  ln_stream :: "json list"

definition PRIORITY_LANE :: nat where "PRIORITY_LANE = 16"
definition REQUEST_LANE :: nat where "REQUEST_LANE = 256"
definition STREAM_LANE :: nat where "STREAM_LANE = 1024"

datatype spawned = HandleText json | HandleBinary json "u8 list"

record tunnel_conn =
  tn_lanes :: lanes
  tn_open :: bool
  tn_last_pong_ms :: u64
  tn_last_ping_sent_ms :: u64
  tn_spawned :: "spawned list"
  tn_stats :: tunnel_stats

definition fresh_conn :: "tunnel_stats \<Rightarrow> tunnel_conn" where
  "fresh_conn st = \<lparr>tn_lanes = \<lparr>ln_priority = [], ln_request = [], ln_stream = []\<rparr>, tn_open = True,
     tn_last_pong_ms = 0, tn_last_ping_sent_ms = 0, tn_spawned = [], tn_stats = st\<rparr>"

datatype lane_result = Sent | Full | Closed

definition try_send_priority :: "json \<Rightarrow> tunnel_conn \<Rightarrow> lane_result \<times> tunnel_conn" where
  "try_send_priority m c =
     (if \<not> tn_open c then (Closed, c)
      else if length (ln_priority (tn_lanes c)) \<ge> PRIORITY_LANE then (Full, c)
      else (Sent, c\<lparr>tn_lanes := (tn_lanes c)\<lparr>ln_priority := ln_priority (tn_lanes c) @ [m]\<rparr>\<rparr>))"

definition try_send_request :: "json \<Rightarrow> tunnel_conn \<Rightarrow> lane_result \<times> tunnel_conn" where
  "try_send_request m c =
     (if \<not> tn_open c then (Closed, c)
      else if length (ln_request (tn_lanes c)) \<ge> REQUEST_LANE then (Full, c)
      else (Sent, c\<lparr>tn_lanes := (tn_lanes c)\<lparr>ln_request := ln_request (tn_lanes c) @ [m]\<rparr>\<rparr>))"

text \<open>The biased \<open>select!\<close> of the writer: the control lane first, then requests, then output.\<close>

definition writer_next :: "lanes \<Rightarrow> (json \<times> lanes) option" where
  "writer_next l =
     (case ln_priority l of
        m # ms \<Rightarrow> Some (m, l\<lparr>ln_priority := ms\<rparr>)
      | [] \<Rightarrow> (case ln_request l of
          m # ms \<Rightarrow> Some (m, l\<lparr>ln_request := ms\<rparr>)
        | [] \<Rightarrow> (case ln_stream l of
            m # ms \<Rightarrow> Some (m, l\<lparr>ln_stream := ms\<rparr>)
          | [] \<Rightarrow> None)))"

text \<open>
  One round of the writer task. The send succeeds, fails or exceeds its 20 seconds; a failure ends
  the task, which closes the lanes. The result is the message that reached the socket.
\<close>

definition TUNNEL_WRITER_SEND_TIMEOUT_SECS :: nat where "TUNNEL_WRITER_SEND_TIMEOUT_SECS = 20"

definition writer_step :: "nat \<Rightarrow> (string + unit) timed \<Rightarrow> tunnel_conn \<Rightarrow> json option \<times> tunnel_conn" where
  "writer_step now sent c =
     (case writer_next (tn_lanes c) of
        None \<Rightarrow> (None, c)
      | Some (m, l) \<Rightarrow>
          (let c' = c\<lparr>tn_lanes := l\<rparr> in
           case sent of
             Within (Inr _) \<Rightarrow>
               (Some m, c'\<lparr>tn_stats := (tn_stats c)\<lparr>ts_messages_sent := ts_messages_sent (tn_stats c) + 1\<rparr>\<rparr>)
           | Within (Inl e) \<Rightarrow>
               (None, c'\<lparr>tn_open := False,
                  tn_stats := stats_push_event now WriterFailed (''WS send error: '' @ e) (tn_stats c)\<rparr>)
           | Expired \<Rightarrow>
               (None, c'\<lparr>tn_open := False,
                  tn_stats := stats_push_event now WriterFailed
                    (''WS send timeout ('' @ show_nat TUNNEL_WRITER_SEND_TIMEOUT_SECS @ ''s)'') (tn_stats c)\<rparr>)))"

text \<open>
  The heartbeat. \<open>effective_client_heartbeat_interval_secs\<close> clamps the configured interval
  (\<open>config.rs\<close>). A tick returns whether the task asks for a reconnect; the three clock readings of
  a tick before the ping are one (\<open>now_ms\<close>), the one after it is \<open>sent_ms\<close>.
\<close>

definition effective_client_heartbeat_interval_secs :: "(bool \<times> u64) option \<Rightarrow> u64" where
  "effective_client_heartbeat_interval_secs tunnel =
     (case tunnel of
        Some (relay, interval) \<Rightarrow> if relay then 5 else max 1 (min 15 interval)
      | None \<Rightarrow> 5)"

definition pong_timeout_ms :: "u64 \<Rightarrow> u64" where
  "pong_timeout_ms interval = max (interval * 3) 15 * 1000"

definition ping_message :: json where "ping_message = JObj [(''type'', JStr ''tunnel.ping'')]"
definition pong_message :: json where "pong_message = JObj [(''type'', JStr ''tunnel.pong'')]"

definition heartbeat_tick :: "nat \<Rightarrow> u64 \<Rightarrow> u64 \<Rightarrow> u64 \<Rightarrow> tunnel_conn \<Rightarrow> bool \<times> tunnel_conn" where
  "heartbeat_tick now interval now_ms sent_ms c =
     (let last = tn_last_pong_ms c;
          age = saturating_sub now_ms last;
          st = (tn_stats c)\<lparr>ts_current_uptime_ms := now_ms, ts_last_pong_age_ms := age\<rparr>
      in if last > 0 \<and> age > pong_timeout_ms interval
         then (True, c\<lparr>tn_stats := stats_push_event now PongTimeoutEvent
                        (''no pong for '' @ show_nat (unat age) @ ''ms'') st\<rparr>)
         else case try_send_priority ping_message (c\<lparr>tn_stats := st\<rparr>) of
             (Sent, c') \<Rightarrow> (False, c'\<lparr>tn_last_ping_sent_ms := sent_ms\<rparr>)
           | (_, c') \<Rightarrow> (True, c'))"

subsection \<open>The read loop\<close>

datatype client_event =
    WsMessage "string + ws_message"
  | WsEof
  | SessionBroadcast "json option"
  | HeartbeatCancelled
  | WriterExited

definition text_message :: "u64 \<Rightarrow> json \<Rightarrow> tunnel_conn \<Rightarrow> disconnect_reason option \<times> tunnel_conn" where
  "text_message now_ms parsed c0 =
     (let c = c0\<lparr>tn_last_pong_ms := now_ms,
                 tn_stats := (tn_stats c0)\<lparr>ts_messages_received := ts_messages_received (tn_stats c0) + 1\<rparr>\<rparr>;
          msg_type = json_str_or [] (json_index parsed ''type'')
      in if msg_type = ''tunnel.relay_shutdown'' then (Some RelayShutdown, c)
         else if msg_type = ''tunnel.pong'' then
           (let st = (tn_stats c)\<lparr>ts_last_pong_age_ms := 0\<rparr>; ping_ms = tn_last_ping_sent_ms c
            in (None, c\<lparr>tn_stats := (if ping_ms > 0 then record_rtt (saturating_sub now_ms ping_ms) st else st)\<rparr>))
         else if msg_type \<in> {''tunnel.register.ack'', ''ping''} then (None, c)
         else if msg_type = ''tunnel.ping'' then (None, snd (try_send_priority pong_message c))
         else (None, c\<lparr>tn_spawned := tn_spawned c @ [HandleText parsed]\<rparr>))"

text \<open>
  One branch of the \<open>select!\<close>. \<open>de_text\<close> and \<open>de_bytes\<close> are the JSON parsers. \<open>Some reason\<close> ends the
  loop; a close frame and the end of the stream leave the initial reason \<open>WsClose\<close>.
\<close>

definition client_event_step ::
    "(string \<Rightarrow> json option) \<Rightarrow> (u8 list \<Rightarrow> json option) \<Rightarrow> u64 \<Rightarrow> client_event \<Rightarrow> tunnel_conn
       \<Rightarrow> disconnect_reason option \<times> tunnel_conn" where
  "client_event_step de_text de_bytes now_ms e c =
     (case e of
        WsEof \<Rightarrow> (Some WsClose, c)
      | WsMessage (Inl _) \<Rightarrow> (Some ReadError, c)
      | WsMessage (Inr (WText t)) \<Rightarrow>
          (case de_text t of None \<Rightarrow> (None, c) | Some parsed \<Rightarrow> text_message now_ms parsed c)
      | WsMessage (Inr (WBinary data)) \<Rightarrow>
          (case decode_binary_frame de_bytes data of
             None \<Rightarrow> (None, c)
           | Some (header, payload) \<Rightarrow>
               (None, c\<lparr>tn_spawned := tn_spawned c @ [HandleBinary header payload]\<rparr>))
      | WsMessage (Inr WClose) \<Rightarrow> (Some WsClose, c)
      | WsMessage (Inr WOther) \<Rightarrow> (None, c)
      | SessionBroadcast None \<Rightarrow> (None, c)
      | SessionBroadcast (Some event) \<Rightarrow> (None, snd (try_send_request event c))
      | HeartbeatCancelled \<Rightarrow> (Some PongTimeout, c)
      | WriterExited \<Rightarrow> (Some WriterExit, c))"

fun read_loop ::
    "(string \<Rightarrow> json option) \<Rightarrow> (u8 list \<Rightarrow> json option) \<Rightarrow> (u64 \<times> client_event) list \<Rightarrow> tunnel_conn
       \<Rightarrow> disconnect_reason option \<times> tunnel_conn" where
  "read_loop de_text de_bytes [] c = (None, c)"
| "read_loop de_text de_bytes ((now_ms, e) # es) c =
     (case client_event_step de_text de_bytes now_ms e c of
        (Some reason, c') \<Rightarrow> (Some reason, c')
      | (None, c') \<Rightarrow> read_loop de_text de_bytes es c')"

subsection \<open>Dispatch\<close>

datatype relay_handler =
    HExec | HExecBatch | HInfo | HHealth | HDiagnostics | HFileRead | HFileWrite | HActivity
  | HSessions | HShells | HSessionSignal | HSessionKill | HSessionPatch | HFileDelete
  | HPlaybooksList | HPlaybooksGet | HPlaybooksPut | HPlaybooksDelete | HExecResult | HGps | HLte
  | HLteBands | HLteScan | HLteSpeedtest | HInfraResults | HInfraDiscover
  | HInfraDiscoverProgress | HInfraDiscoverSubnets | HInfraConfig | HInfraConfigDelete
  | HInfraCheck | HGxDownloadInit | HGxUploadInit | HGxChunkRequest | HGxResume | HGxAbort
  | HGxStatus | HGxList | HForwardedSession | HIgnore | HUnknown

definition relay_arms :: "(string \<times> relay_handler) list" where
  "relay_arms =
     [(''tunnel.exec'', HExec), (''tunnel.exec_batch'', HExecBatch), (''tunnel.info'', HInfo),
      (''tunnel.health'', HHealth), (''tunnel.diagnostics'', HDiagnostics),
      (''tunnel.file.read'', HFileRead), (''tunnel.file.write'', HFileWrite),
      (''tunnel.activity'', HActivity), (''tunnel.sessions'', HSessions),
      (''tunnel.shells'', HShells), (''tunnel.session.signal'', HSessionSignal),
      (''tunnel.session.kill'', HSessionKill), (''tunnel.session.patch'', HSessionPatch),
      (''tunnel.file.delete'', HFileDelete), (''tunnel.playbooks.list'', HPlaybooksList),
      (''tunnel.playbooks.get'', HPlaybooksGet), (''tunnel.playbooks.put'', HPlaybooksPut),
      (''tunnel.playbooks.delete'', HPlaybooksDelete), (''tunnel.exec_result'', HExecResult),
      (''tunnel.gps'', HGps), (''tunnel.lte'', HLte), (''tunnel.lte.bands'', HLteBands),
      (''tunnel.lte.scan'', HLteScan), (''tunnel.lte.speedtest'', HLteSpeedtest),
      (''tunnel.infra.results'', HInfraResults), (''tunnel.infra.discover'', HInfraDiscover),
      (''tunnel.infra.discover.progress'', HInfraDiscoverProgress),
      (''tunnel.infra.discover.subnets'', HInfraDiscoverSubnets),
      (''tunnel.infra.config'', HInfraConfig), (''tunnel.infra.config.delete'', HInfraConfigDelete),
      (''tunnel.infra.check'', HInfraCheck), (''gx.download.init'', HGxDownloadInit),
      (''gx.upload.init'', HGxUploadInit), (''gx.chunk.request'', HGxChunkRequest),
      (''gx.resume'', HGxResume), (''gx.abort'', HGxAbort), (''gx.status'', HGxStatus),
      (''gx.list'', HGxList)]"

definition relay_message_handler :: "json \<Rightarrow> relay_handler" where
  "relay_message_handler msg =
     (let t = json_str_or [] (json_index msg ''type'') in
      case map_of relay_arms t of
        Some h \<Rightarrow> h
      | None \<Rightarrow>
          if starts_with ''session.'' t \<or> starts_with ''shell.'' t \<or> starts_with ''job.'' t
          then HForwardedSession
          else if t = ''ping'' then HIgnore else HUnknown)"

definition relay_binary_known :: "json \<Rightarrow> bool" where
  "relay_binary_known header \<longleftrightarrow> json_str_or [] (json_index header ''type'') = ''gx.chunk''"

text \<open>
  The source of a proxied request. \<open>header_ok\<close> is \<open>HeaderValue::from_str(..).is_ok()\<close>; a source that
  is no legal header value leaves the header out.
\<close>

definition tunnel_headers :: "(string \<Rightarrow> bool) \<Rightarrow> json \<Rightarrow> (string \<times> string) list" where
  "tunnel_headers header_ok msg =
     (let source = json_str_or ''tunnel'' (json_index msg ''_source'')
      in if header_ok source then [(''x-sctl-client'', source)] else [])"

subsection \<open>Session output\<close>

definition TUNNEL_STREAM_BATCH_MAX_ENTRIES :: nat where "TUNNEL_STREAM_BATCH_MAX_ENTRIES = 32"
definition TUNNEL_STREAM_BATCH_MAX_BYTES :: nat where "TUNNEL_STREAM_BATCH_MAX_BYTES = 8 * 1024"

definition output_message :: "string \<Rightarrow> output_stream \<Rightarrow> string \<Rightarrow> u64 \<Rightarrow> u64 \<Rightarrow> json" where
  "output_message session_id stream data sq ts =
     JObj [(''type'', JStr (''session.'' @ stream_as_str stream)), (''session_id'', JStr session_id),
           (''data'', JStr data), (''seq'', JNum (uint sq)), (''timestamp_ms'', JNum (uint ts))]"

definition entry_to_ws_message :: "string \<Rightarrow> output_entry \<Rightarrow> json" where
  "entry_to_ws_message session_id entry =
     output_message session_id (oe_stream entry) (oe_data entry) (oe_seq entry) (oe_timestamp_ms entry)"

record batch =
  bt_out :: "json list"
  bt_stream :: "output_stream option"
  bt_data :: string
  bt_seq :: u64
  bt_timestamp_ms :: u64
  bt_count :: nat

definition flush_current :: "string \<Rightarrow> batch \<Rightarrow> batch" where
  "flush_current session_id b =
     (case bt_stream b of
        None \<Rightarrow> b
      | Some stream \<Rightarrow>
          b\<lparr>bt_out := bt_out b @ [output_message session_id stream (bt_data b) (bt_seq b) (bt_timestamp_ms b)],
            bt_stream := None, bt_data := [], bt_count := 0\<rparr>)"

definition batch_entry :: "string \<Rightarrow> output_entry \<Rightarrow> batch \<Rightarrow> batch" where
  "batch_entry session_id entry b =
     (let same_stream = (bt_stream b = Some (oe_stream entry));
          fits_bytes = (length (bt_data b) + length (oe_data entry) \<le> TUNNEL_STREAM_BATCH_MAX_BYTES);
          fits_count = (bt_count b < TUNNEL_STREAM_BATCH_MAX_ENTRIES);
          b' = (if \<not> same_stream \<or> \<not> fits_bytes \<or> \<not> fits_count
                then (flush_current session_id b)\<lparr>bt_stream := Some (oe_stream entry)\<rparr> else b)
      in b'\<lparr>bt_data := bt_data b' @ oe_data entry, bt_seq := oe_seq entry,
            bt_timestamp_ms := oe_timestamp_ms entry, bt_count := bt_count b' + 1\<rparr>)"

definition empty_batch :: batch where
  "empty_batch = \<lparr>bt_out = [], bt_stream = None, bt_data = [], bt_seq = 0, bt_timestamp_ms = 0, bt_count = 0\<rparr>"

definition batch_output_entries :: "string \<Rightarrow> output_entry list \<Rightarrow> json list" where
  "batch_output_entries session_id entries =
     bt_out (flush_current session_id (fold (batch_entry session_id) entries empty_batch))"

text \<open>
  One round of \<open>tunnel_subscriber_task\<close>: the messages it puts on the stream lane and its new cursor.
  With nothing to read it waits for the buffer's notification. (\<open>stream_tx.send\<close> waits while the lane
  is full; when the lane is closed the task ends, see \<open>tunnel_subscriber_task\<close> of the run below.)
\<close>

definition subscriber_round :: "string \<Rightarrow> u64 \<Rightarrow> output_buffer \<Rightarrow> json list \<times> u64" where
  "subscriber_round session_id cursor buf =
     (if has_entries_since cursor buf
      then let entries = fst (read_since cursor buf)
        in (batch_output_entries session_id entries,
            case entries of [] \<Rightarrow> cursor | _ \<Rightarrow> oe_seq (last entries))
      else ([], cursor))"

text \<open>The back-pressure accounting around a send: \<open>capacity\<close> is the room left on the lane.\<close>

definition note_backpressure :: "nat \<Rightarrow> bool \<times> tunnel_stats \<Rightarrow> bool \<times> tunnel_stats" where
  "note_backpressure capacity x =
     (let (active, st) = x in
      if capacity = 0 \<and> \<not> active
      then (True, st\<lparr>ts_stream_backpressure_events := ts_stream_backpressure_events st + 1\<rparr>)
      else if capacity > 0 \<and> active then (False, st) else x)"

text \<open>The task beside the writers of the session: chunks pushed to the buffer, and rounds of the task.\<close>

datatype buffer_step = Pushed push_env output_stream string | Round

record subscription =
  su_buffer :: output_buffer
  su_cursor :: u64
  su_sent :: "json list"

definition subscription_step :: "string \<Rightarrow> buffer_step \<Rightarrow> subscription \<Rightarrow> subscription" where
  "subscription_step session_id e s =
     (case e of
        Pushed env st d \<Rightarrow> s\<lparr>su_buffer := push env st d (su_buffer s)\<rparr>
      | Round \<Rightarrow>
          (let (msgs, cursor) = subscriber_round session_id (su_cursor s) (su_buffer s)
           in s\<lparr>su_sent := su_sent s @ msgs, su_cursor := cursor\<rparr>))"

definition tunnel_subscriber_task :: "string \<Rightarrow> buffer_step list \<Rightarrow> subscription \<Rightarrow> subscription" where
  "tunnel_subscriber_task session_id es s = fold (subscription_step session_id) es s"

end
