(* ===== verification/Relay.thy ===== *)
theory Relay
  imports Auth Tunnel_Frame "HOL-Library.Char_ord" "HOL-Library.List_Lexorder"
begin

text \<open>
  The tunnel relay (\<open>server/src/tunnel/relay.rs\<close>): registration of devices, correlation of proxied
  requests with the answers of the device, routing of device messages to WebSocket clients,
  eviction and reconnection, the connection history and the device snapshots.

  The code shares state through \<open>Arc\<close>s. They are addresses here: \<open>rs_conns\<close> holds every connection
  a device has made, by its connection number, and \<open>rs_devices\<close> says which one is registered for a
  serial; the clients, subscriptions and last telemetry that a reconnecting device takes over from
  its predecessor are one \<open>hub\<close>. A proxied request that waits for its oneshot channel is a \<open>call\<close>,
  and \<open>pending\<close> maps request ids to calls. The steps below are the stretches of code between two
  releases of the device map's lock, so that any order of them is an interleaving of the handlers.
\<close>

subsection \<open>Connection history\<close>

definition MAX_CONNECTION_HISTORY :: nat where "MAX_CONNECTION_HISTORY = 100"

record connection_session =
  cs_serial :: string
  cs_connected_at :: nat
  cs_disconnected_at :: "nat option"
  cs_reason :: "string option"
  cs_heartbeat_age_ms :: "u64 option"

type_synonym connection_history = "connection_session list"

definition open_session :: "nat \<Rightarrow> string \<Rightarrow> connection_session" where
  "open_session now serial = \<lparr>cs_serial = serial, cs_connected_at = now, cs_disconnected_at = None,
     cs_reason = None, cs_heartbeat_age_ms = None\<rparr>"

definition record_connect :: "nat \<Rightarrow> string \<Rightarrow> connection_history \<Rightarrow> connection_history" where
  "record_connect now serial h = ring_push MAX_CONNECTION_HISTORY (open_session now serial) h"

fun update_first :: "('a \<Rightarrow> bool) \<Rightarrow> ('a \<Rightarrow> 'a) \<Rightarrow> 'a list \<Rightarrow> 'a list" where
  "update_first P f [] = []"
| "update_first P f (x # xs) = (if P x then f x # xs else x # update_first P f xs)"

definition record_disconnect ::
  "nat \<Rightarrow> string \<Rightarrow> string \<Rightarrow> u64 option \<Rightarrow> connection_history \<Rightarrow> connection_history" where
  "record_disconnect now serial reason age h =
     rev (update_first (\<lambda>s. cs_serial s = serial \<and> cs_disconnected_at s = None)
       (\<lambda>s. s\<lparr>cs_disconnected_at := Some now, cs_reason := Some reason, cs_heartbeat_age_ms := age\<rparr>) (rev h))"

subsection \<open>Seeding the history from the system journal\<close>

text \<open>\<open>strip_ansi\<close>: an escape character drops everything up to and including the next letter.\<close>

definition is_ascii_alpha :: "char \<Rightarrow> bool" where
  "is_ascii_alpha c \<longleftrightarrow> (let n = of_char c :: nat in (65 \<le> n \<and> n \<le> 90) \<or> (97 \<le> n \<and> n \<le> 122))"

fun strip_ansi :: "bool \<Rightarrow> string \<Rightarrow> string" where
  "strip_ansi esc [] = []"
| "strip_ansi esc (c # s) =
     (if esc then strip_ansi (\<not> is_ascii_alpha c) s
      else if c = CHR 0x1B then strip_ansi True s
      else c # strip_ansi False s)"

text \<open>What follows the last occurrence of a text, \<open>rfind\<close> and the slice behind it.\<close>

fun after_last :: "string \<Rightarrow> string \<Rightarrow> string option" where
  "after_last p [] = strip_prefix p []"
| "after_last p (c # s) = (case after_last p s of Some r \<Rightarrow> Some r | None \<Rightarrow> strip_prefix p (c # s))"

definition extract_serial_from_log :: "string \<Rightarrow> string option" where
  "extract_serial_from_log msg =
     (case after_last ''serial='' (strip_ansi False msg) of
        None \<Rightarrow> None
      | Some rest \<Rightarrow>
         (let serial = takeWhile (\<lambda>c. \<not> is_ws c \<and> c \<noteq> CHR '','') rest
          in if serial = [] then None else Some serial))"

type_synonym seed_state = "connection_history \<times> (string, nat) hmap"

definition close_open :: "bool \<Rightarrow> nat \<Rightarrow> string \<Rightarrow> nat \<Rightarrow> connection_history \<Rightarrow> connection_history" where
  "close_open only_open ts reason idx h =
     (if idx < length h \<and> (only_open \<longrightarrow> cs_disconnected_at (h ! idx) = None)
      then h[idx := (h ! idx)\<lparr>cs_disconnected_at := Some ts, cs_reason := Some reason\<rparr>]
      else h)"

definition seed_close :: "bool \<Rightarrow> nat \<Rightarrow> string \<Rightarrow> string \<Rightarrow> seed_state \<Rightarrow> seed_state" where
  "seed_close only_open ts reason serial st =
     (case st of (h, opens) \<Rightarrow>
        (case hm_get opens serial of
           None \<Rightarrow> (h, opens)
         | Some idx \<Rightarrow> (close_open only_open ts reason idx h, hm_remove serial opens)))"

definition seed_line :: "nat \<Rightarrow> string \<Rightarrow> seed_state \<Rightarrow> seed_state" where
  "seed_line ts msg st =
     (let on_serial = (\<lambda>f. case extract_serial_from_log msg of None \<Rightarrow> st | Some serial \<Rightarrow> f serial) in
      if contains_str ''Device registered'' msg
      then on_serial (\<lambda>serial. case seed_close True ts ''replaced'' serial st of (h, opens) \<Rightarrow>
             (h @ [open_session ts serial], hm_insert serial (length h) opens))
      else if contains_str ''Evicted device (heartbeat timeout)'' msg
      then on_serial (\<lambda>serial. seed_close False ts ''heartbeat_timeout'' serial st)
      else if contains_str ''Evicted device (broadcast send failed)'' msg
      then on_serial (\<lambda>serial. seed_close False ts ''send_failed'' serial st)
      else if contains_str ''Device disconnected'' msg
      then on_serial (\<lambda>serial. seed_close False ts ''disconnected'' serial st)
      else if contains_str ''Shutting down'' msg
      then (fold (\<lambda>(_, idx) h. close_open True ts ''relay_shutdown'' idx h) (snd st) (fst st), [])
      else st)"

text \<open>
  One journal line. \<open>lossy\<close> stands for \<open>String::from_utf8_lossy\<close>. \<open>n as u8\<close> of an array element
  keeps its low byte.
\<close>

definition journal_message :: "(u8 list \<Rightarrow> string) \<Rightarrow> json \<Rightarrow> string option" where
  "journal_message lossy entry =
     (case json_as_str (json_index entry ''MESSAGE'') of
        Some s \<Rightarrow> Some s
      | None \<Rightarrow>
         (case json_as_array (json_index entry ''MESSAGE'') of
            Some vs \<Rightarrow> Some (lossy (map ucast (List.map_filter json_as_u64 vs)))
          | None \<Rightarrow> None))"

definition journal_secs :: "json \<Rightarrow> nat" where
  "journal_secs entry =
     (case Option.bind (json_as_str (json_index entry ''__REALTIME_TIMESTAMP'')) (parse_uint 64) of
        None \<Rightarrow> 0
      | Some n \<Rightarrow> n div 1000000)"

definition seed_entry ::
  "(string \<Rightarrow> json option) \<Rightarrow> (u8 list \<Rightarrow> string) \<Rightarrow> string \<Rightarrow> seed_state \<Rightarrow> seed_state" where
  "seed_entry de lossy line st =
     (case de line of
        None \<Rightarrow> st
      | Some entry \<Rightarrow>
         (case journal_message lossy entry of
            None \<Rightarrow> st
          | Some msg \<Rightarrow> seed_line (journal_secs entry) msg st))"

definition seed_from_journal ::
  "(string \<Rightarrow> json option) \<Rightarrow> (u8 list \<Rightarrow> string) \<Rightarrow> string option \<Rightarrow> connection_history \<Rightarrow> connection_history" where
  "seed_from_journal de lossy output h0 =
     (case output of
        None \<Rightarrow> h0
      | Some stdout \<Rightarrow>
         (let h = fst (fold (seed_entry de lossy) (lines stdout) ([], []))
          in drop (length h - MAX_CONNECTION_HISTORY) h))"

subsection \<open>State\<close>

record device_snapshot =
  dn_serial :: string
  dn_lte_signal :: "json option"
  dn_gps_fix :: "json option"
  dn_watchdog :: "json option"
  dn_last_seen :: nat

text \<open>
  The channel to a WebSocket client, a bounded queue of capacity 256, and the hub of a device. A
  \<open>HashSet\<close> of client ids is a list without repetitions.
\<close>

definition CLIENT_QUEUE :: nat where "CLIENT_QUEUE = 256"

record client_chan =
  cc_queue :: "json list"
  cc_closed :: bool

record hub =
  hb_clients :: "(string, client_chan) hmap"
  hb_subs :: "(string, string list) hmap"
  hb_gps_fix :: "json option"
  hb_lte_signal :: "json option"

definition new_hub :: hub where
  "new_hub = \<lparr>hb_clients = [], hb_subs = [], hb_gps_fix = None, hb_lte_signal = None\<rparr>"

record connection =
  cn_serial :: string
  cn_api_key :: string
  cn_queue :: "tunnel_message list"
  cn_priority :: "tunnel_message list"
  cn_closed :: bool
  cn_pending :: "(string, nat) hmap"
  cn_hub :: nat
  cn_heartbeat_ms :: u64
  cn_connected_since :: instant
  cn_pong_count :: u64
  cn_dropped :: u64
  cn_shutdown :: bool

datatype call_state = Waiting | Answered tunnel_response | SenderGone | TimedOut

record call =
  ca_serial :: string
  ca_conn :: u64
  ca_rid :: string
  ca_state :: call_state

record relay_state =
  rs_devices :: "(string, u64) hmap"
  rs_conns :: "(u64, connection) hmap"
  rs_hubs :: "(nat, hub) hmap"
  rs_calls :: "(nat, call) hmap"
  rs_leaving :: "u64 list"
  rs_tunnel_key :: string
  rs_heartbeat_timeout_secs :: u64
  rs_proxy_timeout_secs :: u64
  rs_epoch :: instant
  rs_history :: connection_history
  rs_snapshots :: "(string, device_snapshot) hmap"
  rs_next_connection_id :: u64
  rs_snapshots_dirty :: bool
  rs_snapshots_path :: "string option"

definition SNAPSHOT_MAX_AGE_SECS :: nat where "SNAPSHOT_MAX_AGE_SECS = 7 * 24 * 3600"

definition load_snapshots ::
  "(string \<Rightarrow> (string, device_snapshot) hmap option) \<Rightarrow> nat \<Rightarrow> string option \<Rightarrow> (string, device_snapshot) hmap" where
  "load_snapshots de now file =
     (case Option.bind file de of
        None \<Rightarrow> []
      | Some m \<Rightarrow> filter (\<lambda>(_, snap). now - dn_last_seen snap < SNAPSHOT_MAX_AGE_SECS) m)"

definition new_relay ::
  "string \<Rightarrow> u64 \<Rightarrow> u64 \<Rightarrow> string option \<Rightarrow> (string, device_snapshot) hmap \<Rightarrow> instant \<Rightarrow> relay_state" where
  "new_relay key heartbeat proxy path snapshots now =
     \<lparr>rs_devices = [], rs_conns = [], rs_hubs = [], rs_calls = [], rs_leaving = [], rs_tunnel_key = key,
      rs_heartbeat_timeout_secs = heartbeat, rs_proxy_timeout_secs = proxy, rs_epoch = now,
      rs_history = [], rs_snapshots = snapshots, rs_next_connection_id = 1,
      rs_snapshots_dirty = False, rs_snapshots_path = path\<rparr>"

definition now_ms :: "instant \<Rightarrow> relay_state \<Rightarrow> u64" where
  "now_ms now s = of_nat (as_millis (elapsed now (rs_epoch s)))"

definition on_conn :: "u64 \<Rightarrow> (connection \<Rightarrow> connection) \<Rightarrow> relay_state \<Rightarrow> relay_state" where
  "on_conn c f s = s\<lparr>rs_conns := hm_modify c f (rs_conns s)\<rparr>"

definition on_hub :: "nat \<Rightarrow> (hub \<Rightarrow> hub) \<Rightarrow> relay_state \<Rightarrow> relay_state" where
  "on_hub a f s = s\<lparr>rs_hubs := hm_modify a f (rs_hubs s)\<rparr>"

definition on_history :: "(connection_history \<Rightarrow> connection_history) \<Rightarrow> relay_state \<Rightarrow> relay_state" where
  "on_history f s = s\<lparr>rs_history := f (rs_history s)\<rparr>"

definition device :: "relay_state \<Rightarrow> string \<Rightarrow> (u64 \<times> connection) option" where
  "device s serial =
     (case hm_get (rs_devices s) serial of
        None \<Rightarrow> None
      | Some c \<Rightarrow> map_option (Pair c) (hm_get (rs_conns s) c))"

subsection \<open>Oneshot channels\<close>

text \<open>Completing a call has an effect only while its receiver waits.\<close>

definition complete :: "call_state \<Rightarrow> nat \<Rightarrow> relay_state \<Rightarrow> relay_state" where
  "complete st tok s =
     s\<lparr>rs_calls := hm_modify tok (\<lambda>c. if ca_state c = Waiting then c\<lparr>ca_state := st\<rparr> else c) (rs_calls s)\<rparr>"

text \<open>\<open>pending.remove(request_id)\<close> and the sender it yields.\<close>

definition take_pending :: "u64 \<Rightarrow> string \<Rightarrow> relay_state \<Rightarrow> nat option \<times> relay_state" where
  "take_pending c rid s =
     (Option.bind (hm_get (rs_conns s) c) (\<lambda>cn. hm_get (cn_pending cn) rid),
      on_conn c (\<lambda>cn. cn\<lparr>cn_pending := hm_remove rid (cn_pending cn)\<rparr>) s)"

definition answer_pending :: "u64 \<Rightarrow> string \<Rightarrow> tunnel_response \<Rightarrow> relay_state \<Rightarrow> relay_state" where
  "answer_pending c rid r s =
     (case take_pending c rid s of
        (None, s') \<Rightarrow> s'
      | (Some tok, s') \<Rightarrow> complete (Answered r) tok s')"

text \<open>Removing a pending entry without using its sender drops the sender.\<close>

definition drop_pending :: "u64 \<Rightarrow> string \<Rightarrow> relay_state \<Rightarrow> relay_state" where
  "drop_pending c rid s =
     (case take_pending c rid s of
        (None, s') \<Rightarrow> s'
      | (Some tok, s') \<Rightarrow> complete SenderGone tok s')"

definition drain_pending :: "u64 \<Rightarrow> json \<Rightarrow> relay_state \<Rightarrow> relay_state" where
  "drain_pending c err s =
     (case hm_get (rs_conns s) c of
        None \<Rightarrow> s
      | Some cn \<Rightarrow>
          on_conn c (\<lambda>cn. cn\<lparr>cn_pending := []\<rparr>)
            (fold (\<lambda>(_, tok). complete (Answered (RJson err)) tok) (cn_pending cn) s))"

definition error_message :: "string \<Rightarrow> string \<Rightarrow> json" where
  "error_message reason code =
     JObj [(''type'', JStr ''error''), (''status'', JNum 502),
           (''body'', JObj [(''error'', JStr reason), (''code'', JStr code)])]"

subsection \<open>Client channels\<close>

definition chan_try_send :: "json \<Rightarrow> client_chan \<Rightarrow> bool \<times> client_chan" where
  "chan_try_send m ch =
     (if cc_closed ch \<or> length (cc_queue ch) \<ge> CLIENT_QUEUE then (False, ch)
      else (True, ch\<lparr>cc_queue := cc_queue ch @ [m]\<rparr>))"

text \<open>\<open>send().await\<close> waits for room, so only a closed channel loses the message.\<close>

definition chan_send :: "json \<Rightarrow> client_chan \<Rightarrow> client_chan" where
  "chan_send m ch = (if cc_closed ch then ch else ch\<lparr>cc_queue := cc_queue ch @ [m]\<rparr>)"

definition on_client :: "string \<Rightarrow> (client_chan \<Rightarrow> client_chan) \<Rightarrow> hub \<Rightarrow> hub" where
  "on_client cid f h = h\<lparr>hb_clients := hm_modify cid f (hb_clients h)\<rparr>"

text \<open>A message for every client; how many channels refused it.\<close>

definition broadcast_clients :: "json \<Rightarrow> hub \<Rightarrow> hub \<times> nat" where
  "broadcast_clients m h =
     (h\<lparr>hb_clients := hm_map_values (\<lambda>ch. snd (chan_try_send m ch)) (hb_clients h)\<rparr>,
      length (filter (\<lambda>(_, ch). \<not> fst (chan_try_send m ch)) (hb_clients h)))"

definition count_dropped :: "u64 \<Rightarrow> nat \<Rightarrow> relay_state \<Rightarrow> relay_state" where
  "count_dropped c n s = on_conn c (\<lambda>cn. cn\<lparr>cn_dropped := cn_dropped cn + of_nat n\<rparr>) s"

definition hub_of :: "relay_state \<Rightarrow> u64 \<Rightarrow> (nat \<times> hub) option" where
  "hub_of s c =
     (case hm_get (rs_conns s) c of
        None \<Rightarrow> None
      | Some cn \<Rightarrow> map_option (Pair (cn_hub cn)) (hm_get (rs_hubs s) (cn_hub cn)))"

definition broadcast_from :: "u64 \<Rightarrow> json \<Rightarrow> relay_state \<Rightarrow> relay_state" where
  "broadcast_from c m s =
     (case hub_of s c of
        None \<Rightarrow> s
      | Some (a, h) \<Rightarrow>
          count_dropped c (snd (broadcast_clients m h)) (on_hub a (\<lambda>h. fst (broadcast_clients m h)) s))"

subsection \<open>Eviction\<close>

definition disconnect_notice :: "string \<Rightarrow> string \<Rightarrow> json" where
  "disconnect_notice serial reason =
     JObj [(''type'', JStr ''tunnel.device_disconnected''), (''serial'', JStr serial), (''reason'', JStr reason)]"

definition drain_device :: "u64 \<Rightarrow> string \<Rightarrow> relay_state \<Rightarrow> relay_state" where
  "drain_device c reason s =
     (let s1 = drain_pending c (error_message reason ''DEVICE_DISCONNECTED'') s in
      case hm_get (rs_conns s1) c of
        None \<Rightarrow> s1
      | Some cn \<Rightarrow>
          on_hub (cn_hub cn) (\<lambda>h. fst (broadcast_clients (disconnect_notice (cn_serial cn) reason) h)) s1)"

definition remove_device :: "string \<Rightarrow> relay_state \<Rightarrow> relay_state" where
  "remove_device serial s = s\<lparr>rs_devices := hm_remove serial (rs_devices s)\<rparr>"

definition heartbeat_age :: "instant \<Rightarrow> connection \<Rightarrow> relay_state \<Rightarrow> u64" where
  "heartbeat_age now cn s = saturating_sub (now_ms now s) (cn_heartbeat_ms cn)"

definition is_dead :: "instant \<Rightarrow> relay_state \<Rightarrow> string \<Rightarrow> bool" where
  "is_dead now s serial =
     (case device s serial of
        None \<Rightarrow> False
      | Some (_, cn) \<Rightarrow> heartbeat_age now cn s > rs_heartbeat_timeout_secs s * 1000)"

definition sweep_one :: "instant \<Rightarrow> nat \<Rightarrow> string \<Rightarrow> string list \<times> relay_state \<Rightarrow> string list \<times> relay_state" where
  "sweep_one now secs serial ds =
     (case ds of (dead, s) \<Rightarrow>
      if is_dead now s serial
      then (case device s serial of
              None \<Rightarrow> (dead, s)
            | Some (c, cn) \<Rightarrow>
                (dead @ [serial],
                 on_history (record_disconnect secs serial ''heartbeat_timeout'' (Some (heartbeat_age now cn s)))
                   (remove_device serial (drain_device c ''heartbeat timeout'' s))))
      else (dead, s))"

definition sweep_dead_devices :: "instant \<Rightarrow> nat \<Rightarrow> relay_state \<Rightarrow> string list \<times> relay_state" where
  "sweep_dead_devices now secs s = fold (sweep_one now secs) (map fst (rs_devices s)) ([], s)"

text \<open>
  \<open>broadcast_to_devices\<close> sends under the read lock and evicts under a later write lock; the two
  halves are separate. \<open>send().await\<close> fails only when the receiving half is gone.
\<close>

definition broadcast_send :: "json \<Rightarrow> relay_state \<Rightarrow> string list \<times> relay_state" where
  "broadcast_send m s =
     (map fst (filter (\<lambda>(serial, c). case hm_get (rs_conns s) c of Some cn \<Rightarrow> cn_closed cn | None \<Rightarrow> True)
                (rs_devices s)),
      fold (\<lambda>(serial, c). on_conn c (\<lambda>cn. if cn_closed cn then cn else cn\<lparr>cn_queue := cn_queue cn @ [TText m]\<rparr>))
        (rs_devices s) s)"

definition evict_failed :: "nat \<Rightarrow> string list \<Rightarrow> relay_state \<Rightarrow> relay_state" where
  "evict_failed secs serials s =
     fold (\<lambda>serial s. on_history (record_disconnect secs serial ''send_failed'' None)
             (remove_device serial
               (case device s serial of None \<Rightarrow> s | Some (c, _) \<Rightarrow> drain_device c ''broadcast send failed'' s)))
       serials s"

definition drain_all :: "nat \<Rightarrow> relay_state \<Rightarrow> relay_state" where
  "drain_all secs s =
     (fold (\<lambda>(serial, c) s. on_history (record_disconnect secs serial ''relay_shutdown'' None)
              (drain_device c ''relay shutting down'' s)) (rs_devices s) s)\<lparr>rs_devices := []\<rparr>"

subsection \<open>Snapshots\<close>

definition touch_snapshot :: "nat \<Rightarrow> string \<Rightarrow> relay_state \<Rightarrow> relay_state" where
  "touch_snapshot now serial s =
     (case hm_get (rs_snapshots s) serial of
        None \<Rightarrow> s
      | Some _ \<Rightarrow> s\<lparr>rs_snapshots := hm_modify serial (\<lambda>n. n\<lparr>dn_last_seen := now\<rparr>) (rs_snapshots s),
                    rs_snapshots_dirty := True\<rparr>)"

definition update_device_snapshot :: "nat \<Rightarrow> string \<Rightarrow> string \<Rightarrow> json \<Rightarrow> relay_state \<Rightarrow> relay_state" where
  "update_device_snapshot now serial field v s =
     (let old = (case hm_get (rs_snapshots s) serial of
                   Some n \<Rightarrow> n
                 | None \<Rightarrow> \<lparr>dn_serial = serial, dn_lte_signal = None, dn_gps_fix = None, dn_watchdog = None,
                            dn_last_seen = now\<rparr>);
          new = (if field = ''lte.signal'' then old\<lparr>dn_lte_signal := Some v\<rparr>
                 else if field = ''gps.fix'' then old\<lparr>dn_gps_fix := Some v\<rparr>
                 else if field = ''lte.watchdog'' then old\<lparr>dn_watchdog := Some v\<rparr>
                 else old)
      in s\<lparr>rs_snapshots := hm_insert serial (new\<lparr>dn_last_seen := now\<rparr>) (rs_snapshots s),
           rs_snapshots_dirty := True\<rparr>)"

text \<open>\<open>save_snapshots\<close>: what is written, if anything; the write goes to a temporary file and is renamed.\<close>

definition save_snapshots :: "relay_state \<Rightarrow> (string \<times> (string, device_snapshot) hmap) option \<times> relay_state" where
  "save_snapshots s =
     (if \<not> rs_snapshots_dirty s then (None, s)
      else (map_option (\<lambda>path. (path, rs_snapshots s)) (rs_snapshots_path s), s\<lparr>rs_snapshots_dirty := False\<rparr>))"

subsection \<open>Registration\<close>

definition is_alnum :: "char \<Rightarrow> bool" where
  "is_alnum c \<longleftrightarrow> is_ascii_alpha c \<or> digit_val c \<noteq> None"

definition is_valid_serial :: "string \<Rightarrow> bool" where
  "is_valid_serial s \<longleftrightarrow> s \<noteq> [] \<and> length s \<le> 64
     \<and> list_all (\<lambda>c. is_alnum c \<or> c = CHR ''-'' \<or> c = CHR ''_'' \<or> c = CHR ''.'') s"

text \<open>The guards of the upgrade, and of the first message on the socket.\<close>

definition device_register_ws :: "string \<Rightarrow> string \<Rightarrow> relay_state \<Rightarrow> (nat \<times> string) + unit" where
  "device_register_ws token serial s =
     (if \<not> constant_time_eq (bytes (rs_tunnel_key s)) (bytes token) then Inl (403, ''Invalid tunnel key'')
      else if \<not> is_valid_serial serial then Inl (400, ''Invalid serial format'')
      else Inr ())"

definition registration_key :: "json option \<Rightarrow> string option" where
  "registration_key first =
     (case first of
        None \<Rightarrow> None
      | Some msg \<Rightarrow>
          if json_as_str (json_index msg ''type'') = Some ''tunnel.register''
          then (let k = json_str_or [] (json_index msg ''api_key'') in if k = [] then None else Some k)
          else None)"

text \<open>
  The critical sections of a registration: the look at a predecessor under the read lock, the
  number of the connection from an atomic counter, the exchange of the map entry under the write
  lock, and the entry in the history.
\<close>

definition fresh_addr :: "(nat, 'v) hmap \<Rightarrow> nat" where
  "fresh_addr m = Suc (fold max (map fst m) 0)"

definition register_lookup :: "string \<Rightarrow> relay_state \<Rightarrow> nat \<times> relay_state" where
  "register_lookup serial s =
     (case device s serial of
        Some (_, cn) \<Rightarrow> (cn_hub cn, s)
      | None \<Rightarrow> (let a = fresh_addr (rs_hubs s) in (a, s\<lparr>rs_hubs := hm_insert a new_hub (rs_hubs s)\<rparr>)))"

definition new_connection :: "instant \<Rightarrow> string \<Rightarrow> string \<Rightarrow> nat \<Rightarrow> relay_state \<Rightarrow> connection" where
  "new_connection now serial key a s =
     \<lparr>cn_serial = serial, cn_api_key = key, cn_queue = [], cn_priority = [], cn_closed = False,
      cn_pending = [], cn_hub = a, cn_heartbeat_ms = now_ms now s, cn_connected_since = now,
      cn_pong_count = 0, cn_dropped = 0, cn_shutdown = False\<rparr>"

definition register_alloc :: "relay_state \<Rightarrow> u64 \<times> relay_state" where
  "register_alloc s = (rs_next_connection_id s, s\<lparr>rs_next_connection_id := rs_next_connection_id s + 1\<rparr>)"

definition register_insert :: "instant \<Rightarrow> string \<Rightarrow> string \<Rightarrow> nat \<Rightarrow> u64 \<Rightarrow> relay_state \<Rightarrow> relay_state" where
  "register_insert now serial key a c s =
     (let s1 = (case hm_get (rs_devices s) serial of
                  None \<Rightarrow> s
                | Some old \<Rightarrow>
                    drain_pending old (error_message ''device reconnecting'' ''DEVICE_RECONNECTING'')
                      (on_conn old (\<lambda>cn. cn\<lparr>cn_shutdown := True\<rparr>) s))
      in s1\<lparr>rs_conns := hm_insert c (new_connection now serial key a s) (rs_conns s1),
            rs_devices := hm_insert serial c (rs_devices s1)\<rparr>)"

definition register_record :: "nat \<Rightarrow> string \<Rightarrow> relay_state \<Rightarrow> relay_state" where
  "register_record secs serial s = on_history (record_connect secs serial) s"

subsection \<open>Messages from a device\<close>

definition PRIORITY_QUEUE :: nat where "PRIORITY_QUEUE = 32"

definition ends_with :: "string \<Rightarrow> string \<Rightarrow> bool" where
  "ends_with p s \<longleftrightarrow> starts_with (rev p) (rev s)"

text \<open>A request id tagged with a client: the part before the first colon, and the rest.\<close>

definition untag :: "string \<Rightarrow> (string \<times> string) option" where
  "untag rid =
     (case dropWhile (\<lambda>c. c \<noteq> CHR '':'') rid of
        [] \<Rightarrow> None
      | _ # rest \<Rightarrow> Some (takeWhile (\<lambda>c. c \<noteq> CHR '':'') rid, rest))"

definition tag :: "string \<Rightarrow> string \<Rightarrow> string" where
  "tag client_id rid = client_id @ '':'' @ rid"

text \<open>\<open>msg["request_id"] = json!(rid)\<close> on a message that has a request id, hence is an object.\<close>

definition with_request_id :: "string \<Rightarrow> json \<Rightarrow> json" where
  "with_request_id rid m = (case m of JObj kvs \<Rightarrow> JObj (put_field ''request_id'' (JStr rid) kvs) | _ \<Rightarrow> m)"

definition to_client :: "u64 \<Rightarrow> string \<Rightarrow> json \<Rightarrow> relay_state \<Rightarrow> relay_state" where
  "to_client c client_id m s =
     (case hub_of s c of None \<Rightarrow> s | Some (a, _) \<Rightarrow> on_hub a (on_client client_id (chan_send m)) s)"

definition gap_notice :: "string \<Rightarrow> json" where
  "gap_notice sid =
     JObj [(''type'', JStr ''session.gap''), (''session_id'', JStr sid), (''reason'', JStr ''backpressure'')]"

text \<open>
  Output of a session goes to its subscribers. A refused message counts as dropped and the client
  is told of the gap, if there is room for that. The code has a branch for a single subscriber,
  which differs only in not copying the message.
\<close>

definition deliver_output :: "json \<Rightarrow> string \<Rightarrow> client_chan \<Rightarrow> client_chan" where
  "deliver_output m sid ch =
     (case chan_try_send m ch of
        (True, ch') \<Rightarrow> ch'
      | (False, ch') \<Rightarrow> snd (chan_try_send (gap_notice sid) ch'))"

definition refused :: "json \<Rightarrow> hub \<Rightarrow> string \<Rightarrow> bool" where
  "refused m h cid = (case hm_get (hb_clients h) cid of None \<Rightarrow> False | Some ch \<Rightarrow> \<not> fst (chan_try_send m ch))"

definition route_output :: "u64 \<Rightarrow> json \<Rightarrow> relay_state \<Rightarrow> relay_state" where
  "route_output c m s =
     (case (json_as_str (json_index m ''session_id''), hub_of s c) of
        (Some sid, Some (a, h)) \<Rightarrow>
          (case hm_get (hb_subs h) sid of
             None \<Rightarrow> s
           | Some cids \<Rightarrow>
               count_dropped c (length (filter (refused m h) cids))
                 (on_hub a (\<lambda>h. fold (\<lambda>cid. on_client cid (deliver_output m sid)) cids h) s))
      | _ \<Rightarrow> s)"

definition route_response :: "u64 \<Rightarrow> json \<Rightarrow> relay_state \<Rightarrow> relay_state" where
  "route_response c m s =
     (case json_as_str (json_index m ''request_id'') of
        None \<Rightarrow> s
      | Some rid \<Rightarrow>
         (case untag rid of
            Some (client_id, original) \<Rightarrow> to_client c client_id (with_request_id original m) s
          | None \<Rightarrow> answer_pending c rid (RJson m) s))"

definition lifecycle_types :: "string list" where
  "lifecycle_types = [''session.started'', ''session.created'', ''session.destroyed'', ''session.closed'',
     ''session.exited'', ''session.renamed'', ''session.ai_status_changed'', ''session.ai_permission_changed'',
     ''session.exec.ack'', ''session.signal.ack'', ''session.resize.ack'', ''session.attached'',
     ''session.listed'', ''session.allow_ai.ack'', ''session.ai_status.ack'', ''session.rename.ack'',
     ''shell.listed'', ''activity.new'', ''gx.progress'', ''gx.complete'', ''gx.error'', ''error'']"

definition set_add :: "'a \<Rightarrow> 'a list \<Rightarrow> 'a list" where
  "set_add x xs = (if x \<in> set xs then xs else xs @ [x])"

definition subscribe :: "string \<Rightarrow> string \<Rightarrow> hub \<Rightarrow> hub" where
  "subscribe sid cid h =
     h\<lparr>hb_subs := hm_insert sid (set_add cid (case hm_get (hb_subs h) sid of None \<Rightarrow> [] | Some cs \<Rightarrow> cs)) (hb_subs h)\<rparr>"

definition lifecycle_subs :: "string \<Rightarrow> json \<Rightarrow> hub \<Rightarrow> hub" where
  "lifecycle_subs ty m h =
     (let sid = json_as_str (json_index m ''session_id'');
          h1 = (if ty = ''session.destroyed'' \<or> ty = ''session.closed''
                then (case sid of None \<Rightarrow> h | Some x \<Rightarrow> h\<lparr>hb_subs := hm_remove x (hb_subs h)\<rparr>) else h)
      in if ty = ''session.started''
         then (case (Option.bind (json_as_str (json_index m ''request_id'')) untag, sid) of
                 (Some (client_id, _), Some x) \<Rightarrow> subscribe x client_id h1
               | _ \<Rightarrow> h1)
         else h1)"

definition on_own_hub :: "u64 \<Rightarrow> (hub \<Rightarrow> hub) \<Rightarrow> relay_state \<Rightarrow> relay_state" where
  "on_own_hub c f s = (case hub_of s c of None \<Rightarrow> s | Some (a, _) \<Rightarrow> on_hub a f s)"

definition route_lifecycle :: "u64 \<Rightarrow> string \<Rightarrow> json \<Rightarrow> relay_state \<Rightarrow> relay_state" where
  "route_lifecycle c ty m s0 =
     (let s = on_own_hub c (lifecycle_subs ty m) s0 in
      case Option.bind (json_as_str (json_index m ''request_id'')) untag of
        Some (client_id, original) \<Rightarrow> to_client c client_id (with_request_id original m) s
      | None \<Rightarrow> broadcast_from c m s)"

definition telemetry :: "nat \<Rightarrow> u64 \<Rightarrow> string \<Rightarrow> json \<Rightarrow> relay_state \<Rightarrow> relay_state" where
  "telemetry secs c ty m s =
     (case hm_get (rs_conns s) c of
        None \<Rightarrow> s
      | Some cn \<Rightarrow>
          broadcast_from c m
            (update_device_snapshot secs (cn_serial cn) ty m
              (on_own_hub c (\<lambda>h. if ty = ''gps.fix'' then h\<lparr>hb_gps_fix := Some m\<rparr>
                                 else if ty = ''lte.signal'' then h\<lparr>hb_lte_signal := Some m\<rparr> else h) s)))"

definition beat :: "instant \<Rightarrow> u64 \<Rightarrow> relay_state \<Rightarrow> relay_state" where
  "beat now c s = on_conn c (\<lambda>cn. cn\<lparr>cn_heartbeat_ms := now_ms now s, cn_pong_count := cn_pong_count cn + 1\<rparr>) s"

definition device_ping :: "instant \<Rightarrow> u64 \<Rightarrow> relay_state \<Rightarrow> bool \<times> relay_state" where
  "device_ping now c s =
     (let s1 = beat now c s; pong = TText (JObj [(''type'', JStr ''tunnel.pong'')]) in
      case hm_get (rs_conns s1) c of
        None \<Rightarrow> (False, s1)
      | Some cn \<Rightarrow>
          if cn_closed cn then (False, s1)
          else if length (cn_priority cn) \<ge> PRIORITY_QUEUE then (True, s1)
          else (True, on_conn c (\<lambda>cn. cn\<lparr>cn_priority := cn_priority cn @ [pong]\<rparr>) s1))"

text \<open>A text message of connection \<open>c\<close>, already parsed; \<open>False\<close> ends the handler's loop.\<close>

definition device_text :: "instant \<Rightarrow> nat \<Rightarrow> u64 \<Rightarrow> json \<Rightarrow> relay_state \<Rightarrow> bool \<times> relay_state" where
  "device_text now secs c m s =
     (let ty = json_str_or [] (json_index m ''type'') in
      if ty \<in> set [''session.stdout'', ''session.stderr'', ''session.system''] then (True, route_output c m s)
      else if ty = ''tunnel.ping'' then device_ping now c s
      else if ty = ''tunnel.pong'' then (True, beat now c s)
      else if ends_with ''.result'' ty \<or> ends_with ''.ack'' ty then (True, route_response c m s)
      else if ty \<in> set lifecycle_types then (True, route_lifecycle c ty m s)
      else if ty \<in> set [''gps.fix'', ''lte.signal'', ''lte.watchdog''] then (True, telemetry secs c ty m s)
      else (True, s))"

definition device_binary :: "(u8 list \<Rightarrow> json option) \<Rightarrow> u64 \<Rightarrow> u8 list \<Rightarrow> relay_state \<Rightarrow> relay_state" where
  "device_binary de c data s =
     (case decode_binary_frame de data of
        None \<Rightarrow> s
      | Some (header, payload) \<Rightarrow>
         (case json_as_str (json_index header ''request_id'') of
            None \<Rightarrow> s
          | Some rid \<Rightarrow> answer_pending c rid (RBinary header payload) s))"

text \<open>
  The relay's own ping task: a tick of its interval. The counters are its local variables; \<open>None\<close>
  means that it reports the write path dead and ends.
\<close>

definition relay_ping_tick :: "u64 \<Rightarrow> u32 \<times> u64 \<Rightarrow> (u32 \<times> u64) option" where
  "relay_ping_tick pongs st =
     (case st of (sent, seen) \<Rightarrow>
      if pongs > seen then Some (0, pongs)
      else if sent + 1 \<ge> 3 then None else Some (sent + 1, seen))"

text \<open>
  The end of a handler: the check for a successor under the read lock (\<open>unseen\<close> is what
  \<open>shutdown_rx.has_changed()\<close> reports).
\<close>

definition exit_check :: "u64 \<Rightarrow> string \<Rightarrow> bool \<Rightarrow> relay_state \<Rightarrow> bool" where
  "exit_check c reason unseen s =
     (unseen \<or> reason = ''replaced''
      \<or> (case hm_get (rs_conns s) c of
           None \<Rightarrow> False
         | Some cn \<Rightarrow> (case hm_get (rs_devices s) (cn_serial cn) of None \<Rightarrow> False | Some d \<Rightarrow> d \<noteq> c)))"

text \<open>
  A handler that was replaced only writes the history. The others read the age of the heartbeat,
  take the device out of the map if it is still their own, and drain it after the lock is released;
  in between the connection is in \<open>rs_leaving\<close>.
\<close>

definition exit_replaced :: "nat \<Rightarrow> u64 \<Rightarrow> relay_state \<Rightarrow> relay_state" where
  "exit_replaced secs c s =
     (case hm_get (rs_conns s) c of
        None \<Rightarrow> s
      | Some cn \<Rightarrow> on_conn c (\<lambda>cn. cn\<lparr>cn_closed := True\<rparr>)
                     (on_history (record_disconnect secs (cn_serial cn) ''replaced'' None) s))"

definition exit_age :: "instant \<Rightarrow> u64 \<Rightarrow> relay_state \<Rightarrow> u64 option" where
  "exit_age now c s =
     Option.bind (hm_get (rs_conns s) c)
       (\<lambda>cn. map_option (\<lambda>(_, d). heartbeat_age now d s) (device s (cn_serial cn)))"

definition exit_remove :: "u64 \<Rightarrow> relay_state \<Rightarrow> relay_state" where
  "exit_remove c s =
     (case hm_get (rs_conns s) c of
        None \<Rightarrow> s
      | Some cn \<Rightarrow>
          if hm_get (rs_devices s) (cn_serial cn) = Some c
          then (remove_device (cn_serial cn) s)\<lparr>rs_leaving := rs_leaving s @ [c]\<rparr>
          else s)"

definition exit_drain :: "u64 \<Rightarrow> relay_state \<Rightarrow> relay_state" where
  "exit_drain c s =
     (if c \<in> set (rs_leaving s)
      then drain_device c ''device disconnected'' (s\<lparr>rs_leaving := removeAll c (rs_leaving s)\<rparr>)
      else s)"

definition exit_record :: "nat \<Rightarrow> u64 \<Rightarrow> string \<Rightarrow> u64 option \<Rightarrow> relay_state \<Rightarrow> relay_state" where
  "exit_record secs c reason age s =
     (case hm_get (rs_conns s) c of
        None \<Rightarrow> s
      | Some cn \<Rightarrow> on_conn c (\<lambda>cn. cn\<lparr>cn_closed := True\<rparr>)
                     (on_history (record_disconnect secs (cn_serial cn) reason age) s))"

subsection \<open>Proxied requests\<close>

definition MAX_PENDING :: nat where "MAX_PENDING = 256"

type_synonym http_error = "nat \<times> json"

definition http_err :: "nat \<Rightarrow> string \<Rightarrow> string \<Rightarrow> http_error" where
  "http_err status msg code = (status, JObj [(''error'', JStr msg), (''code'', JStr code)])"

definition device_not_found :: "string \<Rightarrow> http_error" where
  "device_not_found serial = http_err 404 (''Device '' @ [CHR 0x27] @ serial @ [CHR 0x27] @ '' not connected'') ''DEVICE_NOT_FOUND''"

text \<open>
  The first half of \<open>tunnel_request\<close> and of \<open>tunnel_request_binary\<close>, which runs under the read lock of
  the device map: the call waits afterwards. \<open>room\<close> says whether the device's queue had room within
  five seconds. Inserting under a request id that is already pending drops the older sender, and a
  failed send removes the new entry again.
\<close>

definition tunnel_request_start ::
  "string \<Rightarrow> string \<Rightarrow> tunnel_message \<Rightarrow> bool \<Rightarrow> relay_state \<Rightarrow> (http_error + nat) \<times> relay_state" where
  "tunnel_request_start serial rid m room s =
     (case device s serial of
        None \<Rightarrow> (Inl (device_not_found serial), s)
      | Some (c, cn) \<Rightarrow>
          if length (cn_pending cn) \<ge> MAX_PENDING
          then (Inl (http_err 503 ''Device has too many pending requests'' ''OVERLOADED''), s)
          else
           (let tok = fresh_addr (rs_calls s);
                s1 = drop_pending c rid s
            in if cn_closed cn
               then (Inl (http_err 502 ''Failed to send to device'' ''DEVICE_SEND_FAILED''), s1)
               else if \<not> room
               then (Inl (http_err 502 ''Device request queue stalled'' ''DEVICE_QUEUE_STALLED''), s1)
               else (Inr tok,
                     on_conn c (\<lambda>cn. cn\<lparr>cn_pending := hm_insert rid tok (cn_pending cn),
                                        cn_queue := cn_queue cn @ [m]\<rparr>)
                       (s1\<lparr>rs_calls := hm_insert tok \<lparr>ca_serial = serial, ca_conn = c, ca_rid = rid,
                              ca_state = Waiting\<rparr> (rs_calls s1)\<rparr>))))"

text \<open>The timeout of a waiting call, and the clean-up that follows it.\<close>

definition request_timeout :: "nat \<Rightarrow> relay_state \<Rightarrow> relay_state" where
  "request_timeout tok s = complete TimedOut tok s"

definition request_cleanup :: "nat \<Rightarrow> relay_state \<Rightarrow> relay_state" where
  "request_cleanup tok s =
     (case hm_get (rs_calls s) tok of
        None \<Rightarrow> s
      | Some ca \<Rightarrow> drop_pending (ca_conn ca) (ca_rid ca) s)"

text \<open>\<open>tunnel_request_binary\<close> looks the device up again by its serial.\<close>

definition request_cleanup_binary :: "nat \<Rightarrow> relay_state \<Rightarrow> relay_state" where
  "request_cleanup_binary tok s =
     (case hm_get (rs_calls s) tok of
        None \<Rightarrow> s
      | Some ca \<Rightarrow>
         (case device s (ca_serial ca) of
            None \<Rightarrow> s
          | Some (c, _) \<Rightarrow> drop_pending c (ca_rid ca) s))"

text \<open>What the caller gets in the end; \<open>None\<close> while it waits.\<close>

definition request_result :: "call_state \<Rightarrow> (http_error + tunnel_response) option" where
  "request_result st =
     (case st of
        Waiting \<Rightarrow> None
      | Answered r \<Rightarrow> Some (Inr r)
      | SenderGone \<Rightarrow> Some (Inl (http_err 502 ''Device connection lost'' ''DEVICE_DISCONNECTED''))
      | TimedOut \<Rightarrow> Some (Inl (http_err 504 ''Device did not respond in time'' ''TIMEOUT'')))"

definition tunnel_request_json :: "http_error + tunnel_response \<Rightarrow> http_error + json" where
  "tunnel_request_json r =
     (case r of
        Inl e \<Rightarrow> Inl e
      | Inr (RJson v) \<Rightarrow> Inr v
      | Inr (RBinary _ _) \<Rightarrow> Inl (http_err 500 ''Expected JSON response, got binary'' ''UNEXPECTED_BINARY''))"

subsection \<open>WebSocket clients\<close>

definition MAX_CLIENTS_PER_DEVICE :: nat where "MAX_CLIENTS_PER_DEVICE = 32"

text \<open>The guards of the upgrade: the connection whose queue, and the hub whose maps the handler gets.\<close>

definition proxy_ws :: "string \<Rightarrow> string \<Rightarrow> relay_state \<Rightarrow> (nat \<times> string) + (u64 \<times> nat)" where
  "proxy_ws serial token s =
     (case device s serial of
        None \<Rightarrow> Inl (404, ''Device not connected'')
      | Some (c, cn) \<Rightarrow>
          if \<not> constant_time_eq (bytes (cn_api_key cn)) (bytes token) then Inl (403, ''Invalid API key'')
          else if (case hm_get (rs_hubs s) (cn_hub cn) of
                     None \<Rightarrow> False | Some h \<Rightarrow> length (hb_clients h) \<ge> MAX_CLIENTS_PER_DEVICE)
          then Inl (429, ''Too many clients for this device'')
          else Inr (c, cn_hub cn))"

definition client_register :: "string \<Rightarrow> nat \<Rightarrow> relay_state \<Rightarrow> relay_state" where
  "client_register client_id a s =
     on_hub a (\<lambda>h. h\<lparr>hb_clients := hm_insert client_id \<lparr>cc_queue = [], cc_closed = False\<rparr> (hb_clients h)\<rparr>) s"

definition client_subs :: "string \<Rightarrow> string \<Rightarrow> json \<Rightarrow> hub \<Rightarrow> hub" where
  "client_subs client_id ty m h =
     (case json_as_str (json_index m ''session_id'') of
        None \<Rightarrow> h
      | Some sid \<Rightarrow>
          if ty = ''session.attach'' then subscribe sid client_id h
          else if ty = ''session.kill''
          then h\<lparr>hb_subs := hm_insert sid
                 (removeAll client_id (case hm_get (hb_subs h) sid of None \<Rightarrow> [] | Some cs \<Rightarrow> cs)) (hb_subs h)\<rparr>
          else h)"

text \<open>
  A text frame of a client, already parsed. The value says whether the handler's loop goes on; a
  frame that is no object makes the assignment of the request id panic.
\<close>

definition client_text ::
  "string \<Rightarrow> u64 \<Rightarrow> nat \<Rightarrow> bool \<Rightarrow> json \<Rightarrow> relay_state \<Rightarrow> (unit, bool) outcome \<times> relay_state" where
  "client_text client_id c a room m0 s =
     (let ty = json_str_or [] (json_index m0 ''type'');
          rid = json_str_or [] (json_index m0 ''request_id'')
      in case json_set m0 ''request_id'' (JStr (tag client_id rid)) of
           Panic msg \<Rightarrow> (Panic msg, s)
         | Err e \<Rightarrow> (Err e, s)
         | Ok m \<Rightarrow>
            (let s1 = on_hub a (client_subs client_id ty m) s in
             case hm_get (rs_conns s1) c of
               None \<Rightarrow> (Ok False, s1)
             | Some cn \<Rightarrow>
                 if cn_closed cn \<or> \<not> room then (Ok False, s1)
                 else (Ok True, on_conn c (\<lambda>cn. cn\<lparr>cn_queue := cn_queue cn @ [TText m]\<rparr>) s1)))"

text \<open>The clean-up when a client leaves: which sessions the device is told to detach.\<close>

definition drop_client :: "string \<Rightarrow> hub \<Rightarrow> hub" where
  "drop_client client_id h =
     h\<lparr>hb_clients := hm_remove client_id (hb_clients h),
       hb_subs := filter (\<lambda>(_, cs). cs \<noteq> []) (hm_map_values (removeAll client_id) (hb_subs h))\<rparr>"

definition detach_sessions :: "string \<Rightarrow> hub \<Rightarrow> string list" where
  "detach_sessions client_id h = map fst (filter (\<lambda>(_, cs). client_id \<in> set cs) (hb_subs h))"

definition detach_message :: "string \<Rightarrow> json" where
  "detach_message sid = JObj [(''type'', JStr ''session.detach''), (''session_id'', JStr sid)]"

definition client_close :: "string \<Rightarrow> u64 \<Rightarrow> nat \<Rightarrow> (string \<Rightarrow> bool) \<Rightarrow> relay_state \<Rightarrow> relay_state" where
  "client_close client_id c a room s =
     (case hm_get (rs_hubs s) a of
        None \<Rightarrow> s
      | Some h \<Rightarrow>
         (let h' = drop_client client_id h;
              gone = filter (\<lambda>sid. case hm_get (hb_subs h') sid of None \<Rightarrow> True | Some cs \<Rightarrow> cs = [])
                       (detach_sessions client_id h)
          in on_conn c (\<lambda>cn. if cn_closed cn then cn
                 else cn\<lparr>cn_queue := cn_queue cn @ map (TText \<circ> detach_message) (filter room gone)\<rparr>)
               (on_hub a (drop_client client_id) s)))"

subsection \<open>Reports\<close>

record live_device_status =
  lv_serial :: string
  lv_connected_since_ms :: u64
  lv_connected_at :: nat
  lv_heartbeat_age_ms :: u64
  lv_pending :: nat
  lv_subscriptions :: nat
  lv_subscribed_clients :: nat
  lv_clients :: nat
  lv_dropped :: u64
  lv_gps_fix :: "json option"
  lv_lte_signal :: "json option"

definition live_status :: "instant \<Rightarrow> nat \<Rightarrow> relay_state \<Rightarrow> connection \<Rightarrow> live_device_status" where
  "live_status now secs s cn =
     (let h = (case hm_get (rs_hubs s) (cn_hub cn) of Some h \<Rightarrow> h | None \<Rightarrow> new_hub);
          since = of_nat (as_millis (elapsed now (cn_connected_since cn))) :: u64
      in \<lparr>lv_serial = cn_serial cn, lv_connected_since_ms = since, lv_connected_at = secs - unat since div 1000,
          lv_heartbeat_age_ms = heartbeat_age now cn s, lv_pending = length (cn_pending cn),
          lv_subscriptions = length (hb_subs h), lv_subscribed_clients = sum_list (map (length \<circ> snd) (hb_subs h)),
          lv_clients = length (hb_clients h), lv_dropped = cn_dropped cn,
          lv_gps_fix = hb_gps_fix h, lv_lte_signal = hb_lte_signal h\<rparr>)"

definition live_device_statuses :: "instant \<Rightarrow> nat \<Rightarrow> relay_state \<Rightarrow> live_device_status list" where
  "live_device_statuses now secs s =
     sort_key lv_serial (map (live_status now secs s) (List.map_filter (\<lambda>(_, c). hm_get (rs_conns s) c) (rs_devices s)))"

end
