(* ===== verification/Relay_Props.thy ===== *)
theory Relay_Props
  imports Relay
begin

text \<open>
  Properties of the relay. Its handlers are a state machine over the steps of the theory \<open>Relay\<close>,
  in any order. The calls it keeps refine an abstract specification of remote procedure calls, no
  call waits on a connection that is gone, and session output reaches exactly the subscribers.
\<close>

subsection \<open>The relay as a state machine\<close>

datatype relay_op =
    OpRegisterLookup string
  | OpRegisterAlloc
  | OpRegisterInsert instant string string nat u64
  | OpRegisterRecord nat string
  | OpDeviceText instant nat u64 json
  | OpDeviceBinary "u8 list \<Rightarrow> json option" u64 "u8 list"
  | OpExitReplaced nat u64
  | OpExitRemove u64
  | OpExitDrain u64
  | OpExitRecord nat u64 string "u64 option"
  | OpSweep instant nat
  | OpBroadcast json
  | OpEvictFailed nat "string list"
  | OpDrainAll nat
  | OpTouch nat string
  | OpSave
  | OpRequest string string tunnel_message bool
  | OpTimeout nat
  | OpCleanup nat
  | OpCleanupBinary nat
  | OpClientRegister string nat
  | OpClientText string u64 nat bool json
  | OpClientClose string u64 nat "string \<Rightarrow> bool"
  | OpQueues u64 "tunnel_message list" "tunnel_message list"
  | OpClientQueue nat string client_chan

text \<open>
  The last two operations are the writer tasks: they take messages from the queues, and what is
  left of a queue is an argument.
\<close>

fun relay_step :: "relay_op \<Rightarrow> relay_state \<Rightarrow> relay_state" where
  "relay_step (OpRegisterLookup serial) s = snd (register_lookup serial s)"
| "relay_step OpRegisterAlloc s = snd (register_alloc s)"
| "relay_step (OpRegisterInsert now serial key a c) s = register_insert now serial key a c s"
| "relay_step (OpRegisterRecord secs serial) s = register_record secs serial s"
| "relay_step (OpDeviceText now secs c m) s = snd (device_text now secs c m s)"
| "relay_step (OpDeviceBinary de c data) s = device_binary de c data s"
| "relay_step (OpExitReplaced secs c) s = exit_replaced secs c s"
| "relay_step (OpExitRemove c) s = exit_remove c s"
| "relay_step (OpExitDrain c) s = exit_drain c s"
| "relay_step (OpExitRecord secs c reason age) s = exit_record secs c reason age s"
| "relay_step (OpSweep now secs) s = snd (sweep_dead_devices now secs s)"
| "relay_step (OpBroadcast m) s = snd (broadcast_send m s)"
| "relay_step (OpEvictFailed secs serials) s = evict_failed secs serials s"
| "relay_step (OpDrainAll secs) s = drain_all secs s"
| "relay_step (OpTouch now serial) s = touch_snapshot now serial s"
| "relay_step OpSave s = snd (save_snapshots s)"
| "relay_step (OpRequest serial rid m room) s = snd (tunnel_request_start serial rid m room s)"
| "relay_step (OpTimeout tok) s = request_timeout tok s"
| "relay_step (OpCleanup tok) s = request_cleanup tok s"
| "relay_step (OpCleanupBinary tok) s = request_cleanup_binary tok s"
| "relay_step (OpClientRegister cid a) s = client_register cid a s"
| "relay_step (OpClientText cid c a room m) s = snd (client_text cid c a room m s)"
| "relay_step (OpClientClose cid c a room) s = client_close cid c a room s"
| "relay_step (OpQueues c q p) s = on_conn c (\<lambda>cn. cn\<lparr>cn_queue := q, cn_priority := p\<rparr>) s"
| "relay_step (OpClientQueue a cid ch) s = on_hub a (on_client cid (\<lambda>_. ch)) s"

text \<open>A connection number drawn from the counter is new.\<close>

fun relay_admissible :: "relay_op \<Rightarrow> relay_state \<Rightarrow> bool" where
  "relay_admissible (OpRegisterInsert now serial key a c) s \<longleftrightarrow> hm_get (rs_conns s) c = None"
| "relay_admissible _ s \<longleftrightarrow> True"

subsection \<open>The core of the state\<close>

text \<open>
  Most operations touch neither the calls nor the pending requests. The core is what the
  invariant and the refinement are about.
\<close>

definition core_eq :: "relay_state \<Rightarrow> relay_state \<Rightarrow> bool" where
  "core_eq s t \<longleftrightarrow> rs_devices s = rs_devices t \<and> rs_calls s = rs_calls t \<and> rs_leaving s = rs_leaving t
     \<and> (\<forall>c. map_option (\<lambda>cn. (cn_serial cn, cn_pending cn)) (hm_get (rs_conns s) c)
          = map_option (\<lambda>cn. (cn_serial cn, cn_pending cn)) (hm_get (rs_conns t) c))"

lemma core_eq_refl [simp]: "core_eq s s"
  by (simp add: core_eq_def)

lemma core_eq_trans: "core_eq s t \<Longrightarrow> core_eq t u \<Longrightarrow> core_eq s u"
  by (simp add: core_eq_def)

lemma core_eq_on_conn:
  "(\<And>cn. cn_serial (f cn) = cn_serial cn \<and> cn_pending (f cn) = cn_pending cn) \<Longrightarrow> core_eq (on_conn c f s) s"
  by (auto simp: core_eq_def on_conn_def hm_simps option.map_comp o_def)

lemma core_eq_hub [simp]: "core_eq (on_hub a f s) s" "core_eq (on_own_hub c f s) s"
  by (auto simp: core_eq_def on_hub_def on_own_hub_def split: option.splits prod.splits)

lemma core_eq_other [simp]:
  "core_eq (on_history f s) s" "core_eq (update_device_snapshot now serial ty m s) s"
  "core_eq (touch_snapshot now serial s) s" "core_eq (snd (save_snapshots s)) s"
  "core_eq (snd (register_lookup serial s)) s" "core_eq (snd (register_alloc s)) s"
  "core_eq (count_dropped c n s) s" "core_eq (beat now c s) s"
  by (auto simp: core_eq_def on_history_def update_device_snapshot_def touch_snapshot_def save_snapshots_def
      register_lookup_def register_alloc_def count_dropped_def beat_def on_conn_def Let_def hm_simps
      option.map_comp o_def split: option.splits prod.splits)

lemma core_eq_broadcast_from [simp]: "core_eq (broadcast_from c m s) s"
  by (auto simp: broadcast_from_def split: option.splits prod.splits intro: core_eq_trans core_eq_other core_eq_hub)

lemma core_eq_to_client [simp]: "core_eq (to_client c cid m s) s"
  by (auto simp: to_client_def split: option.splits prod.splits)

lemma core_eq_route_output [simp]: "core_eq (route_output c m s) s"
  by (auto simp: route_output_def split: option.splits prod.splits
      intro: core_eq_trans [OF core_eq_other(7)])

lemma core_eq_route_lifecycle [simp]: "core_eq (route_lifecycle c ty m s) s"
  by (auto simp: route_lifecycle_def Let_def split: option.splits prod.splits
      intro: core_eq_trans [OF core_eq_to_client] core_eq_trans [OF core_eq_broadcast_from])

lemma core_eq_telemetry [simp]: "core_eq (telemetry secs c ty m s) s"
  unfolding telemetry_def
  by (split option.split)
    (blast intro: core_eq_refl core_eq_trans [OF core_eq_broadcast_from] core_eq_trans [OF core_eq_other(2)]
      core_eq_hub)

lemma core_eq_device_ping [simp]: "core_eq (snd (device_ping now c s)) s"
  by (auto simp: device_ping_def Let_def split: option.splits
      intro: core_eq_trans [OF core_eq_on_conn core_eq_other(8)])

lemma core_eq_fold: "(\<And>x t. core_eq (f x t) t) \<Longrightarrow> core_eq (fold f xs s) s"
  by (induction xs arbitrary: s) (auto intro: core_eq_trans)

lemma core_eq_broadcast_send [simp]: "core_eq (snd (broadcast_send m s)) s"
  unfolding broadcast_send_def snd_conv
  by (rule core_eq_fold) (auto intro!: core_eq_on_conn)

lemma core_eq_client [simp]:
  "core_eq (client_register cid a s) s" "core_eq (snd (client_text cid c a room m s)) s"
  "core_eq (client_close cid c a rooms s) s"
  by (auto simp: client_register_def client_text_def client_close_def Let_def split: option.splits outcome.splits
      intro: core_eq_trans [OF core_eq_on_conn core_eq_hub(1)])

subsection \<open>Calls\<close>

type_synonym rpc_state = "nat \<Rightarrow> (u64 \<times> string \<times> call_state) option"

definition rpc_of :: "relay_state \<Rightarrow> rpc_state" where
  "rpc_of s tok = map_option (\<lambda>ca. (ca_conn ca, ca_rid ca, ca_state ca)) (hm_get (rs_calls s) tok)"

definition rpc_failure :: "call_state \<Rightarrow> bool" where
  "rpc_failure st \<longleftrightarrow> st = SenderGone \<or> st = TimedOut \<or> (\<exists>reason code. st = Answered (RJson (error_message reason code)))"

text \<open>
  The specification of remote calls. A call is issued once, under a new token, to a connection
  with a request id. While it waits it may fail, or be answered by what that connection says under
  that request id. The outcome of a call never changes.
\<close>

inductive rpc_step :: "(u64 \<times> string \<times> tunnel_response) option \<Rightarrow> rpc_state \<Rightarrow> rpc_state \<Rightarrow> bool" where
  rpc_skip: "rpc_step ev r r"
| rpc_issue: "r tok = None \<Longrightarrow> rpc_step None r (r(tok \<mapsto> (c, rid, Waiting)))"
| rpc_answer: "r tok = Some (c, rid, Waiting)
    \<Longrightarrow> rpc_step (Some (c, rid, resp)) r (r(tok \<mapsto> (c, rid, Answered resp)))"
| rpc_fail: "r tok = Some (c, rid, Waiting) \<Longrightarrow> rpc_failure st \<Longrightarrow> rpc_step None r (r(tok \<mapsto> (c, rid, st)))"

definition rpc_move :: "(u64 \<times> string \<times> tunnel_response) option \<Rightarrow> rpc_state \<Rightarrow> rpc_state \<Rightarrow> bool" where
  "rpc_move ev r r' \<longleftrightarrow> (case ev of None \<Rightarrow> (rpc_step None)\<^sup>*\<^sup>* r r' | Some e \<Rightarrow> rpc_step (Some e) r r')"

abbreviation rpc_internal :: "rpc_state \<Rightarrow> rpc_state \<Rightarrow> bool" where
  "rpc_internal \<equiv> (rpc_step None)\<^sup>*\<^sup>*"

definition pend :: "relay_state \<Rightarrow> u64 \<Rightarrow> string \<Rightarrow> nat option" where
  "pend s c rid = Option.bind (hm_get (rs_conns s) c) (\<lambda>cn. hm_get (cn_pending cn) rid)"

definition serial_of :: "relay_state \<Rightarrow> u64 \<Rightarrow> string option" where
  "serial_of s c = map_option cn_serial (hm_get (rs_conns s) c)"

definition waiting :: "relay_state \<Rightarrow> nat \<Rightarrow> call \<Rightarrow> bool" where
  "waiting s tok ca \<longleftrightarrow> hm_get (rs_calls s) tok = Some ca \<and> ca_state ca = Waiting"

text \<open>
  The invariant: a registered connection exists and has the serial it is registered for; a pending
  entry belongs to the call it was made for; a waiting call is pending on the connection that is
  registered for its device, or on one whose handler is about to drain it.
\<close>

definition relay_inv :: "relay_state \<Rightarrow> bool" where
  "relay_inv s \<longleftrightarrow>
     (\<forall>serial c. hm_get (rs_devices s) serial = Some c \<longrightarrow> serial_of s c = Some serial)
   \<and> (\<forall>c rid tok. pend s c rid = Some tok \<longrightarrow>
        (\<exists>ca. hm_get (rs_calls s) tok = Some ca \<and> ca_conn ca = c \<and> ca_rid ca = rid))
   \<and> (\<forall>tok ca. waiting s tok ca \<longrightarrow>
        (hm_get (rs_devices s) (ca_serial ca) = Some (ca_conn ca) \<or> ca_conn ca \<in> set (rs_leaving s))
        \<and> pend s (ca_conn ca) (ca_rid ca) = Some tok)"

lemma core_eq_views:
  assumes "core_eq s t"
  shows "pend s = pend t" "serial_of s = serial_of t" "waiting s = waiting t" "rpc_of s = rpc_of t"
proof -
  have v: "map_option (\<lambda>cn. (cn_serial cn, cn_pending cn)) (hm_get (rs_conns s) c)
    = map_option (\<lambda>cn. (cn_serial cn, cn_pending cn)) (hm_get (rs_conns t) c)" for c
    using assms by (simp add: core_eq_def)
  show "pend s = pend t"
  proof (intro ext)
    fix c rid
    show "pend s c rid = pend t c rid" using v [of c] by (auto simp: pend_def split: bind_splits)
  qed
  show "serial_of s = serial_of t"
  proof (rule ext)
    fix c
    show "serial_of s c = serial_of t c" using v [of c]
      by (cases "hm_get (rs_conns s) c"; cases "hm_get (rs_conns t) c") (auto simp: serial_of_def)
  qed
  show "waiting s = waiting t" "rpc_of s = rpc_of t"
    using assms by (simp_all add: core_eq_def waiting_def fun_eq_iff rpc_of_def)
qed

lemma core_eq_leaving: "core_eq s t \<Longrightarrow> rs_leaving s = rs_leaving t"
  by (simp add: core_eq_def)

lemma core_eq_inv: "core_eq s t \<Longrightarrow> relay_inv s = relay_inv t"
  using core_eq_views [of s t] by (simp add: relay_inv_def core_eq_def)

subsection \<open>Effect of the operations on calls and pending entries\<close>

named_theorems rl_simps \<open>views of an updated relay\<close>

lemma complete_views [rl_simps]:
  "rs_devices (complete st tok s) = rs_devices s" "rs_leaving (complete st tok s) = rs_leaving s" "rs_conns (complete st tok s) = rs_conns s"
  "pend (complete st tok s) = pend s" "serial_of (complete st tok s) = serial_of s"
  by (simp_all add: complete_def fun_eq_iff pend_def serial_of_def)

lemma calls_complete:
  "hm_get (rs_calls (complete st tok s)) t =
     (if t = tok then map_option (\<lambda>c. if ca_state c = Waiting then c\<lparr>ca_state := st\<rparr> else c) (hm_get (rs_calls s) tok)
      else hm_get (rs_calls s) t)"
  by (simp add: complete_def hm_simps)

lemma waiting_complete [rl_simps]:
  "st \<noteq> Waiting \<Longrightarrow> waiting (complete st tok s) t ca \<longleftrightarrow> t \<noteq> tok \<and> waiting s t ca"
  by (auto simp: waiting_def calls_complete split: if_splits)

lemma complete_keeps: "(\<exists>ca. hm_get (rs_calls (complete st tok s)) t = Some ca \<and> ca_conn ca = c \<and> ca_rid ca = rid)
    \<longleftrightarrow> (\<exists>ca. hm_get (rs_calls s) t = Some ca \<and> ca_conn ca = c \<and> ca_rid ca = rid)"
  by (cases "hm_get (rs_calls s) tok") (auto simp: calls_complete)

lemma relay_inv_complete: "relay_inv s \<Longrightarrow> st \<noteq> Waiting \<Longrightarrow> relay_inv (complete st tok s)"
  unfolding relay_inv_def by (auto simp: rl_simps complete_keeps)

lemma rpc_of_complete:
  "rpc_of (complete st tok s) =
     (case rpc_of s tok of Some (c, rid, Waiting) \<Rightarrow> (rpc_of s)(tok \<mapsto> (c, rid, st)) | _ \<Rightarrow> rpc_of s)"
  by (auto simp: fun_eq_iff rpc_of_def calls_complete split: option.splits call_state.splits prod.splits)

lemma rpc_internal_complete: "rpc_failure st \<Longrightarrow> rpc_internal (rpc_of s) (rpc_of (complete st tok s))"
  by (auto simp: rpc_of_complete split: option.splits prod.splits call_state.splits intro!: rpc_fail)

lemma take_pending_views [rl_simps]:
  "fst (take_pending c rid s) = pend s c rid"
  "rs_devices (snd (take_pending c rid s)) = rs_devices s"
  "rs_leaving (snd (take_pending c rid s)) = rs_leaving s"
  "rs_calls (snd (take_pending c rid s)) = rs_calls s"
  "serial_of (snd (take_pending c rid s)) = serial_of s"
  "pend (snd (take_pending c rid s)) c' rid' = (if c' = c \<and> rid' = rid then None else pend s c' rid')"
  by (auto simp: take_pending_def pend_def on_conn_def serial_of_def hm_simps fun_eq_iff option.map_comp o_def
      split: bind_splits)

lemma take_pending_rpc [rl_simps]: "rpc_of (snd (take_pending c rid s)) = rpc_of s"
  "waiting (snd (take_pending c rid s)) = waiting s"
  by (simp_all add: fun_eq_iff rpc_of_def waiting_def rl_simps)

text \<open>Taking a pending entry and completing its call keeps the invariant.\<close>

definition settle :: "call_state \<Rightarrow> u64 \<Rightarrow> string \<Rightarrow> relay_state \<Rightarrow> relay_state" where
  "settle st c rid s =
     (case take_pending c rid s of (None, s') \<Rightarrow> s' | (Some tok, s') \<Rightarrow> complete st tok s')"

lemma settle_folds: "answer_pending c rid r = settle (Answered r) c rid" "drop_pending c rid = settle SenderGone c rid"
  by (simp_all add: fun_eq_iff settle_def answer_pending_def drop_pending_def)

lemma settle_cases:
  "settle st c rid s = (case pend s c rid of None \<Rightarrow> snd (take_pending c rid s)
     | Some tok \<Rightarrow> complete st tok (snd (take_pending c rid s)))"
  using take_pending_views(1) [of c rid s]
  by (cases "take_pending c rid s") (auto simp: settle_def split: option.splits)

lemma relay_invD:
  assumes "relay_inv s"
  shows "hm_get (rs_devices s) serial = Some c \<Longrightarrow> serial_of s c = Some serial"
    and "pend s c rid = Some tok \<Longrightarrow> \<exists>ca. hm_get (rs_calls s) tok = Some ca \<and> ca_conn ca = c \<and> ca_rid ca = rid"
    and "waiting s tok ca \<Longrightarrow> hm_get (rs_devices s) (ca_serial ca) = Some (ca_conn ca) \<or> ca_conn ca \<in> set (rs_leaving s)"
    and "waiting s tok ca \<Longrightarrow> pend s (ca_conn ca) (ca_rid ca) = Some tok"
  using assms by (auto simp: relay_inv_def)

lemma settle_views [rl_simps]:
  "rs_devices (settle st c rid s) = rs_devices s" "rs_leaving (settle st c rid s) = rs_leaving s" "serial_of (settle st c rid s) = serial_of s"
  "pend (settle st c rid s) c' rid' = (if c' = c \<and> rid' = rid then None else pend s c' rid')"
  by (simp_all add: settle_cases rl_simps split: option.split)

lemma waiting_settle:
  assumes "relay_inv s" and "st \<noteq> Waiting"
  shows "waiting (settle st c rid s) t ca \<longleftrightarrow> waiting s t ca \<and> \<not> (ca_conn ca = c \<and> ca_rid ca = rid)"
proof (cases "pend s c rid")
  case None
  then show ?thesis using relay_invD(4) [OF assms(1), of t ca] by (auto simp: settle_cases rl_simps)
next
  case (Some tok)
  moreover obtain ca' where "hm_get (rs_calls s) tok = Some ca'" "ca_conn ca' = c" "ca_rid ca' = rid"
    using relay_invD(2) [OF assms(1) Some] by blast
  ultimately show ?thesis using relay_invD(4) [OF assms(1), of t ca] assms(2)
    by (auto simp: settle_cases rl_simps) (auto simp: waiting_def)
qed

lemma relay_inv_settle:
  assumes "relay_inv s" and "st \<noteq> Waiting"
  shows "relay_inv (settle st c rid s)"
proof -
  have "\<exists>ca. hm_get (rs_calls (settle st c rid s)) t = Some ca \<and> ca_conn ca = c' \<and> ca_rid ca = rid'"
    if "pend s c' rid' = Some t" for t c' rid'
    using relay_invD(2) [OF assms(1) that]
    by (auto simp: settle_cases rl_simps complete_keeps split: option.split)
  then show ?thesis
    using assms relay_invD [OF assms(1)]
    by (auto simp: relay_inv_def rl_simps waiting_settle split: if_splits)
qed

lemma rpc_internal_settle: "rpc_failure st \<Longrightarrow> rpc_internal (rpc_of s) (rpc_of (settle st c rid s))"
  using rpc_internal_complete [of st "snd (take_pending c rid s)"]
  by (auto simp: settle_cases rl_simps split: option.split)

lemma rpc_answer_settle:
  assumes "relay_inv s"
  shows "rpc_step (Some (c, rid, r)) (rpc_of s) (rpc_of (settle (Answered r) c rid s))"
proof (cases "pend s c rid")
  case None
  then show ?thesis by (simp add: settle_cases rl_simps rpc_skip)
next
  case (Some tok)
  then obtain ca where "hm_get (rs_calls s) tok = Some ca" "ca_conn ca = c" "ca_rid ca = rid"
    using relay_invD(2) [OF assms] by blast
  then have "rpc_of s tok = Some (c, rid, ca_state ca)" by (simp add: rpc_of_def)
  then show ?thesis
    by (cases "ca_state ca") (auto simp: settle_cases Some rl_simps rpc_of_complete intro: rpc_skip rpc_answer)
qed

subsection \<open>Draining a connection\<close>

lemma drain_pending_eq:
  assumes "hm_get (rs_conns s) c = Some cn"
  shows "drain_pending c err s =
    on_conn c (\<lambda>cn. cn\<lparr>cn_pending := []\<rparr>) (fold (\<lambda>(_, tok). complete (Answered (RJson err)) tok) (cn_pending cn) s)"
  using assms by (simp add: drain_pending_def)

lemma fold_complete_views:
  assumes "st \<noteq> Waiting"
  shows "rs_devices (fold (\<lambda>(_, tok). complete st tok) ps s) = rs_devices s"
    "rs_leaving (fold (\<lambda>(_, tok). complete st tok) ps s) = rs_leaving s"
    "rs_conns (fold (\<lambda>(_, tok). complete st tok) ps s) = rs_conns s"
    "waiting (fold (\<lambda>(_, tok). complete st tok) ps s) t ca \<longleftrightarrow> waiting s t ca \<and> t \<notin> snd ` set ps"
    "relay_inv s \<Longrightarrow> relay_inv (fold (\<lambda>(_, tok). complete st tok) ps s)"
  using assms by (induction ps arbitrary: s) (auto simp: rl_simps relay_inv_complete)

lemma fold_complete_internal:
  "rpc_failure st \<Longrightarrow> rpc_internal (rpc_of s) (rpc_of (fold (\<lambda>(_, tok). complete st tok) ps s))"
  by (induction ps arbitrary: s) (auto intro: rtranclp_trans rpc_internal_complete)

lemma drain_pending_views [rl_simps]:
  "rs_devices (drain_pending c err s) = rs_devices s"
  "rs_leaving (drain_pending c err s) = rs_leaving s"
  "serial_of (drain_pending c err s) = serial_of s"
  "hm_get (rs_conns (drain_pending c err s)) c' =
     (if c' = c then map_option (\<lambda>cn. cn\<lparr>cn_pending := []\<rparr>) (hm_get (rs_conns s) c) else hm_get (rs_conns s) c')"
  "pend (drain_pending c err s) c' rid = (if c' = c then None else pend s c' rid)"
  by (auto simp: drain_pending_def on_conn_def fold_complete_views hm_simps serial_of_def pend_def fun_eq_iff
      option.map_comp o_def split: option.splits bind_splits)

lemma on_conn_calls [rl_simps]:
  "rs_calls (on_conn c f s) = rs_calls s" "rpc_of (on_conn c f s) = rpc_of s" "waiting (on_conn c f s) = waiting s"
  by (simp_all add: on_conn_def rpc_of_def waiting_def fun_eq_iff)

lemma waiting_drain:
  assumes "relay_inv s" and "waiting (drain_pending c err s) t ca"
  shows "waiting s t ca \<and> ca_conn ca \<noteq> c"
proof (cases "hm_get (rs_conns s) c")
  case None
  then show ?thesis using assms relay_invD(4) [OF assms(1), of t ca]
    by (auto simp: drain_pending_def pend_def)
next
  case (Some cn)
  with assms(2) have w: "waiting s t ca" "t \<notin> snd ` set (cn_pending cn)"
    by (auto simp: drain_pending_eq rl_simps fold_complete_views)
  have "t \<in> snd ` set (cn_pending cn)" if "ca_conn ca = c"
    using relay_invD(4) [OF assms(1) w(1)] that Some hm_get_Some_set [of "cn_pending cn" "ca_rid ca" t]
    by (force simp: pend_def)
  with w show ?thesis by auto
qed

lemma calls_drain:
  "(\<exists>ca. hm_get (rs_calls (drain_pending c err s)) t = Some ca \<and> ca_conn ca = c' \<and> ca_rid ca = rid)
    \<longleftrightarrow> (\<exists>ca. hm_get (rs_calls s) t = Some ca \<and> ca_conn ca = c' \<and> ca_rid ca = rid)"
proof -
  have "(\<exists>ca. hm_get (rs_calls (fold (\<lambda>(_, tok). complete st tok) ps s)) t = Some ca \<and> ca_conn ca = c' \<and> ca_rid ca = rid)
    \<longleftrightarrow> (\<exists>ca. hm_get (rs_calls s) t = Some ca \<and> ca_conn ca = c' \<and> ca_rid ca = rid)" for st and ps :: "(string, nat) hmap" and s
  proof (induction ps arbitrary: s)
    case Nil
    show ?case by simp
  next
    case (Cons p ps)
    show ?case by (simp only: fold.simps o_apply Cons.IH) (simp add: split_beta complete_keeps)
  qed
  then show ?thesis by (auto simp: drain_pending_def rl_simps split: option.split)
qed

lemma relay_inv_drain:
  assumes "relay_inv s"
  shows "relay_inv (drain_pending c err s)"
  unfolding relay_inv_def
proof (intro conjI allI impI)
  fix serial c'
  assume "hm_get (rs_devices (drain_pending c err s)) serial = Some c'"
  then show "serial_of (drain_pending c err s) c' = Some serial"
    using relay_invD(1) [OF assms] by (simp add: rl_simps)
next
  fix c' rid tok
  assume "pend (drain_pending c err s) c' rid = Some tok"
  then show "\<exists>ca. hm_get (rs_calls (drain_pending c err s)) tok = Some ca \<and> ca_conn ca = c' \<and> ca_rid ca = rid"
    using relay_invD(2) [OF assms] by (simp add: rl_simps calls_drain split: if_splits)
next
  fix tok ca
  assume "waiting (drain_pending c err s) tok ca"
  then have "waiting s tok ca" "ca_conn ca \<noteq> c" using waiting_drain [OF assms] by blast+
  then show "hm_get (rs_devices (drain_pending c err s)) (ca_serial ca) = Some (ca_conn ca)
      \<or> ca_conn ca \<in> set (rs_leaving (drain_pending c err s))"
    and "pend (drain_pending c err s) (ca_conn ca) (ca_rid ca) = Some tok"
    using relay_invD(3,4) [OF assms, of tok ca] by (simp_all add: rl_simps)
qed

lemma rpc_failure_error: "rpc_failure (Answered (RJson (error_message reason code)))"
  unfolding rpc_failure_def by blast

lemma rpc_internal_drain:
  "rpc_internal (rpc_of s) (rpc_of (drain_pending c (error_message reason code) s))"
  using fold_complete_internal [OF rpc_failure_error]
  by (auto simp: drain_pending_def rl_simps split: option.split)

lemma core_eq_drain_device:
  "core_eq (drain_device c reason s) (drain_pending c (error_message reason ''DEVICE_DISCONNECTED'') s)"
  by (auto simp: drain_device_def Let_def split: option.split)

text \<open>A device is removed after its connection was drained.\<close>

lemma remove_device_views [rl_simps]:
  "pend (remove_device serial s) = pend s" "serial_of (remove_device serial s) = serial_of s"
  "waiting (remove_device serial s) = waiting s" "rpc_of (remove_device serial s) = rpc_of s"
  "rs_calls (remove_device serial s) = rs_calls s" "rs_conns (remove_device serial s) = rs_conns s"
  "rs_leaving (remove_device serial s) = rs_leaving s"
  "hm_get (rs_devices (remove_device serial s)) serial' =
     (if serial' = serial then None else hm_get (rs_devices s) serial')"
  by (simp_all add: remove_device_def fun_eq_iff pend_def serial_of_def waiting_def rpc_of_def hm_simps)

lemma relay_inv_remove:
  assumes "relay_inv s"
    and "\<And>tok ca. waiting s tok ca \<Longrightarrow> ca_serial ca \<noteq> serial \<or> ca_conn ca \<in> set (rs_leaving s)"
  shows "relay_inv (remove_device serial s)"
  unfolding relay_inv_def
  using relay_invD [OF assms(1)] assms(2) by (auto simp: rl_simps split: if_splits)

lemma device_eq: "device s serial = Some (c, cn) \<Longrightarrow> hm_get (rs_devices s) serial = Some c \<and> hm_get (rs_conns s) c = Some cn"
  by (auto simp: device_def split: option.splits)

lemma evict_step:
  assumes "relay_inv s" and "hm_get (rs_devices s) serial = Some c"
  shows "relay_inv (remove_device serial (drain_device c reason s))"
    and "rpc_internal (rpc_of s) (rpc_of (remove_device serial (drain_device c reason s)))"
proof -
  let ?d = "drain_pending c (error_message reason ''DEVICE_DISCONNECTED'') s"
  have v: "waiting (drain_device c reason s) = waiting ?d" "rpc_of (drain_device c reason s) = rpc_of ?d"
    using core_eq_views [OF core_eq_drain_device] by simp_all
  have "relay_inv (drain_device c reason s)"
    using relay_inv_drain [OF assms(1)] core_eq_inv [OF core_eq_drain_device] by simp
  moreover have "ca_serial ca \<noteq> serial \<or> ca_conn ca \<in> set (rs_leaving (drain_device c reason s))"
    if "waiting (drain_device c reason s) tok ca" for tok ca
    using that waiting_drain [OF assms(1)] relay_invD(3) [OF assms(1), of tok ca] assms(2)
      core_eq_leaving [OF core_eq_drain_device [of c reason s]]
    unfolding v by (fastforce simp: rl_simps)
  ultimately show "relay_inv (remove_device serial (drain_device c reason s))" by (rule relay_inv_remove)
  show "rpc_internal (rpc_of s) (rpc_of (remove_device serial (drain_device c reason s)))"
    by (simp add: rl_simps v rpc_internal_drain)
qed

subsection \<open>Eviction, draining and exit\<close>

text \<open>What a step does to the core: it keeps the invariant and its calls only fail or are issued.\<close>

definition internal_step :: "relay_state \<Rightarrow> relay_state \<Rightarrow> bool" where
  "internal_step s t \<longleftrightarrow> relay_inv t \<and> rpc_internal (rpc_of s) (rpc_of t)"

lemma internal_refl: "relay_inv s \<Longrightarrow> internal_step s s"
  by (simp add: internal_step_def)

lemma internal_trans: "internal_step s t \<Longrightarrow> internal_step t u \<Longrightarrow> internal_step s u"
  by (auto simp: internal_step_def intro: rtranclp_trans)

lemma internal_core_eq: "core_eq t s \<Longrightarrow> internal_step r s \<Longrightarrow> internal_step r t"
  using core_eq_inv [of t s] core_eq_views(4) [of t s] by (simp add: internal_step_def)

lemma internal_inv: "internal_step s t \<Longrightarrow> relay_inv t"
  by (simp add: internal_step_def)

lemma internal_fold:
  assumes "\<And>x t. relay_inv t \<Longrightarrow> internal_step t (f x t)" and "relay_inv s"
  shows "internal_step s (fold f xs s)"
  using assms(2)
proof (induction xs arbitrary: s)
  case Nil
  then show ?case by (simp add: internal_refl)
next
  case (Cons x xs)
  then show ?case using assms(1) [of s x] by (auto intro: internal_trans dest: internal_inv)
qed

lemma internal_evict:
  "relay_inv s \<Longrightarrow> hm_get (rs_devices s) serial = Some c \<Longrightarrow>
    internal_step s (remove_device serial (drain_device c reason s))"
  by (simp add: internal_step_def evict_step)

lemma internal_remove_absent:
  "relay_inv s \<Longrightarrow> hm_get (rs_devices s) serial = None \<Longrightarrow> internal_step s (remove_device serial s)"
  using relay_invD(3) [of s] by (fastforce simp: internal_step_def rl_simps intro!: relay_inv_remove)

lemma device_None:
  assumes "relay_inv s" and "device s serial = None"
  shows "hm_get (rs_devices s) serial = None"
  using assms(2) relay_invD(1) [OF assms(1), of serial]
  by (auto simp: device_def serial_of_def split: option.splits)

lemma internal_drain_device: "relay_inv s \<Longrightarrow> internal_step s (drain_device c reason s)"
  by (rule internal_core_eq [OF core_eq_drain_device])
    (simp add: internal_step_def relay_inv_drain rpc_internal_drain)

lemma sweep_one_snd: "snd (sweep_one now secs serial (dead, s)) = snd (sweep_one now secs serial ([], s))"
  by (simp add: sweep_one_def split: option.split)

lemma sweep_fold_snd:
  "snd (fold (sweep_one now secs) serials (dead, s))
    = fold (\<lambda>serial t. snd (sweep_one now secs serial ([], t))) serials s"
proof (induction serials arbitrary: dead s)
  case Nil
  show ?case by simp
next
  case (Cons x xs)
  show ?case using sweep_one_snd [of now secs x dead s]
    by (cases "sweep_one now secs x (dead, s)") (simp add: Cons.IH)
qed

lemma internal_sweep:
  assumes "relay_inv s"
  shows "internal_step s (snd (sweep_dead_devices now secs s))"
  unfolding sweep_dead_devices_def sweep_fold_snd
proof (rule internal_fold [OF _ assms])
  fix serial t assume t: "relay_inv t"
  show "internal_step t (snd (sweep_one now secs serial ([], t)))"
    using internal_evict [OF t] device_eq [of t serial]
    by (auto simp: sweep_one_def internal_refl [OF t] split: option.split intro: internal_core_eq [OF core_eq_other(1)])
qed

lemma internal_evict_failed:
  assumes "relay_inv s"
  shows "internal_step s (evict_failed secs serials s)"
  unfolding evict_failed_def
proof (rule internal_fold [OF _ assms])
  fix serial t assume t: "relay_inv t"
  show "internal_step t (on_history (record_disconnect secs serial ''send_failed'' None) (remove_device serial
      (case device t serial of None \<Rightarrow> t | Some (c, _) \<Rightarrow> drain_device c ''broadcast send failed'' t)))"
    using internal_evict [OF t] device_eq [of t serial] internal_remove_absent [OF t device_None [OF t]]
    by (auto split: option.split intro!: internal_core_eq [OF core_eq_other(1)])
qed

text \<open>Draining every registered connection leaves no waiting call, so the map may be cleared.\<close>

definition drain_one :: "nat \<Rightarrow> string \<times> u64 \<Rightarrow> relay_state \<Rightarrow> relay_state" where
  "drain_one secs d s =
     on_history (record_disconnect secs (fst d) ''relay_shutdown'' None) (drain_device (snd d) ''relay shutting down'' s)"

lemma drain_one_core:
  "core_eq (drain_one secs d s) (drain_pending (snd d) (error_message ''relay shutting down'' ''DEVICE_DISCONNECTED'') s)"
  unfolding drain_one_def by (rule core_eq_trans [OF core_eq_other(1) core_eq_drain_device])

lemma internal_drain_one: "relay_inv s \<Longrightarrow> internal_step s (drain_one secs d s)"
  unfolding drain_one_def by (rule internal_core_eq [OF core_eq_other(1) internal_drain_device])

lemma waiting_drain_one:
  "relay_inv s \<Longrightarrow> waiting (drain_one secs d s) tok ca \<Longrightarrow> waiting s tok ca \<and> ca_conn ca \<noteq> snd d"
  using waiting_drain [of s] core_eq_views(3) [OF drain_one_core] by simp

lemma waiting_drain_many:
  "relay_inv s \<Longrightarrow> waiting (fold (drain_one secs) ds s) tok ca \<Longrightarrow> waiting s tok ca \<and> ca_conn ca \<notin> snd ` set ds"
proof (induction ds arbitrary: s)
  case (Cons d ds)
  have "relay_inv (drain_one secs d s)" using internal_inv [OF internal_drain_one [OF Cons.prems(1)]] .
  then have "waiting (drain_one secs d s) tok ca" "ca_conn ca \<notin> snd ` set ds"
    using Cons.IH Cons.prems(2) by simp_all
  then show ?case using waiting_drain_one [OF Cons.prems(1)] by simp
qed simp

lemma drain_all_eq: "drain_all secs s = (fold (drain_one secs) (rs_devices s) s)\<lparr>rs_devices := []\<rparr>"
proof -
  have "drain_one secs = (\<lambda>(serial, c) s. on_history (record_disconnect secs serial ''relay_shutdown'' None)
      (drain_device c ''relay shutting down'' s))"
    by (simp add: fun_eq_iff drain_one_def)
  then show ?thesis by (simp add: drain_all_def)
qed

lemma relay_inv_clear:
  "relay_inv s \<Longrightarrow> (\<And>tok ca. waiting s tok ca \<Longrightarrow> ca_conn ca \<in> set (rs_leaving s)) \<Longrightarrow> relay_inv (s\<lparr>rs_devices := []\<rparr>)"
  by (auto simp: relay_inv_def waiting_def pend_def hm_simps)

lemma drain_many_leaving: "rs_leaving (fold (drain_one secs) ds s) = rs_leaving s"
  using core_eq_leaving [OF drain_one_core] by (induction ds arbitrary: s) (simp_all add: rl_simps)

lemma internal_drain_all:
  assumes "relay_inv s"
  shows "internal_step s (drain_all secs s)"
proof -
  let ?t = "fold (drain_one secs) (rs_devices s) s"
  have t: "internal_step s ?t" using internal_fold [OF internal_drain_one assms] .
  have "ca_conn ca \<in> set (rs_leaving ?t)" if w: "waiting ?t tok ca" for tok ca
  proof (rule ccontr)
    assume "ca_conn ca \<notin> set (rs_leaving ?t)"
    then have "hm_get (rs_devices s) (ca_serial ca) = Some (ca_conn ca)"
      using w waiting_drain_many [OF assms] relay_invD(3) [OF assms, of tok ca] by (simp add: drain_many_leaving)
    then have "ca_conn ca \<in> snd ` set (rs_devices s)" using hm_get_Some_set by force
    then show False using w waiting_drain_many [OF assms] by blast
  qed
  then have "relay_inv (?t\<lparr>rs_devices := []\<rparr>)" using relay_inv_clear internal_inv [OF t] by blast
  moreover have "rpc_of (?t\<lparr>rs_devices := []\<rparr>) = rpc_of ?t" by (simp add: rpc_of_def fun_eq_iff)
  ultimately show ?thesis using t by (simp add: internal_step_def drain_all_eq)
qed

text \<open>
  The end of a handler: removing the device leaves its calls to the drain, which ends them all.
\<close>

lemma internal_exit_remove:
  assumes "relay_inv s"
  shows "internal_step s (exit_remove c s)"
proof -
  have "relay_inv (s\<lparr>rs_leaving := rs_leaving s @ [c]\<rparr>)"
    using assms by (auto simp: relay_inv_def pend_def serial_of_def waiting_def)
  then have "relay_inv (remove_device serial (s\<lparr>rs_leaving := rs_leaving s @ [c]\<rparr>))"
    if "hm_get (rs_devices s) serial = Some c" for serial
    by (rule relay_inv_remove) (use that relay_invD(3) [OF assms] in \<open>fastforce simp: waiting_def\<close>)
  moreover have "(remove_device serial s)\<lparr>rs_leaving := l\<rparr> = remove_device serial (s\<lparr>rs_leaving := l\<rparr>)" for serial l
    by (simp add: remove_device_def)
  moreover have "rpc_of (s\<lparr>rs_leaving := l\<rparr>) = rpc_of s" for l by (simp add: rpc_of_def fun_eq_iff)
  ultimately show ?thesis using internal_refl [OF assms]
    by (auto simp: exit_remove_def internal_step_def rl_simps split: option.split)
qed

lemma internal_exit_drain:
  assumes "relay_inv s"
  shows "internal_step s (exit_drain c s)"
proof -
  let ?l = "removeAll c (rs_leaving s)"
  let ?e = "error_message ''device disconnected'' ''DEVICE_DISCONNECTED''"
  have eq: "drain_pending c ?e (s\<lparr>rs_leaving := ?l\<rparr>) = (drain_pending c ?e s)\<lparr>rs_leaving := ?l\<rparr>"
  proof -
    have "complete st tok (s\<lparr>rs_leaving := l\<rparr>) = (complete st tok s)\<lparr>rs_leaving := l\<rparr>" for st tok l s
      by (simp add: complete_def)
    then have "fold (\<lambda>(_, tok). complete st tok) ps (s\<lparr>rs_leaving := l\<rparr>)
      = (fold (\<lambda>(_, tok). complete st tok) ps s)\<lparr>rs_leaving := l\<rparr>" for st l s and ps :: "(string, nat) hmap"
      by (induction ps arbitrary: s) auto
    then show ?thesis by (simp add: drain_pending_def on_conn_def split: option.split)
  qed
  have d: "internal_step s (drain_pending c ?e s)"
    by (simp add: internal_step_def relay_inv_drain rpc_internal_drain assms)
  have "relay_inv ((drain_pending c ?e s)\<lparr>rs_leaving := ?l\<rparr>)"
    using relay_invD [OF internal_inv [OF d]] waiting_drain [OF assms]
    unfolding relay_inv_def pend_def serial_of_def waiting_def
    by (simp add: rl_simps) blast
  moreover have "rpc_of ((drain_pending c ?e s)\<lparr>rs_leaving := ?l\<rparr>) = rpc_of (drain_pending c ?e s)"
    by (simp add: rpc_of_def fun_eq_iff)
  ultimately have "internal_step s (drain_pending c ?e (s\<lparr>rs_leaving := ?l\<rparr>))"
    using d by (simp add: eq internal_step_def)
  then show ?thesis using internal_refl [OF assms]
    by (auto simp: exit_drain_def intro: internal_core_eq [OF core_eq_drain_device])
qed

lemma core_eq_exit: "core_eq (exit_replaced secs c s) s" "core_eq (exit_record secs c reason age s) s"
proof -
  have "core_eq (on_conn c (\<lambda>cn. cn\<lparr>cn_closed := True\<rparr>) t) t" for t by (rule core_eq_on_conn) simp
  then show "core_eq (exit_replaced secs c s) s" "core_eq (exit_record secs c reason age s) s"
    by (auto simp: exit_replaced_def exit_record_def split: option.split intro: core_eq_trans core_eq_other(1))
qed

subsection \<open>Registration and requests\<close>

lemma internal_drain: "relay_inv s \<Longrightarrow> internal_step s (drain_pending c (error_message reason code) s)"
  by (simp add: internal_step_def relay_inv_drain rpc_internal_drain)

text \<open>A new connection takes the place of one that has no waiting calls.\<close>

lemma relay_inv_insert_conn:
  assumes "relay_inv s" and "hm_get (rs_conns s) c = None"
    and "\<And>tok ca. waiting s tok ca \<Longrightarrow> ca_serial ca \<noteq> cn_serial cn \<or> ca_conn ca \<in> set (rs_leaving s)" and "cn_pending cn = []"
  shows "relay_inv (s\<lparr>rs_conns := hm_insert c cn (rs_conns s), rs_devices := hm_insert (cn_serial cn) c (rs_devices s)\<rparr>)"
    (is "relay_inv ?t")
proof -
  have pend: "pend ?t c' rid = (if c' = c then None else pend s c' rid)" for c' rid
    using assms(4) by (simp add: pend_def hm_simps)
  have ser: "serial_of ?t c' = (if c' = c then Some (cn_serial cn) else serial_of s c')" for c'
    by (simp add: serial_of_def hm_simps)
  have none: "serial_of s c = None" "pend s c rid = None" for rid
    using assms(2) by (simp_all add: serial_of_def pend_def)
  have w: "waiting ?t = waiting s" by (simp add: waiting_def fun_eq_iff)
  show ?thesis unfolding relay_inv_def pend ser w
  proof (intro conjI allI impI)
    fix tok ca assume "waiting s tok ca"
    then show "hm_get (rs_devices ?t) (ca_serial ca) = Some (ca_conn ca) \<or> ca_conn ca \<in> set (rs_leaving ?t)"
      and "(if ca_conn ca = c then None else pend s (ca_conn ca) (ca_rid ca)) = Some tok"
      using relay_invD(3,4) [OF assms(1), of tok ca] assms(3) [of tok ca] none by (auto simp: hm_simps)
  qed (use relay_invD(1,2) [OF assms(1)] none in \<open>auto simp: hm_simps split: if_splits\<close>)
qed

lemma internal_register_insert:
  assumes "relay_inv s" and "hm_get (rs_conns s) c = None"
  shows "internal_step s (register_insert now serial key a c s)"
proof -
  let ?e = "error_message ''device reconnecting'' ''DEVICE_RECONNECTING''"
  let ?shut = "\<lambda>old. on_conn old (\<lambda>cn. cn\<lparr>cn_shutdown := True\<rparr>) s"
  define s1 where "s1 = (case hm_get (rs_devices s) serial of None \<Rightarrow> s | Some old \<Rightarrow> drain_pending old ?e (?shut old))"
  have shut: "core_eq (?shut old) s" for old by (rule core_eq_on_conn) simp
  have inv_shut: "relay_inv (?shut old)" for old using core_eq_inv [OF shut] assms(1) by simp
  have "internal_step s (drain_pending old ?e (?shut old))" for old
    by (rule internal_trans [OF internal_core_eq [OF shut internal_refl [OF assms(1)]] internal_drain [OF inv_shut]])
  then have i1: "internal_step s s1"
    using internal_refl [OF assms(1)] by (simp add: s1_def split: option.split)
  have lv: "rs_leaving s1 = rs_leaving s"
    by (auto simp: s1_def rl_simps on_conn_def split: option.split)
  have w: "ca_serial ca \<noteq> serial \<or> ca_conn ca \<in> set (rs_leaving s1)" if "waiting s1 tok ca" for tok ca
  proof (cases "hm_get (rs_devices s) serial")
    case None
    then show ?thesis using that relay_invD(3) [OF assms(1), of tok ca] by (auto simp: s1_def)
  next
    case (Some old)
    with that have "waiting s tok ca \<and> ca_conn ca \<noteq> old"
      using waiting_drain [OF inv_shut, of old ?e old] core_eq_views(3) [OF shut] by (simp add: s1_def)
    then show ?thesis using relay_invD(3) [OF assms(1), of tok ca] Some by (auto simp: lv)
  qed
  have n: "hm_get (rs_conns s1) c = None"
    using assms(2) by (auto simp: s1_def rl_simps on_conn_def hm_simps split: option.split)
  let ?cn = "new_connection now serial key a s"
  have eq: "register_insert now serial key a c s
      = s1\<lparr>rs_conns := hm_insert c ?cn (rs_conns s1), rs_devices := hm_insert (cn_serial ?cn) c (rs_devices s1)\<rparr>"
    by (simp add: register_insert_def s1_def new_connection_def Let_def)
  have "relay_inv (register_insert now serial key a c s)" unfolding eq
    by (rule relay_inv_insert_conn [OF internal_inv [OF i1] n]) (use w in \<open>auto simp: new_connection_def\<close>)
  moreover have "rpc_of (register_insert now serial key a c s) = rpc_of s1"
    by (simp add: eq rpc_of_def fun_eq_iff)
  ultimately show ?thesis using i1 by (simp add: internal_step_def)
qed

lemma fresh_addr_None: "hm_get m (fresh_addr m) = None"
proof -
  have "k \<le> fold max (map fst m) 0" if "k \<in> set (map fst m)" for k
    unfolding Max.set_eq_fold [symmetric] using that by (intro Max_ge) auto
  then have "fresh_addr m \<notin> set (map fst m)" unfolding fresh_addr_def by (meson Suc_n_not_le_n)
  then show ?thesis by (simp add: hm_get_def map_of_eq_None_iff)
qed

text \<open>Issuing a call: its request id is not pending any more when it is inserted.\<close>

definition issue :: "string \<Rightarrow> u64 \<Rightarrow> string \<Rightarrow> nat \<Rightarrow> tunnel_message \<Rightarrow> relay_state \<Rightarrow> relay_state" where
  "issue serial c rid tok m s =
     on_conn c (\<lambda>cn. cn\<lparr>cn_pending := hm_insert rid tok (cn_pending cn), cn_queue := cn_queue cn @ [m]\<rparr>)
       (s\<lparr>rs_calls := hm_insert tok \<lparr>ca_serial = serial, ca_conn = c, ca_rid = rid, ca_state = Waiting\<rparr> (rs_calls s)\<rparr>)"

lemma internal_issue:
  assumes "relay_inv s" and "hm_get (rs_devices s) serial = Some c" and "hm_get (rs_conns s) c = Some cn"
    and "pend s c rid = None" and "hm_get (rs_calls s) tok = None"
  shows "internal_step s (issue serial c rid tok m s)"
proof -
  let ?t = "issue serial c rid tok m s"
  let ?ca = "\<lparr>ca_serial = serial, ca_conn = c, ca_rid = rid, ca_state = Waiting\<rparr>"
  have pend: "pend ?t c' rid' = (if c' = c \<and> rid' = rid then Some tok else pend s c' rid')" for c' rid'
    using assms(3) by (auto simp: issue_def pend_def on_conn_def hm_simps)
  have ser: "serial_of ?t = serial_of s"
    by (auto simp: issue_def serial_of_def on_conn_def hm_simps fun_eq_iff option.map_comp o_def)
  have calls: "hm_get (rs_calls ?t) t = (if t = tok then Some ?ca else hm_get (rs_calls s) t)" for t
    by (simp add: issue_def on_conn_def hm_simps)
  have w: "waiting ?t t ca \<longleftrightarrow> (t = tok \<and> ca = ?ca) \<or> waiting s t ca" for t ca
    using assms(5) by (auto simp: waiting_def calls)
  have dev: "rs_devices ?t = rs_devices s" "rs_leaving ?t = rs_leaving s" by (simp_all add: issue_def on_conn_def)
  have "relay_inv ?t"
    unfolding relay_inv_def pend ser calls w dev
  proof (intro conjI allI impI)
    fix c' rid' t
    assume "(if c' = c \<and> rid' = rid then Some tok else pend s c' rid') = Some t"
    then show "\<exists>ca. (if t = tok then Some ?ca else hm_get (rs_calls s) t) = Some ca \<and> ca_conn ca = c' \<and> ca_rid ca = rid'"
      using relay_invD(2) [OF assms(1), of c' rid' t] assms(5) by (auto split: if_splits)
  next
    fix t ca
    assume "t = tok \<and> ca = ?ca \<or> waiting s t ca"
    then show "hm_get (rs_devices s) (ca_serial ca) = Some (ca_conn ca) \<or> ca_conn ca \<in> set (rs_leaving s)"
      and "(if ca_conn ca = c \<and> ca_rid ca = rid then Some tok else pend s (ca_conn ca) (ca_rid ca)) = Some t"
      using relay_invD(3,4) [OF assms(1), of t ca] assms(2,4) by (auto split: if_splits)
  qed (use relay_invD(1) [OF assms(1)] in blast)
  moreover have "rpc_of ?t = (rpc_of s)(tok \<mapsto> (c, rid, Waiting))"
    by (simp add: fun_eq_iff rpc_of_def calls)
  moreover have "rpc_of s tok = None" using assms(5) by (simp add: rpc_of_def)
  ultimately show ?thesis by (auto simp: internal_step_def intro: rpc_issue)
qed

lemma internal_settle: "relay_inv s \<Longrightarrow> rpc_failure st \<Longrightarrow> internal_step s (settle st c rid s)"
  by (auto simp: internal_step_def rpc_internal_settle intro!: relay_inv_settle) (simp add: rpc_failure_def)

lemma rpc_failure_simple: "rpc_failure SenderGone" "rpc_failure TimedOut"
  by (simp_all add: rpc_failure_def)

lemma settle_calls_None: "hm_get (rs_calls s) tok = None \<Longrightarrow> hm_get (rs_calls (settle st c rid s)) tok = None"
  by (auto simp: settle_cases calls_complete rl_simps split: option.split)

lemma settle_conn:
  "hm_get (rs_conns s) c = Some cn \<Longrightarrow> \<exists>cn'. hm_get (rs_conns (settle st c rid s)) c = Some cn'"
  by (auto simp: settle_cases rl_simps take_pending_def on_conn_def hm_simps split: option.split)

lemma internal_request:
  assumes "relay_inv s"
  shows "internal_step s (snd (tunnel_request_start serial rid m room s))"
proof (cases "device s serial")
  case None
  then show ?thesis by (simp add: tunnel_request_start_def internal_refl assms)
next
  case (Some d)
  obtain c cn where d: "d = (c, cn)" by (cases d)
  have dev: "hm_get (rs_devices s) serial = Some c" "hm_get (rs_conns s) c = Some cn"
    using device_eq Some d by blast+
  let ?s1 = "settle SenderGone c rid s"
  have i1: "internal_step s ?s1" using internal_settle [OF assms rpc_failure_simple(1)] .
  obtain cn' where cn': "hm_get (rs_conns ?s1) c = Some cn'" using settle_conn [OF dev(2)] by blast
  have "internal_step ?s1 (issue serial c rid (fresh_addr (rs_calls s)) m ?s1)"
    by (rule internal_issue [OF internal_inv [OF i1] _ cn'])
      (simp_all add: rl_simps dev settle_calls_None fresh_addr_None)
  then have "internal_step s (issue serial c rid (fresh_addr (rs_calls s)) m ?s1)"
    using i1 internal_trans by blast
  then show ?thesis using i1 internal_refl [OF assms]
    by (simp add: tunnel_request_start_def Some d settle_folds Let_def issue_def)
qed

lemma internal_timeouts:
  assumes "relay_inv s"
  shows "internal_step s (request_timeout tok s)" "internal_step s (request_cleanup tok s)"
    "internal_step s (request_cleanup_binary tok s)"
proof -
  show "internal_step s (request_timeout tok s)"
    by (simp add: request_timeout_def internal_step_def relay_inv_complete assms rpc_internal_complete
        rpc_failure_simple)
  show "internal_step s (request_cleanup tok s)" "internal_step s (request_cleanup_binary tok s)"
    using internal_settle [OF assms rpc_failure_simple(1)] internal_refl [OF assms]
    by (auto simp: request_cleanup_def request_cleanup_binary_def settle_folds split: option.split)
qed

subsection \<open>The relay refines the specification of calls\<close>

text \<open>What a device says: the connection, the request id it names, and the message.\<close>

fun op_event :: "relay_op \<Rightarrow> (u64 \<times> string \<times> tunnel_response) option" where
  "op_event (OpDeviceText now secs c m) =
     (let ty = json_str_or [] (json_index m ''type'') in
      if ends_with ''.result'' ty \<or> ends_with ''.ack'' ty
      then map_option (\<lambda>rid. (c, rid, RJson m)) (json_as_str (json_index m ''request_id''))
      else None)"
| "op_event (OpDeviceBinary de c data) =
     Option.bind (decode_binary_frame de data) (\<lambda>(header, payload).
       map_option (\<lambda>rid. (c, rid, RBinary header payload)) (json_as_str (json_index header ''request_id'')))"
| "op_event _ = None"

lemma answer_refines:
  "relay_inv s \<Longrightarrow> relay_inv (answer_pending c rid r s)
    \<and> rpc_move (Some (c, rid, r)) (rpc_of s) (rpc_of (answer_pending c rid r s))"
  by (simp add: settle_folds rpc_move_def relay_inv_settle rpc_answer_settle)

definition step_ok :: "(u64 \<times> string \<times> tunnel_response) option \<Rightarrow> relay_state \<Rightarrow> relay_state \<Rightarrow> bool" where
  "step_ok ev s t \<longleftrightarrow> relay_inv t \<and> rpc_move ev (rpc_of s) (rpc_of t)"

lemma step_ok_internal: "internal_step s t \<Longrightarrow> step_ok None s t"
  by (simp add: step_ok_def internal_step_def rpc_move_def)

lemma step_ok_core: "relay_inv s \<Longrightarrow> core_eq t s \<Longrightarrow> step_ok ev s t"
  using core_eq_inv [of t s] core_eq_views(4) [of t s]
  by (auto simp: step_ok_def rpc_move_def rpc_skip split: option.split)

lemma device_text_cases:
  "(let ty = json_str_or [] (json_index m ''type'') in ends_with ''.result'' ty \<or> ends_with ''.ack'' ty)
     \<and> snd (device_text now secs c m s) = route_response c m s
   \<or> core_eq (snd (device_text now secs c m s)) s"
  unfolding device_text_def Let_def by (simp only: if_distrib [of snd] snd_conv) simp

lemma step_ok_device_text:
  assumes "relay_inv s"
  shows "step_ok (op_event (OpDeviceText now secs c m)) s (snd (device_text now secs c m s))"
proof -
  let ?ty = "json_str_or [] (json_index m ''type'')"
  consider (answer) "ends_with ''.result'' ?ty \<or> ends_with ''.ack'' ?ty" "snd (device_text now secs c m s) = route_response c m s"
    | (other) "core_eq (snd (device_text now secs c m s)) s"
    using device_text_cases [of m now secs c s] unfolding Let_def by blast
  then show ?thesis
  proof cases
    case answer
    then show ?thesis
      using answer_refines [OF assms] step_ok_core [OF assms core_eq_to_client] step_ok_core [OF assms core_eq_refl]
      by (auto simp: route_response_def step_ok_def Let_def split: option.splits prod.splits)
  next
    case other
    then show ?thesis by (rule step_ok_core [OF assms])
  qed
qed

lemma step_ok_device_binary:
  assumes "relay_inv s"
  shows "step_ok (op_event (OpDeviceBinary de c data)) s (device_binary de c data s)"
  using answer_refines [OF assms] step_ok_core [OF assms core_eq_refl]
  by (auto simp: device_binary_def step_ok_def split: option.splits prod.splits)

lemma core_eq_queues: "core_eq (on_conn c (\<lambda>cn. cn\<lparr>cn_queue := q, cn_priority := p\<rparr>) s) s"
  by (rule core_eq_on_conn) simp

lemma relay_step_ok:
  assumes "relay_inv s" and "relay_admissible e s"
  shows "step_ok (op_event e) s (relay_step e s)"
proof (cases e)
  case (OpDeviceText now secs c m)
  then show ?thesis using step_ok_device_text [OF assms(1)] by simp
next
  case (OpDeviceBinary de c data)
  then show ?thesis using step_ok_device_binary [OF assms(1)] by simp
next
  case (OpRegisterInsert now serial key a c)
  then show ?thesis using assms by (simp add: step_ok_internal internal_register_insert)
qed (use assms(1) in \<open>simp_all add: step_ok_core step_ok_internal internal_exit_remove internal_exit_drain core_eq_exit internal_sweep internal_evict_failed
      internal_drain_all internal_request internal_timeouts core_eq_queues register_record_def\<close>)

interpretation relay: refining_machine relay_step relay_admissible relay_inv rpc_of op_event rpc_move
  by unfold_locales (use relay_step_ok in \<open>auto simp: step_ok_def\<close>)

lemma relay_inv_new: "relay_inv (new_relay key heartbeat proxy path snaps now)"
  by (simp add: new_relay_def relay_inv_def pend_def waiting_def hm_simps)

lemma rpc_of_new: "rpc_of (new_relay key heartbeat proxy path snaps now) = Map.empty"
  by (simp add: new_relay_def rpc_of_def fun_eq_iff hm_simps)

text \<open>
  C2. Requests through the relay implement remote procedure calls. Take any run of the relay from
  its start: registrations, reconnections, evictions, proxied requests, timeouts and messages of
  the devices in any order, where a connection number is used once. Seen through its calls, the run
  is a run of the specification, in which a call is issued once under a new token, can fail or be
  answered only while it waits, is answered only by what the connection it was sent on says under
  its own request id, and keeps its outcome for ever.
\<close>

theorem relay_refines_rpc:
  assumes "relay.admissible_run es (new_relay key heartbeat proxy path snaps now)"
  shows "labelled_run rpc_move (map op_event es) Map.empty
    (rpc_of (relay.run es (new_relay key heartbeat proxy path snaps now)))"
  using relay.run_refines [OF relay_inv_new assms] by (simp only: rpc_of_new)

definition demo_result :: json where
  "demo_result = JObj [(''type'', JStr ''info.result''), (''request_id'', JStr ''r1'')]"

definition demo_run :: "relay_op list" where
  "demo_run = [OpRegisterLookup ''D1'', OpRegisterAlloc, OpRegisterInsert 0 ''D1'' ''key'' 1 1,
     OpRequest ''D1'' ''r1'' (TText demo_result) True, OpDeviceText 0 0 1 demo_result,
     OpRequest ''D1'' ''r2'' (TText demo_result) True]"

theorem relay_refines_rpc_witness:
  "labelled_run rpc_move [None, None, None, None, Some (1, ''r1'', RJson demo_result), None] Map.empty
     (rpc_of (relay.run demo_run (new_relay ''t'' 60 30 None [] 0)))
   \<and> rpc_of (relay.run demo_run (new_relay ''t'' 60 30 None [] 0)) 1 = Some (1, ''r1'', Answered (RJson demo_result))"
proof
  have ok: "relay.admissible_run demo_run (new_relay ''t'' 60 30 None [] 0)"
    unfolding demo_run_def relay.admissible_run.simps by code_simp
  have ev: "map op_event demo_run = [None, None, None, None, Some (1, ''r1'', RJson demo_result), None]" by code_simp
  show "labelled_run rpc_move [None, None, None, None, Some (1, ''r1'', RJson demo_result), None] Map.empty
     (rpc_of (relay.run demo_run (new_relay ''t'' 60 30 None [] 0)))"
    using relay_refines_rpc [OF ok] unfolding ev .
  show "rpc_of (relay.run demo_run (new_relay ''t'' 60 30 None [] 0)) 1 = Some (1, ''r1'', Answered (RJson demo_result))"
    unfolding relay.run_fold by code_simp
qed

text \<open>
  C6. No request is stranded: in every state the relay can reach, a call that still waits is pending
  under its request id on the connection that is registered for its device now, or on one whose
  handler has taken it out of the map and is about to drain it. So the answer of that device, its
  eviction, its reconnection or the end of its handler ends the call; no call waits on a connection
  that has been replaced or dropped.
\<close>

theorem no_stranded_requests:
  assumes "relay.admissible_run es (new_relay key heartbeat proxy path snaps now)"
    and "s = relay.run es (new_relay key heartbeat proxy path snaps now)"
    and "hm_get (rs_calls s) tok = Some ca" and "ca_state ca = Waiting"
  shows "\<exists>cn. hm_get (rs_conns s) (ca_conn ca) = Some cn \<and> hm_get (cn_pending cn) (ca_rid ca) = Some tok
    \<and> (device s (ca_serial ca) = Some (ca_conn ca, cn) \<or> ca_conn ca \<in> set (rs_leaving s))"
proof -
  have inv: "relay_inv s" using relay.run_invar [OF relay_inv_new assms(1)] assms(2) by simp
  have w: "waiting s tok ca" using assms(3,4) by (simp add: waiting_def)
  have "pend s (ca_conn ca) (ca_rid ca) = Some tok" using relay_invD(4) [OF inv w] .
  then obtain cn where cn: "hm_get (rs_conns s) (ca_conn ca) = Some cn" "hm_get (cn_pending cn) (ca_rid ca) = Some tok"
    unfolding pend_def bind_eq_Some_conv by blast
  have "hm_get (rs_devices s) (ca_serial ca) = Some (ca_conn ca) \<or> ca_conn ca \<in> set (rs_leaving s)"
    using relay_invD(3) [OF inv w] .
  with cn show ?thesis by (auto simp: device_def)
qed

theorem no_stranded_requests_witness:
  "\<exists>cn. hm_get (rs_conns (relay.run demo_run (new_relay ''t'' 60 30 None [] 0))) 1 = Some cn
     \<and> hm_get (cn_pending cn) ''r2'' = Some 2
     \<and> device (relay.run demo_run (new_relay ''t'' 60 30 None [] 0)) ''D1'' = Some (1, cn)"
proof -
  have ok: "relay.admissible_run demo_run (new_relay ''t'' 60 30 None [] 0)"
    unfolding demo_run_def relay.admissible_run.simps by code_simp
  have ca: "hm_get (rs_calls (relay.run demo_run (new_relay ''t'' 60 30 None [] 0))) 2 =
      Some \<lparr>ca_serial = ''D1'', ca_conn = 1, ca_rid = ''r2'', ca_state = Waiting\<rparr>"
    unfolding relay.run_fold by code_simp
  have "rs_leaving (relay.run demo_run (new_relay ''t'' 60 30 None [] 0)) = []"
    unfolding relay.run_fold by code_simp
  then show ?thesis using no_stranded_requests [OF ok refl ca] by simp
qed

subsection \<open>Messages of clients and devices\<close>

lemma untag_tag: "CHR '':'' \<notin> set cid \<Longrightarrow> untag (tag cid rid) = Some (cid, rid)"
  by (induction cid) (auto simp: untag_def tag_def split: list.splits)

lemma hub_of_on_hub:
  "hub_of s c = Some (a, h) \<Longrightarrow> hub_of (on_hub a f s) c = Some (a, f h)"
  by (auto simp: hub_of_def on_hub_def hm_simps split: option.splits)

lemma hub_of_count [simp]: "hub_of (count_dropped c n s) c' = hub_of s c'"
  by (auto simp: hub_of_def count_dropped_def on_conn_def hm_simps option.map_comp o_def split: option.splits)

lemma client_text_forwards:
  assumes "client_text cid c a room m0 s = (Ok True, s1)" and "hm_get (rs_conns s1) c = Some cn"
  shows "\<exists>m. last (cn_queue cn) = TText m
    \<and> json_index m ''request_id'' = JStr (tag cid (json_str_or [] (json_index m0 ''request_id'')))
    \<and> (\<forall>k. k \<noteq> ''request_id'' \<longrightarrow> json_index m k = json_index m0 k)"
proof -
  let ?r = "JStr (tag cid (json_str_or [] (json_index m0 ''request_id'')))"
  obtain m where m: "json_set m0 ''request_id'' ?r = (Ok m :: (unit, json) outcome)"
    using assms(1) by (auto simp: client_text_def Let_def split: outcome.splits)
  then have "last (cn_queue cn) = TText m"
    using assms by (auto simp: client_text_def Let_def on_conn_def hm_simps split: option.splits if_splits)
  with json_set_Ok [OF m] show ?thesis by blast
qed


definition demo_client_run :: "relay_op list" where
  "demo_client_run = [OpRegisterLookup ''D1'', OpRegisterAlloc, OpRegisterInsert 0 ''D1'' ''key'' 1 1,
     OpClientRegister ''c1'' 1, OpClientRegister ''c2'' 1]"

definition demo_state :: relay_state where
  "demo_state = fold relay_step demo_client_run (new_relay ''t'' 60 30 None [] 0)"

definition demo_frame :: json where
  "demo_frame = JObj [(''type'', JStr ''session.list''), (''request_id'', JStr ''7'')]"

definition demo_answer :: json where
  "demo_answer = JObj [(''type'', JStr ''session.list.result''), (''request_id'', JStr ''c1:7'')]"


text \<open>
  Session output reaches every subscribed client with room in its queue and no other; the messages
  that found no room are counted.
\<close>

lemma fold_on_client: "fold (\<lambda>cid. on_client cid f) cids h = h\<lparr>hb_clients := fold (\<lambda>cid. hm_modify cid f) cids (hb_clients h)\<rparr>"
  by (induction cids arbitrary: h) (simp_all add: on_client_def)

lemma output_reaches_subscribers:
  assumes "json_as_str (json_index m ''session_id'') = Some sid" and "hub_of s c = Some (a, h)"
    and "hm_get (hb_subs h) sid = Some cids" and "distinct cids"
  shows "\<exists>h'. hub_of (route_output c m s) c = Some (a, h')
    \<and> (\<forall>cid. hm_get (hb_clients h') cid =
          (if cid \<in> set cids then map_option (deliver_output m sid) (hm_get (hb_clients h) cid)
           else hm_get (hb_clients h) cid))"
proof -
  have "count_list cids cid = (if cid \<in> set cids then 1 else 0)" for cid
    using assms(4) by (induction cids) auto
  with assms show ?thesis
    by (simp add: route_output_def hub_of_on_hub fold_on_client hm.get_modify_all option.map_id)
qed

text \<open>A client frame that is neither an object nor null makes the relay panic.\<close>

lemma client_frame_panics:
  "(\<exists>msg. fst (client_text cid c a room m s) = Panic msg) \<longleftrightarrow> \<not> is_record m"
  by (auto simp: client_text_def Let_def json_set_cases split: option.splits)

text \<open>
  The history after a reconnection. The new handler has recorded its own session before the handler
  it replaced records its end, and the newest open session is the one that is closed: the session
  of the device that is connected now is marked as replaced, the older one stays open.
\<close>

lemma replaced_closes_successor:
  assumes "hm_get (rs_conns s) c = Some cn" and "rs_history s = h @ [open_session t (cn_serial cn)]"
  shows "rs_history (exit_replaced secs c s) =
    h @ [(open_session t (cn_serial cn))\<lparr>cs_disconnected_at := Some secs, cs_reason := Some ''replaced''\<rparr>]"
  using assms by (simp add: exit_replaced_def on_history_def on_conn_def record_disconnect_def open_session_def)

text \<open>
  A client whose handler was given the queue of a connection that has ended is disconnected at its
  next message, although the hub it is registered with lives on under the new connection.
\<close>

lemma client_of_ended_connection:
  assumes "hm_get (rs_conns s) c = Some cn" and "cn_closed cn" and "is_record m"
  shows "fst (client_text cid c a room m s) = Ok False"
  using assms by (simp add: client_text_def Let_def json_set_cases on_hub_def)

end
