(* ===== verification/Relay_Proxy.thy ===== *)
theory Relay_Proxy
  imports Relay_Props
begin

text \<open>
  The HTTP endpoints of the relay under \<open>/d/{serial}/api\<close> (\<open>server/src/tunnel/relay.rs\<close>). Each
  endpoint checks its request and builds the message for the device; the calls it makes go through
  \<open>tunnel_request_start\<close>, and what comes back is turned into the HTTP response. \<open>de\<close> parses JSON,
  \<open>utf8\<close> decodes a body, \<open>ser\<close> prints JSON, \<open>ids\<close> are the identifiers that \<open>Uuid::new_v4\<close> returns.
\<close>

subsection \<open>Requests\<close>

record proxy_request =
  pr_headers :: headers
  pr_body :: "u8 list"

record proxy_call =
  pc_msg :: tunnel_message
  pc_rid :: string
  pc_timeout :: u64

type_synonym proxied = "(http_error, proxy_call list) outcome"

definition validate_device_auth :: "relay_state \<Rightarrow> string \<Rightarrow> string option \<Rightarrow> http_error + u64 \<times> connection" where
  "validate_device_auth s serial auth_header =
     (case device s serial of
        None \<Rightarrow> Inl (device_not_found serial)
      | Some (c, cn) \<Rightarrow>
         (case Option.bind auth_header (strip_prefix ''Bearer '') of
            None \<Rightarrow> Inl (401, JObj [(''error'', JStr ''Missing or invalid Authorization header'')])
          | Some provided_key \<Rightarrow>
              if \<not> constant_time_eq (bytes (cn_api_key cn)) (bytes provided_key)
              then Inl (403, JObj [(''error'', JStr ''Invalid API key'')])
              else Inr (c, cn)))"

definition authorised :: "relay_state \<Rightarrow> string \<Rightarrow> proxy_request \<Rightarrow> proxied \<Rightarrow> proxied" where
  "authorised s serial req k =
     (case validate_device_auth s serial (pr_headers req ''authorization'') of Inl e \<Rightarrow> Err e | Inr _ \<Rightarrow> k)"

text \<open>Reading a body up to a limit, and parsing it.\<close>

definition with_body :: "int \<Rightarrow> proxy_request \<Rightarrow> (u8 list \<Rightarrow> proxied) \<Rightarrow> proxied" where
  "with_body limit req k =
     (if int (length (pr_body req)) > limit then Err (400, JObj [(''error'', JStr ''Failed to read request body'')])
      else k (pr_body req))"

definition with_json ::
  "(u8 list \<Rightarrow> json option) \<Rightarrow> int \<Rightarrow> proxy_request \<Rightarrow> (json \<Rightarrow> proxied) \<Rightarrow> proxied" where
  "with_json de limit req k =
     with_body limit req (\<lambda>body. case de body of
        None \<Rightarrow> Err (400, JObj [(''error'', JStr ''Invalid JSON'')])
      | Some payload \<Rightarrow> k payload)"

text \<open>One message for the device, and assignments to its fields.\<close>

definition send_one :: "string \<Rightarrow> u64 \<Rightarrow> json \<Rightarrow> proxied" where
  "send_one rid timeout msg = Ok [\<lparr>pc_msg = TText msg, pc_rid = rid, pc_timeout = timeout\<rparr>]"

fun set_fields :: "(string \<times> json) list \<Rightarrow> json \<Rightarrow> (json \<Rightarrow> proxied) \<Rightarrow> proxied" where
  "set_fields [] m k = k m"
| "set_fields ((f, v) # fvs) m k =
     (case json_set m f v of Ok m' \<Rightarrow> set_fields fvs m' k | Err e \<Rightarrow> Err e | Panic p \<Rightarrow> Panic p)"

definition request :: "string \<Rightarrow> string \<Rightarrow> (string \<times> json) list \<Rightarrow> json" where
  "request ty rid fvs = JObj ((''type'', JStr ty) # (''request_id'', JStr rid) # fvs)"

definition source_field :: "proxy_request \<Rightarrow> (string \<times> json) list" where
  "source_field req =
     (case pr_headers req ''x-sctl-client'' of None \<Rightarrow> [] | Some client \<Rightarrow> [(''_source'', JStr client)])"

definition KIB :: int where "KIB = 1024"
definition MIB :: int where "MIB = 1024 * 1024"

subsection \<open>Health, information and diagnostics\<close>

definition proxy_health :: "string \<Rightarrow> proxied" where
  "proxy_health rid = send_one rid 10 (request ''tunnel.health'' rid [])"

definition INFO_GROUPS :: "string list" where
  "INFO_GROUPS = [''core'', ''interfaces'', ''disk'', ''tunnel'', ''gps'', ''lte'']"

definition parse_info_groups_csv :: "string option \<Rightarrow> string list" where
  "parse_info_groups_csv groups =
     (let parsed = filter (\<lambda>g. g \<noteq> []) (map trim (split_char (CHR '','')
                     (case groups of None \<Rightarrow> ''core,interfaces,disk,tunnel,gps,lte'' | Some g \<Rightarrow> g)))
      in if parsed = [] \<or> ''all'' \<in> set parsed then INFO_GROUPS else remdups_adj (sort parsed))"

definition proxy_info :: "(nat \<Rightarrow> string) \<Rightarrow> relay_state \<Rightarrow> string \<Rightarrow> string option \<Rightarrow> proxy_request \<Rightarrow> proxied" where
  "proxy_info ids s serial groups req =
     authorised s serial req
       (Ok (map (\<lambda>(i, group). \<lparr>pc_msg = TText (request ''tunnel.info'' (ids i) [(''groups'', JArr [JStr group])]),
                               pc_rid = ids i, pc_timeout = 10\<rparr>)
          (enumerate 0 (parse_info_groups_csv groups))))"

definition proxy_diagnostics ::
  "string \<Rightarrow> relay_state \<Rightarrow> string \<Rightarrow> u64 option \<Rightarrow> string option \<Rightarrow> proxy_request \<Rightarrow> proxied" where
  "proxy_diagnostics rid s serial log_lines log_since req =
     authorised s serial req
       (set_fields ((case log_lines of None \<Rightarrow> [] | Some n \<Rightarrow> [(''log_lines'', JNum (uint n))])
                    @ (case log_since of None \<Rightarrow> [] | Some x \<Rightarrow> [(''log_since'', JStr x)]))
          (request ''tunnel.diagnostics'' rid []) (send_one rid (rs_proxy_timeout_secs s)))"

subsection \<open>Commands and files\<close>

text \<open>
  The body of the client is the message, with the type and the request id overwritten; assigning a
  field of a body that is neither an object nor null panics.
\<close>

definition exec_timeout :: "relay_state \<Rightarrow> json \<Rightarrow> u64" where
  "exec_timeout s payload =
     (case json_as_u64 (json_index payload ''timeout_ms'') of
        None \<Rightarrow> rs_proxy_timeout_secs s
      | Some ms \<Rightarrow> ms div 1000 + 5)"

definition proxy_exec ::
  "(u8 list \<Rightarrow> json option) \<Rightarrow> string \<Rightarrow> relay_state \<Rightarrow> string \<Rightarrow> proxy_request \<Rightarrow> proxied" where
  "proxy_exec de rid s serial req =
     with_json de (10 * MIB) req (\<lambda>payload.
       authorised s serial req
         (set_fields ([(''type'', JStr ''tunnel.exec''), (''request_id'', JStr rid)] @ source_field req) payload
           (send_one rid (exec_timeout s payload))))"

definition exec_batch_timeout :: "relay_state \<Rightarrow> json \<Rightarrow> u64" where
  "exec_batch_timeout s payload =
     (case json_as_array (json_index payload ''commands'') of
        None \<Rightarrow> rs_proxy_timeout_secs s
      | Some cmds \<Rightarrow>
          sum_list (map (\<lambda>c. case json_as_u64 (json_index c ''timeout_ms'') of Some n \<Rightarrow> n | None \<Rightarrow> 30000) cmds) div 1000
            + 5 * of_nat (length cmds))"

definition proxy_exec_batch ::
  "(u8 list \<Rightarrow> json option) \<Rightarrow> string \<Rightarrow> relay_state \<Rightarrow> string \<Rightarrow> proxy_request \<Rightarrow> proxied" where
  "proxy_exec_batch de rid s serial req =
     with_json de (10 * MIB) req (\<lambda>payload.
       authorised s serial req
         (set_fields ([(''type'', JStr ''tunnel.exec_batch''), (''request_id'', JStr rid)] @ source_field req) payload
           (send_one rid (exec_batch_timeout s payload))))"

definition proxy_file_read ::
  "string \<Rightarrow> relay_state \<Rightarrow> string \<Rightarrow> string \<Rightarrow> bool \<Rightarrow> proxy_request \<Rightarrow> proxied" where
  "proxy_file_read rid s serial path lst req =
     authorised s serial req
       (set_fields (source_field req)
         (request ''tunnel.file.read'' rid [(''path'', JStr path), (''list'', JBool lst)])
         (send_one rid (rs_proxy_timeout_secs s)))"

definition proxy_file_write ::
  "(u8 list \<Rightarrow> json option) \<Rightarrow> string \<Rightarrow> relay_state \<Rightarrow> string \<Rightarrow> proxy_request \<Rightarrow> proxied" where
  "proxy_file_write de rid s serial req =
     with_json de (10 * MIB) req (\<lambda>payload.
       authorised s serial req
         (set_fields ([(''type'', JStr ''tunnel.file.write''), (''request_id'', JStr rid)] @ source_field req) payload
           (send_one rid (rs_proxy_timeout_secs s))))"

definition proxy_file_delete ::
  "(u8 list \<Rightarrow> json option) \<Rightarrow> string \<Rightarrow> relay_state \<Rightarrow> string \<Rightarrow> proxy_request \<Rightarrow> proxied" where
  "proxy_file_delete de rid s serial req =
     with_json de (10 * MIB) req (\<lambda>payload.
       authorised s serial req
         (set_fields (source_field req)
           (request ''tunnel.file.delete'' rid [(''path'', json_index payload ''path'')])
           (send_one rid (rs_proxy_timeout_secs s))))"

subsection \<open>Activity and sessions\<close>

definition proxy_activity :: "string \<Rightarrow> relay_state \<Rightarrow> string \<Rightarrow> u64 \<Rightarrow> u64 \<Rightarrow> proxy_request \<Rightarrow> proxied" where
  "proxy_activity rid s serial since_id limit req =
     authorised s serial req
       (send_one rid (rs_proxy_timeout_secs s)
         (request ''tunnel.activity'' rid [(''since_id'', JNum (uint since_id)), (''limit'', JNum (uint limit))]))"

definition default_activity_limit :: u64 where "default_activity_limit = 50"

definition proxy_exec_result :: "string \<Rightarrow> relay_state \<Rightarrow> string \<Rightarrow> u64 \<Rightarrow> proxy_request \<Rightarrow> proxied" where
  "proxy_exec_result rid s serial aid req =
     authorised s serial req
       (send_one rid (rs_proxy_timeout_secs s) (request ''tunnel.exec_result'' rid [(''activity_id'', JNum (uint aid))]))"

definition proxy_sessions :: "string \<Rightarrow> relay_state \<Rightarrow> string \<Rightarrow> proxy_request \<Rightarrow> proxied" where
  "proxy_sessions rid s serial req =
     authorised s serial req (send_one rid (rs_proxy_timeout_secs s) (request ''tunnel.sessions'' rid []))"

definition proxy_shells :: "string \<Rightarrow> relay_state \<Rightarrow> string \<Rightarrow> proxy_request \<Rightarrow> proxied" where
  "proxy_shells rid s serial req =
     authorised s serial req (send_one rid (rs_proxy_timeout_secs s) (request ''tunnel.shells'' rid []))"

definition proxy_session_signal ::
  "(u8 list \<Rightarrow> json option) \<Rightarrow> string \<Rightarrow> relay_state \<Rightarrow> string \<Rightarrow> string \<Rightarrow> proxy_request \<Rightarrow> proxied" where
  "proxy_session_signal de rid s serial sid req =
     with_json de KIB req (\<lambda>payload.
       authorised s serial req
         (send_one rid (rs_proxy_timeout_secs s)
           (request ''tunnel.session.signal'' rid [(''session_id'', JStr sid), (''signal'', json_index payload ''signal'')])))"

definition proxy_session_kill :: "string \<Rightarrow> relay_state \<Rightarrow> string \<Rightarrow> string \<Rightarrow> proxy_request \<Rightarrow> proxied" where
  "proxy_session_kill rid s serial sid req =
     authorised s serial req
       (send_one rid (rs_proxy_timeout_secs s) (request ''tunnel.session.kill'' rid [(''session_id'', JStr sid)]))"

definition proxy_session_patch ::
  "(u8 list \<Rightarrow> json option) \<Rightarrow> string \<Rightarrow> relay_state \<Rightarrow> string \<Rightarrow> string \<Rightarrow> proxy_request \<Rightarrow> proxied" where
  "proxy_session_patch de rid s serial sid req =
     with_json de (10 * KIB) req (\<lambda>payload.
       authorised s serial req
         (set_fields [(''type'', JStr ''tunnel.session.patch''), (''request_id'', JStr rid), (''session_id'', JStr sid)]
           payload (send_one rid (rs_proxy_timeout_secs s))))"

subsection \<open>Playbooks\<close>

definition proxy_playbooks_list :: "string \<Rightarrow> relay_state \<Rightarrow> string \<Rightarrow> proxy_request \<Rightarrow> proxied" where
  "proxy_playbooks_list rid s serial req =
     authorised s serial req
       (set_fields (source_field req) (request ''tunnel.playbooks.list'' rid []) (send_one rid (rs_proxy_timeout_secs s)))"

definition proxy_playbook_get :: "string \<Rightarrow> relay_state \<Rightarrow> string \<Rightarrow> string \<Rightarrow> proxy_request \<Rightarrow> proxied" where
  "proxy_playbook_get rid s serial name req =
     authorised s serial req
       (set_fields (source_field req) (request ''tunnel.playbooks.get'' rid [(''name'', JStr name)])
         (send_one rid (rs_proxy_timeout_secs s)))"

definition proxy_playbook_put ::
  "(u8 list \<Rightarrow> string option) \<Rightarrow> string \<Rightarrow> relay_state \<Rightarrow> string \<Rightarrow> string \<Rightarrow> proxy_request \<Rightarrow> proxied" where
  "proxy_playbook_put utf8 rid s serial name req =
     with_body (10 * MIB) req (\<lambda>body.
       case utf8 body of
         None \<Rightarrow> Err (400, JObj [(''error'', JStr ''Invalid UTF-8'')])
       | Some content \<Rightarrow>
           authorised s serial req
             (set_fields (source_field req)
               (request ''tunnel.playbooks.put'' rid [(''name'', JStr name), (''content'', JStr content)])
               (send_one rid (rs_proxy_timeout_secs s))))"

definition proxy_playbook_delete :: "string \<Rightarrow> relay_state \<Rightarrow> string \<Rightarrow> string \<Rightarrow> proxy_request \<Rightarrow> proxied" where
  "proxy_playbook_delete rid s serial name req =
     authorised s serial req
       (set_fields (source_field req) (request ''tunnel.playbooks.delete'' rid [(''name'', JStr name)])
         (send_one rid (rs_proxy_timeout_secs s)))"

subsection \<open>GPS, LTE and infrastructure\<close>

definition proxy_gps :: "string \<Rightarrow> relay_state \<Rightarrow> string \<Rightarrow> proxy_request \<Rightarrow> proxied" where
  "proxy_gps rid s serial req =
     authorised s serial req (send_one rid (rs_proxy_timeout_secs s) (request ''tunnel.gps'' rid []))"

definition proxy_lte :: "string \<Rightarrow> relay_state \<Rightarrow> string \<Rightarrow> proxy_request \<Rightarrow> proxied" where
  "proxy_lte rid s serial req =
     authorised s serial req (send_one rid (rs_proxy_timeout_secs s) (request ''tunnel.lte'' rid []))"

definition proxy_lte_bands ::
  "(u8 list \<Rightarrow> json option) \<Rightarrow> string \<Rightarrow> relay_state \<Rightarrow> string \<Rightarrow> proxy_request \<Rightarrow> proxied" where
  "proxy_lte_bands de rid s serial req =
     with_json de (10 * KIB) req (\<lambda>payload.
       authorised s serial req
         (set_fields [(''type'', JStr ''tunnel.lte.bands''), (''request_id'', JStr rid)] payload (send_one rid 45)))"

definition proxy_lte_scan ::
  "(u8 list \<Rightarrow> json option) \<Rightarrow> string \<Rightarrow> relay_state \<Rightarrow> string \<Rightarrow> proxy_request \<Rightarrow> proxied" where
  "proxy_lte_scan de rid s serial req =
     with_json de (10 * KIB) req (\<lambda>payload.
       authorised s serial req
         (set_fields [(''type'', JStr ''tunnel.lte.scan''), (''request_id'', JStr rid)] payload
           (send_one rid (rs_proxy_timeout_secs s))))"

definition proxy_lte_speedtest :: "string \<Rightarrow> relay_state \<Rightarrow> string \<Rightarrow> proxy_request \<Rightarrow> proxied" where
  "proxy_lte_speedtest rid s serial req =
     authorised s serial req
       (send_one rid (max (rs_proxy_timeout_secs s) 30) (request ''tunnel.lte.speedtest'' rid []))"

definition proxy_infra_results :: "string \<Rightarrow> relay_state \<Rightarrow> string \<Rightarrow> proxy_request \<Rightarrow> proxied" where
  "proxy_infra_results rid s serial req =
     authorised s serial req (send_one rid (rs_proxy_timeout_secs s) (request ''tunnel.infra.results'' rid []))"

definition proxy_infra_discover_progress :: "string \<Rightarrow> relay_state \<Rightarrow> string \<Rightarrow> proxy_request \<Rightarrow> proxied" where
  "proxy_infra_discover_progress rid s serial req =
     authorised s serial req (send_one rid 10 (request ''tunnel.infra.discover.progress'' rid []))"

definition proxy_infra_discover_subnets :: "string \<Rightarrow> relay_state \<Rightarrow> string \<Rightarrow> proxy_request \<Rightarrow> proxied" where
  "proxy_infra_discover_subnets rid s serial req =
     authorised s serial req (send_one rid 10 (request ''tunnel.infra.discover.subnets'' rid []))"

definition proxy_infra_discover ::
  "(u8 list \<Rightarrow> json option) \<Rightarrow> string \<Rightarrow> relay_state \<Rightarrow> string \<Rightarrow> proxy_request \<Rightarrow> proxied" where
  "proxy_infra_discover de rid s serial req =
     with_json de (10 * MIB) req (\<lambda>payload.
       authorised s serial req
         (set_fields [(''type'', JStr ''tunnel.infra.discover''), (''request_id'', JStr rid)] payload (send_one rid 120)))"

definition proxy_infra_config_push ::
  "(u8 list \<Rightarrow> json option) \<Rightarrow> string \<Rightarrow> relay_state \<Rightarrow> string \<Rightarrow> proxy_request \<Rightarrow> proxied" where
  "proxy_infra_config_push de rid s serial req =
     with_json de (10 * MIB) req (\<lambda>payload.
       authorised s serial req
         (set_fields [(''type'', JStr ''tunnel.infra.config''), (''request_id'', JStr rid)] payload
           (send_one rid (rs_proxy_timeout_secs s))))"

definition proxy_infra_config_delete :: "string \<Rightarrow> relay_state \<Rightarrow> string \<Rightarrow> proxy_request \<Rightarrow> proxied" where
  "proxy_infra_config_delete rid s serial req =
     authorised s serial req (send_one rid (rs_proxy_timeout_secs s) (request ''tunnel.infra.config.delete'' rid []))"

definition proxy_infra_check :: "string \<Rightarrow> relay_state \<Rightarrow> string \<Rightarrow> string \<Rightarrow> proxy_request \<Rightarrow> proxied" where
  "proxy_infra_check rid s serial target_id req =
     authorised s serial req
       (send_one rid 30 (request ''tunnel.infra.check'' rid [(''target_id'', JStr target_id)]))"

subsection \<open>File transfers\<close>

definition proxy_stp_download_init ::
  "(u8 list \<Rightarrow> json option) \<Rightarrow> string \<Rightarrow> relay_state \<Rightarrow> string \<Rightarrow> proxy_request \<Rightarrow> proxied" where
  "proxy_stp_download_init de rid s serial req =
     with_json de MIB req (\<lambda>payload.
       authorised s serial req
         (send_one rid 30 (request ''gx.download.init'' rid
            [(''path'', json_index payload ''path''), (''chunk_size'', json_index payload ''chunk_size'')])))"

definition proxy_stp_upload_init ::
  "(u8 list \<Rightarrow> json option) \<Rightarrow> string \<Rightarrow> relay_state \<Rightarrow> string \<Rightarrow> proxy_request \<Rightarrow> proxied" where
  "proxy_stp_upload_init de rid s serial req =
     with_json de MIB req (\<lambda>payload.
       authorised s serial req
         (set_fields [(''type'', JStr ''gx.upload.init''), (''request_id'', JStr rid)] payload (send_one rid 30)))"

definition proxy_stp_download_chunk ::
  "string \<Rightarrow> relay_state \<Rightarrow> string \<Rightarrow> string \<Rightarrow> u32 \<Rightarrow> proxy_request \<Rightarrow> proxied" where
  "proxy_stp_download_chunk rid s serial xfer idx req =
     authorised s serial req
       (send_one rid 60 (request ''gx.chunk.request'' rid
          [(''transfer_id'', JStr xfer), (''chunk_index'', JNum (uint idx))]))"

definition proxy_stp_upload_chunk ::
  "(json \<Rightarrow> u8 list) \<Rightarrow> string \<Rightarrow> relay_state \<Rightarrow> string \<Rightarrow> string \<Rightarrow> u32 \<Rightarrow> proxy_request \<Rightarrow> proxied" where
  "proxy_stp_upload_chunk ser rid s serial xfer idx req =
     authorised s serial req
       (let chunk_hash = (case pr_headers req ''x-gx-chunk-hash'' of Some h \<Rightarrow> h | None \<Rightarrow> []) in
        if chunk_hash = [] then Err (http_err 400 ''Missing X-Gx-Chunk-Hash header'' ''INVALID_REQUEST'')
        else Ok [\<lparr>pc_msg = TBinary (encode_binary_frame ser (request ''gx.chunk'' rid
                    [(''transfer_id'', JStr xfer), (''chunk_index'', JNum (uint idx)),
                     (''chunk_hash'', JStr chunk_hash)]) (pr_body req)),
                 pc_rid = rid, pc_timeout = 60\<rparr>])"

definition proxy_stp_resume :: "string \<Rightarrow> relay_state \<Rightarrow> string \<Rightarrow> string \<Rightarrow> proxy_request \<Rightarrow> proxied" where
  "proxy_stp_resume rid s serial xfer req =
     authorised s serial req
       (send_one rid (rs_proxy_timeout_secs s) (request ''gx.resume'' rid [(''transfer_id'', JStr xfer)]))"

definition proxy_stp_status :: "string \<Rightarrow> relay_state \<Rightarrow> string \<Rightarrow> string \<Rightarrow> proxy_request \<Rightarrow> proxied" where
  "proxy_stp_status rid s serial xfer req =
     authorised s serial req
       (send_one rid (rs_proxy_timeout_secs s) (request ''gx.status'' rid [(''transfer_id'', JStr xfer)]))"

definition proxy_stp_list :: "string \<Rightarrow> relay_state \<Rightarrow> string \<Rightarrow> proxy_request \<Rightarrow> proxied" where
  "proxy_stp_list rid s serial req =
     authorised s serial req (send_one rid (rs_proxy_timeout_secs s) (request ''gx.list'' rid []))"

definition proxy_stp_abort :: "string \<Rightarrow> relay_state \<Rightarrow> string \<Rightarrow> string \<Rightarrow> proxy_request \<Rightarrow> proxied" where
  "proxy_stp_abort rid s serial xfer req =
     authorised s serial req
       (send_one rid (rs_proxy_timeout_secs s)
         (request ''gx.abort'' rid [(''transfer_id'', JStr xfer), (''reason'', JStr ''client abort'')]))"

subsection \<open>Routes\<close>

datatype endpoint =
    EpHealth
  | EpInfo "string option"
  | EpDiagnostics "u64 option" "string option"
  | EpExec
  | EpExecBatch
  | EpFileRead string bool
  | EpFileWrite
  | EpFileDelete
  | EpStpDownloadInit
  | EpStpUploadInit
  | EpStpDownloadChunk string u32
  | EpStpUploadChunk string u32
  | EpStpResume string
  | EpStpStatus string
  | EpStpList
  | EpStpAbort string
  | EpActivity "u64 option" "u64 option"
  | EpExecResult u64
  | EpSessions
  | EpSessionKill string
  | EpSessionPatch string
  | EpSessionSignal string
  | EpShells
  | EpPlaybooksList
  | EpPlaybookGet string
  | EpPlaybookPut string
  | EpPlaybookDelete string
  | EpGps
  | EpLte
  | EpLteBands
  | EpLteScan
  | EpLteSpeedtest
  | EpInfraConfigPush
  | EpInfraConfigDelete
  | EpInfraResults
  | EpInfraDiscover
  | EpInfraDiscoverProgress
  | EpInfraDiscoverSubnets
  | EpInfraCheck string

record codec =
  cd_de :: "u8 list \<Rightarrow> json option"
  cd_ser :: "json \<Rightarrow> u8 list"
  cd_utf8 :: "u8 list \<Rightarrow> string option"
  cd_header_ok :: "string \<Rightarrow> bool"

fun relay_router :: "codec \<Rightarrow> (nat \<Rightarrow> string) \<Rightarrow> relay_state \<Rightarrow> string \<Rightarrow> endpoint \<Rightarrow> proxy_request \<Rightarrow> proxied" where
  "relay_router cd ids s serial EpHealth req = proxy_health (ids 0)"
| "relay_router cd ids s serial (EpInfo groups) req = proxy_info ids s serial groups req"
| "relay_router cd ids s serial (EpDiagnostics n since) req = proxy_diagnostics (ids 0) s serial n since req"
| "relay_router cd ids s serial EpExec req = proxy_exec (cd_de cd) (ids 0) s serial req"
| "relay_router cd ids s serial EpExecBatch req = proxy_exec_batch (cd_de cd) (ids 0) s serial req"
| "relay_router cd ids s serial (EpFileRead path lst) req = proxy_file_read (ids 0) s serial path lst req"
| "relay_router cd ids s serial EpFileWrite req = proxy_file_write (cd_de cd) (ids 0) s serial req"
| "relay_router cd ids s serial EpFileDelete req = proxy_file_delete (cd_de cd) (ids 0) s serial req"
| "relay_router cd ids s serial EpStpDownloadInit req = proxy_stp_download_init (cd_de cd) (ids 0) s serial req"
| "relay_router cd ids s serial EpStpUploadInit req = proxy_stp_upload_init (cd_de cd) (ids 0) s serial req"
| "relay_router cd ids s serial (EpStpDownloadChunk xfer idx) req =
     proxy_stp_download_chunk (ids 0) s serial xfer idx req"
| "relay_router cd ids s serial (EpStpUploadChunk xfer idx) req =
     proxy_stp_upload_chunk (cd_ser cd) (ids 0) s serial xfer idx req"
| "relay_router cd ids s serial (EpStpResume xfer) req = proxy_stp_resume (ids 0) s serial xfer req"
| "relay_router cd ids s serial (EpStpStatus xfer) req = proxy_stp_status (ids 0) s serial xfer req"
| "relay_router cd ids s serial EpStpList req = proxy_stp_list (ids 0) s serial req"
| "relay_router cd ids s serial (EpStpAbort xfer) req = proxy_stp_abort (ids 0) s serial xfer req"
| "relay_router cd ids s serial (EpActivity since limit) req =
     proxy_activity (ids 0) s serial (case since of None \<Rightarrow> 0 | Some n \<Rightarrow> n)
       (case limit of None \<Rightarrow> default_activity_limit | Some n \<Rightarrow> n) req"
| "relay_router cd ids s serial (EpExecResult aid) req = proxy_exec_result (ids 0) s serial aid req"
| "relay_router cd ids s serial EpSessions req = proxy_sessions (ids 0) s serial req"
| "relay_router cd ids s serial (EpSessionKill sid) req = proxy_session_kill (ids 0) s serial sid req"
| "relay_router cd ids s serial (EpSessionPatch sid) req = proxy_session_patch (cd_de cd) (ids 0) s serial sid req"
| "relay_router cd ids s serial (EpSessionSignal sid) req = proxy_session_signal (cd_de cd) (ids 0) s serial sid req"
| "relay_router cd ids s serial EpShells req = proxy_shells (ids 0) s serial req"
| "relay_router cd ids s serial EpPlaybooksList req = proxy_playbooks_list (ids 0) s serial req"
| "relay_router cd ids s serial (EpPlaybookGet name) req = proxy_playbook_get (ids 0) s serial name req"
| "relay_router cd ids s serial (EpPlaybookPut name) req = proxy_playbook_put (cd_utf8 cd) (ids 0) s serial name req"
| "relay_router cd ids s serial (EpPlaybookDelete name) req = proxy_playbook_delete (ids 0) s serial name req"
| "relay_router cd ids s serial EpGps req = proxy_gps (ids 0) s serial req"
| "relay_router cd ids s serial EpLte req = proxy_lte (ids 0) s serial req"
| "relay_router cd ids s serial EpLteBands req = proxy_lte_bands (cd_de cd) (ids 0) s serial req"
| "relay_router cd ids s serial EpLteScan req = proxy_lte_scan (cd_de cd) (ids 0) s serial req"
| "relay_router cd ids s serial EpLteSpeedtest req = proxy_lte_speedtest (ids 0) s serial req"
| "relay_router cd ids s serial EpInfraConfigPush req = proxy_infra_config_push (cd_de cd) (ids 0) s serial req"
| "relay_router cd ids s serial EpInfraConfigDelete req = proxy_infra_config_delete (ids 0) s serial req"
| "relay_router cd ids s serial EpInfraResults req = proxy_infra_results (ids 0) s serial req"
| "relay_router cd ids s serial EpInfraDiscover req = proxy_infra_discover (cd_de cd) (ids 0) s serial req"
| "relay_router cd ids s serial EpInfraDiscoverProgress req = proxy_infra_discover_progress (ids 0) s serial req"
| "relay_router cd ids s serial EpInfraDiscoverSubnets req = proxy_infra_discover_subnets (ids 0) s serial req"
| "relay_router cd ids s serial (EpInfraCheck target) req = proxy_infra_check (ids 0) s serial target req"

subsection \<open>Responses\<close>

text \<open>
  \<open>StatusCode::from_u16\<close> accepts 100 to 999; anything else becomes 500. The status of the device is
  a 64-bit number whose low 16 bits are used.
\<close>

definition status_of :: "u64 \<Rightarrow> nat" where
  "status_of status =
     (let n = unat (ucast status :: u16) in if 100 \<le> n \<and> n \<le> 999 then n else 500)"

definition status_field :: "u64 \<Rightarrow> json \<Rightarrow> u64" where
  "status_field d v = (case json_as_u64 (json_index v ''status'') of Some n \<Rightarrow> n | None \<Rightarrow> d)"

definition proxy_response_to_http :: "json \<Rightarrow> http_error + json" where
  "proxy_response_to_http response =
     (let status = status_field 200 response; body = json_index response ''body'' in
      if 200 \<le> status \<and> status < 300 then Inr body else Inl (status_of status, body))"

definition health_response :: "json \<Rightarrow> http_error + json" where
  "health_response response =
     (let status = status_field 200 response; body = json_index response ''body'' in
      if status = 200 then Inr body else Inl (status_of status, body))"

text \<open>The answers for the groups are merged in their order; the first failure ends it.\<close>

fun info_merge :: "(http_error + json) list \<Rightarrow> (string \<times> json) list \<Rightarrow> http_error + json" where
  "info_merge [] merged = Inr (JObj merged)"
| "info_merge (Inl e # rs) merged = Inl e"
| "info_merge (Inr response # rs) merged =
     (let status = status_field 200 response; body = json_index response ''body'' in
      if status \<noteq> 200 then Inl (status_of status, body)
      else case json_as_object body of
             None \<Rightarrow> Inl (http_err 502 ''Invalid device info response'' ''INVALID_DEVICE_RESPONSE'')
           | Some kvs \<Rightarrow> info_merge rs (fold (\<lambda>(k, v). put_field k v) kvs merged))"

record chunk_reply =
  cr_hash :: string
  cr_index :: u32
  cr_transfer :: string
  cr_data :: "u8 list"

text \<open>Header values of the device go into the response; a value that is no header value panics.\<close>

definition download_chunk_response :: "(string \<Rightarrow> bool) \<Rightarrow> tunnel_response \<Rightarrow> (http_error, chunk_reply) outcome" where
  "download_chunk_response header_ok r =
     (case r of
        RBinary header data \<Rightarrow>
         (let h = json_str_or [] (json_index header ''chunk_hash'');
              t = json_str_or [] (json_index header ''transfer_id'')
          in if header_ok h \<and> header_ok t
             then Ok \<lparr>cr_hash = h,
                      cr_index = (case json_as_u64 (json_index header ''chunk_index'') of Some n \<Rightarrow> ucast n | None \<Rightarrow> 0),
                      cr_transfer = t, cr_data = data\<rparr>
             else Panic ''called Result::unwrap() on an Err value'')
      | RJson v \<Rightarrow> Err (status_of (status_field 500 v), json_index v ''body''))"

definition upload_chunk_response :: "tunnel_response \<Rightarrow> http_error + json" where
  "upload_chunk_response r =
     (case r of
        RJson v \<Rightarrow>
         (let status = status_field 200 v in
          if status \<ge> 400 then Inl (status_of status, json_index v ''body'')
          else Inr (case json_get v ''body'' of Some b \<Rightarrow> b | None \<Rightarrow> JObj [(''ok'', JBool True)]))
      | RBinary _ _ \<Rightarrow> Inl (500, JObj [(''error'', JStr ''Unexpected binary response for chunk upload'')]))"

datatype http_response = HJson json | HChunk chunk_reply

text \<open>The response of an endpoint to the outcomes of its calls.\<close>

definition proxy_respond ::
  "codec \<Rightarrow> endpoint \<Rightarrow> (http_error + tunnel_response) list \<Rightarrow> (http_error, http_response) outcome" where
  "proxy_respond cd ep rs =
     (let as_json = (\<lambda>r. case r of Inl e \<Rightarrow> Err e | Inr v \<Rightarrow> Ok (HJson v));
          single = (\<lambda>f. case rs of
                      [r] \<Rightarrow> (case tunnel_request_json r of Inl e \<Rightarrow> Err e | Inr v \<Rightarrow> as_json (f v))
                    | _ \<Rightarrow> Err (500, JNull))
      in case ep of
           EpHealth \<Rightarrow> single health_response
         | EpInfo _ \<Rightarrow> as_json (info_merge (map tunnel_request_json rs) [])
         | EpStpDownloadChunk _ _ \<Rightarrow>
            (case rs of
               [Inr r] \<Rightarrow> (case download_chunk_response (cd_header_ok cd) r of
                             Ok c \<Rightarrow> Ok (HChunk c) | Err e \<Rightarrow> Err e | Panic p \<Rightarrow> Panic p)
             | [Inl e] \<Rightarrow> Err e
             | _ \<Rightarrow> Err (500, JNull))
         | EpStpUploadChunk _ _ \<Rightarrow>
            (case rs of [Inr r] \<Rightarrow> as_json (upload_chunk_response r) | [Inl e] \<Rightarrow> Err e | _ \<Rightarrow> Err (500, JNull))
         | _ \<Rightarrow> single proxy_response_to_http)"

text \<open>\<open>GET /api/tunnel/devices\<close>, for the holder of the tunnel key.\<close>

definition device_entry :: "instant \<Rightarrow> relay_state \<Rightarrow> connection \<Rightarrow> json" where
  "device_entry now s cn =
     (let h = (case hm_get (rs_hubs s) (cn_hub cn) of Some h \<Rightarrow> h | None \<Rightarrow> new_hub);
          opt = (\<lambda>v. case v of None \<Rightarrow> JNull | Some x \<Rightarrow> x)
      in JObj [(''serial'', JStr (cn_serial cn)),
               (''clients'', JArr (map (JStr \<circ> fst) (hb_clients h))),
               (''client_count'', JNum (int (length (hb_clients h)))),
               (''last_heartbeat_ago_ms'', JNum (uint (heartbeat_age now cn s))),
               (''pending_requests_count'', JNum (int (length (cn_pending cn)))),
               (''session_subscriptions'', JObj (map (\<lambda>(sid, cids). (sid, JArr (map JStr cids))) (hb_subs h))),
               (''connected_since_ms'', JNum (uint (of_nat (as_millis (elapsed now (cn_connected_since cn))) :: u64))),
               (''dropped_messages'', JNum (uint (cn_dropped cn))),
               (''last_gps_fix'', opt (hb_gps_fix h)),
               (''last_lte_signal'', opt (hb_lte_signal h))])"

definition list_devices :: "instant \<Rightarrow> string \<Rightarrow> relay_state \<Rightarrow> (nat \<times> string) + json" where
  "list_devices now token s =
     (if \<not> constant_time_eq (bytes (rs_tunnel_key s)) (bytes token) then Inl (403, ''Invalid tunnel key'')
      else Inr (JObj [(''devices'', JArr (map (device_entry now s)
             (List.map_filter (\<lambda>(_, c). hm_get (rs_conns s) c) (rs_devices s))))]))"

subsection \<open>What reaches a device\<close>

text \<open>The type of the message an endpoint sends.\<close>

fun endpoint_type :: "endpoint \<Rightarrow> string" where
  "endpoint_type EpHealth = ''tunnel.health''"
| "endpoint_type (EpInfo _) = ''tunnel.info''"
| "endpoint_type (EpDiagnostics _ _) = ''tunnel.diagnostics''"
| "endpoint_type EpExec = ''tunnel.exec''"
| "endpoint_type EpExecBatch = ''tunnel.exec_batch''"
| "endpoint_type (EpFileRead _ _) = ''tunnel.file.read''"
| "endpoint_type EpFileWrite = ''tunnel.file.write''"
| "endpoint_type EpFileDelete = ''tunnel.file.delete''"
| "endpoint_type EpStpDownloadInit = ''gx.download.init''"
| "endpoint_type EpStpUploadInit = ''gx.upload.init''"
| "endpoint_type (EpStpDownloadChunk _ _) = ''gx.chunk.request''"
| "endpoint_type (EpStpUploadChunk _ _) = ''gx.chunk''"
| "endpoint_type (EpStpResume _) = ''gx.resume''"
| "endpoint_type (EpStpStatus _) = ''gx.status''"
| "endpoint_type EpStpList = ''gx.list''"
| "endpoint_type (EpStpAbort _) = ''gx.abort''"
| "endpoint_type (EpActivity _ _) = ''tunnel.activity''"
| "endpoint_type (EpExecResult _) = ''tunnel.exec_result''"
| "endpoint_type EpSessions = ''tunnel.sessions''"
| "endpoint_type (EpSessionKill _) = ''tunnel.session.kill''"
| "endpoint_type (EpSessionPatch _) = ''tunnel.session.patch''"
| "endpoint_type (EpSessionSignal _) = ''tunnel.session.signal''"
| "endpoint_type EpShells = ''tunnel.shells''"
| "endpoint_type EpPlaybooksList = ''tunnel.playbooks.list''"
| "endpoint_type (EpPlaybookGet _) = ''tunnel.playbooks.get''"
| "endpoint_type (EpPlaybookPut _) = ''tunnel.playbooks.put''"
| "endpoint_type (EpPlaybookDelete _) = ''tunnel.playbooks.delete''"
| "endpoint_type EpGps = ''tunnel.gps''"
| "endpoint_type EpLte = ''tunnel.lte''"
| "endpoint_type EpLteBands = ''tunnel.lte.bands''"
| "endpoint_type EpLteScan = ''tunnel.lte.scan''"
| "endpoint_type EpLteSpeedtest = ''tunnel.lte.speedtest''"
| "endpoint_type EpInfraConfigPush = ''tunnel.infra.config''"
| "endpoint_type EpInfraConfigDelete = ''tunnel.infra.config.delete''"
| "endpoint_type EpInfraResults = ''tunnel.infra.results''"
| "endpoint_type EpInfraDiscover = ''tunnel.infra.discover''"
| "endpoint_type EpInfraDiscoverProgress = ''tunnel.infra.discover.progress''"
| "endpoint_type EpInfraDiscoverSubnets = ''tunnel.infra.discover.subnets''"
| "endpoint_type (EpInfraCheck _) = ''tunnel.infra.check''"

definition bearer_of :: "relay_state \<Rightarrow> string \<Rightarrow> proxy_request \<Rightarrow> bool" where
  "bearer_of s serial req \<longleftrightarrow>
     (\<exists>c cn. device s serial = Some (c, cn) \<and> pr_headers req ''authorization'' = Some (''Bearer '' @ cn_api_key cn))"

definition addressed :: "codec \<Rightarrow> (nat \<Rightarrow> string) \<Rightarrow> string \<Rightarrow> proxy_call \<Rightarrow> bool" where
  "addressed cd ids ty call \<longleftrightarrow>
     (\<exists>h i. (if ty = ''gx.chunk'' then \<exists>p. pc_msg call = TBinary (encode_binary_frame (cd_ser cd) h p)
             else pc_msg call = TText h)
        \<and> json_index h ''type'' = JStr ty \<and> json_index h ''request_id'' = JStr (ids i) \<and> pc_rid call = ids i)"

text \<open>Two properties of a handler's result, with rules that follow its structure.\<close>

definition only_addressed :: "codec \<Rightarrow> (nat \<Rightarrow> string) \<Rightarrow> string \<Rightarrow> proxied \<Rightarrow> bool" where
  "only_addressed cd ids ty r \<longleftrightarrow> (\<forall>calls. r = Ok calls \<longrightarrow> (\<forall>call \<in> set calls. addressed cd ids ty call))"

definition only_bearer :: "relay_state \<Rightarrow> string \<Rightarrow> proxy_request \<Rightarrow> proxied \<Rightarrow> bool" where
  "only_bearer s serial req r \<longleftrightarrow> (\<forall>calls. r = Ok calls \<longrightarrow> bearer_of s serial req)"

named_theorems proxy_rules \<open>rules for the results of endpoints\<close>

lemma validate_device_auth_Inr:
  "validate_device_auth s serial auth = Inr (c, cn) \<longleftrightarrow>
     device s serial = Some (c, cn) \<and> auth = Some (''Bearer '' @ cn_api_key cn)"
  by (auto simp: validate_device_auth_def constant_time_eq_iff bytes_inject strip_prefix_Some_iff
      split: option.splits bind_splits if_splits)

lemma bearer_authorised [proxy_rules]: "only_bearer s serial req (authorised s serial req k)"
  by (auto simp: only_bearer_def authorised_def bearer_of_def validate_device_auth_Inr split: sum.splits)

lemma bearer_body [proxy_rules]:
  "(\<And>b. only_bearer s serial req (k b)) \<Longrightarrow> only_bearer s serial req (with_body limit req' k)"
  "(\<And>v. only_bearer s serial req (k' v)) \<Longrightarrow> only_bearer s serial req (with_json de limit req' k')"
  by (auto simp: only_bearer_def with_body_def with_json_def split: option.splits)

lemma addressed_authorised [proxy_rules]:
  "only_addressed cd ids ty k \<Longrightarrow> only_addressed cd ids ty (authorised s serial req k)"
  by (auto simp: only_addressed_def authorised_def split: sum.splits)

lemma addressed_body [proxy_rules]:
  "(\<And>b. only_addressed cd ids ty (k b)) \<Longrightarrow> only_addressed cd ids ty (with_body limit req k)"
  "(\<And>v. only_addressed cd ids ty (k' v)) \<Longrightarrow> only_addressed cd ids ty (with_json de limit req k')"
  by (auto simp: only_addressed_def with_body_def with_json_def split: option.splits)

lemma addressed_send:
  "ty \<noteq> ''gx.chunk'' \<Longrightarrow> json_index m ''type'' = JStr ty \<Longrightarrow> json_index m ''request_id'' = JStr (ids i) \<Longrightarrow>
     only_addressed cd ids ty (send_one (ids i) timeout m)"
  by (auto simp: only_addressed_def send_one_def addressed_def)

text \<open>Assigning fields keeps the others.\<close>

lemma set_fields_Ok:
  "set_fields fvs m k = Ok calls \<Longrightarrow>
     \<exists>m'. k m' = Ok calls \<and> (\<forall>f. json_index m' f = (case map_of (rev fvs) f of Some v \<Rightarrow> v | None \<Rightarrow> json_index m f))"
proof (induction fvs m k rule: set_fields.induct)
  case (1 m k)
  then show ?case by auto
next
  case (2 f v fvs m k)
  then obtain m1 where m1: "json_set m f v = (Ok m1 :: (http_error, json) outcome)" "set_fields fvs m1 k = Ok calls"
    by (auto split: outcome.splits)
  with 2(1) obtain m' where m': "k m' = Ok calls"
    "\<forall>g. json_index m' g = (case map_of (rev fvs) g of Some v \<Rightarrow> v | None \<Rightarrow> json_index m1 g)" by blast
  have "json_index m1 g = (if g = f then v else json_index m g)" for g
    using json_set_Ok [OF m1(1), of g] by auto
  then show ?case using m' by (intro exI [of _ m']) (auto simp: map_add_def split: option.splits)
qed

declare set_fields.simps [simp del]

lemma addressed_set_fields [proxy_rules]:
  assumes "\<And>m'. (\<And>f. json_index m' f = (case map_of (rev fvs) f of Some v \<Rightarrow> v | None \<Rightarrow> json_index m f))
    \<Longrightarrow> only_addressed cd ids ty (k m')"
  shows "only_addressed cd ids ty (set_fields fvs m k)"
  using assms set_fields_Ok [of fvs m k] unfolding only_addressed_def by blast

lemma json_index_request:
  "json_index (request ty rid fvs) ''type'' = JStr ty" "json_index (request ty rid fvs) ''request_id'' = JStr rid"
  by (simp_all add: request_def json_index_def)

lemma addressed_request [proxy_rules]:
  "ty \<noteq> ''gx.chunk'' \<Longrightarrow> only_addressed cd ids ty (send_one (ids i) timeout (request ty (ids i) fvs))"
  by (simp add: addressed_send json_index_request)

lemma map_of_source: "map_of (rev (source_field req)) f = None" if "f \<noteq> ''_source''"
  using that by (simp add: source_field_def split: option.split)

lemma addressed_extra [proxy_rules]:
  assumes "ty \<noteq> ''gx.chunk''" and "map_of (rev gvs) ''type'' = None" and "map_of (rev gvs) ''request_id'' = None"
  shows "only_addressed cd ids ty (set_fields gvs (request ty (ids i) fvs) (send_one (ids i) timeout))"
  by (rule addressed_set_fields, rule addressed_send) (use assms in \<open>simp_all add: json_index_request\<close>)

lemma addressed_payload [proxy_rules]:
  assumes "ty \<noteq> ''gx.chunk''" and "map_of (rev fvs) ''type'' = None" and "map_of (rev fvs) ''request_id'' = None"
  shows "only_addressed cd ids ty
    (set_fields ((''type'', JStr ty) # (''request_id'', JStr (ids i)) # fvs) m (send_one (ids i) timeout))"
  by (rule addressed_set_fields, rule addressed_send) (use assms in \<open>simp_all add: map_add_def\<close>)

lemmas endpoint_defs = proxy_health_def proxy_info_def proxy_diagnostics_def proxy_exec_def proxy_exec_batch_def
  proxy_file_read_def proxy_file_write_def proxy_file_delete_def proxy_stp_download_init_def
  proxy_stp_upload_init_def proxy_stp_download_chunk_def proxy_stp_upload_chunk_def proxy_stp_resume_def
  proxy_stp_status_def proxy_stp_list_def proxy_stp_abort_def proxy_activity_def proxy_exec_result_def
  proxy_sessions_def proxy_session_kill_def proxy_session_patch_def proxy_session_signal_def proxy_shells_def
  proxy_playbooks_list_def proxy_playbook_get_def proxy_playbook_put_def proxy_playbook_delete_def proxy_gps_def
  proxy_lte_def proxy_lte_bands_def proxy_lte_scan_def proxy_lte_speedtest_def proxy_infra_config_push_def
  proxy_infra_config_delete_def proxy_infra_results_def proxy_infra_discover_def
  proxy_infra_discover_progress_def proxy_infra_discover_subnets_def proxy_infra_check_def

lemma playbook_put_rules [proxy_rules]:
  "only_bearer s serial req (case utf8 b of None \<Rightarrow> Err e | Some c \<Rightarrow> authorised s serial req (k c))"
  "(\<And>c. only_addressed cd ids ty (k' c)) \<Longrightarrow> only_addressed cd ids ty (case utf8 b of None \<Rightarrow> Err e | Some c \<Rightarrow> k' c)"
  using bearer_authorised [of s serial req] by (auto simp: only_bearer_def only_addressed_def split: option.split)

lemma router_bearer: "ep \<noteq> EpHealth \<Longrightarrow> only_bearer s serial req (relay_router cd ids s serial ep req)"
proof (cases ep)
  case (EpPlaybookPut name)
  then show ?thesis by (auto simp: proxy_playbook_put_def intro: bearer_body(1) playbook_put_rules(1))
qed (simp_all add: endpoint_defs proxy_rules)

lemma router_addressed: "only_addressed cd ids (endpoint_type ep) (relay_router cd ids s serial ep req)"
proof (cases ep)
  case (EpInfo groups)
  then show ?thesis
    by (auto simp: proxy_info_def intro!: addressed_authorised)
      (auto simp: only_addressed_def addressed_def json_index_request)
next
  case (EpDiagnostics n since)
  then show ?thesis unfolding EpDiagnostics relay_router.simps endpoint_type.simps proxy_diagnostics_def
    by (intro addressed_authorised addressed_extra) (simp_all split: option.split)
next
  case (EpStpUploadChunk xfer idx)
  then show ?thesis
    by (auto simp: proxy_stp_upload_chunk_def Let_def intro!: addressed_authorised)
      (auto simp: only_addressed_def addressed_def intro!: json_index_request)
qed (simp_all add: endpoint_defs proxy_rules map_of_source)

text \<open>
  C7. Only the holder of a device's key reaches the device through the relay, and only with a message
  of the kind the endpoint is for. Whatever endpoint is called with whatever body and headers, when
  it hands messages to the tunnel then the device is registered and the request carries the bearer
  token with exactly its key (the health check apart, which is public), and each message has the
  type of its endpoint and the request id the relay drew for it, even where the message is the
  client's own JSON.
\<close>

theorem proxy_authenticated:
  assumes "relay_router cd ids s serial ep req = Ok calls" and "call \<in> set calls"
  shows "(ep = EpHealth \<or> (\<exists>c cn. device s serial = Some (c, cn)
            \<and> pr_headers req ''authorization'' = Some (''Bearer '' @ cn_api_key cn)))
    \<and> (\<exists>h i. (pc_msg call = TText h \<or> (\<exists>p. pc_msg call = TBinary (encode_binary_frame (cd_ser cd) h p)))
         \<and> json_index h ''type'' = JStr (endpoint_type ep)
         \<and> json_index h ''request_id'' = JStr (ids i) \<and> pc_rid call = ids i)"
proof
  show "ep = EpHealth \<or> (\<exists>c cn. device s serial = Some (c, cn)
      \<and> pr_headers req ''authorization'' = Some (''Bearer '' @ cn_api_key cn))"
    using router_bearer [of ep s serial req cd ids] assms(1) by (auto simp: only_bearer_def bearer_of_def)
  show "\<exists>h i. (pc_msg call = TText h \<or> (\<exists>p. pc_msg call = TBinary (encode_binary_frame (cd_ser cd) h p)))
      \<and> json_index h ''type'' = JStr (endpoint_type ep)
      \<and> json_index h ''request_id'' = JStr (ids i) \<and> pc_rid call = ids i"
    using router_addressed [of cd ids ep s serial req] assms
    by (fastforce simp: only_addressed_def addressed_def split: if_splits)
qed

definition demo_codec :: codec where
  "demo_codec = \<lparr>cd_de = (\<lambda>b. Some (JObj [(''type'', JStr ''tunnel.lte''), (''command'', JStr ''ls'')])),
     cd_ser = (\<lambda>_. []), cd_utf8 = (\<lambda>_. None), cd_header_ok = (\<lambda>_. True)\<rparr>"

definition demo_request :: "string \<Rightarrow> proxy_request" where
  "demo_request key = \<lparr>pr_headers = (\<lambda>h. if h = ''authorization'' then Some (''Bearer '' @ key) else None), pr_body = []\<rparr>"

text \<open>A body that claims another type is sent as the command it was posted as.\<close>

theorem proxy_authenticated_witness:
  "\<exists>h i. json_index h ''type'' = JStr ''tunnel.exec'' \<and> json_index h ''request_id'' = JStr (replicate i CHR ''x'')
    \<and> relay_router demo_codec (\<lambda>i. replicate i CHR ''x'') demo_state ''D1'' EpExec (demo_request ''key'')
        = Ok [\<lparr>pc_msg = TText h, pc_rid = [], pc_timeout = 30\<rparr>]"
proof -
  define h where "h = JObj [(''request_id'', JStr []), (''type'', JStr ''tunnel.exec''), (''command'', JStr ''ls'')]"
  have ok: "relay_router demo_codec (\<lambda>i. replicate i CHR ''x'') demo_state ''D1'' EpExec (demo_request ''key'')
      = Ok [\<lparr>pc_msg = TText h, pc_rid = [], pc_timeout = 30\<rparr>]"
    unfolding h_def by code_simp
  show ?thesis
    using proxy_authenticated [OF ok, of "\<lparr>pc_msg = TText h, pc_rid = [], pc_timeout = 30\<rparr>"] ok by auto
qed

text \<open>
  An authorised request whose body is valid JSON but neither an object nor null makes the handler
  panic when it assigns the type of the message.
\<close>

lemma proxy_exec_panics:
  assumes "int (length (pr_body req)) \<le> 10 * MIB" and "de (pr_body req) = Some payload" and "\<not> is_record payload"
    and "validate_device_auth s serial (pr_headers req ''authorization'') = Inr d"
  shows "\<exists>msg. proxy_exec de rid s serial req = Panic msg"
  using assms
  by (simp add: proxy_exec_def with_json_def with_body_def authorised_def set_fields.simps json_set_cases)

text \<open>The status of a failure that the relay reports is always a valid one.\<close>

lemma status_of_range: "100 \<le> status_of n \<and> status_of n \<le> 999"
  by (auto simp: status_of_def Let_def)

end
