(* ===== verification/Tunnel_Client_Props.thy ===== *)
theory Tunnel_Client_Props
  imports Tunnel_Client Relay_Proxy
begin

text \<open>
  Properties of the device side of the tunnel: the batching of session output, what a subscriber
  task delivers, the pacing of reconnects, the pong watchdog, and that the client handles every
  message the relay's endpoints send.
\<close>

subsection \<open>Batches\<close>

definition group_message :: "string \<Rightarrow> output_entry list \<Rightarrow> json" where
  "group_message session_id g =
     output_message session_id (oe_stream (hd g)) (concat (map oe_data g)) (oe_seq (last g)) (oe_timestamp_ms (last g))"

text \<open>A batch: one stream, at most 32 entries, at most 8 KiB unless it is a single entry.\<close>

definition group_ok :: "output_entry list \<Rightarrow> bool" where
  "group_ok g \<longleftrightarrow> g \<noteq> [] \<and> length g \<le> TUNNEL_STREAM_BATCH_MAX_ENTRIES
     \<and> list_all (\<lambda>e. oe_stream e = oe_stream (hd g)) g
     \<and> (length (concat (map oe_data g)) \<le> TUNNEL_STREAM_BATCH_MAX_BYTES \<or> length g = 1)"

text \<open>The batch under construction stands for the group \<open>g\<close>.\<close>

definition holds_group :: "output_entry list \<Rightarrow> batch \<Rightarrow> bool" where
  "holds_group g b \<longleftrightarrow>
     (if g = [] then bt_stream b = None \<and> bt_data b = [] \<and> bt_count b = 0
      else group_ok g \<and> bt_stream b = Some (oe_stream (hd g)) \<and> bt_data b = concat (map oe_data g)
        \<and> bt_seq b = oe_seq (last g) \<and> bt_timestamp_ms b = oe_timestamp_ms (last g) \<and> bt_count b = length g)"

lemma flush_group:
  "holds_group g b \<Longrightarrow> holds_group [] (flush_current sid b)
     \<and> bt_out (flush_current sid b) = bt_out b @ (if g = [] then [] else [group_message sid g])"
  by (auto simp: holds_group_def flush_current_def group_message_def split: if_splits)

lemma start_group:
  "bt_stream b = None \<Longrightarrow> bt_data b = [] \<Longrightarrow> bt_count b = 0 \<Longrightarrow>
     holds_group [e] (b\<lparr>bt_stream := Some (oe_stream e), bt_data := oe_data e, bt_seq := oe_seq e,
       bt_timestamp_ms := oe_timestamp_ms e, bt_count := 1\<rparr>)"
  by (simp add: holds_group_def group_ok_def TUNNEL_STREAM_BATCH_MAX_ENTRIES_def)

lemma batch_entry_group:
  assumes "holds_group g b"
  shows "holds_group (g @ [e]) (batch_entry sid e b) \<and> bt_out (batch_entry sid e b) = bt_out b
    \<or> g \<noteq> [] \<and> holds_group [e] (batch_entry sid e b)
        \<and> bt_out (batch_entry sid e b) = bt_out b @ [group_message sid g]"
proof (cases "bt_stream b = Some (oe_stream e)
    \<and> length (bt_data b) + length (oe_data e) \<le> TUNNEL_STREAM_BATCH_MAX_BYTES
    \<and> bt_count b < TUNNEL_STREAM_BATCH_MAX_ENTRIES")
  case True
  with assms have "g \<noteq> []" by (auto simp: holds_group_def)
  with True assms show ?thesis
    by (auto simp: batch_entry_def holds_group_def group_ok_def Let_def)
next
  case False
  let ?f = "flush_current sid b"
  have eq: "batch_entry sid e b = ?f\<lparr>bt_stream := Some (oe_stream e), bt_data := bt_data ?f @ oe_data e,
      bt_seq := oe_seq e, bt_timestamp_ms := oe_timestamp_ms e, bt_count := bt_count ?f + 1\<rparr>"
    using False by (auto simp: batch_entry_def Let_def)
  from flush_group [OF assms, of sid]
  have f: "bt_stream ?f = None" "bt_data ?f = []" "bt_count ?f = 0"
    and out: "bt_out ?f = bt_out b @ (if g = [] then [] else [group_message sid g])"
    by (auto simp: holds_group_def)
  have "holds_group [e] (batch_entry sid e b)"
    using start_group [OF f, of e] by (simp add: eq f)
  moreover have "bt_out (batch_entry sid e b) = bt_out ?f" by (simp add: eq)
  ultimately show ?thesis using out by (cases "g = []") auto
qed

lemma fold_batch_groups:
  assumes "holds_group g b"
  shows "\<exists>gs g'. bt_out (fold (batch_entry sid) es b) = bt_out b @ map (group_message sid) gs
    \<and> holds_group g' (fold (batch_entry sid) es b) \<and> concat gs @ g' = g @ es \<and> list_all group_ok gs"
  using assms
proof (induction es arbitrary: b g)
  case Nil
  then show ?case by (intro exI [of _ "[]"] exI [of _ g]) simp
next
  case (Cons e es)
  have ok: "g \<noteq> [] \<Longrightarrow> group_ok g" using Cons.prems by (simp add: holds_group_def)
  from batch_entry_group [OF Cons.prems, of e sid] show ?case
  proof
    assume 1: "holds_group (g @ [e]) (batch_entry sid e b) \<and> bt_out (batch_entry sid e b) = bt_out b"
    with Cons.IH [of "g @ [e]" "batch_entry sid e b"] show ?thesis by auto
  next
    assume 2: "g \<noteq> [] \<and> holds_group [e] (batch_entry sid e b)
        \<and> bt_out (batch_entry sid e b) = bt_out b @ [group_message sid g]"
    with Cons.IH [of "[e]" "batch_entry sid e b"] obtain gs g' where
      "bt_out (fold (batch_entry sid) es (batch_entry sid e b)) = bt_out b @ map (group_message sid) (g # gs)"
      "holds_group g' (fold (batch_entry sid) es (batch_entry sid e b))"
      "concat gs @ g' = e # es" "list_all group_ok gs" by auto
    with ok 2 show ?thesis
      by (intro exI [of _ "g # gs"] exI [of _ g']) auto
  qed
qed

lemma batches_all:
  "\<exists>groups. concat groups = entries
     \<and> batch_output_entries session_id entries = map (group_message session_id) groups
     \<and> list_all group_ok groups"
proof -
  have "holds_group [] empty_batch" by (simp add: holds_group_def empty_batch_def)
  from fold_batch_groups [OF this, of session_id entries] obtain gs g where g:
    "bt_out (fold (batch_entry session_id) entries empty_batch) = map (group_message session_id) gs"
    "holds_group g (fold (batch_entry session_id) entries empty_batch)"
    "concat gs @ g = entries" "list_all group_ok gs" by (auto simp: empty_batch_def)
  with flush_group [OF g(2), of session_id]
  have "batch_output_entries session_id entries
      = map (group_message session_id) (gs @ (if g = [] then [] else [g]))"
    by (simp add: batch_output_entries_def)
  moreover have "list_all group_ok (gs @ (if g = [] then [] else [g]))"
    using g by (auto simp: holds_group_def)
  ultimately show ?thesis
    using g by (intro exI [of _ "gs @ (if g = [] then [] else [g])"]) auto
qed

text \<open>
  Batching loses, repeats and reorders nothing: the messages made from a list of output entries
  are those of consecutive groups that together are the list. A group has entries of one stream
  only, at most 32 of them, and at most 8 KiB of data unless it is a single entry; its message
  carries the group's data, and the sequence number and time of its last entry, so that a client that
  re-attaches after it continues exactly there.
\<close>

theorem batches_partition:
  "\<exists>groups. concat groups = entries
     \<and> batch_output_entries session_id entries = map (group_message session_id) groups
     \<and> list_all group_ok groups"
  by (rule batches_all)

subsection \<open>What a subscriber delivers\<close>

fun pushes :: "buffer_step list \<Rightarrow> (push_env \<times> output_stream \<times> string) list" where
  "pushes [] = []"
| "pushes (Pushed env st d # es) = (env, st, d) # pushes es"
| "pushes (Round # es) = pushes es"

text \<open>The task keeps up: never more than \<open>room\<close> entries are unread (\<open>unread\<close> of them at first).\<close>

fun keeps_up :: "nat \<Rightarrow> nat \<Rightarrow> buffer_step list \<Rightarrow> bool" where
  "keeps_up room unread [] = True"
| "keeps_up room unread (Pushed _ _ _ # es) = (unread < room \<and> keeps_up room (Suc unread) es)"
| "keeps_up room unread (Round # es) = keeps_up room 0 es"

abbreviation chunk_of :: "output_entry \<Rightarrow> output_stream \<times> string" where
  "chunk_of e \<equiv> (oe_stream e, oe_data e)"

lemma push_all_append: "push_all (xs @ ys) b = push_all ys (push_all xs b)"
  by (simp add: push_all_def)

lemma push_all_chunks:
  "map chunk_of (ob_entries (push_all xs (new_buffer n))) = drop (length xs - max 1 n) (map snd xs)
     \<and> ob_max_entries (push_all xs (new_buffer n)) = n"
proof (induction xs rule: rev_induct)
  case Nil
  show ?case by (simp add: push_all_def new_buffer_def)
next
  case (snoc x xs)
  let ?b = "push_all xs (new_buffer n)" and ?L = "map snd xs"
  obtain env st d where x: "x = (env, st, d)" by (cases x)
  have step: "push_all (xs @ [x]) (new_buffer n) = push env st d ?b"
    by (simp add: push_all_append) (simp add: push_all_def x)
  have len: "length (ob_entries ?b) = min (length xs) (max 1 n)"
    using arg_cong [OF conjunct1 [OF snoc.IH], of length] by simp
  have "map chunk_of (ob_entries (push env st d ?b))
      = ring_push n (st, d) (drop (length xs - max 1 n) ?L)"
    using snoc.IH by (simp add: push_ring map_ring_push mk_entry_def)
  also have "\<dots> = drop (Suc (length xs) - max 1 n) (?L @ [(st, d)])"
    by (cases "length xs < max 1 n") (auto simp: ring_push_def min_def max_def Suc_diff_le split: if_splits)
  finally show ?case unfolding step using snoc.IH by (simp add: x)
qed

lemma read_since_chunks:
  assumes "length xs < 2 ^ 64 - 1" and "unat since \<le> length xs" and "length xs - unat since \<le> max 1 n"
  shows "map chunk_of (fst (read_since since (push_all xs (new_buffer n)))) = drop (unat since) (map snd xs)"
proof -
  let ?b = "push_all xs (new_buffer n)"
  have "unat (ob_next_seq (new_buffer n)) + length xs < 2 ^ 64"
    using assms by (simp add: new_buffer_def)
  from push_all_wf [OF new_buffer_wf this] have wf: "ob.ring_wf ?b"
    and nx: "unat (ob_next_seq ?b) = Suc (length xs)" by (simp_all add: new_buffer_def)
  note ch = conjunct1 [OF push_all_chunks [of xs n]]
  have "length (ob_entries ?b) = min (length xs) (max 1 n)"
    using arg_cong [OF ch, of length] by simp
  then have "ob.oldest ?b = Suc (length xs) - min (length xs) (max 1 n)"
    using ob.oldest_eq [OF wf] nx by simp
  then have "Suc (unat since) - ob.oldest ?b + (length xs - max 1 n) = unat since"
    using assms(2,3) by (cases "length xs \<le> max 1 n") auto
  then show ?thesis
    using ob.newer_drop [OF wf, of "unat since"] ch
    by (simp add: read_since_entries drop_map [symmetric])
qed

lemma last_read_seq:
  assumes "length xs < 2 ^ 64 - 1" and "unat since \<le> length xs"
    and "fst (read_since since (push_all xs (new_buffer n))) \<noteq> []"
  shows "unat (oe_seq (last (fst (read_since since (push_all xs (new_buffer n)))))) = length xs"
proof -
  let ?b = "push_all xs (new_buffer n)"
  have "unat (ob_next_seq (new_buffer n)) + length xs < 2 ^ 64"
    using assms by (simp add: new_buffer_def)
  from push_all_wf [OF new_buffer_wf this] have wf: "ob.ring_wf ?b"
    and nx: "unat (ob_next_seq ?b) = Suc (length xs)" by (simp_all add: new_buffer_def)
  note nums = ob.newer_numbers [OF wf, of "unat since", folded read_since_entries]
  have "unat (oe_seq (last (fst (read_since since ?b)))) = last (map (\<lambda>e. unat (oe_seq e)) (fst (read_since since ?b)))"
    using assms(3) by (simp add: last_map)
  also have "\<dots> = length xs"
    using nums nx assms(3) by (metis (no_types, lifting) diff_Suc_1 last_upt list.map_disc_iff upt_rec)
  finally show ?thesis .
qed

text \<open>One round catches up, provided nothing unread has been evicted.\<close>

lemma subscriber_round_catches_up:
  assumes "length xs < 2 ^ 64 - 1" and "unat c \<le> length xs" and "length xs - unat c \<le> max 1 n"
  shows "\<exists>groups. fst (subscriber_round sid c (push_all xs (new_buffer n))) = map (group_message sid) groups
    \<and> list_all group_ok groups \<and> map chunk_of (concat groups) = drop (unat c) (map snd xs)
    \<and> unat (snd (subscriber_round sid c (push_all xs (new_buffer n)))) = length xs"
proof -
  let ?b = "push_all xs (new_buffer n)" let ?es = "fst (read_since c ?b)"
  have "unat (ob_next_seq (new_buffer n)) + length xs < 2 ^ 64"
    using assms by (simp add: new_buffer_def)
  from push_all_wf [OF new_buffer_wf this] have wf: "ob.ring_wf ?b" by simp
  note ch = read_since_chunks [OF assms]
  show ?thesis
  proof (cases "?es = []")
    case True
    with ch have "unat c = length xs" using assms(2) by (metis drop_eq_Nil le_antisym length_map list.map_disc_iff)
    moreover have "subscriber_round sid c ?b = ([], c)"
      using True has_entries_since_iff [OF wf, of c] by (simp add: subscriber_round_def)
    ultimately show ?thesis by (intro exI [of _ "[]"]) simp
  next
    case False
    then obtain e rest where es: "?es = e # rest" by (cases ?es) auto
    have r: "subscriber_round sid c ?b = (batch_output_entries sid ?es, oe_seq (last ?es))"
      using False has_entries_since_iff [OF wf, of c] by (simp add: subscriber_round_def Let_def es)
    obtain groups where "concat groups = ?es"
      "batch_output_entries sid ?es = map (group_message sid) groups" "list_all group_ok groups"
      using batches_all [of ?es sid] by blast
    with r ch last_read_seq [OF assms(1,2) False] show ?thesis
      by (intro exI [of _ groups]) simp
  qed
qed

lemma task_Cons: "tunnel_subscriber_task sid (e # es) s = tunnel_subscriber_task sid es (subscription_step sid e s)"
  by (simp add: tunnel_subscriber_task_def)

lemma round_step:
  "subscription_step sid Round s = s\<lparr>su_sent := su_sent s @ fst (subscriber_round sid (su_cursor s) (su_buffer s)),
     su_cursor := snd (subscriber_round sid (su_cursor s) (su_buffer s))\<rparr>"
  by (simp add: subscription_step_def case_prod_beta Let_def)

lemma task_delivers:
  assumes "su_buffer s = push_all xs (new_buffer n)" and "unat (su_cursor s) \<le> length xs"
    and "length xs - unat (su_cursor s) \<le> max 1 n"
    and "keeps_up (max 1 n) (length xs - unat (su_cursor s)) es"
    and "length (xs @ pushes es) < 2 ^ 64 - 1"
  shows "\<exists>groups. su_sent (tunnel_subscriber_task sid (es @ [Round]) s) = su_sent s @ map (group_message sid) groups
    \<and> list_all group_ok groups
    \<and> map chunk_of (concat groups) = drop (unat (su_cursor s)) (map snd (xs @ pushes es))"
  using assms
proof (induction es arbitrary: xs s)
  case Nil
  have lt: "length xs < 2 ^ 64 - 1" using Nil.prems(5) by simp
  show ?case
    using subscriber_round_catches_up [OF lt Nil.prems(2,3), of sid] Nil.prems(1)
    by (auto simp: task_Cons round_step) (auto simp: tunnel_subscriber_task_def)
next
  case (Cons e es)
  show ?case
  proof (cases e)
    case (Pushed env st d)
    let ?s = "subscription_step sid e s"
    have b: "su_buffer ?s = push_all (xs @ [(env, st, d)]) (new_buffer n)"
      by (simp add: Pushed subscription_step_def Cons.prems(1) push_all_append) (simp add: push_all_def)
    have c: "su_cursor ?s = su_cursor s" "su_sent ?s = su_sent s"
      by (simp_all add: Pushed subscription_step_def)
    have u: "length (xs @ [(env, st, d)]) - unat (su_cursor ?s) = Suc (length xs - unat (su_cursor s))"
      using Cons.prems(2) c by (simp add: Suc_diff_le)
    have k: "length xs - unat (su_cursor s) < max 1 n"
      "keeps_up (max 1 n) (Suc (length xs - unat (su_cursor s))) es"
      using Cons.prems(4) by (simp_all add: Pushed)
    show ?thesis
      using Cons.IH [OF b, unfolded u] k Cons.prems(2,5) c by (simp add: Pushed task_Cons)
  next
    case Round
    let ?s = "subscription_step sid e s"
    have lt: "length xs < 2 ^ 64 - 1" using Cons.prems(5) by simp
    obtain gs where gs: "fst (subscriber_round sid (su_cursor s) (su_buffer s)) = map (group_message sid) gs"
      "list_all group_ok gs" "map chunk_of (concat gs) = drop (unat (su_cursor s)) (map snd xs)"
      "unat (snd (subscriber_round sid (su_cursor s) (su_buffer s))) = length xs"
      using subscriber_round_catches_up [OF lt Cons.prems(2,3), of sid] Cons.prems(1) by auto
    have s: "su_buffer ?s = push_all xs (new_buffer n)" "unat (su_cursor ?s) = length xs"
      "su_sent ?s = su_sent s @ map (group_message sid) gs"
      using gs(1,4) by (simp_all add: Round round_step Cons.prems(1))
    obtain hs where "su_sent (tunnel_subscriber_task sid (es @ [Round]) ?s) = su_sent ?s @ map (group_message sid) hs"
      "list_all group_ok hs" "map chunk_of (concat hs) = map snd (pushes es)"
      using Cons.IH [OF s(1)] s(2) Cons.prems(4,5) by (auto simp: Round)
    with gs s(3) Cons.prems(2) show ?thesis
      by (intro exI [of _ "gs @ hs"]) (simp add: task_Cons Round)
  qed
qed

text \<open>
  C8. The tunnel delivers a session's output exactly. Let a subscriber start after sequence number
  \<open>c\<close> of a buffer holding \<open>n\<close> entries (0 for a new session, the last replayed entry for an
  attachment), and let the session's readers write while the task runs, in any interleaving in
  which no more than the buffer's capacity is unread at any time. Once the task has had a round
  after the last write, the messages it has queued are those of batches whose entries are all the
  chunks written after \<open>c\<close>, each once and in order, with its stream.
\<close>

theorem tunnel_stream_exact:
  assumes "length (xs @ pushes es) < 2 ^ 64 - 1" and "unat c \<le> length xs"
    and "length xs - unat c \<le> max 1 n" and "keeps_up (max 1 n) (length xs - unat c) es"
  shows "\<exists>groups.
      su_sent (tunnel_subscriber_task sid (es @ [Round])
        \<lparr>su_buffer = push_all xs (new_buffer n), su_cursor = c, su_sent = []\<rparr>)
        = map (group_message sid) groups
    \<and> list_all group_ok groups
    \<and> map (\<lambda>e. (oe_stream e, oe_data e)) (concat groups) = drop (unat c) (map snd (xs @ pushes es))"
  using task_delivers [of "\<lparr>su_buffer = push_all xs (new_buffer n), su_cursor = c, su_sent = []\<rparr>" xs n es sid]
    assms by simp

definition example_clock :: push_env where
  "example_clock = \<lparr>pe_clock = Some 7, pe_accepted = True\<rparr>"

theorem tunnel_stream_exact_witness:
  "\<exists>groups.
      su_sent (tunnel_subscriber_task ''s1''
        ([Pushed example_clock Stdout ''b'', Round, Pushed example_clock Stderr ''c'',
          Pushed example_clock Stderr ''d''] @ [Round])
        \<lparr>su_buffer = push_all [(example_clock, Stdout, ''a'')] (new_buffer 2), su_cursor = 0, su_sent = []\<rparr>)
        = map (group_message ''s1'') groups
    \<and> list_all group_ok groups
    \<and> map (\<lambda>e. (oe_stream e, oe_data e)) (concat groups)
        = [(Stdout, ''a''), (Stdout, ''b''), (Stderr, ''c''), (Stderr, ''d'')]"
  using tunnel_stream_exact [of "[(example_clock, Stdout, ''a'')]"
      "[Pushed example_clock Stdout ''b'', Round, Pushed example_clock Stderr ''c'',
        Pushed example_clock Stderr ''d'']" 0 2 "''s1''"]
  by simp

text \<open>
  When the buffer has overrun the task, the evicted entries are skipped without a message: the number
  of dropped entries is discarded, and the relay sends its gap notice only for its own queues.
\<close>

lemma stream_gap_silent:
  "su_sent (tunnel_subscriber_task sid [Pushed example_clock Stdout ''a'', Pushed example_clock Stdout ''b'', Round]
     \<lparr>su_buffer = new_buffer 1, su_cursor = 0, su_sent = []\<rparr>)
   = [output_message sid Stdout ''b'' 2 7]
   \<and> snd (read_since 0 (push_all [(example_clock, Stdout, ''a''), (example_clock, Stdout, ''b'')] (new_buffer 1))) = 1"
  by (simp add: tunnel_subscriber_task_def subscription_step_def subscriber_round_def push_def
      new_buffer_def has_entries_since_def read_since_def Let_def mk_entry_def example_clock_def
      batch_output_entries_def batch_entry_def flush_current_def empty_batch_def push_all_def
      saturating_add_def timestamp_ms_def)

subsection \<open>Pacing of reconnects\<close>

lemma last_durations:
  "take 3 (rev (ring_push FLAP_WINDOW d ds)) = d # take 2 (rev ds)"
proof -
  have "take 2 (rev (drop 1 ds)) = take 2 (rev ds)" if "length ds \<ge> 10"
    using that by (simp add: rev_drop)
  then show ?thesis
    by (auto simp: ring_push_def FLAP_WINDOW_def take_Suc numeral_3_eq_3 numeral_2_eq_2)
qed

lemma length_durations: "length (ring_push FLAP_WINDOW d ds) \<ge> min 3 (Suc (length ds))"
  by (auto simp: ring_push_def FLAP_WINDOW_def)

lemma flap_three:
  assumes "d1 < 30" "d2 < 30" "d3 < 30"
  shows "flap_detected (ring_push FLAP_WINDOW d3 (ring_push FLAP_WINDOW d2 (ring_push FLAP_WINDOW d1 ds)))"
proof -
  let ?a = "ring_push FLAP_WINDOW d1 ds" let ?b = "ring_push FLAP_WINDOW d2 ?a"
  have "take 2 (rev ?b) = take 2 (take 3 (rev ?b))" by simp
  also have "\<dots> = [d2, d1]"
    using length_durations [of ds d1]
    by (simp add: last_durations) (metis last_durations take_Suc_Cons take_0 numeral_2_eq_2 One_nat_def
        take_take min.absorb1 one_le_numeral numeral_One)
  finally have "take 3 (rev (ring_push FLAP_WINDOW d3 ?b)) = [d3, d2, d1]"
    by (simp add: last_durations)
  moreover have "length (ring_push FLAP_WINDOW d3 ?b) \<ge> 3"
    using length_durations [of ?b d3] length_durations [of ?a d2] length_durations [of ds d1] by linarith
  ultimately show ?thesis
    using assms by (simp add: flap_detected_def FLAP_CHECK_COUNT_def FLAP_THRESHOLD_SECS_def)
qed

text \<open>What an iteration does to the delay and to the window of durations.\<close>

lemma after_attempt_Inr:
  assumes "after_attempt cfg now r d l = Inr (sleep, l')"
  shows "lp_durations l' = ring_push FLAP_WINDOW d (lp_durations l)
    \<and> (flap_detected (lp_durations l') \<longrightarrow> sleep = 60)
    \<and> sleep \<le> max 60 (lp_delay l)
    \<and> lp_delay l' \<le> max (cf_reconnect_delay_secs cfg) (cf_reconnect_max_delay_secs cfg)
    \<and> (\<forall>msg. r \<noteq> Inl (Permanent msg))"
  using assms
  by (auto simp: after_attempt_def Let_def split: sum.splits connect_error.splits
      disconnect_reason.splits if_splits)

lemma after_attempt_Inl:
  "after_attempt cfg now r d l = Inl st \<Longrightarrow> \<exists>msg. r = Inl (Permanent msg)"
  by (auto simp: after_attempt_def Let_def split: sum.splits connect_error.splits
      disconnect_reason.splits if_splits)

lemma loop_Cons:
  assumes "tunnel_client_loop cfg (a # as) l = (ps, r)"
  shows "(\<exists>msg. at_result a = Inl (Permanent msg)) \<and> ps = [] \<and> r = None
    \<or> (\<exists>sleep l' qs. ps = (at_duration a, sleep) # qs \<and> tunnel_client_loop cfg as l' = (qs, r)
        \<and> lp_durations l' = ring_push FLAP_WINDOW (at_duration a) (lp_durations l)
        \<and> (flap_detected (lp_durations l') \<longrightarrow> sleep = 60) \<and> sleep \<le> max 60 (lp_delay l)
        \<and> lp_delay l' \<le> max (cf_reconnect_delay_secs cfg) (cf_reconnect_max_delay_secs cfg)
        \<and> (\<forall>msg. at_result a \<noteq> Inl (Permanent msg)))"
proof -
  let ?l1 = "before_attempt (at_time a) l"
  let ?l2 = "?l1\<lparr>lp_stats := at_effect a (lp_stats ?l1)\<rparr>"
  have same: "lp_durations ?l2 = lp_durations l" "lp_delay ?l2 = lp_delay l"
    by (simp_all add: before_attempt_def)
  show ?thesis
  proof (cases "after_attempt cfg (at_time a) (at_result a) (at_duration a) ?l2")
    case (Inl st)
    with assms after_attempt_Inl [OF Inl] show ?thesis by (simp add: Let_def)
  next
    case (Inr x)
    obtain sleep l' where x: "x = (sleep, l')" by (cases x)
    obtain qs r' where q: "tunnel_client_loop cfg as l' = (qs, r')" by (cases "tunnel_client_loop cfg as l'")
    from assms Inr x q have "ps = (at_duration a, sleep) # qs" "r = r'" by (simp_all add: Let_def)
    with q after_attempt_Inr [OF Inr [unfolded x]] same show ?thesis by auto
  qed
qed

lemma loop_sleeps:
  assumes "tunnel_client_loop cfg as l = (ps, r)"
    and "lp_delay l \<le> max (cf_reconnect_delay_secs cfg) (cf_reconnect_max_delay_secs cfg)"
  shows "list_all (\<lambda>(d, s). s \<le> max 60 (max (cf_reconnect_delay_secs cfg) (cf_reconnect_max_delay_secs cfg))) ps
    \<and> (r = None \<longleftrightarrow> (\<exists>a \<in> set as. \<exists>msg. at_result a = Inl (Permanent msg)))"
  using assms
proof (induction as arbitrary: l ps)
  case Nil
  then show ?case by auto
next
  case (Cons a as)
  from loop_Cons [OF Cons.prems(1)] show ?case
  proof (elim disjE exE conjE)
    fix sleep l' qs
    assume a: "ps = (at_duration a, sleep) # qs" "tunnel_client_loop cfg as l' = (qs, r)"
      "lp_delay l' \<le> max (cf_reconnect_delay_secs cfg) (cf_reconnect_max_delay_secs cfg)"
      "sleep \<le> max 60 (lp_delay l)" "\<forall>msg. at_result a \<noteq> Inl (Permanent msg)"
    from Cons.IH [OF a(2,3)] a(1,4,5) Cons.prems(2) show ?thesis by auto
  qed auto
qed

text \<open>Three short attempts in a row are followed by a minute's pause, whatever came before.\<close>

lemma loop_first_three:
  assumes "tunnel_client_loop cfg as l = ((d1, s1) # (d2, s2) # (d3, s3) # ps, r)"
  shows "30 \<le> d1 + s1 + d2 + s2 + d3 + s3"
proof -
  obtain a1 bs where as: "as = a1 # bs" using assms by (cases as) auto
  from loop_Cons [OF assms [unfolded as]] obtain l1 where 1: "tunnel_client_loop cfg bs l1 = ((d2, s2) # (d3, s3) # ps, r)"
    "lp_durations l1 = ring_push FLAP_WINDOW d1 (lp_durations l)" by auto
  obtain a2 cs where bs: "bs = a2 # cs" using 1(1) by (cases bs) auto
  from loop_Cons [OF 1(1) [unfolded bs]] obtain l2 where 2: "tunnel_client_loop cfg cs l2 = ((d3, s3) # ps, r)"
    "lp_durations l2 = ring_push FLAP_WINDOW d2 (lp_durations l1)" by auto
  obtain a3 ds where cs: "cs = a3 # ds" using 2(1) by (cases cs) auto
  from loop_Cons [OF 2(1) [unfolded cs]]
  have 3: "flap_detected (ring_push FLAP_WINDOW d3 (lp_durations l2)) \<longrightarrow> s3 = 60" by auto
  show ?thesis
    using flap_three [of d1 d2 d3 "lp_durations l"] 1(2) 2(2) 3 by (cases "d1 < 30 \<and> d2 < 30 \<and> d3 < 30") auto
qed

lemma loop_windows:
  assumes "tunnel_client_loop cfg as l = (ps, r)" and "i + 3 \<le> length ps"
  shows "30 \<le> sum_list (map (\<lambda>(d, s). d + s) (take 3 (drop i ps)))"
  using assms
proof (induction i arbitrary: as l ps)
  case 0
  then obtain d1 s1 d2 s2 d3 s3 qs where ps: "ps = (d1, s1) # (d2, s2) # (d3, s3) # qs"
    by (auto simp: numeral_3_eq_3 Suc_le_length_iff)
  with loop_first_three 0 show ?case by fastforce
next
  case (Suc i)
  then obtain a bs where as: "as = a # bs" by (cases as) auto
  from loop_Cons [OF Suc.prems(1) [unfolded as]] Suc.prems(2) obtain p l' qs where
    "ps = p # qs" "tunnel_client_loop cfg bs l' = (qs, r)" by auto
  with Suc show ?case by simp
qed

text \<open>
  C34. The reconnect loop is paced. Over any sequence of attempts, whatever their results, any three
  consecutive attempts with the pauses after them take at least 30 seconds, no pause is longer than
  the configured delays or one minute, and the client gives up exactly when the relay has refused
  it for good: it never stops after a transient error or a disconnect.
\<close>

theorem reconnect_paced:
  assumes "tunnel_client_loop cfg as (loop_start cfg st) = (ps, r)"
  shows "(\<forall>i. i + 3 \<le> length ps \<longrightarrow> 30 \<le> sum_list (map (\<lambda>(d, s). d + s) (take 3 (drop i ps))))
    \<and> list_all (\<lambda>(d, s). s \<le> max 60 (max (cf_reconnect_delay_secs cfg) (cf_reconnect_max_delay_secs cfg))) ps
    \<and> (r = None \<longleftrightarrow> (\<exists>a \<in> set as. \<exists>msg. at_result a = Inl (Permanent msg)))"
  using loop_windows [OF assms] loop_sleeps [OF assms] by (auto simp: loop_start_def)

definition demo_config :: client_config where
  "demo_config = \<lparr>cf_relay_url = ''wss://relay.example.com/api/tunnel/register'', cf_tunnel_key = ''k'',
     cf_serial = ''D1'', cf_api_key = ''key'', cf_reconnect_delay_secs = 2,
     cf_reconnect_max_delay_secs = 30, cf_heartbeat_interval_secs = 5, cf_bind_address = None\<rparr>"

definition demo_attempt :: "connect_error + disconnect_reason \<Rightarrow> nat \<Rightarrow> attempt" where
  "demo_attempt r d = \<lparr>at_time = 0, at_result = r, at_duration = d, at_effect = id\<rparr>"

lemmas loop_eval = demo_attempt_def demo_config_def loop_start_def before_attempt_def after_attempt_def Let_def
  ring_push_def flap_detected_def FLAP_WINDOW_def FLAP_CHECK_COUNT_def FLAP_THRESHOLD_SECS_def bind_unavailable_def
  starts_with_def

text \<open>
  Four attempts to a relay that restarts: the third immediate reconnect is held back for a minute, and
  the pause after a failed attempt is the configured delay.
\<close>

theorem reconnect_paced_witness:
  "\<exists>ps r. tunnel_client_loop demo_config
      [demo_attempt (Inr RelayShutdown) 4, demo_attempt (Inl (Transient ''refused'')) 1,
       demo_attempt (Inr WsClose) 20, demo_attempt (Inr WsClose) 90] (loop_start demo_config new_stats) = (ps, r)
    \<and> ps = [(4, 0), (1, 2), (20, 60), (90, 0)] \<and> r \<noteq> None
    \<and> 30 \<le> sum_list (map (\<lambda>(d, s). d + s) (take 3 (drop 0 ps)))"
proof -
  define as where "as = [demo_attempt (Inr RelayShutdown) 4, demo_attempt (Inl (Transient ''refused'')) 1,
       demo_attempt (Inr WsClose) 20, demo_attempt (Inr WsClose) 90]"
  obtain ps r where run: "tunnel_client_loop demo_config as (loop_start demo_config new_stats) = (ps, r)"
    by (cases "tunnel_client_loop demo_config as (loop_start demo_config new_stats)")
  have "fst (tunnel_client_loop demo_config as (loop_start demo_config new_stats)) = [(4, 0), (1, 2), (20, 60), (90, 0)]"
    by (simp add: as_def loop_eval)
  with run have ps: "ps = [(4, 0), (1, 2), (20, 60), (90, 0)]" by simp
  with reconnect_paced [OF run] have "r \<noteq> None" "30 \<le> sum_list (map (\<lambda>(d, s). d + s) (take 3 (drop 0 ps)))"
    by (auto simp: as_def demo_attempt_def)
  with run ps show ?thesis unfolding as_def by blast
qed

text \<open>
  The flap detection overrides the other rules: also after a relay shutdown (to be reconnected at
  once), with an unavailable bind address (to be retried after 5 seconds) and beyond a configured
  maximum delay of 30 seconds.
\<close>

lemma flap_overrides_delay:
  "fst (tunnel_client_loop demo_config (replicate 3 (demo_attempt (Inr RelayShutdown) 4)) (loop_start demo_config new_stats))
     = [(4, 0), (4, 0), (4, 60)]"
  "fst (tunnel_client_loop demo_config (replicate 3 (demo_attempt (Inl (Transient ''bind: os error 99'')) 0))
      (loop_start demo_config new_stats)) = [(0, 5), (0, 5), (0, 60)]"
  by (simp_all add: loop_eval numeral_3_eq_3)

subsection \<open>The pong watchdog\<close>

lemma heartbeat_interval_range:
  "1 \<le> effective_client_heartbeat_interval_secs t \<and> effective_client_heartbeat_interval_secs t \<le> 15"
  by (auto simp: effective_client_heartbeat_interval_secs_def max_def min_def split: option.splits prod.splits)

lemma pong_timeout_range:
  assumes "interval \<le> 15"
  shows "15000 \<le> pong_timeout_ms interval \<and> pong_timeout_ms interval \<le> 45000"
proof -
  have "unat interval \<le> 15" using assms by (simp add: word_le_nat_alt)
  then have i: "interval \<in> set (map of_nat [0 ..< 16])"
    by (auto intro!: image_eqI [of _ _ "unat interval"])
  then show ?thesis
    by (auto simp: pong_timeout_ms_def max_def upt_conv_Cons)
qed

text \<open>
  The watchdog compares with the time of the last message only when there has been one: on a link that
  never carries a message back after the registration, no tick asks for a reconnect because of it.
\<close>

lemma silent_link_not_detected:
  assumes "tn_last_pong_ms c = 0" and "tn_open c" and "length (ln_priority (tn_lanes c)) < PRIORITY_LANE"
  shows "\<not> fst (heartbeat_tick now interval t sent_ms c)
    \<and> tn_last_pong_ms (snd (heartbeat_tick now interval t sent_ms c)) = 0"
  using assms by (simp add: heartbeat_tick_def try_send_priority_def Let_def)

lemma heartbeat_detects:
  assumes "0 < tn_last_pong_ms c" and "saturating_sub t (tn_last_pong_ms c) > pong_timeout_ms interval"
  shows "fst (heartbeat_tick now interval t sent_ms c)"
  using assms by (simp add: heartbeat_tick_def Let_def)

subsection \<open>The relay's messages and the client's handlers\<close>

fun endpoint_handler :: "endpoint \<Rightarrow> relay_handler option" where
  "endpoint_handler EpHealth = Some HHealth"
| "endpoint_handler (EpInfo _) = Some HInfo"
| "endpoint_handler (EpDiagnostics _ _) = Some HDiagnostics"
| "endpoint_handler EpExec = Some HExec"
| "endpoint_handler EpExecBatch = Some HExecBatch"
| "endpoint_handler (EpFileRead _ _) = Some HFileRead"
| "endpoint_handler EpFileWrite = Some HFileWrite"
| "endpoint_handler EpFileDelete = Some HFileDelete"
| "endpoint_handler EpStpDownloadInit = Some HGxDownloadInit"
| "endpoint_handler EpStpUploadInit = Some HGxUploadInit"
| "endpoint_handler (EpStpDownloadChunk _ _) = Some HGxChunkRequest"
| "endpoint_handler (EpStpUploadChunk _ _) = None"
| "endpoint_handler (EpStpResume _) = Some HGxResume"
| "endpoint_handler (EpStpStatus _) = Some HGxStatus"
| "endpoint_handler EpStpList = Some HGxList"
| "endpoint_handler (EpStpAbort _) = Some HGxAbort"
| "endpoint_handler (EpActivity _ _) = Some HActivity"
| "endpoint_handler (EpExecResult _) = Some HExecResult"
| "endpoint_handler EpSessions = Some HSessions"
| "endpoint_handler (EpSessionKill _) = Some HSessionKill"
| "endpoint_handler (EpSessionPatch _) = Some HSessionPatch"
| "endpoint_handler (EpSessionSignal _) = Some HSessionSignal"
| "endpoint_handler EpShells = Some HShells"
| "endpoint_handler EpPlaybooksList = Some HPlaybooksList"
| "endpoint_handler (EpPlaybookGet _) = Some HPlaybooksGet"
| "endpoint_handler (EpPlaybookPut _) = Some HPlaybooksPut"
| "endpoint_handler (EpPlaybookDelete _) = Some HPlaybooksDelete"
| "endpoint_handler EpGps = Some HGps"
| "endpoint_handler EpLte = Some HLte"
| "endpoint_handler EpLteBands = Some HLteBands"
| "endpoint_handler EpLteScan = Some HLteScan"
| "endpoint_handler EpLteSpeedtest = Some HLteSpeedtest"
| "endpoint_handler EpInfraConfigPush = Some HInfraConfig"
| "endpoint_handler EpInfraConfigDelete = Some HInfraConfigDelete"
| "endpoint_handler EpInfraResults = Some HInfraResults"
| "endpoint_handler EpInfraDiscover = Some HInfraDiscover"
| "endpoint_handler EpInfraDiscoverProgress = Some HInfraDiscoverProgress"
| "endpoint_handler EpInfraDiscoverSubnets = Some HInfraDiscoverSubnets"
| "endpoint_handler (EpInfraCheck _) = Some HInfraCheck"

lemma arms_of_endpoints: "map_of relay_arms (endpoint_type ep) = endpoint_handler ep"
  by (cases ep) (simp_all add: relay_arms_def)

lemma binary_endpoint: "endpoint_type ep = ''gx.chunk'' \<longleftrightarrow> endpoint_handler ep = None"
  by (cases ep) simp_all

lemma str_or_JStr [simp]: "json_str_or d (JStr s) = s"
  by (simp add: json_str_or_def json_as_str_def)

text \<open>
  C30. The relay and the client agree on the protocol: every message an HTTP endpoint of the relay hands
  to the tunnel, whatever the client's request was, is one the device handles, and handles with the
  handler of that endpoint. Text messages are dispatched by \<open>handle_relay_message\<close>; the chunks of an
  upload, and only they, travel as binary frames of the one type \<open>handle_relay_binary\<close> knows.
\<close>

theorem endpoints_dispatched:
  assumes "relay_router cd ids s serial ep req = Ok calls" and "call \<in> set calls"
  shows "case pc_msg call of
      TText m \<Rightarrow> endpoint_handler ep = Some (relay_message_handler m)
    | TBinary d \<Rightarrow> endpoint_handler ep = None
        \<and> (\<exists>h p. d = encode_binary_frame (cd_ser cd) h p \<and> relay_binary_known h)"
proof -
  have "addressed cd ids (endpoint_type ep) call"
    using router_addressed [of cd ids ep s serial req] assms by (auto simp: only_addressed_def)
  then obtain h where h: "json_index h ''type'' = JStr (endpoint_type ep)"
    "if endpoint_type ep = ''gx.chunk'' then \<exists>p. pc_msg call = TBinary (encode_binary_frame (cd_ser cd) h p)
     else pc_msg call = TText h"
    by (auto simp: addressed_def)
  show ?thesis
  proof (cases "endpoint_type ep = ''gx.chunk''")
    case True
    with h have "relay_binary_known h" by (simp add: relay_binary_known_def)
    moreover obtain p where "pc_msg call = TBinary (encode_binary_frame (cd_ser cd) h p)" using True h(2) by auto
    moreover have "endpoint_handler ep = None" using True binary_endpoint by simp
    ultimately show ?thesis by (simp, blast)
  next
    case False
    then obtain k where "endpoint_handler ep = Some k" using binary_endpoint by auto
    with False h show ?thesis
      by (simp add: relay_message_handler_def arms_of_endpoints)
  qed
qed

theorem endpoints_dispatched_witness:
  "\<exists>m. relay_router demo_codec (\<lambda>i. replicate i CHR ''x'') demo_state ''D1'' EpExec (demo_request ''key'')
        = Ok [\<lparr>pc_msg = TText m, pc_rid = [], pc_timeout = 30\<rparr>]
      \<and> Some HExec = Some (relay_message_handler m)"
proof -
  define h where "h = JObj [(''request_id'', JStr []), (''type'', JStr ''tunnel.exec''), (''command'', JStr ''ls'')]"
  have ok: "relay_router demo_codec (\<lambda>i. replicate i CHR ''x'') demo_state ''D1'' EpExec (demo_request ''key'')
      = Ok [\<lparr>pc_msg = TText h, pc_rid = [], pc_timeout = 30\<rparr>]"
    unfolding h_def by code_simp
  show ?thesis
    using endpoints_dispatched [OF ok, of "\<lparr>pc_msg = TText h, pc_rid = [], pc_timeout = 30\<rparr>"] ok by auto
qed

end
