(* ===== verification/Ws_Messages.thy ===== *)
theory Ws_Messages
  imports Session_Manager Activity Gawdxfer
begin

text \<open>
  The wire format of the server's WebSocket messages (\<open>server/src/ws/messages.rs\<close>): the enum
  \<open>WsServerMsg\<close> and \<open>to_value\<close>, the internally tagged object that serde makes of it. An optional
  field that is absent is left out, except in a \<open>SessionListItem\<close>, which shows it as \<open>null\<close>.
\<close>

datatype ws_server_msg =
    Pong "string option"
  | Error string string "string option" "string option"
  | SessionStarted string u32 bool bool bool u64 "string option" "string option"
  | SessionCreated string u32 bool bool bool "string option"
  | SessionDestroyed string string
  | SessionClosed string string "string option"
  | SessionAttached string "json list" u64 "string option"
  | SessionListed "session_list_item list" "string option"
  | SessionRenamed string string
  | SessionRenameAck string string "string option"
  | SessionExecAck string string "string option"
  | SessionSignalAck string int "string option"
  | SessionResizeAck string u16 u16 "string option"
  | SessionAllowAiAck string bool "string option"
  | SessionAiPermissionChanged string bool
  | SessionAiStatusChanged string bool "string option" "string option"
  | SessionAiStatusAck string bool "string option" "string option" "string option"
  | ShellListed "string list" string "string option"
  | SessionStdout string string u64 u64
  | SessionStderr string string u64 u64
  | SessionSystem string string u64 u64
  | ActivityNew activity_entry
  | GxEvent gx_event

text \<open>The fields that are present.\<close>

definition fields :: "(string \<times> json option) list \<Rightarrow> (string \<times> json) list" where
  "fields kvs = List.map_filter (\<lambda>(k, x). map_option (Pair k) x) kvs"

definition str :: "string \<Rightarrow> json option" where
  "str s = Some (JStr s)"

definition opt_str :: "string option \<Rightarrow> json option" where
  "opt_str x = map_option JStr x"

definition num :: "'a::len word \<Rightarrow> json option" where
  "num w = Some (JNum (uint w))"

definition flag :: "bool \<Rightarrow> json option" where
  "flag b = Some (JBool b)"

definition nullable :: "json option \<Rightarrow> json option" where
  "nullable x = Some (case x of None \<Rightarrow> JNull | Some v \<Rightarrow> v)"

definition list_item_value :: "session_list_item \<Rightarrow> json" where
  "list_item_value i =
     JObj (fields
       [(''session_id'', str (li_session_id i)), (''pid'', num (li_pid i)), (''persistent'', flag (li_persistent i)),
        (''pty'', flag (li_pty i)), (''kind'', str (li_kind i)), (''attached'', flag (li_attached i)),
        (''status'', str (li_status i)), (''exit_code'', nullable (map_option JNum (li_exit_code i))),
        (''idle'', flag (li_idle i)), (''idle_timeout'', Some (JNum (int (li_idle_timeout i)))),
        (''name'', nullable (opt_str (li_name i))), (''created_at'', num (li_created_at i)),
        (''user_allows_ai'', flag (li_user_allows_ai i)), (''ai_is_working'', flag (li_ai_is_working i)),
        (''ai_activity'', nullable (opt_str (li_ai_activity i))),
        (''ai_status_message'', nullable (opt_str (li_ai_status_message i)))])"

definition activity_entry_value :: "activity_entry \<Rightarrow> json" where
  "activity_entry_value e =
     JObj (fields
       [(''id'', num (ae_id e)), (''timestamp'', num (ae_timestamp e)), (''activity_type'', str (type_name (ae_type e))),
        (''source'', str (source_name (ae_source e))), (''summary'', str (ae_summary e)), (''detail'', ae_detail e),
        (''request_id'', opt_str (ae_request_id e))])"

definition gx_progress_value :: "gx_progress \<Rightarrow> json" where
  "gx_progress_value p =
     JObj (fields
       [(''transfer_id'', str (gp_transfer_id p)), (''direction'', str (direction_name (gp_direction p))),
        (''path'', str (gp_path p)), (''filename'', str (gp_filename p)), (''chunks_done'', num (gp_chunks_done p)),
        (''total_chunks'', num (gp_total_chunks p)), (''bytes_transferred'', num (gp_bytes_transferred p)),
        (''file_size'', num (gp_file_size p)), (''elapsed_ms'', num (gp_elapsed_ms p)), (''rate_bps'', num (gp_rate_bps p))])"

definition gx_complete_value :: "gx_complete \<Rightarrow> json" where
  "gx_complete_value c =
     JObj (fields
       [(''transfer_id'', str (gc_transfer_id c)), (''direction'', str (direction_name (gc_direction c))),
        (''path'', str (gc_path c)), (''filename'', str (gc_filename c)), (''file_size'', num (gc_file_size c)),
        (''file_hash'', str (gc_file_hash c)), (''elapsed_ms'', num (gc_elapsed_ms c))])"

fun msg_tag :: "ws_server_msg \<Rightarrow> string" where
  "msg_tag (Pong _) = ''pong''"
| "msg_tag (Error _ _ _ _) = ''error''"
| "msg_tag (SessionStarted _ _ _ _ _ _ _ _) = ''session.started''"
| "msg_tag (SessionCreated _ _ _ _ _ _) = ''session.created''"
| "msg_tag (SessionDestroyed _ _) = ''session.destroyed''"
| "msg_tag (SessionClosed _ _ _) = ''session.closed''"
| "msg_tag (SessionAttached _ _ _ _) = ''session.attached''"
| "msg_tag (SessionListed _ _) = ''session.listed''"
| "msg_tag (SessionRenamed _ _) = ''session.renamed''"
| "msg_tag (SessionRenameAck _ _ _) = ''session.rename.ack''"
| "msg_tag (SessionExecAck _ _ _) = ''session.exec.ack''"
| "msg_tag (SessionSignalAck _ _ _) = ''session.signal.ack''"
| "msg_tag (SessionResizeAck _ _ _ _) = ''session.resize.ack''"
| "msg_tag (SessionAllowAiAck _ _ _) = ''session.allow_ai.ack''"
| "msg_tag (SessionAiPermissionChanged _ _) = ''session.ai_permission_changed''"
| "msg_tag (SessionAiStatusChanged _ _ _ _) = ''session.ai_status_changed''"
| "msg_tag (SessionAiStatusAck _ _ _ _ _) = ''session.ai_status.ack''"
| "msg_tag (ShellListed _ _ _) = ''shell.listed''"
| "msg_tag (SessionStdout _ _ _ _) = ''session.stdout''"
| "msg_tag (SessionStderr _ _ _ _) = ''session.stderr''"
| "msg_tag (SessionSystem _ _ _ _) = ''session.system''"
| "msg_tag (ActivityNew _) = ''activity.new''"
| "msg_tag (GxEvent (GxComplete _)) = ''gx.complete''"
| "msg_tag (GxEvent (GxProgress _)) = ''gx.progress''"

fun msg_fields :: "ws_server_msg \<Rightarrow> (string \<times> json option) list" where
  "msg_fields (Pong rid) = [(''request_id'', opt_str rid)]"
| "msg_fields (Error code message sid rid) =
     [(''code'', str code), (''message'', str message), (''session_id'', opt_str sid), (''request_id'', opt_str rid)]"
| "msg_fields (SessionStarted sid pid persistent pty allows created name rid) =
     [(''session_id'', str sid), (''pid'', num pid), (''persistent'', flag persistent), (''pty'', flag pty),
      (''user_allows_ai'', flag allows), (''created_at'', num created), (''name'', opt_str name),
      (''request_id'', opt_str rid)]"
| "msg_fields (SessionCreated sid pid pty persistent allows name) =
     [(''session_id'', str sid), (''pid'', num pid), (''pty'', flag pty), (''persistent'', flag persistent),
      (''user_allows_ai'', flag allows), (''name'', opt_str name)]"
| "msg_fields (SessionDestroyed sid reason) = [(''session_id'', str sid), (''reason'', str reason)]"
| "msg_fields (SessionClosed sid reason rid) =
     [(''session_id'', str sid), (''reason'', str reason), (''request_id'', opt_str rid)]"
| "msg_fields (SessionAttached sid entries dropped rid) =
     [(''session_id'', str sid), (''entries'', Some (JArr entries)), (''dropped'', num dropped), (''request_id'', opt_str rid)]"
| "msg_fields (SessionListed sessions rid) =
     [(''sessions'', Some (JArr (map list_item_value sessions))), (''request_id'', opt_str rid)]"
| "msg_fields (SessionRenamed sid name) = [(''session_id'', str sid), (''name'', str name)]"
| "msg_fields (SessionRenameAck sid name rid) =
     [(''session_id'', str sid), (''name'', str name), (''request_id'', opt_str rid)]"
| "msg_fields (SessionExecAck sid command rid) =
     [(''session_id'', str sid), (''command'', str command), (''request_id'', opt_str rid)]"
| "msg_fields (SessionSignalAck sid signal rid) =
     [(''session_id'', str sid), (''signal'', Some (JNum signal)), (''request_id'', opt_str rid)]"
| "msg_fields (SessionResizeAck sid rows cols rid) =
     [(''session_id'', str sid), (''rows'', num rows), (''cols'', num cols), (''request_id'', opt_str rid)]"
| "msg_fields (SessionAllowAiAck sid allowed rid) =
     [(''session_id'', str sid), (''allowed'', flag allowed), (''request_id'', opt_str rid)]"
| "msg_fields (SessionAiPermissionChanged sid allowed) = [(''session_id'', str sid), (''allowed'', flag allowed)]"
| "msg_fields (SessionAiStatusChanged sid working activity message) =
     [(''session_id'', str sid), (''working'', flag working), (''activity'', opt_str activity), (''message'', opt_str message)]"
| "msg_fields (SessionAiStatusAck sid working activity message rid) =
     [(''session_id'', str sid), (''working'', flag working), (''activity'', opt_str activity), (''message'', opt_str message),
      (''request_id'', opt_str rid)]"
| "msg_fields (ShellListed shells default_shell rid) =
     [(''shells'', Some (JArr (map JStr shells))), (''default_shell'', str default_shell), (''request_id'', opt_str rid)]"
| "msg_fields (SessionStdout sid data sq t) =
     [(''session_id'', str sid), (''data'', str data), (''seq'', num sq), (''timestamp_ms'', num t)]"
| "msg_fields (SessionStderr sid data sq t) =
     [(''session_id'', str sid), (''data'', str data), (''seq'', num sq), (''timestamp_ms'', num t)]"
| "msg_fields (SessionSystem sid data sq t) =
     [(''session_id'', str sid), (''data'', str data), (''seq'', num sq), (''timestamp_ms'', num t)]"
| "msg_fields (ActivityNew entry) = [(''entry'', Some (activity_entry_value entry))]"
| "msg_fields (GxEvent (GxComplete c)) = [(''data'', Some (gx_complete_value c))]"
| "msg_fields (GxEvent (GxProgress p)) = [(''data'', Some (gx_progress_value p))]"

definition to_value :: "ws_server_msg \<Rightarrow> json" where
  "to_value m = JObj ((''type'', JStr (msg_tag m)) # fields (msg_fields m))"

lemma map_of_fields:
  "distinct (map fst kvs) \<Longrightarrow> map_of (fields kvs) k = Option.bind (map_of kvs k) id"
proof (induction kvs)
  case Nil
  show ?case by (simp add: fields_def map_filter_simps)
next
  case (Cons kv kvs)
  obtain k' x where kv: "kv = (k', x)" by (cases kv)
  have "map_of kvs k = None" if "k = k'" using Cons.prems that by (auto simp: kv map_of_eq_None_iff)
  with Cons show ?case by (cases x) (auto simp: kv fields_def map_filter_simps)
qed

lemma msg_fields_distinct: "distinct (map fst (msg_fields m))"
  by (cases m rule: msg_fields.cases) simp_all

lemma json_index_to_value [json_simps]:
  "json_index (to_value m) k =
     (if k = ''type'' then JStr (msg_tag m)
      else case Option.bind (map_of (msg_fields m) k) id of Some v \<Rightarrow> v | None \<Rightarrow> JNull)"
  using map_of_fields [OF msg_fields_distinct, of m k] by (simp add: to_value_def json_index_obj)

end
