(* ===== verification/Tunnel_Sessions.thy ===== *)
theory Tunnel_Sessions
  imports Tunnel_Client Session_Props Gawdxfer
begin

text \<open>
  Session messages that clients send through the relay, as the device handles them
  (\<open>handle_forwarded_session_message\<close> of \<open>server/src/tunnel/client.rs\<close>), with the end of a
  connection; the shell detection (\<open>server/src/shell/mod.rs\<close>) and \<open>expand_tilde\<close>
  (\<open>server/src/util.rs\<close>) they use.

  A handler is one step on \<open>device_state\<close>: the session pool, the table of subscriber tasks (with
  the sequence number each starts after), the replies on the request lane, the session events
  broadcast, and the signals sent to processes. The results of system calls, the clock and the
  environment are arguments.
\<close>

subsection \<open>Shells and paths\<close>

definition expand_tilde :: "string option \<Rightarrow> string \<Rightarrow> string" where
  "expand_tilde home path =
     (if path = ''~'' \<or> starts_with ''~/'' path
      then (case home of Some h \<Rightarrow> if path = ''~'' then h else h @ tl path | None \<Rightarrow> path)
      else path)"

definition shell_rank :: "string \<Rightarrow> nat" where
  "shell_rank path =
     (let name = last (split_char (CHR ''/'') path) in
      if name = ''zsh'' then 0 else if name = ''fish'' then 1 else if name = ''bash'' then 2
      else if name = ''dash'' then 3 else if name = ''ash'' then 4 else if name = ''sh'' then 5 else 6)"

definition fallback_candidates :: "(string \<Rightarrow> bool) \<Rightarrow> string list" where
  "fallback_candidates path_exists =
     filter path_exists [''/bin/sh'', ''/bin/bash'', ''/bin/zsh'', ''/bin/ash'', ''/bin/dash'',
       ''/usr/bin/fish'', ''/usr/bin/zsh'', ''/usr/bin/bash'']"

fun dedup_by :: "('a \<Rightarrow> 'b) \<Rightarrow> 'b list \<Rightarrow> 'a list \<Rightarrow> 'a list" where
  "dedup_by key seen [] = []"
| "dedup_by key seen (x # xs) =
     (if key x \<in> set seen then dedup_by key seen xs else x # dedup_by key (key x # seen) xs)"

definition detect_shells_uncached ::
    "string option \<Rightarrow> (string \<Rightarrow> bool) \<Rightarrow> (string \<Rightarrow> string option) \<Rightarrow> string list" where
  "detect_shells_uncached etc_shells path_exists canonicalize =
     (let from_file = (case etc_shells of
            Some contents \<Rightarrow> filter path_exists
              (filter (\<lambda>l. l \<noteq> [] \<and> \<not> starts_with ''#'' l) (map trim (lines contents)))
          | None \<Rightarrow> []);
          candidates = (if from_file = [] then fallback_candidates path_exists else from_file);
          canonical = (\<lambda>p. case canonicalize p of Some c \<Rightarrow> c | None \<Rightarrow> p)
      in sort_key shell_rank (dedup_by canonical [] candidates))"

subsection \<open>State\<close>

record device_state =
  dv_manager :: session_manager
  dv_subscribers :: "(string, u64) hmap"
  dv_transfers :: transfer_manager
  dv_lane_open :: bool
  dv_replies :: "json list"
  dv_events :: "json list"
  dv_calls :: "os_call list"

record shell_config =
  sc_default_terminal_rows :: u16
  sc_default_terminal_cols :: u16
  sc_default_working_dir :: string
  sc_default_shell :: string

record forward_env =
  fw_create :: create_env
  fw_kill :: kill_env
  fw_now :: instant
  fw_now_ms :: u64
  fw_kill_ok :: bool
  fw_ioctl_ok :: bool
  fw_home :: "string option"
  fw_shells :: "string list"

text \<open>
  \<open>send_response_async\<close>: a full lane is waited for, so a reply is lost only when the lane is closed.
\<close>

definition send_response :: "json \<Rightarrow> device_state \<Rightarrow> device_state" where
  "send_response m s = (if dv_lane_open s then s\<lparr>dv_replies := dv_replies s @ [m]\<rparr> else s)"

definition broadcast_event :: "json \<Rightarrow> device_state \<Rightarrow> device_state" where
  "broadcast_event m s = s\<lparr>dv_events := dv_events s @ [m]\<rparr>"

definition opt_field :: "string \<Rightarrow> string option \<Rightarrow> (string \<times> json) list \<Rightarrow> (string \<times> json) list" where
  "opt_field k x kvs = (case x of Some v \<Rightarrow> put_field k (JStr v) kvs | None \<Rightarrow> kvs)"

definition request_id_of :: "json \<Rightarrow> string option" where
  "request_id_of msg = json_as_str (json_index msg ''request_id'')"

definition reply :: "json \<Rightarrow> (string \<times> json) list \<Rightarrow> device_state \<Rightarrow> device_state" where
  "reply msg fs = send_response (JObj (opt_field ''request_id'' (request_id_of msg) fs))"

definition error_fields :: "string \<Rightarrow> string \<Rightarrow> (string \<times> json) list" where
  "error_fields code message =
     [(''type'', JStr ''error''), (''code'', JStr code), (''message'', JStr message)]"

definition session_error :: "string \<Rightarrow> string \<Rightarrow> string \<Rightarrow> (string \<times> json) list" where
  "session_error code sid message =
     [(''type'', JStr ''error''), (''code'', JStr code), (''session_id'', JStr sid), (''message'', JStr message)]"

definition json_as_i64 :: "json \<Rightarrow> int option" where
  "json_as_i64 v = (case v of JNum i \<Rightarrow> if - (2 ^ 63) \<le> i \<and> i < 2 ^ 63 then Some i else None | _ \<Rightarrow> None)"

text \<open>\<open>serde_json::from_value::<HashMap<String, String>>(v).ok()\<close>\<close>

definition json_as_env :: "json \<Rightarrow> env_vars option" where
  "json_as_env v =
     (case v of
        JObj kvs \<Rightarrow>
          if list_all (\<lambda>(_, x). json_as_str x \<noteq> None) kvs
          then Some (foldr (\<lambda>(k, x). hm_insert k (json_str_or [] x)) kvs []) else None
      | _ \<Rightarrow> None)"

definition env_field :: "json \<Rightarrow> env_vars option" where
  "env_field msg = Option.bind (json_get msg ''env'') json_as_env"

definition str_field :: "json \<Rightarrow> string \<Rightarrow> string option" where
  "str_field msg k = json_as_str (json_index msg k)"

definition bool_field :: "json \<Rightarrow> string \<Rightarrow> bool option" where
  "bool_field msg k = json_as_bool (json_index msg k)"

definition u64_field :: "json \<Rightarrow> string \<Rightarrow> u64 option" where
  "u64_field msg k = json_as_u64 (json_index msg k)"

definition session_id_of :: "json \<Rightarrow> string" where
  "session_id_of msg = unwrap_or [] (str_field msg ''session_id'')"

subsection \<open>Starting sessions and jobs\<close>

definition working_dir_of :: "shell_config \<Rightarrow> forward_env \<Rightarrow> json \<Rightarrow> string" where
  "working_dir_of cfg env msg =
     expand_tilde (fw_home env) (unwrap_or (sc_default_working_dir cfg) (str_field msg ''working_dir''))"

definition start_subscriber :: "string \<Rightarrow> u64 \<Rightarrow> device_state \<Rightarrow> device_state" where
  "start_subscriber sid since s = s\<lparr>dv_subscribers := hm_insert sid since (dv_subscribers s)\<rparr>"

definition session_started ::
    "json \<Rightarrow> bool \<Rightarrow> bool \<Rightarrow> bool \<Rightarrow> string option \<Rightarrow> string \<Rightarrow> u32 \<Rightarrow> device_state \<Rightarrow> device_state" where
  "session_started msg persistent use_pty allows_ai name sid pid s =
     (let m = (if allows_ai then dv_manager s else snd (set_user_allows_ai sid False (dv_manager s)));
          s1 = reply msg (opt_field ''name'' name
                 [(''type'', JStr ''session.started''), (''session_id'', JStr sid), (''pid'', JNum (uint pid)),
                  (''persistent'', JBool persistent), (''pty'', JBool use_pty),
                  (''user_allows_ai'', JBool allows_ai)]) (s\<lparr>dv_manager := m\<rparr>);
          s2 = (case get_buffer sid m of Some _ \<Rightarrow> start_subscriber sid 0 s1 | None \<Rightarrow> s1)
      in broadcast_event (JObj (opt_field ''name'' name
           [(''type'', JStr ''session.created''), (''session_id'', JStr sid), (''pid'', JNum (uint pid)),
            (''pty'', JBool use_pty), (''persistent'', JBool persistent),
            (''user_allows_ai'', JBool allows_ai)])) s2)"

definition fwd_start :: "shell_config \<Rightarrow> forward_env \<Rightarrow> json \<Rightarrow> device_state \<Rightarrow> device_state" where
  "fwd_start cfg env msg s =
     (let persistent = unwrap_or False (bool_field msg ''persistent'');
          use_pty = unwrap_or False (bool_field msg ''pty'');
          name = str_field msg ''name'';
          rows = (case u64_field msg ''rows'' of Some v \<Rightarrow> ucast v | None \<Rightarrow> sc_default_terminal_rows cfg);
          cols = (case u64_field msg ''cols'' of Some v \<Rightarrow> ucast v | None \<Rightarrow> sc_default_terminal_cols cfg);
          idle_timeout = unat (unwrap_or 0 (u64_field msg ''idle_timeout''));
          sh = unwrap_or (sc_default_shell cfg) (str_field msg ''shell'');
          allows_ai = unwrap_or True (bool_field msg ''user_allows_ai'')
      in case create_session_with_pty (fw_create env) sh (working_dir_of cfg env msg) (env_field msg) persistent
                use_pty rows cols idle_timeout name (dv_manager s) of
           (Inl e, m) \<Rightarrow> reply msg (error_fields ''SESSION_LIMIT'' e) (s\<lparr>dv_manager := m\<rparr>)
         | (Inr (sid, pid), m) \<Rightarrow>
             session_started msg persistent use_pty allows_ai name sid pid (s\<lparr>dv_manager := m\<rparr>))"

definition fwd_job_start :: "shell_config \<Rightarrow> forward_env \<Rightarrow> json \<Rightarrow> device_state \<Rightarrow> device_state" where
  "fwd_job_start cfg env msg s =
     (let command = unwrap_or [] (str_field msg ''command''); name = str_field msg ''name'' in
      if command = [] then reply msg (error_fields ''MISSING_FIELD'' ''command is required'') s
      else case create_job (fw_create env) (unwrap_or (sc_default_shell cfg) (str_field msg ''shell''))
                  (working_dir_of cfg env msg) command (env_field msg) name JOB_IDLE_TIMEOUT_SECS (dv_manager s) of
          (Inl e, m) \<Rightarrow> reply msg (error_fields ''SESSION_LIMIT'' e) (s\<lparr>dv_manager := m\<rparr>)
        | (Inr (sid, pid), m) \<Rightarrow>
            (let s1 = reply msg (opt_field ''name'' name
                   [(''type'', JStr ''session.started''), (''session_id'', JStr sid), (''pid'', JNum (uint pid)),
                    (''persistent'', JBool True), (''pty'', JBool False), (''user_allows_ai'', JBool True),
                    (''created_at'', JNum (uint (fw_now_ms env)))]) (s\<lparr>dv_manager := m\<rparr>)
             in case get_buffer sid m of Some _ \<Rightarrow> start_subscriber sid 0 s1 | None \<Rightarrow> s1))"

subsection \<open>Operations on a session\<close>

definition fwd_exec :: "forward_env \<Rightarrow> json \<Rightarrow> device_state \<Rightarrow> device_state" where
  "fwd_exec env msg s =
     (let sid = session_id_of msg; command = unwrap_or [] (str_field msg ''command'') in
      case exec_command sid command (touch_ai_activity (fw_now env) sid (dv_manager s)) of
        (Inl e, m) \<Rightarrow> reply msg (session_error ''SESSION_ERROR'' sid e) (s\<lparr>dv_manager := m\<rparr>)
      | (Inr _, m) \<Rightarrow> reply msg [(''type'', JStr ''session.exec.ack''), (''session_id'', JStr sid)] (s\<lparr>dv_manager := m\<rparr>))"

text \<open>An error on standard input is reported without the request's id.\<close>

definition fwd_stdin :: "forward_env \<Rightarrow> json \<Rightarrow> device_state \<Rightarrow> device_state" where
  "fwd_stdin env msg s =
     (let sid = session_id_of msg; data = unwrap_or [] (str_field msg ''data'') in
      if sid = [] then s
      else case send_to_session sid data (touch_ai_activity (fw_now env) sid (dv_manager s)) of
          (Inl e, m) \<Rightarrow> send_response (JObj (session_error ''SESSION_ERROR'' sid e)) (s\<lparr>dv_manager := m\<rparr>)
        | (Inr _, m) \<Rightarrow> s\<lparr>dv_manager := m\<rparr>)"

definition fwd_kill :: "forward_env \<Rightarrow> json \<Rightarrow> device_state \<Rightarrow> device_state" where
  "fwd_kill env msg s =
     (let sid = session_id_of msg in
      if sid = [] then s
      else case kill_session (fw_kill env) sid (dv_manager s) of
          (True, m, calls) \<Rightarrow>
            (let closed = [(''type'', JStr ''session.closed''), (''session_id'', JStr sid), (''reason'', JStr ''killed'')];
                 destroyed = JObj [(''type'', JStr ''session.destroyed''), (''session_id'', JStr sid),
                                   (''reason'', JStr ''killed'')];
                 s1 = broadcast_event destroyed
                        (reply msg closed (s\<lparr>dv_manager := m, dv_calls := dv_calls s @ calls\<rparr>))
             in s1\<lparr>dv_subscribers := hm_remove sid (dv_subscribers s1)\<rparr>)
        | (False, m, calls) \<Rightarrow>
            reply msg (session_error ''SESSION_NOT_FOUND'' sid (not_found sid)) (s\<lparr>dv_manager := m\<rparr>))"

definition fwd_signal :: "forward_env \<Rightarrow> json \<Rightarrow> device_state \<Rightarrow> device_state" where
  "fwd_signal env msg s =
     (let sid = session_id_of msg; signal = unwrap_or 0 (json_as_i64 (json_index msg ''signal'')) in
      if sid = [] \<or> signal = 0 then s
      else let (r, calls) = signal_session (fw_kill_ok env) sid (signed_take_bit 31 signal) (dv_manager s);
               s1 = s\<lparr>dv_calls := dv_calls s @ calls\<rparr>
        in case r of
             Inr _ \<Rightarrow> reply msg [(''type'', JStr ''session.signal.ack''), (''session_id'', JStr sid),
                                (''signal'', JNum signal)] s1
           | Inl e \<Rightarrow> reply msg (session_error ''SESSION_ERROR'' sid e) s1)"

definition fwd_attach :: "forward_env \<Rightarrow> json \<Rightarrow> device_state \<Rightarrow> device_state" where
  "fwd_attach env msg s =
     (let sid = session_id_of msg; since = unwrap_or 0 (u64_field msg ''since'') in
      if sid = [] then s
      else let s1 = s\<lparr>dv_subscribers := hm_remove sid (dv_subscribers s)\<rparr> in
        case attach_shared (fw_now env) sid (dv_manager s) of
          (Some buffer, m) \<Rightarrow>
            (let (entries, dropped) = read_since since buffer;
                 last_seq = (case entries of [] \<Rightarrow> since | _ \<Rightarrow> oe_seq (last entries))
             in start_subscriber sid last_seq
                  (reply msg [(''type'', JStr ''session.attached''), (''session_id'', JStr sid),
                              (''entries'', JArr (map (entry_to_ws_message sid) entries)),
                              (''dropped'', JNum (uint dropped))] (s1\<lparr>dv_manager := m\<rparr>)))
        | (None, m) \<Rightarrow>
            reply msg (session_error ''SESSION_NOT_FOUND'' sid (not_found sid)) (s1\<lparr>dv_manager := m\<rparr>))"

definition fwd_detach :: "forward_env \<Rightarrow> json \<Rightarrow> device_state \<Rightarrow> device_state" where
  "fwd_detach env msg s =
     (let sid = session_id_of msg in
      if sid = [] then s
      else s\<lparr>dv_subscribers := hm_remove sid (dv_subscribers s),
             dv_manager := detach (fw_now env) sid (dv_manager s)\<rparr>)"

definition list_entry :: "session_list_item \<Rightarrow> json" where
  "list_entry i =
     JObj (opt_field ''ai_status_message'' (li_ai_status_message i)
       (opt_field ''ai_activity'' (li_ai_activity i)
         (opt_field ''name'' (li_name i)
           [(''session_id'', JStr (li_session_id i)), (''pid'', JNum (uint (li_pid i))),
            (''persistent'', JBool (li_persistent i)), (''pty'', JBool (li_pty i)),
            (''attached'', JBool (li_attached i)), (''status'', JStr (li_status i)),
            (''idle'', JBool (li_idle i)), (''idle_timeout'', JNum (int (li_idle_timeout i))),
            (''user_allows_ai'', JBool (li_user_allows_ai i)),
            (''ai_is_working'', JBool (li_ai_is_working i))])))"

definition fwd_list :: "forward_env \<Rightarrow> json \<Rightarrow> device_state \<Rightarrow> device_state" where
  "fwd_list env msg s =
     reply msg [(''type'', JStr ''session.listed''),
                (''sessions'', JArr (map list_entry (list_sessions (fw_now env) (dv_manager s))))] s"

definition fwd_resize :: "forward_env \<Rightarrow> json \<Rightarrow> device_state \<Rightarrow> device_state" where
  "fwd_resize env msg s =
     (let sid = session_id_of msg;
          rows = ucast (unwrap_or 0 (u64_field msg ''rows'')) :: u16;
          cols = ucast (unwrap_or 0 (u64_field msg ''cols'')) :: u16
      in if sid = [] \<or> rows = 0 \<or> cols = 0 then s
         else case resize_session (fw_ioctl_ok env) sid (dv_manager s) of
             Inr _ \<Rightarrow> reply msg [(''type'', JStr ''session.resize.ack''), (''session_id'', JStr sid),
                                (''rows'', JNum (uint rows)), (''cols'', JNum (uint cols))] s
           | Inl e \<Rightarrow> reply msg (session_error ''SESSION_ERROR'' sid e) s)"

definition fwd_allow_ai :: "json \<Rightarrow> device_state \<Rightarrow> device_state" where
  "fwd_allow_ai msg s =
     (let sid = session_id_of msg in
      case bool_field msg ''allowed'' of
        None \<Rightarrow> s
      | Some allowed \<Rightarrow>
          if sid = [] then s
          else case set_user_allows_ai sid allowed (dv_manager s) of
              (Inr ai_cleared, m) \<Rightarrow>
                (let s1 = broadcast_event (JObj [(''type'', JStr ''session.ai_permission_changed''),
                            (''session_id'', JStr sid), (''allowed'', JBool allowed)])
                          (reply msg [(''type'', JStr ''session.allow_ai.ack''), (''session_id'', JStr sid),
                                      (''allowed'', JBool allowed)] (s\<lparr>dv_manager := m\<rparr>))
                 in if ai_cleared
                    then broadcast_event (JObj [(''type'', JStr ''session.ai_status_changed''),
                           (''session_id'', JStr sid), (''working'', JBool False)]) s1
                    else s1)
            | (Inl e, m) \<Rightarrow> reply msg (session_error ''SESSION_NOT_FOUND'' sid e) (s\<lparr>dv_manager := m\<rparr>))"

definition fwd_ai_status :: "forward_env \<Rightarrow> json \<Rightarrow> device_state \<Rightarrow> device_state" where
  "fwd_ai_status env msg s =
     (let sid = session_id_of msg; activity = str_field msg ''activity''; message = str_field msg ''message'';
          fs = (\<lambda>ty w. opt_field ''message'' message (opt_field ''activity'' activity
             [(''type'', JStr ty), (''session_id'', JStr sid), (''working'', JBool w)]))
      in case bool_field msg ''working'' of
           None \<Rightarrow> s
         | Some working \<Rightarrow>
             if sid = [] then s
             else case set_ai_status (fw_now env) sid working activity message (dv_manager s) of
                 (Inr _, m) \<Rightarrow>
                   broadcast_event (JObj (fs ''session.ai_status_changed'' working))
                     (reply msg (fs ''session.ai_status.ack'' working) (s\<lparr>dv_manager := m\<rparr>))
               | (Inl e, m) \<Rightarrow> reply msg (session_error ''AI_NOT_ALLOWED'' sid e) (s\<lparr>dv_manager := m\<rparr>))"

definition fwd_rename :: "json \<Rightarrow> device_state \<Rightarrow> device_state" where
  "fwd_rename msg s =
     (let sid = session_id_of msg; name = unwrap_or [] (str_field msg ''name'') in
      if sid = [] \<or> name = [] then s
      else case rename_session sid name (dv_manager s) of
          (Inr _, m) \<Rightarrow>
            broadcast_event (JObj [(''type'', JStr ''session.renamed''), (''session_id'', JStr sid), (''name'', JStr name)])
              (reply msg [(''type'', JStr ''session.rename.ack''), (''session_id'', JStr sid), (''name'', JStr name)]
                (s\<lparr>dv_manager := m\<rparr>))
        | (Inl e, m) \<Rightarrow> reply msg (session_error ''SESSION_NOT_FOUND'' sid e) (s\<lparr>dv_manager := m\<rparr>))"

definition fwd_shell_list :: "shell_config \<Rightarrow> forward_env \<Rightarrow> json \<Rightarrow> device_state \<Rightarrow> device_state" where
  "fwd_shell_list cfg env msg s =
     reply msg [(''type'', JStr ''shell.listed''), (''shells'', JArr (map JStr (fw_shells env))),
                (''default_shell'', JStr (sc_default_shell cfg))] s"

definition handle_forwarded_session_message ::
    "shell_config \<Rightarrow> forward_env \<Rightarrow> json \<Rightarrow> device_state \<Rightarrow> device_state" where
  "handle_forwarded_session_message cfg env msg s =
     (let t = unwrap_or [] (str_field msg ''type'') in
      if t = ''session.start'' then fwd_start cfg env msg s
      else if t = ''job.start'' then fwd_job_start cfg env msg s
      else if t = ''session.exec'' then fwd_exec env msg s
      else if t = ''session.stdin'' then fwd_stdin env msg s
      else if t = ''session.kill'' then fwd_kill env msg s
      else if t = ''session.signal'' then fwd_signal env msg s
      else if t = ''session.attach'' then fwd_attach env msg s
      else if t = ''session.detach'' then fwd_detach env msg s
      else if t = ''session.list'' then fwd_list env msg s
      else if t = ''session.resize'' then fwd_resize env msg s
      else if t = ''session.allow_ai'' then fwd_allow_ai msg s
      else if t = ''session.ai_status'' then fwd_ai_status env msg s
      else if t = ''session.rename'' then fwd_rename msg s
      else if t = ''shell.list'' then fwd_shell_list cfg env msg s
      else s)"

subsection \<open>The end of a connection\<close>

text \<open>
  The periodic reaping of finished subscriber tasks, and the cleanup: the tasks are aborted, the
  sessions they served are detached, and active transfers are paused.
\<close>

definition reap_subscribers :: "(string \<Rightarrow> bool) \<Rightarrow> device_state \<Rightarrow> device_state" where
  "reap_subscribers finished s = s\<lparr>dv_subscribers := filter (\<lambda>(sid, _). \<not> finished sid) (dv_subscribers s)\<rparr>"

definition connection_cleanup :: "instant \<Rightarrow> device_state \<Rightarrow> device_state" where
  "connection_cleanup now s =
     (let attached_sessions = map fst (dv_subscribers s);
          m = (if attached_sessions = [] then dv_manager s else detach_all now attached_sessions (dv_manager s))
      in s\<lparr>dv_subscribers := [], dv_manager := m, dv_transfers := pause_all (dv_transfers s), dv_lane_open := False\<rparr>)"

end
