(* ===== verification/Ws_Endpoint.thy ===== *)
theory Ws_Endpoint
  imports Ws_Messages Auth Tunnel_Sessions
begin

text \<open>
  The WebSocket endpoint for local clients (\<open>server/src/ws/mod.rs\<close>). The state of the server is the
  session pool with the clients connected to it; a connection remembers the sessions it has started
  or attached, the cursor of its subscriber of each session, and the messages queued for its client.
  A handler is one step; broadcast session events, output of sessions, the delivery of a subscriber
  and the periodic sweep are steps of their own. The messages carry the same fields as those that
  arrive through the tunnel, and the environment of a handler is the same.

  A subscriber is followed while its session is in the pool.
\<close>

subsection \<open>State\<close>

record ws_conn =
  wx_sessions :: "string list"
  wx_subscribers :: "(string, u64) hmap"
  wx_out :: "json list"
  wx_open :: bool

record ws_server =
  wv_manager :: session_manager
  wv_conns :: "(nat, ws_conn) hmap"
  wv_log :: activity_log
  wv_events :: "json list"
  wv_calls :: "os_call list"

text \<open>\<open>ws_upgrade\<close>: the token is compared before the upgrade.\<close>

definition ws_upgrade :: "string \<Rightarrow> string \<Rightarrow> bool" where
  "ws_upgrade api_key token = constant_time_eq (bytes api_key) (bytes token)"

definition on_ws_conn :: "nat \<Rightarrow> (ws_conn \<Rightarrow> ws_conn) \<Rightarrow> ws_server \<Rightarrow> ws_server" where
  "on_ws_conn c f s = s\<lparr>wv_conns := hm_modify c f (wv_conns s)\<rparr>"

text \<open>\<open>tx.send(v).await\<close>: a full channel is waited for; a message is lost only when the sender task has ended.\<close>

definition ws_queue :: "json \<Rightarrow> ws_conn \<Rightarrow> ws_conn" where
  "ws_queue v x = (if wx_open x then x\<lparr>wx_out := wx_out x @ [v]\<rparr> else x)"

definition ws_send :: "nat \<Rightarrow> ws_server_msg \<Rightarrow> ws_server \<Rightarrow> ws_server" where
  "ws_send c m = on_ws_conn c (ws_queue (to_value m))"

definition ws_error :: "nat \<Rightarrow> json \<Rightarrow> string \<Rightarrow> string \<Rightarrow> string option \<Rightarrow> ws_server \<Rightarrow> ws_server" where
  "ws_error c msg code message sid = ws_send c (Error code message sid (request_id_of msg))"

definition missing_field :: "nat \<Rightarrow> json \<Rightarrow> string \<Rightarrow> ws_server \<Rightarrow> ws_server" where
  "missing_field c msg message = ws_error c msg ''MISSING_FIELD'' message None"

definition ws_broadcast :: "ws_server_msg \<Rightarrow> ws_server \<Rightarrow> ws_server" where
  "ws_broadcast m s = s\<lparr>wv_events := wv_events s @ [to_value m]\<rparr>"

definition ws_log :: "forward_env \<Rightarrow> activity_type \<Rightarrow> string \<Rightarrow> json option \<Rightarrow> ws_server \<Rightarrow> ws_server" where
  "ws_log env ty summary detail s =
     s\<lparr>wv_log := snd (log_activity \<lparr>lc_type = ty, lc_source = Ws, lc_summary = summary, lc_detail = detail,
        lc_request_id = None, lc_clock_ms = Some (unat (fw_now_ms env))\<rparr> (wv_log s))\<rparr>"

text \<open>The task that a connection starts for a session, and the session on the connection's list.\<close>

definition ws_subscribe :: "nat \<Rightarrow> string \<Rightarrow> u64 \<Rightarrow> ws_server \<Rightarrow> ws_server" where
  "ws_subscribe c sid since = on_ws_conn c (\<lambda>x. x\<lparr>wx_subscribers := hm_insert sid since (wx_subscribers x)\<rparr>)"

definition ws_track :: "nat \<Rightarrow> string \<Rightarrow> ws_server \<Rightarrow> ws_server" where
  "ws_track c sid = on_ws_conn c (\<lambda>x. x\<lparr>wx_sessions := wx_sessions x @ [sid]\<rparr>)"

definition ws_unsubscribe :: "nat \<Rightarrow> string \<Rightarrow> ws_server \<Rightarrow> ws_server" where
  "ws_unsubscribe c sid = on_ws_conn c (\<lambda>x. x\<lparr>wx_subscribers := hm_remove sid (wx_subscribers x)\<rparr>)"

definition subscribe_new :: "nat \<Rightarrow> string \<Rightarrow> ws_server \<Rightarrow> ws_server" where
  "subscribe_new c sid s =
     ws_track c sid (case get_buffer sid (wv_manager s) of Some _ \<Rightarrow> ws_subscribe c sid 0 s | None \<Rightarrow> s)"

subsection \<open>Starting sessions and jobs\<close>

definition handle_session_start :: "shell_config \<Rightarrow> forward_env \<Rightarrow> nat \<Rightarrow> json \<Rightarrow> ws_server \<Rightarrow> ws_server" where
  "handle_session_start cfg env c msg s =
     (let persistent = unwrap_or False (bool_field msg ''persistent'');
          use_pty = unwrap_or False (bool_field msg ''pty'');
          name = str_field msg ''name'';
          rows = (case u64_field msg ''rows'' of Some v \<Rightarrow> ucast v | None \<Rightarrow> sc_default_terminal_rows cfg);
          cols = (case u64_field msg ''cols'' of Some v \<Rightarrow> ucast v | None \<Rightarrow> sc_default_terminal_cols cfg);
          idle_timeout = unat (unwrap_or 0 (u64_field msg ''idle_timeout''));
          sh = unwrap_or (sc_default_shell cfg) (str_field msg ''shell'');
          allows_ai = unwrap_or True (bool_field msg ''user_allows_ai'')
      in case create_session_with_pty (fw_create env) sh (working_dir_of cfg env msg) (env_field msg) persistent
                use_pty rows cols idle_timeout name (wv_manager s) of
           (Inl e, m) \<Rightarrow> ws_error c msg ''SESSION_LIMIT'' e None (s\<lparr>wv_manager := m\<rparr>)
         | (Inr (sid, pid), m) \<Rightarrow>
             (let m' = (if allows_ai then m else snd (set_user_allows_ai sid False m));
                  s1 = ws_send c (SessionStarted sid pid persistent use_pty allows_ai (fw_now_ms env) name (request_id_of msg))
                         (s\<lparr>wv_manager := m'\<rparr>);
                  s2 = ws_broadcast (SessionCreated sid pid use_pty persistent allows_ai name) s1;
                  s3 = ws_log env SessionStart (''session '' @ take 8 sid)
                         (Some (JObj [(''session_id'', JStr sid), (''pty'', JBool use_pty), (''persistent'', JBool persistent)])) s2
              in subscribe_new c sid s3))"

definition handle_job_start :: "shell_config \<Rightarrow> forward_env \<Rightarrow> nat \<Rightarrow> json \<Rightarrow> ws_server \<Rightarrow> ws_server" where
  "handle_job_start cfg env c msg s =
     (let command = unwrap_or [] (str_field msg ''command''); name = str_field msg ''name'' in
      if command = [] then missing_field c msg ''command is required'' s
      else case create_job (fw_create env) (unwrap_or (sc_default_shell cfg) (str_field msg ''shell''))
                  (working_dir_of cfg env msg) command (env_field msg) name JOB_IDLE_TIMEOUT_SECS (wv_manager s) of
          (Inl e, m) \<Rightarrow> ws_error c msg ''SESSION_LIMIT'' e None (s\<lparr>wv_manager := m\<rparr>)
        | (Inr (sid, pid), m) \<Rightarrow>
            (let s1 = ws_send c (SessionStarted sid pid True False True (fw_now_ms env) name (request_id_of msg))
                        (s\<lparr>wv_manager := m\<rparr>);
                 s2 = ws_log env SessionStart (''job '' @ take 8 sid)
                        (Some (JObj [(''session_id'', JStr sid), (''kind'', JStr ''job''), (''command'', JStr (take 80 command))])) s1
             in subscribe_new c sid s2))"

subsection \<open>Operations on a session\<close>

definition handle_session_exec :: "forward_env \<Rightarrow> nat \<Rightarrow> json \<Rightarrow> ws_server \<Rightarrow> ws_server" where
  "handle_session_exec env c msg s =
     (let sid = session_id_of msg; command = unwrap_or [] (str_field msg ''command'') in
      if sid = [] \<or> command = [] then missing_field c msg ''session_id and command are required'' s
      else case exec_command sid command (touch_ai_activity (fw_now env) sid (wv_manager s)) of
          (Inl e, m) \<Rightarrow> ws_error c msg ''SESSION_ERROR'' e (Some sid) (s\<lparr>wv_manager := m\<rparr>)
        | (Inr _, m) \<Rightarrow>
            ws_log env SessionExec (truncate_str command 80) (Some (JObj [(''session_id'', JStr sid)]))
              (ws_send c (SessionExecAck sid command (request_id_of msg)) (s\<lparr>wv_manager := m\<rparr>)))"

definition handle_session_stdin :: "forward_env \<Rightarrow> nat \<Rightarrow> json \<Rightarrow> ws_server \<Rightarrow> ws_server" where
  "handle_session_stdin env c msg s =
     (let sid = session_id_of msg; data = unwrap_or [] (str_field msg ''data'') in
      if sid = [] then s
      else case send_to_session sid data (touch_ai_activity (fw_now env) sid (wv_manager s)) of
          (Inl e, m) \<Rightarrow> ws_send c (Error ''SESSION_ERROR'' e (Some sid) None) (s\<lparr>wv_manager := m\<rparr>)
        | (Inr _, m) \<Rightarrow> s\<lparr>wv_manager := m\<rparr>)"

text \<open>\<open>session.destroyed\<close> is broadcast whether or not there was a session to kill.\<close>

definition handle_session_kill :: "forward_env \<Rightarrow> nat \<Rightarrow> json \<Rightarrow> ws_server \<Rightarrow> ws_server" where
  "handle_session_kill env c msg s =
     (let sid = session_id_of msg in
      if sid = [] then s
      else let s1 = (case kill_session (fw_kill env) sid (wv_manager s) of
               (True, m, calls) \<Rightarrow>
                 ws_log env SessionKill (''session '' @ take 8 sid) (Some (JObj [(''session_id'', JStr sid)]))
                   (ws_send c (SessionClosed sid ''killed'' (request_id_of msg))
                     (s\<lparr>wv_manager := m, wv_calls := wv_calls s @ calls\<rparr>))
             | (False, m, _) \<Rightarrow> ws_error c msg ''SESSION_NOT_FOUND'' (not_found sid) (Some sid) (s\<lparr>wv_manager := m\<rparr>))
        in ws_unsubscribe c sid (on_ws_conn c (\<lambda>x. x\<lparr>wx_sessions := filter (\<lambda>i. i \<noteq> sid) (wx_sessions x)\<rparr>)
             (ws_broadcast (SessionDestroyed sid ''killed'') s1)))"

definition handle_session_signal :: "forward_env \<Rightarrow> nat \<Rightarrow> json \<Rightarrow> ws_server \<Rightarrow> ws_server" where
  "handle_session_signal env c msg s =
     (let sid = session_id_of msg; signal = unwrap_or 0 (json_as_i64 (json_index msg ''signal''));
          signal_i32 = signed_take_bit 31 signal
      in if sid = [] \<or> signal = 0 then missing_field c msg ''session_id and signal are required'' s
         else let (r, calls) = signal_session (fw_kill_ok env) sid signal_i32 (wv_manager s);
                  s1 = s\<lparr>wv_calls := wv_calls s @ calls\<rparr>
           in case r of
                Inr _ \<Rightarrow>
                  ws_log env SessionSignal
                    (''signal '' @ show_int signal_i32 @ [CHR '' '', CHR 0xE2, CHR 0x86, CHR 0x92, CHR '' ''] @ take 8 sid)
                    (Some (JObj [(''session_id'', JStr sid), (''signal'', JNum signal_i32)]))
                    (ws_send c (SessionSignalAck sid signal_i32 (request_id_of msg)) s1)
              | Inl e \<Rightarrow> ws_error c msg ''SESSION_ERROR'' e (Some sid) s1)"

definition handle_session_attach :: "forward_env \<Rightarrow> nat \<Rightarrow> json \<Rightarrow> ws_server \<Rightarrow> ws_server" where
  "handle_session_attach env c msg s =
     (let sid = session_id_of msg; since = unwrap_or 0 (u64_field msg ''since'') in
      if sid = [] then missing_field c msg ''session_id is required'' s
      else let s1 = ws_unsubscribe c sid s in
        case attach (fw_now env) sid (wv_manager s) of
          (Some buffer, m) \<Rightarrow>
            (let (entries, dropped) = read_since since buffer;
                 last_seq = (case entries of [] \<Rightarrow> since | _ \<Rightarrow> oe_seq (last entries));
                 s2 = ws_subscribe c sid last_seq
                        (ws_send c (SessionAttached sid (map (entry_to_ws_message sid) entries) dropped (request_id_of msg))
                          (s1\<lparr>wv_manager := m\<rparr>))
             in on_ws_conn c (\<lambda>x. if sid \<in> set (wx_sessions x) then x
                                 else x\<lparr>wx_sessions := wx_sessions x @ [sid]\<rparr>) s2)
        | (None, m) \<Rightarrow> ws_error c msg ''SESSION_NOT_FOUND'' (not_found sid) (Some sid) (s1\<lparr>wv_manager := m\<rparr>))"

definition handle_session_resize :: "forward_env \<Rightarrow> nat \<Rightarrow> json \<Rightarrow> ws_server \<Rightarrow> ws_server" where
  "handle_session_resize env c msg s =
     (let sid = session_id_of msg;
          rows = ucast (unwrap_or 0 (u64_field msg ''rows'')) :: u16;
          cols = ucast (unwrap_or 0 (u64_field msg ''cols'')) :: u16
      in if sid = [] \<or> rows = 0 \<or> cols = 0 then missing_field c msg ''session_id, rows, and cols are required'' s
         else case resize_session (fw_ioctl_ok env) sid (wv_manager s) of
             Inr _ \<Rightarrow> ws_send c (SessionResizeAck sid rows cols (request_id_of msg)) s
           | Inl e \<Rightarrow> ws_error c msg ''SESSION_ERROR'' e (Some sid) s)"

definition ws_allow_ai :: "nat \<Rightarrow> json \<Rightarrow> ws_server \<Rightarrow> ws_server" where
  "ws_allow_ai c msg s =
     (let sid = session_id_of msg in
      case (if sid = [] then None else bool_field msg ''allowed'') of
        None \<Rightarrow> missing_field c msg ''session_id and allowed (bool) are required'' s
      | Some allowed \<Rightarrow>
         (case set_user_allows_ai sid allowed (wv_manager s) of
            (Inr ai_cleared, m) \<Rightarrow>
              (let s1 = ws_broadcast (SessionAiPermissionChanged sid allowed)
                          (ws_send c (SessionAllowAiAck sid allowed (request_id_of msg)) (s\<lparr>wv_manager := m\<rparr>))
               in if ai_cleared then ws_broadcast (SessionAiStatusChanged sid False None None) s1 else s1)
          | (Inl e, m) \<Rightarrow> ws_error c msg ''SESSION_NOT_FOUND'' e (Some sid) (s\<lparr>wv_manager := m\<rparr>)))"

definition ws_ai_status :: "forward_env \<Rightarrow> nat \<Rightarrow> json \<Rightarrow> ws_server \<Rightarrow> ws_server" where
  "ws_ai_status env c msg s =
     (let sid = session_id_of msg; activity = str_field msg ''activity''; message = str_field msg ''message'' in
      case (if sid = [] then None else bool_field msg ''working'') of
        None \<Rightarrow> missing_field c msg ''session_id and working (bool) are required'' s
      | Some working \<Rightarrow>
         (case set_ai_status (fw_now env) sid working activity message (wv_manager s) of
            (Inr _, m) \<Rightarrow>
              ws_broadcast (SessionAiStatusChanged sid working activity message)
                (ws_send c (SessionAiStatusAck sid working activity message (request_id_of msg)) (s\<lparr>wv_manager := m\<rparr>))
          | (Inl e, m) \<Rightarrow> ws_error c msg ''AI_NOT_ALLOWED'' e (Some sid) (s\<lparr>wv_manager := m\<rparr>)))"

definition ws_rename :: "nat \<Rightarrow> json \<Rightarrow> ws_server \<Rightarrow> ws_server" where
  "ws_rename c msg s =
     (let sid = session_id_of msg; name = unwrap_or [] (str_field msg ''name'') in
      if sid = [] \<or> name = [] then missing_field c msg ''session_id and name are required'' s
      else case rename_session sid name (wv_manager s) of
          (Inr _, m) \<Rightarrow>
            ws_broadcast (SessionRenamed sid name)
              (ws_send c (SessionRenameAck sid name (request_id_of msg)) (s\<lparr>wv_manager := m\<rparr>))
        | (Inl e, m) \<Rightarrow> ws_error c msg ''SESSION_NOT_FOUND'' e (Some sid) (s\<lparr>wv_manager := m\<rparr>))"

subsection \<open>The event loop\<close>

definition ws_message :: "shell_config \<Rightarrow> forward_env \<Rightarrow> nat \<Rightarrow> json \<Rightarrow> ws_server \<Rightarrow> ws_server" where
  "ws_message cfg env c msg s =
     (let t = unwrap_or [] (str_field msg ''type'') in
      if t = ''ping'' then ws_send c (Pong (request_id_of msg)) s
      else if t = ''session.start'' then handle_session_start cfg env c msg s
      else if t = ''job.start'' then handle_job_start cfg env c msg s
      else if t = ''session.exec'' then handle_session_exec env c msg s
      else if t = ''session.stdin'' then handle_session_stdin env c msg s
      else if t = ''session.kill'' then handle_session_kill env c msg s
      else if t = ''session.signal'' then handle_session_signal env c msg s
      else if t = ''session.attach'' then handle_session_attach env c msg s
      else if t = ''session.list'' then
        ws_send c (SessionListed (list_sessions (fw_now env) (wv_manager s)) (request_id_of msg)) s
      else if t = ''session.resize'' then handle_session_resize env c msg s
      else if t = ''session.allow_ai'' then ws_allow_ai c msg s
      else if t = ''session.ai_status'' then ws_ai_status env c msg s
      else if t = ''session.rename'' then ws_rename c msg s
      else if t = ''shell.list'' then
        ws_send c (ShellListed (fw_shells env) (sc_default_shell cfg) (request_id_of msg)) s
      else ws_error c msg ''UNKNOWN_TYPE'' (''Unknown message type: '' @ t) None s)"

text \<open>A text frame, parsed or not.\<close>

definition ws_text :: "shell_config \<Rightarrow> forward_env \<Rightarrow> nat \<Rightarrow> json option \<Rightarrow> ws_server \<Rightarrow> ws_server" where
  "ws_text cfg env c parsed s =
     (case parsed of
        None \<Rightarrow> ws_send c (Error ''INVALID_JSON'' ''Failed to parse JSON message'' None None) s
      | Some msg \<Rightarrow> ws_message cfg env c msg s)"

definition ws_connect :: "forward_env \<Rightarrow> nat \<Rightarrow> ws_server \<Rightarrow> ws_server" where
  "ws_connect env c s =
     (let s1 = ws_log env WsConnect ''Client connected'' None s in
      s1\<lparr>wv_conns := hm_insert c \<lparr>wx_sessions = [], wx_subscribers = [], wx_out = [], wx_open = True\<rparr> (wv_conns s1)\<rparr>)"

text \<open>A round of \<open>subscriber_task\<close>: every entry after the cursor is a message of its own.\<close>

definition ws_subscriber_round :: "string \<Rightarrow> u64 \<Rightarrow> output_buffer \<Rightarrow> json list \<times> u64" where
  "ws_subscriber_round sid cursor buf =
     (if has_entries_since cursor buf
      then let entries = fst (read_since cursor buf)
        in (map (entry_to_ws_message sid) entries, case entries of [] \<Rightarrow> cursor | _ \<Rightarrow> oe_seq (last entries))
      else ([], cursor))"

definition ws_deliver :: "nat \<Rightarrow> string \<Rightarrow> ws_server \<Rightarrow> ws_server" where
  "ws_deliver c sid s =
     (case get_buffer sid (wv_manager s) of
        None \<Rightarrow> s
      | Some buf \<Rightarrow>
          on_ws_conn c (\<lambda>x. case hm_get (wx_subscribers x) sid of
              None \<Rightarrow> x
            | Some cursor \<Rightarrow>
               (let (msgs, cursor') = ws_subscriber_round sid cursor buf
                in if wx_open x then (fold ws_queue msgs x)\<lparr>wx_subscribers := hm_insert sid cursor' (wx_subscribers x)\<rparr>
                   else x\<lparr>wx_subscribers := hm_remove sid (wx_subscribers x)\<rparr>)) s)"

text \<open>
  The end of the connection: what the client had started or attached is detached when it is
  persistent, and killed otherwise.
\<close>

definition close_session :: "forward_env \<Rightarrow> string \<Rightarrow> session_manager \<times> os_call list \<Rightarrow> session_manager \<times> os_call list" where
  "close_session env sid mc =
     (let (m, calls) = mc in
      if is_persistent sid m then (detach (fw_now env) sid m, calls)
      else let (_, m', more) = kill_session (fw_kill env) sid m in (m', calls @ more))"

definition ws_close :: "forward_env \<Rightarrow> nat \<Rightarrow> ws_server \<Rightarrow> ws_server" where
  "ws_close env c s =
     (case hm_get (wv_conns s) c of
        None \<Rightarrow> s
      | Some x \<Rightarrow>
          (let n = length (wx_sessions x);
               s1 = ws_log env WsDisconnect (''Client disconnected ('' @ show_nat n @ '' session''
                      @ (if n = 1 then '''' else ''s'') @ '')'') None s;
               (m, calls) = fold (close_session env) (wx_sessions x) (wv_manager s1, wv_calls s1)
           in s1\<lparr>wv_manager := m, wv_calls := calls, wv_conns := hm_remove c (wv_conns s1)\<rparr>))"

end
