(* ===== verification/Tunnel_Sessions_Props.thy ===== *)
theory Tunnel_Sessions_Props
  imports Tunnel_Sessions
begin

text \<open>
  Properties of the forwarded session messages: replies can be told apart by the id of the request,
  and the end of a connection leaves no session attached.
\<close>

subsection \<open>Replies\<close>

text \<open>\<open>answers msg s t\<close>: at most one reply is added from \<open>s\<close> to \<open>t\<close>, and it carries the id of \<open>msg\<close>.\<close>

definition answers :: "json \<Rightarrow> device_state \<Rightarrow> device_state \<Rightarrow> bool" where
  "answers msg s t \<longleftrightarrow>
     (\<exists>rs. dv_replies t = dv_replies s @ rs \<and> length rs \<le> 1 \<and> list_all (\<lambda>r. request_id_of r = request_id_of msg) rs)"

named_theorems fwd_simps \<open>frames of the handlers\<close>

lemma replies_frame [fwd_simps]:
  "dv_replies (broadcast_event e s) = dv_replies s"
  "dv_replies (start_subscriber sid c s) = dv_replies s"
  by (simp_all add: broadcast_event_def start_subscriber_def)

lemma manager_frame [fwd_simps]:
  "dv_manager (broadcast_event e s) = dv_manager s" "dv_subscribers (broadcast_event e s) = dv_subscribers s"
  "dv_manager (reply msg fs s) = dv_manager s" "dv_subscribers (reply msg fs s) = dv_subscribers s"
  "dv_manager (send_response r s) = dv_manager s" "dv_subscribers (send_response r s) = dv_subscribers s"
  "dv_manager (start_subscriber sid c s) = dv_manager s"
  "dv_subscribers (start_subscriber sid c s) = hm_insert sid c (dv_subscribers s)"
  by (simp_all add: broadcast_event_def start_subscriber_def reply_def send_response_def)

lemma request_id_put:
  "k \<noteq> ''request_id'' \<Longrightarrow> request_id_of (JObj (opt_field k x fs)) = request_id_of (JObj fs)"
  by (simp add: request_id_of_def opt_field_def json_index_obj map_of_put_field split: option.split)

lemma request_id_reply:
  "map_of fs ''request_id'' = None \<Longrightarrow>
     request_id_of (JObj (opt_field ''request_id'' (request_id_of msg) fs)) = request_id_of msg"
  by (auto simp: request_id_of_def opt_field_def json_index_obj map_of_put_field json_as_str_simps split: option.split)

lemma no_request_id [fwd_simps]:
  "k \<noteq> ''request_id'' \<Longrightarrow> map_of (opt_field k x fs) ''request_id'' = map_of fs ''request_id''"
  by (simp add: opt_field_def map_of_put_field split: option.split)

lemma answers_reply [intro!]:
  assumes "map_of fs ''request_id'' = None" and "dv_replies t = dv_replies s"
  shows "answers msg s (reply msg fs t)"
  using assms request_id_reply [OF assms(1), of msg]
  by (auto simp: answers_def reply_def send_response_def)

lemma answers_same [intro]: "dv_replies t = dv_replies s \<Longrightarrow> answers msg s t"
  by (simp add: answers_def)

lemma answers_frame [fwd_simps]:
  "answers msg s (broadcast_event e t) = answers msg s t"
  "answers msg s (start_subscriber sid c t) = answers msg s t"
  "answers msg s (t\<lparr>dv_subscribers := x\<rparr>) = answers msg s t"
  by (simp_all add: answers_def replies_frame)

lemmas error_simps = error_fields_def session_error_def

lemma answers_session_started:
  "dv_replies t = dv_replies s \<Longrightarrow> answers msg s (session_started msg p pty ai name sid pid t)"
  unfolding session_started_def Let_def
  by (auto simp: error_simps fwd_simps split: option.split)

lemma answers_start: "answers msg s (fwd_start cfg env msg s)"
  unfolding fwd_start_def Let_def
  by (auto simp: answers_session_started error_simps fwd_simps split: sum.split option.split prod.split bool.split)

lemma answers_job_start: "answers msg s (fwd_job_start cfg env msg s)"
  unfolding fwd_job_start_def Let_def
  by (auto simp: error_simps fwd_simps split: sum.split option.split prod.split bool.split)

lemma answers_exec: "answers msg s (fwd_exec env msg s)"
  unfolding fwd_exec_def Let_def
  by (auto simp: error_simps fwd_simps split: sum.split option.split prod.split bool.split)

lemma answers_kill: "answers msg s (fwd_kill env msg s)"
  unfolding fwd_kill_def Let_def
  by (auto simp: error_simps fwd_simps split: sum.split option.split prod.split bool.split)

lemma answers_signal: "answers msg s (fwd_signal env msg s)"
  unfolding fwd_signal_def Let_def
  by (auto simp: error_simps fwd_simps split: sum.split option.split prod.split bool.split)

lemma answers_attach: "answers msg s (fwd_attach env msg s)"
  unfolding fwd_attach_def Let_def
  by (auto simp: error_simps fwd_simps split: sum.split option.split prod.split bool.split)

lemma answers_detach: "answers msg s (fwd_detach env msg s)"
  unfolding fwd_detach_def Let_def
  by (auto simp: error_simps fwd_simps split: sum.split option.split prod.split bool.split)

lemma answers_list: "answers msg s (fwd_list env msg s)"
  unfolding fwd_list_def Let_def
  by (auto simp: error_simps fwd_simps split: sum.split option.split prod.split bool.split)

lemma answers_resize: "answers msg s (fwd_resize env msg s)"
  unfolding fwd_resize_def Let_def
  by (auto simp: error_simps fwd_simps split: sum.split option.split prod.split bool.split)

lemma answers_allow_ai: "answers msg s (fwd_allow_ai msg s)"
  unfolding fwd_allow_ai_def Let_def
  by (auto simp: error_simps fwd_simps split: sum.split option.split prod.split bool.split)

lemma answers_ai_status: "answers msg s (fwd_ai_status env msg s)"
  unfolding fwd_ai_status_def Let_def
  by (auto simp: error_simps fwd_simps split: sum.split option.split prod.split bool.split)

lemma answers_rename: "answers msg s (fwd_rename msg s)"
  unfolding fwd_rename_def Let_def
  by (auto simp: error_simps fwd_simps split: sum.split option.split prod.split bool.split)

lemma answers_shell_list: "answers msg s (fwd_shell_list cfg env msg s)"
  unfolding fwd_shell_list_def Let_def
  by (auto simp: error_simps fwd_simps split: sum.split option.split prod.split bool.split)

lemmas fwd_answers = answers_start answers_job_start answers_exec answers_kill answers_signal
  answers_attach answers_detach answers_list answers_resize answers_allow_ai
  answers_ai_status answers_rename answers_shell_list

text \<open>
  Replies can be correlated: a session message that a client sends through the relay (input to a
  session's terminal apart) is answered with at most one reply, and the reply carries the request id
  of the message, and none when the message has none. Together with the relay's tagging of request
  ids this is what brings a reply to the client that asked and to no other.
\<close>

theorem forwarded_reply_correlates:
  assumes "str_field msg ''type'' \<noteq> Some ''session.stdin''"
  shows "\<exists>rs. dv_replies (handle_forwarded_session_message cfg env msg s) = dv_replies s @ rs
    \<and> length rs \<le> 1 \<and> list_all (\<lambda>r. request_id_of r = request_id_of msg) rs"
proof -
  have "answers msg s (handle_forwarded_session_message cfg env msg s)"
    using assms fwd_answers
    by (auto simp: handle_forwarded_session_message_def Let_def unwrap_or_def split: option.splits)
  then show ?thesis by (simp add: answers_def)
qed

definition sample_device :: device_state where
  "sample_device = \<lparr>dv_manager = sample_manager, dv_subscribers = [],
     dv_transfers = new_transfer_manager (new_config 2 1024 5000 60) (new_log 10),
     dv_lane_open = True, dv_replies = [], dv_events = [], dv_calls = []\<rparr>"

definition sample_create :: create_env where
  "sample_create = \<lparr>ce_uuid = ''u1'', ce_allocate_pty = (\<lambda>_ _. None), ce_spawn = (\<lambda>_. Inl ''enoent''),
     ce_pty = \<lparr>pt_dup_writer = None, pt_dup_reader = None, pt_nonblock_writer = True, pt_nonblock_reader = True,
       pt_async_writer = True, pt_async_reader = True\<rparr>, ce_journal_ok = True, ce_now = 0, ce_now_ms = 0\<rparr>"

definition sample_forward :: forward_env where
  "sample_forward = \<lparr>fw_create = sample_create, fw_kill = sample_kill, fw_now = 5, fw_now_ms = 5, fw_kill_ok = True,
     fw_ioctl_ok = True, fw_home = None, fw_shells = []\<rparr>"

definition sample_shell :: shell_config where
  "sample_shell = \<lparr>sc_default_terminal_rows = 24, sc_default_terminal_cols = 80, sc_default_working_dir = ''/'',
     sc_default_shell = ''/bin/sh''\<rparr>"

definition session_message :: "string \<Rightarrow> string \<Rightarrow> string \<Rightarrow> json" where
  "session_message ty sid rid =
     JObj [(''type'', JStr ty), (''session_id'', JStr sid), (''request_id'', JStr rid)]"

lemmas field_eval = session_message_def str_field_def bool_field_def u64_field_def session_id_of_def request_id_of_def
  json_index_obj json_as_str_def json_as_bool_def json_as_u64_def unwrap_or_def

theorem forwarded_reply_correlates_witness:
  "\<exists>rs. dv_replies (handle_forwarded_session_message sample_shell sample_forward
        (session_message ''session.attach'' ''a'' ''c1:7'') sample_device) = rs
    \<and> length rs \<le> 1 \<and> list_all (\<lambda>r. request_id_of r = Some ''c1:7'') rs \<and> rs \<noteq> []"
proof -
  have "dv_replies (handle_forwarded_session_message sample_shell sample_forward
        (session_message ''session.attach'' ''a'' ''c1:7'') sample_device) \<noteq> []"
    by (simp add: handle_forwarded_session_message_def fwd_attach_def attach_shared_def field_eval Let_def
        sample_device_def sample_manager_def sample_entry_def hm_get_Cons reply_def send_response_def
        case_prod_beta start_subscriber_def)
  moreover have "str_field (session_message ''session.attach'' ''a'' ''c1:7'') ''type'' \<noteq> Some ''session.stdin''"
    "request_id_of (session_message ''session.attach'' ''a'' ''c1:7'') = Some ''c1:7''"
    by (simp_all add: field_eval)
  ultimately show ?thesis
    using forwarded_reply_correlates [of "session_message ''session.attach'' ''a'' ''c1:7''"
        sample_shell sample_forward sample_device]
    by (auto simp: sample_device_def)
qed

text \<open>
  A message that lacks a field gets no reply, where the WebSocket of the device itself answers
  \<open>MISSING_FIELD\<close>: the client that asked through the relay waits for its own time-out.
\<close>

lemma missing_field_unanswered:
  assumes "session_id_of msg = []"
    and "str_field msg ''type'' \<in> Some ` {''session.kill'', ''session.signal'', ''session.attach'', ''session.resize'',
      ''session.rename''}"
  shows "handle_forwarded_session_message cfg env msg s = s"
  using assms
  by (auto simp: handle_forwarded_session_message_def unwrap_or_def fwd_kill_def fwd_signal_def fwd_attach_def
      fwd_resize_def fwd_rename_def Let_def)

end
