(* ===== verification/Tunnel_Attach.thy ===== *)
theory Tunnel_Attach
  imports Tunnel_Sessions_Props
begin

text \<open>
  Attachments of sessions over the life of a tunnel connection: the device as a machine that handles
  forwarded messages in any order, interleaved with the output and the exits of its sessions and the
  periodic sweep, and what the cleanup at the end of the connection leaves of it.
\<close>

subsection \<open>Attachments\<close>

text \<open>
  How often a session is attached, 0 when there is none; what each operation of the pool makes of
  it. A session is attached at most once, and only while a subscriber task of the tunnel serves it.
\<close>

definition attached :: "session_manager \<Rightarrow> string \<Rightarrow> u32" where
  "attached m sid = (case hm_get (mgr_sessions m) sid of None \<Rightarrow> 0 | Some e \<Rightarrow> se_attached_count e)"

definition attach_inv :: "session_manager \<Rightarrow> (string, u64) hmap \<Rightarrow> bool" where
  "attach_inv m subs \<longleftrightarrow> hm_wf (mgr_sessions m) \<and>
     (\<forall>sid. attached m sid = 0 \<or> attached m sid = 1 \<and> hm_get subs sid \<noteq> None)"

lemma attached_modify:
  "(\<And>e. se_attached_count (f e) = se_attached_count e)
    \<Longrightarrow> attached (m\<lparr>mgr_sessions := hm_modify sid f (mgr_sessions m)\<rparr>) = attached m"
  by (auto simp: attached_def fun_eq_iff hm_get_modify split: option.split)

lemma attached_create:
  assumes "create_session_inner c sh wd env p pty r co it n cmd kd ev m = (Inr (sid, pid), m')"
  shows "attached m' = (attached m)(sid := 1)" "hm_get (mgr_sessions m') sid \<noteq> None"
    "hm_wf (mgr_sessions m) \<Longrightarrow> hm_wf (mgr_sessions m')"
  using assms
  by (auto simp: create_session_inner_def attached_def Let_def hm_laws fun_eq_iff hm.wf_insert
      split: sum.splits if_splits)

lemma create_fails_same:
  "create_session_inner c sh wd env p pty r co it n cmd kd ev m = (Inl e, m') \<Longrightarrow> m' = m"
  by (auto simp: create_session_inner_def Let_def split: sum.splits if_splits)

lemma attached_kill:
  "attached (fst (snd (kill_session k sid m))) = (attached m)(sid := 0)"
  "hm_wf (mgr_sessions m) \<Longrightarrow> hm_wf (mgr_sessions (fst (snd (kill_session k sid m))))"
  by (auto simp: kill_session_def attached_def fun_eq_iff hm_laws hm.wf_remove split: option.split)

lemma attached_attach:
  "attached (snd (attach_shared now sid m)) =
     (if hm_get (mgr_sessions m) sid = None then attached m else (attached m)(sid := 1))"
  "hm_wf (mgr_sessions m) \<Longrightarrow> hm_wf (mgr_sessions (snd (attach_shared now sid m)))"
  by (auto simp: attach_shared_def attached_def fun_eq_iff hm_get_modify hm.wf_modify split: option.split)

lemma attached_detach:
  "attached (detach now sid m) = (attached m)(sid := saturating_sub (attached m sid) 1)"
  "hm_wf (mgr_sessions m) \<Longrightarrow> hm_wf (mgr_sessions (detach now sid m))"
  by (auto simp: detach_def detach_entry_def attached_def fun_eq_iff hm_get_modify hm.wf_modify saturating_sub_def
      split: option.split)

lemma attached_sweep:
  assumes "hm_wf (mgr_sessions m)"
  shows "attached (fst (snd (sweep now cont k m))) sid \<in> {0, attached m sid}"
  by (auto simp: attached_def sweep_get [OF assms] ai_clear_def Let_def split: option.split)

lemma wf_sweep: "hm_wf (mgr_sessions m) \<Longrightarrow> hm_wf (mgr_sessions (fst (snd (sweep now cont k m))))"
  by (simp add: sweep_def Let_def hm_wf_remove_all)

lemma attach_invI:
  assumes "hm_wf (mgr_sessions m')"
    and "\<And>sid. attached m' sid = 0 \<or> attached m' sid = 1 \<and> hm_get subs' sid \<noteq> None"
  shows "attach_inv m' subs'"
  using assms by (simp add: attach_inv_def)

lemma attach_inv_same:
  assumes "attach_inv m subs" and "attached m' = attached m" and "hm_wf (mgr_sessions m) \<Longrightarrow> hm_wf (mgr_sessions m')"
  shows "attach_inv m' subs"
  using assms by (simp add: attach_inv_def)

lemma attach_inv_modify:
  assumes "attach_inv m subs" and "\<And>e. se_attached_count (f e) = se_attached_count e"
  shows "attach_inv (m\<lparr>mgr_sessions := hm_modify sid f (mgr_sessions m)\<rparr>) subs"
  using assms by (auto intro: attach_inv_same simp: attached_modify hm.wf_modify)

lemma attach_inv_keep:
  assumes "attach_inv m subs"
  shows "attach_inv (touch_ai_activity now sid m) subs"
    "attach_inv (snd (send_to_session sid d m)) subs"
    "attach_inv (snd (exec_command sid cmd m)) subs"
    "attach_inv (snd (set_user_allows_ai sid al m)) subs"
    "attach_inv (snd (set_ai_status now sid w ac ms m)) subs"
    "attach_inv (snd (rename_session sid nm m)) subs"
    "attach_inv (on_session sid f m) subs"
  using assms
  by (auto simp: touch_ai_activity_def send_to_session_def exec_command_def set_user_allows_ai_def set_ai_status_def
      rename_session_def on_session_def Let_def split: option.split prod.split intro!: attach_inv_modify)

lemma attach_inv_sweep:
  "attach_inv m subs \<Longrightarrow> attach_inv (fst (snd (sweep now cont k m))) subs"
  using attached_sweep [of m now cont k] by (fastforce simp: attach_inv_def wf_sweep)

subsection \<open>Every handler keeps the books\<close>

abbreviation device_inv :: "device_state \<Rightarrow> bool" where
  "device_inv s \<equiv> attach_inv (dv_manager s) (dv_subscribers s)"

lemma reply_frame [simp]:
  "dv_manager (reply msg fs s) = dv_manager s" "dv_subscribers (reply msg fs s) = dv_subscribers s"
  "dv_manager (send_response r s) = dv_manager s" "dv_subscribers (send_response r s) = dv_subscribers s"
  "dv_manager (broadcast_event r s) = dv_manager s" "dv_subscribers (broadcast_event r s) = dv_subscribers s"
  by (simp_all add: reply_def send_response_def broadcast_event_def)

lemma attach_inv_subscribe:
  assumes "attach_inv m subs" and "attached m' = (attached m)(sid := 1)" and "hm_wf (mgr_sessions m')"
  shows "attach_inv m' (hm_insert sid x subs)"
  using assms by (auto simp: attach_inv_def hm_laws)

lemma attach_inv_unsubscribe:
  assumes "attach_inv m subs" and "attached m' = (attached m)(sid := 0)" and "hm_wf (mgr_sessions m')"
  shows "attach_inv m' (hm_remove sid subs)"
  using assms by (auto simp: attach_inv_def hm_laws)

lemma resubscribed: "attach_inv m (hm_insert sid x subs) \<Longrightarrow> attach_inv m (hm_insert sid y (hm_remove sid subs))"
  by (auto simp: attach_inv_def hm_laws split: if_splits)

lemma attach_inv_wf: "attach_inv m subs \<Longrightarrow> hm_wf (mgr_sessions m)"
  by (simp add: attach_inv_def)

lemma inv_created:
  assumes "attach_inv m subs"
    and "create_session_inner c sh wd env p pty r co it n cmd kd ev m = (Inr (sid, pid), m')"
  shows "attach_inv m' (hm_insert sid x subs)" "get_buffer sid m' \<noteq> None"
  using attach_inv_subscribe [OF assms(1) attached_create(1) [OF assms(2)]] attached_create(2,3) [OF assms(2)]
    attach_inv_wf [OF assms(1)]
  by (auto simp: get_buffer_def)

lemma inv_start: "device_inv s \<Longrightarrow> device_inv (fwd_start cfg env msg s)"
proof -
  assume inv: "device_inv s"
  have buffer: "get_buffer sid (snd (set_user_allows_ai sid b m)) = None \<longleftrightarrow> get_buffer sid m = None" for sid b m
    by (auto simp: set_user_allows_ai_def get_buffer_def hm_get_modify Let_def split: option.split)
  show ?thesis
    using inv unfolding fwd_start_def create_session_with_pty_def Let_def
    by (auto simp: session_started_def start_subscriber_def Let_def buffer
        split: prod.split sum.split option.split dest: inv_created create_fails_same intro: attach_inv_keep)
qed

lemma inv_job_start: "device_inv s \<Longrightarrow> device_inv (fwd_job_start cfg env msg s)"
  unfolding fwd_job_start_def create_job_def Let_def
  by (auto simp: start_subscriber_def Let_def
      split: prod.split sum.split option.split dest: inv_created create_fails_same)

lemma inv_kill: "device_inv s \<Longrightarrow> device_inv (fwd_kill env msg s)"
proof -
  assume inv: "device_inv s"
  obtain b m calls where k: "kill_session (fw_kill env) (session_id_of msg) (dv_manager s) = (b, m, calls)"
    by (cases "kill_session (fw_kill env) (session_id_of msg) (dv_manager s)")
  have "attach_inv m (hm_remove (session_id_of msg) (dv_subscribers s))"
    using attach_inv_unsubscribe [OF inv attached_kill(1) attached_kill(2) [OF attach_inv_wf [OF inv]]] k
    by (metis fst_conv snd_conv)
  moreover have "\<not> b \<Longrightarrow> m = dv_manager s" using k by (auto simp: kill_session_def split: option.splits)
  ultimately show ?thesis using inv k by (cases b) (auto simp: fwd_kill_def Let_def)
qed

lemma inv_attach: "device_inv s \<Longrightarrow> device_inv (fwd_attach env msg s)"
proof -
  assume inv: "device_inv s"
  let ?sid = "session_id_of msg"
  let ?m = "snd (attach_shared (fw_now env) ?sid (dv_manager s))"
  have wf: "hm_wf (mgr_sessions ?m)" by (rule attached_attach(2) [OF attach_inv_wf [OF inv]])
  show ?thesis
  proof (cases "hm_get (mgr_sessions (dv_manager s)) ?sid")
    case None
    then have "attached ?m = (attached (dv_manager s))(?sid := 0)"
      by (simp add: attached_attach fun_upd_idem attached_def)
    from attach_inv_unsubscribe [OF inv this wf] None inv show ?thesis
      by (auto simp: fwd_attach_def attach_shared_def Let_def)
  next
    case (Some e)
    then have "attached ?m = (attached (dv_manager s))(?sid := 1)" by (simp add: attached_attach)
    from resubscribed [OF attach_inv_subscribe [OF inv this wf]] Some inv show ?thesis
      by (auto simp: fwd_attach_def attach_shared_def start_subscriber_def Let_def case_prod_beta)
  qed
qed

lemma inv_detach: "device_inv s \<Longrightarrow> device_inv (fwd_detach env msg s)"
proof -
  assume inv: "device_inv s"
  let ?sid = "session_id_of msg"
  have "attached (detach (fw_now env) ?sid (dv_manager s)) = (attached (dv_manager s))(?sid := 0)"
  proof -
    have "attached (dv_manager s) ?sid = 0 \<or> attached (dv_manager s) ?sid = 1" using inv by (auto simp: attach_inv_def)
    then show ?thesis by (auto simp: attached_detach(1) saturating_sub_def)
  qed
  from attach_inv_unsubscribe [OF inv this attached_detach(2) [OF attach_inv_wf [OF inv]]] inv show ?thesis
    by (simp add: fwd_detach_def Let_def)
qed

lemma inv_others:
  assumes "device_inv s"
  shows "device_inv (fwd_exec env msg s)" "device_inv (fwd_stdin env msg s)" "device_inv (fwd_signal env msg s)"
    "device_inv (fwd_list env msg s)" "device_inv (fwd_resize env msg s)" "device_inv (fwd_allow_ai msg s)"
    "device_inv (fwd_ai_status env msg s)" "device_inv (fwd_rename msg s)" "device_inv (fwd_shell_list cfg env msg s)"
proof -
  note keep = attach_inv_keep [OF assms] attach_inv_keep(2,3) [OF attach_inv_keep(1) [OF assms]]
  show "device_inv (fwd_exec env msg s)" "device_inv (fwd_stdin env msg s)" "device_inv (fwd_allow_ai msg s)"
    "device_inv (fwd_ai_status env msg s)" "device_inv (fwd_rename msg s)"
    using keep assms
    by (simp_all add: fwd_exec_def fwd_stdin_def fwd_allow_ai_def fwd_ai_status_def fwd_rename_def Let_def case_prod_beta
        split: sum.split option.split)
qed (use assms in \<open>simp_all add: fwd_signal_def fwd_list_def fwd_resize_def fwd_shell_list_def Let_def
      split: prod.split sum.split\<close>)

subsection \<open>The device while a connection lasts\<close>

datatype device_op =
    DvForward forward_env json
  | DvOutput string push_env output_stream string
  | DvExit string push_env "string + int option"
  | DvSweep instant "string \<Rightarrow> bool" kill_env

fun device_step :: "shell_config \<Rightarrow> device_op \<Rightarrow> device_state \<Rightarrow> device_state" where
  "device_step cfg (DvForward env msg) s = handle_forwarded_session_message cfg env msg s"
| "device_step cfg (DvOutput sid env st d) s = s\<lparr>dv_manager := on_session sid (reader_step env st d) (dv_manager s)\<rparr>"
| "device_step cfg (DvExit sid env w) s =
     s\<lparr>dv_manager := on_session sid (\<lambda>x. fst (exit_watcher sid env w x)) (dv_manager s)\<rparr>"
| "device_step cfg (DvSweep now cont k) s = s\<lparr>dv_manager := fst (snd (sweep now cont k (dv_manager s)))\<rparr>"

lemma device_inv_step: "device_inv s \<Longrightarrow> device_inv (device_step cfg op s)"
  by (cases op)
    (simp_all add: handle_forwarded_session_message_def Let_def inv_start inv_job_start inv_kill inv_attach inv_detach
      inv_others attach_inv_keep attach_inv_sweep)

interpretation device: invariant_machine "device_step cfg" "\<lambda>_ _. True" device_inv for cfg
  by unfold_locales (rule device_inv_step)

lemma attached_detach_all:
  "attached (detach_all now sids m) sid =
     (case hm_get (mgr_sessions m) sid of None \<Rightarrow> 0
      | Some e \<Rightarrow> se_attached_count ((detach_entry now ^^ count_list sids sid) e))"
  by (simp add: attached_def detach_all_def hm.get_modify_all split: option.split)

lemma detach_entry_zero: "se_attached_count e = 0 \<Longrightarrow> se_attached_count ((detach_entry now ^^ n) e) = 0"
  by (induction n) (auto simp: detach_entry_def saturating_sub_def)

lemma detach_entry_one:
  assumes "se_attached_count e = 1" and "n > 0"
  shows "se_attached_count ((detach_entry now ^^ n) e) = 0"
proof -
  from assms(2) obtain k where "n = Suc k" by (cases n) auto
  moreover have "se_attached_count (detach_entry now e) = 0"
    using assms(1) by (simp add: detach_entry_def saturating_sub_def)
  ultimately show ?thesis using detach_entry_zero [of "detach_entry now e" k now] by (simp add: funpow_swap1)
qed

lemma cleanup_detaches:
  assumes "device_inv s"
  shows "attached (dv_manager (connection_cleanup now s)) sid = 0"
proof (cases "hm_get (mgr_sessions (dv_manager s)) sid")
  case None
  then show ?thesis by (simp add: connection_cleanup_def Let_def attached_detach_all) (simp add: attached_def)
next
  case (Some e)
  from assms have "attached (dv_manager s) sid = 0 \<or> attached (dv_manager s) sid = 1 \<and> hm_get (dv_subscribers s) sid \<noteq> None"
    by (simp add: attach_inv_def)
  then consider "se_attached_count e = 0" | "se_attached_count e = 1" "sid \<in> set (map fst (dv_subscribers s))"
    using Some by (auto simp: attached_def hm_get_def map_of_eq_None_iff)
  then show ?thesis
  proof cases
    case 1
    with Some show ?thesis
      by (auto simp: connection_cleanup_def Let_def attached_detach_all detach_entry_zero) (simp add: attached_def)
  next
    case 2
    then have "count_list (map fst (dv_subscribers s)) sid > 0" "dv_subscribers s \<noteq> []"
      by (auto simp: count_list_0_iff neq0_conv [symmetric] simp del: neq0_conv)
    with Some 2 show ?thesis by (simp add: connection_cleanup_def Let_def attached_detach_all detach_entry_one)
  qed
qed

text \<open>
  The end of a connection leaves no session attached. Let a tunnel connection begin with nothing
  attached and no subscriber, on a device whose sessions are used through the tunnel; then after any
  sequence of forwarded messages (sessions and jobs started, attached by several clients, detached,
  renamed, killed), of output and exits of the sessions and of sweeps, the cleanup detaches every
  session exactly, so that the idle time-out of each of them starts to count. It also ends all
  subscribers and pauses the active transfers.
\<close>

theorem disconnect_detaches:
  assumes "hm_wf (mgr_sessions (dv_manager s))"
    and "list_all (\<lambda>(_, e). se_attached_count e = 0) (mgr_sessions (dv_manager s))"
    and "s' = connection_cleanup now (fold (device_step cfg) ops s)"
  shows "list_all (\<lambda>(_, e). se_attached_count e = 0) (mgr_sessions (dv_manager s'))
    \<and> dv_subscribers s' = []
    \<and> list_all (\<lambda>(_, t). tp_phase (t_progress t) \<notin> {Init, Transferring}) (tm_transfers (dv_transfers s'))"
proof -
  have "device_inv s"
    using assms(1,2) by (auto simp: attach_inv_def attached_def list_all_iff split: option.split dest!: hm_get_Some_set)
  then have inv: "device_inv (fold (device_step cfg) ops s)"
    using device.run_invar_all [of s cfg ops] by (simp add: device.run_fold)
  have wf: "hm_wf (mgr_sessions (dv_manager s'))"
    using attach_inv_wf [OF inv]
    by (simp add: assms(3) connection_cleanup_def Let_def detach_all_def hm.wf_modify_all)
  have "se_attached_count e = 0" if "(sid, e) \<in> set (mgr_sessions (dv_manager s'))" for sid e
  proof -
    have "hm_get (mgr_sessions (dv_manager s')) sid = Some e" using that hm_get_iff_set [OF wf] by simp
    then show ?thesis using cleanup_detaches [OF inv, of now sid] by (simp add: assms(3) attached_def)
  qed
  moreover have "tp_phase (t_progress t) \<notin> {Init, Transferring}" if "(tid, t) \<in> set (tm_transfers (dv_transfers s'))" for tid t
    using that by (auto simp: assms(3) connection_cleanup_def Let_def pause_all_def hm_map_values_def set_phase_def
        split: if_splits)
  ultimately show ?thesis by (auto simp: assms(3) connection_cleanup_def Let_def list_all_iff)
qed

definition sample_connection :: "device_op list" where
  "sample_connection = [DvForward sample_forward (session_message ''session.attach'' ''a'' ''c1:1''),
     DvForward sample_forward (session_message ''session.attach'' ''a'' ''c2:1''),
     DvOutput ''a'' \<lparr>pe_clock = Some 7, pe_accepted = True\<rparr> Stdout ''hi'',
     DvForward sample_forward (session_message ''session.attach'' ''b'' ''c2:2'')]"

theorem disconnect_detaches_witness:
  "map_option se_attached_count (hm_get (mgr_sessions (dv_manager
      (fold (device_step sample_shell) sample_connection sample_device))) ''a'') = Some 1
   \<and> list_all (\<lambda>(_, e). se_attached_count e = 0) (mgr_sessions (dv_manager
       (connection_cleanup 9 (fold (device_step sample_shell) sample_connection sample_device))))"
proof
  show "map_option se_attached_count (hm_get (mgr_sessions (dv_manager
      (fold (device_step sample_shell) sample_connection sample_device))) ''a'') = Some 1"
    by (simp add: sample_connection_def handle_forwarded_session_message_def fwd_attach_def attach_shared_def field_eval
        Let_def case_prod_beta start_subscriber_def on_session_def hm_get_modify hm_get_Cons sample_device_def
        sample_manager_def sample_entry_def)
  have "hm_wf (mgr_sessions (dv_manager sample_device))"
    "list_all (\<lambda>(_, e). se_attached_count e = 0) (mgr_sessions (dv_manager sample_device))"
    by (simp_all add: sample_device_def sample_manager_def sample_entry_def hm_wf_def)
  from disconnect_detaches [OF this refl, of 9 sample_shell sample_connection]
  show "list_all (\<lambda>(_, e). se_attached_count e = 0) (mgr_sessions (dv_manager
       (connection_cleanup 9 (fold (device_step sample_shell) sample_connection sample_device))))"
    by simp
qed

subsection \<open>What sharing one subscriber costs\<close>

text \<open>
  A subscriber task ends by itself only when the writer of the connection is gone. If the periodic
  reaping takes it from the table before the connection ends, the cleanup does not detach its
  session, which then counts as attached and is never swept for idleness.
\<close>

lemma reap_leaks_attachment:
  assumes "hm_get (mgr_sessions (dv_manager s)) sid = Some e" and "finished sid"
  shows "attached (dv_manager (connection_cleanup now (reap_subscribers finished s))) sid = se_attached_count e"
proof -
  have "sid \<notin> set (map fst (filter (\<lambda>(x, _). \<not> finished x) (dv_subscribers s)))" using assms(2) by auto
  then have "count_list (map fst (filter (\<lambda>(x, _). \<not> finished x) (dv_subscribers s))) sid = 0"
    by (simp add: count_list_0_iff)
  with assms(1) show ?thesis
    by (auto simp: connection_cleanup_def reap_subscribers_def Let_def attached_detach_all) (simp add: attached_def)
qed

text \<open>
  All clients that watch a session share one subscriber: whoever sends \<open>session.detach\<close> ends the
  output for all of them, and a client that attaches moves the cursor to the end of what it was given
  itself, whether or not the task before had sent those entries to the others.
\<close>

lemma detach_stops_all_watchers:
  assumes "str_field msg ''type'' = Some ''session.detach''" and "session_id_of msg \<noteq> []"
  shows "hm_get (dv_subscribers (handle_forwarded_session_message cfg env msg s)) (session_id_of msg) = None"
  using assms by (simp add: handle_forwarded_session_message_def unwrap_or_def fwd_detach_def Let_def hm_laws)

lemma attach_moves_shared_cursor:
  assumes "str_field msg ''type'' = Some ''session.attach''" and "session_id_of msg \<noteq> []"
    and "hm_get (mgr_sessions (dv_manager s)) (session_id_of msg) = Some e"
    and "fst (read_since (unwrap_or 0 (u64_field msg ''since'')) (ms_buffer (se_session e))) = es @ [x]"
  shows "hm_get (dv_subscribers (handle_forwarded_session_message cfg env msg s)) (session_id_of msg) = Some (oe_seq x)"
  using assms
  by (cases es)
    (auto simp: handle_forwarded_session_message_def unwrap_or_def fwd_attach_def attach_shared_def Let_def hm_laws
      start_subscriber_def case_prod_beta)

end
