(* ===== verification/Ws_Props.thy ===== *)
theory Ws_Props
  imports Ws_Endpoint Tunnel_Attach
begin

text \<open>
  The local clients of a server as a state machine: connections open and close, clients send
  messages in any order, sessions write and exit, and the pool is swept. A session that a connected
  client uses is never swept for idleness. Then the same message over the tunnel and over the local
  socket: both do the same to the pool.
\<close>

subsection \<open>Who uses a session\<close>

text \<open>The sessions each connection has on its list.\<close>

definition lists :: "ws_server \<Rightarrow> nat \<Rightarrow> string list option" where
  "lists s c = map_option wx_sessions (hm_get (wv_conns s) c)"

definition users :: "(nat \<Rightarrow> string list option) \<Rightarrow> string \<Rightarrow> nat set" where
  "users L sid = {c. \<exists>l. L c = Some l \<and> sid \<in> set l}"

definition live :: "session_manager \<Rightarrow> string \<Rightarrow> bool" where
  "live m sid \<longleftrightarrow> hm_get (mgr_sessions m) sid \<noteq> None"

text \<open>A session counts at least as many attachments as connections use it.\<close>

definition watch_inv :: "(nat \<Rightarrow> string list option) \<Rightarrow> session_manager \<Rightarrow> bool" where
  "watch_inv L m \<longleftrightarrow> hm_wf (mgr_sessions m) \<and> finite (dom L) \<and> card (dom L) < 2 ^ 32
     \<and> (\<forall>c l. L c = Some l \<longrightarrow> distinct l)
     \<and> (\<forall>sid. live m sid \<longrightarrow> card (users L sid) \<le> unat (attached m sid))"

lemma users_dom: "users L sid \<subseteq> dom L"
  by (auto simp: users_def)

lemma watch_invD:
  assumes "watch_inv L m"
  shows "hm_wf (mgr_sessions m)" "finite (dom L)" "card (dom L) < 2 ^ 32" "\<And>c l. L c = Some l \<Longrightarrow> distinct l"
    "\<And>sid. live m sid \<Longrightarrow> card (users L sid) \<le> unat (attached m sid)"
    "\<And>sid. finite (users L sid)" "\<And>sid. card (users L sid) < 2 ^ 32"
proof -
  show fin: "finite (users L sid)" for sid
    using assms users_dom [of L sid] by (auto simp: watch_inv_def intro: finite_subset)
  show "card (users L sid) < 2 ^ 32" for sid
    using assms card_mono [OF _ users_dom, of L sid] by (auto simp: watch_inv_def)
qed (use assms in \<open>auto simp: watch_inv_def\<close>)

text \<open>An operation that keeps the attachments and creates nothing.\<close>

lemma watch_inv_same:
  assumes "watch_inv L m" and "hm_wf (mgr_sessions m')"
    and "\<And>sid. live m' sid \<Longrightarrow> live m sid \<and> attached m' sid = attached m sid"
  shows "watch_inv L m'"
  using assms by (simp add: watch_inv_def)

lemma live_modify: "live (m\<lparr>mgr_sessions := hm_modify sid f (mgr_sessions m)\<rparr>) = live m"
  by (auto simp: live_def fun_eq_iff hm_get_modify)

lemma watch_inv_modify:
  assumes "watch_inv L m" and "\<And>e. se_attached_count (f e) = se_attached_count e"
  shows "watch_inv L (m\<lparr>mgr_sessions := hm_modify sid f (mgr_sessions m)\<rparr>)"
  by (rule watch_inv_same [OF assms(1)])
    (simp_all add: hm.wf_modify watch_invD(1) [OF assms(1)] attached_modify [of f, OF assms(2)] live_modify)

lemma watch_inv_keep:
  assumes "watch_inv L m"
  shows "watch_inv L (touch_ai_activity now sid m)"
    "watch_inv L (snd (send_to_session sid d m))"
    "watch_inv L (snd (exec_command sid cmd m))"
    "watch_inv L (snd (set_user_allows_ai sid al m))"
    "watch_inv L (snd (set_ai_status now sid w ac ms m))"
    "watch_inv L (snd (rename_session sid nm m))"
    "watch_inv L (on_session sid f m)"
  using assms
  by (auto simp: touch_ai_activity_def send_to_session_def exec_command_def set_user_allows_ai_def set_ai_status_def
      rename_session_def on_session_def Let_def split: option.split prod.split intro!: watch_inv_modify)

lemma watch_inv_sweep:
  assumes "watch_inv L m"
  shows "watch_inv L (fst (snd (sweep now cont k m)))"
  using assms wf_sweep [OF watch_invD(1) [OF assms]]
  by (intro watch_inv_same [OF assms])
    (auto simp: live_def attached_def sweep_get [OF watch_invD(1) [OF assms]] ai_clear_def split: option.splits if_splits)

lemma watch_inv_kill:
  assumes "watch_inv L m"
  shows "watch_inv L (fst (snd (kill_session k sid m)))"
  using attached_kill(2) [OF watch_invD(1) [OF assms], of k sid]
  by (intro watch_inv_same [OF assms])
    (auto simp: kill_session_def live_def attached_def hm_laws split: option.splits if_splits)

text \<open>A connection puts a session on its list.\<close>

definition track :: "nat \<Rightarrow> string \<Rightarrow> (nat \<Rightarrow> string list option) \<Rightarrow> nat \<Rightarrow> string list option" where
  "track c sid L = L(c := map_option (\<lambda>l. if sid \<in> set l then l else l @ [sid]) (L c))"

lemma dom_track [simp]: "dom (track c sid L) = dom L"
  by (auto simp: track_def dom_def)

lemma users_track: "users (track c sid L) sid' \<subseteq> users L sid' \<union> (if sid' = sid then {c} else {})"
  by (auto simp: users_def track_def split: if_splits)

lemma watch_inv_track:
  assumes inv: "watch_inv L m" and wf: "hm_wf (mgr_sessions m')"
    and live: "\<And>x. x \<noteq> sid \<Longrightarrow> live m' x = live m x" and at: "\<And>x. x \<noteq> sid \<Longrightarrow> attached m' x = attached m x"
    and cnt: "card (users L sid) < 2 ^ 32 - 1 \<Longrightarrow> Suc (card (users L sid)) \<le> unat (attached m' sid)"
    and max: "card (users L sid) = 2 ^ 32 - 1 \<Longrightarrow> 2 ^ 32 - 1 \<le> unat (attached m' sid)"
  shows "watch_inv (track c sid L) m'"
proof -
  have fin: "finite (users L x)" for x by (rule watch_invD(6) [OF inv])
  have other: "card (users (track c sid L) x) \<le> unat (attached m' x)" if "x \<noteq> sid" "live m' x" for x
  proof -
    have "users (track c sid L) x \<subseteq> users L x" using users_track [of c sid L x] that by simp
    then have "card (users (track c sid L) x) \<le> card (users L x)" by (rule card_mono [OF fin])
    also have "\<dots> \<le> unat (attached m x)" using watch_invD(5) [OF inv] that live by simp
    finally show ?thesis using at that by simp
  qed
  have "card (users (track c sid L) sid) \<le> Suc (card (users L sid))"
    using card_mono [OF _ users_track [of c sid L sid]] card_insert_le_m1 [of "Suc (card (users L sid))"] fin
    by (simp add: card_insert_if split: if_splits)
  moreover have "card (users (track c sid L) sid) \<le> 2 ^ 32 - 1"
  proof -
    have "card (users (track c sid L) sid) \<le> card (dom L)"
      using card_mono [OF _ users_dom [of "track c sid L" sid]] watch_invD(2) [OF inv] by simp
    then show ?thesis using watch_invD(3) [OF inv] by simp
  qed
  moreover have "card (users L sid) < 2 ^ 32 - 1 \<or> card (users L sid) = 2 ^ 32 - 1"
    using watch_invD(7) [OF inv, of sid] by linarith
  ultimately have "card (users (track c sid L) sid) \<le> unat (attached m' sid)" using cnt max by fastforce
  moreover have "distinct l" if "track c sid L d = Some l" for d l
    using that watch_invD(4) [OF inv] by (auto simp: track_def split: if_splits)
  ultimately show ?thesis
    using other wf watch_invD(2,3) [OF inv] by (auto simp: watch_inv_def) metis
qed

lemma watch_inv_create:
  assumes inv: "watch_inv L m"
    and cr: "create_session_inner cr sh wd env p pty r co it n cmd kd ev m = (Inr (sid, pid), m')"
    and fresh: "users L sid = {}"
  shows "watch_inv (track c sid L) m'"
proof (rule watch_inv_track [OF inv])
  show "hm_wf (mgr_sessions m')" by (rule attached_create(3) [OF cr watch_invD(1) [OF inv]])
  show "live m' x = live m x" if "x \<noteq> sid" for x
    using cr that by (auto simp: create_session_inner_def live_def Let_def hm_laws split: sum.splits if_splits)
qed (use attached_create(1) [OF cr] fresh in auto)

lemma watch_inv_attach:
  assumes inv: "watch_inv L m" and at: "attach now sid m = (Some buf, m')"
  shows "watch_inv (track c sid L) m'"
proof -
  from at obtain e where e: "hm_get (mgr_sessions m) sid = Some e" and m': "m' = snd (attach now sid m)"
    by (auto simp: attach_def)
  have cnt: "attached m' = (attached m)(sid := saturating_add (attached m sid) 1)"
    using e by (auto simp: m' attach_def attached_def fun_eq_iff hm_get_modify)
  have le: "card (users L sid) \<le> unat (attached m sid)" using watch_invD(5) [OF inv] e by (simp add: live_def)
  have sat: "unat (saturating_add (attached m sid) 1) = min (unat (attached m sid) + 1) (2 ^ 32 - 1)"
    by (simp add: unat_saturating_add)
  show ?thesis
  proof (rule watch_inv_track [OF inv])
    show "hm_wf (mgr_sessions m')" using watch_invD(1) [OF inv] by (simp add: m' attach_def hm.wf_modify)
    show "live m' x = live m x" for x by (simp add: m' attach_def live_modify)
  qed (use cnt sat le in auto)
qed

lemma watch_inv_untrack:
  assumes inv: "watch_inv L m" and gone: "\<not> live m sid"
  shows "watch_inv (L(c := map_option (filter (\<lambda>i. i \<noteq> sid)) (L c))) m"
proof -
  let ?L = "L(c := map_option (filter (\<lambda>i. i \<noteq> sid)) (L c))"
  have dom: "dom ?L = dom L" by (auto simp: dom_def)
  have "users ?L x \<subseteq> users L x" for x by (auto simp: users_def split: if_splits)
  then have "card (users ?L x) \<le> card (users L x)" for x by (intro card_mono watch_invD(6) [OF inv])
  moreover have "distinct l" if "?L d = Some l" for d l
    using that watch_invD(4) [OF inv] by (auto split: if_splits)
  ultimately show ?thesis
    using inv le_trans unfolding watch_inv_def dom by blast
qed

text \<open>A connection closes: its sessions are detached or killed, one after the other.\<close>

lemma close_session_live:
  "live (fst (close_session env sid mc)) x \<Longrightarrow> live (fst mc) x"
  "hm_wf (mgr_sessions (fst mc)) \<Longrightarrow> hm_wf (mgr_sessions (fst (close_session env sid mc)))"
  "x \<noteq> sid \<Longrightarrow> attached (fst (close_session env sid mc)) x = attached (fst mc) x"
  "live (fst (close_session env sid mc)) sid
     \<Longrightarrow> attached (fst (close_session env sid mc)) sid = saturating_sub (attached (fst mc) sid) 1"
  by (auto simp: close_session_def detach_def detach_entry_def kill_session_def live_def attached_def hm_laws hm_get_modify
      hm.wf_modify hm.wf_remove split: prod.splits option.splits if_splits)

lemma close_all:
  assumes "distinct sids" and "hm_wf (mgr_sessions (fst mc))"
  shows "hm_wf (mgr_sessions (fst (fold (close_session env) sids mc))) \<and>
    (live (fst (fold (close_session env) sids mc)) x \<longrightarrow> live (fst mc) x \<and>
      attached (fst (fold (close_session env) sids mc)) x =
        (if x \<in> set sids then saturating_sub (attached (fst mc) x) 1 else attached (fst mc) x))"
  using assms
proof (induction sids arbitrary: mc)
  case Nil
  then show ?case by simp
next
  case (Cons sid sids)
  let ?mc = "close_session env sid mc"
  have IH: "hm_wf (mgr_sessions (fst (fold (close_session env) sids ?mc))) \<and>
    (live (fst (fold (close_session env) sids ?mc)) x \<longrightarrow> live (fst ?mc) x \<and>
      attached (fst (fold (close_session env) sids ?mc)) x =
        (if x \<in> set sids then saturating_sub (attached (fst ?mc) x) 1 else attached (fst ?mc) x))"
    using Cons by (intro Cons.IH) (auto intro: close_session_live(2))
  show ?case
  proof (cases "x = sid")
    case True
    then show ?thesis using IH Cons.prems(1) close_session_live(1,4) [of env sid mc] by auto
  next
    case False
    then show ?thesis using IH close_session_live(1) [of env sid mc x] close_session_live(3) [of x sid env mc] by auto
  qed
qed

lemma watch_inv_close:
  assumes inv: "watch_inv L m" and l: "L c = Some sids"
  shows "watch_inv (L(c := None)) (fst (fold (close_session env) sids (m, calls)))"
proof -
  let ?m = "fst (fold (close_session env) sids (m, calls))" and ?L = "L(c := None)"
  have d: "distinct sids" by (rule watch_invD(4) [OF inv l])
  note all = close_all [OF d, of "(m, calls)" env, simplified, OF watch_invD(1) [OF inv]]
  have dom: "dom ?L = dom L - {c}" by auto
  have "card (users ?L x) \<le> unat (attached ?m x)" if lv: "live ?m x" for x
  proof -
    have le: "card (users L x) \<le> unat (attached m x)" using watch_invD(5) [OF inv] all [of x] lv by simp
    have U: "users ?L x = users L x - {c}" by (auto simp: users_def)
    show ?thesis
    proof (cases "x \<in> set sids")
      case True
      then have "c \<in> users L x" using l by (auto simp: users_def)
      then have "card (users ?L x) = card (users L x) - 1" by (simp add: U card_Diff_singleton)
      moreover have "unat (attached ?m x) = unat (attached m x) - 1"
        using all [of x] lv True by (simp add: unat_saturating_sub)
      ultimately show ?thesis using le by linarith
    next
      case False
      have "card (users ?L x) \<le> card (users L x)" using U by (simp add: card_Diff1_le watch_invD(6) [OF inv])
      with False le show ?thesis using all [of x] lv by simp
    qed
  qed
  moreover have "card (dom ?L) \<le> card (dom L)" using dom by (simp add: card_Diff1_le watch_invD(2) [OF inv])
  ultimately show ?thesis
    using all watch_invD(2,3,4) [OF inv] unfolding watch_inv_def dom by (auto split: if_splits)
qed

subsection \<open>Every handler keeps the count\<close>

abbreviation ws_inv :: "ws_server \<Rightarrow> bool" where
  "ws_inv s \<equiv> watch_inv (lists s) (wv_manager s)"

lemma lists_on_ws_conn:
  "lists (on_ws_conn c f s) = (lists s)(c := map_option (wx_sessions \<circ> f) (hm_get (wv_conns s) c))"
  by (auto simp: lists_def on_ws_conn_def fun_eq_iff hm_get_modify option.map_comp)

lemma lists_same:
  assumes "\<And>x. wx_sessions (f x) = wx_sessions x"
  shows "lists (on_ws_conn c f s) = lists s"
proof -
  have "wx_sessions \<circ> f = wx_sessions" using assms by auto
  then show ?thesis unfolding lists_on_ws_conn by (simp add: fun_upd_idem lists_def)
qed

lemma lists_update [simp]:
  "lists (s\<lparr>wv_manager := m\<rparr>) = lists s" "lists (s\<lparr>wv_calls := k\<rparr>) = lists s"
  "lists (s\<lparr>wv_events := es\<rparr>) = lists s" "lists (s\<lparr>wv_log := l\<rparr>) = lists s"
  by (simp_all add: lists_def fun_eq_iff)

lemma ws_frame [simp]:
  "lists (ws_send c m s) = lists s" "wv_manager (ws_send c m s) = wv_manager s"
  "lists (ws_error c msg code mg sd s) = lists s" "wv_manager (ws_error c msg code mg sd s) = wv_manager s"
  "lists (missing_field c msg mg s) = lists s" "wv_manager (missing_field c msg mg s) = wv_manager s"
  "lists (ws_broadcast m s) = lists s" "wv_manager (ws_broadcast m s) = wv_manager s"
  "lists (ws_log env ty sm de s) = lists s" "wv_manager (ws_log env ty sm de s) = wv_manager s"
  "lists (ws_subscribe c sid n s) = lists s" "wv_manager (ws_subscribe c sid n s) = wv_manager s"
  "lists (ws_unsubscribe c sid s) = lists s" "wv_manager (ws_unsubscribe c sid s) = wv_manager s"
  "wv_manager (on_ws_conn c f s) = wv_manager s" "wv_manager (subscribe_new c sid s) = wv_manager s"
  by (simp_all add: ws_send_def ws_error_def missing_field_def ws_broadcast_def ws_log_def ws_subscribe_def
      ws_unsubscribe_def lists_same ws_queue_def subscribe_new_def ws_track_def split: option.split)
    (simp_all add: lists_def on_ws_conn_def ws_send_def ws_subscribe_def ws_unsubscribe_def)

lemma lists_track:
  "lists (on_ws_conn c (\<lambda>x. if sid \<in> set (wx_sessions x) then x
       else x\<lparr>wx_sessions := wx_sessions x @ [sid]\<rparr>) s) = track c sid (lists s)"
  unfolding lists_on_ws_conn by (cases "hm_get (wv_conns s) c") (simp_all add: track_def lists_def)

lemma lists_subscribe_new:
  assumes "users (lists s) sid = {}"
  shows "lists (subscribe_new c sid s) = track c sid (lists s)"
proof -
  have no: "L c = Some l \<Longrightarrow> sid \<notin> set l" if "L = lists s" for L l
    using assms that by (auto simp: users_def)
  have "lists (ws_track c sid s') = track c sid (lists s')" if "lists s' = lists s" for s'
    using no [OF that] unfolding ws_track_def lists_on_ws_conn
    by (cases "hm_get (wv_conns s') c") (simp_all add: track_def lists_def)
  then show ?thesis by (simp add: subscribe_new_def split: option.split)
qed

lemma ws_inv_start:
  assumes inv: "ws_inv s" and fresh: "users (lists s) (ce_uuid (fw_create env)) = {}"
  shows "ws_inv (handle_session_start cfg env c msg s)" "ws_inv (handle_job_start cfg env c msg s)"
proof -
  have id: "sid = ce_uuid (fw_create env)"
    if "create_session_inner (fw_create env) sh wd ev p pty r co it n cmd kd xe m = (Inr (sid, pid), m')" for
      sh wd ev p pty r co it n cmd kd xe m sid pid m'
    using that by (auto simp: create_session_inner_def Let_def split: sum.splits if_splits)
  have created: "watch_inv (lists (subscribe_new c sid t)) m''"
    if "create_session_inner (fw_create env) sh wd ev p pty r co it n cmd kd xe (wv_manager s) = (Inr (sid, pid), m')"
      and "lists t = lists s" and "watch_inv (track c sid (lists s)) m' \<Longrightarrow> watch_inv (track c sid (lists s)) m''" for
      sh wd ev p pty r co it n cmd kd xe sid pid m' t m''
    using watch_inv_create [OF inv that(1), of c] fresh id [OF that(1)] that(2,3) by (simp add: lists_subscribe_new)
  note parts = create_session_with_pty_def create_job_def Let_def
  show "ws_inv (handle_session_start cfg env c msg s)"
    using inv unfolding handle_session_start_def parts
    by (auto split: prod.split sum.split dest: create_fails_same intro: watch_inv_keep(4) elim!: created)
  show "ws_inv (handle_job_start cfg env c msg s)"
    using inv unfolding handle_job_start_def parts
    by (auto split: prod.split sum.split dest: create_fails_same elim!: created)
qed

lemma ws_inv_kill:
  assumes "ws_inv s"
  shows "ws_inv (handle_session_kill env c msg s)"
proof -
  let ?sid = "session_id_of msg"
  obtain b m calls where k: "kill_session (fw_kill env) ?sid (wv_manager s) = (b, m, calls)"
    by (cases "kill_session (fw_kill env) ?sid (wv_manager s)")
  have "watch_inv (lists s) m" using watch_inv_kill [OF assms, of "fw_kill env" ?sid] k by simp
  moreover have "\<not> live m ?sid" using k by (auto simp: kill_session_def live_def hm_laws split: option.splits)
  moreover have "lists (on_ws_conn c (\<lambda>x. x\<lparr>wx_sessions := filter (\<lambda>i. i \<noteq> ?sid) (wx_sessions x)\<rparr>) s')
      = (lists s')(c := map_option (filter (\<lambda>i. i \<noteq> ?sid)) (lists s' c))" for s'
    unfolding lists_on_ws_conn by (simp add: lists_def option.map_comp comp_def)
  ultimately show ?thesis
    using assms k by (cases b) (simp_all add: handle_session_kill_def Let_def watch_inv_untrack)
qed

lemma ws_inv_attach:
  assumes "ws_inv s"
  shows "ws_inv (handle_session_attach env c msg s)"
proof -
  obtain b m where a: "attach (fw_now env) (session_id_of msg) (wv_manager s) = (b, m)"
    by (cases "attach (fw_now env) (session_id_of msg) (wv_manager s)")
  show ?thesis
  proof (cases b)
    case None
    then have "m = snd (attach (fw_now env) (session_id_of msg) (wv_manager s))"
      "hm_get (mgr_sessions (wv_manager s)) (session_id_of msg) = None"
      using a by (auto simp: attach_def)
    then have "watch_inv (lists s) m"
      using watch_invD(1) [OF assms]
      by (intro watch_inv_same [OF assms]) (auto simp: attach_def live_def attached_def hm_get_modify hm.wf_modify)
    with None a assms show ?thesis by (simp add: handle_session_attach_def Let_def)
  next
    case (Some buf)
    with a assms watch_inv_attach [OF assms, of "fw_now env" "session_id_of msg" buf m c] show ?thesis
      by (simp add: handle_session_attach_def Let_def lists_track split: prod.split)
  qed
qed

lemma ws_inv_others:
  assumes "ws_inv s"
  shows "ws_inv (handle_session_exec env c msg s)" "ws_inv (handle_session_stdin env c msg s)"
    "ws_inv (handle_session_signal env c msg s)" "ws_inv (handle_session_resize env c msg s)"
    "ws_inv (ws_allow_ai c msg s)" "ws_inv (ws_ai_status env c msg s)" "ws_inv (ws_rename c msg s)"
  using assms watch_inv_keep [OF assms] watch_inv_keep(2,3) [OF watch_inv_keep(1) [OF assms]]
  by (simp_all add: handle_session_exec_def handle_session_stdin_def handle_session_signal_def handle_session_resize_def
      ws_allow_ai_def ws_ai_status_def ws_rename_def Let_def case_prod_beta split: sum.split option.split)

lemma ws_inv_message:
  assumes "ws_inv s" and "users (lists s) (ce_uuid (fw_create env)) = {}"
  shows "ws_inv (ws_message cfg env c msg s)"
  using assms by (simp add: ws_message_def Let_def ws_inv_start ws_inv_kill ws_inv_attach ws_inv_others)

lemma ws_inv_connect:
  assumes inv: "ws_inv s" and "hm_get (wv_conns s) c = None" and "card (dom (lists s)) < 2 ^ 32 - 1"
  shows "ws_inv (ws_connect env c s)"
proof -
  have L: "lists (ws_connect env c s) = (lists s)(c := Some [])"
    by (auto simp: ws_connect_def Let_def lists_def fun_eq_iff hm_laws ws_log_def)
  have "users ((lists s)(c := Some [])) sid = users (lists s) sid" for sid
    using assms(2) by (auto simp: users_def lists_def split: if_splits)
  then show ?thesis
    using inv assms(2,3) unfolding L watch_inv_def
    by (auto simp: ws_connect_def Let_def ws_log_def card_insert_if live_def attached_def split: if_splits)
qed

lemma ws_inv_close:
  assumes "ws_inv s"
  shows "ws_inv (ws_close env c s)"
proof (cases "hm_get (wv_conns s) c")
  case None
  with assms show ?thesis by (simp add: ws_close_def)
next
  case (Some x)
  have "lists (t\<lparr>wv_manager := m, wv_calls := k, wv_conns := hm_remove c (wv_conns t)\<rparr>) = (lists t)(c := None)" for t m k
    by (auto simp: lists_def fun_eq_iff hm_laws)
  then show ?thesis
    using watch_inv_close [OF assms, of c "wx_sessions x" env "wv_calls s"] Some
    by (simp add: ws_close_def Let_def case_prod_beta lists_def) (simp add: ws_log_def)
qed

subsection \<open>A server and its local clients\<close>

datatype ws_op =
    WoConnect forward_env nat
  | WoText forward_env nat "json option"
  | WoEvent nat json
  | WoDeliver nat string
  | WoSenderGone nat
  | WoClose forward_env nat
  | WoOutput string push_env output_stream string
  | WoExit string push_env "string + int option"
  | WoSweep instant "string \<Rightarrow> bool" kill_env

fun ws_step :: "shell_config \<Rightarrow> ws_op \<Rightarrow> ws_server \<Rightarrow> ws_server" where
  "ws_step cfg (WoConnect env c) s = ws_connect env c s"
| "ws_step cfg (WoText env c parsed) s = ws_text cfg env c parsed s"
| "ws_step cfg (WoEvent c v) s = on_ws_conn c (ws_queue v) s"
| "ws_step cfg (WoDeliver c sid) s = ws_deliver c sid s"
| "ws_step cfg (WoSenderGone c) s = on_ws_conn c (\<lambda>x. x\<lparr>wx_open := False\<rparr>) s"
| "ws_step cfg (WoClose env c) s = ws_close env c s"
| "ws_step cfg (WoOutput sid env st d) s = s\<lparr>wv_manager := on_session sid (reader_step env st d) (wv_manager s)\<rparr>"
| "ws_step cfg (WoExit sid env w) s =
     s\<lparr>wv_manager := on_session sid (\<lambda>x. fst (exit_watcher sid env w x)) (wv_manager s)\<rparr>"
| "ws_step cfg (WoSweep now cont k) s = s\<lparr>wv_manager := fst (snd (sweep now cont k (wv_manager s)))\<rparr>"

text \<open>
  A connection number is used once, there are fewer than \<open>2 ^ 32\<close> connections at a time, and the UUID
  drawn for a new session is not that of a session a client still has on its list.
\<close>

fun ws_admissible :: "ws_op \<Rightarrow> ws_server \<Rightarrow> bool" where
  "ws_admissible (WoConnect env c) s = (hm_get (wv_conns s) c = None \<and> length (wv_conns s) < 2 ^ 32 - 1)"
| "ws_admissible (WoText env c parsed) s =
     list_all (\<lambda>(_, x). ce_uuid (fw_create env) \<notin> set (wx_sessions x)) (wv_conns s)"
| "ws_admissible _ s = True"

lemma card_lists: "card (dom (lists s)) \<le> length (wv_conns s)"
proof -
  have "dom (lists s) = set (map fst (wv_conns s))" by (auto simp: lists_def hm_get_def dom_def map_of_eq_Some_iff
      dest: map_of_SomeD intro: weak_map_of_SomeI) (metis map_of_eq_None_iff not_None_eq fst_conv image_eqI)
  then show ?thesis using card_length [of "map fst (wv_conns s)"] by simp
qed

lemma fresh_users:
  assumes "list_all (\<lambda>(_, x). sid \<notin> set (wx_sessions x)) (wv_conns s)"
  shows "users (lists s) sid = {}"
  using assms by (auto simp: users_def lists_def list_all_iff dest!: hm_get_Some_set)

lemma queue_sessions: "wx_sessions (ws_queue v x) = wx_sessions x"
  by (simp add: ws_queue_def)

lemma fold_queue_sessions: "wx_sessions (fold ws_queue vs x) = wx_sessions x"
  by (induction vs arbitrary: x) (simp_all add: queue_sessions)

lemma ws_inv_step: "ws_inv s \<Longrightarrow> ws_admissible op s \<Longrightarrow> ws_inv (ws_step cfg op s)"
proof (cases op)
  case (WoConnect env c)
  assume "ws_inv s" "ws_admissible op s"
  then show ?thesis using WoConnect card_lists [of s] by (auto intro: ws_inv_connect)
next
  case (WoDeliver c sid)
  assume "ws_inv s"
  then show ?thesis
    by (simp add: WoDeliver ws_deliver_def lists_same fold_queue_sessions Let_def case_prod_beta split: option.split)
qed (auto simp: ws_text_def ws_inv_message ws_inv_close fresh_users lists_same queue_sessions watch_inv_keep watch_inv_sweep
    split: option.split)

interpretation wsm: invariant_machine "ws_step cfg" ws_admissible ws_inv for cfg
  by unfold_locales (rule ws_inv_step)

text \<open>
  C11. A session that a connected client uses is never swept for idleness. Take any run of the server
  with its local clients from a state without connections: clients connect, start, attach, kill and
  rename sessions in any interleaving and leave, while sessions write and exit. A sweep then keeps
  every session that some connected client has started or attached and whose process has not been
  seen to exit, whatever its idle time-out and however long it was quiet.
\<close>

theorem ws_watched_survives_sweep:
  assumes "hm_wf (mgr_sessions (wv_manager s0))" and "wv_conns s0 = []"
    and "wsm.admissible_run cfg ops s0" and "s = fold (ws_step cfg) ops s0"
    and "hm_get (wv_conns s) c = Some x" and "sid \<in> set (wx_sessions x)"
    and "hm_get (mgr_sessions (wv_manager s)) sid = Some e" and "\<not> observed_exited contended (sid, e)"
  shows "hm_get (mgr_sessions (fst (snd (sweep now contended k (wv_manager s))))) sid = Some (ai_clear now e)"
proof -
  have "ws_inv s0" using assms(1,2) by (simp add: watch_inv_def lists_def users_def dom_def)
  then have inv: "ws_inv s" using wsm.run_invar [of s0 cfg ops] assms(3,4) by (simp add: wsm.run_fold)
  have "c \<in> users (lists s) sid" using assms(5,6) by (simp add: users_def lists_def)
  then have "0 < card (users (lists s) sid)" using watch_invD(6) [OF inv] by (auto simp: card_gt_0_iff)
  also have "\<dots> \<le> unat (attached (wv_manager s) sid)" using watch_invD(5) [OF inv] assms(7) by (simp add: live_def)
  finally have "se_attached_count e \<noteq> 0" using assms(7) by (auto simp: attached_def)
  then show ?thesis using assms(7,8) by (simp add: sweep_get [OF watch_invD(1) [OF inv]] idle_expired_def)
qed

definition sample_server :: ws_server where
  "sample_server = \<lparr>wv_manager = sample_manager, wv_conns = [], wv_log = new_log 10, wv_events = [], wv_calls = []\<rparr>"

definition sample_visit :: "ws_op list" where
  "sample_visit = [WoConnect sample_forward 1, WoText sample_forward 1 (Some (session_message ''session.attach'' ''a'' ''r1''))]"

lemmas ws_eval = ws_connect_def ws_log_def ws_text_def ws_message_def handle_session_attach_def attach_def field_eval
  ws_unsubscribe_def ws_subscribe_def ws_send_def ws_queue_def on_ws_conn_def case_prod_beta Let_def hm_get_modify hm_get_Cons
  hm_insert_def

text \<open>Session \<open>a\<close> has an idle time-out; it outlives it because the client that attached it is connected.\<close>

theorem ws_watched_survives_sweep_witness:
  "\<exists>e. hm_get (mgr_sessions (fst (snd (sweep (from_secs 1000) (\<lambda>_. False) sample_kill
      (wv_manager (fold (ws_step sample_shell) sample_visit sample_server)))))) ''a'' = Some e
    \<and> se_idle_timeout e = 30"
proof -
  let ?s = "fold (ws_step sample_shell) sample_visit sample_server"
  have ok: "hm_wf (mgr_sessions (wv_manager sample_server))" "wv_conns sample_server = []"
    "wsm.admissible_run sample_shell sample_visit sample_server"
    by (simp_all add: sample_server_def sample_manager_def hm_wf_def sample_visit_def sample_forward_def sample_create_def
        ws_connect_def ws_log_def Let_def hm_insert_def)
  obtain x where x: "hm_get (wv_conns ?s) 1 = Some x" "''a'' \<in> set (wx_sessions x)"
    by (simp add: sample_visit_def ws_eval sample_server_def sample_manager_def sample_entry_def)
  obtain e where e: "hm_get (mgr_sessions (wv_manager ?s)) ''a'' = Some e" "\<not> observed_exited (\<lambda>_. False) (''a'', e)"
    "se_idle_timeout e = 30"
    by (simp add: sample_visit_def ws_eval sample_server_def sample_manager_def sample_entry_def observed_exited_def)
  from ws_watched_survives_sweep [OF ok refl x e(1,2), of "from_secs 1000" sample_kill] e(3)
  show ?thesis by (simp add: ai_clear_def)
qed

subsection \<open>Where the count goes wrong\<close>

text \<open>
  The converse fails. A client that attaches a session it already uses (after \<open>session.start\<close>, or a
  second time) adds an attachment, but has the session on its list once: when it leaves, one
  attachment stays for ever, and the session is never swept for idleness again.
\<close>

lemma reattach_leaks:
  assumes "hm_get (mgr_sessions m) sid = Some e" and "se_persistent e" and "unat (se_attached_count e) + 2 < 2 ^ 32"
  shows "attached (fst (close_session env sid (snd (attach t1 sid (snd (attach t2 sid m))), calls))) sid = se_attached_count e + 1"
proof -
  have "unat (saturating_add (saturating_add (se_attached_count e) 1) 1) = unat (se_attached_count e) + 2"
    using assms(3) by (simp add: unat_saturating_add)
  then have "unat (saturating_sub (saturating_add (saturating_add (se_attached_count e) 1) 1) 1) = unat (se_attached_count e + 1)"
    using assms(3) by (simp add: unat_saturating_sub unat_Suc_word)
  then have "saturating_sub (saturating_add (saturating_add (se_attached_count e) 1) 1) 1 = se_attached_count e + 1"
    by (simp only: word_unat_eq_iff)
  then show ?thesis
    using assms(1,2)
    by (simp add: close_session_def attach_def is_persistent_def detach_def detach_entry_def attached_def hm_get_modify)
qed

text \<open>
  An attachment through the tunnel sets the count to one, whatever number of local clients there is:
  after it the departure of a single client makes the session look unused.
\<close>

lemma tunnel_attach_forgets_local_clients:
  assumes "hm_get (mgr_sessions m) sid = Some e"
  shows "attached (detach t2 sid (snd (attach_shared t1 sid m))) sid = 0"
  using assms
  by (simp add: attach_shared_def detach_def detach_entry_def attached_def hm_get_modify saturating_sub_def)

text \<open>
  A client that attaches a session of somebody else and leaves ends it, when it was not started as
  persistent.
\<close>

lemma visitor_kills_session:
  assumes "hm_get (mgr_sessions m) sid = Some e" and "\<not> se_persistent e"
  shows "\<not> live (fst (close_session env sid (m, calls))) sid"
  using assms by (simp add: close_session_def is_persistent_def kill_session_def live_def hm_laws)

subsection \<open>The tunnel and the socket agree\<close>

text \<open>
  C31. The tunnel and the local socket are two ways to the same operations: a session message has the
  same effect on the pool whichever way it comes, with two exceptions. \<open>session.attach\<close> counts
  attachments per connection on the socket and once on the tunnel, \<open>session.detach\<close> exists on the
  tunnel only, and for \<open>session.exec\<close> the socket checks that session and command are given.
\<close>

theorem tunnel_socket_same_pool:
  assumes "str_field msg ''type'' \<notin> Some ` {''session.attach'', ''session.detach''}"
    and "str_field msg ''type'' = Some ''session.exec'' \<Longrightarrow>
      session_id_of msg \<noteq> [] \<and> str_field msg ''command'' \<notin> {None, Some []}"
    and "dv_manager d = wv_manager s"
  shows "dv_manager (handle_forwarded_session_message cfg env msg d) = wv_manager (ws_message cfg env c msg s)"
proof -
  have start: "dv_manager (fwd_start cfg env msg d) = wv_manager (handle_session_start cfg env c msg s)"
    using assms(3) by (simp add: fwd_start_def handle_session_start_def session_started_def start_subscriber_def Let_def
        split: prod.split sum.split option.split)
  have job: "dv_manager (fwd_job_start cfg env msg d) = wv_manager (handle_job_start cfg env c msg s)"
    using assms(3) by (simp add: fwd_job_start_def handle_job_start_def start_subscriber_def Let_def
        split: prod.split sum.split option.split)
  have exec: "dv_manager (fwd_exec env msg d) = wv_manager (handle_session_exec env c msg s)"
    if "str_field msg ''type'' = Some ''session.exec''"
    using assms(2) [OF that] assms(3)
    by (auto simp: fwd_exec_def handle_session_exec_def Let_def unwrap_or_def split: prod.split sum.split option.split)
  have stdin: "dv_manager (fwd_stdin env msg d) = wv_manager (handle_session_stdin env c msg s)"
    using assms(3) by (simp add: fwd_stdin_def handle_session_stdin_def Let_def split: prod.split sum.split)
  have kill: "dv_manager (fwd_kill env msg d) = wv_manager (handle_session_kill env c msg s)"
    using assms(3) by (simp add: fwd_kill_def handle_session_kill_def Let_def split: prod.split bool.split)
  have signal: "dv_manager (fwd_signal env msg d) = wv_manager (handle_session_signal env c msg s)"
    using assms(3) by (simp add: fwd_signal_def handle_session_signal_def Let_def split: prod.split sum.split)
  have resize: "dv_manager (fwd_resize env msg d) = wv_manager (handle_session_resize env c msg s)"
    using assms(3) by (simp add: fwd_resize_def handle_session_resize_def Let_def split: sum.split)
  have allow: "dv_manager (fwd_allow_ai msg d) = wv_manager (ws_allow_ai c msg s)"
    using assms(3) by (simp add: fwd_allow_ai_def ws_allow_ai_def Let_def split: prod.split sum.split option.split)
  have status: "dv_manager (fwd_ai_status env msg d) = wv_manager (ws_ai_status env c msg s)"
    using assms(3) by (simp add: fwd_ai_status_def ws_ai_status_def Let_def split: prod.split sum.split option.split)
  have rename: "dv_manager (fwd_rename msg d) = wv_manager (ws_rename c msg s)"
    using assms(3) by (simp add: fwd_rename_def ws_rename_def Let_def split: prod.split sum.split)
  show ?thesis
    using assms(1,3) start job exec stdin kill signal resize allow status rename
    by (auto simp: handle_forwarded_session_message_def ws_message_def fwd_list_def fwd_shell_list_def Let_def unwrap_or_def
        split: option.splits)
qed

theorem tunnel_socket_same_pool_witness:
  "dv_manager (handle_forwarded_session_message sample_shell sample_forward
       (session_message ''session.kill'' ''a'' ''r1'') sample_device)
     = wv_manager (ws_message sample_shell sample_forward 1 (session_message ''session.kill'' ''a'' ''r1'') sample_server)
   \<and> \<not> live (dv_manager (handle_forwarded_session_message sample_shell sample_forward
       (session_message ''session.kill'' ''a'' ''r1'') sample_device)) ''a''"
proof
  show "dv_manager (handle_forwarded_session_message sample_shell sample_forward
       (session_message ''session.kill'' ''a'' ''r1'') sample_device)
     = wv_manager (ws_message sample_shell sample_forward 1 (session_message ''session.kill'' ''a'' ''r1'') sample_server)"
    by (rule tunnel_socket_same_pool) (simp_all add: field_eval sample_device_def sample_server_def)
  show "\<not> live (dv_manager (handle_forwarded_session_message sample_shell sample_forward
       (session_message ''session.kill'' ''a'' ''r1'') sample_device)) ''a''"
    by (simp add: handle_forwarded_session_message_def fwd_kill_def kill_session_def field_eval Let_def sample_device_def
        sample_manager_def hm_get_Cons live_def hm_laws)
qed

end
