(* ===== verification/Lte.thy ===== *)
theory Lte
  imports Hash_Map
begin

text \<open>
  LTE data (\<open>server/src/lte.rs\<close>): signal bars, bands and their masks, the per-band history, the
  parsers of AT responses, SIM-dependent APN selection and the mode of AT polling. The modem is the
  argument \<open>command\<close>, which takes an AT command and the modem's state and gives its response or an
  error. A floating-point number is kept as its text.
\<close>

type_synonym u128 = "128 word"
type_synonym f64 = string

subsection \<open>Data\<close>

record modem_info =
  mi_model :: "string option"
  mi_firmware :: "string option"
  mi_imei :: "string option"
  mi_iccid :: "string option"
  mi_imsi :: "string option"

record neighbor_cell =
  nc_earfcn :: u32
  nc_pci :: u16
  nc_rsrp :: "int option"
  nc_rsrq :: "int option"
  nc_rssi :: "int option"
  nc_sinr :: "f64 option"
  nc_cell_type :: string

record band_observation =
  bo_rsrp :: int
  bo_rsrq :: "int option"
  bo_sinr :: "f64 option"
  bo_pci :: u16
  bo_recorded_at :: u64
  bo_serving :: bool

record band_history_entry =
  bh_band :: u16
  bh_best_rsrp :: int
  bh_latest_rsrp :: int
  bh_observation_count :: u64
  bh_last_seen :: u64
  bh_recent :: "band_observation list"

definition MAX_BAND_OBSERVATIONS :: nat where "MAX_BAND_OBSERVATIONS = 20"

subsection \<open>Text\<close>

definition trim_char :: "char \<Rightarrow> string \<Rightarrow> string" where
  "trim_char c s = rev (dropWhile (\<lambda>x. x = c) (rev (dropWhile (\<lambda>x. x = c) s)))"

abbreviation QUOTE :: char where "QUOTE \<equiv> CHR 0x22"

text \<open>\<open>trim_start_matches\<close> of a text removes it as often as it is there.\<close>

function strip_all :: "string \<Rightarrow> string \<Rightarrow> string" where
  "strip_all p s = (case strip_prefix p s of
      None \<Rightarrow> s | Some r \<Rightarrow> if length r < length s then strip_all p r else s)"
  by auto
termination by (relation "measure (length \<circ> snd)") auto

declare strip_all.simps [simp del]

definition hex_digit :: "int \<Rightarrow> char" where
  "hex_digit d = ''0123456789ABCDEF'' ! nat d"

definition hex_val :: "char \<Rightarrow> int option" where
  "hex_val c =
     (let n = of_char c :: int in
      if 48 \<le> n \<and> n \<le> 57 then Some (n - 48)
      else if 65 \<le> n \<and> n \<le> 70 then Some (n - 55)
      else if 97 \<le> n \<and> n \<le> 102 then Some (n - 87) else None)"

function show_hex :: "int \<Rightarrow> string" where
  "show_hex n = (if n < 16 then [hex_digit n] else show_hex (n div 16) @ [hex_digit (n mod 16)])"
  by auto
termination by (relation "measure nat") (auto simp: nat_less_eq_zless)

declare show_hex.simps [simp del]

fun parse_hex_digits :: "int \<Rightarrow> string \<Rightarrow> int option" where
  "parse_hex_digits acc [] = Some acc"
| "parse_hex_digits acc (c # s) =
     (case hex_val c of None \<Rightarrow> None | Some d \<Rightarrow> parse_hex_digits (acc * 16 + d) s)"

text \<open>\<open>from_str_radix(s, 16)\<close> for an unsigned type of \<open>w\<close> bits.\<close>

definition parse_hex :: "nat \<Rightarrow> string \<Rightarrow> int option" where
  "parse_hex w s =
     (let t = (case s of [] \<Rightarrow> [] | c # r \<Rightarrow> if c = CHR ''+'' then r else s)
      in if t = [] then None
         else case parse_hex_digits 0 t of
             None \<Rightarrow> None
           | Some n \<Rightarrow> if n < 2 ^ w then Some n else None)"

text \<open>\<open>str::parse::<f64>\<close> accepts a sign, digits around an optional point, an exponent, and names.\<close>

definition all_digits :: "string \<Rightarrow> bool" where
  "all_digits s = list_all (\<lambda>c. digit_val c \<noteq> None) s"

definition to_lower :: "string \<Rightarrow> string" where
  "to_lower s = map (\<lambda>c. let n = of_char c :: nat in if 65 \<le> n \<and> n \<le> 90 then char_of (n + 32) else c) s"

definition to_upper :: "string \<Rightarrow> string" where
  "to_upper s = map (\<lambda>c. let n = of_char c :: nat in if 97 \<le> n \<and> n \<le> 122 then char_of (n - 32) else c) s"

definition strip_sign :: "string \<Rightarrow> string" where
  "strip_sign s = (case s of c # r \<Rightarrow> if c = CHR ''+'' \<or> c = CHR ''-'' then r else s | [] \<Rightarrow> [])"

definition is_decimal :: "string \<Rightarrow> bool" where
  "is_decimal s =
     (let mant = takeWhile (\<lambda>c. c \<noteq> CHR ''e'' \<and> c \<noteq> CHR ''E'') s; expo = drop (length mant) s;
          ps = split_char (CHR ''.'') mant
      in length ps \<le> 2 \<and> list_all all_digits ps \<and> concat ps \<noteq> []
         \<and> (expo = [] \<or> (let e = strip_sign (tl expo) in e \<noteq> [] \<and> all_digits e)))"

definition parse_f64 :: "string \<Rightarrow> f64 option" where
  "parse_f64 s =
     (let t = strip_sign s in
      if to_lower t \<in> set [''inf'', ''infinity'', ''nan''] \<or> is_decimal t then Some s else None)"

subsection \<open>Signal bars and bands\<close>

definition compute_signal_bars :: "int option \<Rightarrow> int \<Rightarrow> nat" where
  "compute_signal_bars rsrp rssi_dbm =
     (case rsrp of
        Some r \<Rightarrow> if r \<ge> -80 then 5 else if r \<ge> -90 then 4 else if r \<ge> -100 then 3 else if r \<ge> -110 then 2 else 1
      | None \<Rightarrow> if rssi_dbm \<ge> -65 then 5 else if rssi_dbm \<ge> -75 then 4 else if rssi_dbm \<ge> -85 then 3
               else if rssi_dbm \<ge> -95 then 2 else 1)"

definition EARFCN_TABLE :: "(u16 \<times> u32 \<times> u32) list" where
  "EARFCN_TABLE =
     [(1, 0, 599), (2, 600, 1199), (3, 1200, 1949), (4, 1950, 2399), (5, 2400, 2649), (7, 2750, 3449),
      (8, 3450, 3799), (12, 5010, 5179), (13, 5180, 5279), (14, 5280, 5379), (17, 5730, 5849),
      (20, 6150, 6449), (25, 8040, 8689), (26, 8690, 9039), (28, 9210, 9659), (29, 9660, 9769),
      (30, 9770, 9869), (66, 66436, 67335), (71, 68586, 68935)]"

definition earfcn_to_band :: "u32 \<Rightarrow> u16 option" where
  "earfcn_to_band earfcn =
     map_option fst (find (\<lambda>(band, lo, hi). earfcn \<ge> lo \<and> earfcn \<le> hi) EARFCN_TABLE)"

definition band_mask :: "u16 list \<Rightarrow> u128" where
  "band_mask bands =
     fold (\<lambda>b mask. if 1 \<le> b \<and> b \<le> 128 then or mask (push_bit (unat (b - 1)) 1) else mask) bands 0"

definition bands_to_hex :: "u16 list \<Rightarrow> string" where
  "bands_to_hex bands = show_hex (uint (band_mask bands))"

text \<open>The field \<open>i\<close> behind the first colon of the first line that satisfies a test.\<close>

definition line_data :: "(string \<Rightarrow> bool) \<Rightarrow> string \<Rightarrow> string option" where
  "line_data P response = Option.bind (find P (lines response)) (\<lambda>l. nth_opt (split_char (CHR '':'') l) 1)"

definition parse_band_config :: "string \<Rightarrow> u16 list" where
  "parse_band_config response =
     (case line_data (\<lambda>l. contains_str ''+QCFG:'' l \<and> contains_str ''band'' l) response of
        None \<Rightarrow> []
      | Some data \<Rightarrow>
         (case nth_opt (map trim (split_char (CHR '','') data)) 2 of
            None \<Rightarrow> []
          | Some lte_hex \<Rightarrow>
             (case parse_hex 128 (strip_all ''0X'' (strip_all ''0x'' (trim_char QUOTE lte_hex))) of
                None \<Rightarrow> []
              | Some val \<Rightarrow>
                  map (\<lambda>i. of_nat (i + 1)) (filter (\<lambda>i. bit (word_of_int val :: u128) i) [0..<128]))))"

definition parse_bandpri :: "string \<Rightarrow> u16 option" where
  "parse_bandpri response =
     Option.bind (line_data (\<lambda>l. contains_str ''+QCFG:'' l \<and> contains_str ''bandpri'' l) response)
       (\<lambda>data. Option.bind (nth_opt (map trim (split_char (CHR '','') (trim data))) 1)
         (\<lambda>p. map_option of_nat (parse_uint 16 (trim_char QUOTE p))))"

subsection \<open>Writing bands\<close>

type_synonym 'm modem = "string \<Rightarrow> 'm \<Rightarrow> (string + string) \<times> 'm"

record verified_set_result =
  vs_bands :: "u16 list"
  vs_did_deregister :: bool

definition band_write_cmd :: "string \<Rightarrow> string" where
  "band_write_cmd hex = ''AT+QCFG='' @ [QUOTE] @ ''band'' @ [QUOTE] @ '',260,'' @ hex @ '',0''"

definition band_read_cmd :: string where
  "band_read_cmd = ''AT+QCFG='' @ [QUOTE] @ ''band'' @ [QUOTE]"

definition verified_set_bands ::
  "'m modem \<Rightarrow> u16 list \<Rightarrow> 'm \<Rightarrow> (string + verified_set_result) \<times> 'm" where
  "verified_set_bands command bands m0 =
     (let hex = bands_to_hex bands; cmd = band_write_cmd hex in
      case command cmd m0 of
        (Inl e, m1) \<Rightarrow> (Inl (''AT+QCFG band write failed: '' @ e), m1)
      | (Inr _, m1) \<Rightarrow>
     (case command band_read_cmd m1 of
        (Inl e, m2) \<Rightarrow> (Inl (''AT+QCFG band read-back failed: '' @ e), m2)
      | (Inr resp, m2) \<Rightarrow>
         (let actual = parse_band_config resp in
          if bands_to_hex actual = hex then (Inr \<lparr>vs_bands = actual, vs_did_deregister = False\<rparr>, m2)
          else
         (case command cmd (snd (command ''AT+COPS=2'' m2)) of
            (Inl e, m3) \<Rightarrow> (Inl (''AT+QCFG band retry write failed: '' @ e), m3)
          | (Inr _, m3) \<Rightarrow>
         (case command band_read_cmd m3 of
            (Inl e, m4) \<Rightarrow> (Inl (''AT+QCFG band retry read-back failed: '' @ e), m4)
          | (Inr resp2, m4) \<Rightarrow>
             (let retry_bands = parse_band_config resp2; retry_hex = bands_to_hex retry_bands in
              if retry_hex \<noteq> hex
              then (Inl (''modem rejected band change after deregister: wrote '' @ hex @ '', read back '' @ retry_hex),
                    snd (command ''AT+COPS=0'' m4))
              else (Inr \<lparr>vs_bands = retry_bands, vs_did_deregister = True\<rparr>, m4)))))))"

subsection \<open>Band history\<close>

text \<open>What the history reads of a signal reading.\<close>

record signal_reading =
  sr_freq_band :: "u16 option"
  sr_rsrp :: "int option"
  sr_rsrq :: "int option"
  sr_sinr :: "f64 option"
  sr_pci :: "u16 option"
  sr_neighbors :: "neighbor_cell list"
  sr_recorded_at :: u64

definition observe :: "u16 \<Rightarrow> band_observation \<Rightarrow> (u16, band_history_entry) hmap \<Rightarrow> (u16, band_history_entry) hmap" where
  "observe band obs history =
     (let e = (case hm_get history band of
                 Some e \<Rightarrow> e
               | None \<Rightarrow> \<lparr>bh_band = band, bh_best_rsrp = bo_rsrp obs, bh_latest_rsrp = bo_rsrp obs,
                          bh_observation_count = 0, bh_last_seen = bo_recorded_at obs, bh_recent = []\<rparr>)
      in hm_insert band
           (e\<lparr>bh_latest_rsrp := bo_rsrp obs,
              bh_best_rsrp := (if bo_rsrp obs > bh_best_rsrp e then bo_rsrp obs else bh_best_rsrp e),
              bh_observation_count := bh_observation_count e + 1,
              bh_last_seen := bo_recorded_at obs,
              bh_recent := (if length (bh_recent e) \<ge> MAX_BAND_OBSERVATIONS then tl (bh_recent e) else bh_recent e) @ [obs]\<rparr>)
           history)"

definition neighbor_observation :: "u64 \<Rightarrow> neighbor_cell \<Rightarrow> (u16 \<times> band_observation) option" where
  "neighbor_observation now n =
     (case (earfcn_to_band (nc_earfcn n), nc_rsrp n) of
        (Some band, Some rsrp) \<Rightarrow>
          Some (band, \<lparr>bo_rsrp = rsrp, bo_rsrq = nc_rsrq n, bo_sinr = nc_sinr n, bo_pci = nc_pci n,
                       bo_recorded_at = now, bo_serving = False\<rparr>)
      | _ \<Rightarrow> None)"

definition serving_observation :: "signal_reading \<Rightarrow> (u16 \<times> band_observation) option" where
  "serving_observation s =
     (case (sr_freq_band s, sr_rsrp s, sr_pci s) of
        (Some band, Some rsrp, Some pci) \<Rightarrow>
          Some (band, \<lparr>bo_rsrp = rsrp, bo_rsrq = sr_rsrq s, bo_sinr = sr_sinr s, bo_pci = pci,
                       bo_recorded_at = sr_recorded_at s, bo_serving = True\<rparr>)
      | _ \<Rightarrow> None)"

definition update_band_history ::
  "signal_reading \<Rightarrow> (u16, band_history_entry) hmap \<Rightarrow> (u16, band_history_entry) hmap" where
  "update_band_history s history =
     fold (\<lambda>(band, obs). observe band obs)
       ((case serving_observation s of None \<Rightarrow> [] | Some bo \<Rightarrow> [bo])
        @ List.map_filter (neighbor_observation (sr_recorded_at s)) (sr_neighbors s)) history"

subsection \<open>APN\<close>

definition APN_DATABASE :: "(string \<times> string) list" where
  "APN_DATABASE =
     [(''29505'', ''em''), (''90143'', ''em''), (''20404'', ''em''), (''23450'', ''hologram''),
      (''29510'', ''iot.1nce.net''), (''44010'', ''soracom.io''), (''302720'', ''ltemobile.apn''),
      (''302370'', ''sp.fido.ca''), (''302610'', ''pda.bell.ca''), (''302220'', ''sp.telus.com''),
      (''310260'', ''fast.t-mobile.com''), (''310410'', ''broadband''), (''311480'', ''vzwinternet'')]"

definition lookup_apn_by_imsi :: "string \<Rightarrow> string option" where
  "lookup_apn_by_imsi imsi =
     map_option fst
       (fold (\<lambda>(prefix, apn) best.
          if starts_with prefix imsi
          then (case best of None \<Rightarrow> Some (apn, length prefix)
                | Some (a, n) \<Rightarrow> if length prefix > n then Some (apn, length prefix) else best)
          else best) APN_DATABASE None)"

text \<open>\<open>splitn(4, ',')\<close>: the fourth piece keeps the rest.\<close>

fun splitn_char :: "nat \<Rightarrow> char \<Rightarrow> string \<Rightarrow> string list" where
  "splitn_char 0 d s = []"
| "splitn_char (Suc 0) d s = [s]"
| "splitn_char (Suc (Suc n)) d s =
     (case dropWhile (\<lambda>c. c \<noteq> d) s of
        [] \<Rightarrow> [s]
      | _ # r \<Rightarrow> takeWhile (\<lambda>c. c \<noteq> d) s # splitn_char (Suc n) d r)"

fun cgdcont_lines :: "string list \<Rightarrow> string option" where
  "cgdcont_lines [] = None"
| "cgdcont_lines (l0 # ls) =
     (let l = trim l0 in
      if \<not> starts_with ''+CGDCONT:'' l then cgdcont_lines ls
      else case nth_opt (split_char (CHR '':'') l) 1 of
             None \<Rightarrow> None
           | Some after \<Rightarrow>
              (let parts = splitn_char 4 (CHR '','') (trim after) in
               if length parts < 3 then cgdcont_lines ls
               else case parse_uint 8 (trim (parts ! 0)) of
                      None \<Rightarrow> None
                    | Some cid \<Rightarrow>
                        if cid \<noteq> 1 then cgdcont_lines ls
                        else (let apn = trim_char QUOTE (trim (parts ! 2)) in if apn = [] then None else Some apn)))"

definition parse_cgdcont :: "string \<Rightarrow> string option" where
  "parse_cgdcont response = cgdcont_lines (lines response)"

definition resolve_apn ::
  "'m modem \<Rightarrow> string option \<Rightarrow> string option \<Rightarrow> 'm \<Rightarrow> (string \<times> string) option \<times> 'm" where
  "resolve_apn command config_apn imsi m0 =
     (case config_apn of
        Some apn \<Rightarrow> (Some (apn, ''config''), m0)
      | None \<Rightarrow>
         (case command ''AT+CGDCONT?'' m0 of (r, m1) \<Rightarrow>
            (case (case r of Inr resp \<Rightarrow> parse_cgdcont resp | Inl _ \<Rightarrow> None) of
               Some apn \<Rightarrow> (Some (apn, ''modem PDP context''), m1)
             | None \<Rightarrow> (map_option (\<lambda>apn. (apn, ''IMSI database'')) (Option.bind imsi lookup_apn_by_imsi), m1))))"

subsection \<open>AT responses\<close>

text \<open>\<open>-113 + 2 * rssi_raw\<close> in \<open>i32\<close>.\<close>

definition wrap_i32 :: "int \<Rightarrow> int" where
  "wrap_i32 i = sint (word_of_int i :: u32)"

definition parse_csq :: "string \<Rightarrow> string + int" where
  "parse_csq response =
     (case find (contains_str ''+CSQ:'') (lines response) of
        None \<Rightarrow> Inl (''no +CSQ in response: '' @ trim response)
      | Some line \<Rightarrow>
         (case nth_opt (split_char (CHR '':'') line) 1 of
            None \<Rightarrow> Inl ''malformed +CSQ line''
          | Some data \<Rightarrow>
             (case parse_i32 (trim (hd (split_char (CHR '','') (trim data)))) of
                None \<Rightarrow> Inl ''bad RSSI''
              | Some rssi_raw \<Rightarrow>
                  if rssi_raw = 99 then Inl ''RSSI not detectable (99)'' else Inr (wrap_i32 (-113 + 2 * rssi_raw)))))"

definition decode_bandwidth :: "string \<Rightarrow> string option" where
  "decode_bandwidth code =
     map_of [(''0'', ''1.4''), (''1'', ''3''), (''2'', ''5''), (''3'', ''10''), (''4'', ''15''), (''5'', ''20'')] code"

definition decompose_cell_id :: "string \<Rightarrow> (u32 \<times> u8) option" where
  "decompose_cell_id hex_str =
     map_option (\<lambda>v. let w = word_of_int v :: u32 in (drop_bit 8 w, ucast (and w 0xFF))) (parse_hex 32 hex_str)"

record qeng_data =
  qe_rsrp :: "int option"
  qe_rsrq :: "int option"
  qe_sinr :: "f64 option"
  qe_cell_id :: "string option"
  qe_state :: "string option"
  qe_duplex :: "string option"
  qe_plmn :: "string option"
  qe_pci :: "u16 option"
  qe_earfcn :: "u32 option"
  qe_freq_band :: "u16 option"
  qe_ul_bw :: "string option"
  qe_dl_bw :: "string option"
  qe_tac :: "string option"
  qe_enodeb_id :: "u32 option"
  qe_sector :: "u8 option"

definition qeng_empty :: qeng_data where
  "qeng_empty = \<lparr>qe_rsrp = None, qe_rsrq = None, qe_sinr = None, qe_cell_id = None, qe_state = None,
     qe_duplex = None, qe_plmn = None, qe_pci = None, qe_earfcn = None, qe_freq_band = None, qe_ul_bw = None,
     qe_dl_bw = None, qe_tac = None, qe_enodeb_id = None, qe_sector = None\<rparr>"

definition qeng_str :: "string list \<Rightarrow> nat \<Rightarrow> string option" where
  "qeng_str parts idx =
     Option.bind (nth_opt parts idx)
       (\<lambda>s. let t = trim_char QUOTE s in if t = [] \<or> t = ''-'' then None else Some t)"

definition qeng_word :: "nat \<Rightarrow> string list \<Rightarrow> nat \<Rightarrow> 'a::len word option" where
  "qeng_word w parts idx = Option.bind (nth_opt parts idx) (\<lambda>s. map_option of_nat (parse_uint w s))"

definition parse_qeng :: "string \<Rightarrow> qeng_data" where
  "parse_qeng response =
     (case line_data (\<lambda>l. contains_str ''+QENG:'' l \<and> contains_str ''LTE'' l) response of
        None \<Rightarrow> qeng_empty
      | Some d \<Rightarrow>
         (let parts = map trim (split_char (CHR '','') (trim d)) in
          if length parts < 17 then qeng_empty
          else
           (let cell_id = qeng_str parts 6; ids = Option.bind cell_id decompose_cell_id in
            \<lparr>qe_rsrp = Option.bind (nth_opt parts 13) parse_i32,
             qe_rsrq = Option.bind (nth_opt parts 14) parse_i32,
             qe_sinr = Option.bind (nth_opt parts 16) parse_f64,
             qe_cell_id = cell_id,
             qe_state = qeng_str parts 1,
             qe_duplex = qeng_str parts 3,
             qe_plmn = (case (qeng_str parts 4, qeng_str parts 5) of (Some m, Some n) \<Rightarrow> Some (m @ n) | _ \<Rightarrow> None),
             qe_pci = qeng_word 16 parts 7,
             qe_earfcn = qeng_word 32 parts 8,
             qe_freq_band = qeng_word 16 parts 9,
             qe_ul_bw = Option.bind (nth_opt parts 10) decode_bandwidth,
             qe_dl_bw = Option.bind (nth_opt parts 11) decode_bandwidth,
             qe_tac = qeng_str parts 12,
             qe_enodeb_id = map_option fst ids,
             qe_sector = map_option snd ids\<rparr>)))"

definition neighbour_line :: "string \<Rightarrow> neighbor_cell option" where
  "neighbour_line line =
     (if \<not> contains_str ''+QENG:'' line \<or> \<not> contains_str ''neighbourcell'' line then None
      else Option.bind (nth_opt (split_char (CHR '':'') line) 1) (\<lambda>d.
       let data = trim d;
           parts = map (\<lambda>s. trim_char QUOTE (trim s)) (split_char (CHR '','') data);
           cell_type = (if contains_str ''neighbourcell intra'' data then Some ''intra''
                        else if contains_str ''neighbourcell inter'' data then Some ''inter'' else None)
       in case (cell_type, qeng_word 32 parts 2, qeng_word 16 parts 3) of
            (Some ty, Some earfcn, Some pci) \<Rightarrow>
              if length parts < 6 then None
              else Some \<lparr>nc_earfcn = earfcn, nc_pci = pci,
                         nc_rsrp = Option.bind (nth_opt parts 5) parse_i32,
                         nc_rsrq = Option.bind (nth_opt parts 4) parse_i32,
                         nc_rssi = Option.bind (nth_opt parts 6) parse_i32,
                         nc_sinr = Option.bind (nth_opt parts 7) parse_f64, nc_cell_type = ty\<rparr>
          | _ \<Rightarrow> None))"

definition parse_neighbour :: "string \<Rightarrow> neighbor_cell list" where
  "parse_neighbour response = List.map_filter neighbour_line (lines response)"

definition parse_qnwinfo :: "string \<Rightarrow> string option \<times> string option" where
  "parse_qnwinfo response =
     (case line_data (contains_str ''+QNWINFO:'') response of
        None \<Rightarrow> (None, None)
      | Some d \<Rightarrow>
         (let parts = map (\<lambda>s. trim_char QUOTE (trim s)) (split_char (CHR '','') (trim d)) in
          (map_option (\<lambda>s. if contains_str ''LTE'' s then ''LTE'' else s) (nth_opt parts 0),
           map_option (\<lambda>s. case strip_prefix ''LTE BAND '' s of
                Some rest \<Rightarrow> ''B'' @ rest
              | None \<Rightarrow> (case strip_prefix ''WCDMA BAND '' s of Some rest \<Rightarrow> ''B'' @ rest | None \<Rightarrow> s)) (nth_opt parts 2))))"

definition titlecase :: "string \<Rightarrow> string" where
  "titlecase s = (case s of [] \<Rightarrow> [] | c # r \<Rightarrow> to_upper [c] @ to_lower r)"

fun words_of :: "string \<Rightarrow> string \<Rightarrow> string list" where
  "words_of w [] = (if w = [] then [] else [w])"
| "words_of w (c # s) =
     (if is_ws c then (if w = [] then words_of [] s else w # words_of [] s) else words_of (w @ [c]) s)"

definition parse_cops :: "string \<Rightarrow> string option" where
  "parse_cops response =
     Option.bind (line_data (contains_str ''+COPS:'') response) (\<lambda>d.
       case dropWhile (\<lambda>c. c \<noteq> QUOTE) (trim d) of
         [] \<Rightarrow> None
       | _ # rest \<Rightarrow>
           if QUOTE \<notin> set rest then None
           else (let name = trim (takeWhile (\<lambda>c. c \<noteq> QUOTE) rest); ws = words_of [] name in
                 if name = [] then None
                 else if length ws \<ge> 2 \<and> to_lower (ws ! 0) = to_lower (ws ! 1) then Some (titlecase (ws ! 0))
                 else Some (titlecase name)))"

definition operator_name_from_plmn :: "string \<Rightarrow> string" where
  "operator_name_from_plmn plmn =
     (case map_of [(''302720'', ''Rogers''), (''302370'', ''Fido''), (''302220'', ''Telus''), (''302221'', ''Telus''),
                   (''302610'', ''Bell''), (''302490'', ''Freedom''), (''302500'', ''Videotron''),
                   (''302780'', ''SaskTel'')] plmn of
        Some name \<Rightarrow> name | None \<Rightarrow> plmn)"

definition parse_simple_line :: "string \<Rightarrow> string option" where
  "parse_simple_line response =
     find (\<lambda>l. l \<noteq> [] \<and> \<not> starts_with ''AT'' l \<and> l \<noteq> ''OK'' \<and> \<not> contains_str ''ERROR'' l)
       (map trim (lines response))"

definition parse_qccid :: "string \<Rightarrow> string option" where
  "parse_qccid response =
     Option.bind (line_data (contains_str ''+QCCID:'') response)
       (\<lambda>d. let iccid = trim d in if iccid = [] then None else Some iccid)"

definition parse_cimi :: "string \<Rightarrow> string option" where
  "parse_cimi response =
     find (\<lambda>l. 6 \<le> length l \<and> length l \<le> 15 \<and> all_digits l) (map trim (lines response))"

text \<open>One command of \<open>read_modem_info\<close> and the value parsed from its response.\<close>

definition ask :: "'m modem \<Rightarrow> string \<Rightarrow> (string \<Rightarrow> string option) \<Rightarrow> 'm \<Rightarrow> string option \<times> 'm" where
  "ask command cmd parse m =
     (case command cmd m of (Inr resp, m') \<Rightarrow> (parse resp, m') | (Inl _, m') \<Rightarrow> (None, m'))"

definition read_modem_info :: "'m modem \<Rightarrow> 'm \<Rightarrow> modem_info \<times> 'm" where
  "read_modem_info command m0 =
     (case ask command ''AT+CGMM'' parse_simple_line m0 of (model, m1) \<Rightarrow>
      case ask command ''AT+CGMR'' parse_simple_line m1 of (firmware, m2) \<Rightarrow>
      case ask command ''AT+GSN'' parse_simple_line m2 of (imei, m3) \<Rightarrow>
      case ask command ''AT+QCCID'' parse_qccid m3 of (iccid, m4) \<Rightarrow>
      case ask command ''AT+CIMI'' parse_cimi m4 of (imsi, m5) \<Rightarrow>
        (\<lparr>mi_model = model, mi_firmware = firmware, mi_imei = imei, mi_iccid = iccid, mi_imsi = imsi\<rparr>, m5))"

subsection \<open>Polling mode\<close>

datatype at_poll_mode = Full | Gentle | Cautious | Suppressed

record at_polling_health =
  ah_mode :: at_poll_mode
  ah_consecutive_ok :: u32
  ah_cautious_disruptions :: u32

definition new_polling_health :: at_polling_health where
  "new_polling_health = \<lparr>ah_mode = Full, ah_consecutive_ok = 0, ah_cautious_disruptions = 0\<rparr>"

definition record_ok :: "at_polling_health \<Rightarrow> at_polling_health" where
  "record_ok h =
     (let h1 = h\<lparr>ah_consecutive_ok := ah_consecutive_ok h + 1\<rparr> in
      if ah_mode h1 = Cautious \<and> ah_consecutive_ok h1 \<ge> 5
      then h1\<lparr>ah_mode := Gentle, ah_consecutive_ok := 0, ah_cautious_disruptions := 0\<rparr>
      else h1)"

definition record_disruption :: "at_polling_health \<Rightarrow> at_polling_health" where
  "record_disruption h =
     (let h1 = h\<lparr>ah_consecutive_ok := 0\<rparr> in
      case ah_mode h1 of
        Gentle \<Rightarrow> h1\<lparr>ah_mode := Cautious\<rparr>
      | Cautious \<Rightarrow>
         (let h2 = h1\<lparr>ah_cautious_disruptions := ah_cautious_disruptions h1 + 1\<rparr> in
          if ah_cautious_disruptions h2 \<ge> 2 then h2\<lparr>ah_mode := Suppressed\<rparr> else h2)
      | _ \<Rightarrow> h1)"

definition effective_connection_state :: "string option \<Rightarrow> bool \<Rightarrow> string option" where
  "effective_connection_state raw data_active =
     (if data_active
      then (case raw of
              None \<Rightarrow> Some ''CONNECT''
            | Some r \<Rightarrow> if r \<in> set [''NOCONN'', ''LIMSRV'', ''SEARCH''] then Some ''CONNECT'' else raw)
      else raw)"

end
