(* ===== verification/Lte_Props.thy ===== *)
theory Lte_Props
  imports Lte
begin

text \<open>
  Properties of the LTE data: the band mask written to the modem reads back as the same bands, a
  band change that is reported as done is one the modem confirmed, and the band history is bounded
  and keeps the best signal it has seen.
\<close>

subsection \<open>Hexadecimal numbers\<close>

lemma hex_digits:
  "list_all (\<lambda>d. hex_val (hex_digit d) = Some d \<and> hex_digit d \<noteq> CHR ''+'' \<and> hex_digit d \<noteq> QUOTE
     \<and> hex_digit d \<noteq> CHR '','' \<and> hex_digit d \<noteq> CHR '':'' \<and> hex_digit d \<noteq> CHR 0x0A \<and> \<not> is_ws (hex_digit d)
     \<and> hex_digit d \<noteq> CHR ''x'' \<and> hex_digit d \<noteq> CHR ''X'') [0..15]"
  by code_simp

lemma hex_digit_facts:
  assumes "0 \<le> d" and "d < 16"
  shows "hex_val (hex_digit d) = Some d" and "hex_digit d \<notin> {CHR ''+'', QUOTE, CHR '','', CHR '':'', CHR 0x0A, CHR ''x'', CHR ''X''}"
    and "\<not> is_ws (hex_digit d)"
  using hex_digits assms by (simp_all add: list_all_iff)

lemma parse_hex_digits_append:
  "parse_hex_digits acc (s @ t) = Option.bind (parse_hex_digits acc s) (\<lambda>a. parse_hex_digits a t)"
  by (induction s arbitrary: acc) (auto split: option.splits)

lemma parse_show_hex: "0 \<le> n \<Longrightarrow> parse_hex_digits 0 (show_hex n) = Some n"
proof (induction n rule: show_hex.induct)
  case (1 n)
  show ?case
  proof (cases "n < 16")
    case True
    then show ?thesis using 1 by (simp add: show_hex.simps hex_digit_facts)
  next
    case False
    then show ?thesis using 1 by (simp add: show_hex.simps [of n] parse_hex_digits_append hex_digit_facts)
  qed
qed

lemma show_hex_chars: "0 \<le> n \<Longrightarrow> c \<in> set (show_hex n) \<Longrightarrow> \<exists>d. 0 \<le> d \<and> d < 16 \<and> c = hex_digit d"
proof (induction n rule: show_hex.induct)
  case (1 n)
  show ?case
  proof (cases "n < 16")
    case True
    then show ?thesis using 1 by (auto simp: show_hex.simps)
  next
    case False
    then have "c \<in> set (show_hex (n div 16)) \<or> c = hex_digit (n mod 16)" using 1 by (auto simp: show_hex.simps [of n])
    moreover have "0 \<le> n mod 16" "n mod 16 < 16" by simp_all
    ultimately show ?thesis using 1 False by fastforce
  qed
qed

lemma show_hex_ne [simp]: "show_hex n \<noteq> []"
  by (subst show_hex.simps) simp

lemma show_hex_clean:
  assumes "0 \<le> n" and "c \<in> set (show_hex n)"
  shows "c \<notin> {CHR ''+'', QUOTE, CHR '','', CHR '':'', CHR 0x0A, CHR ''x'', CHR ''X''}" and "\<not> is_ws c"
proof -
  obtain d where "0 \<le> d" "d < 16" "c = hex_digit d" using show_hex_chars [OF assms] by blast
  then show "c \<notin> {CHR ''+'', QUOTE, CHR '','', CHR '':'', CHR 0x0A, CHR ''x'', CHR ''X''}" "\<not> is_ws c"
    using hex_digit_facts(2,3) [of d] by simp_all
qed

lemma parse_hex_show_hex:
  assumes "0 \<le> n" and "n < 2 ^ w"
  shows "parse_hex w (show_hex n) = Some n"
proof (cases "show_hex n")
  case Nil
  then show ?thesis by simp
next
  case (Cons c r)
  then have "c \<noteq> CHR ''+''" using show_hex_clean [OF assms(1), of c] by simp
  then show ?thesis using assms parse_show_hex [OF assms(1)] Cons by (simp add: parse_hex_def)
qed

subsection \<open>The mask\<close>

lemma bit_band_mask:
  "bit (band_mask bands) i \<longleftrightarrow> i < 128 \<and> (\<exists>b \<in> set bands. 1 \<le> b \<and> b \<le> 128 \<and> unat (b - 1) = i)"
proof -
  have "bit (fold (\<lambda>b mask. if 1 \<le> b \<and> b \<le> 128 then or mask (push_bit (unat (b - 1)) 1) else mask) bands m) i
    \<longleftrightarrow> bit m i \<or> (i < 128 \<and> (\<exists>b \<in> set bands. 1 \<le> b \<and> b \<le> 128 \<and> unat (b - 1) = i))" for m :: u128
    by (induction bands arbitrary: m) (auto simp: bit_simps)
  then show ?thesis by (simp add: band_mask_def)
qed

lemma unat_band: "1 \<le> b \<Longrightarrow> b \<le> 128 \<Longrightarrow> unat (b - 1) = i \<longleftrightarrow> i < 128 \<and> b = of_nat (i + 1)" for b :: u16
proof -
  assume b: "1 \<le> b" "b \<le> 128"
  have s: "unat (b - 1) = unat b - 1" using b(1) by (simp add: unat_sub)
  have u: "1 \<le> unat b" "unat b \<le> 128" using b by (simp_all add: word_le_nat_alt)
  show "unat (b - 1) = i \<longleftrightarrow> i < 128 \<and> b = of_nat (i + 1)"
  proof
    assume "unat (b - 1) = i"
    then have "unat b = i + 1" using s u by simp
    moreover have "of_nat (unat b) = b" by simp
    ultimately show "i < 128 \<and> b = of_nat (i + 1)" using u by (metis Suc_eq_plus1 Suc_le_eq)
  next
    assume i: "i < 128 \<and> b = of_nat (i + 1)"
    then have "unat b = i + 1" by (simp add: unat_of_nat take_bit_nat_eq_self del: of_nat_Suc of_nat_add)
    then show "unat (b - 1) = i" using s by simp
  qed
qed

lemma band_in_range: "i < 128 \<Longrightarrow> 1 \<le> (of_nat (i + 1) :: u16) \<and> (of_nat (i + 1) :: u16) \<le> 128"
  by (simp add: word_le_nat_alt unat_of_nat take_bit_nat_eq_self del: of_nat_Suc)

lemma bit_band_mask_iff: "i < 128 \<Longrightarrow> bit (band_mask bands) i \<longleftrightarrow> of_nat (i + 1) \<in> set bands"
  using band_in_range [of i] unat_band by (auto simp: bit_band_mask)

text \<open>All bands a mask can hold, and those of a list among them.\<close>

definition all_bands :: "u16 list" where
  "all_bands = map (\<lambda>i. of_nat (i + 1)) [0..<128]"

lemma all_bands_upt: "all_bands = map of_nat [1..<129]"
proof -
  have "[1..<129] = map (\<lambda>i. i + 1) [0..<128]" using map_add_upt [of 1 128] by simp
  then show ?thesis by (simp only: all_bands_def map_map o_def)
qed

lemma mask_bands:
  "map (\<lambda>i. of_nat (i + 1)) (filter (bit (band_mask bands)) [0..<128]) = filter (\<lambda>b. b \<in> set bands) all_bands"
proof -
  have "filter (bit (band_mask bands)) [0..<128] = filter (\<lambda>i. of_nat (i + 1) \<in> set bands) [0..<128]"
  proof (rule filter_cong)
    fix i assume "i \<in> set [0..<128]"
    then show "bit (band_mask bands) i = (of_nat (i + 1) \<in> set bands)" using bit_band_mask_iff [of i] by simp
  qed simp
  then show ?thesis by (simp only: all_bands_def filter_map o_def)
qed

subsection \<open>The response of the modem\<close>

lemma lines_single: "CHR 0x0A \<notin> set s \<Longrightarrow> s \<noteq> [] \<Longrightarrow> lines s = [s]"
  by (simp add: lines_def split_char_no_sep)

lemma trim_char_id: "c \<notin> set s \<Longrightarrow> trim_char c s = s"
proof -
  assume no: "c \<notin> set s"
  have "dropWhile (\<lambda>x. x = c) xs = xs" if "set xs = set s" for xs
    using that no by (cases xs) auto
  then show ?thesis by (simp add: trim_char_def)
qed

lemma strip_all_none: "strip_prefix p s = None \<Longrightarrow> strip_all p s = s"
  by (simp add: strip_all.simps)

lemma strip_all_once: "strip_prefix p (p @ s) = Some s \<Longrightarrow> strip_prefix p s = None \<Longrightarrow> p \<noteq> [] \<Longrightarrow> strip_all p (p @ s) = s"
  by (simp add: strip_all.simps [of p "p @ s"] strip_all_none)

lemma strip_prefix_missing: "c \<in> set p \<Longrightarrow> c \<notin> set s \<Longrightarrow> strip_prefix p s = None"
  by (induction p s rule: strip_prefix.induct) auto

text \<open>The answer to the band query of a modem whose mask is set to the given bands.\<close>

definition band_response :: "u16 list \<Rightarrow> string" where
  "band_response bands = ''+QCFG: '' @ [QUOTE] @ ''band'' @ [QUOTE] @ '',0x260,0x'' @ bands_to_hex bands @ '',0x0''"

lemma bands_to_hex_clean:
  assumes "c \<in> set (bands_to_hex bands)"
  shows "c \<notin> {CHR ''+'', QUOTE, CHR '','', CHR '':'', CHR 0x0A, CHR ''x'', CHR ''X''}" and "\<not> is_ws c"
  using assms show_hex_clean [of "uint (band_mask bands)" c] by (simp_all add: bands_to_hex_def)

lemma bands_to_hex_notin:
  "CHR 0x0A \<notin> set (bands_to_hex bands)" "CHR '':'' \<notin> set (bands_to_hex bands)" "CHR '','' \<notin> set (bands_to_hex bands)"
  "QUOTE \<notin> set (bands_to_hex bands)" "CHR ''x'' \<notin> set (bands_to_hex bands)" "CHR ''X'' \<notin> set (bands_to_hex bands)"
  using bands_to_hex_clean(1) [of _ bands] by auto

lemma lte_field:
  "nth_opt (map trim (split_char (CHR '','') ('' '' @ [QUOTE] @ ''band'' @ [QUOTE] @ '',0x260,0x'' @ bands_to_hex bands @ '',0x0''))) 2
    = Some (''0x'' @ bands_to_hex bands)"
proof -
  have "split_char (CHR '','') ((''0x'' @ bands_to_hex bands) @ CHR '','' # ''0x0'')
      = (''0x'' @ bands_to_hex bands) # split_char (CHR '','') ''0x0''"
    by (rule split_char_append) (simp add: bands_to_hex_notin)
  moreover have "trim (''0x'' @ bands_to_hex bands) = ''0x'' @ bands_to_hex bands"
    using bands_to_hex_clean(2) by (intro trim_id) (auto simp: is_ws_def)
  ultimately show ?thesis by (simp add: nth_opt_def)
qed

lemma band_response_data:
  "line_data (\<lambda>l. contains_str ''+QCFG:'' l \<and> contains_str ''band'' l) (band_response bands)
    = Some ('' '' @ [QUOTE] @ ''band'' @ [QUOTE] @ '',0x260,0x'' @ bands_to_hex bands @ '',0x0'')"
proof -
  have "lines (band_response bands) = [band_response bands]"
    by (rule lines_single) (simp_all add: band_response_def bands_to_hex_notin)
  moreover have "contains_str ''+QCFG:'' (band_response bands)" "contains_str ''band'' (band_response bands)"
    by (simp_all add: band_response_def starts_with_def)
  moreover have "split_char (CHR '':'') (band_response bands)
      = ''+QCFG'' # split_char (CHR '':'') ('' '' @ [QUOTE] @ ''band'' @ [QUOTE] @ '',0x260,0x'' @ bands_to_hex bands @ '',0x0'')"
    unfolding band_response_def using split_char_append [of "CHR '':''" "''+QCFG''"] by simp
  ultimately show ?thesis
    by (simp add: line_data_def nth_opt_def split_char_no_sep bands_to_hex_notin)
qed

lemma parse_band_response: "parse_band_config (band_response bands) = filter (\<lambda>b. b \<in> set bands) all_bands"
proof -
  have "strip_all ''0x'' (''0x'' @ bands_to_hex bands) = bands_to_hex bands"
    by (rule strip_all_once) (simp_all add: strip_prefix_missing [of "CHR ''x''"] bands_to_hex_notin)
  moreover have "strip_all ''0X'' (bands_to_hex bands) = bands_to_hex bands"
    by (rule strip_all_none) (simp add: strip_prefix_missing [of "CHR ''X''"] bands_to_hex_notin)
  moreover have "trim_char QUOTE (''0x'' @ bands_to_hex bands) = ''0x'' @ bands_to_hex bands"
    by (rule trim_char_id) (simp add: bands_to_hex_notin)
  moreover have "parse_hex 128 (bands_to_hex bands) = Some (uint (band_mask bands))"
    unfolding bands_to_hex_def using unsigned_less [of "band_mask bands"] by (intro parse_hex_show_hex) simp_all
  ultimately show ?thesis
    unfolding parse_band_config_def band_response_data option.case lte_field
    by (simp only: option.case word_of_int_uint mask_bands [symmetric])
qed

text \<open>
  Bands survive the way through the modem. The mask that \<open>bands_to_hex\<close> writes for any list of
  band numbers, read back from the modem's answer, gives exactly the bands of the list from 1 to
  128, each once and in ascending order; numbers that no mask can hold are the only ones lost.
\<close>

theorem band_mask_roundtrip:
  "parse_band_config (''+QCFG: '' @ [QUOTE] @ ''band'' @ [QUOTE] @ '',0x260,0x'' @ bands_to_hex bands @ '',0x0'')
    = filter (\<lambda>b. b \<in> set bands) (map of_nat [1..<129])"
  using parse_band_response [of bands] unfolding band_response_def all_bands_upt by (simp only:)

lemma bands_to_hex_eq_iff:
  "bands_to_hex a = bands_to_hex b \<longleftrightarrow> (\<forall>x \<in> set all_bands. x \<in> set a \<longleftrightarrow> x \<in> set b)"
proof
  assume "bands_to_hex a = bands_to_hex b"
  then have "filter (\<lambda>x. x \<in> set a) all_bands = filter (\<lambda>x. x \<in> set b) all_bands"
    using parse_band_response [of a] parse_band_response [of b] by (simp add: band_response_def)
  then have "set (filter (\<lambda>x. x \<in> set a) all_bands) = set (filter (\<lambda>x. x \<in> set b) all_bands)" by (simp only:)
  then show "\<forall>x \<in> set all_bands. x \<in> set a \<longleftrightarrow> x \<in> set b" by auto
next
  assume e: "\<forall>x \<in> set all_bands. x \<in> set a \<longleftrightarrow> x \<in> set b"
  have "bit (band_mask a) i = bit (band_mask b) i" if "i < 128" for i
    using e that bit_band_mask_iff [OF that] by (auto simp: all_bands_def simp del: of_nat_Suc of_nat_add)
  then have "band_mask a = band_mask b" by (intro bit_word_eqI) simp
  then show "bands_to_hex a = bands_to_hex b" by (simp add: bands_to_hex_def)
qed

text \<open>
  C36. A band change is reported as done only when the modem confirmed it. When the verified write
  succeeds, the bands it reports are the ones the modem gave in its last answer to the band query,
  and they agree with the requested list on every band from 1 to 128.
\<close>

theorem band_change_confirmed:
  assumes "verified_set_bands command bands m = (Inr r, m')"
  shows "(\<exists>resp m1. command band_read_cmd m1 = (Inr resp, m') \<and> vs_bands r = parse_band_config resp)
    \<and> (\<forall>b \<in> set (map of_nat [1..<129]). b \<in> set (vs_bands r) \<longleftrightarrow> b \<in> set bands)"
proof -
  have "bands_to_hex (vs_bands r) = bands_to_hex bands"
    using assms by (auto simp: verified_set_bands_def Let_def split: prod.splits sum.splits if_splits)
  moreover have "\<exists>resp m1. command band_read_cmd m1 = (Inr resp, m') \<and> vs_bands r = parse_band_config resp"
    using assms by (auto simp: verified_set_bands_def Let_def split: prod.splits sum.splits if_splits)
  ultimately show ?thesis using bands_to_hex_eq_iff [of "vs_bands r" bands] unfolding all_bands_upt by metis
qed

text \<open>A modem that always answers with a fixed mask accepts a change to that mask.\<close>

definition fixed_modem :: "u16 list \<Rightarrow> string list modem" where
  "fixed_modem bands cmd log = (Inr (band_response bands), log @ [cmd])"

theorem band_change_confirmed_witness:
  "fst (verified_set_bands (fixed_modem [12, 4]) [4, 12] []) = Inr \<lparr>vs_bands = [4, 12], vs_did_deregister = False\<rparr>
   \<and> list_all (\<lambda>b. b \<in> set [4, 12] \<longleftrightarrow> b \<in> set [4, 12 :: u16]) (map of_nat [1..<129])"
proof -
  have run: "verified_set_bands (fixed_modem [12, 4]) [4, 12] []
      = (Inr \<lparr>vs_bands = [4, 12], vs_did_deregister = False\<rparr>,
         [band_write_cmd (bands_to_hex [4, 12]), band_read_cmd])" by code_simp
  show ?thesis using band_change_confirmed [OF run] run by (simp add: list_all_iff)
qed

text \<open>
  When the modem ignores the first write, it is deregistered for the retry. If the retried write
  fails, the function returns without the command that registers it again.
\<close>

lemma retry_failure_leaves_deregistered:
  assumes "\<And>cmd log. snd (command cmd log) = log @ [cmd]"
    and "command (band_write_cmd (bands_to_hex bands)) [] = (Inr w, l1)" and "command band_read_cmd l1 = (Inr resp, l2)"
    and "bands_to_hex (parse_band_config resp) \<noteq> bands_to_hex bands"
    and "command (band_write_cmd (bands_to_hex bands)) (snd (command ''AT+COPS=2'' l2)) = (Inl e, l3)"
  shows "verified_set_bands command bands [] = (Inl (''AT+QCFG band retry write failed: '' @ e),
    [band_write_cmd (bands_to_hex bands), band_read_cmd, ''AT+COPS=2'', band_write_cmd (bands_to_hex bands)])"
proof -
  have "l3 = [band_write_cmd (bands_to_hex bands), band_read_cmd, ''AT+COPS=2'', band_write_cmd (bands_to_hex bands)]"
    using assms(1) [of "band_write_cmd (bands_to_hex bands)"] assms(1) [of band_read_cmd] assms(1) [of "''AT+COPS=2''"] assms(2,3,5)
    by (metis append.left_neutral append_Cons append_assoc snd_conv)
  then show ?thesis using assms by (simp add: verified_set_bands_def Let_def)
qed

subsection \<open>Band history\<close>

definition entry_ok :: "u16 \<Rightarrow> band_history_entry \<Rightarrow> bool" where
  "entry_ok band e \<longleftrightarrow>
     bh_band e = band \<and> bh_recent e \<noteq> [] \<and> length (bh_recent e) \<le> MAX_BAND_OBSERVATIONS
     \<and> bh_latest_rsrp e = bo_rsrp (last (bh_recent e)) \<and> bh_last_seen e = bo_recorded_at (last (bh_recent e))
     \<and> list_all (\<lambda>obs. bo_rsrp obs \<le> bh_best_rsrp e) (bh_recent e)"

definition history_ok :: "(u16, band_history_entry) hmap \<Rightarrow> bool" where
  "history_ok h \<longleftrightarrow> (\<forall>band e. hm_get h band = Some e \<longrightarrow> entry_ok band e)"

lemma list_all_tl: "list_all P xs \<Longrightarrow> list_all P (tl xs)"
  by (cases xs) auto

lemma observe_ok:
  assumes "history_ok h"
  shows "history_ok (observe band obs h)"
proof -
  have "entry_ok band e'" if "hm_get (observe band obs h) band = Some e'" for e'
  proof (cases "hm_get h band")
    case None
    then show ?thesis using that by (auto simp: observe_def Let_def hm_simps entry_ok_def MAX_BAND_OBSERVATIONS_def)
  next
    case (Some e)
    then have e: "entry_ok band e" using assms by (simp add: history_ok_def)
    have "list_all (\<lambda>x. bo_rsrp x \<le> bh_best_rsrp e) (if length (bh_recent e) \<ge> MAX_BAND_OBSERVATIONS then tl (bh_recent e) else bh_recent e)"
      using e by (simp add: entry_ok_def list_all_tl)
    then have "list_all (\<lambda>x. bo_rsrp x \<le> max (bh_best_rsrp e) (bo_rsrp obs))
        (if length (bh_recent e) \<ge> MAX_BAND_OBSERVATIONS then tl (bh_recent e) else bh_recent e)"
      by (rule list.pred_mono_strong) simp
    then show ?thesis using that Some e
      by (auto simp: observe_def Let_def hm_simps entry_ok_def MAX_BAND_OBSERVATIONS_def max_def split: if_splits)
  qed
  moreover have "hm_get (observe band obs h) b = hm_get h b" if "b \<noteq> band" for b
    using that by (simp add: observe_def Let_def hm_simps)
  ultimately show ?thesis using assms unfolding history_ok_def by metis
qed

lemma update_band_history_ok: "history_ok h \<Longrightarrow> history_ok (update_band_history s h)"
proof -
  have "history_ok (fold (\<lambda>(band, obs). observe band obs) xs h)" if "history_ok h" for xs h
    using that by (induction xs arbitrary: h) (auto intro: observe_ok)
  then show "history_ok h \<Longrightarrow> history_ok (update_band_history s h)" by (simp add: update_band_history_def)
qed

interpretation band_history: invariant_machine update_band_history "\<lambda>_ _. True" history_ok
  by unfold_locales (rule update_band_history_ok)

text \<open>
  The band history is bounded and honest. After any sequence of readings each band has at least
  one and at most 20 recent observations, its latest signal and time are those of the last of them,
  and its best signal is at least as good as any of them.
\<close>

theorem band_history_bounds:
  assumes "hm_get (fold update_band_history readings []) band = Some e"
  shows "bh_band e = band \<and> 1 \<le> length (bh_recent e) \<and> length (bh_recent e) \<le> 20
    \<and> bh_latest_rsrp e = bo_rsrp (last (bh_recent e)) \<and> bh_last_seen e = bo_recorded_at (last (bh_recent e))
    \<and> (\<forall>obs \<in> set (bh_recent e). bo_rsrp obs \<le> bh_best_rsrp e)"
proof -
  have "history_ok (band_history.run readings [])"
    by (rule band_history.run_invar_all) (simp_all add: history_ok_def)
  then have "entry_ok band e" using assms unfolding band_history.run_fold history_ok_def by blast
  then show ?thesis by (auto simp: entry_ok_def MAX_BAND_OBSERVATIONS_def list_all_iff Suc_le_eq)
qed

definition demo_reading :: signal_reading where
  "demo_reading = \<lparr>sr_freq_band = Some 4, sr_rsrp = Some (-101), sr_rsrq = Some (-11), sr_sinr = None, sr_pci = Some 266,
     sr_neighbors = [\<lparr>nc_earfcn = 2050, nc_pci = 305, nc_rsrp = Some (-98), nc_rsrq = Some (-12), nc_rssi = None,
       nc_sinr = None, nc_cell_type = ''intra''\<rparr>], sr_recorded_at = 7\<rparr>"

theorem band_history_bounds_witness:
  "map_option (\<lambda>e. (bh_band e, length (bh_recent e), bh_best_rsrp e, bh_latest_rsrp e))
     (hm_get (fold update_band_history [demo_reading, demo_reading] []) 4) = Some (4, 4, -98, -98)"
proof -
  obtain e where e: "hm_get (fold update_band_history [demo_reading, demo_reading] []) 4 = Some e"
    "length (bh_recent e) = 4" "bh_best_rsrp e = -98" "bo_rsrp (last (bh_recent e)) = -98"
  proof -
    have "map_option (\<lambda>e. (length (bh_recent e), bh_best_rsrp e, bo_rsrp (last (bh_recent e))))
       (hm_get (fold update_band_history [demo_reading, demo_reading] []) 4) = Some (4, -98, -98)" by code_simp
    then show ?thesis using that by auto
  qed
  show ?thesis using band_history_bounds [OF e(1)] e by simp
qed

subsection \<open>Small facts\<close>

lemma signal_bars_range: "compute_signal_bars rsrp rssi \<in> {1..5}"
  by (auto simp: compute_signal_bars_def split: option.splits)

lemma signal_bars_mono: "a \<le> b \<Longrightarrow> compute_signal_bars (Some a) x \<le> compute_signal_bars (Some b) y"
  by (simp add: compute_signal_bars_def)

text \<open>Nothing but the poller leaves the suppressed mode.\<close>

lemma suppressed_stays:
  "ah_mode h = Suppressed \<Longrightarrow> ah_mode (record_ok h) = Suppressed \<and> ah_mode (record_disruption h) = Suppressed"
  by (simp add: record_ok_def record_disruption_def Let_def)

end
