(* ===== verification/Lte_Control.thy ===== *)
theory Lte_Control
  imports Lte_Props Watchdog
begin

text \<open>
  Band control, band scans and the signal poller (\<open>server/src/lte.rs\<close>). The modem, the network
  interface, the tunnel and the clock are outside: \<open>'m\<close> is their state and the record \<open>lte_env\<close> what
  the code can do with it and see of it. \<open>lte_shared\<close> holds the fields of \<open>LteState\<close> these tasks write.
\<close>

subsection \<open>State\<close>

record 'm lte_env =
  le_command :: "'m modem"
  le_sleep :: "duration \<Rightarrow> 'm \<Rightarrow> 'm"
  le_now :: "'m \<Rightarrow> instant"
  le_epoch :: "'m \<Rightarrow> u64"
  le_has_ipv4 :: "'m \<Rightarrow> bool"
  le_connected :: "'m \<Rightarrow> bool"
  le_pong_age :: "'m \<Rightarrow> u64"
  le_restart_interface :: "'m \<Rightarrow> 'm"
  le_download_test :: "string \<Rightarrow> 'm \<Rightarrow> u64 option \<times> 'm"
  le_upload_test :: "string \<Rightarrow> 'm \<Rightarrow> u64 option \<times> 'm"

record band_config =
  bc_enabled_bands :: "u16 list"
  bc_priority_band :: "u16 option"

record lte_snapshot = signal_reading +
  sn_rssi_dbm :: int
  sn_band :: "string option"
  sn_operator :: "string option"
  sn_technology :: "string option"
  sn_cell_id :: "string option"
  sn_earfcn :: "u32 option"
  sn_tac :: "string option"
  sn_plmn :: "string option"
  sn_enodeb_id :: "u32 option"
  sn_sector :: "u8 option"
  sn_ul_bw_mhz :: "string option"
  sn_dl_bw_mhz :: "string option"
  sn_connection_state :: "string option"
  sn_duplex :: "string option"
  sn_band_config :: "band_config option"
  sn_signal_bars :: nat

record scan_band_result =
  sb_band :: u16
  sb_registered :: bool
  sb_registration_time_ms :: u64
  sb_result_rsrp :: "int option"
  sb_result_rsrq :: "int option"
  sb_result_sinr :: "f64 option"
  sb_download_bps :: "u64 option"
  sb_upload_bps :: "u64 option"

record band_scan =
  bs_state :: string
  bs_started_at :: u64
  bs_completed_at :: "u64 option"
  bs_bands_to_scan :: "u16 list"
  bs_bands_scanned :: "u16 list"
  bs_current_band :: "u16 option"
  bs_results :: "scan_band_result list"
  bs_original_bands :: "u16 list"
  bs_original_priority :: "u16 option"

record lte_shared =
  lh_signal :: "lte_snapshot option"
  lh_errors_total :: u64
  lh_last_error :: "string option"
  lh_band_history :: "(u16, band_history_entry) hmap"
  lh_scan :: "band_scan option"
  lh_band_action_until :: "instant option"
  lh_registration_pending :: bool

definition bandpri_read_cmd :: string where
  "bandpri_read_cmd = ''AT+QCFG='' @ [QUOTE] @ ''bandpri'' @ [QUOTE]"

definition bandpri_cmd :: "nat \<Rightarrow> string" where
  "bandpri_cmd p = bandpri_read_cmd @ '','' @ show_nat p"

definition servingcell_cmd :: string where
  "servingcell_cmd = ''AT+QENG='' @ [QUOTE] @ ''servingcell'' @ [QUOTE]"

definition neighbourcell_cmd :: string where
  "neighbourcell_cmd = ''AT+QENG='' @ [QUOTE] @ ''neighbourcell'' @ [QUOTE]"

text \<open>A command whose result does not matter.\<close>

abbreviation run_cmd :: "'m lte_env \<Rightarrow> string \<Rightarrow> 'm \<Rightarrow> 'm" where
  "run_cmd env cmd m \<equiv> snd (le_command env cmd m)"

definition registered_response :: "string + string \<Rightarrow> bool" where
  "registered_response r =
     (case r of Inl _ \<Rightarrow> False | Inr resp \<Rightarrow> (case parse_cereg resp of None \<Rightarrow> False | Some st \<Rightarrow> is_registered st))"

subsection \<open>Changing bands\<close>

definition apply_bands_fast ::
  "'m lte_env \<Rightarrow> u16 list \<Rightarrow> u16 option \<Rightarrow> 'm \<Rightarrow>
     (string + (band_config \<times> u16 list \<times> u16 option \<times> bool)) \<times> 'm" where
  "apply_bands_fast env lte_bands priority_band m0 =
     (case le_command env band_read_cmd m0 of
        (Inl e, m1) \<Rightarrow> (Inl (''failed to read current bands: '' @ e), m1)
      | (Inr r1, m1) \<Rightarrow>
     (case le_command env bandpri_read_cmd (le_sleep env (from_secs 1) m1) of
        (Inl e, m2) \<Rightarrow> (Inl (''failed to read current bandpri: '' @ e), m2)
      | (Inr r2, m2) \<Rightarrow>
     (let old_bands = parse_band_config r1; old_priority = parse_bandpri r2;
          is_additive = (set old_bands \<subseteq> set lte_bands \<and> set old_bands \<noteq> set lte_bands);
          m3 = le_sleep env (from_secs 1) m2
      in case (if is_additive
               then (let hex = bands_to_hex lte_bands in
                     case le_command env (band_write_cmd hex) m3 of
                       (Inl e, m4) \<Rightarrow> (Inl (''AT+QCFG band write failed: '' @ e), m4)
                     | (Inr _, m4) \<Rightarrow>
                        (case le_command env band_read_cmd (le_sleep env (from_secs 1) m4) of
                           (Inl e, m5) \<Rightarrow> (Inl (''AT+QCFG band read-back failed: '' @ e), m5)
                         | (Inr resp, m5) \<Rightarrow>
                             (Inr \<lparr>vs_bands = parse_band_config resp, vs_did_deregister = False\<rparr>, m5)))
               else verified_set_bands (le_command env) lte_bands m3) of
           (Inl e, m6) \<Rightarrow> (Inl e, m6)
         | (Inr result, m6) \<Rightarrow>
            (let m7 = (if vs_did_deregister result then run_cmd env ''AT+COPS=0'' m6 else m6);
                 m8 = run_cmd env (bandpri_cmd (case priority_band of Some p \<Rightarrow> unat p | None \<Rightarrow> 0))
                        (le_sleep env (from_secs 1) m7)
             in (Inr (\<lparr>bc_enabled_bands = vs_bands result, bc_priority_band = priority_band\<rparr>,
                      old_bands, old_priority, vs_did_deregister result), m8)))))"

text \<open>
  Waiting for registration, polled every three seconds until the time is up. The first argument
  bounds the number of polls; \<open>None\<close> means that the bound was too small.
\<close>

fun await_registration ::
  "nat \<Rightarrow> 'm lte_env \<Rightarrow> instant \<Rightarrow> duration \<Rightarrow> 'm \<Rightarrow> (bool \<times> 'm) option" where
  "await_registration 0 env start timeout m = None"
| "await_registration (Suc n) env start timeout m =
     (if elapsed (le_now env m) start \<ge> timeout then Some (False, m)
      else case le_command env ''AT+CEREG?'' (le_sleep env (from_secs 3) m) of
             (r, m1) \<Rightarrow> if registered_response r then Some (True, m1)
                        else await_registration n env start timeout m1)"

definition recover_data_path_pub ::
  "'m lte_env \<Rightarrow> u16 list \<Rightarrow> lte_shared \<times> 'm \<Rightarrow> lte_shared \<times> 'm" where
  "recover_data_path_pub env expected_bands st =
     (case st of (s, m) \<Rightarrow>
       (let s1 = s\<lparr>lh_band_action_until := Some (le_now env m + from_secs 20)\<rparr>;
            m1 = le_sleep env (from_secs 5) (le_restart_interface env m)
        in case le_command env band_read_cmd m1 of
             (r, m2) \<Rightarrow>
               (let current = parse_band_config (case r of Inr resp \<Rightarrow> resp | Inl _ \<Rightarrow> [])
                in if bands_to_hex current \<noteq> bands_to_hex expected_bands
                   then (s1, snd (verified_set_bands (le_command env) expected_bands m2))
                   else (s1, m2))))"

definition registration_done :: "lte_shared \<Rightarrow> lte_shared" where
  "registration_done s = s\<lparr>lh_band_action_until := None, lh_registration_pending := False\<rparr>"

definition restore_priority :: "'m lte_env \<Rightarrow> u16 option \<Rightarrow> 'm \<Rightarrow> 'm" where
  "restore_priority env priority m =
     (case priority of None \<Rightarrow> m | Some p \<Rightarrow> run_cmd env (bandpri_cmd (unat p)) m)"

definition monitor_registration ::
  "nat \<Rightarrow> 'm lte_env \<Rightarrow> u16 list \<Rightarrow> u16 list \<Rightarrow> u16 option \<Rightarrow> duration \<Rightarrow> lte_shared \<times> 'm
     \<Rightarrow> (lte_shared \<times> 'm) option" where
  "monitor_registration fuel env expected_bands old_bands old_priority timeout st =
     (case st of (s, m) \<Rightarrow>
       (case await_registration fuel env (le_now env m) timeout m of
          None \<Rightarrow> None
        | Some (True, m1) \<Rightarrow>
           (case recover_data_path_pub env expected_bands (s, m1) of (s2, m2) \<Rightarrow> Some (registration_done s2, m2))
        | Some (False, m1) \<Rightarrow>
           (case le_command env band_read_cmd m1 of
              (r, m2) \<Rightarrow>
                (let current = parse_band_config (case r of Inr resp \<Rightarrow> resp | Inl _ \<Rightarrow> [])
                 in if bands_to_hex current = bands_to_hex expected_bands
                    then (let m3 = snd (verified_set_bands (le_command env) old_bands m2);
                              m4 = run_cmd env ''AT+COPS=0'' (restore_priority env old_priority m3)
                          in case recover_data_path_pub env old_bands (s, m4) of
                               (s5, m5) \<Rightarrow> Some (registration_done s5, m5))
                    else Some (registration_done s, m2)))))"

definition do_safe_set_bands ::
  "nat \<Rightarrow> 'm lte_env \<Rightarrow> u16 list \<Rightarrow> u16 option \<Rightarrow> duration \<Rightarrow> lte_shared \<times> 'm
     \<Rightarrow> ((string + band_config) \<times> lte_shared \<times> 'm) option" where
  "do_safe_set_bands fuel env lte_bands priority_band timeout st =
     (case st of (s, m0) \<Rightarrow>
     (case le_command env band_read_cmd m0 of
        (Inl e, m1) \<Rightarrow> Some (Inl (''failed to read current bands: '' @ e), s, m1)
      | (Inr r1, m1) \<Rightarrow>
     (case le_command env bandpri_read_cmd m1 of
        (Inl e, m2) \<Rightarrow> Some (Inl (''failed to read current bandpri: '' @ e), s, m2)
      | (Inr r2, m2) \<Rightarrow>
     (case verified_set_bands (le_command env) lte_bands m2 of
        (Inl e, m3) \<Rightarrow> Some (Inl e, s, m3)
      | (Inr _, m3) \<Rightarrow>
     (let m4 = run_cmd env (bandpri_cmd (case priority_band of Some p \<Rightarrow> unat p | None \<Rightarrow> 0))
                 (run_cmd env ''AT+COPS=0'' m3)
      in case await_registration fuel env (le_now env m4) timeout m4 of
           None \<Rightarrow> None
         | Some (True, m5) \<Rightarrow>
            (case le_command env band_read_cmd m5 of
               (r, m6) \<Rightarrow>
                 Some (Inr \<lparr>bc_enabled_bands = (case r of Inr resp \<Rightarrow> parse_band_config resp | Inl _ \<Rightarrow> lte_bands),
                            bc_priority_band = priority_band\<rparr>, s\<lparr>lh_band_action_until := None\<rparr>, m6))
         | Some (False, m5) \<Rightarrow>
            (let m6 = restore_priority env (parse_bandpri r2)
                        (snd (verified_set_bands (le_command env) (parse_band_config r1) m5))
             in Some (Inl ''modem did not register on new bands within timeout, rolled back'',
                      s\<lparr>lh_band_action_until := None\<rparr>, m6)))))))"

definition safe_set_bands ::
  "nat \<Rightarrow> 'm lte_env \<Rightarrow> u16 list \<Rightarrow> u16 option \<Rightarrow> duration \<Rightarrow> lte_shared \<times> 'm
     \<Rightarrow> ((string + band_config) \<times> lte_shared \<times> 'm) option" where
  "safe_set_bands fuel env lte_bands priority_band timeout st =
     (case st of (s, m) \<Rightarrow>
       (case do_safe_set_bands fuel env lte_bands priority_band timeout
               (s\<lparr>lh_band_action_until := Some (le_now env m + timeout + from_secs 5)\<rparr>, m) of
          None \<Rightarrow> None
        | Some (Inl e, s', m') \<Rightarrow> Some (Inl e, s'\<lparr>lh_band_action_until := None\<rparr>, m')
        | Some (Inr c, s', m') \<Rightarrow> Some (Inr c, s', m')))"

subsection \<open>Band scans\<close>

fun scan_polls :: "nat \<Rightarrow> 'm lte_env \<Rightarrow> 'm \<Rightarrow> bool \<times> 'm" where
  "scan_polls 0 env m = (False, m)"
| "scan_polls (Suc n) env m =
     (case le_command env ''AT+CEREG?'' (le_sleep env (from_secs 3) m) of
        (r, m1) \<Rightarrow> if registered_response r then (True, m1) else scan_polls n env m1)"

record scan_options =
  so_force :: bool
  so_speed_test :: bool
  so_download_url :: "string option"
  so_upload_url :: "string option"

definition on_scan :: "(band_scan \<Rightarrow> band_scan) \<Rightarrow> lte_shared \<Rightarrow> lte_shared" where
  "on_scan f s = s\<lparr>lh_scan := map_option f (lh_scan s)\<rparr>"

definition abort_scan :: "u64 \<Rightarrow> lte_shared \<Rightarrow> lte_shared" where
  "abort_scan now = on_scan (\<lambda>sc. sc\<lparr>bs_state := ''aborted'', bs_completed_at := Some now\<rparr>)"

definition blank_result :: "u16 \<Rightarrow> bool \<Rightarrow> u64 \<Rightarrow> scan_band_result" where
  "blank_result band reg ms = \<lparr>sb_band = band, sb_registered = reg, sb_registration_time_ms = ms, sb_result_rsrp = None,
     sb_result_rsrq = None, sb_result_sinr = None, sb_download_bps = None, sb_upload_bps = None\<rparr>"

definition speed_test ::
  "(string \<Rightarrow> 'm \<Rightarrow> u64 option \<times> 'm) \<Rightarrow> bool \<Rightarrow> string option \<Rightarrow> 'm \<Rightarrow> u64 option \<times> 'm" where
  "speed_test run enabled url m =
     (case url of Some u \<Rightarrow> if enabled then run u m else (None, m) | None \<Rightarrow> (None, m))"

definition measure_band :: "scan_options \<Rightarrow> 'm lte_env \<Rightarrow> scan_band_result \<Rightarrow> 'm \<Rightarrow> scan_band_result \<times> 'm" where
  "measure_band opts env res m =
     (case le_command env servingcell_cmd (le_sleep env (from_secs 2) m) of
        (r, m1) \<Rightarrow>
          (let q = (case r of Inr resp \<Rightarrow> parse_qeng resp | Inl _ \<Rightarrow> qeng_empty);
               res1 = res\<lparr>sb_result_rsrp := qe_rsrp q, sb_result_rsrq := qe_rsrq q, sb_result_sinr := qe_sinr q\<rparr>
           in case speed_test (le_download_test env) (so_speed_test opts) (so_download_url opts) m1 of
                (d, m2) \<Rightarrow>
                  (case speed_test (le_upload_test env) (so_speed_test opts) (so_upload_url opts) m2 of
                     (u, m3) \<Rightarrow> (res1\<lparr>sb_download_bps := d, sb_upload_bps := u\<rparr>, m3))))"

fun scan_bands ::
  "scan_options \<Rightarrow> 'm lte_env \<Rightarrow> u16 list \<Rightarrow> scan_band_result list \<Rightarrow> lte_shared \<times> 'm
     \<Rightarrow> scan_band_result list \<times> lte_shared \<times> 'm" where
  "scan_bands opts env [] results st = (results, st)"
| "scan_bands opts env (band # rest) results (s, m) =
     (if \<not> so_force opts \<and> le_connected env m then (results, abort_scan (le_epoch env m) s, m)
      else
       (let s1 = on_scan (\<lambda>sc. sc\<lparr>bs_current_band := Some band\<rparr>) s in
        case verified_set_bands (le_command env) [band] m of
          (Inl e, m1) \<Rightarrow> scan_bands opts env rest (results @ [blank_result band False 0]) (s1, m1)
        | (Inr _, m1) \<Rightarrow>
            if \<not> so_force opts \<and> le_connected env m1 then (results, abort_scan (le_epoch env m1) s1, m1)
            else
             (let m2 = run_cmd env ''AT+COPS=0'' (le_sleep env (from_secs 1) (run_cmd env ''AT+COPS=2'' m1)) in
              case scan_polls 15 env m2 of
                (reg, m3) \<Rightarrow>
                  (let res = blank_result band reg (of_nat (as_millis (elapsed (le_now env m3) (le_now env m2)))) in
                   case (if reg then measure_band opts env res m3 else (res, m3)) of
                     (res', m4) \<Rightarrow>
                       (let results' = results @ [res'];
                            s2 = on_scan (\<lambda>sc. sc\<lparr>bs_bands_scanned := bs_bands_scanned sc @ [band], bs_results := results'\<rparr>) s1
                        in scan_bands opts env rest results' (s2, m4))))))"

fun await_data_path :: "nat \<Rightarrow> 'm lte_env \<Rightarrow> instant \<Rightarrow> 'm \<Rightarrow> (bool \<times> 'm) option" where
  "await_data_path 0 env start m = None"
| "await_data_path (Suc n) env start m =
     (if \<not> elapsed (le_now env m) start < from_secs 45 then Some (False, m)
      else case le_command env ''AT+CEREG?'' m of
             (r, m1) \<Rightarrow> if registered_response r \<and> le_has_ipv4 env m1 then Some (True, m1)
                        else await_data_path n env start (le_sleep env (from_secs 3) m1))"

definition scan_restore :: "nat \<Rightarrow> 'm lte_env \<Rightarrow> u16 list \<Rightarrow> u16 option \<Rightarrow> 'm \<Rightarrow> 'm option" where
  "scan_restore fuel env original_bands original_priority m =
     (let m1 = restore_priority env original_priority (snd (verified_set_bands (le_command env) original_bands m)) in
      if le_connected env m1 then Some m1
      else
       (let m2 = run_cmd env ''AT+COPS=0'' (le_sleep env (from_secs 1) (run_cmd env ''AT+COPS=2'' m1)) in
        case await_data_path fuel env (le_now env m2) m2 of
          None \<Rightarrow> None
        | Some (True, m3) \<Rightarrow> Some m3
        | Some (False, m3) \<Rightarrow> Some (le_sleep env (from_secs 5) (le_restart_interface env m3))))"

definition band_scan ::
  "nat \<Rightarrow> scan_options \<Rightarrow> 'm lte_env \<Rightarrow> u16 list \<Rightarrow> lte_shared \<times> 'm \<Rightarrow> (lte_shared \<times> 'm) option" where
  "band_scan fuel opts env bands_to_scan st =
     (case st of (s, m0) \<Rightarrow>
      case le_command env band_read_cmd m0 of (r1, m1) \<Rightarrow>
      case le_command env bandpri_read_cmd m1 of (r2, m2) \<Rightarrow>
       (let original_bands = (case r1 of Inr resp \<Rightarrow> parse_band_config resp | Inl _ \<Rightarrow> []);
            original_priority = (case r2 of Inr resp \<Rightarrow> parse_bandpri resp | Inl _ \<Rightarrow> None);
            s1 = s\<lparr>lh_scan := Some \<lparr>bs_state = ''running'', bs_started_at = le_epoch env m0, bs_completed_at = None,
                     bs_bands_to_scan = bands_to_scan, bs_bands_scanned = [], bs_current_band = None, bs_results = [],
                     bs_original_bands = original_bands, bs_original_priority = original_priority\<rparr>\<rparr>
        in case scan_bands opts env bands_to_scan [] (s1, m2) of (results, s2, m3) \<Rightarrow>
           case scan_restore fuel env original_bands original_priority m3 of
             None \<Rightarrow> None
           | Some m4 \<Rightarrow>
               Some (on_scan (\<lambda>sc. (if bs_state sc \<noteq> ''aborted''
                        then sc\<lparr>bs_state := ''completed'', bs_completed_at := Some (le_epoch env m4)\<rparr> else sc)
                        \<lparr>bs_current_band := None, bs_results := results\<rparr>) s2, m4)))"

subsection \<open>The signal poller\<close>

record poll_config =
  po_poll_interval :: duration
  po_active_interval :: duration
  po_inter_command_delay :: duration
  po_at_test_mode :: bool

record at_test_state =
  at_level :: nat
  at_consecutive_ok :: u32
  at_disruptions :: u64

record poller =
  pl_health :: at_polling_health
  pl_test :: at_test_state
  pl_channel_errors :: u32
  pl_polls_since_save :: u32

definition new_poller :: poller where
  "new_poller = \<lparr>pl_health = new_polling_health, pl_test = \<lparr>at_level = 0, at_consecutive_ok = 0, at_disruptions = 0\<rparr>,
     pl_channel_errors = 0, pl_polls_since_save = 0\<rparr>"

definition choose_mode :: "bool \<Rightarrow> at_polling_health \<Rightarrow> at_poll_mode" where
  "choose_mode data_active h =
     (if \<not> data_active then Full
      else if ah_mode h = Suppressed then Suppressed
      else if ah_mode h = Full then Gentle
      else ah_mode h)"

definition disrupted :: "bool \<Rightarrow> u64 \<Rightarrow> bool \<Rightarrow> u64 \<Rightarrow> bool" where
  "disrupted pre_connected pre_pong post_connected post_pong =
     ((pre_connected \<and> \<not> post_connected) \<or> (pre_pong < 5000 \<and> post_pong > 10000))"

text \<open>The diagnostic test mode: commands of growing intrusiveness.\<close>

definition test_commands :: "nat \<Rightarrow> string list" where
  "test_commands level =
     (if level = 0 then [''AT'']
      else if level = 1 then [''AT+CSQ'']
      else if level = 2 then [''AT+CSQ'', servingcell_cmd]
      else [''AT+CSQ'', servingcell_cmd, ''AT+QNWINFO'', ''AT+COPS?'', neighbourcell_cmd, band_read_cmd, bandpri_read_cmd])"

definition at_test_step :: "bool \<Rightarrow> at_test_state \<Rightarrow> at_test_state" where
  "at_test_step dis t =
     (if dis then t\<lparr>at_disruptions := at_disruptions t + 1, at_level := 0, at_consecutive_ok := 0\<rparr>
      else let ok = at_consecutive_ok t + 1 in
        if ok \<ge> 3 \<and> at_level t < 4 then t\<lparr>at_level := at_level t + 1, at_consecutive_ok := 0\<rparr>
        else t\<lparr>at_consecutive_ok := ok\<rparr>)"

definition test_poll :: "poll_config \<Rightarrow> 'm lte_env \<Rightarrow> at_test_state \<Rightarrow> 'm \<Rightarrow> at_test_state \<times> 'm" where
  "test_poll cfg env t m =
     (let cmds = test_commands (at_level t);
          spaced = (at_level t \<le> 3 \<and> length cmds > 1);
          m1 = fold (\<lambda>cmd m. let m' = run_cmd env cmd m in
                        if spaced then le_sleep env (po_inter_command_delay cfg) m' else m') cmds m;
          m2 = le_sleep env (from_secs 5) m1;
          dis = disrupted (le_connected env m) (le_pong_age env m) (le_connected env m2) (le_pong_age env m2)
      in (at_test_step dis t, le_sleep env (po_active_interval cfg) m2))"

text \<open>The readings that only a full poll refreshes.\<close>

record slow_readings =
  sl_technology :: "string option"
  sl_band :: "string option"
  sl_operator :: "string option"
  sl_neighbors :: "neighbor_cell list"
  sl_band_config :: "band_config option"

definition cached_readings :: "lte_snapshot option \<Rightarrow> slow_readings" where
  "cached_readings prev =
     \<lparr>sl_technology = Option.bind prev sn_technology, sl_band = Option.bind prev sn_band,
      sl_operator = Option.bind prev sn_operator,
      sl_neighbors = (case prev of None \<Rightarrow> [] | Some s \<Rightarrow> sr_neighbors s),
      sl_band_config = Option.bind prev sn_band_config\<rparr>"

definition ok_or :: "'a \<Rightarrow> (string \<Rightarrow> 'a) \<Rightarrow> string + string \<Rightarrow> 'a" where
  "ok_or d f r = (case r of Inr resp \<Rightarrow> f resp | Inl _ \<Rightarrow> d)"

definition full_readings :: "'m lte_env \<Rightarrow> 'm \<Rightarrow> slow_readings \<times> 'm" where
  "full_readings env m0 =
     (case le_command env ''AT+QNWINFO'' m0 of (r1, m1) \<Rightarrow>
      case le_command env ''AT+COPS?'' m1 of (r2, m2) \<Rightarrow>
      case le_command env neighbourcell_cmd m2 of (r3, m3) \<Rightarrow>
      case le_command env band_read_cmd m3 of (r4, m4) \<Rightarrow>
      case le_command env bandpri_read_cmd m4 of (r5, m5) \<Rightarrow>
       (let (technology, band) = ok_or (None, None) parse_qnwinfo r1; enabled = ok_or [] parse_band_config r4
        in (\<lparr>sl_technology = technology, sl_band = band, sl_operator = ok_or None parse_cops r2,
             sl_neighbors = ok_or [] parse_neighbour r3,
             sl_band_config = (if enabled = [] then None
               else Some \<lparr>bc_enabled_bands = enabled, bc_priority_band = ok_or None parse_bandpri r5\<rparr>)\<rparr>, m5)))"

definition make_snapshot :: "int \<Rightarrow> qeng_data \<Rightarrow> slow_readings \<Rightarrow> bool \<Rightarrow> u64 \<Rightarrow> lte_snapshot" where
  "make_snapshot rssi q sl data_active now =
     \<lparr>sr_freq_band = qe_freq_band q, sr_rsrp = qe_rsrp q, sr_rsrq = qe_rsrq q, sr_sinr = qe_sinr q, sr_pci = qe_pci q,
      sr_neighbors = sl_neighbors sl, sr_recorded_at = now,
      sn_rssi_dbm = rssi,
      sn_band = (case sl_band sl of Some b \<Rightarrow> Some b | None \<Rightarrow> map_option (\<lambda>n. ''B'' @ show_nat (unat n)) (qe_freq_band q)),
      sn_operator = (case sl_operator sl of Some x \<Rightarrow> Some x | None \<Rightarrow> map_option operator_name_from_plmn (qe_plmn q)),
      sn_technology = sl_technology sl, sn_cell_id = qe_cell_id q, sn_earfcn = qe_earfcn q, sn_tac = qe_tac q,
      sn_plmn = qe_plmn q, sn_enodeb_id = qe_enodeb_id q, sn_sector = qe_sector q, sn_ul_bw_mhz = qe_ul_bw q,
      sn_dl_bw_mhz = qe_dl_bw q, sn_connection_state = effective_connection_state (qe_state q) data_active,
      sn_duplex = qe_duplex q, sn_band_config = sl_band_config sl,
      sn_signal_bars = compute_signal_bars (qe_rsrp q) rssi\<rparr>"

definition store_snapshot :: "lte_snapshot \<Rightarrow> lte_shared \<Rightarrow> lte_shared" where
  "store_snapshot sn s =
     s\<lparr>lh_band_history := update_band_history (signal_reading.truncate sn) (lh_band_history s), lh_signal := Some sn\<rparr>"

text \<open>
  One iteration of the poller's loop on an open modem: the next state of the task, the shared state
  and the world. The wait at the end of an iteration is cut short by an on-demand poll; its length
  is the last component. Saving the history every ten polls is a write of what is in memory.
\<close>

definition channel_error :: "string \<Rightarrow> bool" where
  "channel_error e \<longleftrightarrow> contains_str ''I/O thread gone'' e \<or> contains_str ''reply channel dropped'' e"

definition poll_step ::
  "poll_config \<Rightarrow> 'm lte_env \<Rightarrow> poller \<times> lte_shared \<times> 'm \<Rightarrow> (poller \<times> lte_shared \<times> 'm) \<times> duration" where
  "poll_step cfg env st =
     (case st of (p, s, m) \<Rightarrow>
      let data_active = le_has_ipv4 env m; mode = choose_mode data_active (pl_health p) in
      if po_at_test_mode cfg \<and> data_active \<and> mode \<noteq> Suppressed
      then (case test_poll cfg env (pl_test p) m of (t, m') \<Rightarrow> ((p\<lparr>pl_test := t\<rparr>, s, m'), 0))
      else if mode = Suppressed
      then (let m' = le_sleep env (po_poll_interval cfg) m in
            ((if \<not> le_has_ipv4 env m' then p\<lparr>pl_health := new_polling_health\<rparr> else p, s, m'), 0))
      else
       (case le_command env ''AT+CSQ'' m of (r, m1) \<Rightarrow>
         (let p1 = (case r of Inr _ \<Rightarrow> p\<lparr>pl_channel_errors := 0\<rparr>
                    | Inl e \<Rightarrow> if channel_error e then p\<lparr>pl_channel_errors := pl_channel_errors p + 1\<rparr> else p)
          in case (case r of Inr resp \<Rightarrow> parse_csq resp | Inl e \<Rightarrow> Inl e) of
               Inl e \<Rightarrow> ((p1, s\<lparr>lh_errors_total := lh_errors_total s + 1, lh_last_error := Some e\<rparr>,
                          le_sleep env (po_poll_interval cfg) m1), 0)
             | Inr rssi \<Rightarrow>
                (let m2 = (if data_active then le_sleep env (po_inter_command_delay cfg) m1 else m1) in
                 case le_command env servingcell_cmd m2 of (rq, m3) \<Rightarrow>
                 case (if mode = Full then full_readings env m3 else (cached_readings (lh_signal s), m3)) of (sl, m4) \<Rightarrow>
                  (let h1 = (if data_active \<and> disrupted (le_connected env m) (le_pong_age env m) (le_connected env m4) (le_pong_age env m4)
                             then record_disruption (pl_health p1) else pl_health p1);
                       sn = make_snapshot rssi (ok_or qeng_empty parse_qeng rq) sl data_active (le_epoch env m4);
                       h2 = (if data_active then record_ok h1 else h1);
                       saved = pl_polls_since_save p1 + 1
                   in ((p1\<lparr>pl_health := h2, pl_polls_since_save := (if saved \<ge> 10 then 0 else saved)\<rparr>,
                        store_snapshot sn s, m4),
                       case mode of Gentle \<Rightarrow> po_active_interval cfg | Cautious \<Rightarrow> from_secs 300
                         | _ \<Rightarrow> po_poll_interval cfg))))))"

subsection \<open>Waiting ends\<close>

text \<open>What the time-outs rest on: sleeping takes the time asked for, and no time runs backwards.\<close>

definition clock_ok :: "'m lte_env \<Rightarrow> bool" where
  "clock_ok env \<longleftrightarrow> (\<forall>d m. le_now env m + d \<le> le_now env (le_sleep env d m))
     \<and> (\<forall>cmd m. le_now env m \<le> le_now env (run_cmd env cmd m))"

lemma clock_poll:
  assumes "clock_ok env" and "le_command env cmd (le_sleep env d m) = (r, m1)"
  shows "le_now env m + d \<le> le_now env m1"
proof -
  have "le_now env (le_sleep env d m) \<le> le_now env m1"
    using assms(1) [unfolded clock_ok_def] assms(2) by (metis snd_conv)
  then show ?thesis using assms(1) unfolding clock_ok_def by (meson le_trans)
qed

lemma await_registration_ends:
  assumes "clock_ok env"
  shows "start + timeout \<le> le_now env m + n * from_secs 3 \<Longrightarrow> \<exists>r. await_registration (Suc n) env start timeout m = Some r"
proof (induction n arbitrary: m)
  case 0
  then have "timeout \<le> elapsed (le_now env m) start" by (simp add: elapsed_def)
  then show ?case by (intro exI [of _ "(False, m)"]) simp
next
  case (Suc n)
  show ?case
  proof (cases "elapsed (le_now env m) start \<ge> timeout")
    case True
    then show ?thesis by (intro exI [of _ "(False, m)"]) simp
  next
    case False
    obtain r m1 where c: "le_command env ''AT+CEREG?'' (le_sleep env (from_secs 3) m) = (r, m1)" by fastforce
    have "start + timeout \<le> le_now env m1 + n * from_secs 3" using clock_poll [OF assms c] Suc.prems by simp
    then have "\<exists>r. await_registration (Suc n) env start timeout m1 = Some r" by (rule Suc.IH)
    moreover have "await_registration (Suc (Suc n)) env start timeout m
        = (if registered_response r then Some (True, m1) else await_registration (Suc n) env start timeout m1)"
      using False c by (subst await_registration.simps) simp
    ultimately show ?thesis by (cases "registered_response r") auto
  qed
qed

text \<open>
  C37. Waiting for registration after a band change always ends. When sleeping takes at least the
  time asked for and the clock never runs backwards, the monitor of a band change returns for every
  timeout, whatever the modem answers; one poll per three seconds of the timeout, and one more, are
  enough.
\<close>

theorem monitor_registration_ends:
  assumes "clock_ok env" and "timeout \<le> n * from_secs 3"
  shows "\<exists>st'. monitor_registration (Suc n) env expected_bands old_bands old_priority timeout (s, m) = Some st'"
proof -
  obtain b m1 where a: "await_registration (Suc n) env (le_now env m) timeout m = Some (b, m1)"
    using await_registration_ends [OF assms(1), of "le_now env m" timeout m n] assms(2) by fastforce
  show ?thesis
  proof (cases b)
    case True
    then show ?thesis by (simp add: monitor_registration_def a split: prod.split del: await_registration.simps)
  next
    case False
    then show ?thesis by (simp add: monitor_registration_def a Let_def split: prod.split del: await_registration.simps)
  qed
qed

text \<open>A world that is a clock and a list of the commands sent, with a modem that never registers.\<close>

definition silent_env :: "(nat \<times> string list) lte_env" where
  "silent_env = \<lparr>le_command = (\<lambda>cmd (t, log). (Inr [], (t, log @ [cmd]))), le_sleep = (\<lambda>d (t, log). (t + d, log)),
     le_now = fst, le_epoch = (\<lambda>_. 0), le_has_ipv4 = (\<lambda>_. False), le_connected = (\<lambda>_. False), le_pong_age = (\<lambda>_. 0),
     le_restart_interface = (\<lambda>m. m), le_download_test = (\<lambda>_ m. (None, m)), le_upload_test = (\<lambda>_ m. (None, m))\<rparr>"

definition idle_shared :: lte_shared where
  "idle_shared = \<lparr>lh_signal = None, lh_errors_total = 0, lh_last_error = None, lh_band_history = [], lh_scan = None,
     lh_band_action_until = None, lh_registration_pending = True\<rparr>"

theorem monitor_registration_ends_witness:
  "\<exists>st'. monitor_registration 11 silent_env [4] [2] None (from_secs 30) (idle_shared, (0, [])) = Some st'"
proof -
  have "clock_ok silent_env" by (simp add: clock_ok_def silent_env_def)
  moreover have "from_secs 30 \<le> 10 * from_secs 3" by (simp add: from_secs_def)
  ultimately show ?thesis
    using monitor_registration_ends [of silent_env "from_secs 30" 10 "[4]" "[2]" None idle_shared "(0, [])"]
    by (simp add: eval_nat_numeral)
qed

subsection \<open>The back-off of the poller\<close>

definition poll_iteration :: "poll_config \<Rightarrow> 'm lte_env \<Rightarrow> poller \<times> lte_shared \<times> 'm \<Rightarrow> poller \<times> lte_shared \<times> 'm" where
  "poll_iteration cfg env st = fst (poll_step cfg env st)"

lemma health_stays_full:
  "ah_mode h = Full \<Longrightarrow> ah_mode (record_ok h) = Full" "ah_mode h = Full \<Longrightarrow> ah_mode (record_disruption h) = Full"
  by (simp_all add: record_ok_def record_disruption_def Let_def)

lemma poll_step_full:
  assumes "ah_mode (pl_health p) = Full"
  shows "ah_mode (pl_health (fst (poll_iteration cfg env (p, s, m)))) = Full"
proof -
  have "choose_mode d (pl_health p) \<noteq> Suppressed" for d using assms by (simp add: choose_mode_def)
  then show ?thesis using assms
    by (simp add: poll_iteration_def poll_step_def Let_def health_stays_full split: prod.split sum.split)
qed

text \<open>
  The poller never backs off. Its health starts in mode \<open>Full\<close>, which neither a successful poll
  nor a disruption leaves, and the reset after suppression leads back to it; so whatever the modem
  answers and however often the commands disturb the data path, the cautious and the suppressed
  mode, meant for that case, are never entered.
\<close>

theorem poller_never_backs_off:
  "ah_mode (pl_health (fst ((poll_iteration cfg env ^^ n) (new_poller, s, m)))) = Full"
proof (induction n)
  case 0
  show ?case by (simp add: new_poller_def new_polling_health_def)
next
  case (Suc n)
  obtain p s' m' where "(poll_iteration cfg env ^^ n) (new_poller, s, m) = (p, s', m')" by (cases "(poll_iteration cfg env ^^ n) (new_poller, s, m)")
  with Suc show ?case by (simp add: poll_step_full)
qed

subsection \<open>What a failed change leaves behind\<close>

text \<open>
  A scan that cannot read the modem's bands at its start ends by writing the empty mask, which
  the code elsewhere guards against because it disables all bands.
\<close>

lemma scan_restores_empty_mask:
  assumes "le_command env band_read_cmd m = (Inl e, m1)" and "band_scan fuel opts env bands (s, m) = Some (s', m')"
  shows "\<exists>priority m2. scan_restore fuel env [] priority m2 = Some m'"
  using assms by (auto simp: band_scan_def Let_def split: prod.splits option.splits)

lemma empty_mask: "bands_to_hex [] = ''0''"
  by code_simp

text \<open>
  Nothing follows the verified write when the data path is recovered, even if the write had to
  deregister the modem, which the caller is documented to undo.
\<close>

lemma recovery_leaves_deregistered:
  assumes "le_command env band_read_cmd (le_sleep env (from_secs 5) (le_restart_interface env m)) = (Inr resp, m2)"
    and "bands_to_hex (parse_band_config resp) \<noteq> bands_to_hex bands"
    and "verified_set_bands (le_command env) bands m2 = (Inr r, m3)"
  shows "snd (recover_data_path_pub env bands (s, m)) = m3"
  using assms by (simp add: recover_data_path_pub_def Let_def)

end
