(* ===== verification/Iso8601.thy ===== *)
theory Iso8601
  imports Prelude
begin

text \<open>
  The UTC timestamps of the modem state log (\<open>format_iso8601_utc\<close> of \<open>server/src/lte.rs\<close>), which
  computes the date from the number of days with a closed formula. It agrees with the calendar:
  counting the days one by one from the first of January 1970.
\<close>

subsection \<open>The program\<close>

text \<open>Division of \<open>i64\<close> rounds towards zero.\<close>

definition rust_div :: "int \<Rightarrow> int \<Rightarrow> int" where
  "rust_div a b = sgn a * sgn b * (\<bar>a\<bar> div \<bar>b\<bar>)"

definition civil_era :: "int \<Rightarrow> int" where
  "civil_era z = rust_div (if z \<ge> 0 then z else z - 146096) 146097"

definition civil_yoe :: "int \<Rightarrow> int" where
  "civil_yoe doe = (doe - doe div 1460 + doe div 36524 - doe div 146096) div 365"

definition civil_doy :: "int \<Rightarrow> int \<Rightarrow> int" where
  "civil_doy doe yoe = doe - (365 * yoe + yoe div 4 - yoe div 100)"

definition civil_md :: "int \<Rightarrow> int \<times> int" where
  "civil_md doy =
     (let mp = (5 * doy + 2) div 153;
          d = doy - (153 * mp + 2) div 5 + 1;
          m = (if mp < 10 then mp + 3 else mp - 9)
      in (m, d))"

definition civil_from_days :: "int \<Rightarrow> int \<times> int \<times> int" where
  "civil_from_days days =
     (let z = days + 719468;
          era = civil_era z;
          doe = z - era * 146097;
          yoe = civil_yoe doe;
          y = yoe + era * 400;
          (m, d) = civil_md (civil_doy doe yoe)
      in (if m \<le> 2 then y + 1 else y, m, d))"

text \<open>\<open>{n:0w}\<close>\<close>

definition pad0 :: "nat \<Rightarrow> int \<Rightarrow> string" where
  "pad0 w n = (let s = show_int n in replicate (w - length s) CHR ''0'' @ s)"

definition render_iso8601 :: "int \<times> int \<times> int \<Rightarrow> int \<Rightarrow> string" where
  "render_iso8601 ymd secs_of_day =
     (case ymd of (y, m, d) \<Rightarrow>
        pad0 4 y @ ''-'' @ pad0 2 m @ ''-'' @ pad0 2 d @ ''T''
        @ pad0 2 (secs_of_day div 3600) @ '':'' @ pad0 2 ((secs_of_day div 60) mod 60) @ '':''
        @ pad0 2 (secs_of_day mod 60) @ ''Z'')"

definition format_iso8601_utc :: "u64 \<Rightarrow> string" where
  "format_iso8601_utc unix_secs =
     render_iso8601 (civil_from_days (uint unix_secs div 86400)) (uint unix_secs mod 86400)"

subsection \<open>The calendar\<close>

definition leap_year :: "int \<Rightarrow> bool" where
  "leap_year y \<longleftrightarrow> y mod 4 = 0 \<and> (y mod 100 \<noteq> 0 \<or> y mod 400 = 0)"

definition month_days :: "int \<Rightarrow> int \<Rightarrow> int" where
  "month_days y m =
     (if m = 2 then if leap_year y then 29 else 28
      else if m \<in> {4, 6, 9, 11} then 30 else 31)"

definition next_day :: "int \<times> int \<times> int \<Rightarrow> int \<times> int \<times> int" where
  "next_day ymd =
     (case ymd of (y, m, d) \<Rightarrow>
        if d < month_days y m then (y, m, d + 1)
        else if m < 12 then (y, m + 1, 1)
        else (y + 1, 1, 1))"

subsection \<open>Years of an era\<close>

text \<open>Days before the year \<open>k\<close> of an era of 400 years that begin in March.\<close>

definition era_year_start :: "int \<Rightarrow> int" where
  "era_year_start k = 365 * k + k div 4 - k div 100 + k div 400"

lemma div_succ:
  fixes n m :: int
  assumes "0 < m"
  shows "(n + 1) div m = n div m + (if (n + 1) mod m = 0 then 1 else 0)"
proof -
  have r: "0 \<le> n mod m" "n mod m < m" using assms by simp_all
  have "n + 1 = m * (n div m) + (n mod m + 1)" by simp
  then have "(n + 1) div m = n div m + (n mod m + 1) div m \<and> (n + 1) mod m = (n mod m + 1) mod m"
    using assms by (metis add.commute div_mult_self4 mod_mult_self2 less_numeral_extra(3))
  moreover have "(n mod m + 1) div m = (if (n mod m + 1) mod m = 0 then 1 else 0)"
  proof (cases "n mod m + 1 = m")
    case True
    then show ?thesis using assms by simp
  next
    case False
    then have "0 < n mod m + 1" "n mod m + 1 < m" using r by linarith+
    then show ?thesis by (simp add: div_pos_pos_trivial mod_pos_pos_trivial)
  qed
  ultimately show ?thesis by metis
qed

lemma yoe_mono_step: "civil_yoe n \<le> civil_yoe (n + 1)"
proof -
  have b: "(n + 1) div 1460 \<le> n div 1460 + 1" by (simp add: div_succ)
  have c: "(n + 1) div 36524 = n div 36524 \<or> (n + 1) div 36524 = n div 36524 + 1" by (simp add: div_succ)
  have q: "m div 146096 = (m div 36524) div 4" for m :: int using zdiv_zmult2_eq [of 4 m 36524] by simp
  have "n div 36524 - (n div 36524) div 4 \<le> (n + 1) div 36524 - ((n + 1) div 36524) div 4" using c by auto
  then have "n - n div 1460 + n div 36524 - n div 146096 \<le> (n + 1) - (n + 1) div 1460 + (n + 1) div 36524 - (n + 1) div 146096"
    using b unfolding q by linarith
  then show ?thesis unfolding civil_yoe_def by (rule zdiv_mono1) simp
qed

lemma yoe_mono: "a \<le> b \<Longrightarrow> civil_yoe a \<le> civil_yoe b"
proof (induction b rule: int_ge_induct)
  case (step i)
  then show ?case using yoe_mono_step [of i] by linarith
qed simp

lemma yoe_endpoints:
  "list_all (\<lambda>k. civil_yoe (era_year_start k) = k \<and> civil_yoe (era_year_start (k + 1) - 1) = k) [0..399]"
  by code_simp

lemma yoe_eq:
  assumes "0 \<le> k" "k < 400" "era_year_start k \<le> doe" "doe < era_year_start (k + 1)"
  shows "civil_yoe doe = k"
proof -
  have "k \<in> set [0..399]" using assms by simp
  then have "civil_yoe (era_year_start k) = k" "civil_yoe (era_year_start (k + 1) - 1) = k"
    using yoe_endpoints unfolding list_all_iff by blast+
  moreover have "civil_yoe (era_year_start k) \<le> civil_yoe doe" using assms by (intro yoe_mono)
  moreover have "civil_yoe doe \<le> civil_yoe (era_year_start (k + 1) - 1)" using assms by (intro yoe_mono) simp
  ultimately show ?thesis by simp
qed

text \<open>A day, given by era, year of the era and day of the year.\<close>

definition era_days :: "int \<Rightarrow> int \<Rightarrow> int \<Rightarrow> int" where
  "era_days era k doy = era * 146097 + era_year_start k + doy"

definition era_date :: "int \<Rightarrow> int \<Rightarrow> int \<Rightarrow> int \<times> int \<times> int" where
  "era_date era k doy =
     (let (m, d) = civil_md doy in (if m \<le> 2 then k + era * 400 + 1 else k + era * 400, m, d))"

definition valid_era_day :: "int \<Rightarrow> int \<Rightarrow> int \<Rightarrow> bool" where
  "valid_era_day era k doy \<longleftrightarrow> 0 \<le> era \<and> 0 \<le> k \<and> k < 400 \<and> 0 \<le> doy \<and> era_year_start k + doy < era_year_start (k + 1)"

lemma year_length: "era_year_start (k + 1) = era_year_start k + (if leap_year (k + 1) then 366 else 365)"
proof -
  have "(400::int) dvd k + 1 \<Longrightarrow> 100 dvd k + 1" by (rule dvd_trans [of _ 400]) simp_all
  moreover have "(100::int) dvd k + 1 \<Longrightarrow> 4 dvd k + 1" by (rule dvd_trans [of _ 100]) simp_all
  moreover have "(k + 1) div 4 = k div 4 + (if 4 dvd k + 1 then 1 else 0)"
    "(k + 1) div 100 = k div 100 + (if 100 dvd k + 1 then 1 else 0)"
    "(k + 1) div 400 = k div 400 + (if 400 dvd k + 1 then 1 else 0)"
    using div_succ [of 4 k] div_succ [of 100 k] div_succ [of 400 k] by (simp_all only: mod_eq_0_iff_dvd)
  moreover have "365 * (k + 1) + (a + (if A then 1 else 0)) - (b + (if B then 1 else 0)) + (c + (if C then 1 else 0))
      = 365 * k + a - b + c + (if A \<and> (\<not> B \<or> C) then 366 else 365)"
    if "C \<Longrightarrow> B" and "B \<Longrightarrow> A" for A B C and a b c :: int
    using that by auto
  ultimately show ?thesis unfolding era_year_start_def leap_year_def mod_eq_0_iff_dvd by (simp only:)
qed

lemma era_year_start_bounds: "0 \<le> k \<Longrightarrow> k < 400 \<Longrightarrow> 0 \<le> era_year_start k \<and> era_year_start (k + 1) \<le> 146097"
proof -
  have "list_all (\<lambda>k. 0 \<le> era_year_start k \<and> era_year_start (k + 1) \<le> 146097) [0..399]" by code_simp
  then show "0 \<le> k \<Longrightarrow> k < 400 \<Longrightarrow> 0 \<le> era_year_start k \<and> era_year_start (k + 1) \<le> 146097"
    by (simp add: list_all_iff)
qed

lemma civil_from_days_era:
  assumes "valid_era_day era k doy"
  shows "civil_from_days (era_days era k doy - 719468) = era_date era k doy"
proof -
  let ?doe = "era_year_start k + doy"
  have k: "0 \<le> k" "k < 400" and d: "0 \<le> doy" "?doe < era_year_start (k + 1)" and era: "0 \<le> era"
    using assms by (auto simp: valid_era_day_def)
  have doe: "0 \<le> ?doe" "?doe < 146097" using era_year_start_bounds [OF k] d by auto
  have "(era * 146097 + ?doe) div 146097 = era" using doe by simp
  then have "civil_era (era_days era k doy) = era"
    using era doe by (simp add: civil_era_def rust_div_def era_days_def add.assoc sgn_if)
  moreover have "civil_yoe ?doe = k" using yoe_eq k d by simp
  moreover have "civil_doy ?doe k = doy" using k by (simp add: civil_doy_def era_year_start_def)
  ultimately show ?thesis
    by (simp add: civil_from_days_def Let_def era_date_def era_days_def split: prod.split)
qed

text \<open>Days within a year that begins in March.\<close>

lemma civil_md_table:
  "list_all (\<lambda>doy. case civil_md doy of (m, d) \<Rightarrow>
     1 \<le> m \<and> m \<le> 12 \<and> (m = 2 \<longrightarrow> d = doy - 336) \<and>
     civil_md (doy + 1) =
       (if m = 2 \<or> d < month_days 1 m then (m, d + 1) else if m < 12 then (m + 1, 1) else (1, 1))) [0..364]"
  by code_simp

lemma civil_md_step:
  assumes "0 \<le> doy" "doy < 365" and "civil_md doy = (m, d)"
  shows "1 \<le> m" "m \<le> 12" "m = 2 \<Longrightarrow> d = doy - 336"
    "civil_md (doy + 1) = (if m = 2 \<or> d < month_days 1 m then (m, d + 1) else if m < 12 then (m + 1, 1) else (1, 1))"
proof -
  have "doy \<in> set [0..364]" using assms by simp
  with civil_md_table [unfolded list_all_iff] have "case civil_md doy of (m, d) \<Rightarrow>
     1 \<le> m \<and> m \<le> 12 \<and> (m = 2 \<longrightarrow> d = doy - 336) \<and>
     civil_md (doy + 1) =
       (if m = 2 \<or> d < month_days 1 m then (m, d + 1) else if m < 12 then (m + 1, 1) else (1, 1))" by (rule bspec)
  then show "1 \<le> m" "m \<le> 12" "m = 2 \<Longrightarrow> d = doy - 336"
    "civil_md (doy + 1) = (if m = 2 \<or> d < month_days 1 m then (m, d + 1) else if m < 12 then (m + 1, 1) else (1, 1))"
    using assms(3) by simp_all
qed

lemma civil_md_ends: "civil_md 0 = (3, 1)" "civil_md 364 = (2, 28)" "civil_md 365 = (2, 29)"
  by code_simp+

lemma leap_year_era: "leap_year (y + era * 400) = leap_year y"
proof -
  have "(y + era * 400) mod m = y mod m" if "m dvd 400" for m :: int
    using that by (metis dvd_mult mod_add_right_eq dvd_imp_mod_0 add.right_neutral mult.commute)
  then show ?thesis by (simp add: leap_year_def)
qed

lemma next_day_same_year:
  assumes "valid_era_day era k doy" and "era_year_start k + (doy + 1) < era_year_start (k + 1)"
  shows "next_day (era_date era k doy) = era_date era k (doy + 1)"
proof -
  obtain m d where md: "civil_md doy = (m, d)" by fastforce
  have doy: "0 \<le> doy" "doy < 365" using assms by (auto simp: valid_era_day_def year_length split: if_splits)
  note s = civil_md_step [OF doy md]
  have "d < month_days (k + era * 400 + 1) 2" if "m = 2"
  proof -
    have "leap_year (k + era * 400 + 1) = leap_year (k + 1)"
      using leap_year_era [of "k + 1" era] by (simp add: ac_simps)
    then show ?thesis using assms(2) s(3) [OF that] year_length [of k]
      by (auto simp: month_days_def split: if_splits)
  qed
  moreover have "month_days (k + era * 400) m = month_days 1 m" "month_days (k + era * 400 + 1) m = month_days 1 m"
    if "m \<noteq> 2" using that by (simp_all add: month_days_def)
  ultimately have "next_day (if m \<le> 2 then k + era * 400 + 1 else k + era * 400, m, d)
    = (case civil_md (doy + 1) of (m', d') \<Rightarrow> (if m' \<le> 2 then k + era * 400 + 1 else k + era * 400, m', d'))"
    using s(1,2) unfolding s(4) by (cases "m = 2"; cases "d < month_days 1 m"; cases "m < 12") (auto simp: next_day_def)
  then show ?thesis by (simp add: era_date_def md)
qed

lemma next_day_new_year:
  assumes "valid_era_day era k doy" and "era_year_start k + (doy + 1) = era_year_start (k + 1)"
  shows "next_day (era_date era k doy) = (k + era * 400 + 1, 3, 1)"
proof -
  have l: "leap_year (k + era * 400 + 1) = leap_year (k + 1)"
    using leap_year_era [of "k + 1" era] by (simp add: ac_simps)
  show ?thesis
  proof (cases "leap_year (k + 1)")
    case True
    then have "doy = 365" using assms(2) by (simp add: year_length)
    then show ?thesis using True l by (simp add: era_date_def civil_md_ends next_day_def month_days_def)
  next
    case False
    then have "doy = 364" using assms(2) by (simp add: year_length)
    then show ?thesis using False l by (simp add: era_date_def civil_md_ends next_day_def month_days_def)
  qed
qed

text \<open>The day after a day.\<close>

lemma era_succ:
  assumes "valid_era_day era k doy"
  shows "\<exists>era' k' doy'. valid_era_day era' k' doy' \<and> era_days era' k' doy' = era_days era k doy + 1
    \<and> era_date era' k' doy' = next_day (era_date era k doy)"
proof -
  have v: "0 \<le> era" "0 \<le> k" "k < 400" "0 \<le> doy" "era_year_start k + doy < era_year_start (k + 1)"
    using assms by (auto simp: valid_era_day_def)
  have start: "era_year_start k' < era_year_start (k' + 1)" for k' by (simp add: year_length)
  consider "era_year_start k + (doy + 1) < era_year_start (k + 1)"
    | "era_year_start k + (doy + 1) = era_year_start (k + 1)" "k < 399"
    | "era_year_start k + (doy + 1) = era_year_start (k + 1)" "k = 399" using v by linarith
  then show ?thesis
  proof cases
    case 1
    then show ?thesis using v next_day_same_year [OF assms]
      by (intro exI [of _ era] exI [of _ k] exI [of _ "doy + 1"]) (simp add: valid_era_day_def era_days_def)
  next
    case 2
    then have "valid_era_day era (k + 1) 0 \<and> era_days era (k + 1) 0 = era_days era k doy + 1
        \<and> era_date era (k + 1) 0 = next_day (era_date era k doy)"
      using v start [of "k + 1"] next_day_new_year [OF assms]
      by (simp add: valid_era_day_def era_days_def era_date_def [of _ "k + 1"] civil_md_ends)
    then show ?thesis by blast
  next
    case 3
    moreover have "era_year_start 400 = 146097" "era_year_start 0 = 0" by code_simp+
    ultimately have "valid_era_day (era + 1) 0 0 \<and> era_days (era + 1) 0 0 = era_days era k doy + 1
        \<and> era_date (era + 1) 0 0 = next_day (era_date era k doy)"
      using v start [of 0] next_day_new_year [OF assms]
      by (simp add: valid_era_day_def era_days_def era_date_def [of "era + 1"] civil_md_ends)
    then show ?thesis by blast
  qed
qed

lemma era_days_exist: "0 \<le> z \<Longrightarrow> \<exists>era k doy. valid_era_day era k doy \<and> era_days era k doy = z"
proof (induction z rule: int_ge_induct)
  case base
  have "valid_era_day 0 0 0 \<and> era_days 0 0 0 = 0" by code_simp
  then show ?case by blast
next
  case (step z)
  then show ?case using era_succ by metis
qed

lemma civil_next_day:
  assumes "0 \<le> days"
  shows "civil_from_days (days + 1) = next_day (civil_from_days days)"
proof -
  obtain era k doy where v: "valid_era_day era k doy" "era_days era k doy = days + 719468"
    using era_days_exist [of "days + 719468"] assms by auto
  obtain era' k' doy' where v': "valid_era_day era' k' doy'" "era_days era' k' doy' = days + 719468 + 1"
    "era_date era' k' doy' = next_day (era_date era k doy)"
    using era_succ [OF v(1)] v(2) by auto
  have "era_days era' k' doy' - 719468 = days + 1" "era_days era k doy - 719468 = days"
    using v(2) v'(2) by simp_all
  then show ?thesis using civil_from_days_era [OF v(1)] civil_from_days_era [OF v'(1)] v'(3) by (simp only:)
qed

lemma civil_counts_days: "civil_from_days (int n) = (next_day ^^ n) (1970, 1, 1)"
proof (induction n)
  case 0
  show ?case by code_simp
next
  case (Suc n)
  then show ?case using civil_next_day [of "int n"] by (simp add: ac_simps)
qed

text \<open>
  C35. The timestamps of the modem state log are right for every time the clock can show: the date
  that the closed formula computes is the one that counting the days from the first of January
  1970 arrives at, with the lengths of the months and the leap years of the Gregorian calendar.
\<close>

theorem iso8601_calendar:
  "format_iso8601_utc t = render_iso8601 ((next_day ^^ nat (uint t div 86400)) (1970, 1, 1)) (uint t mod 86400)"
proof -
  have "int (nat (uint t div 86400)) = uint t div 86400" by (simp add: div_int_pos_iff)
  then show ?thesis
    unfolding format_iso8601_utc_def using civil_counts_days [of "nat (uint t div 86400)"] by simp
qed

lemma iso8601_leap_day: "format_iso8601_utc 1709208000 = ''2024-02-29T12:00:00Z''"
  by code_simp

end
