(* ===== verification/Files.thy ===== *)
theory Files
  imports Gawdxfer "HOL-Library.List_Lexorder" "HOL-Library.Char_ord"
begin

text \<open>
  The file endpoints (\<open>server/src/routes/files.rs\<close>): path validation, reading with ranges, listing,
  the atomic write, deletion, raw download and multipart upload, over the file system of the
  transfers. What the operating system answers is the argument \<open>files_env\<close>. Every change of the
  file system is recorded in \<open>ff_trace\<close>: the states in which a crash, or another process, can see it.

  The base64 codec of the \<open>base64\<close> crate is a pair of parameters.
\<close>

subsection \<open>UTF-8\<close>

text \<open>\<open>std::str::from_utf8\<close>: well-formed byte sequences, without overlong forms and surrogates.\<close>

definition cont_byte :: "u8 \<Rightarrow> bool" where
  "cont_byte b \<longleftrightarrow> 0x80 \<le> b \<and> b \<le> 0xBF"

fun utf8_valid :: "u8 list \<Rightarrow> bool" where
  "utf8_valid [] = True"
| "utf8_valid (a # bs) =
     (if a \<le> 0x7F then utf8_valid bs
      else if 0xC2 \<le> a \<and> a \<le> 0xDF
      then (case bs of b # r \<Rightarrow> cont_byte b \<and> utf8_valid r | _ \<Rightarrow> False)
      else if 0xE0 \<le> a \<and> a \<le> 0xEF
      then (case bs of
              b # c # r \<Rightarrow> cont_byte b \<and> (a = 0xE0 \<longrightarrow> 0xA0 \<le> b) \<and> (a = 0xED \<longrightarrow> b \<le> 0x9F) \<and> cont_byte c \<and> utf8_valid r
            | _ \<Rightarrow> False)
      else if 0xF0 \<le> a \<and> a \<le> 0xF4
      then (case bs of
              b # c # d # r \<Rightarrow> cont_byte b \<and> (a = 0xF0 \<longrightarrow> 0x90 \<le> b) \<and> (a = 0xF4 \<longrightarrow> b \<le> 0x8F)
                \<and> cont_byte c \<and> cont_byte d \<and> utf8_valid r
            | _ \<Rightarrow> False)
      else False)"

definition text_of :: "u8 list \<Rightarrow> string" where
  "text_of bs = map (\<lambda>b. char_of (unat b)) bs"

subsection \<open>Environment and errors\<close>

datatype fs_err = NotFound | Denied | Io string

fun err_text :: "fs_err \<Rightarrow> string" where
  "err_text NotFound = ''No such file or directory (os error 2)''"
| "err_text Denied = ''Permission denied (os error 13)''"
| "err_text (Io t) = t"

datatype file_kind = KindFile | KindDir | KindSymlink | KindOther

record raw_entry =
  re_name :: string
  re_kind :: "file_kind option"
  re_meta :: "(u64 \<times> u32 \<times> u64 option) option"
  re_target :: "string option"

record files_env =
  fe_stat_err :: "fs_err option"
  fe_open_err :: "fs_err option"
  fe_seek_err :: "string option"
  fe_read :: "string + nat"
  fe_entries :: "fs_err + raw_entry list"
  fe_mkdir_err :: "string option"
  fe_create_err :: "fs_err option"
  fe_progress :: "nat list"
  fe_write_err :: "fs_err option"
  fe_chmod_err :: "string option"
  fe_rename_err :: "string option"
  fe_remove_err :: "fs_err option"
  fe_mtime :: "u64 option"
  fe_create_mode :: u32
  fe_pid :: nat
  fe_clock_ms :: "nat option"

type_synonym api_failure = "nat \<times> api_error"

definition api_fail :: "nat \<Rightarrow> string \<Rightarrow> string \<Rightarrow> api_failure" where
  "api_fail status code message = (status, api_error_new code message)"

definition io_fail :: "string \<Rightarrow> api_failure" where
  "io_fail t = api_fail 500 ''IO_ERROR'' t"

definition denied_or_io :: "fs_err \<Rightarrow> api_failure" where
  "denied_or_io e = (if e = Denied then api_fail 403 ''PERMISSION_DENIED'' ''Permission denied'' else io_fail (err_text e))"

definition fs_fail :: "string \<Rightarrow> fs_err \<Rightarrow> api_failure" where
  "fs_fail missing e = (if e = NotFound then api_fail 404 ''FILE_NOT_FOUND'' missing else denied_or_io e)"

definition fs_stat :: "files_env \<Rightarrow> string \<Rightarrow> filesystem \<Rightarrow> fs_err + node" where
  "fs_stat env p fs =
     (case fe_stat_err env of
        Some e \<Rightarrow> Inl e
      | None \<Rightarrow> (case fs p of None \<Rightarrow> Inl NotFound | Some n \<Rightarrow> Inr n))"

subsection \<open>Paths\<close>

definition validate_path :: "string \<Rightarrow> api_failure + string" where
  "validate_path path =
     (if \<not> starts_with ''/'' path then Inl (api_fail 400 ''INVALID_PATH'' ''Path must be absolute'')
      else if CHR 0x00 \<in> set path then Inl (api_fail 400 ''INVALID_PATH'' ''Path contains null bytes'')
      else if list_ex (\<lambda>c. c = ''..'') (split_char (CHR ''/'') path)
      then Inl (api_fail 400 ''INVALID_PATH'' ''Path traversal (..) not allowed'')
      else Inr path)"

text \<open>\<open>Path::parent\<close> of an absolute path: trailing slashes and dots do not count as components.\<close>

fun strip_trailing :: "string \<Rightarrow> string" where
  "strip_trailing [] = []"
| "strip_trailing [c] = (if c = CHR ''/'' then [] else [c])"
| "strip_trailing (c # d # t) =
     (if c = CHR ''/'' then strip_trailing (d # t)
      else if c = CHR ''.'' \<and> d = CHR ''/'' then strip_trailing t
      else c # d # t)"

definition parent_path :: "string \<Rightarrow> string option" where
  "parent_path p =
     (let r = strip_trailing (rev p) in
      if r = [] then None
      else let q = strip_trailing (dropWhile (\<lambda>c. c \<noteq> CHR ''/'') r) in Some (if q = [] then ''/'' else rev q))"

definition ends_in_slash :: "string \<Rightarrow> bool" where
  "ends_in_slash s \<longleftrightarrow> s \<noteq> [] \<and> last s = CHR ''/''"

subsection \<open>Reading\<close>

definition format_system_time :: "u64 option \<Rightarrow> string option" where
  "format_system_time t = map_option (\<lambda>s. show_nat (unat s)) t"

definition file_read_response :: "string \<Rightarrow> string \<Rightarrow> u64 \<Rightarrow> string option \<Rightarrow> string option \<Rightarrow> bool \<Rightarrow> json" where
  "file_read_response path content sz modified encoding truncated =
     JObj ([(''path'', JStr path), (''content'', JStr content), (''size'', JNum (uint sz))]
       @ (case modified of Some t \<Rightarrow> [(''modified'', JStr t)] | None \<Rightarrow> [])
       @ (case encoding of Some e \<Rightarrow> [(''encoding'', JStr e)] | None \<Rightarrow> [])
       @ (if truncated then [(''truncated'', JBool True)] else []))"

definition encode_content :: "(u8 list \<Rightarrow> string) \<Rightarrow> u8 list \<Rightarrow> string \<times> string option" where
  "encode_content b64 bs = (if utf8_valid bs then (text_of bs, None) else (b64 bs, Some ''base64''))"

definition read_file ::
    "(u8 list \<Rightarrow> string) \<Rightarrow> files_env \<Rightarrow> string \<Rightarrow> u64 \<Rightarrow> u64 option \<Rightarrow> u64 option \<Rightarrow> filesystem
       \<Rightarrow> api_failure + json" where
  "read_file b64 env path max_size offset limit fs =
     (case fs_stat env path fs of
        Inl e \<Rightarrow> Inl (fs_fail ''File not found'' e)
      | Inr DirNode \<Rightarrow> Inl (api_fail 400 ''IS_DIRECTORY'' ''Path is a directory, use list=true'')
      | Inr (FileNode data mtime mode) \<Rightarrow>
         (let file_size = of_nat (length data) :: u64;
              read_offset = (case offset of Some v \<Rightarrow> v | None \<Rightarrow> 0);
              read_limit = (case limit of Some l \<Rightarrow> min l max_size | None \<Rightarrow> max_size)
          in if offset = None \<and> limit = None \<and> file_size > max_size
             then Inl (api_fail 400 ''FILE_TOO_LARGE''
                    (''File too large ('' @ show_nat (unat file_size) @ '' bytes, max '' @ show_nat (unat max_size) @ '')''))
             else case fe_open_err env of
                 Some e \<Rightarrow> Inl (denied_or_io e)
               | None \<Rightarrow>
                  (case (if read_offset > 0 then fe_seek_err env else None) of
                     Some t \<Rightarrow> Inl (io_fail t)
                   | None \<Rightarrow>
                      (let remaining = saturating_sub file_size read_offset; to_read = min read_limit remaining in
                       case fe_read env of
                         Inl t \<Rightarrow> Inl (io_fail t)
                       | Inr n \<Rightarrow>
                          (let bs = take (min n (unat to_read)) (drop (unat read_offset) data);
                               truncated = (read_offset + of_nat (length bs) < file_size);
                               (content, encoding) = encode_content b64 bs
                           in Inr (file_read_response path content file_size (format_system_time mtime) encoding truncated))))))"

text \<open>\<open>format!("{:04o}", mode & 0o7777)\<close>\<close>

definition mode_text :: "u32 \<Rightarrow> string" where
  "mode_text m = map (\<lambda>i. char_of (48 + unat m div 8 ^ i mod 8)) [3, 2, 1, 0]"

definition dir_entry :: "raw_entry \<Rightarrow> json" where
  "dir_entry e =
     (let (ty, target) = (case re_kind e of
            Some KindSymlink \<Rightarrow> (''symlink'', re_target e)
          | Some KindDir \<Rightarrow> (''dir'', None)
          | Some KindFile \<Rightarrow> (''file'', None)
          | _ \<Rightarrow> (''other'', None));
          opt = (\<lambda>k x. case x of Some v \<Rightarrow> [(k, JStr v)] | None \<Rightarrow> [])
      in JObj ([(''name'', JStr (re_name e)), (''type'', JStr ty),
                (''size'', JNum (case re_meta e of Some (sz, _, _) \<Rightarrow> uint sz | None \<Rightarrow> 0))]
          @ opt ''mode'' (map_option (\<lambda>(_, m, _). mode_text m) (re_meta e))
          @ opt ''modified'' (Option.bind (re_meta e) (\<lambda>(_, _, t). format_system_time t))
          @ opt ''symlink_target'' target))"

definition list_directory :: "files_env \<Rightarrow> string \<Rightarrow> api_failure + json" where
  "list_directory env path =
     (case fe_entries env of
        Inl e \<Rightarrow> Inl (fs_fail ''Directory not found'' e)
      | Inr raw \<Rightarrow> Inr (JObj [(''path'', JStr path), (''entries'', JArr (map dir_entry (sort_key re_name raw)))]))"

subsection \<open>State of the endpoints\<close>

record files_state =
  ff_fs :: filesystem
  ff_trace :: "filesystem list"
  ff_counter :: u64
  ff_log :: activity_log

definition visit :: "(filesystem \<Rightarrow> filesystem) \<Rightarrow> files_state \<Rightarrow> files_state" where
  "visit f s = s\<lparr>ff_fs := f (ff_fs s), ff_trace := ff_trace s @ [f (ff_fs s)]\<rparr>"

definition files_log ::
    "files_env \<Rightarrow> headers \<Rightarrow> activity_type \<Rightarrow> string \<Rightarrow> json option \<Rightarrow> files_state \<Rightarrow> files_state" where
  "files_log env hs ty path detail s =
     s\<lparr>ff_log := snd (log_activity \<lparr>lc_type = ty, lc_source = source_from_headers hs,
        lc_summary = truncate_str path 80, lc_detail = detail, lc_request_id = request_id_from_headers hs,
        lc_clock_ms = fe_clock_ms env\<rparr> (ff_log s))\<rparr>"

record files_query =
  fq_path :: string
  fq_list :: bool
  fq_offset :: "u64 option"
  fq_limit :: "u64 option"

definition get_file ::
    "(u8 list \<Rightarrow> string) \<Rightarrow> files_env \<Rightarrow> u64 \<Rightarrow> headers \<Rightarrow> files_query \<Rightarrow> files_state
       \<Rightarrow> (api_failure + json) \<times> files_state" where
  "get_file b64 env max_size hs q s =
     (case validate_path (fq_path q) of
        Inl e \<Rightarrow> (Inl e, s)
      | Inr path \<Rightarrow>
         (let (r, ty) = (if fq_list q \<or> ends_in_slash (fq_path q) then (list_directory env path, FileList)
                         else (read_file b64 env path max_size (fq_offset q) (fq_limit q) (ff_fs s), FileRead))
          in case r of
               Inl e \<Rightarrow> (Inl e, s)
             | Inr v \<Rightarrow> (Inr v, files_log env hs ty (fq_path q) None s)))"

subsection \<open>Writing\<close>

definition put_node :: "files_env \<Rightarrow> string \<Rightarrow> u8 list \<Rightarrow> filesystem \<Rightarrow> filesystem" where
  "put_node env p data fs = fs(p \<mapsto> FileNode data (fe_mtime env) (fe_create_mode env))"

text \<open>\<open>tokio::fs::write\<close>: the file is created empty and filled; what is written is visible in between.\<close>

definition fs_write_new :: "files_env \<Rightarrow> string \<Rightarrow> u8 list \<Rightarrow> files_state \<Rightarrow> (fs_err + unit) \<times> files_state" where
  "fs_write_new env p data s =
     (case fe_create_err env of
        Some e \<Rightarrow> (Inl e, s)
      | None \<Rightarrow>
         (let s1 = fold (\<lambda>n. visit (put_node env p (take n data))) (0 # fe_progress env) s in
          case fe_write_err env of
            Some e \<Rightarrow> (Inl e, s1)
          | None \<Rightarrow> (Inr (), visit (put_node env p data) s1)))"

definition remove_temp :: "files_env \<Rightarrow> string \<Rightarrow> files_state \<Rightarrow> files_state" where
  "remove_temp env p s = (if fe_remove_err env = None then visit (\<lambda>fs. fs(p := None)) s else s)"

definition rename_temp_to_final ::
    "files_env \<Rightarrow> string \<Rightarrow> string \<Rightarrow> files_state \<Rightarrow> (api_failure + unit) \<times> files_state" where
  "rename_temp_to_final env temp final s =
     (case fe_rename_err env of
        Some t \<Rightarrow> (Inl (io_fail (''Failed to rename: '' @ t)), remove_temp env temp s)
      | None \<Rightarrow> (Inr (), visit (\<lambda>fs. fs(temp := None, final := fs temp)) s))"

definition temp_path_of :: "files_env \<Rightarrow> string \<Rightarrow> u64 \<Rightarrow> string" where
  "temp_path_of env dir sq = join_path dir (''.sctl_tmp_'' @ show_nat (fe_pid env) @ ''_'' @ show_nat (unat sq))"

text \<open>\<open>create_dir_all\<close>: the missing directories on the way, outermost first.\<close>

definition dirs_of :: "string \<Rightarrow> string list" where
  "dirs_of p = map (\<lambda>i. take i p) (filter (\<lambda>i. p ! i = CHR ''/'') [1..<length p]) @ [p]"

definition create_dir_all :: "files_env \<Rightarrow> string \<Rightarrow> files_state \<Rightarrow> (api_failure + unit) \<times> files_state" where
  "create_dir_all env p s =
     (case fe_mkdir_err env of
        Some t \<Rightarrow> (Inl (io_fail t), s)
      | None \<Rightarrow> (Inr (), fold (\<lambda>d. visit (\<lambda>fs. if fs d = None then fs(d \<mapsto> DirNode) else fs)) (dirs_of p) s))"

definition make_parents :: "files_env \<Rightarrow> bool \<Rightarrow> string \<Rightarrow> files_state \<Rightarrow> (api_failure + unit) \<times> files_state" where
  "make_parents env create_dirs path s =
     (if create_dirs then (case parent_path path of Some d \<Rightarrow> create_dir_all env d s | None \<Rightarrow> (Inr (), s))
      else (Inr (), s))"

record file_write_request =
  fw_path :: string
  fw_content :: string
  fw_create_dirs :: bool
  fw_mode :: "string option"
  fw_encoding :: "string option"

definition set_mode :: "u32 \<Rightarrow> string \<Rightarrow> filesystem \<Rightarrow> filesystem" where
  "set_mode m p fs = (case fs p of Some (FileNode d t _) \<Rightarrow> fs(p \<mapsto> FileNode d t m) | _ \<Rightarrow> fs)"

definition chmod_temp :: "files_env \<Rightarrow> string option \<Rightarrow> string \<Rightarrow> files_state \<Rightarrow> (api_failure + unit) \<times> files_state" where
  "chmod_temp env mode temp s =
     (case mode of
        None \<Rightarrow> (Inr (), s)
      | Some t \<Rightarrow>
         (case parse_octal_u32 t of
            None \<Rightarrow> (Inl (api_fail 400 ''INVALID_MODE'' (''Invalid octal mode: '' @ [CHR 0x22] @ t @ [CHR 0x22])), remove_temp env temp s)
          | Some m \<Rightarrow>
             (case fe_chmod_err env of
                Some e \<Rightarrow> (Inl (io_fail (''Failed to set mode: '' @ e)), remove_temp env temp s)
              | None \<Rightarrow> (Inr (), visit (set_mode m temp) s))))"

definition content_bytes :: "(string \<Rightarrow> string + u8 list) \<Rightarrow> file_write_request \<Rightarrow> api_failure + u8 list" where
  "content_bytes unb64 req =
     (if fw_encoding req = Some ''base64''
      then (case unb64 (fw_content req) of
              Inl e \<Rightarrow> Inl (api_fail 400 ''INVALID_CONTENT'' (''Invalid base64: '' @ e))
            | Inr bs \<Rightarrow> Inr bs)
      else Inr (bytes (fw_content req)))"

text \<open>From the temporary file to the target.\<close>

definition write_atomic ::
    "files_env \<Rightarrow> string option \<Rightarrow> string \<Rightarrow> string \<Rightarrow> u8 list \<Rightarrow> files_state \<Rightarrow> (api_failure + unit) \<times> files_state" where
  "write_atomic env mode temp final data s =
     (case fs_write_new env temp data s of
        (Inl e, s1) \<Rightarrow> (Inl (denied_or_io e), s1)
      | (Inr _, s1) \<Rightarrow>
         (case chmod_temp env mode temp s1 of
            (Inl e, s2) \<Rightarrow> (Inl e, s2)
          | (Inr _, s2) \<Rightarrow> rename_temp_to_final env temp final s2))"

definition put_file ::
    "(string \<Rightarrow> string + u8 list) \<Rightarrow> files_env \<Rightarrow> u64 \<Rightarrow> headers \<Rightarrow> file_write_request \<Rightarrow> files_state
       \<Rightarrow> (api_failure + json) \<times> files_state" where
  "put_file unb64 env max_size hs req s =
     (case validate_path (fw_path req) of
        Inl e \<Rightarrow> (Inl e, s)
      | Inr path \<Rightarrow>
     (case content_bytes unb64 req of
        Inl e \<Rightarrow> (Inl e, s)
      | Inr data \<Rightarrow>
         if length data > unat max_size
         then (Inl (api_fail 400 ''FILE_TOO_LARGE''
                 (''Content too large ('' @ show_nat (length data) @ '' bytes, max '' @ show_nat (unat max_size) @ '')'')), s)
         else
     (case make_parents env (fw_create_dirs req) path s of
        (Inl e, s1) \<Rightarrow> (Inl e, s1)
      | (Inr _, s1) \<Rightarrow>
         (let dir = (case parent_path path of Some d \<Rightarrow> d | None \<Rightarrow> ''/'');
              temp = temp_path_of env dir (ff_counter s1);
              s2 = s1\<lparr>ff_counter := ff_counter s1 + 1\<rparr>
          in case write_atomic env (fw_mode req) temp path data s2 of
               (Inl e, s3) \<Rightarrow> (Inl e, s3)
             | (Inr _, s3) \<Rightarrow>
                 (Inr (JObj [(''path'', JStr path), (''size'', JNum (int (length data))), (''ok'', JBool True)]),
                  files_log env hs FileWrite (fw_path req)
                    (Some (JObj [(''size'', JNum (int (length data))),
                                 (''mode'', case fw_mode req of Some m \<Rightarrow> JStr m | None \<Rightarrow> JNull)])) s3)))))"

subsection \<open>Deleting, downloading, uploading\<close>

definition delete_file :: "files_env \<Rightarrow> headers \<Rightarrow> string \<Rightarrow> files_state \<Rightarrow> (api_failure + json) \<times> files_state" where
  "delete_file env hs p s =
     (case validate_path p of
        Inl e \<Rightarrow> (Inl e, s)
      | Inr path \<Rightarrow>
         (case fe_remove_err env of
            Some e \<Rightarrow> (Inl (fs_fail ''File not found'' e), s)
          | None \<Rightarrow>
             (case ff_fs s path of
                None \<Rightarrow> (Inl (fs_fail ''File not found'' NotFound), s)
              | Some DirNode \<Rightarrow> (Inl (io_fail ''Is a directory (os error 21)''), s)
              | Some (FileNode _ _ _) \<Rightarrow>
                  (Inr (JObj [(''ok'', JBool True), (''path'', JStr path)]),
                   files_log env hs FileDelete p None (visit (\<lambda>fs. fs(path := None)) s)))))"

definition download_file ::
    "files_env \<Rightarrow> headers \<Rightarrow> string \<Rightarrow> files_state \<Rightarrow> (api_failure + string \<times> u64 \<times> u8 list) \<times> files_state" where
  "download_file env hs p s =
     (case validate_path p of
        Inl e \<Rightarrow> (Inl e, s)
      | Inr path \<Rightarrow>
         (case fs_stat env path (ff_fs s) of
            Inl e \<Rightarrow> (Inl (fs_fail ''File not found'' e), s)
          | Inr DirNode \<Rightarrow> (Inl (api_fail 400 ''IS_DIRECTORY'' ''Path is a directory''), s)
          | Inr (FileNode data _ _) \<Rightarrow>
             (case fe_open_err env of
                Some e \<Rightarrow> (Inl (io_fail (err_text e)), s)
              | None \<Rightarrow>
                 (let basename = (case file_name path of Some n \<Rightarrow> n | None \<Rightarrow> ''download'')
                  in (Inr (''attachment; filename='' @ [CHR 0x22]
                           @ map (\<lambda>c. if c = CHR 0x22 then CHR ''_'' else c) basename @ [CHR 0x22],
                           of_nat (length data), data),
                      files_log env hs FileRead p None s)))))"

datatype part = PartError string | Part "string option" "string + u8 list"

definition bad_file_name :: "string \<Rightarrow> bool" where
  "bad_file_name n \<longleftrightarrow> CHR ''/'' \<in> set n \<or> CHR 0x5C \<in> set n \<or> n = ''..''"

fun upload_parts ::
    "headers \<Rightarrow> u64 \<Rightarrow> string \<Rightarrow> (files_env \<times> part) list \<Rightarrow> json list \<Rightarrow> files_state
       \<Rightarrow> (api_failure + json list) \<times> files_state" where
  "upload_parts hs max_size dir [] uploaded s = (Inr uploaded, s)"
| "upload_parts hs max_size dir ((env, PartError e) # ps) uploaded s =
     (Inl (api_fail 400 ''MULTIPART_ERROR'' (''Multipart error: '' @ e)), s)"
| "upload_parts hs max_size dir ((env, Part None _) # ps) uploaded s = upload_parts hs max_size dir ps uploaded s"
| "upload_parts hs max_size dir ((env, Part (Some name) content) # ps) uploaded s =
     (if bad_file_name name then (Inl (api_fail 400 ''INVALID_PATH'' (''Invalid filename: '' @ name)), s)
      else case content of
          Inl e \<Rightarrow> (Inl (api_fail 400 ''MULTIPART_ERROR'' (''Failed to read field: '' @ e)), s)
        | Inr data \<Rightarrow>
            if length data > unat max_size
            then (Inl (api_fail 400 ''FILE_TOO_LARGE'' (''File '' @ [CHR 0x27] @ name @ [CHR 0x27] @ '' too large (''
                    @ show_nat (length data) @ '' bytes, max '' @ show_nat (unat max_size) @ '')'')), s)
            else
              (let final = join_path dir name;
                   temp = temp_path_of env dir (ff_counter s);
                   s1 = s\<lparr>ff_counter := ff_counter s + 1\<rparr>
               in case write_atomic env None temp final data s1 of
                    (Inl e, s2) \<Rightarrow> (Inl e, s2)
                  | (Inr _, s2) \<Rightarrow>
                      upload_parts hs max_size dir ps
                        (uploaded @ [JObj [(''path'', JStr final), (''size'', JNum (int (length data)))]])
                        (files_log env hs FileWrite final
                          (Some (JObj [(''size'', JNum (int (length data))), (''upload'', JBool True)])) s2)))"

definition upload_file ::
    "files_env \<Rightarrow> u64 \<Rightarrow> headers \<Rightarrow> string \<Rightarrow> (files_env \<times> part) list \<Rightarrow> files_state
       \<Rightarrow> (api_failure + json) \<times> files_state" where
  "upload_file env max_size hs p parts s =
     (case validate_path p of
        Inl e \<Rightarrow> (Inl e, s)
      | Inr dir \<Rightarrow>
         (case fs_stat env dir (ff_fs s) of
            Inl e \<Rightarrow> (Inl (fs_fail ''Directory not found'' e), s)
          | Inr (FileNode _ _ _) \<Rightarrow> (Inl (api_fail 400 ''NOT_A_DIRECTORY'' ''Target path is not a directory''), s)
          | Inr DirNode \<Rightarrow>
             (case upload_parts hs max_size dir parts [] s of
                (Inl e, s1) \<Rightarrow> (Inl e, s1)
              | (Inr files, s1) \<Rightarrow> (Inr (JObj [(''ok'', JBool True), (''files'', JArr files)]), s1))))"

end
