(* ===== verification/Tunnel_Transfer.thy ===== *)
theory Tunnel_Transfer
  imports Tunnel_Client Ws_Messages
begin

text \<open>
  File transfers over HTTP (the endpoints of \<open>server/src/routes/stp.rs\<close>) and through the tunnel (the
  \<open>gx\<close> handlers of \<open>server/src/tunnel/client.rs\<close>): two front ends of one transfer manager. A handler
  takes the manager with the file system and gives the message it sends back; \<open>None\<close> is a panic, after
  which nothing is sent.
\<close>

subsection \<open>Bodies\<close>

definition init_download_value :: "init_download_result \<Rightarrow> json" where
  "init_download_value r =
     JObj (fields [(''transfer_id'', str (id_transfer_id r)), (''file_size'', num (id_file_size r)),
       (''file_hash'', str (id_file_hash r)), (''chunk_size'', num (id_chunk_size r)),
       (''total_chunks'', num (id_total_chunks r)), (''filename'', str (id_filename r))])"

definition init_upload_value :: "init_upload_result \<Rightarrow> json" where
  "init_upload_value r =
     JObj (fields [(''transfer_id'', str (ir_transfer_id r)), (''chunk_size'', num (ir_chunk_size r)),
       (''total_chunks'', num (ir_total_chunks r))])"

definition chunk_ack_value :: "chunk_ack \<Rightarrow> json" where
  "chunk_ack_value a =
     JObj (fields [(''transfer_id'', str (ca_transfer_id a)), (''chunk_index'', num (ca_chunk_index a)),
       (''ok'', flag (ca_ok a)), (''error'', opt_str (ca_error a))])"

definition resume_value :: "resume_result \<Rightarrow> json" where
  "resume_value r =
     JObj (fields [(''transfer_id'', str (rr_transfer_id r)), (''direction'', str (direction_name (rr_direction r))),
       (''chunks_received'', Some (JArr (map (JNum \<circ> uint) (rr_chunks_received r)))),
       (''total_chunks'', num (rr_total_chunks r)), (''chunk_size'', num (rr_chunk_size r)),
       (''file_size'', num (rr_file_size r)), (''file_hash'', str (rr_file_hash r))])"

definition status_value :: "status_result \<Rightarrow> json" where
  "status_value r =
     JObj (fields [(''transfer_id'', str (sr_transfer_id r)), (''direction'', str (direction_name (sr_direction r))),
       (''phase'', str (sr_phase r)), (''filename'', str (sr_filename r)), (''file_size'', num (sr_file_size r)),
       (''chunks_done'', num (sr_chunks_done r)), (''total_chunks'', num (sr_total_chunks r)),
       (''bytes_transferred'', num (sr_bytes_transferred r)), (''elapsed_ms'', num (sr_elapsed_ms r)),
       (''error_count'', num (sr_error_count r))])"

definition summary_value :: "transfer_summary \<Rightarrow> json" where
  "summary_value t =
     JObj (fields [(''transfer_id'', str (sm_transfer_id t)), (''direction'', str (direction_name (sm_direction t))),
       (''filename'', str (sm_filename t)), (''file_size'', num (sm_file_size t)), (''phase'', str (sm_phase t)),
       (''chunks_done'', num (sm_chunks_done t)), (''total_chunks'', num (sm_total_chunks t)),
       (''bytes_transferred'', num (sm_bytes_transferred t))])"

definition list_value :: "transfer_summary list \<Rightarrow> json" where
  "list_value ts = JObj [(''transfers'', JArr (map summary_value ts))]"

definition aborted_value :: "string \<Rightarrow> json" where
  "aborted_value tid = JObj [(''ok'', JBool True), (''transfer_id'', JStr tid)]"

subsection \<open>The endpoints of the device\<close>

type_synonym api_result = "(nat \<times> api_error) + json"

type_synonym gx_state = "filesystem \<times> transfer_manager"

definition http_outcome :: "(transfer_error, 'a) outcome \<Rightarrow> ('a \<Rightarrow> json) \<Rightarrow> api_result option" where
  "http_outcome r body =
     (case r of Ok a \<Rightarrow> Some (Inr (body a)) | Err e \<Rightarrow> Some (Inl (transfer_error_to_http e)) | Panic _ \<Rightarrow> None)"

definition stp_init_download :: "digest \<Rightarrow> io_env \<Rightarrow> string \<Rightarrow> u32 option \<Rightarrow> gx_state \<Rightarrow> api_result option \<times> gx_state" where
  "stp_init_download sha env path chunk_size st =
     (let (r, tm) = init_download sha env path chunk_size (fst st) (snd st)
      in (http_outcome r init_download_value, fst st, tm))"

definition stp_init_upload :: "io_env \<Rightarrow> init_upload_req \<Rightarrow> gx_state \<Rightarrow> api_result option \<times> gx_state" where
  "stp_init_upload env req st =
     (let (r, st') = init_upload env req (fst st) (snd st) in (http_outcome r init_upload_value, st'))"

text \<open>The response of a chunk: hash, index and transfer in the headers, and the data.\<close>

definition get_chunk ::
    "digest \<Rightarrow> io_env \<Rightarrow> string \<Rightarrow> u32 \<Rightarrow> gx_state
       \<Rightarrow> ((nat \<times> api_error) + string \<times> u32 \<times> string \<times> u8 list) option \<times> gx_state" where
  "get_chunk sha env xfer idx st =
     (case serve_chunk sha env xfer idx (fst st) (snd st) of
        (Ok (h, data), tm) \<Rightarrow> (Some (Inr (ch_chunk_hash h, ch_chunk_index h, ch_transfer_id h, data)), fst st, tm)
      | (Err e, tm) \<Rightarrow> (Some (Inl (transfer_error_to_http e)), fst st, tm)
      | (Panic _, tm) \<Rightarrow> (None, fst st, tm))"

definition resume_transfer :: "io_env \<Rightarrow> string \<Rightarrow> gx_state \<Rightarrow> api_result \<times> gx_state" where
  "resume_transfer env xfer st =
     (case resume env xfer (snd st) of
        (Inl e, tm) \<Rightarrow> (Inl (transfer_error_to_http e), fst st, tm)
      | (Inr r, tm) \<Rightarrow> (Inr (resume_value r), fst st, tm))"

definition stp_transfer_status :: "io_env \<Rightarrow> string \<Rightarrow> gx_state \<Rightarrow> api_result" where
  "stp_transfer_status env xfer st =
     (case transfer_status (io_now env) xfer (snd st) of
        Inl e \<Rightarrow> Inl (transfer_error_to_http e)
      | Inr r \<Rightarrow> Inr (status_value r))"

definition stp_list_transfers :: "gx_state \<Rightarrow> json" where
  "stp_list_transfers st = list_value (list_transfers (snd st))"

definition abort_transfer :: "io_env \<Rightarrow> string \<Rightarrow> gx_state \<Rightarrow> api_result \<times> gx_state" where
  "abort_transfer env xfer st =
     (case abort env xfer (fst st) (snd st) of
        (Inl e, st') \<Rightarrow> (Inl (transfer_error_to_http e), st')
      | (Inr _, st') \<Rightarrow> (Inr (aborted_value xfer), st'))"

subsection \<open>The handlers of the tunnel\<close>

definition opt_json :: "string option \<Rightarrow> json" where
  "opt_json x = (case x of Some s \<Rightarrow> JStr s | None \<Rightarrow> JNull)"

definition gx_result :: "string \<Rightarrow> string option \<Rightarrow> json \<Rightarrow> json" where
  "gx_result ty rid body =
     JObj [(''type'', JStr ty), (''request_id'', opt_json rid), (''status'', JNum 200), (''body'', body)]"

definition gx_status_code :: "string \<Rightarrow> int" where
  "gx_status_code code =
     (if code = ''FILE_NOT_FOUND'' \<or> code = ''TRANSFER_NOT_FOUND'' then 404
      else if code = ''PERMISSION_DENIED'' then 403
      else if code = ''DISK_FULL'' then 507
      else if code = ''MAX_TRANSFERS'' then 429
      else 400)"

definition gx_error_response :: "string \<Rightarrow> string option \<Rightarrow> transfer_error \<Rightarrow> json" where
  "gx_error_response ty rid e =
     JObj [(''type'', JStr ty), (''request_id'', opt_json rid), (''status'', JNum (gx_status_code (te_code e))),
       (''body'', JObj [(''error'', JStr (te_message e)), (''code'', JStr (te_code e)),
          (''transfer_id'', JStr (te_transfer_id e)), (''recoverable'', JBool (te_recoverable e))])]"

definition gx_str :: "json \<Rightarrow> string \<Rightarrow> string" where
  "gx_str msg k = json_str_or [] (json_index msg k)"

definition gx_u32 :: "json \<Rightarrow> string \<Rightarrow> u32" where
  "gx_u32 msg k = (case json_as_u64 (json_index msg k) of Some v \<Rightarrow> ucast v | None \<Rightarrow> 0)"

definition gx_request_id :: "json \<Rightarrow> string option" where
  "gx_request_id msg = json_as_str (json_index msg ''request_id'')"

definition gx_reply :: "string \<Rightarrow> json \<Rightarrow> (transfer_error, 'a) outcome \<Rightarrow> ('a \<Rightarrow> json) \<Rightarrow> tunnel_message option" where
  "gx_reply ty msg r body =
     (case r of
        Ok a \<Rightarrow> Some (TText (gx_result ty (gx_request_id msg) (body a)))
      | Err e \<Rightarrow> Some (TText (gx_error_response ty (gx_request_id msg) e))
      | Panic _ \<Rightarrow> None)"

definition handle_gx_download_init :: "digest \<Rightarrow> io_env \<Rightarrow> json \<Rightarrow> gx_state \<Rightarrow> tunnel_message option \<times> gx_state" where
  "handle_gx_download_init sha env msg st =
     (let (r, tm) = init_download sha env (gx_str msg ''path'')
            (map_option ucast (json_as_u64 (json_index msg ''chunk_size''))) (fst st) (snd st)
      in (gx_reply ''gx.download.init.result'' msg r init_download_value, fst st, tm))"

definition gx_upload_request :: "json \<Rightarrow> init_upload_req" where
  "gx_upload_request msg =
     \<lparr>iu_path = gx_str msg ''path'', iu_filename = gx_str msg ''filename'',
      iu_file_size = (case json_as_u64 (json_index msg ''file_size'') of Some v \<Rightarrow> v | None \<Rightarrow> 0),
      iu_file_hash = gx_str msg ''file_hash'', iu_chunk_size = gx_u32 msg ''chunk_size'',
      iu_total_chunks = gx_u32 msg ''total_chunks'', iu_mode = json_as_str (json_index msg ''mode'')\<rparr>"

definition handle_gx_upload_init :: "io_env \<Rightarrow> json \<Rightarrow> gx_state \<Rightarrow> tunnel_message option \<times> gx_state" where
  "handle_gx_upload_init env msg st =
     (let (r, st') = init_upload env (gx_upload_request msg) (fst st) (snd st)
      in (gx_reply ''gx.upload.init.result'' msg r init_upload_value, st'))"

definition handle_gx_chunk_request ::
    "(json \<Rightarrow> u8 list) \<Rightarrow> digest \<Rightarrow> io_env \<Rightarrow> json \<Rightarrow> gx_state \<Rightarrow> tunnel_message option \<times> gx_state" where
  "handle_gx_chunk_request ser sha env msg st =
     (let (r, tm) = serve_chunk sha env (gx_str msg ''transfer_id'') (gx_u32 msg ''chunk_index'') (fst st) (snd st);
          reply = (case r of
            Ok (h, data) \<Rightarrow> Some (TBinary (encode_binary_frame ser
               (JObj [(''type'', JStr ''gx.chunk''), (''request_id'', opt_json (gx_request_id msg)),
                 (''transfer_id'', JStr (ch_transfer_id h)), (''chunk_index'', JNum (uint (ch_chunk_index h))),
                 (''chunk_hash'', JStr (ch_chunk_hash h))]) data))
          | Err e \<Rightarrow> Some (TText (gx_error_response ''gx.chunk.ack'' (gx_request_id msg) e))
          | Panic _ \<Rightarrow> None)
      in (reply, fst st, tm))"

definition handle_gx_chunk_receive ::
    "digest \<Rightarrow> io_env \<Rightarrow> json \<Rightarrow> u8 list \<Rightarrow> gx_state \<Rightarrow> tunnel_message option \<times> gx_state" where
  "handle_gx_chunk_receive sha env header payload st =
     (let (r, st') = receive_chunk sha env (gx_str header ''transfer_id'') (gx_u32 header ''chunk_index'')
                       (gx_str header ''chunk_hash'') payload (fst st) (snd st);
          reply = (case r of
            Ok a \<Rightarrow> Some (TText (JObj [(''type'', JStr ''gx.chunk.ack''), (''request_id'', opt_json (gx_request_id header)),
               (''body'', chunk_ack_value a)]))
          | Err e \<Rightarrow> Some (TText (gx_error_response ''gx.chunk.ack'' (gx_request_id header) e))
          | Panic _ \<Rightarrow> None)
      in (reply, st'))"

text \<open>A binary frame of another type is only logged.\<close>

definition handle_relay_binary ::
    "digest \<Rightarrow> io_env \<Rightarrow> json \<Rightarrow> u8 list \<Rightarrow> gx_state \<Rightarrow> tunnel_message option \<times> gx_state" where
  "handle_relay_binary sha env header payload st =
     (if gx_str header ''type'' = ''gx.chunk'' then handle_gx_chunk_receive sha env header payload st else (None, st))"

definition handle_gx_resume :: "io_env \<Rightarrow> json \<Rightarrow> gx_state \<Rightarrow> tunnel_message option \<times> gx_state" where
  "handle_gx_resume env msg st =
     (case resume env (gx_str msg ''transfer_id'') (snd st) of
        (Inl e, tm) \<Rightarrow> (gx_reply ''gx.resume.result'' msg (Err e) resume_value, fst st, tm)
      | (Inr r, tm) \<Rightarrow> (gx_reply ''gx.resume.result'' msg (Ok r) resume_value, fst st, tm))"

definition handle_gx_abort :: "io_env \<Rightarrow> json \<Rightarrow> gx_state \<Rightarrow> tunnel_message option \<times> gx_state" where
  "handle_gx_abort env msg st =
     (let tid = gx_str msg ''transfer_id'' in
      case abort env tid (fst st) (snd st) of
        (Inl e, st') \<Rightarrow> (gx_reply ''gx.abort.result'' msg (Err e) aborted_value, st')
      | (Inr _, st') \<Rightarrow> (gx_reply ''gx.abort.result'' msg (Ok tid) aborted_value, st'))"

definition handle_gx_status :: "io_env \<Rightarrow> json \<Rightarrow> gx_state \<Rightarrow> tunnel_message option \<times> gx_state" where
  "handle_gx_status env msg st =
     (case transfer_status (io_now env) (gx_str msg ''transfer_id'') (snd st) of
        Inl e \<Rightarrow> (gx_reply ''gx.status.result'' msg (Err e) status_value, st)
      | Inr r \<Rightarrow> (gx_reply ''gx.status.result'' msg (Ok r) status_value, st))"

definition handle_gx_list :: "json \<Rightarrow> gx_state \<Rightarrow> tunnel_message option \<times> gx_state" where
  "handle_gx_list msg st =
     (Some (TText (gx_result ''gx.list.result'' (gx_request_id msg) (list_value (list_transfers (snd st))))), st)"

end
