(* ===== verification/Exec.thy ===== *)
theory Exec
  imports Files Tunnel_Sessions Tunnel_Transfer "HOL-Library.Monad_Syntax"
begin

text \<open>
  One-shot commands: capturing the output of a process (\<open>server/src/shell/process.rs\<close>), the
  endpoints \<open>exec\<close> and \<open>batch_exec\<close> (\<open>server/src/routes/exec.rs\<close>) and their counterparts that
  serve the tunnel (\<open>handle_tunnel_exec\<close> and \<open>handle_tunnel_exec_batch\<close> of
  \<open>server/src/tunnel/client.rs\<close>).

  The operating system is an argument: it tells how a process behaves, given what is started and what
  was started before it. The state records the processes started, the activity log and the cache of
  results.
\<close>

subsection \<open>Lossy decoding\<close>

text \<open>
  \<open>String::from_utf8_lossy\<close>: the next character, or the bytes that one replacement character stands
  for. A byte past the end counts as no continuation.
\<close>

definition byte_at :: "u8 list \<Rightarrow> nat \<Rightarrow> u8" where
  "byte_at bs i = (if i < length bs then bs ! i else 0)"

definition second_ok :: "u8 \<Rightarrow> u8 \<Rightarrow> bool" where
  "second_ok a b \<longleftrightarrow> cont_byte b \<and> (a = 0xE0 \<longrightarrow> 0xA0 \<le> b) \<and> (a = 0xED \<longrightarrow> b \<le> 0x9F) \<and> (a = 0xF0 \<longrightarrow> 0x90 \<le> b)
     \<and> (a = 0xF4 \<longrightarrow> b \<le> 0x8F)"

definition utf8_step :: "u8 list \<Rightarrow> nat \<times> bool" where
  "utf8_step bs =
     (let a = byte_at bs 0; b = byte_at bs 1; c = byte_at bs 2; d = byte_at bs 3 in
      if a \<le> 0x7F then (1, True)
      else if 0xC2 \<le> a \<and> a \<le> 0xDF then (if cont_byte b then (2, True) else (1, False))
      else if 0xE0 \<le> a \<and> a \<le> 0xEF
      then (if \<not> second_ok a b then (1, False) else if \<not> cont_byte c then (2, False) else (3, True))
      else if 0xF0 \<le> a \<and> a \<le> 0xF4
      then (if \<not> second_ok a b then (1, False) else if \<not> cont_byte c then (2, False)
            else if \<not> cont_byte d then (3, False) else (4, True))
      else (1, False))"

lemma utf8_step_pos: "1 \<le> fst (utf8_step bs)"
  by (simp add: utf8_step_def Let_def)

function utf8_lossy :: "u8 list \<Rightarrow> u8 list" where
  "utf8_lossy [] = []"
| "utf8_lossy (a # bs) =
     (let (n, ok) = utf8_step (a # bs)
      in (if ok then take n (a # bs) else [0xEF, 0xBF, 0xBD]) @ utf8_lossy (drop n (a # bs)))"
  by pat_completeness auto

termination
proof (relation "measure length")
  fix a :: u8 and bs n ok p assume "p = utf8_step (a # bs)" "(n, ok) = p"
  then have "1 \<le> n" using utf8_step_pos [of "a # bs"] by (metis fst_conv)
  then show "(drop n (a # bs), a # bs) \<in> measure length" by simp
qed simp

subsection \<open>Capturing the output\<close>

definition MAX_EXEC_OUTPUT :: nat where
  "MAX_EXEC_OUTPUT = 1024 * 1024"

text \<open>
  The results of successive reads: the bytes of one read, or an error. The end of the list is the end
  of the stream.
\<close>

fun read_loop :: "nat \<Rightarrow> u8 list option list \<Rightarrow> u8 list \<Rightarrow> nat \<Rightarrow> u8 list \<times> nat" where
  "read_loop max_bytes [] buf total_read = (buf, total_read)"
| "read_loop max_bytes (None # rs) buf total_read = (buf, total_read)"
| "read_loop max_bytes (Some tmp # rs) buf total_read =
     (let n = length tmp in
      if n = 0 then (buf, total_read)
      else read_loop max_bytes rs
             (if length buf < max_bytes then buf @ take (min n (max_bytes - length buf)) tmp else buf) (total_read + n))"

definition read_capped :: "nat \<Rightarrow> u8 list option list \<Rightarrow> string" where
  "read_capped max_bytes rs =
     (let (buf, total_read) = read_loop max_bytes rs [] 0
      in text_of (utf8_lossy buf)
         @ (if total_read > max_bytes
            then CHR 0x0A # ''[truncated: '' @ show_nat total_read @ '' bytes total, showing first '' @ show_nat max_bytes @ '']''
            else []))"

record spawn_spec =
  sp_shell :: string
  sp_working_dir :: string
  sp_command :: string
  sp_env :: "env_vars option"

text \<open>
  A process: whether it starts, what its pipes give, how it ends, after how many milliseconds both
  pipes are at their end and it has been waited for (\<open>None\<close>: never), and the clock afterwards.
\<close>

record process =
  px_spawn_err :: "string option"
  px_stdout :: "u8 list option list"
  px_stderr :: "u8 list option list"
  px_wait :: "string + int option"
  px_done_ms :: "nat option"
  px_clock_ms :: "nat option"

type_synonym os = "spawn_spec list \<Rightarrow> spawn_spec \<Rightarrow> process"

datatype exec_error = SpawnFailed string | ProcessFailed string | Timeout

fun exec_error_text :: "exec_error \<Rightarrow> string" where
  "exec_error_text (SpawnFailed e) = ''Failed to spawn process: '' @ e"
| "exec_error_text (ProcessFailed e) = ''Process error: '' @ e"
| "exec_error_text Timeout = ''Command timed out''"

record exec_output =
  xo_exit_code :: int
  xo_stdout :: string
  xo_stderr :: string
  xo_duration_ms :: u64

definition exec_process :: "process \<Rightarrow> u64 \<Rightarrow> exec_error + exec_output" where
  "exec_process p timeout_ms =
     (case px_spawn_err p of
        Some e \<Rightarrow> Inl (SpawnFailed e)
      | None \<Rightarrow>
         (case px_done_ms p of
            None \<Rightarrow> Inl Timeout
          | Some ms \<Rightarrow>
              if ms > unat timeout_ms then Inl Timeout
              else (case px_wait p of
                      Inl e \<Rightarrow> Inl (ProcessFailed e)
                    | Inr code \<Rightarrow>
                        Inr \<lparr>xo_exit_code = unwrap_or (- 1) code,
                             xo_stdout = read_capped MAX_EXEC_OUTPUT (px_stdout p),
                             xo_stderr = read_capped MAX_EXEC_OUTPUT (px_stderr p),
                             xo_duration_ms = of_nat ms\<rparr>)))"

subsection \<open>State\<close>

record exec_config =
  xc_timeout_ms :: u64
  xc_max_batch_size :: nat
  xc_shell :: shell_config
  xc_home :: "string option"

record exec_state =
  xs_spawned :: "spawn_spec list"
  xs_log :: activity_log
  xs_cache :: exec_cache

definition run_command :: "os \<Rightarrow> spawn_spec \<Rightarrow> u64 \<Rightarrow> exec_state \<Rightarrow> (exec_error + exec_output) \<times> nat option \<times> exec_state" where
  "run_command os sp timeout_ms s =
     (let p = os (xs_spawned s) sp
      in (exec_process p timeout_ms, px_clock_ms p, s\<lparr>xs_spawned := xs_spawned s @ [sp]\<rparr>))"

definition log_and_cache ::
    "activity_source \<Rightarrow> string option \<Rightarrow> nat option \<Rightarrow> json \<Rightarrow> (u64 \<Rightarrow> exec_result) \<Rightarrow> string \<Rightarrow> exec_state \<Rightarrow> exec_state" where
  "log_and_cache source request_id clock detail result command s =
     (let (aid, l) = log_activity \<lparr>lc_type = activity_type.Exec, lc_source = source, lc_summary = truncate_str command 80,
             lc_detail = Some detail, lc_request_id = request_id, lc_clock_ms = clock\<rparr> (xs_log s)
      in s\<lparr>xs_log := l, xs_cache := cache_store (result aid) (xs_cache s)\<rparr>)"

definition log_exec_ok ::
    "activity_source \<Rightarrow> string option \<Rightarrow> nat option \<Rightarrow> string \<Rightarrow> exec_output \<Rightarrow> exec_state \<Rightarrow> exec_state" where
  "log_exec_ok source request_id clock command r =
     log_and_cache source request_id clock
       (JObj [(''exit_code'', JNum (xo_exit_code r)), (''duration_ms'', JNum (uint (xo_duration_ms r))),
              (''stdout_preview'', JStr (truncate_str (xo_stdout r) 200)),
              (''stderr_preview'', JStr (truncate_str (xo_stderr r) 200)), (''has_full_output'', JBool True)])
       (\<lambda>aid. \<lparr>er_activity_id = aid, er_exit_code = xo_exit_code r, er_stdout = xo_stdout r, er_stderr = xo_stderr r,
               er_duration_ms = xo_duration_ms r, er_command = command, er_status = ''ok'', er_error_message = None\<rparr>)
       command"

definition log_exec_err ::
    "activity_source \<Rightarrow> string option \<Rightarrow> nat option \<Rightarrow> string \<Rightarrow> string \<Rightarrow> string \<Rightarrow> u64 \<Rightarrow> exec_state \<Rightarrow> exec_state" where
  "log_exec_err source request_id clock command status error_msg duration_ms =
     log_and_cache source request_id clock
       (JObj [(''exit_code'', JNum (- 1)), (''duration_ms'', JNum (uint duration_ms)), (''status'', JStr status),
              (''error'', JStr error_msg), (''has_full_output'', JBool True)])
       (\<lambda>aid. \<lparr>er_activity_id = aid, er_exit_code = - 1, er_stdout = [], er_stderr = error_msg,
               er_duration_ms = duration_ms, er_command = command, er_status = status, er_error_message = Some error_msg\<rparr>)
       command"

subsection \<open>One command\<close>

record exec_request =
  xr_command :: string
  xr_timeout_ms :: "u64 option"
  xr_request_id :: "string option"
  xr_working_dir :: "string option"
  xr_env :: "env_vars option"
  xr_shell :: "string option"

text \<open>
  The JSON body of the request: \<open>command\<close> is required, and an optional field that is present has to
  have its type. (A body is an object here; \<open>serde\<close> takes arrays as well.)
\<close>

definition de_opt :: "(json \<Rightarrow> 'a option) \<Rightarrow> json \<Rightarrow> string \<Rightarrow> 'a option option" where
  "de_opt de v k =
     (case json_get v k of
        None \<Rightarrow> Some None
      | Some x \<Rightarrow> if x = JNull then Some None else map_option Some (de x))"

definition de_req :: "(json \<Rightarrow> 'a option) \<Rightarrow> json \<Rightarrow> string \<Rightarrow> 'a option" where
  "de_req de v k = Option.bind (json_get v k) de"

definition exec_request_of :: "json \<Rightarrow> exec_request option" where
  "exec_request_of v = do {
     command \<leftarrow> de_req json_as_str v ''command'';
     timeout_ms \<leftarrow> de_opt json_as_u64 v ''timeout_ms'';
     request_id \<leftarrow> de_opt json_as_str v ''request_id'';
     working_dir \<leftarrow> de_opt json_as_str v ''working_dir'';
     env \<leftarrow> de_opt json_as_env v ''env'';
     sh \<leftarrow> de_opt json_as_str v ''shell'';
     Some \<lparr>xr_command = command, xr_timeout_ms = timeout_ms, xr_request_id = request_id, xr_working_dir = working_dir,
           xr_env = env, xr_shell = sh\<rparr>
   }"

record exec_response =
  xp_output :: exec_output
  xp_request_id :: "string option"

definition exec_detail :: "string option \<Rightarrow> api_error \<Rightarrow> api_error" where
  "exec_detail rid e = (case rid of Some r \<Rightarrow> with_detail (JObj [(''request_id'', JStr r)]) e | None \<Rightarrow> e)"

definition exec :: "os \<Rightarrow> exec_config \<Rightarrow> headers \<Rightarrow> exec_request \<Rightarrow> exec_state \<Rightarrow> (api_failure + exec_response) \<times> exec_state" where
  "exec os cfg hs req s =
     (let source = source_from_headers hs; req_id = request_id_from_headers hs;
          timeout = unwrap_or (xc_timeout_ms cfg) (xr_timeout_ms req);
          sp = \<lparr>sp_shell = unwrap_or (sc_default_shell (xc_shell cfg)) (xr_shell req),
                sp_working_dir = expand_tilde (xc_home cfg) (unwrap_or (sc_default_working_dir (xc_shell cfg)) (xr_working_dir req)),
                sp_command = xr_command req, sp_env = xr_env req\<rparr>
      in case run_command os sp timeout s of
           (Inr r, clock, s1) \<Rightarrow>
             (Inr \<lparr>xp_output = r, xp_request_id = xr_request_id req\<rparr>, log_exec_ok source req_id clock (xr_command req) r s1)
         | (Inl Timeout, clock, s1) \<Rightarrow>
             (Inl (504, exec_detail (xr_request_id req) (api_error_new ''TIMEOUT'' ''Command timed out'')),
              log_exec_err source req_id clock (xr_command req) ''timeout'' ''Command timed out'' timeout s1)
         | (Inl e, clock, s1) \<Rightarrow>
             (Inl (500, exec_detail (xr_request_id req) (api_error_new ''EXEC_FAILED'' (exec_error_text e))),
              log_exec_err source req_id clock (xr_command req) ''error'' (exec_error_text e) 0 s1))"

subsection \<open>Batches\<close>

record batch_command =
  bc_command :: string
  bc_timeout_ms :: "u64 option"
  bc_working_dir :: "string option"
  bc_env :: "env_vars option"
  bc_shell :: "string option"

record batch_exec_request =
  bx_commands :: "batch_command list"
  bx_working_dir :: "string option"
  bx_env :: "env_vars option"
  bx_shell :: "string option"
  bx_request_id :: "string option"

definition batch_command_of :: "json \<Rightarrow> batch_command option" where
  "batch_command_of v = do {
     command \<leftarrow> de_req json_as_str v ''command'';
     timeout_ms \<leftarrow> de_opt json_as_u64 v ''timeout_ms'';
     working_dir \<leftarrow> de_opt json_as_str v ''working_dir'';
     env \<leftarrow> de_opt json_as_env v ''env'';
     sh \<leftarrow> de_opt json_as_str v ''shell'';
     Some \<lparr>bc_command = command, bc_timeout_ms = timeout_ms, bc_working_dir = working_dir, bc_env = env, bc_shell = sh\<rparr>
   }"

definition batch_commands_of :: "json \<Rightarrow> batch_command list option" where
  "batch_commands_of v = Option.bind (json_as_array v) (\<lambda>vs. those (map batch_command_of vs))"

definition batch_exec_request_of :: "json \<Rightarrow> batch_exec_request option" where
  "batch_exec_request_of v = do {
     commands \<leftarrow> de_req batch_commands_of v ''commands'';
     working_dir \<leftarrow> de_opt json_as_str v ''working_dir'';
     env \<leftarrow> de_opt json_as_env v ''env'';
     sh \<leftarrow> de_opt json_as_str v ''shell'';
     request_id \<leftarrow> de_opt json_as_str v ''request_id'';
     Some \<lparr>bx_commands = commands, bx_working_dir = working_dir, bx_env = env, bx_shell = sh, bx_request_id = request_id\<rparr>
   }"

definition merge_env :: "env_vars option \<Rightarrow> env_vars option \<Rightarrow> env_vars option" where
  "merge_env batch_env cmd_env =
     (case (batch_env, cmd_env) of
        (None, None) \<Rightarrow> None
      | (Some base, None) \<Rightarrow> Some base
      | (None, Some over) \<Rightarrow> Some over
      | (Some base, Some over) \<Rightarrow> Some (fold (\<lambda>(k, v). hm_insert k v) over base))"

definition run_batch_command ::
    "os \<Rightarrow> exec_config \<Rightarrow> activity_source \<Rightarrow> string option \<Rightarrow> string \<Rightarrow> string \<Rightarrow> env_vars option \<Rightarrow> batch_command \<Rightarrow> exec_state
       \<Rightarrow> exec_output \<times> exec_state" where
  "run_batch_command os cfg source req_id default_shell default_dir env cmd s =
     (let timeout = unwrap_or (xc_timeout_ms cfg) (bc_timeout_ms cmd);
          sp = \<lparr>sp_shell = unwrap_or default_shell (bc_shell cmd),
                sp_working_dir = expand_tilde (xc_home cfg) (unwrap_or default_dir (bc_working_dir cmd)),
                sp_command = bc_command cmd, sp_env = env\<rparr>
      in case run_command os sp timeout s of
           (Inr r, clock, s1) \<Rightarrow> (r, log_exec_ok source req_id clock (bc_command cmd) r s1)
         | (Inl Timeout, clock, s1) \<Rightarrow>
             (\<lparr>xo_exit_code = - 1, xo_stdout = [], xo_stderr = ''Command timed out'', xo_duration_ms = timeout\<rparr>,
              log_exec_err source req_id clock (bc_command cmd) ''timeout'' ''Command timed out'' timeout s1)
         | (Inl e, clock, s1) \<Rightarrow>
             (\<lparr>xo_exit_code = - 1, xo_stdout = [], xo_stderr = exec_error_text e, xo_duration_ms = 0\<rparr>,
              log_exec_err source req_id clock (bc_command cmd) ''error'' (exec_error_text e) 0 s1))"

fun run_batch ::
    "os \<Rightarrow> exec_config \<Rightarrow> activity_source \<Rightarrow> string option \<Rightarrow> string \<Rightarrow> string \<Rightarrow> env_vars option \<Rightarrow> batch_command list \<Rightarrow> exec_state
       \<Rightarrow> exec_output list \<times> exec_state" where
  "run_batch os cfg source req_id sh dir env [] s = ([], s)"
| "run_batch os cfg source req_id sh dir env (cmd # cmds) s =
     (let (r, s1) = run_batch_command os cfg source req_id sh dir (merge_env env (bc_env cmd)) cmd s;
          (rs, s2) = run_batch os cfg source req_id sh dir env cmds s1
      in (r # rs, s2))"

definition batch_exec ::
    "os \<Rightarrow> exec_config \<Rightarrow> headers \<Rightarrow> batch_exec_request \<Rightarrow> exec_state \<Rightarrow> (api_failure + exec_output list \<times> string option) \<times> exec_state" where
  "batch_exec os cfg hs req s =
     (if bx_commands req = [] then (Inl (api_fail 400 ''INVALID_REQUEST'' ''commands array is empty''), s)
      else if length (bx_commands req) > xc_max_batch_size cfg
      then (Inl (api_fail 400 ''BATCH_TOO_LARGE'' (''Too many commands (max '' @ show_nat (xc_max_batch_size cfg) @ '')'')), s)
      else
        (let (rs, s1) = run_batch os cfg (source_from_headers hs) (request_id_from_headers hs)
               (unwrap_or (sc_default_shell (xc_shell cfg)) (bx_shell req))
               (expand_tilde (xc_home cfg) (unwrap_or (sc_default_working_dir (xc_shell cfg)) (bx_working_dir req)))
               (bx_env req) (bx_commands req) s
         in (Inr (rs, bx_request_id req), s1)))"

subsection \<open>Through the tunnel\<close>

definition log_tunnel_exec_ok ::
    "activity_source \<Rightarrow> string option \<Rightarrow> nat option \<Rightarrow> string \<Rightarrow> exec_output \<Rightarrow> exec_state \<Rightarrow> exec_state" where
  "log_tunnel_exec_ok source request_id clock command r =
     log_and_cache source request_id clock
       (JObj [(''exit_code'', JNum (xo_exit_code r)), (''duration_ms'', JNum (uint (xo_duration_ms r))),
              (''stdout_preview'', JStr (truncate_str (xo_stdout r) 200)),
              (''stderr_preview'', JStr (truncate_str (xo_stderr r) 200)), (''has_full_output'', JBool True)])
       (\<lambda>aid. \<lparr>er_activity_id = aid, er_exit_code = xo_exit_code r, er_stdout = xo_stdout r, er_stderr = xo_stderr r,
               er_duration_ms = xo_duration_ms r, er_command = command, er_status = ''ok'', er_error_message = None\<rparr>)
       command"

definition log_tunnel_exec_err ::
    "activity_source \<Rightarrow> string option \<Rightarrow> nat option \<Rightarrow> string \<Rightarrow> string \<Rightarrow> string \<Rightarrow> u64 \<Rightarrow> exec_state \<Rightarrow> exec_state" where
  "log_tunnel_exec_err source request_id clock command status error_msg duration_ms =
     log_and_cache source request_id clock
       (JObj [(''exit_code'', JNum (- 1)), (''duration_ms'', JNum (uint duration_ms)), (''status'', JStr status),
              (''error'', JStr error_msg), (''has_full_output'', JBool True)])
       (\<lambda>aid. \<lparr>er_activity_id = aid, er_exit_code = - 1, er_stdout = [], er_stderr = error_msg,
               er_duration_ms = duration_ms, er_command = command, er_status = status, er_error_message = Some error_msg\<rparr>)
       command"

definition tunnel_source :: "(string \<Rightarrow> bool) \<Rightarrow> json \<Rightarrow> activity_source" where
  "tunnel_source header_ok msg = source_from_headers (map_of (tunnel_headers header_ok msg))"

definition tunnel_answer :: "string \<Rightarrow> json \<Rightarrow> int \<Rightarrow> json \<Rightarrow> json" where
  "tunnel_answer ty msg status body =
     JObj [(''type'', JStr ty), (''request_id'', opt_json (gx_request_id msg)), (''status'', JNum status), (''body'', body)]"

definition error_body :: "string \<Rightarrow> string \<Rightarrow> json" where
  "error_body message code = JObj [(''error'', JStr message), (''code'', JStr code)]"

definition output_value :: "exec_output \<Rightarrow> json" where
  "output_value r =
     JObj [(''exit_code'', JNum (xo_exit_code r)), (''stdout'', JStr (xo_stdout r)), (''stderr'', JStr (xo_stderr r)),
           (''duration_ms'', JNum (uint (xo_duration_ms r)))]"

definition handle_tunnel_exec :: "os \<Rightarrow> exec_config \<Rightarrow> (string \<Rightarrow> bool) \<Rightarrow> json \<Rightarrow> exec_state \<Rightarrow> json \<times> exec_state" where
  "handle_tunnel_exec os cfg header_ok msg s =
     (let command = unwrap_or [] (str_field msg ''command'');
          timeout_ms = unwrap_or (xc_timeout_ms cfg) (u64_field msg ''timeout_ms'');
          sp = \<lparr>sp_shell = unwrap_or (sc_default_shell (xc_shell cfg)) (str_field msg ''shell''),
                sp_working_dir = expand_tilde (xc_home cfg)
                  (unwrap_or (sc_default_working_dir (xc_shell cfg)) (str_field msg ''working_dir'')),
                sp_command = command, sp_env = env_field msg\<rparr>;
          source = tunnel_source header_ok msg; req_id = gx_request_id msg
      in case run_command os sp timeout_ms s of
           (Inr r, clock, s1) \<Rightarrow>
             (tunnel_answer ''tunnel.exec.result'' msg 200 (output_value r), log_tunnel_exec_ok source req_id clock command r s1)
         | (Inl Timeout, clock, s1) \<Rightarrow>
             (tunnel_answer ''tunnel.exec.result'' msg 504 (error_body ''Command timed out'' ''TIMEOUT''),
              log_tunnel_exec_err source req_id clock command ''timeout'' ''Command timed out'' timeout_ms s1)
         | (Inl e, clock, s1) \<Rightarrow>
             (tunnel_answer ''tunnel.exec.result'' msg 500 (error_body (exec_error_text e) ''EXEC_FAILED''),
              log_tunnel_exec_err source req_id clock command ''error'' (exec_error_text e) 0 s1))"

definition tunnel_batch_command ::
    "os \<Rightarrow> exec_config \<Rightarrow> activity_source \<Rightarrow> string option \<Rightarrow> string \<Rightarrow> string \<Rightarrow> env_vars option \<Rightarrow> json \<Rightarrow> exec_state
       \<Rightarrow> json \<times> exec_state" where
  "tunnel_batch_command os cfg source req_id default_shell expanded_default_dir batch_env cmd s =
     (let command = unwrap_or [] (str_field cmd ''command'');
          timeout = unwrap_or (xc_timeout_ms cfg) (u64_field cmd ''timeout_ms'');
          cmd_env = env_field cmd;
          merged_env = (case (batch_env, cmd_env) of
              (None, None) \<Rightarrow> None
            | (Some base, None) \<Rightarrow> Some base
            | (None, Some over) \<Rightarrow> Some over
            | (Some base, Some over) \<Rightarrow> Some (fold (\<lambda>(k, v). hm_insert k v) over base));
          sp = \<lparr>sp_shell = unwrap_or default_shell (str_field cmd ''shell''),
                sp_working_dir = expand_tilde (xc_home cfg) (unwrap_or expanded_default_dir (str_field cmd ''working_dir'')),
                sp_command = command, sp_env = merged_env\<rparr>
      in case run_command os sp timeout s of
           (Inr r, clock, s1) \<Rightarrow> (output_value r, log_tunnel_exec_ok source req_id clock command r s1)
         | (Inl Timeout, clock, s1) \<Rightarrow>
             (JObj [(''exit_code'', JNum (- 1)), (''stdout'', JStr []), (''stderr'', JStr ''Command timed out''),
                    (''duration_ms'', JNum (uint timeout))],
              log_tunnel_exec_err source req_id clock command ''timeout'' ''Command timed out'' timeout s1)
         | (Inl e, clock, s1) \<Rightarrow>
             (JObj [(''exit_code'', JNum (- 1)), (''stdout'', JStr []), (''stderr'', JStr (exec_error_text e)), (''duration_ms'', JNum 0)],
              log_tunnel_exec_err source req_id clock command ''error'' (exec_error_text e) 0 s1))"

fun tunnel_batch ::
    "os \<Rightarrow> exec_config \<Rightarrow> activity_source \<Rightarrow> string option \<Rightarrow> string \<Rightarrow> string \<Rightarrow> env_vars option \<Rightarrow> json list \<Rightarrow> exec_state
       \<Rightarrow> json list \<times> exec_state" where
  "tunnel_batch os cfg source req_id sh dir env [] s = ([], s)"
| "tunnel_batch os cfg source req_id sh dir env (cmd # cmds) s =
     (let (r, s1) = tunnel_batch_command os cfg source req_id sh dir env cmd s;
          (rs, s2) = tunnel_batch os cfg source req_id sh dir env cmds s1
      in (r # rs, s2))"

definition handle_tunnel_exec_batch ::
    "os \<Rightarrow> exec_config \<Rightarrow> (string \<Rightarrow> bool) \<Rightarrow> json \<Rightarrow> exec_state \<Rightarrow> json \<times> exec_state" where
  "handle_tunnel_exec_batch os cfg header_ok msg s =
     (let answer = tunnel_answer ''tunnel.exec_batch.result'' msg in
      case json_as_array (json_index msg ''commands'') of
        None \<Rightarrow> (answer 400 (error_body ''commands array is required'' ''INVALID_REQUEST''), s)
      | Some commands \<Rightarrow>
          if length commands > xc_max_batch_size cfg
          then (answer 400 (error_body (''Too many commands (max '' @ show_nat (xc_max_batch_size cfg) @ '')'') ''BATCH_TOO_LARGE''), s)
          else
            (let (rs, s1) = tunnel_batch os cfg (tunnel_source header_ok msg) (gx_request_id msg)
                   (unwrap_or (sc_default_shell (xc_shell cfg)) (str_field msg ''shell''))
                   (expand_tilde (xc_home cfg) (unwrap_or (sc_default_working_dir (xc_shell cfg)) (str_field msg ''working_dir'')))
                   (env_field msg) commands s
             in (answer 200 (JObj [(''results'', JArr rs)]), s1)))"

end
