(* ===== verification/Files_Props.thy ===== *)
theory Files_Props
  imports Files
begin

text \<open>
  The file endpoints are safe to use on a live system: a write replaces the target in one step, so
  that neither a crash nor a concurrent reader sees anything but the old or the new file; what was
  written is what is read; and reading in ranges gives the file, whatever the size of each read.
\<close>

subsection \<open>What a sequence of effects leaves alone\<close>

definition same_at :: "string \<Rightarrow> files_state \<Rightarrow> files_state \<Rightarrow> bool" where
  "same_at p s s' \<longleftrightarrow> ff_fs s' p = ff_fs s p
     \<and> (\<exists>ts. ff_trace s' = ff_trace s @ ts \<and> list_all (\<lambda>fs. fs p = ff_fs s p) ts)"

lemma same_at_refl [simp]: "same_at p s s"
  by (simp add: same_at_def)

lemma same_at_trans: "same_at p s s' \<Longrightarrow> same_at p s' s'' \<Longrightarrow> same_at p s s''"
  by (auto simp: same_at_def)

lemma same_at_visit: "(\<And>fs. f fs p = fs p) \<Longrightarrow> same_at p s (visit f s)"
  by (simp add: same_at_def visit_def)

lemma same_at_fold:
  assumes "\<And>x fs. x \<in> set xs \<Longrightarrow> f x fs p = fs p"
  shows "same_at p s (fold (\<lambda>x. visit (f x)) xs s)"
  using assms
proof (induction xs arbitrary: s)
  case Nil
  show ?case by (simp add: same_at_refl)
next
  case (Cons x xs)
  have "same_at p s (visit (f x) s)" using Cons.prems by (intro same_at_visit) simp
  moreover have "same_at p (visit (f x) s) (fold (\<lambda>x. visit (f x)) xs (visit (f x) s))"
    using Cons.prems by (intro Cons.IH) simp
  ultimately show ?case using same_at_trans by simp
qed

lemma same_at_counter: "same_at p (s\<lparr>ff_counter := n\<rparr>) s' \<longleftrightarrow> same_at p s s'"
  by (simp add: same_at_def)

lemma same_at_log [simp]: "same_at p s (files_log env hs ty x d s') \<longleftrightarrow> same_at p s s'"
  "ff_fs (files_log env hs ty x d s') = ff_fs s'" "ff_trace (files_log env hs ty x d s') = ff_trace s'"
  by (simp_all add: same_at_def files_log_def)

lemma ff_fs_visit [simp]: "ff_fs (visit f s) = f (ff_fs s)" "ff_trace (visit f s) = ff_trace s @ [f (ff_fs s)]"
  by (simp_all add: visit_def)

subsection \<open>The steps of an atomic write\<close>

lemma fs_write_new_same: "p \<noteq> temp \<Longrightarrow> same_at p s (snd (fs_write_new env temp data s))"
proof -
  assume ne: "p \<noteq> temp"
  let ?s = "fold (\<lambda>n. visit (put_node env temp (take n data))) (0 # fe_progress env) s"
  have "same_at p s ?s" using ne by (intro same_at_fold) (simp add: put_node_def)
  moreover have "same_at p ?s (visit (put_node env temp data) ?s)" using ne by (intro same_at_visit) (simp add: put_node_def)
  ultimately show ?thesis
    by (auto simp: fs_write_new_def Let_def same_at_refl split: option.split intro: same_at_trans simp del: fold_simps)
qed

lemma fs_write_new_data:
  "fs_write_new env temp data s = (Inr u, s') \<Longrightarrow> ff_fs s' temp = Some (FileNode data (fe_mtime env) (fe_create_mode env))"
  by (auto simp: fs_write_new_def Let_def put_node_def split: option.splits simp del: fold_simps)

lemma remove_temp_same: "p \<noteq> temp \<Longrightarrow> same_at p s (remove_temp env temp s)"
  by (auto simp: remove_temp_def intro: same_at_visit)

lemma chmod_temp_same: "p \<noteq> temp \<Longrightarrow> same_at p s (snd (chmod_temp env mode temp s))"
  by (auto simp: chmod_temp_def set_mode_def remove_temp_same split: option.split node.split
      intro!: same_at_visit)

lemma chmod_temp_data:
  assumes "chmod_temp env mode temp s = (Inr u, s')" and "ff_fs s temp = Some (FileNode data t m)"
  shows "\<exists>m'. ff_fs s' temp = Some (FileNode data t m')"
  using assms by (auto simp: chmod_temp_def set_mode_def split: option.splits)

lemma write_atomic_fails:
  assumes "write_atomic env mode temp final data s = (Inl e, s')" and "final \<noteq> temp"
  shows "same_at final s s'"
  using assms fs_write_new_same [OF assms(2), of s env data] chmod_temp_same [OF assms(2), of _ env mode]
    remove_temp_same [OF assms(2), of _ env]
  by (auto simp: write_atomic_def rename_temp_to_final_def split: prod.splits sum.splits option.splits)
    (metis same_at_trans snd_conv)+

lemma write_atomic_ok:
  assumes "write_atomic env mode temp final data s = (Inr u, s')" and "final \<noteq> temp"
  obtains s2 t m where "same_at final s s2" and "ff_fs s2 temp = Some (FileNode data t m)"
    and "s' = visit (\<lambda>fs. fs(temp := None, final := fs temp)) s2"
proof -
  from assms(1) obtain u1 s1 u2 s2 where w: "fs_write_new env temp data s = (Inr u1, s1)"
    and c: "chmod_temp env mode temp s1 = (Inr u2, s2)" and r: "rename_temp_to_final env temp final s2 = (Inr u, s')"
    by (auto simp: write_atomic_def split: prod.splits sum.splits)
  have "same_at final s s1" using fs_write_new_same [OF assms(2), of s env data] w by simp
  moreover have "same_at final s1 s2" using chmod_temp_same [OF assms(2), of s1 env mode] c by simp
  ultimately have "same_at final s s2" by (rule same_at_trans)
  moreover obtain m where "ff_fs s2 temp = Some (FileNode data (fe_mtime env) m)"
    using chmod_temp_data [OF c fs_write_new_data [OF w]] by blast
  moreover have "s' = visit (\<lambda>fs. fs(temp := None, final := fs temp)) s2"
    using r by (auto simp: rename_temp_to_final_def split: option.splits)
  ultimately show ?thesis by (rule that)
qed

subsection \<open>Parents\<close>

lemma length_strip_trailing: "length (strip_trailing s) \<le> length s"
  by (induction s rule: strip_trailing.induct) auto

lemma strip_trailing_hd: "strip_trailing s = c # t \<Longrightarrow> c \<noteq> CHR ''/''"
  by (induction s rule: strip_trailing.induct) (auto split: if_splits)

lemma parent_shorter:
  assumes "starts_with ''/'' p" and "parent_path p = Some d"
  shows "length d < length p"
proof -
  from assms(1) obtain q where q: "p = CHR ''/'' # q" by (auto simp: starts_with_def strip_prefix_Some_iff)
  define r where "r = strip_trailing (rev p)"
  from assms(2) obtain c t where r: "r = c # t" by (cases r) (auto simp: parent_path_def r_def Let_def)
  have c: "c \<noteq> CHR ''/''" using strip_trailing_hd r by (simp add: r_def)
  have len: "length r \<le> length p" using length_strip_trailing [of "rev p"] by (simp add: r_def)
  have "length (dropWhile (\<lambda>c. c \<noteq> CHR ''/'') r) < length r" using c r length_dropWhile_le [of _ t] by (auto simp: less_Suc_eq_le)
  then have "length (strip_trailing (dropWhile (\<lambda>c. c \<noteq> CHR ''/'') r)) < length p"
    using length_strip_trailing [of "dropWhile (\<lambda>c. c \<noteq> CHR ''/'') r"] len by linarith
  moreover have "1 < length p"
  proof (rule ccontr)
    assume "\<not> 1 < length p"
    then have "r = strip_trailing [CHR ''/'']" using q by (simp add: r_def)
    then show False using r by simp
  qed
  ultimately show ?thesis using assms(2) by (auto simp: parent_path_def Let_def r_def [symmetric] split: if_splits)
qed

lemma dirs_of_shorter: "d \<in> set (dirs_of p) \<Longrightarrow> length d \<le> length p"
  by (auto simp: dirs_of_def)

lemma create_dir_all_same:
  assumes "starts_with ''/'' p" and "parent_path p = Some d"
  shows "same_at p s (snd (create_dir_all env d s))"
proof -
  have "p \<notin> set (dirs_of d)" using dirs_of_shorter [of p d] parent_shorter [OF assms] by auto
  then show ?thesis by (auto simp: create_dir_all_def split: option.split intro!: same_at_fold)
qed

subsection \<open>Writes are atomic\<close>

definition temp_of :: "files_env \<Rightarrow> file_write_request \<Rightarrow> files_state \<Rightarrow> string" where
  "temp_of env req s = temp_path_of env (case parent_path (fw_path req) of Some d \<Rightarrow> d | None \<Rightarrow> ''/'') (ff_counter s)"

lemma validate_path_Inr: "validate_path p = Inr q \<Longrightarrow> q = p \<and> starts_with ''/'' p"
  by (auto simp: validate_path_def split: if_splits)

lemma make_parents_same:
  assumes "starts_with ''/'' p"
  shows "same_at p s (snd (make_parents env b p s))" "ff_counter (snd (make_parents env b p s)) = ff_counter s"
proof -
  have "ff_counter (fold (\<lambda>d. visit (\<lambda>fs. if fs d = None then fs(d \<mapsto> DirNode) else fs)) xs t) = ff_counter t" for xs t
    by (induction xs arbitrary: t) (simp_all add: visit_def)
  then show "ff_counter (snd (make_parents env b p s)) = ff_counter s"
    by (simp add: make_parents_def create_dir_all_def split: option.split)
qed (use create_dir_all_same [OF assms] in \<open>auto simp: make_parents_def split: option.split\<close>)

text \<open>
  A write either leaves the target as it was all along, or reaches, after steps that leave it as it
  was, the one step that puts the new file in its place.
\<close>

lemma put_file_cases:
  assumes "put_file unb64 env max_size hs req s = (r, s')" and "fw_path req \<noteq> temp_of env req s"
  obtains "isl r" and "same_at (fw_path req) s s'"
  | data s2 s3 t m where "\<not> isl r" and "content_bytes unb64 req = Inr data" and "same_at (fw_path req) s s2"
    and "ff_fs s2 (temp_of env req s) = Some (FileNode data t m)"
    and "s3 = visit (\<lambda>fs. fs(temp_of env req s := None, fw_path req := fs (temp_of env req s))) s2"
    and "ff_fs s' = ff_fs s3" and "ff_trace s' = ff_trace s3" and "length data \<le> unat max_size"
proof (cases "\<exists>data s1. validate_path (fw_path req) = Inr (fw_path req) \<and> content_bytes unb64 req = Inr data
    \<and> length data \<le> unat max_size \<and> make_parents env (fw_create_dirs req) (fw_path req) s = (Inr (), s1)")
  case False
  then show ?thesis
    using assms that(1) make_parents_same [where p = "fw_path req" and s = s and env = env and b = "fw_create_dirs req"]
    by (fastforce simp: put_file_def split: sum.splits prod.splits if_splits dest: validate_path_Inr)
next
  case True
  then obtain data s1 where ok: "validate_path (fw_path req) = Inr (fw_path req)" "content_bytes unb64 req = Inr data"
    "length data \<le> unat max_size" "make_parents env (fw_create_dirs req) (fw_path req) s = (Inr (), s1)" by blast
  have s1: "same_at (fw_path req) s s1" "ff_counter s1 = ff_counter s"
    using make_parents_same [where p = "fw_path req" and s = s and env = env and b = "fw_create_dirs req"] validate_path_Inr ok(1,4) by auto
  let ?s2 = "s1\<lparr>ff_counter := ff_counter s1 + 1\<rparr>" and ?temp = "temp_of env req s"
  obtain w s3 where w: "write_atomic env (fw_mode req) ?temp (fw_path req) data ?s2 = (w, s3)"
    by (cases "write_atomic env (fw_mode req) ?temp (fw_path req) data ?s2")
  have res: "isl r = isl w" "ff_fs s' = ff_fs s3" "ff_trace s' = ff_trace s3"
    using assms(1) ok w s1(2) by (auto simp: put_file_def temp_of_def Let_def split: sum.splits)
  show ?thesis
  proof (cases w)
    case (Inl e)
    then have "same_at (fw_path req) s s3"
      using same_at_trans [OF s1(1)] write_atomic_fails [of env "fw_mode req" ?temp "fw_path req" data ?s2 e s3] w assms(2)
      by (simp add: same_at_counter)
    then show ?thesis using that(1) res Inl by (simp add: same_at_def)
  next
    case (Inr v)
    from write_atomic_ok [OF w [unfolded Inr] assms(2)] obtain s4 t m where s4: "same_at (fw_path req) ?s2 s4" "ff_fs s4 ?temp = Some (FileNode data t m)"
      "s3 = visit (\<lambda>fs. fs(?temp := None, fw_path req := fs ?temp)) s4"
      by blast
    from s4(1) have "same_at (fw_path req) s s4" using same_at_trans [OF s1(1)] by (simp add: same_at_counter)
    moreover have "\<not> isl r" using res(1) Inr by simp
    ultimately show ?thesis using that(2) [OF _ ok(2) _ s4(2,3) res(2,3) ok(3)] by blast
  qed
qed

text \<open>
  C4. Writing a file is atomic. At every moment of \<open>PUT /api/files\<close>, whatever fails and wherever it is
  interrupted, the target is the file that was there before or a file with exactly the new content:
  never an empty, partial or missing one. A request that reports an error has left the target as it
  was, and one that reports success has put the new content in place.
\<close>

theorem file_write_atomic:
  assumes "put_file unb64 env max_size hs req s = (r, s')" and "fw_path req \<noteq> temp_of env req s"
  shows "(\<exists>ts. ff_trace s' = ff_trace s @ ts \<and> list_all (\<lambda>fs. fs (fw_path req) = ff_fs s (fw_path req)
            \<or> file_data fs (fw_path req) \<in> Some ` set (case content_bytes unb64 req of Inr d \<Rightarrow> [d] | Inl _ \<Rightarrow> [])) ts)
    \<and> (case r of Inl _ \<Rightarrow> ff_fs s' (fw_path req) = ff_fs s (fw_path req)
       | Inr _ \<Rightarrow> \<exists>data. content_bytes unb64 req = Inr data \<and> file_data (ff_fs s') (fw_path req) = Some data)"
  using assms
proof (cases rule: put_file_cases)
  case 1
  then show ?thesis by (cases r) (auto simp: same_at_def list_all_iff)
next
  case (2 data s2 s3 t m)
  obtain ts where "ff_trace s2 = ff_trace s @ ts" "list_all (\<lambda>fs. fs (fw_path req) = ff_fs s (fw_path req)) ts"
    using 2(3) by (auto simp: same_at_def)
  moreover have "file_data (ff_fs s3) (fw_path req) = Some data" using 2(4,5) by (simp add: file_data_def)
  ultimately show ?thesis
    using 2 by (cases r) (auto simp: list_all_iff file_data_def intro!: exI [of _ "ts @ [ff_fs s3]"])
qed

definition ok_env :: files_env where
  "ok_env = \<lparr>fe_stat_err = None, fe_open_err = None, fe_seek_err = None, fe_read = Inr 100, fe_entries = Inr [],
     fe_mkdir_err = None, fe_create_err = None, fe_progress = [1], fe_write_err = None, fe_chmod_err = None,
     fe_rename_err = None, fe_remove_err = None, fe_mtime = Some 9, fe_create_mode = 0x1A4, fe_pid = 7, fe_clock_ms = None\<rparr>"

definition sample_files :: files_state where
  "sample_files = \<lparr>ff_fs = [''/etc/motd'' \<mapsto> FileNode [111, 108, 100] (Some 5) 0x1A4, ''/etc'' \<mapsto> DirNode],
     ff_trace = [], ff_counter = 3, ff_log = new_log 10\<rparr>"

definition sample_write :: file_write_request where
  "sample_write = \<lparr>fw_path = ''/etc/motd'', fw_content = ''new'', fw_create_dirs = False, fw_mode = None, fw_encoding = None\<rparr>"

lemma sample_temp: "temp_of ok_env sample_write sample_files = ''/etc/.sctl_tmp_7_3''"
  by code_simp

lemma sample_put:
  "\<exists>v s'. put_file unb64 ok_env 64 (\<lambda>_. None) sample_write sample_files = (Inr v, s') \<and> length (ff_trace s') = 4"
  by (simp add: put_file_def validate_path_def sample_write_def content_bytes_def make_parents_def write_atomic_def
      fs_write_new_def chmod_temp_def rename_temp_to_final_def ok_env_def sample_files_def Let_def starts_with_def bytes_def
      files_log_def visit_def)

text \<open>A write over an existing file: four changes of the file system, the last of which puts the new file in place.\<close>

theorem file_write_atomic_witness:
  "\<exists>v s'. put_file (\<lambda>_. Inl []) ok_env 64 (\<lambda>_. None) sample_write sample_files = (Inr v, s')
     \<and> length (ff_trace s') = 4
     \<and> list_all (\<lambda>fs. fs ''/etc/motd'' = ff_fs sample_files ''/etc/motd'' \<or> file_data fs ''/etc/motd'' = Some (bytes ''new''))
         (ff_trace s')
     \<and> file_data (ff_fs s') ''/etc/motd'' = Some (bytes ''new'')"
proof -
  obtain v s' where p: "put_file (\<lambda>_. Inl []) ok_env 64 (\<lambda>_. None) sample_write sample_files = (Inr v, s')"
    "length (ff_trace s') = 4" using sample_put by blast
  have ne: "fw_path sample_write \<noteq> temp_of ok_env sample_write sample_files"
    unfolding sample_temp by (simp add: sample_write_def)
  have c: "content_bytes (\<lambda>_. Inl []) sample_write = Inr (bytes ''new'')" "fw_path sample_write = ''/etc/motd''"
    "ff_trace sample_files = []"
    by (simp_all add: content_bytes_def sample_write_def sample_files_def)
  show ?thesis using file_write_atomic [OF p(1) ne] p unfolding c by (auto simp: list_all_iff)
qed

subsection \<open>What was written is read\<close>

definition response_bytes :: "(string \<Rightarrow> string + u8 list) \<Rightarrow> json \<Rightarrow> string + u8 list" where
  "response_bytes unb64 v =
     (let content = json_str_or [] (json_index v ''content'') in
      if json_index v ''encoding'' = JStr ''base64'' then unb64 content else Inr (bytes content))"

definition more_to_read :: "json \<Rightarrow> bool" where
  "more_to_read v \<longleftrightarrow> json_index v ''truncated'' = JBool True"

lemma bytes_text_of: "bytes (text_of bs) = bs"
proof -
  have "of_char (char_of (unat b)) = b" for b :: u8
  proof -
    have "unat b < 256" using unat_bound [of b] by simp
    then have "(of_char (char_of (unat b)) :: nat) = unat b" by simp
    then have "(of_nat (of_char (char_of (unat b))) :: u8) = b" by simp
    then show ?thesis by (simp only: of_nat_of_char)
  qed
  then show ?thesis by (simp add: bytes_def text_of_def map_idI)
qed

lemma read_response:
  "response_bytes unb64 (file_read_response path content sz modified enc b)
     = (if enc = Some ''base64'' then unb64 content else Inr (bytes content))"
  "more_to_read (file_read_response path content sz modified enc b) = b"
  by (auto simp: response_bytes_def more_to_read_def file_read_response_def json_index_obj json_str_or_def json_as_str_simps
      split: option.split)

lemma encode_content_decodes:
  assumes "unb64 (b64 bs) = Inr bs"
  shows "response_bytes unb64 (file_read_response path (fst (encode_content b64 bs)) sz modified (snd (encode_content b64 bs)) b)
    = Inr bs"
  using assms by (simp add: read_response encode_content_def bytes_text_of)

definition reads_ok :: "files_env \<Rightarrow> bool" where
  "reads_ok env \<longleftrightarrow> fe_stat_err env = None \<and> fe_open_err env = None \<and> fe_seek_err env = None
     \<and> (\<exists>n \<ge> 1. fe_read env = Inr n)"

lemma read_file_slice:
  assumes "file_data fs path = Some data" and "length data < 2 ^ 64" and "fe_read env = Inr n"
    and "fe_stat_err env = None" "fe_open_err env = None" "fe_seek_err env = None"
    and "offset \<noteq> None \<or> limit \<noteq> None \<or> length data \<le> unat max_size"
    and "\<And>bs. unb64 (b64 bs) = Inr bs"
    and off: "off = unat (case offset of Some v \<Rightarrow> v | None \<Rightarrow> 0)"
    and lim: "lim = unat (case limit of Some l \<Rightarrow> min l max_size | None \<Rightarrow> max_size)"
    and "off \<le> length data"
  shows "\<exists>v. read_file b64 env path max_size offset limit fs = Inr v
    \<and> response_bytes unb64 v = Inr (take (min n (min lim (length data - off))) (drop off data))
    \<and> (more_to_read v \<longleftrightarrow> off + min n (min lim (length data - off)) < length data)"
proof -
  from assms(1) obtain t m where node: "fs path = Some (FileNode data t m)"
    by (auto simp: file_data_def split: option.splits node.splits)
  define o' where "o' = (case offset of Some v \<Rightarrow> v | None \<Rightarrow> (0 :: u64))"
  define l' where "l' = (case limit of Some l \<Rightarrow> min l max_size | None \<Rightarrow> max_size)"
  have size: "unat (of_nat (length data) :: u64) = length data" using assms(2) by (simp add: unat_of_nat_small)
  have rem: "unat (min l' (saturating_sub (of_nat (length data)) o')) = min lim (length data - off)"
    by (simp add: unat_saturating_sub size off lim o'_def l'_def min_def word_le_nat_alt split: option.split)
  define k where "k = min n (min lim (length data - off))"
  have k: "length (take k (drop off data)) = k" by (simp add: k_def)
  have "unat (o' + of_nat k) = off + k"
    using assms(2,11) off by (subst unat_plus_simple [THEN iffD1]) (auto simp: k_def o'_def unat_of_nat_small word_le_nat_alt unat_word_ariths)
  then have more: "o' + of_nat k < of_nat (length data) \<longleftrightarrow> off + k < length data"
    by (simp add: word_less_nat_alt size)
  have n: "min n (unat (min l' (saturating_sub (of_nat (length data)) o'))) = k" by (simp add: rem k_def)
  have o: "unat o' = off" by (simp add: off o'_def)
  have guard: "\<not> (offset = None \<and> limit = None \<and> max_size < of_nat (length data))"
    using assms(7) by (auto simp: word_less_nat_alt size)
  let ?bs = "take k (drop off data)"
  have "read_file b64 env path max_size offset limit fs =
      Inr (file_read_response path (fst (encode_content b64 ?bs)) (of_nat (length data)) (format_system_time t)
        (snd (encode_content b64 ?bs)) (o' + of_nat (length ?bs) < of_nat (length data)))"
    using guard
    by (simp only: read_file_def fs_stat_def node assms(3-6) option.case sum.case node.case Let_def o'_def [symmetric]
        l'_def [symmetric] n o case_prod_beta if_False if_cancel)
  also have "(o' + of_nat (length ?bs) < of_nat (length data)) = (off + k < length data)" by (simp only: k more)
  finally show ?thesis
    using encode_content_decodes [of unb64 b64 ?bs, OF assms(8)] by (simp add: k_def [symmetric] read_response(2))
qed

text \<open>
  C33. What is written is what is read: after a successful \<open>PUT\<close> a fault-free \<open>GET\<close> of the same path
  returns exactly the bytes the request carried, as text or, when they are not text, as base64, and
  does not call them truncated.
\<close>

theorem file_write_read:
  assumes "put_file unb64 env max_size hs req s = (Inr v, s')" and "fw_path req \<noteq> temp_of env req s"
    and "content_bytes unb64 req = Inr data" and "\<And>bs. unb64 (b64 bs) = Inr bs"
    and "fe_stat_err env' = None" "fe_open_err env' = None" "fe_seek_err env' = None"
    and "fe_read env' = Inr n" and "length data \<le> n"
  shows "\<exists>resp. read_file b64 env' (fw_path req) max_size None None (ff_fs s') = Inr resp
    \<and> response_bytes unb64 resp = Inr data \<and> \<not> more_to_read resp"
proof -
  from assms(1,2) obtain d where "content_bytes unb64 req = Inr d" "length d \<le> unat max_size"
    "file_data (ff_fs s') (fw_path req) = Some d"
    by (cases rule: put_file_cases) (auto simp: file_data_def)
  with assms(3) have d: "length data \<le> unat max_size" "file_data (ff_fs s') (fw_path req) = Some data" by auto
  have small: "length data < 2 ^ 64" using d(1) unat_bound [of max_size] by simp
  have slice: "min n (min (unat max_size) (length data - 0)) = length data" using d(1) assms(9) by simp
  have "\<exists>resp. read_file b64 env' (fw_path req) max_size None None (ff_fs s') = Inr resp
      \<and> response_bytes unb64 resp = Inr (take (min n (min (unat max_size) (length data - 0))) (drop 0 data))
      \<and> (more_to_read resp \<longleftrightarrow> 0 + min n (min (unat max_size) (length data - 0)) < length data)"
    using d(1) by (intro read_file_slice [OF d(2) small assms(8,5-7) _ assms(4)]) simp_all
  then show ?thesis unfolding slice by simp
qed

theorem file_write_read_witness:
  "\<exists>v s' resp. put_file (\<lambda>t. Inr (bytes t)) ok_env 64 (\<lambda>_. None) sample_write sample_files = (Inr v, s')
     \<and> read_file text_of ok_env ''/etc/motd'' 64 None None (ff_fs s') = Inr resp
     \<and> response_bytes (\<lambda>t. Inr (bytes t)) resp = Inr (bytes ''new'')"
proof -
  let ?u = "\<lambda>t. Inr (bytes t) :: string + u8 list"
  obtain v s' where p: "put_file ?u ok_env 64 (\<lambda>_. None) sample_write sample_files = (Inr v, s')"
    using sample_put by blast
  have ne: "fw_path sample_write \<noteq> temp_of ok_env sample_write sample_files"
    unfolding sample_temp by (simp add: sample_write_def)
  have c: "content_bytes ?u sample_write = Inr (bytes ''new'')" "fw_path sample_write = ''/etc/motd''"
    by (simp_all add: content_bytes_def sample_write_def)
  have e: "fe_stat_err ok_env = None" "fe_open_err ok_env = None" "fe_seek_err ok_env = None" "fe_read ok_env = Inr 100"
    "length (bytes ''new'') \<le> 100" "?u (text_of bs) = Inr bs" for bs
    by (simp_all add: ok_env_def bytes_def bytes_text_of [unfolded bytes_def])
  from file_write_read [OF p ne c(1) e(6,1-5)] p c(2) show ?thesis by auto
qed

text \<open>
  A client that reads a file in ranges, going on after what it was given until the response is no
  longer marked as truncated, collects exactly the file, whatever number of bytes each read returns.
\<close>

fun read_ranges ::
    "(u8 list \<Rightarrow> string) \<Rightarrow> (string \<Rightarrow> string + u8 list) \<Rightarrow> string \<Rightarrow> u64 \<Rightarrow> u64 \<Rightarrow> files_env list \<Rightarrow> u64 \<Rightarrow> filesystem
       \<Rightarrow> u8 list option" where
  "read_ranges b64 unb64 path max_size limit [] off fs = None"
| "read_ranges b64 unb64 path max_size limit (env # envs) off fs =
     (case read_file b64 env path max_size (Some off) (Some limit) fs of
        Inl _ \<Rightarrow> None
      | Inr v \<Rightarrow>
         (case response_bytes unb64 v of
            Inl _ \<Rightarrow> None
          | Inr bs \<Rightarrow>
              if more_to_read v
              then map_option ((@) bs) (read_ranges b64 unb64 path max_size limit envs (off + of_nat (length bs)) fs)
              else Some bs))"

lemma ranged_reads_cover:
  assumes data: "file_data fs path = Some data" and small: "length data < 2 ^ 64" and "0 < limit" and "0 < max_size"
    and codec: "\<And>bs. unb64 (b64 bs) = Inr bs"
  shows "unat off \<le> length data \<Longrightarrow> list_all reads_ok envs \<Longrightarrow> length data - unat off < length envs
    \<Longrightarrow> read_ranges b64 unb64 path max_size limit envs off fs = Some (drop (unat off) data)"
proof (induction envs arbitrary: off)
  case Nil
  then show ?case by simp
next
  case (Cons env envs)
  from Cons.prems(2) obtain n where n: "1 \<le> n" "fe_read env = Inr n" "fe_stat_err env = None" "fe_open_err env = None"
    "fe_seek_err env = None" by (auto simp: reads_ok_def)
  define k where "k = min n (min (unat (min limit max_size)) (length data - unat off))"
  obtain v where v: "read_file b64 env path max_size (Some off) (Some limit) fs = Inr v"
    "response_bytes unb64 v = Inr (take k (drop (unat off) data))" "more_to_read v \<longleftrightarrow> unat off + k < length data"
    using read_file_slice [OF data small n(2-5), of "Some off" "Some limit" max_size unb64 b64 "unat off" "unat (min limit max_size)"]
      codec Cons.prems(1) by (auto simp: k_def)
  have kle: "k \<le> length data - unat off" and len: "length (take k (drop (unat off) data)) = k" by (simp_all add: k_def)
  show ?case
  proof (cases "unat off + k < length data")
    case False
    with kle Cons.prems(1) have "k = length data - unat off" by linarith
    with False v show ?thesis by simp
  next
    case True
    have "0 < unat (min limit max_size)" using assms(3,4) by (simp add: min_def word_less_nat_alt)
    with True n(1) have "1 \<le> k" by (auto simp: k_def)
    have off': "unat (off + of_nat k) = unat off + k"
      using True small by (subst unat_plus_simple [THEN iffD1]) (auto simp: unat_of_nat_small word_le_nat_alt unat_word_ariths)
    have "read_ranges b64 unb64 path max_size limit envs (off + of_nat k) fs = Some (drop (unat off + k) data)"
      using Cons.IH [of "off + of_nat k"] Cons.prems True \<open>1 \<le> k\<close> unfolding off' by simp
    moreover have "take k (drop (unat off) data) @ drop (unat off + k) data = drop (unat off) data"
      by (metis append_take_drop_id drop_drop add.commute)
    ultimately show ?thesis using v True len by simp
  qed
qed

text \<open>A write that fails half way (a full disk) is reported, but its temporary file stays.\<close>

lemma failed_write_leaves_temp:
  assumes "fe_create_err env = None" "fe_write_err env = Some e"
  shows "\<exists>s'. write_atomic env mode temp final data s = (Inl (denied_or_io e), s') \<and> file_data (ff_fs s') temp \<noteq> None"
proof -
  have "file_data (ff_fs (fold (\<lambda>n. visit (put_node env temp (take n data))) ns s')) temp \<noteq> None"
    if "file_data (ff_fs s') temp \<noteq> None" for ns s'
    using that by (induction ns arbitrary: s') (simp_all add: put_node_def file_data_def)
  then show ?thesis using assms by (simp add: write_atomic_def fs_write_new_def Let_def put_node_def file_data_def)
qed

end
