(* ===== verification/Tunnel_Transfer_Props.thy ===== *)
theory Tunnel_Transfer_Props
  imports Tunnel_Transfer Relay_Proxy Gawdxfer_Props
begin

text \<open>
  Transfers through the relay: the proxy endpoint of the relay, the binary frame, the handler of the
  device and the way back of its answer, composed. A chunk sent through the relay does to the device
  what the same chunk posted to the device itself does, and a whole upload delivers the file.
\<close>

subsection \<open>Fields survive the frame\<close>

lemma json_as_u64_uint: "json_as_u64 (JNum (uint (w :: u32))) = Some (ucast w)"
proof -
  have "uint w < 2 ^ 64" using uint_lt2p [of w] by simp
  then show ?thesis by (simp add: json_as_u64_def)
qed

lemma ucast_u64_u32 [simp]: "ucast (ucast (w :: u32) :: u64) = w"
  by (rule bit_word_eqI) (simp add: bit_ucast_iff)

lemma gx_fields:
  "gx_str (JObj kvs) k = (case map_of kvs k of Some v \<Rightarrow> json_str_or [] v | None \<Rightarrow> [])"
  "gx_u32 (JObj kvs) k = (case map_of kvs k of Some v \<Rightarrow> (case json_as_u64 v of Some x \<Rightarrow> ucast x | None \<Rightarrow> 0) | None \<Rightarrow> 0)"
  "gx_request_id (JObj kvs) = Option.bind (map_of kvs ''request_id'') json_as_str"
  "json_str_or d (JStr t) = t"
  by (simp_all add: gx_str_def gx_u32_def gx_request_id_def json_index_def json_str_or_def json_as_str_def json_as_u64_def
      split: option.split)

definition chunk_frame_header :: "string \<Rightarrow> string \<Rightarrow> u32 \<Rightarrow> string \<Rightarrow> json" where
  "chunk_frame_header rid xfer idx h =
     request ''gx.chunk'' rid [(''transfer_id'', JStr xfer), (''chunk_index'', JNum (uint idx)), (''chunk_hash'', JStr h)]"

lemma chunk_frame_fields:
  "gx_str (chunk_frame_header rid xfer idx h) ''type'' = ''gx.chunk''"
  "gx_str (chunk_frame_header rid xfer idx h) ''transfer_id'' = xfer"
  "gx_u32 (chunk_frame_header rid xfer idx h) ''chunk_index'' = idx"
  "gx_str (chunk_frame_header rid xfer idx h) ''chunk_hash'' = h"
  "gx_request_id (chunk_frame_header rid xfer idx h) = Some rid"
  by (simp_all add: chunk_frame_header_def request_def gx_fields json_as_u64_uint json_as_str_def)

text \<open>What the codec of the frames has to give: the header back, in at most 1 MiB.\<close>

definition frame_codec :: "codec \<Rightarrow> json \<Rightarrow> bool" where
  "frame_codec cd h \<longleftrightarrow> cd_de cd (cd_ser cd h) = Some h \<and> length (cd_ser cd h) \<le> MAX_BINARY_FRAME_HEADER"

lemma frame_codec_decodes:
  assumes "frame_codec cd h"
  shows "decode_binary_frame (cd_de cd) (encode_binary_frame (cd_ser cd) h p) = Some (h, p)"
  using assms decode_encode [of "cd_ser cd" h "cd_de cd" p] by (simp add: frame_codec_def MAX_BINARY_FRAME_HEADER_def)

subsection \<open>One chunk\<close>

text \<open>
  A client's chunk on its way: the endpoint of the relay, the frame, the handler of the device, and
  the answer that comes back under the request's id. Without an answer the request runs into its timeout.
\<close>

definition relayed_chunk ::
    "codec \<Rightarrow> string \<Rightarrow> relay_state \<Rightarrow> string \<Rightarrow> string \<Rightarrow> u32 \<Rightarrow> proxy_request \<Rightarrow> digest \<Rightarrow> io_env \<Rightarrow> gx_state
       \<Rightarrow> (http_error + json) option \<times> gx_state" where
  "relayed_chunk cd rid s serial xfer idx req sha env st =
     (case relay_router cd (\<lambda>_. rid) s serial (EpStpUploadChunk xfer idx) req of
        Ok [c] \<Rightarrow>
         (case pc_msg c of
            TBinary frame \<Rightarrow>
             (case decode_binary_frame (cd_de cd) frame of
                Some (h, payload) \<Rightarrow>
                 (case handle_relay_binary sha env h payload st of
                    (Some (TText m), st') \<Rightarrow>
                      (if gx_request_id m = Some (pc_rid c) then Some (upload_chunk_response (RJson m)) else None, st')
                  | (_, st') \<Rightarrow> (None, st'))
              | None \<Rightarrow> (None, st))
          | _ \<Rightarrow> (None, st))
      | Err e \<Rightarrow> (Some (Inl e), st)
      | _ \<Rightarrow> (None, st))"

lemma gx_request_id_answers:
  "gx_request_id (JObj [(''type'', t), (''request_id'', opt_json (Some i)), (''body'', b)]) = Some i"
  "gx_request_id (gx_error_response ty (Some i) e) = Some i"
  by (simp_all add: gx_fields opt_json_def json_as_str_def gx_error_response_def)

text \<open>What the relay makes of the device's answer.\<close>

lemma ack_response:
  "upload_chunk_response (RJson (JObj [(''type'', t), (''request_id'', r), (''body'', b)])) = Inr b"
  by (simp add: upload_chunk_response_def status_field_def json_index_obj json_as_u64_def json_get_def Let_def)

lemma status_field_num:
  assumes "400 \<le> n" "n < 600"
  shows "status_field d (JObj [(''type'', t), (''request_id'', r), (''status'', JNum n), (''body'', b)]) \<ge> 400"
proof -
  have "uint (word_of_int n :: u64) = n" using assms by (simp add: uint_word_of_int)
  then show ?thesis using assms by (simp add: status_field_def json_index_obj json_as_u64_def word_le_def)
qed

lemma error_response:
  "\<exists>n b. upload_chunk_response (RJson (gx_error_response ty rid e)) = Inl (n, b) \<and> json_index b ''code'' = JStr (te_code e)"
  using status_field_num [of "gx_status_code (te_code e)"]
  by (simp add: upload_chunk_response_def gx_error_response_def gx_status_code_def json_index_obj Let_def)

lemma relayed_chunk_device:
  assumes "validate_device_auth s serial (pr_headers req ''authorization'') = Inr d"
    and "pr_headers req ''x-gx-chunk-hash'' = Some h" "h \<noteq> []" "frame_codec cd (chunk_frame_header rid xfer idx h)"
  shows "relayed_chunk cd rid s serial xfer idx req sha env (fs, tm) =
    (case receive_chunk sha env xfer idx h (pr_body req) fs tm of
       (Ok a, st') \<Rightarrow> (Some (Inr (chunk_ack_value a)), st')
     | (Err e, st') \<Rightarrow> (Some (upload_chunk_response (RJson (gx_error_response ''gx.chunk.ack'' (Some rid) e))), st')
     | (Panic _, st') \<Rightarrow> (None, st'))"
proof -
  have "relay_router cd (\<lambda>_. rid) s serial (EpStpUploadChunk xfer idx) req =
      Ok [\<lparr>pc_msg = TBinary (encode_binary_frame (cd_ser cd) (chunk_frame_header rid xfer idx h) (pr_body req)),
           pc_rid = rid, pc_timeout = 60\<rparr>]"
    using assms(1-3) by (simp add: proxy_stp_upload_chunk_def authorised_def chunk_frame_header_def Let_def)
  then show ?thesis
    using frame_codec_decodes [OF assms(4), of "pr_body req"]
    by (simp add: relayed_chunk_def handle_relay_binary_def handle_gx_chunk_receive_def chunk_frame_fields ack_response
        gx_request_id_answers Let_def split: outcome.split prod.split)
qed

text \<open>
  C32. The relay is transparent for uploads. A chunk that an authorised client posts to the relay does
  to the device's file system and transfers what the same request does when it is posted to the device
  itself: the device gets exactly the posted bytes, index and hash, the client gets the same
  acknowledgement under its own request, and it gets an error exactly when the device would have
  answered one, with the same error code (the HTTP status may differ).
\<close>

theorem relayed_chunk_transparent:
  assumes "validate_device_auth s serial (pr_headers req ''authorization'') = Inr d"
    and "\<And>h. pr_headers req ''x-gx-chunk-hash'' = Some h \<Longrightarrow> frame_codec cd (chunk_frame_header rid xfer idx h)"
  shows "case post_chunk sha env xfer idx (pr_headers req) (pr_body req) fs tm of
      (Ok a, st') \<Rightarrow> relayed_chunk cd rid s serial xfer idx req sha env (fs, tm) = (Some (Inr (chunk_ack_value a)), st')
    | (Err (n, e), st') \<Rightarrow> \<exists>n' b. relayed_chunk cd rid s serial xfer idx req sha env (fs, tm) = (Some (Inl (n', b)), st')
         \<and> json_index b ''code'' = JStr (err_code e)
    | (Panic _, st') \<Rightarrow> relayed_chunk cd rid s serial xfer idx req sha env (fs, tm) = (None, st')"
proof (cases "pr_headers req ''x-gx-chunk-hash'' \<in> {None, Some []}")
  case True
  then have "relayed_chunk cd rid s serial xfer idx req sha env (fs, tm) =
      (Some (Inl (http_err 400 ''Missing X-Gx-Chunk-Hash header'' ''INVALID_REQUEST'')), fs, tm)"
    using assms(1) by (auto simp: relayed_chunk_def proxy_stp_upload_chunk_def authorised_def Let_def)
  with True show ?thesis
    by (auto simp: post_chunk_def Let_def http_err_def json_index_obj api_error_new_def)
next
  case False
  then obtain h where h: "pr_headers req ''x-gx-chunk-hash'' = Some h" "h \<noteq> []" by (cases "pr_headers req ''x-gx-chunk-hash''") auto
  note dev = relayed_chunk_device [OF assms(1) h assms(2) [OF h(1)], of sha env fs tm]
  obtain r st' where rc: "receive_chunk sha env xfer idx h (pr_body req) fs tm = (r, st')"
    by (cases "receive_chunk sha env xfer idx h (pr_body req) fs tm")
  show ?thesis
    using h dev error_response [of "''gx.chunk.ack''" "Some rid"]
    by (cases r) (auto simp: rc post_chunk_def Let_def transfer_error_to_http_def with_detail_def api_error_new_def split: prod.splits)
qed

definition chunk_request :: "string \<Rightarrow> string \<Rightarrow> u8 list \<Rightarrow> proxy_request" where
  "chunk_request key h data =
     \<lparr>pr_headers = [''authorization'' \<mapsto> ''Bearer '' @ key, ''x-gx-chunk-hash'' \<mapsto> h], pr_body = data\<rparr>"

definition demo_chunk_codec :: codec where
  "demo_chunk_codec = \<lparr>cd_de = (\<lambda>b. Some (chunk_frame_header ''r'' ''u'' 0 (hash_bytes sample_sha [1, 2, 3]))),
     cd_ser = (\<lambda>_. []), cd_utf8 = (\<lambda>_. None), cd_header_ok = (\<lambda>_. True)\<rparr>"

lemma demo_device: "device demo_state ''D1'' = Some (1, the (hm_get (rs_conns demo_state) 1))"
  "cn_api_key (the (hm_get (rs_conns demo_state) 1)) = ''key''"
  by code_simp+

lemma demo_authorised:
  "validate_device_auth demo_state ''D1'' (pr_headers (chunk_request ''key'' h data) ''authorization'')
     = Inr (1, the (hm_get (rs_conns demo_state) 1))"
  by (simp add: validate_device_auth_Inr demo_device chunk_request_def)

lemma demo_chunk_frame: "frame_codec demo_chunk_codec (chunk_frame_header ''r'' ''u'' 0 (hash_bytes sample_sha [1, 2, 3]))"
  by (simp add: frame_codec_def demo_chunk_codec_def MAX_BINARY_FRAME_HEADER_def)

text \<open>A chunk of a transfer the device does not know is refused with the device's code.\<close>

theorem relayed_chunk_transparent_witness:
  "\<exists>n b. relayed_chunk demo_chunk_codec ''r'' demo_state ''D1'' ''u'' 0
      (chunk_request ''key'' (hash_bytes sample_sha [1, 2, 3]) [1, 2, 3]) sample_sha sample_env (sample_fs, sample_tm)
    = (Some (Inl (n, b)), sample_fs, sample_tm) \<and> json_index b ''code'' = JStr ''TRANSFER_NOT_FOUND''"
proof -
  let ?req = "chunk_request ''key'' (hash_bytes sample_sha [1, 2, 3]) [1, 2, 3]"
  have "pr_headers ?req ''x-gx-chunk-hash'' = Some h \<Longrightarrow> frame_codec demo_chunk_codec (chunk_frame_header ''r'' ''u'' 0 h)" for h
    using demo_chunk_frame by (simp add: chunk_request_def)
  moreover have "\<exists>n e. post_chunk sample_sha sample_env ''u'' 0 (pr_headers ?req) (pr_body ?req) sample_fs sample_tm =
      (Err (n, e), sample_fs, sample_tm) \<and> err_code e = ''TRANSFER_NOT_FOUND''"
    by (simp add: post_chunk_def chunk_request_def receive_chunk_def receive_check_def get_transfer_def tnf_def make_error_def hash_bytes_def hex_encode_def sample_sha_def sample_tm_def
        new_transfer_manager_def transfer_error_to_http_def with_detail_def api_error_new_def Let_def)
  ultimately show ?thesis
    using relayed_chunk_transparent [OF demo_authorised, of "hash_bytes sample_sha [1, 2, 3]" "[1, 2, 3]" demo_chunk_codec "''r''"
        "''u''" 0 sample_sha sample_env sample_fs sample_tm]
    by (auto split: prod.splits)
qed

subsection \<open>A whole upload\<close>

text \<open>A client that sends the chunks of \<open>f\<close> through the relay, each request under an id of its own.\<close>

fun relayed_send ::
    "codec \<Rightarrow> (nat \<Rightarrow> string) \<Rightarrow> relay_state \<Rightarrow> string \<Rightarrow> string \<Rightarrow> digest \<Rightarrow> io_env \<Rightarrow> string \<Rightarrow> nat \<Rightarrow> u8 list \<Rightarrow> nat list
       \<Rightarrow> gx_state \<Rightarrow> bool \<times> gx_state" where
  "relayed_send cd ids s serial key sha env tid cs f [] st = (True, st)"
| "relayed_send cd ids s serial key sha env tid cs f (i # is) st =
     (let data = chunk_of cs f i in
      case relayed_chunk cd (ids 0) s serial tid (of_nat i) (chunk_request key (hash_bytes sha data) data) sha env st of
        (Some (Inr b), st') \<Rightarrow>
          if json_index b ''ok'' = JBool True
          then relayed_send cd (\<lambda>n. ids (Suc n)) s serial key sha env tid cs f is st' else (False, st')
      | (_, st') \<Rightarrow> (False, st'))"

lemma ack_ok: "json_index (chunk_ack_value a) ''ok'' = JBool (ca_ok a)"
  by (simp add: chunk_ack_value_def json_index_obj Ws_Messages.fields_def map_filter_def str_def num_def flag_def)

lemma hex_encode_Nil_iff: "hex_encode d = [] \<longleftrightarrow> d = []"
  by (cases d) (simp_all add: hex_encode_concat)

lemma relayed_send_is_send:
  assumes "device s serial = Some (c, cn)" "cn_api_key cn = key" "\<And>d. hash_bytes sha d \<noteq> []"
    and "\<And>n i. n < length is \<Longrightarrow> i \<in> set is \<Longrightarrow>
      frame_codec cd (chunk_frame_header (ids n) tid (of_nat i) (hash_bytes sha (chunk_of cs f i)))"
  shows "relayed_send cd ids s serial key sha env tid cs f is (fs, tm) = send sha env tid cs f is fs tm"
  using assms(4)
proof (induction "is" arbitrary: ids fs tm)
  case (Cons i "is")
  have auth: "validate_device_auth s serial (pr_headers (chunk_request key h data) ''authorization'') = Inr (c, cn)" for h data
    using assms(1,2) by (simp add: validate_device_auth_Inr chunk_request_def)
  have IH: "relayed_send cd (\<lambda>n. ids (Suc n)) s serial key sha env tid cs f is (fs', tm') = send sha env tid cs f is fs' tm'"
    for fs' tm' using Cons.prems by (intro Cons.IH) auto
  have step: "relayed_chunk cd (ids 0) s serial tid (of_nat i) (chunk_request key (hash_bytes sha (chunk_of cs f i)) (chunk_of cs f i))
      sha env (fs, tm) =
    (case receive_chunk sha env tid (of_nat i) (hash_bytes sha (chunk_of cs f i)) (chunk_of cs f i) fs tm of
       (Ok a, st') \<Rightarrow> (Some (Inr (chunk_ack_value a)), st')
     | (Err e, st') \<Rightarrow> (Some (upload_chunk_response (RJson (gx_error_response ''gx.chunk.ack'' (Some (ids 0)) e))), st')
     | (Panic _, st') \<Rightarrow> (None, st'))"
    using relayed_chunk_device [OF auth _ assms(3) Cons.prems [of 0 i], of "hash_bytes sha (chunk_of cs f i)"]
    by (simp add: chunk_request_def)
  obtain r fs' tm' where
      rc: "receive_chunk sha env tid (of_nat i) (hash_bytes sha (chunk_of cs f i)) (chunk_of cs f i) fs tm = (r, fs', tm')"
    using prod_cases3 by blast
  show ?case
  proof (cases r)
    case (Err e)
    obtain n b where "upload_chunk_response (RJson (gx_error_response ''gx.chunk.ack'' (Some (ids 0)) e)) = Inl (n, b)"
      using error_response by blast
    with Err rc step show ?thesis by (simp add: Let_def)
  qed (simp_all add: Let_def IH ack_ok rc step)
qed simp


text \<open>
  C3. An upload through the relay puts the file in place. When the device has started an upload of
  \<open>f\<close>, a client that knows the device's key may send the chunks to the relay in any order and repeat
  any of them before the last missing one: every chunk comes back acknowledged, and then the target path on the
  device holds exactly \<open>f\<close> and the transfer is \<open>Complete\<close> with the hash of \<open>f\<close>. The
  digest is not empty, and the frame headers of the chunks survive their JSON encoding.
\<close>

theorem relayed_upload_delivers:
  assumes init: "init_upload env req fs tm = (Ok r, fs1, tm1)" and size: "unat (iu_file_size req) = length f"
    and hash: "iu_file_hash req \<in> {[], hash_bytes sha f}" and env: "no_fault env'"
    and target: "iu_filename req \<noteq> ''.gx_tmp_'' @ io_uuid env"
      "fs (join_path (iu_path req) (iu_filename req)) \<noteq> Some DirNode"
    and fits: "chunks_for (length f) (unat (ir_chunk_size r)) < 2 ^ 32"
    and order: "set (is @ [k]) = {..<unat (ir_total_chunks r)}" "k \<notin> set is"
    and device: "device s serial = Some (c, cn)" and digest: "\<And>d. sha d \<noteq> []"
    and frames: "\<And>n i. n < length (is @ [k]) \<Longrightarrow> i < unat (ir_total_chunks r) \<Longrightarrow>
      frame_codec cd (chunk_frame_header (ids n) (ir_transfer_id r) (of_nat i)
        (hash_bytes sha (chunk_of (unat (ir_chunk_size r)) f i)))"
  shows "\<exists>fs2 tm2 t. relayed_send cd ids s serial (cn_api_key cn) sha env' (ir_transfer_id r) (unat (ir_chunk_size r)) f
      (is @ [k]) (fs1, tm1) = (True, fs2, tm2)
    \<and> file_data fs2 (join_path (iu_path req) (iu_filename req)) = Some f
    \<and> get_transfer (ir_transfer_id r) tm2 = Some t \<and> tp_phase (t_progress t) = Complete
    \<and> ts_file_hash (t_spec t) = hash_bytes sha f"
proof -
  have "hash_bytes sha d \<noteq> []" for d
    using digest [of d] by (simp add: hash_bytes_def hex_encode_Nil_iff)
  then have "relayed_send cd ids s serial (cn_api_key cn) sha env' (ir_transfer_id r) (unat (ir_chunk_size r)) f (is @ [k])
      (fs1, tm1) = send sha env' (ir_transfer_id r) (unat (ir_chunk_size r)) f (is @ [k]) fs1 tm1"
    using frames order(1) by (intro relayed_send_is_send [OF device]) auto
  with upload_delivers [OF init size hash env target fits order] show ?thesis by simp
qed

theorem relayed_upload_delivers_witness:
  "\<exists>r fs1 tm1 fs2 tm2. init_upload sample_env sample_req sample_fs sample_tm = (Ok r, fs1, tm1)
    \<and> relayed_send demo_chunk_codec (\<lambda>_. ''r'') demo_state ''D1'' ''key'' sample_sha sample_env ''u'' 1024 [1, 2, 3] ([] @ [0])
        (fs1, tm1) = (True, fs2, tm2)
    \<and> file_data fs2 (join_path ''/d'' ''g'') = Some [1, 2, 3]"
proof -
  obtain r fs1 tm1 where i: "init_upload sample_env sample_req sample_fs sample_tm = (Ok r, fs1, tm1)"
      "ir_transfer_id r = ''u''" "ir_total_chunks r = 1" "ir_chunk_size r = 1024"
    using sample_init_upload by blast
  have c: "chunk_of 1024 [1, 2, 3 :: u8] 0 = [1, 2, 3]" by (simp add: chunk_of_def)
  have "sample_sha d \<noteq> []" for d by (simp add: sample_sha_def)
  then show ?thesis
    using relayed_upload_delivers [OF i(1), of "[1, 2, 3]" sample_sha sample_env "[]" 0 demo_state "''D1''" 1
        "the (hm_get (rs_conns demo_state) 1)" demo_chunk_codec "\<lambda>_. ''r''"] i sample_no_fault demo_device demo_chunk_frame
    by (auto simp: sample_req_def sample_fs_def sample_env_def chunks_for_def lessThan_Suc c join_path_def starts_with_def)
qed

end
