(* ===== verification/Exec_Props.thy ===== *)
theory Exec_Props
  imports Exec Files_Props Tunnel_Transfer_Props
begin

text \<open>
  Properties of one-shot commands: what is captured of the output, that every command that ran can be
  looked up, and that a command posted to the relay does what it does when posted to the device.
\<close>

subsection \<open>Decoding\<close>

lemma byte_at_simps [simp]:
  "byte_at [] i = 0" "byte_at (a # bs) 0 = a" "byte_at (a # bs) (Suc i) = byte_at bs i"
  "byte_at (a # bs) (numeral k) = byte_at bs (pred_numeral k)"
  by (simp_all add: byte_at_def numeral_eq_Suc)

lemma cont_byte_0 [simp]: "\<not> cont_byte 0" "\<not> second_ok a 0"
  by (simp_all add: cont_byte_def second_ok_def)

lemma byte_at_cont:
  "cont_byte (byte_at bs i) \<Longrightarrow> i < length bs" "second_ok a (byte_at bs i) \<Longrightarrow> i < length bs"
  by (auto simp: byte_at_def split: if_splits)

text \<open>A valid text is a sequence of valid characters.\<close>

lemma second_ok_3: "a \<le> 0xEF \<Longrightarrow> second_ok a b \<longleftrightarrow> cont_byte b \<and> (a = 0xE0 \<longrightarrow> 0xA0 \<le> b) \<and> (a = 0xED \<longrightarrow> b \<le> 0x9F)"
  by (auto simp: second_ok_def)

lemma second_ok_4:
  assumes "0xF0 \<le> a"
  shows "second_ok a b \<longleftrightarrow> cont_byte b \<and> (a = 0xF0 \<longrightarrow> 0x90 \<le> b) \<and> (a = 0xF4 \<longrightarrow> b \<le> 0x8F)"
proof -
  have "a \<noteq> 0xE0" "a \<noteq> 0xED" using assms by auto
  then show ?thesis by (simp add: second_ok_def)
qed

lemma utf8_valid_step:
  "utf8_valid (a # bs) \<longleftrightarrow> snd (utf8_step (a # bs)) \<and> utf8_valid (drop (fst (utf8_step (a # bs))) (a # bs))"
proof -
  note v = utf8_valid.simps(2) [of a bs]
  consider "a \<le> 0x7F" | "\<not> a \<le> 0x7F" "0xC2 \<le> a \<and> a \<le> 0xDF"
    | "\<not> a \<le> 0x7F" "\<not> (0xC2 \<le> a \<and> a \<le> 0xDF)" "0xE0 \<le> a \<and> a \<le> 0xEF"
    | "\<not> a \<le> 0x7F" "\<not> (0xC2 \<le> a \<and> a \<le> 0xDF)" "\<not> (0xE0 \<le> a \<and> a \<le> 0xEF)" "0xF0 \<le> a \<and> a \<le> 0xF4"
    | "\<not> a \<le> 0x7F" "\<not> (0xC2 \<le> a \<and> a \<le> 0xDF)" "\<not> (0xE0 \<le> a \<and> a \<le> 0xEF)" "\<not> (0xF0 \<le> a \<and> a \<le> 0xF4)"
    by blast
  then show ?thesis
  proof cases
    case 1 then show ?thesis using v by (simp add: utf8_step_def Let_def del: utf8_valid.simps(2))
  next
    case 2 then show ?thesis using v by (cases bs) (simp_all add: utf8_step_def Let_def del: utf8_valid.simps(2) not_le)
  next
    case 3
    then have sec: "second_ok a x \<longleftrightarrow> cont_byte x \<and> (a = 0xE0 \<longrightarrow> 0xA0 \<le> x) \<and> (a = 0xED \<longrightarrow> x \<le> 0x9F)" for x
      by (simp add: second_ok_3)
    have v3: "utf8_valid (a # bs) = (case bs of b # c # r \<Rightarrow> second_ok a b \<and> cont_byte c \<and> utf8_valid r | _ \<Rightarrow> False)"
      unfolding v sec by (simp only: 3 if_True if_False simp_thms) (simp add: conj_assoc split: list.split)
    have s3: "utf8_step (a # bs) = (if \<not> second_ok a (byte_at bs 0) then (1, False)
        else if \<not> cont_byte (byte_at bs 1) then (2, False) else (3, True))"
      unfolding utf8_step_def Let_def byte_at_simps by (simp only: 3 if_True if_False simp_thms) simp
    show ?thesis unfolding v3 s3 by (cases bs; cases "tl bs") (simp_all del: utf8_valid.simps)
  next
    case 4
    then have sec: "second_ok a x \<longleftrightarrow> cont_byte x \<and> (a = 0xF0 \<longrightarrow> 0x90 \<le> x) \<and> (a = 0xF4 \<longrightarrow> x \<le> 0x8F)" for x
      by (simp add: second_ok_4)
    have v4: "utf8_valid (a # bs) =
        (case bs of b # c # d # r \<Rightarrow> second_ok a b \<and> cont_byte c \<and> cont_byte d \<and> utf8_valid r | _ \<Rightarrow> False)"
      unfolding v sec by (simp only: 4 if_True if_False simp_thms) (simp add: conj_assoc split: list.split)
    have s4: "utf8_step (a # bs) = (if \<not> second_ok a (byte_at bs 0) then (1, False)
        else if \<not> cont_byte (byte_at bs 1) then (2, False) else if \<not> cont_byte (byte_at bs 2) then (3, False) else (4, True))"
      unfolding utf8_step_def Let_def byte_at_simps by (simp only: 4 if_True if_False simp_thms) simp
    show ?thesis unfolding v4 s4
      by (cases bs; cases "tl bs"; cases "tl (tl bs)") (simp_all del: utf8_valid.simps)
  next
    case 5
    then show ?thesis unfolding v utf8_step_def Let_def byte_at_simps by (simp only: if_True if_False simp_thms snd_conv)
  qed
qed

lemma utf8_lossy_valid: "utf8_valid bs \<Longrightarrow> utf8_lossy bs = bs"
proof (induction bs rule: utf8_lossy.induct)
  case (2 a bs)
  obtain n ok where st: "utf8_step (a # bs) = (n, ok)" by (cases "utf8_step (a # bs)")
  with 2 show ?case using utf8_valid_step [of a bs] by (auto simp: Let_def)
qed simp

subsection \<open>What is captured\<close>

lemma read_loop_concat:
  "[] \<notin> set cs \<Longrightarrow> length buf = min m tot \<Longrightarrow>
     read_loop m (map Some cs) buf tot = (buf @ take (m - length buf) (concat cs), tot + length (concat cs))"
proof (induction cs arbitrary: buf tot)
  case (Cons c cs)
  let ?buf = "if length buf < m then buf @ take (min (length c) (m - length buf)) c else buf"
  have "read_loop m (map Some (c # cs)) buf tot = read_loop m (map Some cs) ?buf (tot + length c)"
    using Cons.prems(1) by (auto simp: Let_def)
  also have "\<dots> = (?buf @ take (m - length ?buf) (concat cs), tot + length c + length (concat cs))"
    using Cons.prems by (intro Cons.IH) (auto simp: min_def)
  finally show ?case by (auto simp: min_def)
qed simp

definition truncation_notice :: "nat \<Rightarrow> nat \<Rightarrow> string" where
  "truncation_notice tot m =
     CHR 0x0A # ''[truncated: '' @ show_nat tot @ '' bytes total, showing first '' @ show_nat m @ '']''"

lemma read_capped_concat:
  assumes "[] \<notin> set cs"
  shows "read_capped m (map Some cs) = text_of (utf8_lossy (take m (concat cs)))
    @ (if length (concat cs) > m then truncation_notice (length (concat cs)) m else [])"
  using read_loop_concat [OF assms, of "[]" m 0] by (simp add: read_capped_def truncation_notice_def Let_def)


definition demo_process :: process where
  "demo_process = \<lparr>px_spawn_err = None, px_stdout = [Some [104], Some [105, 10]], px_stderr = [], px_wait = Inr (Some 3),
     px_done_ms = Some 7, px_clock_ms = Some 1\<rparr>"


subsection \<open>One command, logged\<close>

text \<open>What every path that runs a command does to the state.\<close>

definition result_of :: "exec_error + exec_output \<Rightarrow> u64 \<Rightarrow> string \<Rightarrow> u64 \<Rightarrow> exec_result" where
  "result_of out timeout command = (\<lambda>aid.
     case out of
        Inr r \<Rightarrow> \<lparr>er_activity_id = aid, er_exit_code = xo_exit_code r, er_stdout = xo_stdout r, er_stderr = xo_stderr r,
                  er_duration_ms = xo_duration_ms r, er_command = command, er_status = ''ok'', er_error_message = None\<rparr>
      | Inl e \<Rightarrow> \<lparr>er_activity_id = aid, er_exit_code = - 1, er_stdout = [], er_stderr = exec_error_text e,
                  er_duration_ms = (if e = Timeout then timeout else 0), er_command = command,
                  er_status = (if e = Timeout then ''timeout'' else ''error''), er_error_message = Some (exec_error_text e)\<rparr>)"

definition detail_of :: "exec_error + exec_output \<Rightarrow> u64 \<Rightarrow> json" where
  "detail_of out timeout =
     (case out of
        Inr r \<Rightarrow> JObj [(''exit_code'', JNum (xo_exit_code r)), (''duration_ms'', JNum (uint (xo_duration_ms r))),
           (''stdout_preview'', JStr (truncate_str (xo_stdout r) 200)),
           (''stderr_preview'', JStr (truncate_str (xo_stderr r) 200)), (''has_full_output'', JBool True)]
      | Inl e \<Rightarrow> JObj [(''exit_code'', JNum (- 1)), (''duration_ms'', JNum (uint (if e = Timeout then timeout else 0))),
           (''status'', JStr (if e = Timeout then ''timeout'' else ''error'')), (''error'', JStr (exec_error_text e)),
           (''has_full_output'', JBool True)])"

definition outcome_at :: "os \<Rightarrow> spawn_spec \<Rightarrow> u64 \<Rightarrow> exec_state \<Rightarrow> exec_error + exec_output" where
  "outcome_at os sp timeout s = exec_process (os (xs_spawned s) sp) timeout"

definition run_logged :: "os \<Rightarrow> activity_source \<Rightarrow> string option \<Rightarrow> spawn_spec \<Rightarrow> u64 \<Rightarrow> exec_state \<Rightarrow> exec_state" where
  "run_logged os source rid sp timeout s =
     log_and_cache source rid (px_clock_ms (os (xs_spawned s) sp)) (detail_of (outcome_at os sp timeout s) timeout)
       (result_of (outcome_at os sp timeout s) timeout (sp_command sp)) (sp_command sp)
       (s\<lparr>xs_spawned := xs_spawned s @ [sp]\<rparr>)"

lemma run_command_cases:
  obtains r where "outcome_at os sp timeout s = Inr r"
  | "outcome_at os sp timeout s = Inl Timeout"
  | e where "outcome_at os sp timeout s = Inl e" "e \<noteq> Timeout"
  by (cases "outcome_at os sp timeout s") auto

lemmas logging_defs = run_logged_def run_command_def log_exec_ok_def log_exec_err_def log_tunnel_exec_ok_def
  log_tunnel_exec_err_def result_of_def detail_of_def

lemma not_timeout: "e \<noteq> Timeout \<Longrightarrow> (case e of Timeout \<Rightarrow> a | _ \<Rightarrow> b) = b"
  by (cases e) auto

definition spec_of :: "exec_config \<Rightarrow> exec_request \<Rightarrow> spawn_spec" where
  "spec_of cfg req =
     \<lparr>sp_shell = unwrap_or (sc_default_shell (xc_shell cfg)) (xr_shell req),
      sp_working_dir = expand_tilde (xc_home cfg) (unwrap_or (sc_default_working_dir (xc_shell cfg)) (xr_working_dir req)),
      sp_command = xr_command req, sp_env = xr_env req\<rparr>"

lemma exec_logged:
  fixes cfg req s os
  defines "timeout \<equiv> unwrap_or (xc_timeout_ms cfg) (xr_timeout_ms req)"
  shows "exec os cfg hs req s =
    ((case outcome_at os (spec_of cfg req) timeout s of
        Inr r \<Rightarrow> Inr \<lparr>xp_output = r, xp_request_id = xr_request_id req\<rparr>
      | Inl e \<Rightarrow> Inl (if e = Timeout then (504, exec_detail (xr_request_id req) (api_error_new ''TIMEOUT'' ''Command timed out''))
                    else (500, exec_detail (xr_request_id req) (api_error_new ''EXEC_FAILED'' (exec_error_text e))))),
     run_logged os (source_from_headers hs) (request_id_from_headers hs) (spec_of cfg req) timeout s)"
  by (rule run_command_cases [of os "spec_of cfg req" timeout s])
     (auto simp: exec_def logging_defs spec_of_def timeout_def outcome_at_def Let_def split: exec_error.splits)

lemma tunnel_exec_logged:
  assumes "xr_command req = unwrap_or [] (str_field msg ''command'')" "xr_timeout_ms req = u64_field msg ''timeout_ms''"
    "xr_shell req = str_field msg ''shell''" "xr_working_dir req = str_field msg ''working_dir''" "xr_env req = env_field msg"
    and timeout: "timeout = unwrap_or (xc_timeout_ms cfg) (xr_timeout_ms req)"
  shows "handle_tunnel_exec os cfg ok msg s =
    ((case outcome_at os (spec_of cfg req) timeout s of
        Inr r \<Rightarrow> tunnel_answer ''tunnel.exec.result'' msg 200 (output_value r)
      | Inl e \<Rightarrow> if e = Timeout then tunnel_answer ''tunnel.exec.result'' msg 504 (error_body ''Command timed out'' ''TIMEOUT'')
                else tunnel_answer ''tunnel.exec.result'' msg 500 (error_body (exec_error_text e) ''EXEC_FAILED'')),
     run_logged os (tunnel_source ok msg) (gx_request_id msg) (spec_of cfg req) timeout s)"
  by (rule run_command_cases [of os "spec_of cfg req" timeout s])
     (auto simp: handle_tunnel_exec_def logging_defs spec_of_def assms outcome_at_def Let_def split: exec_error.splits)

definition batch_spec :: "exec_config \<Rightarrow> string \<Rightarrow> string \<Rightarrow> env_vars option \<Rightarrow> batch_command \<Rightarrow> spawn_spec" where
  "batch_spec cfg sh dir env cmd =
     \<lparr>sp_shell = unwrap_or sh (bc_shell cmd), sp_working_dir = expand_tilde (xc_home cfg) (unwrap_or dir (bc_working_dir cmd)),
      sp_command = bc_command cmd, sp_env = env\<rparr>"

definition batch_result :: "exec_error + exec_output \<Rightarrow> u64 \<Rightarrow> exec_output" where
  "batch_result out timeout =
     (case out of
        Inr r \<Rightarrow> r
      | Inl e \<Rightarrow> \<lparr>xo_exit_code = - 1, xo_stdout = [], xo_stderr = exec_error_text e,
                  xo_duration_ms = (if e = Timeout then timeout else 0)\<rparr>)"

lemma run_batch_command_logged:
  fixes cfg cmd s os
  defines "timeout \<equiv> unwrap_or (xc_timeout_ms cfg) (bc_timeout_ms cmd)"
  shows "run_batch_command os cfg source rid sh dir env cmd s =
    (batch_result (outcome_at os (batch_spec cfg sh dir env cmd) timeout s) timeout,
     run_logged os source rid (batch_spec cfg sh dir env cmd) timeout s)"
  by (rule run_command_cases [of os "batch_spec cfg sh dir env cmd" timeout s])
     (auto simp: run_batch_command_def logging_defs batch_spec_def batch_result_def timeout_def outcome_at_def Let_def
       split: exec_error.splits)

lemma tunnel_batch_command_logged:
  assumes "bc_command cmd = unwrap_or [] (str_field v ''command'')" "bc_timeout_ms cmd = u64_field v ''timeout_ms''"
    "bc_shell cmd = str_field v ''shell''" "bc_working_dir cmd = str_field v ''working_dir''" "bc_env cmd = env_field v"
    and timeout: "timeout = unwrap_or (xc_timeout_ms cfg) (bc_timeout_ms cmd)"
  shows "tunnel_batch_command os cfg source rid sh dir env v s =
    (output_value (batch_result (outcome_at os (batch_spec cfg sh dir (merge_env env (bc_env cmd)) cmd) timeout s) timeout),
     run_logged os source rid (batch_spec cfg sh dir (merge_env env (bc_env cmd)) cmd) timeout s)"
  by (rule run_command_cases [of os "batch_spec cfg sh dir (merge_env env (bc_env cmd)) cmd" timeout s])
     (auto simp: tunnel_batch_command_def logging_defs batch_spec_def batch_result_def assms outcome_at_def output_value_def
       merge_env_def Let_def split: exec_error.splits)

subsection \<open>Every command can be looked up\<close>

text \<open>The server runs commands from its own endpoints and from the tunnel, and logs other activity in between.\<close>

datatype exec_op =
    OpExec headers exec_request
  | OpBatch headers batch_exec_request
  | OpTunnelExec json
  | OpTunnelBatch json
  | OpOther log_call

fun exec_step :: "os \<Rightarrow> exec_config \<Rightarrow> (string \<Rightarrow> bool) \<Rightarrow> exec_op \<Rightarrow> exec_state \<Rightarrow> exec_state" where
  "exec_step os cfg ok (OpExec hs req) s = snd (exec os cfg hs req s)"
| "exec_step os cfg ok (OpBatch hs req) s = snd (batch_exec os cfg hs req s)"
| "exec_step os cfg ok (OpTunnelExec msg) s = snd (handle_tunnel_exec os cfg ok msg s)"
| "exec_step os cfg ok (OpTunnelBatch msg) s = snd (handle_tunnel_exec_batch os cfg ok msg s)"
| "exec_step os cfg ok (OpOther c) s = s\<lparr>xs_log := snd (log_activity c (xs_log s))\<rparr>"

definition fresh_exec :: "nat \<Rightarrow> nat \<Rightarrow> exec_state" where
  "fresh_exec m n = \<lparr>xs_spawned = [], xs_log = new_log m, xs_cache = new_cache n\<rparr>"

abbreviation logged_entries :: "exec_state \<Rightarrow> activity_entry list" where
  "logged_entries s \<equiv> al_broadcast (xs_log s)"

text \<open>A result tells how the command went, and an entry of the activity log announces it.\<close>

definition result_for :: "os \<Rightarrow> exec_state \<Rightarrow> nat \<Rightarrow> exec_result \<Rightarrow> bool" where
  "result_for os s k r \<longleftrightarrow>
     (\<exists>timeout. r = result_of (exec_process (os (take k (xs_spawned s)) (xs_spawned s ! k)) timeout) timeout
        (sp_command (xs_spawned s ! k)) (er_activity_id r))
     \<and> (\<exists>e \<in> set (logged_entries s). ae_id e = er_activity_id r \<and> ae_type e = activity_type.Exec
          \<and> ae_summary e = truncate_str (er_command r) 80)"

definition exec_inv :: "os \<Rightarrow> nat \<Rightarrow> exec_state \<Rightarrow> bool" where
  "exec_inv os n s \<longleftrightarrow> al_next_id (xs_log s) = of_nat (Suc (length (logged_entries s)))
     \<and> (length (logged_entries s) < 2 ^ 64 - 1 \<longrightarrow>
         (\<exists>rs. xs_cache s = store_all rs (new_cache n) \<and> length rs = length (xs_spawned s)
            \<and> distinct (map er_activity_id rs) \<and> (\<forall>r \<in> set rs. unat (er_activity_id r) \<le> length (logged_entries s))
            \<and> (\<forall>k < length rs. result_for os s k (rs ! k))))"

lemma log_activity_fields:
  "al_next_id (snd (log_activity c l)) = al_next_id l + 1"
  "al_broadcast (snd (log_activity c l)) = al_broadcast l @ [log_entry c l]"
  "fst (log_activity c l) = al_next_id l"
  by (simp_all add: log_activity_def log_append_def log_broadcast_def log_alloc_def log_entry_def Let_def)

lemma result_for_grows:
  assumes "result_for os s k r" "k < length (xs_spawned s)"
    and "xs_spawned s' = xs_spawned s @ sps" "logged_entries s' = logged_entries s @ es"
  shows "result_for os s' k r"
  using assms by (auto simp: result_for_def nth_append)

lemma exec_inv_other:
  assumes "exec_inv os n s" shows "exec_inv os n (s\<lparr>xs_log := snd (log_activity c (xs_log s))\<rparr>)"
proof -
  let ?s' = "s\<lparr>xs_log := snd (log_activity c (xs_log s))\<rparr>"
  have e: "logged_entries ?s' = logged_entries s @ [log_entry c (xs_log s)]" by (simp add: log_activity_fields)
  {
    assume b: "length (logged_entries ?s') < 2 ^ 64 - 1"
    then obtain rs where rs: "xs_cache s = store_all rs (new_cache n)" "length rs = length (xs_spawned s)"
        "distinct (map er_activity_id rs)" "\<forall>r \<in> set rs. unat (er_activity_id r) \<le> length (logged_entries s)"
        "\<forall>k < length rs. result_for os s k (rs ! k)"
      using assms by (auto simp: exec_inv_def log_activity_fields)
    have "result_for os ?s' k (rs ! k)" if "k < length rs" for k
      using result_for_grows [of os s k "rs ! k" ?s' "[]"] that rs(2,5) e by simp
    with rs have "\<exists>rs. xs_cache ?s' = store_all rs (new_cache n) \<and> length rs = length (xs_spawned ?s')
            \<and> distinct (map er_activity_id rs) \<and> (\<forall>r \<in> set rs. unat (er_activity_id r) \<le> length (logged_entries ?s'))
            \<and> (\<forall>k < length rs. result_for os ?s' k (rs ! k))"
      by (intro exI [of _ rs]) (auto simp: log_activity_fields le_SucI)
  }
  then show ?thesis using assms by (simp add: exec_inv_def log_activity_fields)
qed

lemma exec_inv_run_logged:
  assumes inv: "exec_inv os n s" shows "exec_inv os n (run_logged os source rid sp timeout s)"
proof -
  let ?s' = "run_logged os source rid sp timeout s" and ?id = "al_next_id (xs_log s)"
  let ?r = "result_of (outcome_at os sp timeout s) timeout (sp_command sp) ?id"
  define e where "e = log_entry \<lparr>lc_type = activity_type.Exec, lc_source = source, lc_summary = truncate_str (sp_command sp) 80,
    lc_detail = Some (detail_of (outcome_at os sp timeout s) timeout), lc_request_id = rid,
    lc_clock_ms = px_clock_ms (os (xs_spawned s) sp)\<rparr> (xs_log s)"
  have f: "xs_spawned ?s' = xs_spawned s @ [sp]" "logged_entries ?s' = logged_entries s @ [e]"
    "al_next_id (xs_log ?s') = ?id + 1" "xs_cache ?s' = cache_store ?r (xs_cache s)"
    by (simp_all add: run_logged_def log_and_cache_def log_activity_def log_append_def log_broadcast_def log_alloc_def
        log_entry_def e_def Let_def)
  have r: "er_activity_id ?r = ?id" "er_command ?r = sp_command sp" by (simp_all add: result_of_def split: sum.split)
  have ef: "ae_id e = ?id" "ae_type e = activity_type.Exec" "ae_summary e = truncate_str (sp_command sp) 80"
    by (simp_all add: e_def log_entry_def)
  have "result_for os ?s' (length (xs_spawned s)) ?r"
    unfolding result_for_def f r using ef by (auto simp: outcome_at_def nth_append r)
  moreover
  have "\<exists>rs. xs_cache ?s' = store_all rs (new_cache n) \<and> length rs = length (xs_spawned ?s')
            \<and> distinct (map er_activity_id rs) \<and> (\<forall>r \<in> set rs. unat (er_activity_id r) \<le> length (logged_entries ?s'))
            \<and> (\<forall>k < length rs. result_for os ?s' k (rs ! k))"
    if b: "length (logged_entries ?s') < 2 ^ 64 - 1"
  proof -
    obtain rs where rs: "xs_cache s = store_all rs (new_cache n)" "length rs = length (xs_spawned s)"
        "distinct (map er_activity_id rs)" "\<forall>r \<in> set rs. unat (er_activity_id r) \<le> length (logged_entries s)"
        "\<forall>k < length rs. result_for os s k (rs ! k)"
      using inv b by (auto simp: exec_inv_def f)
    have id: "unat ?id = Suc (length (logged_entries s))"
      using inv b by (simp add: exec_inv_def f unat_word_ariths unat_of_nat take_bit_nat_eq_self)
    then have "?id \<notin> er_activity_id ` set rs" using rs(4) by (metis imageE not_less_eq_eq order_refl)
    moreover have "result_for os ?s' k ((rs @ [?r]) ! k)" if "k < length (rs @ [?r])" for k
      using result_for_grows [of os s k "rs ! k" ?s' "[sp]"] that rs(2,5) f \<open>result_for os ?s' (length (xs_spawned s)) ?r\<close>
      by (auto simp: nth_append less_Suc_eq)
    ultimately show ?thesis
      using rs id by (intro exI [of _ "rs @ [?r]"]) (auto simp: store_all_def f r)
  qed
  ultimately show ?thesis using inv by (simp add: exec_inv_def f)
qed

lemma by_id_nth: "distinct (map er_activity_id rs) \<Longrightarrow> i < length rs \<Longrightarrow> by_id (er_activity_id (rs ! i)) rs = Some (rs ! i)"
proof (induction rs arbitrary: i)
  case (Cons r rs)
  then show ?case by (cases i) (auto simp: nth_mem)
qed simp

lemma exec_inv_run_batch: "exec_inv os n s \<Longrightarrow> exec_inv os n (snd (run_batch os cfg source rid sh dir env cmds s))"
  by (induction cmds arbitrary: s)
     (simp_all add: run_batch_command_logged Let_def case_prod_beta exec_inv_run_logged)

lemma exec_inv_tunnel_batch: "exec_inv os n s \<Longrightarrow> exec_inv os n (snd (tunnel_batch os cfg source rid sh dir env vs s))"
proof (induction vs arbitrary: s)
  case (Cons v vs)
  define cmd where "cmd = \<lparr>bc_command = unwrap_or [] (str_field v ''command''), bc_timeout_ms = u64_field v ''timeout_ms'',
    bc_working_dir = str_field v ''working_dir'', bc_env = env_field v, bc_shell = str_field v ''shell''\<rparr>"
  have "exec_inv os n (snd (tunnel_batch_command os cfg source rid sh dir env v s))"
    using Cons.prems tunnel_batch_command_logged [of cmd v _ cfg os source rid sh dir env s]
    by (simp add: cmd_def exec_inv_run_logged)
  with Cons.IH show ?case by (simp add: Let_def case_prod_beta)
qed simp

lemma exec_inv_step: "exec_inv os n s \<Longrightarrow> True \<Longrightarrow> exec_inv os n (exec_step os cfg ok op s)"
proof (cases op)
  case (OpTunnelExec msg)
  define req where "req = \<lparr>xr_command = unwrap_or [] (str_field msg ''command''), xr_timeout_ms = u64_field msg ''timeout_ms'',
    xr_request_id = None, xr_working_dir = str_field msg ''working_dir'', xr_env = env_field msg, xr_shell = str_field msg ''shell''\<rparr>"
  assume "exec_inv os n s"
  then show ?thesis
    using OpTunnelExec tunnel_exec_logged [of req msg _ cfg os ok s] by (simp add: req_def exec_inv_run_logged)
next
  case (OpBatch hs req)
  assume "exec_inv os n s"
  then show ?thesis using OpBatch by (simp add: batch_exec_def exec_inv_run_batch Let_def case_prod_beta)
next
  case (OpTunnelBatch msg)
  assume "exec_inv os n s"
  then show ?thesis
    using OpTunnelBatch by (simp add: handle_tunnel_exec_batch_def exec_inv_tunnel_batch Let_def case_prod_beta split: option.split)
qed (simp_all add: exec_logged exec_inv_run_logged exec_inv_other)

interpretation commands: invariant_machine "exec_step os cfg ok" "\<lambda>_ _. True" "exec_inv os n" for os cfg ok n
  by unfold_locales (rule exec_inv_step)

lemma fresh_exec_inv: "exec_inv os n (fresh_exec m n)"
  by (simp add: exec_inv_def fresh_exec_def new_log_def store_all_def)


lemma result_of_command: "er_command (result_of out timeout command aid) = command"
  by (simp add: result_of_def split: sum.split)

definition demo_exec_config :: exec_config where
  "demo_exec_config = \<lparr>xc_timeout_ms = 10, xc_max_batch_size = 5, xc_shell = \<lparr>sc_default_terminal_rows = 24,
     sc_default_terminal_cols = 80, sc_default_working_dir = ''/'', sc_default_shell = ''/bin/sh''\<rparr>, xc_home = None\<rparr>"

definition demo_exec_request :: "string \<Rightarrow> exec_request" where
  "demo_exec_request command = \<lparr>xr_command = command, xr_timeout_ms = None, xr_request_id = None, xr_working_dir = None,
     xr_env = None, xr_shell = None\<rparr>"


subsection \<open>Commands through the relay\<close>

text \<open>The fields of a body that the endpoint accepts are read the same way from the message.\<close>

lemma de_opt_index: "de_opt de v k = Some x \<Longrightarrow> de JNull = None \<Longrightarrow> x = de (json_index v k)"
  by (cases v) (auto simp: de_opt_def json_get_def json_index_def split: option.splits if_splits)

lemma de_req_index: "de_req de v k = Some x \<Longrightarrow> de (json_index v k) = Some x \<and> is_record v"
  by (cases v) (auto simp: de_req_def json_get_def json_index_def is_record_def split: option.splits bind_splits)

lemma null_fields: "json_as_str JNull = None" "json_as_u64 JNull = None" "json_as_env JNull = None"
  by (simp_all add: json_as_str_def json_as_u64_def json_as_env_def)

lemma env_field_index: "env_field m = json_as_env (json_index m ''env'')"
  by (cases m) (simp_all add: env_field_def json_get_def json_index_def null_fields split: option.split)

lemma exec_request_fields:
  assumes "exec_request_of v = Some req"
    and same: "\<And>k. k \<in> {''command'', ''timeout_ms'', ''shell'', ''working_dir'', ''env''} \<Longrightarrow> json_index m k = json_index v k"
  shows "xr_command req = unwrap_or [] (str_field m ''command'')" "xr_timeout_ms req = u64_field m ''timeout_ms''"
    "xr_shell req = str_field m ''shell''" "xr_working_dir req = str_field m ''working_dir''" "xr_env req = env_field m"
proof -
  from assms(1) obtain c t r d e sh where f: "de_req json_as_str v ''command'' = Some c" "de_opt json_as_u64 v ''timeout_ms'' = Some t"
      "de_opt json_as_str v ''working_dir'' = Some d" "de_opt json_as_env v ''env'' = Some e" "de_opt json_as_str v ''shell'' = Some sh"
      "req = \<lparr>xr_command = c, xr_timeout_ms = t, xr_request_id = r, xr_working_dir = d, xr_env = e, xr_shell = sh\<rparr>"
    by (auto simp: exec_request_of_def bind_eq_Some_conv)
  show "xr_command req = unwrap_or [] (str_field m ''command'')" "xr_timeout_ms req = u64_field m ''timeout_ms''"
    "xr_shell req = str_field m ''shell''" "xr_working_dir req = str_field m ''working_dir''" "xr_env req = env_field m"
    using de_req_index [OF f(1)] de_opt_index [OF f(2)] de_opt_index [OF f(3)] de_opt_index [OF f(4)] de_opt_index [OF f(5)] same
    by (simp_all add: f(6) str_field_def u64_field_def env_field_index unwrap_or_def null_fields)
qed

lemma exec_request_record: "exec_request_of v = Some req \<Longrightarrow> is_record v"
  by (auto simp: exec_request_of_def bind_eq_Some_conv dest: de_req_index)

text \<open>
  A command on its way: the endpoint of the relay, the handler of the device, and its answer under the
  request's id.
\<close>

definition relayed_exec ::
    "codec \<Rightarrow> string \<Rightarrow> relay_state \<Rightarrow> string \<Rightarrow> proxy_request \<Rightarrow> os \<Rightarrow> exec_config \<Rightarrow> exec_state
       \<Rightarrow> (http_error, http_response) outcome \<times> exec_state" where
  "relayed_exec cd rid s serial req os cfg st =
     (case relay_router cd (\<lambda>_. rid) s serial EpExec req of
        Ok [c] \<Rightarrow>
         (case pc_msg c of
            TText msg \<Rightarrow>
             (let (answer, st') = handle_tunnel_exec os cfg (cd_header_ok cd) msg st
              in (if gx_request_id answer = Some (pc_rid c) then proxy_respond cd EpExec [Inr (RJson answer)]
                  else Err (504, JNull), st'))
          | _ \<Rightarrow> (Err (500, JNull), st))
      | Err e \<Rightarrow> (Err e, st)
      | Panic p \<Rightarrow> (Panic p, st)
      | _ \<Rightarrow> (Err (500, JNull), st))"

text \<open>The headers under which the device runs the command: the client's name, and the id of the relay's request.\<close>

definition relayed_headers :: "(string \<Rightarrow> bool) \<Rightarrow> string \<Rightarrow> proxy_request \<Rightarrow> json \<Rightarrow> headers" where
  "relayed_headers header_ok rid req v =
     (let client = (case pr_headers req ''x-sctl-client'' of Some c \<Rightarrow> c | None \<Rightarrow> json_str_or ''tunnel'' (json_index v ''_source''))
      in (if header_ok client then [''x-sctl-client'' \<mapsto> client] else Map.empty)(''x-request-id'' \<mapsto> rid))"

lemma relayed_exec_message:
  assumes "validate_device_auth s serial (pr_headers req ''authorization'') = Inr d"
    and "int (length (pr_body req)) \<le> 10 * MIB" "cd_de cd (pr_body req) = Some v" "is_record v"
  obtains msg where "relay_router cd (\<lambda>_. rid) s serial EpExec req =
      Ok [\<lparr>pc_msg = TText msg, pc_rid = rid, pc_timeout = exec_timeout s v\<rparr>]"
    and "\<And>f. json_index msg f = (case map_of (rev ([(''type'', JStr ''tunnel.exec''), (''request_id'', JStr rid)] @ source_field req)) f of
           Some x \<Rightarrow> x | None \<Rightarrow> json_index v f)"
proof -
  let ?fvs = "[(''type'', JStr ''tunnel.exec''), (''request_id'', JStr rid)] @ source_field req"
  have "relay_router cd (\<lambda>_. rid) s serial EpExec req = set_fields ?fvs v (send_one rid (exec_timeout s v))"
    using assms by (simp add: proxy_exec_def with_json_def with_body_def authorised_def)
  moreover have "\<exists>calls. set_fields fvs m (send_one rid (exec_timeout s v)) = Ok calls" if "is_record m" for fvs m
    using that
  proof (induction fvs arbitrary: m)
    case Nil
    then show ?case by (simp add: set_fields.simps send_one_def)
  next
    case (Cons fv fvs)
    then show ?case by (cases fv) (simp add: set_fields.simps json_set_cases is_record_def)
  qed
  ultimately obtain calls where calls: "relay_router cd (\<lambda>_. rid) s serial EpExec req = Ok calls"
      "set_fields ?fvs v (send_one rid (exec_timeout s v)) = Ok calls"
    using assms(4) by metis
  from set_fields_Ok [OF calls(2)] obtain m' where m': "send_one rid (exec_timeout s v) m' = Ok calls"
    "\<And>f. json_index m' f = (case map_of (rev ?fvs) f of Some v \<Rightarrow> v | None \<Rightarrow> json_index v f)" by blast
  show thesis using that [of m'] m' calls(1) by (simp add: send_one_def)
qed

lemma answer_response:
  assumes "rid = gx_request_id msg"
  shows "proxy_respond cd EpExec [Inr (RJson (tunnel_answer ty msg 200 body))] = Ok (HJson body)"
    and "proxy_respond cd EpExec [Inr (RJson (tunnel_answer ty msg 500 body))] = Err (500, body)"
    and "proxy_respond cd EpExec [Inr (RJson (tunnel_answer ty msg 504 body))] = Err (504, body)"
    and "gx_request_id (tunnel_answer ty msg n body) = rid"
  using assms
  by (simp_all add: proxy_respond_def tunnel_request_json_def proxy_response_to_http_def status_field_def tunnel_answer_def
      json_index_obj json_as_u64_def status_of_def Let_def gx_fields opt_json_def json_as_str_def split: option.split)

text \<open>
  C20. The relay is transparent for commands. A command that an authorised client posts to the relay,
  with a body that the device's own endpoint would accept, starts the same process on the device,
  writes the same entry into the activity log and the same result into the cache as the same body
  posted to the device under the relayed headers; the client gets the same output, or an error with
  the same status and code.
\<close>

theorem relayed_exec_transparent:
  assumes "validate_device_auth s serial (pr_headers req ''authorization'') = Inr d"
    and "int (length (pr_body req)) \<le> 10 * MIB" and "cd_de cd (pr_body req) = Some v" and "exec_request_of v = Some r"
    and "exec os cfg (relayed_headers (cd_header_ok cd) rid req v) r st = (res, st')"
  shows "\<exists>answer. relayed_exec cd rid s serial req os cfg st = (answer, st')
    \<and> (case res of
         Inr resp \<Rightarrow> answer = Ok (HJson (output_value (xp_output resp)))
       | Inl (n, e) \<Rightarrow> \<exists>body. answer = Err (n, body) \<and> json_index body ''code'' = JStr (err_code e))"
proof -
  obtain msg where msg: "relay_router cd (\<lambda>_. rid) s serial EpExec req =
      Ok [\<lparr>pc_msg = TText msg, pc_rid = rid, pc_timeout = exec_timeout s v\<rparr>]"
    and ix: "\<And>f. json_index msg f = (case map_of (rev ([(''type'', JStr ''tunnel.exec''), (''request_id'', JStr rid)] @ source_field req)) f of
           Some x \<Rightarrow> x | None \<Rightarrow> json_index v f)"
    using relayed_exec_message [OF assms(1-3) exec_request_record [OF assms(4)]] by metis
  let ?hs = "relayed_headers (cd_header_ok cd) rid req v" and ?t = "unwrap_or (xc_timeout_ms cfg) (xr_timeout_ms r)"
  have same: "json_index msg k = json_index v k"
    if "k \<in> {''command'', ''timeout_ms'', ''shell'', ''working_dir'', ''env''}" for k
    using that by (auto simp: ix source_field_def split: option.split)
  have rid: "gx_request_id msg = Some rid" "request_id_from_headers ?hs = Some rid"
    by (auto simp: gx_request_id_def ix source_field_def json_as_str_def relayed_headers_def request_id_from_headers_def Let_def
        split: option.split)
  have src: "tunnel_source (cd_header_ok cd) msg = source_from_headers ?hs"
    by (auto simp: tunnel_source_def tunnel_headers_def ix source_field_def relayed_headers_def source_from_headers_def
        json_str_or_def json_as_str_def Let_def split: option.split)
  note fs = exec_request_fields [OF assms(4) same]
  have dev: "handle_tunnel_exec os cfg (cd_header_ok cd) msg st =
    ((case outcome_at os (spec_of cfg r) ?t st of
        Inr r \<Rightarrow> tunnel_answer ''tunnel.exec.result'' msg 200 (output_value r)
      | Inl e \<Rightarrow> if e = Timeout then tunnel_answer ''tunnel.exec.result'' msg 504 (error_body ''Command timed out'' ''TIMEOUT'')
                else tunnel_answer ''tunnel.exec.result'' msg 500 (error_body (exec_error_text e) ''EXEC_FAILED'')),
     run_logged os (source_from_headers ?hs) (Some rid) (spec_of cfg r) ?t st)"
    using tunnel_exec_logged [OF fs(1) fs(2) fs(3) fs(4) fs(5) refl] by (simp only: src rid)
  have st': "st' = run_logged os (source_from_headers ?hs) (Some rid) (spec_of cfg r) ?t st"
    using assms(5) by (simp add: exec_logged rid)
  have res: "res = fst (exec os cfg ?hs r st)" using assms(5) by simp
  note ans = answer_response [OF refl] rid
  have run: "relayed_exec cd rid s serial req os cfg st =
      (let (answer, st') = handle_tunnel_exec os cfg (cd_header_ok cd) msg st
       in (if gx_request_id answer = Some rid then proxy_respond cd EpExec [Inr (RJson answer)] else Err (504, JNull), st'))"
    unfolding relayed_exec_def msg by simp
  show ?thesis
    by (rule run_command_cases [of os "spec_of cfg r" ?t st])
       (auto simp: run dev src rid st' res exec_logged ans Let_def error_body_def json_index_obj exec_detail_def
          with_detail_def api_error_new_def split: option.split)
qed

definition demo_exec_body :: json where
  "demo_exec_body = JObj [(''command'', JStr ''ls''), (''shell'', JNull)]"

theorem relayed_exec_transparent_witness:
  "\<exists>r st'. relayed_exec (demo_codec\<lparr>cd_de := \<lambda>_. Some demo_exec_body\<rparr>) ''r'' demo_state ''D1'' (demo_request ''key'')
      (\<lambda>_ _. demo_process) demo_exec_config (fresh_exec 9 9) = (Ok (HJson (output_value r)), st')
    \<and> xo_exit_code r = 3 \<and> map sp_command (xs_spawned st') = [''ls'']"
proof -
  let ?cd = "demo_codec\<lparr>cd_de := \<lambda>_. Some demo_exec_body\<rparr>" and ?req = "demo_request ''key''"
  obtain r where r: "exec_request_of demo_exec_body = Some r" "xr_command r = ''ls''" "xr_timeout_ms r = None"
    by (simp add: exec_request_of_def demo_exec_body_def de_req_def de_opt_def json_get_def json_as_str_def)
  have a: "validate_device_auth demo_state ''D1'' (pr_headers ?req ''authorization'') = Inr (1, the (hm_get (rs_conns demo_state) 1))"
    by (simp add: validate_device_auth_Inr demo_device demo_request_def)
  obtain p where p: "exec_process demo_process 10 = Inr p" "xo_exit_code p = 3"
    by (simp add: exec_process_def demo_process_def unwrap_or_def)
  let ?ex = "exec (\<lambda>_ _. demo_process) demo_exec_config (relayed_headers (cd_header_ok ?cd) ''r'' ?req demo_exec_body) r (fresh_exec 9 9)"
  have ex: "fst ?ex = Inr \<lparr>xp_output = p, xp_request_id = xr_request_id r\<rparr>" "map sp_command (xs_spawned (snd ?ex)) = [''ls'']"
    using p r by (simp_all add: exec_logged outcome_at_def demo_exec_config_def unwrap_or_def fresh_exec_def run_logged_def
        log_and_cache_def spec_of_def Let_def case_prod_beta)
  from relayed_exec_transparent [OF a _ _ r(1), of ?cd "\<lambda>_ _. demo_process" demo_exec_config "''r''" "fresh_exec 9 9" "fst ?ex" "snd ?ex"]
  show ?thesis using ex p by (auto simp: demo_request_def MIB_def demo_codec_def)
qed

text \<open>
  What the device's own endpoint refuses runs through the relay: an empty batch is answered with an
  empty list, and a body without a command runs the empty one.
\<close>

lemma tunnel_empty_batch:
  assumes "json_index msg ''commands'' = JArr []"
  shows "handle_tunnel_exec_batch os cfg ok msg s =
    (tunnel_answer ''tunnel.exec_batch.result'' msg 200 (JObj [(''results'', JArr [])]), s)"
    and "batch_exec os cfg hs \<lparr>bx_commands = [], bx_working_dir = d, bx_env = e, bx_shell = sh, bx_request_id = i\<rparr> s =
      (Inl (api_fail 400 ''INVALID_REQUEST'' ''commands array is empty''), s)"
  using assms by (simp_all add: handle_tunnel_exec_batch_def batch_exec_def json_as_array_def)

lemma tunnel_exec_without_command:
  "\<exists>sp. sp_command sp = [] \<and> xs_spawned (snd (handle_tunnel_exec os cfg ok (JObj []) s)) = xs_spawned s @ [sp]"
    and "exec_request_of (JObj []) = None"
proof -
  define req where "req = \<lparr>xr_command = [], xr_timeout_ms = None, xr_request_id = None, xr_working_dir = None, xr_env = None,
    xr_shell = None\<rparr>"
  have n: "str_field (JObj []) k = None" "u64_field (JObj []) k = None" "env_field (JObj []) = None" for k
    by (simp_all add: str_field_def u64_field_def env_field_index json_index_def null_fields)
  show "\<exists>sp. sp_command sp = [] \<and> xs_spawned (snd (handle_tunnel_exec os cfg ok (JObj []) s)) = xs_spawned s @ [sp]"
    using tunnel_exec_logged [of req "JObj []" _ cfg os ok s] n
    by (simp add: req_def unwrap_or_def run_logged_def log_and_cache_def spec_of_def Let_def case_prod_beta)
qed (simp add: exec_request_of_def de_req_def json_get_def)

end
