(* ===== verification/Playbooks.thy ===== *)
theory Playbooks
  imports Exec
begin

text \<open>
  Playbooks of the device (\<open>server/src/routes/playbooks.rs\<close>): Markdown files with YAML frontmatter and
  a fenced script, kept in one directory of the file system of the file endpoints, with the handlers
  that serve them through the tunnel (\<open>server/src/tunnel/client.rs\<close>).

  The YAML parser (\<open>serde_yaml\<close>) is a parameter that gives the deserialised frontmatter or its error.
\<close>

subsection \<open>Searching text\<close>

text \<open>\<open>str::find\<close>\<close>

fun find_str :: "string \<Rightarrow> string \<Rightarrow> nat option" where
  "find_str p [] = (if p = [] then Some 0 else None)"
| "find_str p (c # s) = (if starts_with p (c # s) then Some 0 else map_option Suc (find_str p s))"

definition trim_start :: "string \<Rightarrow> string" where
  "trim_start s = dropWhile is_ws s"

definition ascii_alphanumeric :: "char \<Rightarrow> bool" where
  "ascii_alphanumeric c =
     (let n = of_char c :: nat in 48 \<le> n \<and> n \<le> 57 \<or> 65 \<le> n \<and> n \<le> 90 \<or> 97 \<le> n \<and> n \<le> 122)"

definition name_char :: "char \<Rightarrow> bool" where
  "name_char c \<longleftrightarrow> ascii_alphanumeric c \<or> c = CHR ''-'' \<or> c = CHR ''_''"

subsection \<open>Parsing\<close>

record raw_param =
  rw_type :: string
  rw_description :: string
  rw_default :: "json option"
  rw_enum :: "json list option"

record front_matter =
  fm_name :: string
  fm_description :: string
  fm_params :: "(string, raw_param) hmap"

type_synonym yaml = "string \<Rightarrow> string + front_matter"

fun script_lines :: "bool \<Rightarrow> string list \<Rightarrow> string list \<Rightarrow> string + string list" where
  "script_lines in_block acc [] =
     Inl (if in_block then ''Unclosed code block'' else ''No ```sh or ```bash code block found'')"
| "script_lines in_block acc (l # ls) =
     (if \<not> in_block
      then script_lines (starts_with ''```sh'' (trim l) \<or> starts_with ''```bash'' (trim l)) acc ls
      else if starts_with ''```'' (trim l) then Inr acc
      else script_lines in_block (acc @ [l]) ls)"

definition extract_script_block :: "string \<Rightarrow> string + string" where
  "extract_script_block body =
     (case script_lines False [] (lines body) of Inl e \<Rightarrow> Inl e | Inr ls \<Rightarrow> Inr (join_with [CHR 0x0A] ls))"

definition split_frontmatter :: "string \<Rightarrow> string + string \<times> string" where
  "split_frontmatter markdown =
     (let trimmed = trim_start markdown in
      if \<not> starts_with ''---'' trimmed then Inl ''Missing YAML frontmatter (must start with ---)''
      else
        (let after_open = drop 3 trimmed in
         case find_str (CHR 0x0A # ''---'') after_open of
           None \<Rightarrow> Inl ''Missing closing --- for frontmatter''
         | Some close_pos \<Rightarrow> Inr (take close_pos after_open, drop (close_pos + 4) after_open)))"

definition invalid_name_text :: "string \<Rightarrow> string" where
  "invalid_name_text name = ''Invalid playbook name '' @ [CHR 0x27] @ name @ [CHR 0x27]
     @ '': only alphanumeric, hyphens, and underscores allowed''"

definition parse_playbook :: "yaml \<Rightarrow> string \<Rightarrow> string + front_matter \<times> string" where
  "parse_playbook yaml markdown =
     (case split_frontmatter markdown of
        Inl e \<Rightarrow> Inl e
      | Inr (yaml_str, body) \<Rightarrow>
         (case yaml yaml_str of
            Inl e \<Rightarrow> Inl (''YAML parse error: '' @ e)
          | Inr fm \<Rightarrow>
              if trim (fm_name fm) = [] then Inl ''Playbook name is empty''
              else if trim (fm_description fm) = [] then Inl ''Playbook description is empty''
              else if \<not> list_all name_char (fm_name fm) then Inl (invalid_name_text (fm_name fm))
              else (case extract_script_block body of Inl e \<Rightarrow> Inl e | Inr script \<Rightarrow> Inr (fm, script))))"

definition validate_playbook_name :: "string \<Rightarrow> api_failure + unit" where
  "validate_playbook_name name =
     (if name = [] \<or> \<not> list_all name_char name
      then Inl (api_fail 400 ''INVALID_REQUEST'' ''Invalid playbook name: only alphanumeric, hyphens, and underscores allowed'')
      else Inr ())"

subsection \<open>Files\<close>

definition playbook_path :: "string \<Rightarrow> string \<Rightarrow> string" where
  "playbook_path dir name = dir @ ''/'' @ name @ ''.md''"

text \<open>\<open>tokio::fs::read_to_string\<close>\<close>

definition read_to_string :: "files_env \<Rightarrow> string \<Rightarrow> filesystem \<Rightarrow> fs_err + string" where
  "read_to_string env p fs =
     (case fe_open_err env of
        Some e \<Rightarrow> Inl e
      | None \<Rightarrow>
         (case fs p of
            None \<Rightarrow> Inl NotFound
          | Some DirNode \<Rightarrow> Inl (Io ''Is a directory (os error 21)'')
          | Some (FileNode data _ _) \<Rightarrow>
              if utf8_valid data then Inr (text_of data) else Inl (Io ''stream did not contain valid UTF-8'')))"

text \<open>
  \<open>tokio::fs::write\<close> on a path that may exist: the file is truncated and filled in place, and keeps
  its mode.
\<close>

definition overwrite_node :: "files_env \<Rightarrow> string \<Rightarrow> u8 list \<Rightarrow> filesystem \<Rightarrow> filesystem" where
  "overwrite_node env p data fs =
     fs(p \<mapsto> FileNode data (fe_mtime env) (case fs p of Some (FileNode _ _ m) \<Rightarrow> m | _ \<Rightarrow> fe_create_mode env))"

definition fs_overwrite :: "files_env \<Rightarrow> string \<Rightarrow> u8 list \<Rightarrow> files_state \<Rightarrow> (fs_err + unit) \<times> files_state" where
  "fs_overwrite env p data s =
     (case fe_create_err env of
        Some e \<Rightarrow> (Inl e, s)
      | None \<Rightarrow>
         if ff_fs s p = Some DirNode then (Inl (Io ''Is a directory (os error 21)''), s)
         else
           (let s1 = fold (\<lambda>n. visit (overwrite_node env p (take n data))) (0 # fe_progress env) s in
            case fe_write_err env of
              Some e \<Rightarrow> (Inl e, s1)
            | None \<Rightarrow> (Inr (), visit (overwrite_node env p data) s1)))"

definition playbook_log :: "files_env \<Rightarrow> headers \<Rightarrow> activity_type \<Rightarrow> string \<Rightarrow> files_state \<Rightarrow> files_state" where
  "playbook_log env hs ty summary s =
     s\<lparr>ff_log := snd (log_activity \<lparr>lc_type = ty, lc_source = source_from_headers hs, lc_summary = summary, lc_detail = None,
        lc_request_id = request_id_from_headers hs, lc_clock_ms = fe_clock_ms env\<rparr> (ff_log s))\<rparr>"

definition quoted :: "string \<Rightarrow> string" where
  "quoted s = [CHR 0x27] @ s @ [CHR 0x27]"

subsection \<open>Endpoints\<close>

definition MAX_PLAYBOOK_SIZE :: nat where
  "MAX_PLAYBOOK_SIZE = 1024 * 1024"

text \<open>\<open>path.extension() == "md"\<close>: a name that is only the extension has none.\<close>

definition has_md_extension :: "string \<Rightarrow> bool" where
  "has_md_extension name \<longleftrightarrow> length name > 3 \<and> drop (length name - 3) name = ''.md''"

definition playbook_summary :: "front_matter \<Rightarrow> json" where
  "playbook_summary fm =
     JObj [(''name'', JStr (fm_name fm)), (''description'', JStr (fm_description fm)),
           (''params'', JArr (map (JStr \<circ> fst) (fm_params fm)))]"

definition listed_playbook :: "yaml \<Rightarrow> string \<Rightarrow> filesystem \<Rightarrow> files_env \<times> string \<Rightarrow> json option" where
  "listed_playbook yaml dir fs x =
     (if has_md_extension (snd x)
      then (case read_to_string (fst x) (join_path dir (snd x)) fs of
              Inl _ \<Rightarrow> None
            | Inr content \<Rightarrow> (case parse_playbook yaml content of Inl _ \<Rightarrow> None | Inr (fm, _) \<Rightarrow> Some (playbook_summary fm)))
      else None)"

text \<open>The directory entries, each with the environment of its reading, or the error of \<open>read_dir\<close>.\<close>

definition list_playbooks ::
    "yaml \<Rightarrow> files_env \<Rightarrow> string \<Rightarrow> headers \<Rightarrow> fs_err + (files_env \<times> string) list \<Rightarrow> files_state
       \<Rightarrow> (api_failure + json) \<times> files_state" where
  "list_playbooks yaml env dir hs entries s =
     (case entries of
        Inl NotFound \<Rightarrow>
          (Inr (JObj [(''playbooks'', JArr [])]), playbook_log env hs PlaybookList ''Listed playbooks (empty)'' s)
      | Inl e \<Rightarrow> (Inl (io_fail (''Failed to read playbooks dir: '' @ err_text e)), s)
      | Inr es \<Rightarrow>
         (let playbooks = List.map_filter (listed_playbook yaml dir (ff_fs s)) es
          in (Inr (JObj [(''playbooks'', JArr playbooks)]),
              playbook_log env hs PlaybookList (''Listed '' @ show_nat (length playbooks) @ '' playbooks'') s)))"

definition param_detail :: "raw_param \<Rightarrow> json" where
  "param_detail v =
     JObj (Ws_Messages.fields [(''type'', str (rw_type v)), (''description'', str (rw_description v)), (''default'', rw_default v),
       (''enum'', map_option JArr (rw_enum v))])"

definition playbook_missing :: "string \<Rightarrow> string \<Rightarrow> fs_err \<Rightarrow> api_failure" where
  "playbook_missing what name e =
     (if e = NotFound then api_fail 404 ''NOT_FOUND'' (''Playbook '' @ quoted name @ '' not found'')
      else io_fail (''Failed to '' @ what @ '' playbook: '' @ err_text e))"

definition get_playbook ::
    "yaml \<Rightarrow> files_env \<Rightarrow> string \<Rightarrow> headers \<Rightarrow> string \<Rightarrow> files_state \<Rightarrow> (api_failure + json) \<times> files_state" where
  "get_playbook yaml env dir hs name s =
     (case validate_playbook_name name of
        Inl e \<Rightarrow> (Inl e, s)
      | Inr _ \<Rightarrow>
         (case read_to_string env (playbook_path dir name) (ff_fs s) of
            Inl e \<Rightarrow> (Inl (playbook_missing ''read'' name e), s)
          | Inr content \<Rightarrow>
             (case parse_playbook yaml content of
                Inl e \<Rightarrow> (Inl (api_fail 422 ''INVALID_CONTENT'' (''Invalid playbook: '' @ e)), s)
              | Inr (fm, script) \<Rightarrow>
                  (Inr (JObj [(''name'', JStr (fm_name fm)), (''description'', JStr (fm_description fm)),
                     (''params'', JObj (map (\<lambda>(k, v). (k, param_detail v)) (fm_params fm))),
                     (''script'', JStr script), (''raw_content'', JStr content)]),
                   playbook_log env hs PlaybookRead (''Read playbook '' @ quoted name) s))))"

definition put_playbook ::
    "yaml \<Rightarrow> files_env \<Rightarrow> string \<Rightarrow> headers \<Rightarrow> string \<Rightarrow> string \<Rightarrow> files_state \<Rightarrow> (api_failure + json) \<times> files_state" where
  "put_playbook yaml env dir hs name body s =
     (case validate_playbook_name name of
        Inl e \<Rightarrow> (Inl e, s)
      | Inr _ \<Rightarrow>
         if length body > MAX_PLAYBOOK_SIZE
         then (Inl (api_fail 413 ''FILE_TOO_LARGE''
                 (''Playbook content exceeds maximum size of '' @ show_nat MAX_PLAYBOOK_SIZE @ '' bytes'')), s)
         else
           (case parse_playbook yaml body of
              Inl e \<Rightarrow> (Inl (api_fail 400 ''INVALID_CONTENT'' (''Invalid playbook content: '' @ e)), s)
            | Inr _ \<Rightarrow>
               (case fe_mkdir_err env of
                  Some t \<Rightarrow> (Inl (io_fail (''Failed to create playbooks dir: '' @ t)), s)
                | None \<Rightarrow>
                   (let s1 = snd (create_dir_all env dir s); file_path = playbook_path dir name in
                    case fs_overwrite env file_path (bytes body) s1 of
                      (Inl e, s2) \<Rightarrow> (Inl (io_fail (''Failed to write playbook: '' @ err_text e)), s2)
                    | (Inr _, s2) \<Rightarrow>
                        (Inr (JObj [(''ok'', JBool True), (''name'', JStr name), (''path'', JStr file_path)]),
                         playbook_log env hs PlaybookWrite (''Wrote playbook '' @ quoted name) s2)))))"

definition delete_playbook ::
    "files_env \<Rightarrow> string \<Rightarrow> headers \<Rightarrow> string \<Rightarrow> files_state \<Rightarrow> (api_failure + json) \<times> files_state" where
  "delete_playbook env dir hs name s =
     (case validate_playbook_name name of
        Inl e \<Rightarrow> (Inl e, s)
      | Inr _ \<Rightarrow>
         (let p = playbook_path dir name;
              failed = (case fe_remove_err env of
                Some e \<Rightarrow> Some e
              | None \<Rightarrow> (case ff_fs s p of
                  None \<Rightarrow> Some NotFound
                | Some DirNode \<Rightarrow> Some (Io ''Is a directory (os error 21)'')
                | Some (FileNode _ _ _) \<Rightarrow> None))
          in case failed of
               Some e \<Rightarrow> (Inl (playbook_missing ''delete'' name e), s)
             | None \<Rightarrow>
                 (Inr (JObj [(''ok'', JBool True), (''name'', JStr name)]),
                  playbook_log env hs PlaybookDelete (''Deleted playbook '' @ quoted name) (visit (\<lambda>fs. fs(p := None)) s))))"

subsection \<open>Through the tunnel\<close>

definition api_error_value :: "api_error \<Rightarrow> json" where
  "api_error_value e =
     JObj (Ws_Messages.fields [(''code'', str (err_code e)), (''message'', str (err_message e)), (''detail'', err_detail e)])"

definition tunnel_result :: "string \<Rightarrow> json \<Rightarrow> api_failure + json \<Rightarrow> json" where
  "tunnel_result ty msg r =
     (case r of
        Inr body \<Rightarrow> tunnel_answer ty msg 200 body
      | Inl (status, e) \<Rightarrow> tunnel_answer ty msg (int status) (api_error_value e))"

definition tunnel_header_map :: "(string \<Rightarrow> bool) \<Rightarrow> json \<Rightarrow> headers" where
  "tunnel_header_map header_ok msg = map_of (tunnel_headers header_ok msg)"

definition handle_tunnel_playbooks_list ::
    "yaml \<Rightarrow> files_env \<Rightarrow> string \<Rightarrow> (string \<Rightarrow> bool) \<Rightarrow> fs_err + (files_env \<times> string) list \<Rightarrow> json \<Rightarrow> files_state
       \<Rightarrow> json \<times> files_state" where
  "handle_tunnel_playbooks_list yaml env dir header_ok entries msg s =
     (let (r, s1) = list_playbooks yaml env dir (tunnel_header_map header_ok msg) entries s
      in (tunnel_result ''tunnel.playbooks.list.result'' msg r, s1))"

definition handle_tunnel_playbooks_get ::
    "yaml \<Rightarrow> files_env \<Rightarrow> string \<Rightarrow> (string \<Rightarrow> bool) \<Rightarrow> json \<Rightarrow> files_state \<Rightarrow> json \<times> files_state" where
  "handle_tunnel_playbooks_get yaml env dir header_ok msg s =
     (let name = unwrap_or [] (str_field msg ''name'');
          (r, s1) = get_playbook yaml env dir (tunnel_header_map header_ok msg) name s
      in (tunnel_result ''tunnel.playbooks.get.result'' msg r, s1))"

definition handle_tunnel_playbooks_put ::
    "yaml \<Rightarrow> files_env \<Rightarrow> string \<Rightarrow> (string \<Rightarrow> bool) \<Rightarrow> json \<Rightarrow> files_state \<Rightarrow> json \<times> files_state" where
  "handle_tunnel_playbooks_put yaml env dir header_ok msg s =
     (let name = unwrap_or [] (str_field msg ''name''); content = unwrap_or [] (str_field msg ''content'');
          (r, s1) = put_playbook yaml env dir (tunnel_header_map header_ok msg) name content s
      in (tunnel_result ''tunnel.playbooks.put.result'' msg r, s1))"

definition handle_tunnel_playbooks_delete ::
    "files_env \<Rightarrow> string \<Rightarrow> (string \<Rightarrow> bool) \<Rightarrow> json \<Rightarrow> files_state \<Rightarrow> json \<times> files_state" where
  "handle_tunnel_playbooks_delete env dir header_ok msg s =
     (let name = unwrap_or [] (str_field msg ''name'');
          (r, s1) = delete_playbook env dir (tunnel_header_map header_ok msg) name s
      in (tunnel_result ''tunnel.playbooks.delete.result'' msg r, s1))"

end
