(* ===== verification/Mcp_Playbooks.thy ===== *)
theory Mcp_Playbooks
  imports Playbooks
begin

text \<open>
  Playbooks as the MCP server sees them: parsing, tool definitions and rendering
  (\<open>mcp/src/playbooks.rs\<close>) and the cache of the playbooks of all devices
  (\<open>mcp/src/playbook_registry.rs\<close>).

  The requests to a device are arguments, one record of functions per device; so is the text of a JSON
  value that is neither a string, a number nor a boolean (\<open>serde_json\<close>). A map is an association list in
  the order in which the program happens to iterate over it.
\<close>

subsection \<open>The model\<close>

record param_def =
  pd_type :: string
  pd_description :: string
  pd_default :: "json option"
  pd_enum :: "json list option"

record playbook =
  pb_name :: string
  pb_description :: string
  pb_params :: "(string, param_def) hmap"
  pb_script :: string
  pb_source_device :: string
  pb_source_path :: string

definition tool_name :: "playbook \<Rightarrow> string" where
  "tool_name pb = ''pb_'' @ pb_name pb"

definition validate_name :: "string \<Rightarrow> string + unit" where
  "validate_name name =
     (if name = [] then Inl ''Playbook name is empty''
      else if \<not> list_all name_char name then Inl (invalid_name_text name)
      else Inr ())"

subsection \<open>Parsing\<close>

fun mcp_script_lines :: "bool \<Rightarrow> string list \<Rightarrow> string list \<Rightarrow> string + string list" where
  "mcp_script_lines in_block acc [] =
     Inl (if in_block then ''Unclosed code block'' else ''No ```sh or ```bash code block found'')"
| "mcp_script_lines in_block acc (l # ls) =
     (if \<not> in_block
      then (let trimmed = trim l in
            if starts_with ''```sh'' trimmed \<or> starts_with ''```bash'' trimmed then mcp_script_lines True acc ls
            else mcp_script_lines in_block acc ls)
      else if starts_with ''```'' (trim l) then Inr acc
      else mcp_script_lines in_block (acc @ [l]) ls)"

definition mcp_extract_script_block :: "string \<Rightarrow> string + string" where
  "mcp_extract_script_block body =
     (case mcp_script_lines False [] (lines body) of Inl e \<Rightarrow> Inl e | Inr ls \<Rightarrow> Inr (join_with [CHR 0x0A] ls))"

definition param_def_of :: "raw_param \<Rightarrow> param_def" where
  "param_def_of v = \<lparr>pd_type = rw_type v, pd_description = rw_description v, pd_default = rw_default v, pd_enum = rw_enum v\<rparr>"

definition mcp_parse_playbook :: "yaml \<Rightarrow> string \<Rightarrow> string \<Rightarrow> string \<Rightarrow> string + playbook" where
  "mcp_parse_playbook yaml markdown device path =
     (let trimmed = trim_start markdown in
      if \<not> starts_with ''---'' trimmed then Inl ''Missing YAML frontmatter (must start with ---)''
      else
        (let after_open = drop 3 trimmed in
         case find_str (CHR 0x0A # ''---'') after_open of
           None \<Rightarrow> Inl ''Missing closing --- for frontmatter''
         | Some close_pos \<Rightarrow>
            (case yaml (take close_pos after_open) of
               Inl e \<Rightarrow> Inl (''YAML parse error: '' @ e)
             | Inr fm \<Rightarrow>
                 if fm_name fm = [] then Inl ''Playbook name is empty''
                 else if fm_description fm = [] then Inl ''Playbook description is empty''
                 else if \<not> list_all name_char (fm_name fm) then Inl (invalid_name_text (fm_name fm))
                 else
                   (case mcp_extract_script_block (drop (close_pos + 4) after_open) of
                      Inl e \<Rightarrow> Inl e
                    | Inr script \<Rightarrow>
                        Inr \<lparr>pb_name = fm_name fm, pb_description = fm_description fm,
                             pb_params = map (\<lambda>(k, v). (k, param_def_of v)) (fm_params fm), pb_script = script,
                             pb_source_device = device, pb_source_path = path\<rparr>))))"

subsection \<open>Tool definitions\<close>

definition param_property :: "param_def \<Rightarrow> json" where
  "param_property d =
     JObj ([(''type'', JStr (pd_type d))]
       @ (if pd_description d \<noteq> [] then [(''description'', JStr (pd_description d))] else [])
       @ (case pd_default d of Some v \<Rightarrow> [(''default'', v)] | None \<Rightarrow> [])
       @ (case pd_enum d of Some vs \<Rightarrow> [(''enum'', JArr vs)] | None \<Rightarrow> []))"

definition tool_properties :: "playbook \<Rightarrow> (string \<times> json) list" where
  "tool_properties pb =
     fold (\<lambda>(n, d). put_field n (param_property d)) (pb_params pb)
       [(''device'', JObj [(''type'', JStr ''string''), (''description'', JStr ''Device name. Omit to use the default device.'')]),
        (''timeout_ms'', JObj [(''type'', JStr ''integer''),
           (''description'', JStr ''Execution timeout in milliseconds. Default is 30000 (30s).'')])]"

definition tool_required :: "playbook \<Rightarrow> json list" where
  "tool_required pb = map (JStr \<circ> fst) (filter (\<lambda>(_, d). pd_default d = None) (pb_params pb))"

definition playbook_to_tool_definition :: "playbook \<Rightarrow> json" where
  "playbook_to_tool_definition pb =
     (let required = tool_required pb
      in JObj [(''name'', JStr (tool_name pb)),
               (''description'', JStr (''['' @ pb_source_device pb @ ''] '' @ pb_description pb)),
               (''inputSchema'', JObj ([(''type'', JStr ''object''), (''properties'', JObj (tool_properties pb)),
                  (''additionalProperties'', JBool False)] @ (if required \<noteq> [] then [(''required'', JArr required)] else [])))])"

subsection \<open>Rendering\<close>

text \<open>\<open>str::replace\<close> of a non-empty pattern\<close>

function replace_str :: "string \<Rightarrow> string \<Rightarrow> string \<Rightarrow> string" where
  "replace_str p r [] = []"
| "replace_str p r (c # s) =
     (if p \<noteq> [] \<and> starts_with p (c # s) then r @ replace_str p r (drop (length p) (c # s)) else c # replace_str p r s)"
  by pat_completeness auto

termination by (relation "measure (\<lambda>(p, r, s). length s)") (auto simp: neq_Nil_conv)

definition placeholder :: "string \<Rightarrow> string" where
  "placeholder name = ''{{'' @ name @ ''}}''"

definition rendered_value :: "(json \<Rightarrow> string) \<Rightarrow> json \<Rightarrow> string" where
  "rendered_value show_json v =
     (case v of
        JStr s \<Rightarrow> s
      | JNum i \<Rightarrow> show_int i
      | JFloat t \<Rightarrow> t
      | JBool b \<Rightarrow> if b then ''true'' else ''false''
      | _ \<Rightarrow> show_json v)"

definition argument :: "json \<Rightarrow> string \<Rightarrow> param_def \<Rightarrow> json option" where
  "argument args name d =
     (case json_get args name of
        Some v \<Rightarrow> if v = JNull then pd_default d else Some v
      | None \<Rightarrow> pd_default d)"

fun substitute :: "(json \<Rightarrow> string) \<Rightarrow> json \<Rightarrow> (string, param_def) hmap \<Rightarrow> string \<Rightarrow> string + string" where
  "substitute show_json args [] script = Inr script"
| "substitute show_json args ((name, d) # ps) script =
     (if \<not> contains_str (placeholder name) script then substitute show_json args ps script
      else (case argument args name d of
              None \<Rightarrow> Inl (''Missing required parameter: '' @ name)
            | Some v \<Rightarrow>
                substitute show_json args ps (replace_str (placeholder name) (rendered_value show_json v) script)))"

definition undeclared :: "string \<Rightarrow> string option" where
  "undeclared script =
     (case find_str ''{{'' script of
        None \<Rightarrow> None
      | Some start \<Rightarrow>
         (let rest = drop (start + 2) script
          in map_option (\<lambda>e. take e rest) (find_str ''}}'' rest)))"

definition render_script :: "(json \<Rightarrow> string) \<Rightarrow> playbook \<Rightarrow> json \<Rightarrow> string + string" where
  "render_script show_json pb args =
     (case substitute show_json args (pb_params pb) (pb_script pb) of
        Inl e \<Rightarrow> Inl e
      | Inr script \<Rightarrow>
         (case undeclared script of
            Some n \<Rightarrow> Inl (''Script references undeclared parameter: {{'' @ n @ ''}}'')
          | None \<Rightarrow> Inr script))"

subsection \<open>The registry\<close>

text \<open>
  What the client of a device answers: a value, or that the transport failed, the device refused, or the
  body was not valid.
\<close>

datatype client_error = Request string | Device nat string | Protocol string

definition is_not_found :: "client_error \<Rightarrow> bool" where
  "is_not_found e = (case e of Device status _ \<Rightarrow> status = 404 | _ \<Rightarrow> False)"

record sctl_client =
  cl_list_playbooks :: "client_error + json"
  cl_get_playbook :: "string \<Rightarrow> client_error + json"
  cl_file_read :: "string \<Rightarrow> bool \<Rightarrow> client_error + json"
  cl_slow :: bool

record device_playbooks =
  dp_loaded :: bool
  dp_playbooks :: "playbook list"

record playbook_registry =
  pg_cache :: "(string, device_playbooks) hmap"
  pg_default_dir :: string
  pg_device_dirs :: "(string, string) hmap"

definition new_registry :: "string \<Rightarrow> (string, string) hmap \<Rightarrow> playbook_registry" where
  "new_registry default_dir device_dirs = \<lparr>pg_cache = [], pg_default_dir = default_dir, pg_device_dirs = device_dirs\<rparr>"

definition with_defaults :: "(string, string) hmap \<Rightarrow> playbook_registry" where
  "with_defaults device_dirs = new_registry ''/etc/sctl/playbooks'' device_dirs"

definition dir_for :: "playbook_registry \<Rightarrow> string \<Rightarrow> string" where
  "dir_for g device = unwrap_or (pg_default_dir g) (hm_get (pg_device_dirs g) device)"

definition is_loaded :: "playbook_registry \<Rightarrow> string \<Rightarrow> bool" where
  "is_loaded g name = (case hm_get (pg_cache g) name of Some dp \<Rightarrow> dp_loaded dp | None \<Rightarrow> False)"

definition has_unloaded_devices :: "(string, sctl_client) hmap \<Rightarrow> playbook_registry \<Rightarrow> bool" where
  "has_unloaded_devices clients g = list_ex (\<lambda>(name, _). \<not> is_loaded g name) clients"

definition json_array_or_empty :: "json option \<Rightarrow> json list" where
  "json_array_or_empty v = unwrap_or [] (Option.bind v json_as_array)"

definition fetch_one_rest :: "yaml \<Rightarrow> sctl_client \<Rightarrow> string \<Rightarrow> json \<Rightarrow> playbook option" where
  "fetch_one_rest yaml cl device_name item =
     (case Option.bind (json_get item ''name'') json_as_str of
        None \<Rightarrow> None
      | Some name \<Rightarrow>
         (case cl_get_playbook cl name of
            Inl _ \<Rightarrow> None
          | Inr detail \<Rightarrow>
             (case Option.bind (json_get detail ''raw_content'') json_as_str of
                None \<Rightarrow> None
              | Some raw \<Rightarrow> (case mcp_parse_playbook yaml raw device_name name of Inl _ \<Rightarrow> None | Inr pb \<Rightarrow> Some pb))))"

definition fetch_device_playbooks_rest :: "yaml \<Rightarrow> sctl_client \<Rightarrow> string \<Rightarrow> client_error + playbook list" where
  "fetch_device_playbooks_rest yaml cl device_name =
     (case cl_list_playbooks cl of
        Inl e \<Rightarrow> Inl e
      | Inr resp \<Rightarrow> Inr (List.map_filter (fetch_one_rest yaml cl device_name) (json_array_or_empty (json_get resp ''playbooks''))))"

definition ends_with_md :: "string \<Rightarrow> bool" where
  "ends_with_md s \<longleftrightarrow> length s \<ge> 3 \<and> drop (length s - 3) s = ''.md''"

definition fetch_one_file :: "yaml \<Rightarrow> sctl_client \<Rightarrow> string \<Rightarrow> string \<Rightarrow> playbook option" where
  "fetch_one_file yaml cl device_name file_path =
     (case cl_file_read cl file_path False of
        Inl _ \<Rightarrow> None
      | Inr v \<Rightarrow>
         (case mcp_parse_playbook yaml (unwrap_or [] (Option.bind (json_get v ''content'') json_as_str)) device_name file_path of
            Inl _ \<Rightarrow> None
          | Inr pb \<Rightarrow> Some pb))"

definition md_files :: "string \<Rightarrow> json list \<Rightarrow> string list" where
  "md_files dir entries =
     List.map_filter (\<lambda>e. case Option.bind (json_get e ''name'') json_as_str of
        None \<Rightarrow> None
      | Some name \<Rightarrow> if ends_with_md name then Some (dir @ ''/'' @ name) else None) entries"

definition fetch_device_playbooks_files :: "yaml \<Rightarrow> sctl_client \<Rightarrow> string \<Rightarrow> string \<Rightarrow> playbook list" where
  "fetch_device_playbooks_files yaml cl dir device_name =
     (case cl_file_read cl dir True of
        Inl _ \<Rightarrow> []
      | Inr listing \<Rightarrow>
         (case Option.bind (json_get listing ''entries'') json_as_array of
            None \<Rightarrow> []
          | Some entries \<Rightarrow> List.map_filter (fetch_one_file yaml cl device_name) (md_files dir entries)))"

definition fetch_device_playbooks :: "yaml \<Rightarrow> sctl_client \<Rightarrow> string \<Rightarrow> string \<Rightarrow> playbook list" where
  "fetch_device_playbooks yaml cl dir device_name =
     (case fetch_device_playbooks_rest yaml cl device_name of
        Inr pbs \<Rightarrow> pbs
      | Inl e \<Rightarrow> if is_not_found e then fetch_device_playbooks_files yaml cl dir device_name else [])"

definition cache_playbooks :: "string \<Rightarrow> playbook list \<Rightarrow> playbook_registry \<Rightarrow> playbook_registry" where
  "cache_playbooks device pbs g =
     g\<lparr>pg_cache := hm_insert device \<lparr>dp_loaded = True, dp_playbooks = pbs\<rparr> (pg_cache g)\<rparr>"

text \<open>A device that does not answer within five seconds counts as one without playbooks.\<close>

definition ensure_loaded :: "yaml \<Rightarrow> (string, sctl_client) hmap \<Rightarrow> playbook_registry \<Rightarrow> playbook_registry" where
  "ensure_loaded yaml clients g =
     (let missing = filter (\<lambda>(name, _). \<not> is_loaded g name) clients;
          fetch = (\<lambda>name cl. if cl_slow cl then [] else fetch_device_playbooks yaml cl (dir_for g name) name)
      in fold (\<lambda>(name, cl). cache_playbooks name (fetch name cl)) missing g)"

definition refresh_device :: "yaml \<Rightarrow> string \<Rightarrow> sctl_client \<Rightarrow> playbook_registry \<Rightarrow> playbook list \<times> playbook_registry" where
  "refresh_device yaml device cl g =
     (let pbs = fetch_device_playbooks yaml cl (dir_for g device) device in (pbs, cache_playbooks device pbs g))"

fun refresh_all ::
    "yaml \<Rightarrow> (string, sctl_client) hmap \<Rightarrow> playbook list \<Rightarrow> playbook_registry \<Rightarrow> playbook list \<times> playbook_registry" where
  "refresh_all yaml [] acc g = (acc, g)"
| "refresh_all yaml ((name, cl) # clients) acc g =
     (let pbs = fetch_device_playbooks yaml cl (dir_for g name) name
      in refresh_all yaml clients (acc @ pbs) (cache_playbooks name pbs g))"

definition invalidate_device :: "string \<Rightarrow> playbook_registry \<Rightarrow> playbook_registry" where
  "invalidate_device device g = g\<lparr>pg_cache := hm_modify device (\<lambda>dp. dp\<lparr>dp_loaded := False\<rparr>) (pg_cache g)\<rparr>"

definition all_playbooks :: "playbook_registry \<Rightarrow> playbook list" where
  "all_playbooks g = concat (map (dp_playbooks \<circ> snd) (pg_cache g))"

definition find_by_tool_name :: "string \<Rightarrow> playbook_registry \<Rightarrow> playbook option" where
  "find_by_tool_name name g = List.find (\<lambda>pb. tool_name pb = name) (all_playbooks g)"

end
