(* ===== verification/Mcp_Ws.thy ===== *)
theory Mcp_Ws
  imports Mcp_Playbooks
begin

text \<open>
  The WebSocket connection of the MCP server to a device (\<open>mcp/src/websocket.rs\<close>): the local output
  buffers of the sessions, the dispatch of incoming messages, the request and response pairs, and the
  command execution that waits for an end marker.

  A \<open>Notify\<close> is the number of its \<open>notify_waiters\<close> calls: a waiter is woken when the number has grown
  since it registered. The messages that the I/O loop dispatches while a caller waits are an argument of
  the call, in their order; so are the instants at which the clock is read.
\<close>

subsection \<open>Session buffers\<close>

datatype mcp_status = McpRunning | McpExited

record mcp_entry =
  me_seq :: u64
  me_stream :: string
  me_data :: string
  me_timestamp_ms :: u64

definition MAX_BUFFER_ENTRIES :: nat where
  "MAX_BUFFER_ENTRIES = 5000"

record session_buffer =
  sb_entries :: "mcp_entry list"
  sb_status :: mcp_status
  sb_exit_code :: "int option"
  sb_notify :: nat
  sb_last_seq :: u64
  sb_is_pty :: bool
  sb_dropped_count :: u64
  sb_attach_notify :: nat
  sb_attached :: bool

definition new_session_buffer :: session_buffer where
  "new_session_buffer =
     \<lparr>sb_entries = [], sb_status = McpRunning, sb_exit_code = None, sb_notify = 0, sb_last_seq = 0, sb_is_pty = False,
      sb_dropped_count = 0, sb_attach_notify = 0, sb_attached = False\<rparr>"

definition buffer_push :: "mcp_entry \<Rightarrow> session_buffer \<Rightarrow> session_buffer" where
  "buffer_push e b =
     (let b1 = (if me_seq e > sb_last_seq b + 1 \<and> sb_last_seq b > 0
                then b\<lparr>sb_dropped_count := sb_dropped_count b + (me_seq e - sb_last_seq b - 1)\<rparr> else b);
          b2 = (if me_seq e > sb_last_seq b1 then b1\<lparr>sb_last_seq := me_seq e\<rparr> else b1);
          kept = (if length (sb_entries b2) \<ge> MAX_BUFFER_ENTRIES then tl (sb_entries b2) else sb_entries b2)
      in b2\<lparr>sb_entries := kept @ [e], sb_notify := Suc (sb_notify b2)\<rparr>)"

subsection \<open>Connections\<close>

record device_ws =
  dw_sent :: "json list"
  dw_closed :: bool
  dw_sessions :: "(string, session_buffer) hmap"
  dw_connected :: bool
  dw_start_notify :: nat
  dw_start_result :: "json option"
  dw_list_notify :: nat
  dw_list_result :: "json option"
  dw_ai_status_notify :: nat
  dw_ai_status_result :: "json option"
  dw_ai_working :: "string set"

definition new_device_ws :: device_ws where
  "new_device_ws =
     \<lparr>dw_sent = [], dw_closed = False, dw_sessions = [], dw_connected = True, dw_start_notify = 0, dw_start_result = None,
      dw_list_notify = 0, dw_list_result = None, dw_ai_status_notify = 0, dw_ai_status_result = None, dw_ai_working = {}\<rparr>"

definition trim_end_slash :: "string \<Rightarrow> string" where
  "trim_end_slash s = rev (dropWhile (\<lambda>c. c = CHR ''/'') (rev s))"

definition build_ws_url :: "string \<Rightarrow> string \<Rightarrow> string + string" where
  "build_ws_url base_url api_key =
     (let base = trim_end_slash base_url;
          url = (\<lambda>ws_base. ws_base @ ''/api/ws?token='' @ api_key)
      in case strip_prefix ''https://'' base of
           Some rest \<Rightarrow> Inr (url (''wss://'' @ rest))
         | None \<Rightarrow> (case strip_prefix ''http://'' base of
             Some rest \<Rightarrow> Inr (url (''ws://'' @ rest))
           | None \<Rightarrow> Inl (''Invalid URL scheme: '' @ base)))"

text \<open>The argument is the result of \<open>connect_async\<close> on the URL.\<close>

definition conn_connect :: "(string \<Rightarrow> string + unit) \<Rightarrow> string \<Rightarrow> string \<Rightarrow> string + device_ws" where
  "conn_connect dial url api_key =
     (case build_ws_url url api_key of
        Inl e \<Rightarrow> Inl e
      | Inr ws_url \<Rightarrow> (case dial ws_url of Inl e \<Rightarrow> Inl (''WebSocket connect failed: '' @ e) | Inr _ \<Rightarrow> Inr new_device_ws))"

definition conn_send :: "json \<Rightarrow> device_ws \<Rightarrow> (string + unit) \<times> device_ws" where
  "conn_send msg c =
     (if dw_closed c then (Inl ''WebSocket sender closed'', c) else (Inr (), c\<lparr>dw_sent := dw_sent c @ [msg]\<rparr>))"

subsection \<open>Incoming messages\<close>

definition parse_output_entry :: "json \<Rightarrow> (string \<times> mcp_entry) option" where
  "parse_output_entry msg =
     (case (str_field msg ''type'', str_field msg ''session_id'') of
        (Some ty, Some sid) \<Rightarrow>
          (let stream = (if ty = ''session.stdout'' then Some ''stdout''
                         else if ty = ''session.stderr'' then Some ''stderr''
                         else if ty = ''session.system'' then Some ''system'' else None)
           in map_option (\<lambda>st. (sid, \<lparr>me_seq = unwrap_or 0 (u64_field msg ''seq''), me_stream = st,
                me_data = unwrap_or [] (str_field msg ''data''),
                me_timestamp_ms = unwrap_or 0 (u64_field msg ''timestamp_ms'')\<rparr>)) stream)
      | _ \<Rightarrow> None)"

text \<open>\<open>as_i64().map(|c| c as i32)\<close>\<close>

definition exit_code_of :: "json \<Rightarrow> int option" where
  "exit_code_of msg = map_option (\<lambda>c. sint (word_of_int c :: 32 word)) (json_as_i64 (json_index msg ''exit_code''))"

definition on_session :: "string \<Rightarrow> (session_buffer \<Rightarrow> session_buffer) \<Rightarrow> device_ws \<Rightarrow> device_ws" where
  "on_session sid f c = c\<lparr>dw_sessions := hm_modify sid f (dw_sessions c)\<rparr>"

definition system_entry :: "string \<Rightarrow> session_buffer \<Rightarrow> mcp_entry" where
  "system_entry data b = \<lparr>me_seq = sb_last_seq b + 1, me_stream = ''system'', me_data = data, me_timestamp_ms = 0\<rparr>"

definition on_exited :: "json \<Rightarrow> session_buffer \<Rightarrow> session_buffer" where
  "on_exited msg b =
     (let b1 = b\<lparr>sb_status := McpExited, sb_exit_code := exit_code_of msg\<rparr>
      in buffer_push (system_entry (''Process exited with code '' @ show_int (unwrap_or (- 1) (exit_code_of msg))) b1) b1)"

definition on_attached :: "json \<Rightarrow> json list \<Rightarrow> session_buffer \<Rightarrow> session_buffer" where
  "on_attached msg entries b =
     (let b1 = (case str_field msg ''status'' of
                  None \<Rightarrow> b
                | Some st \<Rightarrow> if st = ''exited'' then b\<lparr>sb_status := McpExited, sb_exit_code := exit_code_of msg\<rparr>
                            else b\<lparr>sb_status := McpRunning\<rparr>);
          b2 = (case bool_field msg ''pty'' of None \<Rightarrow> b1 | Some p \<Rightarrow> b1\<lparr>sb_is_pty := p\<rparr>);
          b3 = fold (\<lambda>e b. case parse_output_entry e of None \<Rightarrow> b | Some (_, x) \<Rightarrow> buffer_push x b) entries b2
      in b3\<lparr>sb_attached := True, sb_attach_notify := Suc (sb_attach_notify b3)\<rparr>)"

definition on_session_error :: "session_buffer \<Rightarrow> session_buffer" where
  "on_session_error b =
     b\<lparr>sb_status := McpExited, sb_exit_code := None, sb_notify := Suc (sb_notify b), sb_attach_notify := Suc (sb_attach_notify b)\<rparr>"

definition set_working :: "string \<Rightarrow> bool \<Rightarrow> device_ws \<Rightarrow> device_ws" where
  "set_working sid w c =
     c\<lparr>dw_ai_working := (if w then insert sid (dw_ai_working c) else dw_ai_working c - {sid})\<rparr>"

definition ai_result :: "json \<Rightarrow> device_ws \<Rightarrow> device_ws" where
  "ai_result msg c = c\<lparr>dw_ai_status_result := Some msg, dw_ai_status_notify := Suc (dw_ai_status_notify c)\<rparr>"

definition start_result :: "json \<Rightarrow> device_ws \<Rightarrow> device_ws" where
  "start_result msg c = c\<lparr>dw_start_result := Some msg, dw_start_notify := Suc (dw_start_notify c)\<rparr>"

definition on_error :: "json \<Rightarrow> device_ws \<Rightarrow> device_ws" where
  "on_error msg c =
     (if unwrap_or [] (str_field msg ''code'') = ''AI_NOT_ALLOWED'' then ai_result msg c
      else (case str_field msg ''session_id'' of
              Some sid \<Rightarrow> on_session sid on_session_error c
            | None \<Rightarrow> start_result msg c))"

definition on_gap :: "json \<Rightarrow> string \<Rightarrow> device_ws \<Rightarrow> device_ws" where
  "on_gap msg sid c =
     (let reason = unwrap_or ''unknown'' (str_field msg ''reason'');
          last_seq = (case hm_get (dw_sessions c) sid of Some b \<Rightarrow> sb_last_seq b | None \<Rightarrow> 0)
      in on_session sid (\<lambda>b. buffer_push (system_entry (''[output gap detected: '' @ reason @ '', last_seq=''
           @ show_nat (unat last_seq) @ '']'') b) b) c)"

definition dispatch_message :: "json \<Rightarrow> device_ws \<Rightarrow> device_ws" where
  "dispatch_message msg c =
     (let ty = unwrap_or [] (str_field msg ''type''); sid = unwrap_or [] (str_field msg ''session_id'') in
      if ty \<in> {''session.stdout'', ''session.stderr'', ''session.system''}
      then (case parse_output_entry msg of None \<Rightarrow> c | Some (s, e) \<Rightarrow> on_session s (buffer_push e) c)
      else if ty = ''session.exited'' then (if sid = [] then c else on_session sid (on_exited msg) c)
      else if ty = ''session.started'' then start_result msg c
      else if ty = ''session.listed'' then c\<lparr>dw_list_result := Some msg, dw_list_notify := Suc (dw_list_notify c)\<rparr>
      else if ty = ''session.attached''
      then (case json_as_array (json_index msg ''entries'') of
              None \<Rightarrow> c
            | Some entries \<Rightarrow> on_session sid (on_attached msg entries) c)
      else if ty = ''session.closed''
      then (if sid = [] then c else on_session sid (\<lambda>b. b\<lparr>sb_status := McpExited, sb_notify := Suc (sb_notify b)\<rparr>) c)
      else if ty = ''error'' then on_error msg c
      else if ty = ''session.ai_status.ack''
      then ai_result msg (if sid = [] then c else set_working sid (unwrap_or False (bool_field msg ''working'')) c)
      else if ty = ''session.ai_status_changed''
      then set_working (unwrap_or ''unknown'' (str_field msg ''session_id'')) (unwrap_or False (bool_field msg ''working'')) c
      else if ty = ''session.gap'' then (if sid = [] then c else on_gap msg sid c)
      else c)"

definition dispatch_all :: "json list \<Rightarrow> device_ws \<Rightarrow> device_ws" where
  "dispatch_all msgs c = fold dispatch_message msgs c"

subsection \<open>Requests and responses\<close>

record start_args =
  sa_working_dir :: "string option"
  sa_shell :: "string option"
  sa_env :: "env_vars option"
  sa_persistent :: bool
  sa_pty :: bool
  sa_rows :: "u64 option"
  sa_cols :: "u64 option"
  sa_idle_timeout :: "u64 option"
  sa_name :: "string option"
  sa_user_allows_ai :: bool

definition env_value :: "env_vars \<Rightarrow> json" where
  "env_value env = JObj (map (\<lambda>(k, v). (k, JStr v)) env)"

definition start_message :: "start_args \<Rightarrow> json" where
  "start_message a =
     JObj (Ws_Messages.fields
       [(''type'', str ''session.start''), (''persistent'', flag (sa_persistent a)),
        (''user_allows_ai'', if sa_user_allows_ai a then None else flag False),
        (''working_dir'', opt_str (sa_working_dir a)), (''shell'', opt_str (sa_shell a)), (''env'', map_option env_value (sa_env a)),
        (''pty'', if sa_pty a then flag True else None), (''rows'', Option.bind (sa_rows a) num), (''cols'', Option.bind (sa_cols a) num),
        (''idle_timeout'', Option.bind (sa_idle_timeout a) num), (''name'', opt_str (sa_name a))])"

text \<open>
  The buffer of a started session is created by the caller, after it has taken the result: what the I/O
  loop dispatches before (\<open>wait\<close>, then \<open>before\<close>) finds no buffer.
\<close>

definition start_session :: "start_args \<Rightarrow> json list \<Rightarrow> json list \<Rightarrow> device_ws \<Rightarrow> (string + json) \<times> device_ws" where
  "start_session a wait before c =
     (case conn_send (start_message a) (c\<lparr>dw_start_result := None\<rparr>) of
        (Inl e, c1) \<Rightarrow> (Inl e, c1)
      | (Inr _, c1) \<Rightarrow>
         (let c2 = dispatch_all wait c1 in
          if dw_start_notify c2 = dw_start_notify c1 then (Inl ''Timeout waiting for session.started'', c2)
          else (case dw_start_result c2 of
                  None \<Rightarrow> (Inl ''No session.started response received'', c2)
                | Some v \<Rightarrow>
                   (let c3 = dispatch_all before (c2\<lparr>dw_start_result := None\<rparr>) in
                    case str_field v ''session_id'' of
                      None \<Rightarrow> (Inr v, c3)
                    | Some sid \<Rightarrow>
                       (Inr v, c3\<lparr>dw_sessions := hm_insert sid
                          (new_session_buffer\<lparr>sb_is_pty := unwrap_or False (bool_field v ''pty'')\<rparr>) (dw_sessions c3)\<rparr>)))))"

definition ai_status_message :: "string \<Rightarrow> bool \<Rightarrow> string option \<Rightarrow> string option \<Rightarrow> json" where
  "ai_status_message sid working activity message =
     JObj (Ws_Messages.fields
       [(''type'', str ''session.ai_status''), (''session_id'', str sid), (''working'', flag working),
        (''activity'', opt_str activity), (''message'', opt_str message)])"

definition set_ai_status ::
    "string \<Rightarrow> bool \<Rightarrow> string option \<Rightarrow> string option \<Rightarrow> json list \<Rightarrow> device_ws \<Rightarrow> (string + json) \<times> device_ws" where
  "set_ai_status sid working activity message wait c =
     (case conn_send (ai_status_message sid working activity message) (c\<lparr>dw_ai_status_result := None\<rparr>) of
        (Inl e, c1) \<Rightarrow> (Inl e, c1)
      | (Inr _, c1) \<Rightarrow>
         (let c2 = dispatch_all wait c1 in
          if dw_ai_status_notify c2 = dw_ai_status_notify c1 then (Inl ''Timeout waiting for session.ai_status response'', c2)
          else (case dw_ai_status_result c2 of
                  None \<Rightarrow> (Inl ''No ai_status response received'', c2)
                | Some v \<Rightarrow>
                   (if str_field v ''type'' = Some ''error''
                    then Inl (unwrap_or ''AI status rejected'' (str_field v ''message'')) else Inr v,
                    c2\<lparr>dw_ai_status_result := None\<rparr>))))"

definition auto_set_ai_working :: "string \<Rightarrow> string \<Rightarrow> json list \<Rightarrow> device_ws \<Rightarrow> device_ws" where
  "auto_set_ai_working sid activity wait c =
     (if sid \<in> dw_ai_working c then c
      else (case set_ai_status sid True (Some activity) None wait c of
              (Inr _, c1) \<Rightarrow> set_working sid True c1
            | (Inl _, c1) \<Rightarrow> c1))"

definition list_sessions_remote :: "json list \<Rightarrow> device_ws \<Rightarrow> (string + json) \<times> device_ws" where
  "list_sessions_remote wait c =
     (case conn_send (JObj [(''type'', JStr ''session.list'')]) (c\<lparr>dw_list_result := None\<rparr>) of
        (Inl e, c1) \<Rightarrow> (Inl e, c1)
      | (Inr _, c1) \<Rightarrow>
         (let c2 = dispatch_all wait c1 in
          if dw_list_notify c2 = dw_list_notify c1 then (Inl ''Timeout waiting for session.listed'', c2)
          else (case dw_list_result c2 of
                  None \<Rightarrow> (Inl ''No session.listed response received'', c2)
                | Some v \<Rightarrow> (Inr v, c2\<lparr>dw_list_result := None\<rparr>))))"

subsection \<open>Reading output\<close>

record read_result =
  rd_entries :: "mcp_entry list"
  rd_status :: mcp_status
  rd_exit_code :: "int option"
  rd_dropped_count :: u64

definition read_of :: "u64 \<Rightarrow> session_buffer \<Rightarrow> read_result" where
  "read_of since b =
     \<lparr>rd_entries = filter (\<lambda>e. me_seq e > since) (sb_entries b), rd_status = sb_status b, rd_exit_code = sb_exit_code b,
      rd_dropped_count = sb_dropped_count b\<rparr>"

definition not_local :: "string \<Rightarrow> string" where
  "not_local sid = ''Session '' @ sid @ '' not found locally''"

definition read_output :: "string \<Rightarrow> u64 \<Rightarrow> json list \<Rightarrow> device_ws \<Rightarrow> (string + read_result) \<times> device_ws" where
  "read_output sid since wait c =
     (case hm_get (dw_sessions c) sid of
        None \<Rightarrow> (Inl (not_local sid), c)
      | Some b \<Rightarrow>
          if rd_entries (read_of since b) \<noteq> [] \<or> sb_status b = McpExited then (Inr (read_of since b), c)
          else
            (let c1 = dispatch_all wait c in
             case hm_get (dw_sessions c1) sid of
               None \<Rightarrow> (Inl (not_local sid), c1)
             | Some b1 \<Rightarrow> (Inr (read_of since b1), c1)))"

definition is_pty_session :: "string \<Rightarrow> device_ws \<Rightarrow> bool" where
  "is_pty_session sid c = (case hm_get (dw_sessions c) sid of Some b \<Rightarrow> sb_is_pty b | None \<Rightarrow> False)"

definition attach_message :: "string \<Rightarrow> u64 \<Rightarrow> json" where
  "attach_message sid since =
     JObj (Ws_Messages.fields [(''type'', str ''session.attach''), (''session_id'', str sid), (''since'', num since)])"

definition attach_session :: "string \<Rightarrow> u64 \<Rightarrow> json list \<Rightarrow> device_ws \<Rightarrow> (string + read_result) \<times> device_ws" where
  "attach_session sid since wait c =
     (let b = (unwrap_or new_session_buffer (hm_get (dw_sessions c) sid))\<lparr>sb_attached := False\<rparr>;
          c1 = c\<lparr>dw_sessions := hm_insert sid b (dw_sessions c)\<rparr>
      in case conn_send (attach_message sid since) c1 of
           (Inl e, c2) \<Rightarrow> (Inl e, c2)
         | (Inr _, c2) \<Rightarrow>
            (let c3 = dispatch_all wait c2 in
             case hm_get (dw_sessions c3) sid of
               None \<Rightarrow> (Inl (''Session '' @ sid @ '' not found after attach''), c3)
             | Some b3 \<Rightarrow>
                 if sb_attach_notify b3 = sb_attach_notify b then (Inl ''Timeout waiting for session.attached response'', c3)
                 else (Inr (read_of since b3), c3)))"

subsection \<open>Executing and waiting\<close>

record exec_wait_result =
  ew_output :: string
  ew_exit_code :: "int option"
  ew_timed_out :: bool

definition start_marker :: "string \<Rightarrow> string" where
  "start_marker nonce = ''__SCTL_'' @ nonce @ ''_START__''"

definition done_marker :: "string \<Rightarrow> string" where
  "done_marker nonce = ''__SCTL_'' @ nonce @ ''_DONE_''"

definition wrapped_command :: "string \<Rightarrow> string \<Rightarrow> string" where
  "wrapped_command nonce command =
     ''printf '' @ [CHR 0x27] @ start_marker nonce @ [CHR 0x5C] @ ''n'' @ [CHR 0x27] @ ''; '' @ command @ '' ; printf '' @ [CHR 0x27, CHR 0x5C]
       @ ''n'' @ done_marker nonce @ ''%s__'' @ [CHR 0x5C] @ ''n'' @ [CHR 0x27] @ '' '' @ [CHR 0x22] @ ''$?'' @ [CHR 0x22]"

text \<open>\<open>str::rfind\<close>\<close>

fun rfind_str :: "string \<Rightarrow> string \<Rightarrow> nat option" where
  "rfind_str p [] = (if p = [] then Some 0 else None)"
| "rfind_str p (c # s) =
     (case rfind_str p s of Some i \<Rightarrow> Some (Suc i) | None \<Rightarrow> if starts_with p (c # s) then Some 0 else None)"

definition is_digit :: "char \<Rightarrow> bool" where
  "is_digit c \<longleftrightarrow> digit_val c \<noteq> None"

text \<open>
  The last occurrence of the marker that is followed by a digit; an occurrence that is not is the echo of
  the command, and the search goes on before it.
\<close>

function done_position :: "string \<Rightarrow> string \<Rightarrow> nat \<Rightarrow> nat option" where
  "done_position marker acc e =
     (case rfind_str marker (take e acc) of
        None \<Rightarrow> None
      | Some pos \<Rightarrow>
         (let after = pos + length marker in
          if after < length acc \<and> is_digit (acc ! after) then Some pos
          else if pos < e then done_position marker acc pos else None))"
  by pat_completeness auto

termination by (relation "measure (\<lambda>(_, _, e). e)") auto

declare done_position.simps [simp del]

text \<open>\<open>after_done.split("__").next()\<close>\<close>

definition before_str :: "string \<Rightarrow> string \<Rightarrow> string" where
  "before_str p s = (case find_str p s of Some i \<Rightarrow> take i s | None \<Rightarrow> s)"

definition marked_exit_code :: "string \<Rightarrow> int option" where
  "marked_exit_code after_done = parse_i32 (trim (before_str ''__'' after_done))"

definition marked_output :: "string \<Rightarrow> string \<Rightarrow> string" where
  "marked_output start_m region =
     (let output_start = (case rfind_str start_m region of
            None \<Rightarrow> 0
          | Some p \<Rightarrow>
             (let after = p + length start_m in
              case find_str [CHR 0x0A] (drop after region) of Some nl \<Rightarrow> after + nl + 1 | None \<Rightarrow> after));
          output_end = unwrap_or (length region) (rfind_str [CHR 0x0A] region)
      in if output_start \<le> output_end then take (output_end - output_start) (drop output_start region) else [])"

definition scan_output :: "string \<Rightarrow> string \<Rightarrow> exec_wait_result option" where
  "scan_output nonce acc =
     (case done_position (done_marker nonce) acc (length acc) of
        None \<Rightarrow> None
      | Some pos \<Rightarrow>
          Some \<lparr>ew_output = marked_output (start_marker nonce) (take pos acc),
                ew_exit_code = marked_exit_code (drop (pos + length (done_marker nonce)) acc), ew_timed_out = False\<rparr>)"

definition DISCONNECT_GRACE_SECS :: nat where
  "DISCONNECT_GRACE_SECS = 10"

text \<open>
  One round of the loop: the instant of its clock, whether the connection is up, and what the I/O loop
  dispatches while the round waits.
\<close>

record wait_round =
  wr_now :: instant
  wr_connected :: bool
  wr_wait :: "json list"

fun exec_wait_loop ::
    "string \<Rightarrow> string \<Rightarrow> instant \<Rightarrow> string \<Rightarrow> u64 \<Rightarrow> instant option \<Rightarrow> wait_round list \<Rightarrow> device_ws
       \<Rightarrow> (string + exec_wait_result) option \<times> device_ws" where
  "exec_wait_loop nonce sid deadline acc last_read gone [] c = (None, c)"
| "exec_wait_loop nonce sid deadline acc last_read gone (r # rs) c =
     (if deadline \<le> wr_now r
      then (Some (Inr \<lparr>ew_output = acc, ew_exit_code = None, ew_timed_out = True\<rparr>), c)
      else
        (let gone1 = (if wr_connected r then None else Some (unwrap_or (wr_now r) gone)) in
         if gone1 \<noteq> None \<and> as_secs (elapsed (wr_now r) (unwrap_or 0 gone1)) \<ge> DISCONNECT_GRACE_SECS
         then (Some (Inl (''WebSocket disconnected for '' @ show_nat DISCONNECT_GRACE_SECS @ ''s during exec_wait'')), c)
         else
           (case read_output sid last_read (wr_wait r) c of
              (Inl e, c1) \<Rightarrow> (Some (Inl e), c1)
            | (Inr res, c1) \<Rightarrow>
               (let acc1 = acc @ concat (map me_data (rd_entries res));
                    last1 = fold (\<lambda>e l. if me_seq e > l then me_seq e else l) (rd_entries res) last_read
                in if rd_status res = McpExited
                   then (Some (Inr \<lparr>ew_output = acc1, ew_exit_code = rd_exit_code res, ew_timed_out = False\<rparr>), c1)
                   else (case scan_output nonce acc1 of
                           Some w \<Rightarrow> (Some (Inr w), c1)
                         | None \<Rightarrow> exec_wait_loop nonce sid deadline acc1 last1 gone1 rs c1)))))"

definition session_exec_message :: "string \<Rightarrow> string \<Rightarrow> json" where
  "session_exec_message sid command =
     JObj [(''type'', JStr ''session.exec''), (''session_id'', JStr sid), (''command'', JStr command)]"

definition exec_wait ::
    "string \<Rightarrow> instant \<Rightarrow> string \<Rightarrow> string \<Rightarrow> nat \<Rightarrow> wait_round list \<Rightarrow> device_ws
       \<Rightarrow> (string + exec_wait_result) option \<times> device_ws" where
  "exec_wait nonce now sid command timeout_ms rounds c =
     (case hm_get (dw_sessions c) sid of
        None \<Rightarrow> (Some (Inl (not_local sid)), c)
      | Some b \<Rightarrow>
         (case conn_send (session_exec_message sid (wrapped_command nonce command)) c of
            (Inl e, c1) \<Rightarrow> (Some (Inl e), c1)
          | (Inr _, c1) \<Rightarrow> exec_wait_loop nonce sid (now + from_millis timeout_ms) [] (sb_last_seq b) None rounds c1))"

subsection \<open>Reconnecting\<close>

text \<open>
  The pauses of the loop for the results of its attempts, in order: \<open>None\<close> while no attempt has
  succeeded. On success the running sessions are attached again, each after the last entry it has.
\<close>

fun reconnect_delays :: "u64 \<Rightarrow> bool list \<Rightarrow> u64 list \<times> bool" where
  "reconnect_delays delay [] = ([], False)"
| "reconnect_delays delay (ok # oks) =
     (if ok then ([delay], True)
      else (let (ds, b) = reconnect_delays (min (delay * 2) 30) oks in (delay # ds, b)))"

definition reattach_messages :: "device_ws \<Rightarrow> json list" where
  "reattach_messages c =
     map (\<lambda>(sid, b). attach_message sid (sb_last_seq b)) (filter (\<lambda>(_, b). sb_status b = McpRunning) (dw_sessions c))"

datatype ws_event = TextFrame "json option" | LinkLost "bool list" | OtherFrame

definition ws_io_step :: "ws_event \<Rightarrow> device_ws \<Rightarrow> device_ws" where
  "ws_io_step ev c =
     (case ev of
        TextFrame (Some msg) \<Rightarrow> dispatch_message msg c
      | TextFrame None \<Rightarrow> c
      | OtherFrame \<Rightarrow> c
      | LinkLost oks \<Rightarrow>
          if snd (reconnect_delays 1 oks) then c\<lparr>dw_sent := dw_sent c @ reattach_messages c, dw_connected := True\<rparr>
          else c\<lparr>dw_connected := False\<rparr>)"

end
