(* ===== verification/Mcp_Client.thy ===== *)
theory Mcp_Client
  imports Mcp_Ws
begin

text \<open>
  The HTTP client of the MCP server for one device (\<open>mcp/src/client.rs\<close>). A request is a record of what
  is sent; the network is a parameter that answers a request and changes the world behind it. A response
  has the text of its body and what \<open>serde_json\<close> makes of it.
\<close>

subsection \<open>Requests\<close>

datatype http_body = NoBody | JsonBody json | RawBody "u8 list"

record device_request =
  hq_method :: string
  hq_url :: string
  hq_query :: "(string \<times> string) list"
  hq_bearer :: "string option"
  hq_headers :: "(string \<times> string) list"
  hq_body :: http_body
  hq_timeout_ms :: u64

record device_answer =
  hp_status :: nat
  hp_text :: string
  hp_json :: "string + json"

type_synonym 'w net = "'w \<Rightarrow> device_request \<Rightarrow> (string + device_answer) \<times> 'w"

record sctl_http =
  sh_base_url :: string
  sh_api_key :: string

definition new_client :: "string \<Rightarrow> string \<Rightarrow> sctl_http" where
  "new_client base_url api_key = \<lparr>sh_base_url = trim_end_slash base_url, sh_api_key = api_key\<rparr>"

text \<open>A request of the shared \<open>reqwest\<close> client, with its default header and time-out.\<close>

definition api_request :: "sctl_http \<Rightarrow> string \<Rightarrow> string \<Rightarrow> http_body \<Rightarrow> device_request" where
  "api_request cl meth path body =
     \<lparr>hq_method = meth, hq_url = sh_base_url cl @ path, hq_query = [], hq_bearer = Some (sh_api_key cl),
      hq_headers = [(''x-sctl-client'', ''mcp'')], hq_body = body, hq_timeout_ms = 120000\<rparr>"

definition handle_response :: "device_answer \<Rightarrow> client_error + json" where
  "handle_response r =
     (if 200 \<le> hp_status r \<and> hp_status r < 300
      then (case hp_json r of Inr v \<Rightarrow> Inr v | Inl e \<Rightarrow> Inl (Protocol (''Invalid JSON from device: '' @ e)))
      else Inl (Device (hp_status r)
        (unwrap_or (hp_text r) (case hp_json r of Inr v \<Rightarrow> json_as_str (json_index v ''error'') | Inl _ \<Rightarrow> None))))"

definition client_call :: "'w net \<Rightarrow> device_request \<Rightarrow> 'w \<Rightarrow> (client_error + json) \<times> 'w" where
  "client_call net req w =
     (case net w req of
        (Inl e, w1) \<Rightarrow> (Inl (Request e), w1)
      | (Inr r, w1) \<Rightarrow> (handle_response r, w1))"

definition client_error_text :: "client_error \<Rightarrow> string" where
  "client_error_text e =
     (case e of
        Request t \<Rightarrow> ''HTTP request failed: '' @ t
      | Device status message \<Rightarrow> ''Device error (HTTP '' @ show_nat status @ ''): '' @ message
      | Protocol t \<Rightarrow> ''Protocol error: '' @ t)"

subsection \<open>Endpoints\<close>

definition client_health :: "'w net \<Rightarrow> sctl_http \<Rightarrow> 'w \<Rightarrow> (client_error + json) \<times> 'w" where
  "client_health net cl = client_call net ((api_request cl ''GET'' ''/api/health'' NoBody)\<lparr>hq_bearer := None\<rparr>)"

definition client_info :: "'w net \<Rightarrow> sctl_http \<Rightarrow> 'w \<Rightarrow> (client_error + json) \<times> 'w" where
  "client_info net cl = client_call net (api_request cl ''GET'' ''/api/info'' NoBody)"

definition client_gps :: "'w net \<Rightarrow> sctl_http \<Rightarrow> 'w \<Rightarrow> (client_error + json) \<times> 'w" where
  "client_gps net cl = client_call net (api_request cl ''GET'' ''/api/gps'' NoBody)"

definition exec_request_body :: "string \<Rightarrow> u64 option \<Rightarrow> string option \<Rightarrow> env_vars option \<Rightarrow> json" where
  "exec_request_body command timeout_ms working_dir env =
     JObj (Ws_Messages.fields [(''command'', str command), (''timeout_ms'', Option.bind timeout_ms num),
       (''working_dir'', opt_str working_dir), (''env'', map_option env_value env)])"

definition exec_http_request :: "sctl_http \<Rightarrow> string \<Rightarrow> u64 option \<Rightarrow> string option \<Rightarrow> env_vars option \<Rightarrow> device_request" where
  "exec_http_request cl command timeout_ms working_dir env =
     (let req = api_request cl ''POST'' ''/api/exec'' (JsonBody (exec_request_body command timeout_ms working_dir env))
      in case timeout_ms of None \<Rightarrow> req | Some t \<Rightarrow> req\<lparr>hq_timeout_ms := t + 10000\<rparr>)"

definition client_exec ::
    "'w net \<Rightarrow> sctl_http \<Rightarrow> string \<Rightarrow> u64 option \<Rightarrow> string option \<Rightarrow> env_vars option \<Rightarrow> 'w \<Rightarrow> (client_error + json) \<times> 'w" where
  "client_exec net cl command timeout_ms working_dir env =
     client_call net (exec_http_request cl command timeout_ms working_dir env)"

definition client_exec_batch ::
    "'w net \<Rightarrow> sctl_http \<Rightarrow> json list \<Rightarrow> string option \<Rightarrow> env_vars option \<Rightarrow> 'w \<Rightarrow> (client_error + json) \<times> 'w" where
  "client_exec_batch net cl commands working_dir env =
     client_call net (api_request cl ''POST'' ''/api/exec/batch'' (JsonBody (JObj (Ws_Messages.fields
       [(''commands'', Some (JArr commands)), (''working_dir'', opt_str working_dir), (''env'', map_option env_value env)]))))"

text \<open>\<open>url_err\<close> is the error of \<open>Url::parse\<close>, if any.\<close>

definition client_file_read ::
    "'w net \<Rightarrow> (string \<Rightarrow> string option) \<Rightarrow> sctl_http \<Rightarrow> string \<Rightarrow> bool \<Rightarrow> 'w \<Rightarrow> (client_error + json) \<times> 'w" where
  "client_file_read net url_err cl path lst w =
     (case url_err (sh_base_url cl @ ''/api/files'') of
        Some e \<Rightarrow> (Inl (Protocol (''Invalid base URL: '' @ e)), w)
      | None \<Rightarrow>
          client_call net ((api_request cl ''GET'' ''/api/files'' NoBody)
            \<lparr>hq_query := (''path'', path) # (if lst then [(''list'', ''true'')] else [])\<rparr>) w)"

definition client_file_write ::
    "'w net \<Rightarrow> sctl_http \<Rightarrow> string \<Rightarrow> string \<Rightarrow> string option \<Rightarrow> string option \<Rightarrow> bool option \<Rightarrow> 'w \<Rightarrow> (client_error + json) \<times> 'w" where
  "client_file_write net cl path content encoding mode create_dirs =
     client_call net (api_request cl ''PUT'' ''/api/files'' (JsonBody (JObj (Ws_Messages.fields
       [(''path'', str path), (''content'', str content), (''encoding'', opt_str encoding), (''mode'', opt_str mode),
        (''create_dirs'', Option.bind create_dirs flag)]))))"

definition client_file_delete :: "'w net \<Rightarrow> sctl_http \<Rightarrow> string \<Rightarrow> 'w \<Rightarrow> (client_error + json) \<times> 'w" where
  "client_file_delete net cl path =
     client_call net (api_request cl ''DELETE'' ''/api/files'' (JsonBody (JObj [(''path'', JStr path)])))"

definition client_activity :: "'w net \<Rightarrow> sctl_http \<Rightarrow> u64 \<Rightarrow> u64 \<Rightarrow> 'w \<Rightarrow> (client_error + json) \<times> 'w" where
  "client_activity net cl since_id limit =
     client_call net (api_request cl ''GET''
       (''/api/activity?since_id='' @ show_nat (unat since_id) @ ''&limit='' @ show_nat (unat limit)) NoBody)"

definition client_list_playbooks :: "'w net \<Rightarrow> sctl_http \<Rightarrow> 'w \<Rightarrow> (client_error + json) \<times> 'w" where
  "client_list_playbooks net cl = client_call net (api_request cl ''GET'' ''/api/playbooks'' NoBody)"

definition client_get_playbook :: "'w net \<Rightarrow> sctl_http \<Rightarrow> string \<Rightarrow> 'w \<Rightarrow> (client_error + json) \<times> 'w" where
  "client_get_playbook net cl name = client_call net (api_request cl ''GET'' (''/api/playbooks/'' @ name) NoBody)"

definition client_put_playbook :: "'w net \<Rightarrow> sctl_http \<Rightarrow> string \<Rightarrow> string \<Rightarrow> 'w \<Rightarrow> (client_error + json) \<times> 'w" where
  "client_put_playbook net cl name content =
     client_call net ((api_request cl ''PUT'' (''/api/playbooks/'' @ name) (RawBody (bytes content)))
       \<lparr>hq_headers := [(''x-sctl-client'', ''mcp''), (''content-type'', ''text/markdown'')]\<rparr>)"

definition client_delete_playbook :: "'w net \<Rightarrow> sctl_http \<Rightarrow> string \<Rightarrow> 'w \<Rightarrow> (client_error + json) \<times> 'w" where
  "client_delete_playbook net cl name = client_call net (api_request cl ''DELETE'' (''/api/playbooks/'' @ name) NoBody)"

subsection \<open>Chunked upload\<close>

definition CHUNK_SIZE :: nat where
  "CHUNK_SIZE = 256 * 1024"

function data_chunks :: "nat \<Rightarrow> 'a list \<Rightarrow> 'a list list" where
  "data_chunks n xs = (if n = 0 \<or> xs = [] then [] else take n xs # data_chunks n (drop n xs))"
  by pat_completeness auto

termination by (relation "measure (\<lambda>(_, xs). length xs)") (auto simp: neq_Nil_conv)

declare data_chunks.simps [simp del]

definition rsplit_last :: "string \<Rightarrow> string" where
  "rsplit_last path = last (split_char (CHR ''/'') path)"

definition init_body :: "digest \<Rightarrow> string \<Rightarrow> u8 list \<Rightarrow> string option \<Rightarrow> json" where
  "init_body sha path data mode =
     JObj (Ws_Messages.fields
       [(''path'', str path), (''filename'', str (rsplit_last path)), (''file_size'', num (of_nat (length data) :: u64)),
        (''file_hash'', str (hash_bytes sha data)), (''chunk_size'', num (of_nat CHUNK_SIZE :: u32)),
        (''total_chunks'', num (of_nat ((length data + CHUNK_SIZE - 1) div CHUNK_SIZE) :: u32)), (''mode'', opt_str mode)])"

text \<open>The chunks go through a client of their own, without the default header.\<close>

definition chunk_request :: "digest \<Rightarrow> sctl_http \<Rightarrow> string \<Rightarrow> nat \<Rightarrow> u8 list \<Rightarrow> device_request" where
  "chunk_request sha cl transfer_id idx chunk =
     (api_request cl ''POST'' (''/api/stp/chunk/'' @ transfer_id @ ''/'' @ show_nat idx) (RawBody chunk))
       \<lparr>hq_headers := [(''content-type'', ''application/octet-stream''), (''x-gx-chunk-hash'', hash_bytes sha chunk)]\<rparr>"

fun send_chunks ::
    "'w net \<Rightarrow> digest \<Rightarrow> sctl_http \<Rightarrow> string \<Rightarrow> nat \<Rightarrow> nat \<Rightarrow> u8 list list \<Rightarrow> 'w \<Rightarrow> (client_error + unit) \<times> 'w" where
  "send_chunks net sha cl transfer_id tot idx [] w = (Inr (), w)"
| "send_chunks net sha cl transfer_id tot idx (chunk # chunks) w =
     (case client_call net (chunk_request sha cl transfer_id idx chunk) w of
        (Inl e, w1) \<Rightarrow> (Inl e, w1)
      | (Inr answer, w1) \<Rightarrow>
          if json_as_bool (json_index answer ''ok'') = Some True then send_chunks net sha cl transfer_id tot (Suc idx) chunks w1
          else (Inl (Protocol (''Chunk '' @ show_nat idx @ ''/'' @ show_nat tot @ '' rejected: ''
                 @ unwrap_or ''chunk rejected'' (json_as_str (json_index answer ''error'')))), w1))"

text \<open>\<open>build_err\<close> is the error of building that client, if any.\<close>

definition client_file_write_chunked ::
    "'w net \<Rightarrow> digest \<Rightarrow> string option \<Rightarrow> sctl_http \<Rightarrow> string \<Rightarrow> u8 list \<Rightarrow> string option \<Rightarrow> 'w \<Rightarrow> (client_error + json) \<times> 'w" where
  "client_file_write_chunked net sha build_err cl path data mode w =
     (let tot = (length data + CHUNK_SIZE - 1) div CHUNK_SIZE in
      case client_call net (api_request cl ''POST'' ''/api/stp/upload'' (JsonBody (init_body sha path data mode))) w of
        (Inl e, w1) \<Rightarrow> (Inl e, w1)
      | (Inr init_result, w1) \<Rightarrow>
         (case json_as_str (json_index init_result ''transfer_id'') of
            None \<Rightarrow> (Inl (Protocol ''Missing transfer_id in upload init response''), w1)
          | Some transfer_id \<Rightarrow>
             (case build_err of
                Some e \<Rightarrow> (Inl (Protocol (''Failed to build chunk client: '' @ e)), w1)
              | None \<Rightarrow>
                 (case send_chunks net sha cl transfer_id tot 0 (data_chunks CHUNK_SIZE data) w1 of
                    (Inl e, w2) \<Rightarrow> (Inl e, w2)
                  | (Inr _, w2) \<Rightarrow>
                      (Inr (JObj [(''ok'', JBool True), (''transfer_id'', JStr transfer_id), (''path'', JStr path),
                         (''size'', JNum (int (length data))), (''chunks'', JNum (int tot))]), w2)))))"

end
