(* ===== verification/Mcp_Devices.thy ===== *)
theory Mcp_Devices
  imports Mcp_Client
begin

text \<open>
  The devices of the MCP server: the configuration (\<open>mcp/src/config.rs\<close>) and the registry of clients and
  WebSocket connections with its reload of a changed file (\<open>mcp/src/devices.rs\<close>).

  A configuration file, once read and parsed, is an argument (or the error). Maps are association lists in
  the order of iteration.
\<close>

subsection \<open>Configuration\<close>

record device_entry =
  de_url :: string
  de_api_key :: string
  de_playbooks_dir :: "string option"

record devices_config =
  dc_config_version :: "nat option"
  dc_devices :: "(string, device_entry) hmap"
  dc_default_device :: "string option"

record resolved_config =
  rc_devices :: "(string, device_entry) hmap"
  rc_default_device :: string

fun entry_errors :: "(string, device_entry) hmap \<Rightarrow> string option" where
  "entry_errors [] = None"
| "entry_errors ((name, e) # es) =
     (if de_url e = [] then Some (''Device '' @ quoted name @ '' has empty url'')
      else if de_api_key e = [] then Some (''Device '' @ quoted name @ '' has empty api_key'')
      else entry_errors es)"

definition load_from_file :: "string + devices_config \<Rightarrow> string + resolved_config" where
  "load_from_file file =
     (case file of
        Inl e \<Rightarrow> Inl e
      | Inr cfg \<Rightarrow>
          if dc_devices cfg = [] then Inl ''Config file contains no devices''
          else (case entry_errors (dc_devices cfg) of
                  Some e \<Rightarrow> Inl e
                | None \<Rightarrow>
                   (case dc_default_device cfg of
                      Some d \<Rightarrow>
                        if hm_get (dc_devices cfg) d = None then Inl (''default_device '' @ quoted d @ '' not found in devices'')
                        else Inr \<lparr>rc_devices = dc_devices cfg, rc_default_device = d\<rparr>
                    | None \<Rightarrow>
                        if length (dc_devices cfg) = 1
                        then Inr \<lparr>rc_devices = dc_devices cfg, rc_default_device = fst (hd (dc_devices cfg))\<rparr>
                        else Inl ''Multiple devices configured but no default_device specified'')))"

definition load_from_env :: "string option \<Rightarrow> string option \<Rightarrow> string + resolved_config" where
  "load_from_env url api_key =
     (case url of
        None \<Rightarrow> Inl ''No config file and SCTL_URL not set''
      | Some u \<Rightarrow>
         (case api_key of
            None \<Rightarrow> Inl ''No config file and SCTL_API_KEY not set''
          | Some k \<Rightarrow>
              if u = [] then Inl ''SCTL_URL is empty''
              else if k = [] then Inl ''SCTL_API_KEY is empty''
              else Inr \<lparr>rc_devices = [(''default'', \<lparr>de_url = u, de_api_key = k, de_playbooks_dir = None\<rparr>)],
                        rc_default_device = ''default''\<rparr>))"

definition mcp_expand_tilde :: "string option \<Rightarrow> string \<Rightarrow> string" where
  "mcp_expand_tilde home path =
     (case strip_prefix ''~/'' path of
        Some rest \<Rightarrow> (case home of Some h \<Rightarrow> join_path h rest | None \<Rightarrow> path)
      | None \<Rightarrow> path)"

definition load_config ::
    "(string \<Rightarrow> string + devices_config) \<Rightarrow> (string \<Rightarrow> string option) \<Rightarrow> string option \<Rightarrow> string + resolved_config" where
  "load_config parse_file env cli =
     (case cli of
        Some path \<Rightarrow> load_from_file (parse_file (mcp_expand_tilde (env ''HOME'') path))
      | None \<Rightarrow>
         (case env ''SCTL_CONFIG'' of
            Some path \<Rightarrow> load_from_file (parse_file (mcp_expand_tilde (env ''HOME'') path))
          | None \<Rightarrow> load_from_env (env ''SCTL_URL'') (env ''SCTL_API_KEY'')))"

subsection \<open>The registry\<close>

text \<open>A connection of the pool, with the base URL and the key it was opened with.\<close>

record pooled =
  pl_base_url :: string
  pl_api_key :: string
  pl_conn :: device_ws

record device_registry =
  rg_clients :: "(string, sctl_http) hmap"
  rg_default_device :: string
  rg_playbook_dirs :: "(string, string) hmap"
  rg_pool :: "(string, pooled) hmap"
  rg_session_device :: "(string, string) hmap"
  rg_config_path :: "string option"
  rg_last_mtime :: "nat option"

definition extract_playbook_dirs :: "resolved_config \<Rightarrow> (string, string) hmap" where
  "extract_playbook_dirs cfg = List.map_filter (\<lambda>(name, e). map_option (Pair name) (de_playbooks_dir e)) (rc_devices cfg)"

definition build_clients :: "(string, device_entry) hmap \<Rightarrow> (string, sctl_http) hmap" where
  "build_clients devices = fold (\<lambda>(name, e). hm_insert name (new_client (de_url e) (de_api_key e))) devices []"

definition from_config :: "resolved_config \<Rightarrow> device_registry" where
  "from_config cfg =
     \<lparr>rg_clients = build_clients (rc_devices cfg), rg_default_device = rc_default_device cfg,
      rg_playbook_dirs = extract_playbook_dirs cfg, rg_pool = [], rg_session_device = [], rg_config_path = None,
      rg_last_mtime = None\<rparr>"

definition from_config_file :: "resolved_config \<Rightarrow> string \<Rightarrow> nat option \<Rightarrow> device_registry" where
  "from_config_file cfg path mtime = (from_config cfg)\<lparr>rg_config_path := Some path, rg_last_mtime := mtime\<rparr>"

definition stale_connection :: "(string, sctl_http) hmap \<Rightarrow> string \<times> sctl_http \<Rightarrow> bool" where
  "stale_connection new_clients x =
     (case hm_get new_clients (fst x) of Some c \<Rightarrow> sh_base_url c \<noteq> sh_base_url (snd x) | None \<Rightarrow> True)"

text \<open>The file as it is at this moment: its modification time, if it can be read, and its content.\<close>

record config_file =
  cf_mtime :: "nat option"
  cf_config :: "string + devices_config"

definition reloaded :: "resolved_config \<Rightarrow> nat \<Rightarrow> device_registry \<Rightarrow> device_registry" where
  "reloaded cfg t g =
     (let new_clients = build_clients (rc_devices cfg);
          gone = map fst (filter (stale_connection new_clients) (rg_clients g))
      in g\<lparr>rg_pool := hm_remove_all gone (rg_pool g), rg_clients := new_clients, rg_default_device := rc_default_device cfg,
           rg_playbook_dirs := extract_playbook_dirs cfg, rg_last_mtime := Some t\<rparr>)"

definition maybe_reload :: "config_file \<Rightarrow> device_registry \<Rightarrow> device_registry" where
  "maybe_reload f g =
     (case (rg_config_path g, cf_mtime f) of
        (Some _, Some t) \<Rightarrow>
          if rg_last_mtime g = Some t then g
          else (case load_from_file (cf_config f) of Inl _ \<Rightarrow> g | Inr cfg \<Rightarrow> reloaded cfg t g)
      | _ \<Rightarrow> g)"

definition resolve_with_name :: "config_file \<Rightarrow> string option \<Rightarrow> device_registry \<Rightarrow> (string + string \<times> sctl_http) \<times> device_registry" where
  "resolve_with_name f device g =
     (let g1 = maybe_reload f g; name = unwrap_or (rg_default_device g1) device
      in (case hm_get (rg_clients g1) name of
            Some cl \<Rightarrow> Inr (name, cl)
          | None \<Rightarrow> Inl (''Unknown device: '' @ quoted name), g1))"

definition resolve :: "config_file \<Rightarrow> string option \<Rightarrow> device_registry \<Rightarrow> (string + sctl_http) \<times> device_registry" where
  "resolve f device g =
     (case resolve_with_name f device g of (Inl e, g1) \<Rightarrow> (Inl e, g1) | (Inr (_, cl), g1) \<Rightarrow> (Inr cl, g1))"

definition list_configured :: "config_file \<Rightarrow> device_registry \<Rightarrow> (string \<times> string) list \<times> device_registry" where
  "list_configured f g =
     (let g1 = maybe_reload f g in (sort_key fst (map (\<lambda>(name, cl). (name, sh_base_url cl)) (rg_clients g1)), g1))"

definition register_session :: "string \<Rightarrow> string \<Rightarrow> device_registry \<Rightarrow> device_registry" where
  "register_session sid device g = g\<lparr>rg_session_device := hm_insert sid device (rg_session_device g)\<rparr>"

definition resolve_session_device :: "string \<Rightarrow> device_registry \<Rightarrow> string option" where
  "resolve_session_device sid g = hm_get (rg_session_device g) sid"

text \<open>\<open>dial\<close> is the result of \<open>connect_async\<close> on a WebSocket URL.\<close>

definition get_or_connect :: "(string \<Rightarrow> string + unit) \<Rightarrow> string \<Rightarrow> sctl_http \<Rightarrow> device_registry \<Rightarrow> (string + unit) \<times> device_registry" where
  "get_or_connect dial name cl g =
     (case hm_get (rg_pool g) name of
        Some p \<Rightarrow> if dw_connected (pl_conn p) then (Inr (), g)
                  else
                    (let g1 = g\<lparr>rg_pool := hm_remove name (rg_pool g)\<rparr> in
                     case conn_connect dial (sh_base_url cl) (sh_api_key cl) of
                       Inl e \<Rightarrow> (Inl e, g1)
                     | Inr c \<Rightarrow> (Inr (), g1\<lparr>rg_pool := hm_insert name
                         \<lparr>pl_base_url = sh_base_url cl, pl_api_key = sh_api_key cl, pl_conn = c\<rparr> (rg_pool g1)\<rparr>))
      | None \<Rightarrow>
         (case conn_connect dial (sh_base_url cl) (sh_api_key cl) of
            Inl e \<Rightarrow> (Inl e, g)
          | Inr c \<Rightarrow> (Inr (), g\<lparr>rg_pool := hm_insert name
              \<lparr>pl_base_url = sh_base_url cl, pl_api_key = sh_api_key cl, pl_conn = c\<rparr> (rg_pool g)\<rparr>)))"

definition update_conn :: "string \<Rightarrow> (device_ws \<Rightarrow> device_ws) \<Rightarrow> device_registry \<Rightarrow> device_registry" where
  "update_conn name f g = g\<lparr>rg_pool := hm_modify name (\<lambda>p. p\<lparr>pl_conn := f (pl_conn p)\<rparr>) (rg_pool g)\<rparr>"

end
