(* ===== verification/Mcp_Tools.thy ===== *)
theory Mcp_Tools
  imports Mcp_Devices
begin

text \<open>
  The tools of the MCP server (\<open>mcp/src/tools.rs\<close>): their definitions and the handler of each. The prose
  of the definitions (\<open>description\<close>) is an argument; names, schemas and required parameters are those of
  the source.

  A handler takes what its environment answers (network, clock, frames dispatched while it waits) as one
  record, and the state of the server: the device registry, the playbook registry, and the world behind
  the network.
\<close>

subsection \<open>Definitions\<close>

record tool_spec =
  tl_name :: string
  tl_properties :: "(string \<times> (string \<times> json) list) list"
  tl_required :: "string list"

definition tool_definition :: "(string \<Rightarrow> string \<Rightarrow> string) \<Rightarrow> tool_spec \<Rightarrow> json" where
  "tool_definition doc t =
     JObj [(''name'', JStr (tl_name t)), (''description'', JStr (doc (tl_name t) [])),
       (''inputSchema'', JObj ([(''type'', JStr ''object''),
          (''properties'', JObj (map (\<lambda>(k, fs). (k, JObj (fs @ [(''description'', JStr (doc (tl_name t) k))]))) (tl_properties t)))]
          @ (if tl_required t = [] then [] else [(''required'', JArr (map JStr (tl_required t)))])
          @ [(''additionalProperties'', JBool False)]))]"

definition tool_device_list :: tool_spec where
  "tool_device_list =
     \<lparr>tl_name = ''device_list'',
      tl_properties =
       [],
      tl_required = []\<rparr>"

definition tool_device_health :: tool_spec where
  "tool_device_health =
     \<lparr>tl_name = ''device_health'',
      tl_properties =
       [(''device'', [(''type'', JStr ''string'')])],
      tl_required = []\<rparr>"

definition tool_device_info :: tool_spec where
  "tool_device_info =
     \<lparr>tl_name = ''device_info'',
      tl_properties =
       [(''device'', [(''type'', JStr ''string'')])],
      tl_required = []\<rparr>"

definition tool_device_exec :: tool_spec where
  "tool_device_exec =
     \<lparr>tl_name = ''device_exec'',
      tl_properties =
       [(''command'', [(''type'', JStr ''string'')]),
        (''device'', [(''type'', JStr ''string'')]),
        (''timeout_ms'', [(''type'', JStr ''integer'')]),
        (''working_dir'', [(''type'', JStr ''string'')]),
        (''env'', [(''type'', JStr ''object''), (''additionalProperties'', JObj [(''type'', JStr ''string'')])])],
      tl_required = [''command'']\<rparr>"

definition tool_device_exec_batch :: tool_spec where
  "tool_device_exec_batch =
     \<lparr>tl_name = ''device_exec_batch'',
      tl_properties =
       [(''commands'', [(''type'', JStr ''array''), (''items'', JObj [(''oneOf'', JArr [JObj [(''type'', JStr ''string'')], JObj [(''type'', JStr ''object''), (''properties'', JObj [(''command'', JObj [(''type'', JStr ''string'')]), (''timeout_ms'', JObj [(''type'', JStr ''integer'')]), (''working_dir'', JObj [(''type'', JStr ''string'')]), (''env'', JObj [(''type'', JStr ''object''), (''additionalProperties'', JObj [(''type'', JStr ''string'')])])]), (''required'', JArr [JStr ''command''])]])])]),
        (''device'', [(''type'', JStr ''string'')]),
        (''working_dir'', [(''type'', JStr ''string'')]),
        (''env'', [(''type'', JStr ''object''), (''additionalProperties'', JObj [(''type'', JStr ''string'')])])],
      tl_required = [''commands'']\<rparr>"

definition tool_device_file_read :: tool_spec where
  "tool_device_file_read =
     \<lparr>tl_name = ''device_file_read'',
      tl_properties =
       [(''path'', [(''type'', JStr ''string'')]),
        (''device'', [(''type'', JStr ''string'')]),
        (''list'', [(''type'', JStr ''boolean'')])],
      tl_required = [''path'']\<rparr>"

definition tool_device_file_write :: tool_spec where
  "tool_device_file_write =
     \<lparr>tl_name = ''device_file_write'',
      tl_properties =
       [(''path'', [(''type'', JStr ''string'')]),
        (''content'', [(''type'', JStr ''string'')]),
        (''device'', [(''type'', JStr ''string'')]),
        (''encoding'', [(''type'', JStr ''string''), (''enum'', JArr [JStr ''base64''])]),
        (''mode'', [(''type'', JStr ''string'')]),
        (''create_dirs'', [(''type'', JStr ''boolean'')])],
      tl_required = [''path'', ''content'']\<rparr>"

definition tool_device_file_delete :: tool_spec where
  "tool_device_file_delete =
     \<lparr>tl_name = ''device_file_delete'',
      tl_properties =
       [(''path'', [(''type'', JStr ''string'')]),
        (''device'', [(''type'', JStr ''string'')])],
      tl_required = [''path'']\<rparr>"

definition tool_device_activity :: tool_spec where
  "tool_device_activity =
     \<lparr>tl_name = ''device_activity'',
      tl_properties =
       [(''device'', [(''type'', JStr ''string'')]),
        (''since_id'', [(''type'', JStr ''integer'')]),
        (''limit'', [(''type'', JStr ''integer'')])],
      tl_required = []\<rparr>"

definition tool_device_gps :: tool_spec where
  "tool_device_gps =
     \<lparr>tl_name = ''device_gps'',
      tl_properties =
       [(''device'', [(''type'', JStr ''string'')])],
      tl_required = []\<rparr>"

definition tool_session_start :: tool_spec where
  "tool_session_start =
     \<lparr>tl_name = ''session_start'',
      tl_properties =
       [(''device'', [(''type'', JStr ''string'')]),
        (''working_dir'', [(''type'', JStr ''string'')]),
        (''shell'', [(''type'', JStr ''string'')]),
        (''env'', [(''type'', JStr ''object''), (''additionalProperties'', JObj [(''type'', JStr ''string'')])]),
        (''persistent'', [(''type'', JStr ''boolean'')]),
        (''pty'', [(''type'', JStr ''boolean'')]),
        (''rows'', [(''type'', JStr ''integer'')]),
        (''cols'', [(''type'', JStr ''integer'')]),
        (''idle_timeout'', [(''type'', JStr ''integer'')]),
        (''name'', [(''type'', JStr ''string'')])],
      tl_required = []\<rparr>"

definition tool_session_exec :: tool_spec where
  "tool_session_exec =
     \<lparr>tl_name = ''session_exec'',
      tl_properties =
       [(''session_id'', [(''type'', JStr ''string'')]),
        (''command'', [(''type'', JStr ''string'')]),
        (''device'', [(''type'', JStr ''string'')])],
      tl_required = [''session_id'', ''command'']\<rparr>"

definition tool_session_send :: tool_spec where
  "tool_session_send =
     \<lparr>tl_name = ''session_send'',
      tl_properties =
       [(''session_id'', [(''type'', JStr ''string'')]),
        (''data'', [(''type'', JStr ''string'')]),
        (''device'', [(''type'', JStr ''string'')])],
      tl_required = [''session_id'', ''data'']\<rparr>"

definition tool_session_read :: tool_spec where
  "tool_session_read =
     \<lparr>tl_name = ''session_read'',
      tl_properties =
       [(''session_id'', [(''type'', JStr ''string'')]),
        (''since'', [(''type'', JStr ''integer'')]),
        (''timeout_ms'', [(''type'', JStr ''integer'')]),
        (''device'', [(''type'', JStr ''string'')])],
      tl_required = [''session_id'']\<rparr>"

definition tool_session_signal :: tool_spec where
  "tool_session_signal =
     \<lparr>tl_name = ''session_signal'',
      tl_properties =
       [(''session_id'', [(''type'', JStr ''string'')]),
        (''signal'', [(''type'', JStr ''integer'')]),
        (''device'', [(''type'', JStr ''string'')])],
      tl_required = [''session_id'', ''signal'']\<rparr>"

definition tool_session_kill :: tool_spec where
  "tool_session_kill =
     \<lparr>tl_name = ''session_kill'',
      tl_properties =
       [(''session_id'', [(''type'', JStr ''string'')]),
        (''device'', [(''type'', JStr ''string'')])],
      tl_required = [''session_id'']\<rparr>"

definition tool_session_resize :: tool_spec where
  "tool_session_resize =
     \<lparr>tl_name = ''session_resize'',
      tl_properties =
       [(''session_id'', [(''type'', JStr ''string'')]),
        (''rows'', [(''type'', JStr ''integer'')]),
        (''cols'', [(''type'', JStr ''integer'')]),
        (''device'', [(''type'', JStr ''string'')])],
      tl_required = [''session_id'', ''rows'', ''cols'']\<rparr>"

definition tool_session_list :: tool_spec where
  "tool_session_list =
     \<lparr>tl_name = ''session_list'',
      tl_properties =
       [(''device'', [(''type'', JStr ''string'')])],
      tl_required = []\<rparr>"

definition tool_session_exec_wait :: tool_spec where
  "tool_session_exec_wait =
     \<lparr>tl_name = ''session_exec_wait'',
      tl_properties =
       [(''session_id'', [(''type'', JStr ''string'')]),
        (''command'', [(''type'', JStr ''string'')]),
        (''timeout_ms'', [(''type'', JStr ''integer'')]),
        (''device'', [(''type'', JStr ''string'')])],
      tl_required = [''session_id'', ''command'']\<rparr>"

definition tool_session_attach :: tool_spec where
  "tool_session_attach =
     \<lparr>tl_name = ''session_attach'',
      tl_properties =
       [(''session_id'', [(''type'', JStr ''string'')]),
        (''since'', [(''type'', JStr ''integer'')]),
        (''device'', [(''type'', JStr ''string'')])],
      tl_required = [''session_id'']\<rparr>"

definition tool_session_rename :: tool_spec where
  "tool_session_rename =
     \<lparr>tl_name = ''session_rename'',
      tl_properties =
       [(''session_id'', [(''type'', JStr ''string'')]),
        (''name'', [(''type'', JStr ''string'')]),
        (''device'', [(''type'', JStr ''string'')])],
      tl_required = [''session_id'', ''name'']\<rparr>"

definition tool_session_allow_ai :: tool_spec where
  "tool_session_allow_ai =
     \<lparr>tl_name = ''session_allow_ai'',
      tl_properties =
       [(''session_id'', [(''type'', JStr ''string'')]),
        (''allowed'', [(''type'', JStr ''boolean'')]),
        (''device'', [(''type'', JStr ''string'')])],
      tl_required = [''session_id'', ''allowed'']\<rparr>"

definition tool_session_ai_status :: tool_spec where
  "tool_session_ai_status =
     \<lparr>tl_name = ''session_ai_status'',
      tl_properties =
       [(''session_id'', [(''type'', JStr ''string'')]),
        (''working'', [(''type'', JStr ''boolean'')]),
        (''activity'', [(''type'', JStr ''string''), (''enum'', JArr [JStr ''read'', JStr ''write''])]),
        (''message'', [(''type'', JStr ''string'')]),
        (''device'', [(''type'', JStr ''string'')])],
      tl_required = [''session_id'', ''working'']\<rparr>"

definition tool_playbook_list :: tool_spec where
  "tool_playbook_list =
     \<lparr>tl_name = ''playbook_list'',
      tl_properties =
       [(''device'', [(''type'', JStr ''string'')])],
      tl_required = []\<rparr>"

definition tool_playbook_get :: tool_spec where
  "tool_playbook_get =
     \<lparr>tl_name = ''playbook_get'',
      tl_properties =
       [(''name'', [(''type'', JStr ''string'')]),
        (''device'', [(''type'', JStr ''string'')])],
      tl_required = [''name'']\<rparr>"

definition tool_playbook_put :: tool_spec where
  "tool_playbook_put =
     \<lparr>tl_name = ''playbook_put'',
      tl_properties =
       [(''name'', [(''type'', JStr ''string'')]),
        (''content'', [(''type'', JStr ''string'')]),
        (''device'', [(''type'', JStr ''string'')])],
      tl_required = [''name'', ''content'']\<rparr>"

definition builtin_tools :: "tool_spec list" where
  "builtin_tools =
     [tool_device_list, tool_device_health, tool_device_info, tool_device_exec, tool_device_exec_batch, tool_device_file_read,
      tool_device_file_write, tool_device_file_delete, tool_device_activity, tool_device_gps, tool_session_start,
      tool_session_exec, tool_session_send, tool_session_read, tool_session_signal, tool_session_kill, tool_session_resize,
      tool_session_list, tool_session_exec_wait, tool_session_attach, tool_session_rename, tool_session_allow_ai,
      tool_session_ai_status]"

definition playbook_management_tools :: "tool_spec list" where
  "playbook_management_tools = [tool_playbook_list, tool_playbook_get, tool_playbook_put]"

definition all_tool_definitions :: "(string \<Rightarrow> string \<Rightarrow> string) \<Rightarrow> playbook_registry \<Rightarrow> json list" where
  "all_tool_definitions doc pb =
     map (tool_definition doc) (builtin_tools @ playbook_management_tools) @ map playbook_to_tool_definition (all_playbooks pb)"

subsection \<open>Results\<close>

record tool_result =
  tr_content :: "json list"
  tr_is_error :: bool
  tr_tools_changed :: bool

definition text_block :: "string \<Rightarrow> json" where
  "text_block t = JObj [(''type'', JStr ''text''), (''text'', JStr t)]"

text \<open>\<open>pretty\<close> is \<open>serde_json::to_string_pretty\<close>.\<close>

definition tool_success :: "(json \<Rightarrow> string) \<Rightarrow> json \<Rightarrow> tool_result" where
  "tool_success pretty v = \<lparr>tr_content = [text_block (pretty v)], tr_is_error = False, tr_tools_changed = False\<rparr>"

definition tool_error :: "string \<Rightarrow> tool_result" where
  "tool_error message = \<lparr>tr_content = [text_block message], tr_is_error = True, tr_tools_changed = False\<rparr>"

record 'w tool_env =
  te_net :: "'w net"
  te_pretty :: "json \<Rightarrow> string"
  te_file :: config_file
  te_url_err :: "string \<Rightarrow> string option"
  te_sha :: digest
  te_build_err :: "string option"
  te_b64 :: "string \<Rightarrow> string + u8 list"
  te_yaml :: yaml
  te_show_json :: "json \<Rightarrow> string"
  te_dial :: "string \<Rightarrow> string + unit"
  te_client :: "string \<Rightarrow> sctl_client"
  te_ai_wait :: "json list"
  te_wait :: "json list"
  te_before :: "json list"
  te_list_wait :: "string \<Rightarrow> json list"
  te_nonce :: string
  te_now :: instant
  te_rounds :: "wait_round list"

record 'w mcp_state =
  ms_reg :: device_registry
  ms_pb :: playbook_registry
  ms_world :: 'w

definition get_device_param :: "json \<Rightarrow> string option" where
  "get_device_param args = Option.bind (json_get args ''device'') json_as_str"

definition arg_str :: "json \<Rightarrow> string \<Rightarrow> string option" where
  "arg_str args k = Option.bind (json_get args k) json_as_str"

definition arg_bool :: "json \<Rightarrow> string \<Rightarrow> bool option" where
  "arg_bool args k = Option.bind (json_get args k) json_as_bool"

definition arg_u64 :: "json \<Rightarrow> string \<Rightarrow> u64 option" where
  "arg_u64 args k = Option.bind (json_get args k) json_as_u64"

definition arg_env :: "json \<Rightarrow> env_vars option" where
  "arg_env args = Option.bind (json_get args ''env'') json_as_env"

definition missing_param :: "string \<Rightarrow> tool_result" where
  "missing_param what = tool_error (''Missing required parameter: '' @ what)"

subsection \<open>Tools over HTTP\<close>

text \<open>Resolve the device, then go on with its client.\<close>

definition with_client ::
    "'w tool_env \<Rightarrow> json \<Rightarrow> (sctl_http \<Rightarrow> 'w mcp_state \<Rightarrow> tool_result \<times> 'w mcp_state) \<Rightarrow> 'w mcp_state \<Rightarrow> tool_result \<times> 'w mcp_state" where
  "with_client ev args k s =
     (case resolve (te_file ev) (get_device_param args) (ms_reg s) of
        (Inl e, g) \<Rightarrow> (tool_error e, s\<lparr>ms_reg := g\<rparr>)
      | (Inr cl, g) \<Rightarrow> k cl (s\<lparr>ms_reg := g\<rparr>))"

text \<open>Send a request and show its answer.\<close>

definition show_answer ::
    "'w tool_env \<Rightarrow> ('w \<Rightarrow> (client_error + json) \<times> 'w) \<Rightarrow> 'w mcp_state \<Rightarrow> tool_result \<times> 'w mcp_state" where
  "show_answer ev call s =
     (case call (ms_world s) of
        (Inr v, w) \<Rightarrow> (tool_success (te_pretty ev) v, s\<lparr>ms_world := w\<rparr>)
      | (Inl e, w) \<Rightarrow> (tool_error (client_error_text e), s\<lparr>ms_world := w\<rparr>))"

definition handle_device_list :: "'w tool_env \<Rightarrow> 'w mcp_state \<Rightarrow> tool_result \<times> 'w mcp_state" where
  "handle_device_list ev s =
     (let (ds, g) = list_configured (te_file ev) (ms_reg s)
      in (tool_success (te_pretty ev) (JObj [(''devices'', JArr (map (\<lambda>(n, u). JObj [(''name'', JStr n), (''url'', JStr u)]) ds)),
            (''default_device'', JStr (rg_default_device g))]), s\<lparr>ms_reg := g\<rparr>))"

definition handle_device_health :: "'w tool_env \<Rightarrow> json \<Rightarrow> 'w mcp_state \<Rightarrow> tool_result \<times> 'w mcp_state" where
  "handle_device_health ev args = with_client ev args (\<lambda>cl. show_answer ev (client_health (te_net ev) cl))"

definition handle_device_info :: "'w tool_env \<Rightarrow> json \<Rightarrow> 'w mcp_state \<Rightarrow> tool_result \<times> 'w mcp_state" where
  "handle_device_info ev args = with_client ev args (\<lambda>cl. show_answer ev (client_info (te_net ev) cl))"

definition handle_device_exec :: "'w tool_env \<Rightarrow> json \<Rightarrow> 'w mcp_state \<Rightarrow> tool_result \<times> 'w mcp_state" where
  "handle_device_exec ev args =
     with_client ev args (\<lambda>cl s.
       case arg_str args ''command'' of
         None \<Rightarrow> (missing_param ''command'', s)
       | Some command \<Rightarrow>
           show_answer ev (client_exec (te_net ev) cl command (arg_u64 args ''timeout_ms'') (arg_str args ''working_dir'') (arg_env args)) s)"

definition normalized_command :: "json \<Rightarrow> json" where
  "normalized_command c = (case json_as_str c of Some s \<Rightarrow> JObj [(''command'', JStr s)] | None \<Rightarrow> c)"

definition handle_device_exec_batch :: "'w tool_env \<Rightarrow> json \<Rightarrow> 'w mcp_state \<Rightarrow> tool_result \<times> 'w mcp_state" where
  "handle_device_exec_batch ev args =
     with_client ev args (\<lambda>cl s.
       case Option.bind (json_get args ''commands'') json_as_array of
         None \<Rightarrow> (missing_param ''commands (array)'', s)
       | Some commands \<Rightarrow>
           show_answer ev (client_exec_batch (te_net ev) cl (map normalized_command commands) (arg_str args ''working_dir'') (arg_env args)) s)"

definition handle_device_file_read :: "'w tool_env \<Rightarrow> json \<Rightarrow> 'w mcp_state \<Rightarrow> tool_result \<times> 'w mcp_state" where
  "handle_device_file_read ev args =
     with_client ev args (\<lambda>cl s.
       case arg_str args ''path'' of
         None \<Rightarrow> (missing_param ''path'', s)
       | Some path \<Rightarrow>
           show_answer ev (client_file_read (te_net ev) (te_url_err ev) cl path (unwrap_or False (arg_bool args ''list''))) s)"

definition CHUNKED_UPLOAD_THRESHOLD :: nat where
  "CHUNKED_UPLOAD_THRESHOLD = 2 * 1024 * 1024"

text \<open>\<open>mkdir -p\<close> of the parent before a chunked upload; its result is ignored.\<close>

definition make_parent :: "'w tool_env \<Rightarrow> sctl_http \<Rightarrow> string \<Rightarrow> bool option \<Rightarrow> 'w mcp_state \<Rightarrow> 'w mcp_state" where
  "make_parent ev cl path create_dirs s =
     (case (create_dirs, rsplit_once (CHR ''/'') path) of
        (Some True, Some (parent, _)) \<Rightarrow>
          if parent = [] then s
          else s\<lparr>ms_world := snd (client_exec (te_net ev) cl (''mkdir -p '' @ quoted parent) (Some 5000) None None (ms_world s))\<rparr>
      | _ \<Rightarrow> s)"

definition handle_device_file_write :: "'w tool_env \<Rightarrow> json \<Rightarrow> 'w mcp_state \<Rightarrow> tool_result \<times> 'w mcp_state" where
  "handle_device_file_write ev args =
     with_client ev args (\<lambda>cl s.
       case arg_str args ''path'' of
         None \<Rightarrow> (missing_param ''path'', s)
       | Some path \<Rightarrow>
         (case arg_str args ''content'' of
            None \<Rightarrow> (missing_param ''content'', s)
          | Some content \<Rightarrow>
             (let encoding = arg_str args ''encoding''; mode = arg_str args ''mode''; create_dirs = arg_bool args ''create_dirs'';
                  plain = show_answer ev (client_file_write (te_net ev) cl path content encoding mode create_dirs)
              in if encoding = Some ''base64''
                 then (case te_b64 ev content of
                         Inl e \<Rightarrow> (tool_error (''Invalid base64 content: '' @ e), s)
                       | Inr raw \<Rightarrow>
                           if length raw > CHUNKED_UPLOAD_THRESHOLD
                           then show_answer ev (client_file_write_chunked (te_net ev) (te_sha ev) (te_build_err ev) cl path raw mode)
                                  (make_parent ev cl path create_dirs s)
                           else plain s)
                 else plain s)))"

definition handle_device_file_delete :: "'w tool_env \<Rightarrow> json \<Rightarrow> 'w mcp_state \<Rightarrow> tool_result \<times> 'w mcp_state" where
  "handle_device_file_delete ev args =
     with_client ev args (\<lambda>cl s.
       case arg_str args ''path'' of
         None \<Rightarrow> (missing_param ''path'', s)
       | Some path \<Rightarrow> show_answer ev (client_file_delete (te_net ev) cl path) s)"

definition handle_device_activity :: "'w tool_env \<Rightarrow> json \<Rightarrow> 'w mcp_state \<Rightarrow> tool_result \<times> 'w mcp_state" where
  "handle_device_activity ev args =
     with_client ev args (\<lambda>cl. show_answer ev
       (client_activity (te_net ev) cl (unwrap_or 0 (arg_u64 args ''since_id'')) (unwrap_or 50 (arg_u64 args ''limit''))))"

definition handle_device_gps :: "'w tool_env \<Rightarrow> json \<Rightarrow> 'w mcp_state \<Rightarrow> tool_result \<times> 'w mcp_state" where
  "handle_device_gps ev args =
     with_client ev args (\<lambda>cl s.
       case client_gps (te_net ev) cl (ms_world s) of
         (Inr v, w) \<Rightarrow> (tool_success (te_pretty ev) v, s\<lparr>ms_world := w\<rparr>)
       | (Inl e, w) \<Rightarrow>
           (tool_error (if is_not_found e then ''GPS not configured on this device'' else client_error_text e), s\<lparr>ms_world := w\<rparr>))"

end
