(* ===== verification/Mcp_Session_Tools.thy ===== *)
theory Mcp_Session_Tools
  imports Mcp_Tools
begin

text \<open>
  The session and playbook tools of the MCP server and the dispatch of a tool call
  (\<open>mcp/src/tools.rs\<close>). \<open>None\<close> is a call that is still waiting when the rounds given to it end.
\<close>

subsection \<open>Connections\<close>

definition conn_of :: "string \<Rightarrow> device_registry \<Rightarrow> device_ws" where
  "conn_of name g = (case hm_get (rg_pool g) name of Some p \<Rightarrow> pl_conn p | None \<Rightarrow> new_device_ws)"

definition run_conn :: "string \<Rightarrow> (device_ws \<Rightarrow> 'a \<times> device_ws) \<Rightarrow> 'w mcp_state \<Rightarrow> 'a \<times> 'w mcp_state" where
  "run_conn name f s =
     (let (r, c) = f (conn_of name (ms_reg s)) in (r, s\<lparr>ms_reg := update_conn name (\<lambda>_. c) (ms_reg s)\<rparr>))"

text \<open>The device of a call: the argument, the device that owns the session, or the default.\<close>

definition routed_device :: "json \<Rightarrow> device_registry \<Rightarrow> string option" where
  "routed_device args g =
     (case get_device_param args of
        Some d \<Rightarrow> Some d
      | None \<Rightarrow> Option.bind (arg_str args ''session_id'') (\<lambda>sid. resolve_session_device sid g))"

definition get_ws_connection :: "'w tool_env \<Rightarrow> json \<Rightarrow> 'w mcp_state \<Rightarrow> (tool_result + string) \<times> 'w mcp_state" where
  "get_ws_connection ev args s =
     (case resolve_with_name (te_file ev) (routed_device args (ms_reg s)) (ms_reg s) of
        (Inl e, g) \<Rightarrow> (Inl (tool_error e), s\<lparr>ms_reg := g\<rparr>)
      | (Inr (name, cl), g) \<Rightarrow>
         (case get_or_connect (te_dial ev) name cl g of
            (Inl e, g1) \<Rightarrow> (Inl (tool_error (''WebSocket connection failed: '' @ e)), s\<lparr>ms_reg := g1\<rparr>)
          | (Inr _, g1) \<Rightarrow> (Inr name, s\<lparr>ms_reg := g1\<rparr>)))"

definition with_ws ::
    "'w tool_env \<Rightarrow> json \<Rightarrow> (string \<Rightarrow> 'w mcp_state \<Rightarrow> tool_result \<times> 'w mcp_state) \<Rightarrow> 'w mcp_state \<Rightarrow> tool_result \<times> 'w mcp_state" where
  "with_ws ev args k s =
     (case get_ws_connection ev args s of (Inl r, s1) \<Rightarrow> (r, s1) | (Inr name, s1) \<Rightarrow> k name s1)"

definition send_and_report :: "'w tool_env \<Rightarrow> string \<Rightarrow> json \<Rightarrow> json \<Rightarrow> 'w mcp_state \<Rightarrow> tool_result \<times> 'w mcp_state" where
  "send_and_report ev name msg report s =
     (case run_conn name (conn_send msg) s of
        (Inr _, s1) \<Rightarrow> (tool_success (te_pretty ev) report, s1)
      | (Inl e, s1) \<Rightarrow> (tool_error e, s1))"

definition ok_report :: json where
  "ok_report = JObj [(''ok'', JBool True)]"

definition auto_ai :: "'w tool_env \<Rightarrow> string \<Rightarrow> string \<Rightarrow> string \<Rightarrow> 'w mcp_state \<Rightarrow> 'w mcp_state" where
  "auto_ai ev name sid activity s = snd (run_conn name (\<lambda>c. ((), auto_set_ai_working sid activity (te_ai_wait ev) c)) s)"

subsection \<open>Session tools\<close>

definition start_args_of :: "json \<Rightarrow> start_args" where
  "start_args_of args =
     \<lparr>sa_working_dir = arg_str args ''working_dir'', sa_shell = arg_str args ''shell'', sa_env = arg_env args,
      sa_persistent = unwrap_or True (arg_bool args ''persistent''), sa_pty = unwrap_or False (arg_bool args ''pty''),
      sa_rows = arg_u64 args ''rows'', sa_cols = arg_u64 args ''cols'', sa_idle_timeout = arg_u64 args ''idle_timeout'',
      sa_name = arg_str args ''name'', sa_user_allows_ai = True\<rparr>"

definition started_report :: "json \<Rightarrow> json" where
  "started_report v =
     JObj ([(''session_id'', json_index v ''session_id''), (''pid'', json_index v ''pid''), (''persistent'', json_index v ''persistent''),
            (''pty'', json_index v ''pty''), (''user_allows_ai'', json_index v ''user_allows_ai'')]
       @ (case str_field v ''name'' of Some n \<Rightarrow> [(''name'', JStr n)] | None \<Rightarrow> []))"

definition handle_session_start :: "'w tool_env \<Rightarrow> json \<Rightarrow> 'w mcp_state \<Rightarrow> tool_result \<times> 'w mcp_state" where
  "handle_session_start ev args =
     with_ws ev args (\<lambda>name s.
       case run_conn name (start_session (start_args_of args) (te_wait ev) (te_before ev)) s of
         (Inl e, s1) \<Rightarrow> (tool_error e, s1)
       | (Inr v, s1) \<Rightarrow>
           if str_field v ''type'' = Some ''error''
           then (tool_error (unwrap_or ''Session start failed'' (str_field v ''message'')), s1)
           else
             (let g = ms_reg s1;
                  g1 = (case str_field v ''session_id'' of
                          Some sid \<Rightarrow> register_session sid (unwrap_or (rg_default_device g) (get_device_param args)) g
                        | None \<Rightarrow> g)
              in (tool_success (te_pretty ev) (started_report v), s1\<lparr>ms_reg := g1\<rparr>)))"

definition handle_session_exec :: "'w tool_env \<Rightarrow> json \<Rightarrow> 'w mcp_state \<Rightarrow> tool_result \<times> 'w mcp_state" where
  "handle_session_exec ev args =
     with_ws ev args (\<lambda>name s.
       case arg_str args ''session_id'' of
         None \<Rightarrow> (missing_param ''session_id'', s)
       | Some sid \<Rightarrow>
         (case arg_str args ''command'' of
            None \<Rightarrow> (missing_param ''command'', s)
          | Some command \<Rightarrow>
              send_and_report ev name (session_exec_message sid command) ok_report (auto_ai ev name sid ''write'' s)))"

subsection \<open>Escape sequences\<close>

definition hex_digit_value :: "char \<Rightarrow> nat option" where
  "hex_digit_value c =
     (let n = of_char c :: nat in
      if 48 \<le> n \<and> n \<le> 57 then Some (n - 48)
      else if 65 \<le> n \<and> n \<le> 70 then Some (n - 55)
      else if 97 \<le> n \<and> n \<le> 102 then Some (n - 87) else None)"

definition code_point :: "string \<Rightarrow> nat" where
  "code_point hex = foldl (\<lambda>a c. a * 16 + unwrap_or 0 (hex_digit_value c)) 0 hex"

text \<open>\<open>char::from_u32\<close> of a value below \<open>0x10000\<close>, pushed as UTF-8: surrogates are no characters.\<close>

definition push_code_point :: "nat \<Rightarrow> string option" where
  "push_code_point n =
     (if 0xD800 \<le> n \<and> n \<le> 0xDFFF then None
      else if n < 0x80 then Some [char_of n]
      else if n < 0x800 then Some [char_of (0xC0 + n div 64), char_of (0x80 + n mod 64)]
      else Some [char_of (0xE0 + n div 4096), char_of (0x80 + (n div 64) mod 64), char_of (0x80 + n mod 64)])"

definition backslash :: char where
  "backslash = CHR 0x5C"

function unescape_control_chars :: "string \<Rightarrow> string" where
  "unescape_control_chars [] = []"
| "unescape_control_chars (c # s) =
     (if c \<noteq> backslash then c # unescape_control_chars s
      else (case s of
              [] \<Rightarrow> [backslash]
            | d # t \<Rightarrow>
                if d = CHR ''u''
                then (let hex = takeWhile (\<lambda>h. hex_digit_value h \<noteq> None) (take 4 t); rest = drop (length hex) t in
                      if length hex = 4
                      then unwrap_or (backslash # CHR ''u'' # hex) (push_code_point (code_point hex)) @ unescape_control_chars rest
                      else backslash # CHR ''u'' # hex @ take 1 rest @ unescape_control_chars (drop 1 rest))
                else if d = CHR ''t'' then CHR 0x09 # unescape_control_chars t
                else if d = CHR ''n'' then CHR 0x0A # unescape_control_chars t
                else if d = CHR ''r'' then CHR 0x0D # unescape_control_chars t
                else if d = backslash then backslash # unescape_control_chars t
                else backslash # d # unescape_control_chars t))"
  by pat_completeness auto

termination by (relation "measure length") auto

definition handle_session_send :: "'w tool_env \<Rightarrow> json \<Rightarrow> 'w mcp_state \<Rightarrow> tool_result \<times> 'w mcp_state" where
  "handle_session_send ev args =
     with_ws ev args (\<lambda>name s.
       case arg_str args ''session_id'' of
         None \<Rightarrow> (missing_param ''session_id'', s)
       | Some sid \<Rightarrow>
         (case arg_str args ''data'' of
            None \<Rightarrow> (missing_param ''data'', s)
          | Some raw \<Rightarrow>
             (let s1 = auto_ai ev name sid ''write'' s; unescaped = unescape_control_chars raw;
                  data = (if is_pty_session sid (conn_of name (ms_reg s1))
                          then map (\<lambda>c. if c = CHR 0x0A then CHR 0x0D else c) unescaped else unescaped)
              in send_and_report ev name (JObj [(''type'', JStr ''session.stdin''), (''session_id'', JStr sid), (''data'', JStr data)])
                   ok_report s1)))"

definition mcp_status_text :: "mcp_status \<Rightarrow> string" where
  "mcp_status_text st = (case st of McpRunning \<Rightarrow> ''running'' | McpExited \<Rightarrow> ''exited'')"

definition mcp_entry_value :: "mcp_entry \<Rightarrow> json" where
  "mcp_entry_value e =
     JObj (Ws_Messages.fields [(''seq'', num (me_seq e)), (''stream'', str (me_stream e)), (''data'', str (me_data e)),
       (''timestamp_ms'', num (me_timestamp_ms e))])"

definition read_report :: "u64 \<Rightarrow> read_result \<Rightarrow> (string \<times> json) list" where
  "read_report since r =
     [(''entries'', JArr (map mcp_entry_value (rd_entries r))),
      (''last_seq'', JNum (uint (if rd_entries r = [] then since else me_seq (last (rd_entries r))))),
      (''status'', JStr (mcp_status_text (rd_status r))),
      (''exit_code'', case rd_exit_code r of Some c \<Rightarrow> JNum c | None \<Rightarrow> JNull)]"

definition handle_session_read :: "'w tool_env \<Rightarrow> json \<Rightarrow> 'w mcp_state \<Rightarrow> tool_result \<times> 'w mcp_state" where
  "handle_session_read ev args =
     with_ws ev args (\<lambda>name s.
       case arg_str args ''session_id'' of
         None \<Rightarrow> (missing_param ''session_id'', s)
       | Some sid \<Rightarrow>
         (let since = unwrap_or 0 (arg_u64 args ''since'');
              (r, s1) = run_conn name (read_output sid since (te_wait ev)) (auto_ai ev name sid ''read'' s)
          in case r of
               Inr res \<Rightarrow> (tool_success (te_pretty ev) (JObj (read_report since res @ [(''dropped_entries'', JNum (uint (rd_dropped_count res)))])), s1)
             | Inl e \<Rightarrow> (tool_error e, s1)))"

definition handle_session_signal :: "'w tool_env \<Rightarrow> json \<Rightarrow> 'w mcp_state \<Rightarrow> tool_result \<times> 'w mcp_state" where
  "handle_session_signal ev args =
     with_ws ev args (\<lambda>name s.
       case arg_str args ''session_id'' of
         None \<Rightarrow> (missing_param ''session_id'', s)
       | Some sid \<Rightarrow>
         (case Option.bind (json_get args ''signal'') json_as_i64 of
            None \<Rightarrow> (missing_param ''signal'', s)
          | Some n \<Rightarrow>
              send_and_report ev name (JObj [(''type'', JStr ''session.signal''), (''session_id'', JStr sid), (''signal'', JNum n)]) ok_report s))"

definition handle_session_kill :: "'w tool_env \<Rightarrow> json \<Rightarrow> 'w mcp_state \<Rightarrow> tool_result \<times> 'w mcp_state" where
  "handle_session_kill ev args =
     with_ws ev args (\<lambda>name s.
       case arg_str args ''session_id'' of
         None \<Rightarrow> (missing_param ''session_id'', s)
       | Some sid \<Rightarrow> send_and_report ev name (JObj [(''type'', JStr ''session.kill''), (''session_id'', JStr sid)]) ok_report s)"

definition handle_session_resize :: "'w tool_env \<Rightarrow> json \<Rightarrow> 'w mcp_state \<Rightarrow> tool_result \<times> 'w mcp_state" where
  "handle_session_resize ev args =
     with_ws ev args (\<lambda>name s.
       case arg_str args ''session_id'' of
         None \<Rightarrow> (missing_param ''session_id'', s)
       | Some sid \<Rightarrow>
         (case arg_u64 args ''rows'' of
            None \<Rightarrow> (missing_param ''rows'', s)
          | Some rows \<Rightarrow>
             (case arg_u64 args ''cols'' of
                None \<Rightarrow> (missing_param ''cols'', s)
              | Some cols \<Rightarrow>
                 (let dims = [(''rows'', JNum (uint rows)), (''cols'', JNum (uint cols))]
                  in send_and_report ev name (JObj ([(''type'', JStr ''session.resize''), (''session_id'', JStr sid)] @ dims))
                       (JObj ((''ok'', JBool True) # dims)) s))))"

text \<open>Listing: one device, or every configured device, of which those that fail are skipped.\<close>

definition listed_sessions :: "string \<Rightarrow> json \<Rightarrow> (string \<times> json) list" where
  "listed_sessions device resp =
     (case json_as_array (json_index resp ''sessions'') of Some ss \<Rightarrow> map (Pair device) ss | None \<Rightarrow> [])"

definition list_one :: "'w tool_env \<Rightarrow> string \<Rightarrow> 'w mcp_state \<Rightarrow> (string + (string \<times> json) list) \<times> 'w mcp_state" where
  "list_one ev device s =
     (case run_conn device (list_sessions_remote (te_list_wait ev device)) s of
        (Inr resp, s1) \<Rightarrow> (Inr (listed_sessions device resp), s1)
      | (Inl e, s1) \<Rightarrow> (Inl e, s1))"

fun list_every :: "'w tool_env \<Rightarrow> (string, sctl_http) hmap \<Rightarrow> 'w mcp_state \<Rightarrow> (string \<times> json) list \<times> 'w mcp_state" where
  "list_every ev [] s = ([], s)"
| "list_every ev ((name, cl) # clients) s =
     (case get_or_connect (te_dial ev) name cl (ms_reg s) of
        (Inl _, g) \<Rightarrow> list_every ev clients (s\<lparr>ms_reg := g\<rparr>)
      | (Inr _, g) \<Rightarrow>
         (case list_one ev name (s\<lparr>ms_reg := g\<rparr>) of
            (Inl _, s1) \<Rightarrow> list_every ev clients s1
          | (Inr xs, s1) \<Rightarrow> (let (ys, s2) = list_every ev clients s1 in (xs @ ys, s2))))"

definition register_listed :: "(string \<times> json) list \<Rightarrow> device_registry \<Rightarrow> device_registry" where
  "register_listed xs g =
     fold (\<lambda>(device, v) g. case str_field v ''session_id'' of Some sid \<Rightarrow> register_session sid device g | None \<Rightarrow> g) xs g"

fun with_device :: "(string \<times> json) list \<Rightarrow> (unit, json list) outcome" where
  "with_device [] = Ok []"
| "with_device ((device, v) # xs) =
     (case json_set v ''device'' (JStr device) of
        Ok w \<Rightarrow> (case with_device xs of Ok ws \<Rightarrow> Ok (w # ws) | Err e \<Rightarrow> Err e | Panic m \<Rightarrow> Panic m)
      | Err e \<Rightarrow> Err e
      | Panic m \<Rightarrow> Panic m)"

definition listed_report :: "'w tool_env \<Rightarrow> (string \<times> json) list \<Rightarrow> 'w mcp_state \<Rightarrow> (unit, tool_result) outcome \<times> 'w mcp_state" where
  "listed_report ev xs s =
     (let s1 = s\<lparr>ms_reg := register_listed xs (ms_reg s)\<rparr> in
      case with_device xs of
        Ok ws \<Rightarrow> (Ok (tool_success (te_pretty ev) (JObj [(''sessions'', JArr ws), (''count'', JNum (int (length ws)))])), s1)
      | Err e \<Rightarrow> (Err e, s1)
      | Panic m \<Rightarrow> (Panic m, s1))"

definition handle_session_list :: "'w tool_env \<Rightarrow> json \<Rightarrow> 'w mcp_state \<Rightarrow> (unit, tool_result) outcome \<times> 'w mcp_state" where
  "handle_session_list ev args s =
     (case get_device_param args of
        Some device \<Rightarrow>
          (case get_ws_connection ev args s of
             (Inl r, s1) \<Rightarrow> (Ok r, s1)
           | (Inr _, s1) \<Rightarrow>
              (case list_one ev device s1 of
                 (Inl e, s2) \<Rightarrow> (Ok (tool_error e), s2)
               | (Inr xs, s2) \<Rightarrow> listed_report ev xs s2))
      | None \<Rightarrow> (let (xs, s1) = list_every ev (rg_clients (ms_reg s)) s in listed_report ev xs s1))"

definition exec_wait_report :: "exec_wait_result \<Rightarrow> json" where
  "exec_wait_report r =
     JObj [(''output'', JStr (ew_output r)), (''exit_code'', case ew_exit_code r of Some c \<Rightarrow> JNum c | None \<Rightarrow> JNull),
       (''timed_out'', JBool (ew_timed_out r))]"

definition handle_session_exec_wait :: "'w tool_env \<Rightarrow> json \<Rightarrow> 'w mcp_state \<Rightarrow> (unit, tool_result) outcome \<times> 'w mcp_state" where
  "handle_session_exec_wait ev args s =
     (case get_ws_connection ev args s of
        (Inl r, s1) \<Rightarrow> (Ok r, s1)
      | (Inr name, s1) \<Rightarrow>
         (case arg_str args ''session_id'' of
            None \<Rightarrow> (Ok (missing_param ''session_id''), s1)
          | Some sid \<Rightarrow>
             (case arg_str args ''command'' of
                None \<Rightarrow> (Ok (missing_param ''command''), s1)
              | Some command \<Rightarrow>
                 (let timeout = unat (unwrap_or 30000 (arg_u64 args ''timeout_ms''));
                      (r, s2) = run_conn name (exec_wait (te_nonce ev) (te_now ev) sid command timeout (te_rounds ev))
                        (auto_ai ev name sid ''write'' s1)
                  in case r of
                       None \<Rightarrow> (Err (), s2)
                     | Some (Inr w) \<Rightarrow> (Ok (tool_success (te_pretty ev) (exec_wait_report w)), s2)
                     | Some (Inl e) \<Rightarrow> (Ok (tool_error e), s2)))))"

definition handle_session_attach :: "'w tool_env \<Rightarrow> json \<Rightarrow> 'w mcp_state \<Rightarrow> tool_result \<times> 'w mcp_state" where
  "handle_session_attach ev args =
     with_ws ev args (\<lambda>name s.
       case arg_str args ''session_id'' of
         None \<Rightarrow> (missing_param ''session_id'', s)
       | Some sid \<Rightarrow>
         (let since = unwrap_or 0 (arg_u64 args ''since'') in
          case run_conn name (attach_session sid since (te_wait ev)) s of
            (Inr res, s1) \<Rightarrow> (tool_success (te_pretty ev) (JObj ((''session_id'', JStr sid) # read_report since res)), s1)
          | (Inl e, s1) \<Rightarrow> (tool_error e, s1)))"

definition handle_session_rename :: "'w tool_env \<Rightarrow> json \<Rightarrow> 'w mcp_state \<Rightarrow> tool_result \<times> 'w mcp_state" where
  "handle_session_rename ev args =
     with_ws ev args (\<lambda>conn s.
       case arg_str args ''session_id'' of
         None \<Rightarrow> (missing_param ''session_id'', s)
       | Some sid \<Rightarrow>
         (case arg_str args ''name'' of
            None \<Rightarrow> (missing_param ''name'', s)
          | Some name \<Rightarrow>
             (let fs = [(''session_id'', JStr sid), (''name'', JStr name)]
              in send_and_report ev conn (JObj ((''type'', JStr ''session.rename'') # fs)) (JObj ((''ok'', JBool True) # fs)) s)))"

definition handle_session_allow_ai :: "'w tool_env \<Rightarrow> json \<Rightarrow> 'w mcp_state \<Rightarrow> tool_result \<times> 'w mcp_state" where
  "handle_session_allow_ai ev args =
     with_ws ev args (\<lambda>name s.
       case arg_str args ''session_id'' of
         None \<Rightarrow> (missing_param ''session_id'', s)
       | Some sid \<Rightarrow>
         (case arg_bool args ''allowed'' of
            None \<Rightarrow> (missing_param ''allowed (bool)'', s)
          | Some allowed \<Rightarrow>
             (let fs = [(''session_id'', JStr sid), (''allowed'', JBool allowed)]
              in send_and_report ev name (JObj ((''type'', JStr ''session.allow_ai'') # fs)) (JObj ((''ok'', JBool True) # fs)) s)))"

definition ai_report :: "string \<Rightarrow> bool \<Rightarrow> json \<Rightarrow> json" where
  "ai_report sid working v =
     JObj (Ws_Messages.fields [(''ok'', flag True), (''session_id'', str (unwrap_or sid (str_field v ''session_id''))),
       (''working'', flag (unwrap_or working (bool_field v ''working''))), (''activity'', opt_str (str_field v ''activity'')),
       (''message'', opt_str (str_field v ''message''))])"

definition handle_session_ai_status :: "'w tool_env \<Rightarrow> json \<Rightarrow> 'w mcp_state \<Rightarrow> tool_result \<times> 'w mcp_state" where
  "handle_session_ai_status ev args =
     with_ws ev args (\<lambda>name s.
       case arg_str args ''session_id'' of
         None \<Rightarrow> (missing_param ''session_id'', s)
       | Some sid \<Rightarrow>
         (case arg_bool args ''working'' of
            None \<Rightarrow> (missing_param ''working (bool)'', s)
          | Some working \<Rightarrow>
             (case run_conn name (set_ai_status sid working (arg_str args ''activity'') (arg_str args ''message'') (te_wait ev)) s of
                (Inl e, s1) \<Rightarrow> (tool_error e, s1)
              | (Inr v, s1) \<Rightarrow>
                  (tool_success (te_pretty ev) (ai_report sid working v),
                   snd (run_conn name (\<lambda>c. ((), set_working sid working c)) s1)))))"

subsection \<open>Playbook tools\<close>

definition listed_param :: "string \<times> param_def \<Rightarrow> json" where
  "listed_param x =
     (let (k, d) = x in
      JObj (Ws_Messages.fields [(''name'', str k), (''type'', str (pd_type d)), (''description'', str (pd_description d)),
        (''default'', pd_default d), (''enum'', map_option JArr (pd_enum d))]))"

definition listed_item :: "playbook \<Rightarrow> json" where
  "listed_item pb =
     JObj [(''name'', JStr (pb_name pb)), (''tool_name'', JStr (tool_name pb)), (''description'', JStr (pb_description pb)),
       (''device'', JStr (pb_source_device pb)), (''path'', JStr (pb_source_path pb)), (''params'', JArr (map listed_param (pb_params pb)))]"

definition playbooks_report :: "'w tool_env \<Rightarrow> playbook list \<times> playbook_registry \<Rightarrow> 'w mcp_state \<Rightarrow> tool_result \<times> 'w mcp_state" where
  "playbooks_report ev x s =
     (tool_success (te_pretty ev) (JObj [(''playbooks'', JArr (map listed_item (fst x))), (''count'', JNum (int (length (fst x))))]),
      s\<lparr>ms_pb := snd x\<rparr>)"

text \<open>\<open>te_client\<close> has what a device answers to the requests of the registry.\<close>

definition clients_of :: "'w tool_env \<Rightarrow> 'w mcp_state \<Rightarrow> (string, sctl_client) hmap" where
  "clients_of ev s = map (\<lambda>(name, _). (name, te_client ev name)) (rg_clients (ms_reg s))"

definition handle_playbook_list :: "'w tool_env \<Rightarrow> json \<Rightarrow> 'w mcp_state \<Rightarrow> tool_result \<times> 'w mcp_state" where
  "handle_playbook_list ev args s =
     (case get_device_param args of
        Some dev \<Rightarrow>
          with_client ev args (\<lambda>_ s1. playbooks_report ev (refresh_device (te_yaml ev) dev (te_client ev dev) (ms_pb s1)) s1) s
      | None \<Rightarrow> playbooks_report ev (refresh_all (te_yaml ev) (clients_of ev s) [] (ms_pb s)) s)"

definition playbook_file :: "string \<Rightarrow> string \<Rightarrow> playbook_registry \<Rightarrow> string" where
  "playbook_file dev name pb = dir_for pb dev @ ''/'' @ name @ ''.md''"

definition content_report :: "string \<Rightarrow> string \<Rightarrow> string \<Rightarrow> json \<Rightarrow> json" where
  "content_report name dev path v =
     JObj [(''name'', JStr name), (''device'', JStr dev), (''path'', JStr path), (''content'', JStr (unwrap_or [] (arg_str v ''content'')))]"

definition handle_playbook_get :: "'w tool_env \<Rightarrow> json \<Rightarrow> 'w mcp_state \<Rightarrow> tool_result \<times> 'w mcp_state" where
  "handle_playbook_get ev args s =
     (case arg_str args ''name'' of
        None \<Rightarrow> (missing_param ''name'', s)
      | Some name \<Rightarrow>
         (case validate_name name of
            Inl e \<Rightarrow> (tool_error e, s)
          | Inr _ \<Rightarrow>
             (case resolve_with_name (te_file ev) (get_device_param args) (ms_reg s) of
                (Inl e, g) \<Rightarrow> (tool_error e, s\<lparr>ms_reg := g\<rparr>)
              | (Inr (dev, cl), g) \<Rightarrow>
                 (let s1 = s\<lparr>ms_reg := g\<rparr>; failed = (\<lambda>e. tool_error (''Cannot read playbook '' @ quoted name @ '': '' @ client_error_text e)) in
                  case client_get_playbook (te_net ev) cl name (ms_world s1) of
                    (Inr v, w) \<Rightarrow> (tool_success (te_pretty ev) (content_report name dev (unwrap_or [] (arg_str v ''path'')) v), s1\<lparr>ms_world := w\<rparr>)
                  | (Inl e, w) \<Rightarrow>
                      if \<not> is_not_found e then (failed e, s1\<lparr>ms_world := w\<rparr>)
                      else
                        (let path = playbook_file dev name (ms_pb s1) in
                         case client_file_read (te_net ev) (te_url_err ev) cl path False w of
                           (Inr v, w1) \<Rightarrow> (tool_success (te_pretty ev) (content_report name dev path v), s1\<lparr>ms_world := w1\<rparr>)
                         | (Inl e1, w1) \<Rightarrow> (failed e1, s1\<lparr>ms_world := w1\<rparr>))))))"

definition changed_report :: "'w tool_env \<Rightarrow> string \<Rightarrow> json \<Rightarrow> 'w mcp_state \<Rightarrow> tool_result \<times> 'w mcp_state" where
  "changed_report ev dev report s =
     ((tool_success (te_pretty ev) report)\<lparr>tr_tools_changed := True\<rparr>, s\<lparr>ms_pb := invalidate_device dev (ms_pb s)\<rparr>)"

definition delete_tool ::
    "'w tool_env \<Rightarrow> string \<Rightarrow> string \<Rightarrow> sctl_http \<Rightarrow> 'w mcp_state \<Rightarrow> tool_result \<times> 'w mcp_state" where
  "delete_tool ev name dev cl s =
     (let deleted = [(''action'', JStr ''deleted''), (''name'', JStr name), (''device'', JStr dev)];
          failed = (\<lambda>e. tool_error (''Cannot delete playbook '' @ quoted name @ '': '' @ client_error_text e)) in
      case client_delete_playbook (te_net ev) cl name (ms_world s) of
        (Inr _, w) \<Rightarrow> changed_report ev dev (JObj deleted) (s\<lparr>ms_world := w\<rparr>)
      | (Inl e, w) \<Rightarrow>
          if \<not> is_not_found e then (failed e, s\<lparr>ms_world := w\<rparr>)
          else
            (let path = playbook_file dev name (ms_pb s) in
             case client_exec (te_net ev) cl (''rm -f '' @ quoted path) None None None w of
               (Inr _, w1) \<Rightarrow> changed_report ev dev (JObj (deleted @ [(''path'', JStr path)])) (s\<lparr>ms_world := w1\<rparr>)
             | (Inl e1, w1) \<Rightarrow> (failed e1, s\<lparr>ms_world := w1\<rparr>)))"

definition save_tool ::
    "'w tool_env \<Rightarrow> string \<Rightarrow> string \<Rightarrow> string \<Rightarrow> sctl_http \<Rightarrow> 'w mcp_state \<Rightarrow> tool_result \<times> 'w mcp_state" where
  "save_tool ev name content dev cl s =
     (case mcp_parse_playbook (te_yaml ev) content dev (name @ ''.md'') of
        Inl e \<Rightarrow> (tool_error (''Invalid playbook: '' @ e), s)
      | Inr _ \<Rightarrow>
         (let saved = (\<lambda>path. JObj [(''action'', JStr ''saved''), (''name'', JStr name), (''device'', JStr dev), (''path'', JStr path)]);
              failed = (\<lambda>e. tool_error (''Cannot write playbook '' @ quoted name @ '': '' @ client_error_text e)) in
          case client_put_playbook (te_net ev) cl name content (ms_world s) of
            (Inr v, w) \<Rightarrow> changed_report ev dev (saved (unwrap_or [] (arg_str v ''path''))) (s\<lparr>ms_world := w\<rparr>)
          | (Inl e, w) \<Rightarrow>
              if \<not> is_not_found e then (failed e, s\<lparr>ms_world := w\<rparr>)
              else
                (let path = playbook_file dev name (ms_pb s) in
                 case client_file_write (te_net ev) cl path content None None (Some True) w of
                   (Inr _, w1) \<Rightarrow> changed_report ev dev (saved path) (s\<lparr>ms_world := w1\<rparr>)
                 | (Inl e1, w1) \<Rightarrow> (failed e1, s\<lparr>ms_world := w1\<rparr>))))"

definition handle_playbook_put :: "'w tool_env \<Rightarrow> json \<Rightarrow> 'w mcp_state \<Rightarrow> tool_result \<times> 'w mcp_state" where
  "handle_playbook_put ev args s =
     (case arg_str args ''name'' of
        None \<Rightarrow> (missing_param ''name'', s)
      | Some name \<Rightarrow>
         (case validate_name name of
            Inl e \<Rightarrow> (tool_error e, s)
          | Inr _ \<Rightarrow>
             (case arg_str args ''content'' of
                None \<Rightarrow> (missing_param ''content'', s)
              | Some content \<Rightarrow>
                 (case resolve_with_name (te_file ev) (get_device_param args) (ms_reg s) of
                    (Inl e, g) \<Rightarrow> (tool_error e, s\<lparr>ms_reg := g\<rparr>)
                  | (Inr (dev, cl), g) \<Rightarrow>
                      if content = [] then delete_tool ev name dev cl (s\<lparr>ms_reg := g\<rparr>)
                      else save_tool ev name content dev cl (s\<lparr>ms_reg := g\<rparr>)))))"

definition handle_playbook_exec :: "'w tool_env \<Rightarrow> string \<Rightarrow> json \<Rightarrow> 'w mcp_state \<Rightarrow> tool_result \<times> 'w mcp_state" where
  "handle_playbook_exec ev tool args s =
     (case find_by_tool_name tool (ms_pb s) of
        None \<Rightarrow> (tool_error (''Playbook tool '' @ quoted tool @ '' not found. Try calling playbook_list to refresh.''), s)
      | Some pb \<Rightarrow>
         (let device = unwrap_or (pb_source_device pb) (get_device_param args) in
          case resolve (te_file ev) (Some device) (ms_reg s) of
            (Inl e, g) \<Rightarrow> (tool_error e, s\<lparr>ms_reg := g\<rparr>)
          | (Inr cl, g) \<Rightarrow>
             (case render_script (te_show_json ev) pb args of
                Inl e \<Rightarrow> (tool_error e, s\<lparr>ms_reg := g\<rparr>)
              | Inr script \<Rightarrow>
                 (case client_exec (te_net ev) cl script (arg_u64 args ''timeout_ms'') None None (ms_world s) of
                    (Inr v, w) \<Rightarrow>
                      (tool_success (te_pretty ev) (JObj [(''playbook'', JStr (pb_name pb)), (''device'', JStr device), (''result'', v),
                         (''script'', JStr script)]), s\<lparr>ms_reg := g, ms_world := w\<rparr>)
                  | (Inl e, w) \<Rightarrow>
                      (tool_error (''Playbook '' @ quoted (pb_name pb) @ '' execution failed: '' @ client_error_text e
                         @ [CHR 0x0A, CHR 0x0A] @ ''Rendered script:'' @ [CHR 0x0A] @ script), s\<lparr>ms_reg := g, ms_world := w\<rparr>)))))"

subsection \<open>Dispatch\<close>

definition answered :: "tool_result \<times> 'w mcp_state \<Rightarrow> (unit, tool_result) outcome \<times> 'w mcp_state" where
  "answered x = (Ok (fst x), snd x)"

definition handle_tool_call :: "'w tool_env \<Rightarrow> string \<Rightarrow> json \<Rightarrow> 'w mcp_state \<Rightarrow> (unit, tool_result) outcome \<times> 'w mcp_state" where
  "handle_tool_call ev name args s =
     (if name = ''device_list'' then answered (handle_device_list ev s)
      else if name = ''device_health'' then answered (handle_device_health ev args s)
      else if name = ''device_info'' then answered (handle_device_info ev args s)
      else if name = ''device_exec'' then answered (handle_device_exec ev args s)
      else if name = ''device_exec_batch'' then answered (handle_device_exec_batch ev args s)
      else if name = ''device_file_read'' then answered (handle_device_file_read ev args s)
      else if name = ''device_file_write'' then answered (handle_device_file_write ev args s)
      else if name = ''device_file_delete'' then answered (handle_device_file_delete ev args s)
      else if name = ''device_activity'' then answered (handle_device_activity ev args s)
      else if name = ''device_gps'' then answered (handle_device_gps ev args s)
      else if name = ''session_start'' then answered (handle_session_start ev args s)
      else if name = ''session_exec'' then answered (handle_session_exec ev args s)
      else if name = ''session_send'' then answered (handle_session_send ev args s)
      else if name = ''session_read'' then answered (handle_session_read ev args s)
      else if name = ''session_signal'' then answered (handle_session_signal ev args s)
      else if name = ''session_kill'' then answered (handle_session_kill ev args s)
      else if name = ''session_resize'' then answered (handle_session_resize ev args s)
      else if name = ''session_list'' then handle_session_list ev args s
      else if name = ''session_exec_wait'' then handle_session_exec_wait ev args s
      else if name = ''session_attach'' then answered (handle_session_attach ev args s)
      else if name = ''session_rename'' then answered (handle_session_rename ev args s)
      else if name = ''session_allow_ai'' then answered (handle_session_allow_ai ev args s)
      else if name = ''session_ai_status'' then answered (handle_session_ai_status ev args s)
      else if name = ''playbook_list'' then answered (handle_playbook_list ev args s)
      else if name = ''playbook_get'' then answered (handle_playbook_get ev args s)
      else if name = ''playbook_put'' then answered (handle_playbook_put ev args s)
      else if starts_with ''pb_'' name then answered (handle_playbook_exec ev name args s)
      else (Ok (tool_error (''Unknown tool: '' @ name)), s))"

end
