(* ===== verification/Mcp_Server.thy ===== *)
theory Mcp_Server
  imports Mcp_Session_Tools
begin

text \<open>
  The JSON-RPC loop of the MCP server (\<open>mcp/src/mcp.rs\<close>). One step takes a line of standard input, or
  the end of a background load of playbooks, and gives the messages written to standard output. The JSON
  parser and the version of the crate are arguments.
\<close>

definition rpc_error :: "json \<Rightarrow> int \<Rightarrow> string \<Rightarrow> json" where
  "rpc_error i code message =
     JObj [(''jsonrpc'', JStr ''2.0''), (''id'', i), (''error'', JObj [(''code'', JNum code), (''message'', JStr message)])]"

definition list_changed :: json where
  "list_changed = JObj [(''jsonrpc'', JStr ''2.0''), (''method'', JStr ''notifications/tools/list_changed'')]"

definition rpc_result :: "json \<Rightarrow> json" where
  "rpc_result v = JObj [(''jsonrpc'', JStr ''2.0''), (''result'', v)]"

definition PROTOCOL_VERSION :: string where "PROTOCOL_VERSION = ''2024-11-05''"

definition handle_initialize :: "string \<Rightarrow> json" where
  "handle_initialize version =
     rpc_result (JObj [(''protocolVersion'', JStr PROTOCOL_VERSION),
       (''capabilities'', JObj [(''tools'', JObj [(''listChanged'', JBool True)])]),
       (''serverInfo'', JObj [(''name'', JStr ''mcp-sctl''), (''version'', JStr version)])])"

text \<open>The second result is whether a background load is started.\<close>

definition handle_tools_list :: "(string \<Rightarrow> string \<Rightarrow> string) \<Rightarrow> 'w tool_env \<Rightarrow> 'w mcp_state \<Rightarrow> json \<times> bool" where
  "handle_tools_list doc ev s =
     (rpc_result (JObj [(''tools'', JArr (all_tool_definitions doc (ms_pb s)))]), has_unloaded_devices (clients_of ev s) (ms_pb s))"

definition tool_call_result :: "tool_result \<Rightarrow> json" where
  "tool_call_result r =
     rpc_result (JObj ((''content'', JArr (tr_content r)) # (if tr_is_error r then [(''isError'', JBool True)] else [])))"

definition handle_tools_call :: "'w tool_env \<Rightarrow> json \<Rightarrow> 'w mcp_state \<Rightarrow> (unit, json \<times> bool) outcome \<times> 'w mcp_state" where
  "handle_tools_call ev request s =
     (let params = unwrap_or (JObj []) (json_get request ''params'');
          name = unwrap_or [] (arg_str params ''name'');
          args = unwrap_or (JObj []) (json_get params ''arguments'')
      in case handle_tool_call ev name args s of
           (Ok r, s1) \<Rightarrow> (Ok (tool_call_result r, tr_tools_changed r), s1)
         | (Err e, s1) \<Rightarrow> (Err e, s1)
         | (Panic m, s1) \<Rightarrow> (Panic m, s1))"

definition inject_id :: "json \<Rightarrow> json \<Rightarrow> json" where
  "inject_id response i = (case json_set response ''id'' i of Ok v \<Rightarrow> v | Err (_ :: unit) \<Rightarrow> response | Panic _ \<Rightarrow> response)"

record 'w mcp_server =
  mv_state :: "'w mcp_state"
  mv_loading :: nat

definition respond :: "json \<Rightarrow> (json \<times> bool) \<Rightarrow> json list" where
  "respond i x = inject_id (fst x) i # (if snd x then [list_changed] else [])"

definition mcp_line ::
    "(string \<Rightarrow> string + json) \<Rightarrow> string \<Rightarrow> (string \<Rightarrow> string \<Rightarrow> string) \<Rightarrow> 'w tool_env \<Rightarrow> string \<Rightarrow> 'w mcp_server
       \<Rightarrow> (unit, json list) outcome \<times> 'w mcp_server" where
  "mcp_line parse version doc ev line s =
     (if trim line = [] then (Ok [], s)
      else (case parse (trim line) of
              Inl e \<Rightarrow> (Ok [rpc_error JNull (- 32700) (''Parse error: '' @ e)], s)
            | Inr request \<Rightarrow>
               (case json_get request ''id'' of
                  None \<Rightarrow> (Ok [], s)
                | Some i \<Rightarrow>
                   (let meth = unwrap_or [] (arg_str request ''method'') in
                    if meth = ''initialize'' then (Ok (respond i (handle_initialize version, False)), s)
                    else if meth = ''tools/list''
                    then (let (v, load) = handle_tools_list doc ev (mv_state s)
                          in (Ok (respond i (v, False)), if load then s\<lparr>mv_loading := Suc (mv_loading s)\<rparr> else s))
                    else if meth = ''tools/call''
                    then (case handle_tools_call ev request (mv_state s) of
                            (Ok x, s1) \<Rightarrow> (Ok (respond i x), s\<lparr>mv_state := s1\<rparr>)
                          | (Err e, s1) \<Rightarrow> (Err e, s\<lparr>mv_state := s1\<rparr>)
                          | (Panic m, s1) \<Rightarrow> (Panic m, s\<lparr>mv_state := s1\<rparr>))
                    else if meth = ''ping''
                    then (Ok (respond i (JObj [(''jsonrpc'', JStr ''2.0''), (''id'', i), (''result'', JObj [])], False)), s)
                    else (Ok (respond i (rpc_error i (- 32601) (''Method not found: '' @ meth), False)), s)))))"

text \<open>A background load ends: the playbooks of the devices that had none are fetched and the client is told.\<close>

definition load_finished :: "'w tool_env \<Rightarrow> 'w mcp_server \<Rightarrow> json list \<times> 'w mcp_server" where
  "load_finished ev s =
     (if mv_loading s = 0 then ([], s)
      else
        (let st = mv_state s
         in ([list_changed], s\<lparr>mv_loading := mv_loading s - 1,
               mv_state := st\<lparr>ms_pb := ensure_loaded (te_yaml ev) (clients_of ev st) (ms_pb st)\<rparr>\<rparr>)))"

datatype 'w mcp_input = Line "'w tool_env" string | Loaded "'w tool_env"

text \<open>
  The run until the end of input: it stops early where a tool call panics or, with the frames given to it,
  does not return.
\<close>

fun run_stdio ::
    "(string \<Rightarrow> string + json) \<Rightarrow> string \<Rightarrow> (string \<Rightarrow> string \<Rightarrow> string) \<Rightarrow> 'w mcp_input list \<Rightarrow> 'w mcp_server
       \<Rightarrow> json list \<times> 'w mcp_server" where
  "run_stdio parse version doc [] s = ([], s)"
| "run_stdio parse version doc (Loaded ev # is) s =
     (let (out, s1) = load_finished ev s; (rest, s2) = run_stdio parse version doc is s1 in (out @ rest, s2))"
| "run_stdio parse version doc (Line ev line # is) s =
     (case mcp_line parse version doc ev line s of
        (Ok out, s1) \<Rightarrow> (let (rest, s2) = run_stdio parse version doc is s1 in (out @ rest, s2))
      | (Err _, s1) \<Rightarrow> ([], s1)
      | (Panic _, s1) \<Rightarrow> ([], s1))"

end
