(* ===== verification/Playbook_Props.thy ===== *)
theory Playbook_Props
  imports Mcp_Playbooks Files_Props
begin

text \<open>
  Properties of playbooks: the two parsers agree, a playbook that the device has stored becomes a tool of
  the MCP server, and rendering a script is simultaneous substitution, in whatever order the parameters
  are visited.
\<close>

subsection \<open>The parsers\<close>

lemma mcp_script_lines_eq: "mcp_script_lines b acc ls = script_lines b acc ls"
  by (induction b acc ls rule: script_lines.induct) (auto simp: Let_def)

lemma parsers_agree:
  assumes "parse_playbook yaml md = Inr (fm, script)"
  shows "mcp_parse_playbook yaml md dev path = Inr \<lparr>pb_name = fm_name fm, pb_description = fm_description fm,
    pb_params = map (\<lambda>(k, v). (k, param_def_of v)) (fm_params fm), pb_script = script, pb_source_device = dev,
    pb_source_path = path\<rparr>"
  using assms
  by (auto simp: parse_playbook_def split_frontmatter_def mcp_parse_playbook_def extract_script_block_def
      mcp_extract_script_block_def mcp_script_lines_eq trim_def Let_def split: sum.splits option.splits if_splits)

subsection \<open>Storing and publishing\<close>

lemma text_of_bytes: "text_of (bytes s) = s"
  by (metis bytes_text_of bytes_inject)

lemma fs_overwrite_reads:
  assumes "fs_overwrite env p data s = (Inr u, s')"
  shows "file_data (ff_fs s') p = Some data"
  using assms by (auto simp: fs_overwrite_def overwrite_node_def file_data_def Let_def split: option.splits if_splits)

lemma put_playbook_Inr:
  assumes "put_playbook yaml env dir hs name body s = (Inr v, s')"
  shows "validate_playbook_name name = Inr ()" "\<exists>r. parse_playbook yaml body = Inr r"
    "file_data (ff_fs s') (playbook_path dir name) = Some (bytes body)"
  using assms
  by (auto simp: put_playbook_def playbook_log_def Let_def split: sum.splits if_splits option.splits prod.splits
      dest!: fs_overwrite_reads)

lemma read_to_string_data:
  assumes "file_data fs p = Some (bytes body)" "utf8_valid (bytes body)" "fe_open_err env = None"
  shows "read_to_string env p fs = Inr body"
  using assms by (auto simp: read_to_string_def file_data_def text_of_bytes split: option.splits node.splits)

text \<open>The device as a client of its API sees it.\<close>

definition http_result :: "api_failure + json \<Rightarrow> client_error + json" where
  "http_result r = (case r of Inl (n, e) \<Rightarrow> Inl (Device n (err_message e)) | Inr v \<Rightarrow> Inr v)"

definition device_client ::
    "yaml \<Rightarrow> files_env \<Rightarrow> string \<Rightarrow> headers \<Rightarrow> (files_env \<times> string) list \<Rightarrow> files_state \<Rightarrow> sctl_client" where
  "device_client yaml env dir hs entries s =
     \<lparr>cl_list_playbooks = http_result (fst (list_playbooks yaml env dir hs (Inr entries) s)),
      cl_get_playbook = (\<lambda>name. http_result (fst (get_playbook yaml env dir hs name s))),
      cl_file_read = (\<lambda>_ _. Inl (Device 404 [])), cl_slow = False\<rparr>"

lemma map_filter_in: "x \<in> set xs \<Longrightarrow> f x = Some y \<Longrightarrow> y \<in> set (List.map_filter f xs)"
  by (force simp: List.map_filter_def)

lemma get_playbook_stored:
  assumes "validate_playbook_name name = Inr ()" "parse_playbook yaml body = Inr (fm, script)"
    "file_data (ff_fs s) (playbook_path dir name) = Some (bytes body)" "utf8_valid (bytes body)" "fe_open_err env = None"
  shows "\<exists>v. fst (get_playbook yaml env dir hs name s) = Inr v \<and> json_get v ''raw_content'' = Some (JStr body)
    \<and> json_get v ''script'' = Some (JStr script)"
  using assms read_to_string_data [OF assms(3-5)] by (simp add: get_playbook_def json_get_def)

lemma join_playbook:
  assumes "validate_playbook_name name = Inr ()" "dir \<noteq> []" "last dir \<noteq> CHR ''/''"
  shows "join_path dir (name @ ''.md'') = playbook_path dir name" "has_md_extension (name @ ''.md'')"
proof -
  have "name \<noteq> []" "list_all name_char name" using assms(1) by (auto simp: validate_playbook_name_def split: if_splits)
  then show "join_path dir (name @ ''.md'') = playbook_path dir name"
    using assms(2,3) by (cases name) (auto simp: join_path_def playbook_path_def starts_with_def name_char_def ascii_alphanumeric_def)
  from \<open>name \<noteq> []\<close> show "has_md_extension (name @ ''.md'')" by (cases name) (simp_all add: has_md_extension_def)
qed

text \<open>
  C28. A stored playbook becomes a tool. When the device has accepted a playbook under the name its
  frontmatter gives, an MCP server that refreshes the device over the API finds it among its playbooks
  with the same description, parameters and script, and the tool \<open>pb_<name>\<close> exists (it is a playbook
  of that name: another device may have one too).
\<close>

theorem playbook_published:
  assumes put: "put_playbook yaml env dir hs name body s = (Inr v, s')"
    and parsed: "parse_playbook yaml body = Inr (fm, script)" "fm_name fm = name" and utf8: "utf8_valid (bytes body)"
    and dir: "dir \<noteq> []" "last dir \<noteq> CHR ''/''"
    and listed: "(env', name @ ''.md'') \<in> set entries" "fe_open_err env' = None" "fe_open_err env'' = None"
  shows "\<exists>pbs g' pb. refresh_device yaml dev (device_client yaml env'' dir hs' entries s') g = (pbs, g')
    \<and> \<lparr>pb_name = name, pb_description = fm_description fm, pb_params = map (\<lambda>(k, v). (k, param_def_of v)) (fm_params fm),
         pb_script = script, pb_source_device = dev, pb_source_path = name\<rparr> \<in> set pbs
    \<and> find_by_tool_name (''pb_'' @ name) g' = Some pb \<and> pb_name pb = name"
proof -
  note p = put_playbook_Inr [OF put]
  let ?cl = "device_client yaml env'' dir hs' entries s'"
  let ?pb = "\<lparr>pb_name = name, pb_description = fm_description fm, pb_params = map (\<lambda>(k, v). (k, param_def_of v)) (fm_params fm),
         pb_script = script, pb_source_device = dev, pb_source_path = name\<rparr>"
  note j = join_playbook [OF p(1) dir]
  have item: "listed_playbook yaml dir (ff_fs s') (env', name @ ''.md'') = Some (playbook_summary fm)"
    using read_to_string_data [OF p(3) utf8 listed(2)] by (simp add: listed_playbook_def j parsed)
  obtain v where v: "cl_get_playbook ?cl name = Inr v" "json_get v ''raw_content'' = Some (JStr body)"
    using get_playbook_stored [OF p(1) parsed(1) p(3) utf8 listed(3), of hs'] by (auto simp: device_client_def http_result_def)
  have one: "fetch_one_rest yaml ?cl dev (playbook_summary fm) = Some ?pb"
    using v parsers_agree [OF parsed(1), of dev name] parsed(2)
    by (simp add: fetch_one_rest_def playbook_summary_def json_get_def json_as_str_def)
  let ?items = "List.map_filter (listed_playbook yaml dir (ff_fs s')) entries"
  have "cl_list_playbooks ?cl = Inr (JObj [(''playbooks'', JArr ?items)])"
    by (simp add: device_client_def list_playbooks_def http_result_def Let_def)
  then have fetch: "fetch_device_playbooks yaml ?cl d dev = List.map_filter (fetch_one_rest yaml ?cl dev) ?items" for d
    by (simp add: fetch_device_playbooks_def fetch_device_playbooks_rest_def json_array_or_empty_def json_get_def
        json_as_array_def unwrap_or_def)
  have mem: "?pb \<in> set (fetch_device_playbooks yaml ?cl d dev)" for d
    unfolding fetch using map_filter_in [where f = "listed_playbook yaml dir (ff_fs s')", OF listed(1) item]
    by (rule map_filter_in) (rule one)
  obtain pbs g' where r: "refresh_device yaml dev ?cl g = (pbs, g')" "pbs = fetch_device_playbooks yaml ?cl (dir_for g dev) dev"
      "g' = cache_playbooks dev pbs g" by (simp add: refresh_device_def Let_def)
  have "hm_get (pg_cache g') dev = Some \<lparr>dp_loaded = True, dp_playbooks = pbs\<rparr>" by (simp add: r(3) cache_playbooks_def hm_laws)
  then have "(dev, \<lparr>dp_loaded = True, dp_playbooks = pbs\<rparr>) \<in> set (pg_cache g')" by (auto simp: hm_get_def dest: map_of_SomeD)
  then have "?pb \<in> set (all_playbooks g')" using mem r(2) by (force simp: all_playbooks_def)
  then have "find_by_tool_name (''pb_'' @ name) g' \<noteq> None"
    by (auto simp: find_by_tool_name_def find_None_iff tool_name_def)
  then obtain pb where "find_by_tool_name (''pb_'' @ name) g' = Some pb" by auto
  moreover from this have "pb_name pb = name" by (auto simp: find_by_tool_name_def find_Some_iff tool_name_def)
  ultimately show ?thesis using r(1) mem unfolding r(2) by blast
qed

definition demo_yaml :: yaml where
  "demo_yaml y = Inr \<lparr>fm_name = ''up'', fm_description = ''d'', fm_params = []\<rparr>"

definition demo_markdown :: string where
  "demo_markdown = ''---'' @ [CHR 0x0A] @ ''---'' @ [CHR 0x0A] @ ''```sh'' @ [CHR 0x0A] @ ''ls'' @ [CHR 0x0A] @ ''```''"

lemma demo_parse: "parse_playbook demo_yaml demo_markdown = Inr (\<lparr>fm_name = ''up'', fm_description = ''d'', fm_params = []\<rparr>, ''ls'')"
  by code_simp

theorem playbook_published_witness:
  "\<exists>v s' g' pb. put_playbook demo_yaml ok_env ''/p'' Map.empty ''up'' demo_markdown sample_files = (Inr v, s')
    \<and> snd (refresh_device demo_yaml ''r1'' (device_client demo_yaml ok_env ''/p'' Map.empty [(ok_env, ''up.md'')] s')
         (with_defaults [])) = g'
    \<and> find_by_tool_name ''pb_up'' g' = Some pb"
proof -
  have "length demo_markdown \<le> MAX_PLAYBOOK_SIZE" by (simp add: demo_markdown_def MAX_PLAYBOOK_SIZE_def)
  moreover have "validate_playbook_name ''up'' = Inr ()" by code_simp
  ultimately obtain v s' where put: "put_playbook demo_yaml ok_env ''/p'' Map.empty ''up'' demo_markdown sample_files = (Inr v, s')"
    by (simp add: put_playbook_def demo_parse create_dir_all_def dirs_of_def fs_overwrite_def ok_env_def sample_files_def playbook_path_def
        visit_def Let_def)
  have u: "utf8_valid (bytes demo_markdown)" by code_simp
  show ?thesis
    using playbook_published [OF put demo_parse _ u, of ok_env "[(ok_env, ''up.md'')]" ok_env "''r1''" Map.empty "with_defaults []"] put
    by (auto simp: ok_env_def)
qed

subsection \<open>Rendering\<close>

text \<open>A script as text and placeholders.\<close>

datatype seg = Lit string | Hole string

fun seg_text :: "seg \<Rightarrow> string" where
  "seg_text (Lit t) = t"
| "seg_text (Hole n) = placeholder n"

definition template_text :: "seg list \<Rightarrow> string" where
  "template_text segs = concat (map seg_text segs)"

definition ok_name :: "string \<Rightarrow> bool" where
  "ok_name n \<longleftrightarrow> n \<noteq> [] \<and> CHR 0x7B \<notin> set n \<and> CHR 0x7D \<notin> set n"

fun ok_seg :: "seg \<Rightarrow> bool" where
  "ok_seg (Lit t) = (\<not> contains_str ''{{'' t \<and> (t = [] \<or> last t \<noteq> CHR 0x7B))"
| "ok_seg (Hole n) = ok_name n"

fun fill :: "(string \<Rightarrow> string option) \<Rightarrow> seg \<Rightarrow> seg" where
  "fill f (Lit t) = Lit t"
| "fill f (Hole n) = (case f n of Some v \<Rightarrow> Lit v | None \<Rightarrow> Hole n)"

lemma starts_with_Cons [simp]: "starts_with (p # ps) (c # s) \<longleftrightarrow> p = c \<and> starts_with ps s"
  "starts_with (p # ps) [] \<longleftrightarrow> False" "starts_with [] s"
  by (simp_all add: starts_with_def)

lemma starts_with_append [simp]: "starts_with p (p @ s)"
  by (simp add: starts_with_def)

lemma contains_append:
  "p \<noteq> [] \<Longrightarrow> contains_str p (t @ s) \<longleftrightarrow> (\<exists>i < length t. starts_with p (drop i t @ s)) \<or> contains_str p s"
  by (induction t) (auto simp: less_Suc_eq_0_disj)

lemma contains_drop: "i < length t \<Longrightarrow> starts_with p (drop i t) \<Longrightarrow> contains_str p t"
proof (induction t arbitrary: i)
  case (Cons c t)
  then show ?case by (cases i) auto
qed simp

lemma find_str_None: "p \<noteq> [] \<Longrightarrow> find_str p s = None \<longleftrightarrow> \<not> contains_str p s"
  by (induction s) auto

lemma replace_skip:
  "(\<And>i. i < length t \<Longrightarrow> \<not> starts_with p (drop i t @ s)) \<Longrightarrow> replace_str p r (t @ s) = t @ replace_str p r s"
proof (induction t)
  case (Cons c t)
  have "\<not> starts_with p (c # t @ s)" using Cons.prems [of 0] by simp
  moreover have "replace_str p r (t @ s) = t @ replace_str p r s" using Cons.prems [of "Suc _"] by (intro Cons.IH) auto
  ultimately show ?case by simp
qed simp

lemma replace_hit: "p \<noteq> [] \<Longrightarrow> replace_str p r (p @ s) = r @ replace_str p r s"
  by (cases p) auto

lemma no_start_lit:
  assumes "ok_seg (Lit t)" "i < length t" shows "\<not> starts_with ''{{'' (drop i t @ s)"
proof
  assume st: "starts_with ''{{'' (drop i t @ s)"
  obtain c u where d: "drop i t = c # u" using assms(2) by (metis Cons_nth_drop_Suc)
  show False
  proof (cases u)
    case Nil
    then have "last t = c" using d by (metis append_butlast_last_id assms(2) last_ConsL last_drop linorder_not_less)
    then show False using assms(1) assms(2) st d by auto
  next
    case (Cons c' u')
    then have "starts_with ''{{'' (drop i t)" using st d by auto
    then show False using assms contains_drop by auto
  qed
qed

lemma no_start_inside:
  assumes "ok_name n" "0 < i" "i < length (placeholder n)" shows "\<not> starts_with ''{{'' (drop i (placeholder n) @ s)"
proof -
  have "i < length n + 4" using assms(3) by (simp add: placeholder_def)
  then consider "i = 1" | "i = (i - 2) + 2" "i - 2 < length n" | "i = length n + 2" | "i = length n + 3"
    using assms(2) by linarith
  then show ?thesis
  proof cases
    case 1
    obtain c u where "n = c # u" using assms(1) by (cases n) (auto simp: ok_name_def)
    then show ?thesis using 1 assms(1) by (auto simp: placeholder_def ok_name_def)
  next
    case 2
    have "drop ((i - 2) + 2) (placeholder n) = n ! (i - 2) # drop (Suc (i - 2)) n @ ''}}''"
      using 2(2) by (simp add: placeholder_def Cons_nth_drop_Suc)
    moreover have "n ! (i - 2) \<noteq> CHR 0x7B" using assms(1) nth_mem [OF 2(2)] by (auto simp: ok_name_def)
    ultimately show ?thesis using 2(1) by auto
  qed (simp_all add: placeholder_def numeral_3_eq_3)
qed

lemma starts_with_open: "starts_with (placeholder n) s \<Longrightarrow> starts_with ''{{'' s"
  by (auto simp: starts_with_def placeholder_def strip_prefix_Some_iff)

lemma starts_name:
  "CHR 0x7D \<notin> set m \<Longrightarrow> CHR 0x7D \<notin> set n \<Longrightarrow> starts_with (m @ CHR 0x7D # u) (n @ CHR 0x7D # s) \<Longrightarrow> m = n"
proof (induction m arbitrary: n)
  case Nil
  then show ?case by (cases n) auto
next
  case (Cons c m)
  then show ?case by (cases n) auto
qed

lemma no_start_other:
  assumes "ok_name m" "ok_name n" "m \<noteq> n" "i < length (placeholder n)"
  shows "\<not> starts_with (placeholder m) (drop i (placeholder n) @ s)"
proof (cases i)
  case 0
  then show ?thesis
    using assms starts_name [of m n "''}''" "CHR 0x7D # s"] by (auto simp: placeholder_def ok_name_def)
next
  case (Suc j)
  then show ?thesis using assms no_start_inside [of n i s] starts_with_open by auto
qed

lemma placeholder_nonempty [simp]: "placeholder n \<noteq> []"
  by (simp add: placeholder_def)

lemma template_Cons: "template_text (x # xs) = seg_text x @ template_text xs" "template_text [] = []"
  by (simp_all add: template_text_def)

lemma no_start_seg:
  assumes "ok_seg x" "ok_name m" "x \<noteq> Hole m" "i < length (seg_text x)"
  shows "\<not> starts_with (placeholder m) (drop i (seg_text x) @ s)"
  using assms no_start_lit starts_with_open no_start_other by (cases x) (auto simp del: starts_with_Cons, blast)

lemma contains_template:
  "list_all ok_seg segs \<Longrightarrow> ok_name m \<Longrightarrow> contains_str (placeholder m) (template_text segs) \<longleftrightarrow> Hole m \<in> set segs"
proof (induction segs)
  case Nil
  then show ?case by (simp add: template_Cons placeholder_def)
next
  case (Cons x segs)
  show ?case
  proof (cases "x = Hole m")
    case True
    have "starts_with (placeholder m) (drop 0 (placeholder m) @ template_text segs)" by simp
    then show ?thesis using True by (auto simp: template_Cons contains_append placeholder_def simp del: drop_0)
  next
    case False
    then show ?thesis using Cons no_start_seg [of x m _ "template_text segs"] by (auto simp: template_Cons contains_append)
  qed
qed

lemma replace_template:
  "list_all ok_seg segs \<Longrightarrow> ok_name m \<Longrightarrow>
     replace_str (placeholder m) r (template_text segs) = template_text (map (fill (\<lambda>n. if n = m then Some r else None)) segs)"
proof (induction segs)
  case (Cons x segs)
  show ?case
  proof (cases "x = Hole m")
    case True
    then show ?thesis using Cons by (simp add: template_Cons replace_hit)
  next
    case False
    have "replace_str (placeholder m) r (seg_text x @ template_text segs)
        = seg_text x @ replace_str (placeholder m) r (template_text segs)"
      using Cons.prems False by (intro replace_skip no_start_seg) auto
    moreover have "seg_text (fill (\<lambda>n. if n = m then Some r else None) x) = seg_text x" using False by (cases x) auto
    ultimately show ?thesis using Cons by (simp add: template_Cons)
  qed
qed (simp add: template_Cons)

definition param_value :: "(json \<Rightarrow> string) \<Rightarrow> json \<Rightarrow> (string, param_def) hmap \<Rightarrow> string \<Rightarrow> string option" where
  "param_value show_json args ps n =
     Option.bind (map_of ps n) (\<lambda>d. map_option (rendered_value show_json)
       (if json_get args n \<in> {None, Some JNull} then pd_default d else json_get args n))"

lemma param_value_argument:
  "param_value show_json args ps n = Option.bind (map_of ps n) (\<lambda>d. map_option (rendered_value show_json) (argument args n d))"
  by (cases "map_of ps n") (auto simp: param_value_def argument_def split: option.split)

lemma contains_open: "contains_str ''{{'' t \<Longrightarrow> CHR 0x7B \<in> set t"
  by (induction t) auto

lemma ok_lit_value: "CHR 0x7B \<notin> set v \<Longrightarrow> ok_seg (Lit v)"
  using contains_open [of v] by (metis last_in_set ok_seg.simps(1))

lemma ok_fill: "ok_seg x \<Longrightarrow> (\<And>n v. f n = Some v \<Longrightarrow> ok_seg (Lit v)) \<Longrightarrow> ok_seg (fill f x)"
  by (cases x) (auto split: option.split)

lemma fill_Hole: "fill f x = Hole n \<longleftrightarrow> x = Hole n \<and> f n = None"
  by (cases x) (auto split: option.split)

lemma hole_fill: "Hole n \<in> set (map (fill f) segs) \<longleftrightarrow> Hole n \<in> set segs \<and> f n = None"
proof (induction segs)
  case (Cons x segs)
  have "Hole n \<in> set (map (fill f) (x # segs)) \<longleftrightarrow> fill f x = Hole n \<or> Hole n \<in> set (map (fill f) segs)" by auto
  then show ?case unfolding Cons.IH fill_Hole by auto
qed simp

lemma substitute_template:
  assumes "list_all ok_seg segs" "distinct (map fst ps)" "\<forall>n \<in> fst ` set ps. ok_name n"
    and "\<forall>n v. param_value sj args ps n = Some v \<longrightarrow> CHR 0x7B \<notin> set v"
  shows "case substitute sj args ps (template_text segs) of
      Inl e \<Rightarrow> \<exists>n. Hole n \<in> set segs \<and> param_value sj args ps n = None \<and> n \<in> fst ` set ps
    | Inr t \<Rightarrow> t = template_text (map (fill (param_value sj args ps)) segs)
        \<and> (\<forall>n \<in> fst ` set ps. Hole n \<in> set segs \<longrightarrow> param_value sj args ps n \<noteq> None)"
  using assms
proof (induction ps arbitrary: segs)
  case Nil
  have "fill (param_value sj args []) x = x" for x by (cases x) (simp_all add: param_value_argument)
  then show ?case by (simp add: map_idI)
next
  case (Cons p ps)
  obtain m d where p: "p = (m, d)" by (cases p)
  have m: "ok_name m" "m \<notin> fst ` set ps" using Cons.prems by (auto simp: p)
  have other: "param_value sj args (p # ps) n = param_value sj args ps n" if "n \<noteq> m" for n
    using that by (simp add: param_value_argument p)
  have none: "param_value sj args ps m = None"
    using m(2) map_of_eq_None_iff [of ps m] by (simp add: param_value_argument)
  have prems: "distinct (map fst ps)" "\<forall>n \<in> fst ` set ps. ok_name n" "\<forall>n v. param_value sj args ps n = Some v \<longrightarrow> CHR 0x7B \<notin> set v"
    using Cons.prems none other by (auto, metis option.distinct(1))
  show ?case
  proof (cases "Hole m \<in> set segs")
    case False
    then have c: "\<not> contains_str (placeholder m) (template_text segs)" using contains_template Cons.prems(1) m(1) by blast
    have "fill (param_value sj args (p # ps)) x = fill (param_value sj args ps) x" if "x \<in> set segs" for x
    proof (cases x)
      case (Hole n)
      then have "n \<noteq> m" using that False by auto
      then show ?thesis using Hole other by simp
    qed simp
    then have fill: "map (fill (param_value sj args (p # ps))) segs = map (fill (param_value sj args ps)) segs" by (rule map_cong [OF refl])
    have sub: "substitute sj args (p # ps) (template_text segs) = substitute sj args ps (template_text segs)" using c by (simp add: p)
    have pv: "param_value sj args (p # ps) n = param_value sj args ps n" if "Hole n \<in> set segs" for n
      using that False by (intro other) auto
    show ?thesis using Cons.IH [OF Cons.prems(1) prems] pv False unfolding fill sub
      by (auto simp: p split: sum.splits intro: imageI)
  next
    case True
    then have c: "contains_str (placeholder m) (template_text segs)" using contains_template Cons.prems(1) m(1) by blast
    show ?thesis
    proof (cases "argument args m d")
      case None
      then show ?thesis using c True by (auto simp: p param_value_argument)
    next
      case (Some v)
      let ?r = "rendered_value sj v" and ?segs = "map (fill (\<lambda>n. if n = m then Some (rendered_value sj v) else None)) segs"
      have pv: "param_value sj args (p # ps) m = Some ?r" using Some by (simp add: p param_value_argument)
      then have "CHR 0x7B \<notin> set ?r" using Cons.prems(4) by blast
      then have "ok_seg (fill (\<lambda>n. if n = m then Some ?r else None) x)" if "x \<in> set segs" for x
        using that Cons.prems(1) by (intro ok_fill ok_lit_value) (auto simp: list_all_iff split: if_splits)
      then have ok: "list_all ok_seg ?segs" by (simp add: list_all_iff)
      have f: "fill (param_value sj args ps) (fill (\<lambda>n. if n = m then Some ?r else None) x) = fill (param_value sj args (p # ps)) x" for x
        using pv other none by (cases x) auto
      have h: "Hole n \<in> set ?segs \<longleftrightarrow> n \<noteq> m \<and> Hole n \<in> set segs" for n
        unfolding hole_fill by auto
      have sub: "substitute sj args (p # ps) (template_text segs) = substitute sj args ps (template_text ?segs)"
        using c Some replace_template [OF Cons.prems(1) m(1)] by (simp add: p)
      have fill: "map (fill (param_value sj args ps)) ?segs = map (fill (param_value sj args (p # ps))) segs" by (simp add: f)
      have names: "n \<in> fst ` set (p # ps) \<longleftrightarrow> n = m \<or> n \<in> fst ` set ps" for n by (auto simp: p)
      from Cons.IH [OF ok prems] show ?thesis
      proof (cases "substitute sj args (p # ps) (template_text segs)")
        case (Inl e)
        then show ?thesis using Cons.IH [OF ok prems] other unfolding sub h names by (simp only: sum.case) metis
      next
        case (Inr t)
        then show ?thesis using Cons.IH [OF ok prems] other pv unfolding sub h names fill
          by (simp only: sum.case) (metis names option.distinct(1))
      qed
    qed
  qed
qed

lemma find_skip:
  "(\<And>i. i < length t \<Longrightarrow> \<not> starts_with p (drop i t @ s)) \<Longrightarrow> find_str p s = Some i \<Longrightarrow> find_str p (t @ s) = Some (length t + i)"
proof (induction t)
  case (Cons c t)
  have "\<not> starts_with p (c # t @ s)" using Cons.prems(1) [of 0] by simp
  moreover have "find_str p (t @ s) = Some (length t + i)" using Cons.prems(1) [of "Suc _"] Cons.prems(2) by (intro Cons.IH) auto
  ultimately show ?case by simp
qed simp

lemma contains_lits:
  "list_all ok_seg segs \<Longrightarrow> (\<And>n. Hole n \<notin> set segs) \<Longrightarrow> \<not> contains_str ''{{'' (template_text segs)"
proof (induction segs)
  case (Cons x segs)
  then obtain t where "x = Lit t" by (cases x) auto
  with Cons show ?case
    using no_start_lit [of t _ "template_text segs"] by (auto simp: template_Cons contains_append simp del: starts_with_Cons)
qed (simp add: template_Cons)

lemma undeclared_hole:
  assumes "list_all ok_seg segs" "Hole n \<in> set segs" shows "undeclared (template_text segs) \<noteq> None"
proof -
  have n: "ok_name n" using assms by (auto simp: list_all_iff)
  have c: "contains_str ''{{'' s \<Longrightarrow> \<exists>i. find_str ''{{'' s = Some i" for s using find_str_None [of "''{{''" s] by auto
  have "\<exists>i u. find_str ''{{'' (template_text segs) = Some i \<and> drop (i + 2) (template_text segs) = u \<and> contains_str ''}}'' u"
    using assms
  proof (induction segs)
    case (Cons x segs)
    show ?case
    proof (cases x)
      case (Hole m)
      have "contains_str ''}}'' (m @ ''}}'' @ template_text segs)"
        by (simp add: contains_append)
      then show ?thesis using Hole by (auto simp: template_Cons placeholder_def)
    next
      case (Lit t)
      then obtain i where i: "find_str ''{{'' (template_text segs) = Some i" "contains_str ''}}'' (drop (i + 2) (template_text segs))"
        using Cons by auto
      have "find_str ''{{'' (t @ template_text segs) = Some (length t + i)"
        using Cons.prems(1) Lit i(1) no_start_lit [of t _ "template_text segs"] find_skip by auto
      then show ?thesis using i(2) Lit by (simp add: template_Cons)
    qed
  qed simp
  moreover have "\<exists>z. find_str ''}}'' u = Some z" if "contains_str ''}}'' u" for u using that find_str_None [of "''}}''" u] by auto
  ultimately show ?thesis by (auto simp: undeclared_def Let_def)
qed

lemma rendering_cases:
  assumes script: "pb_script pb = template_text segs" "list_all ok_seg segs"
    and params: "distinct (map fst (pb_params pb))" "\<forall>n \<in> fst ` set (pb_params pb). ok_name n"
    and vals: "\<forall>n v. param_value sj args (pb_params pb) n = Some v \<longrightarrow> CHR 0x7B \<notin> set v"
  shows "case render_script sj pb args of
      Inl e \<Rightarrow> \<exists>n. Hole n \<in> set segs \<and> param_value sj args (pb_params pb) n = None
    | Inr t \<Rightarrow> t = template_text (map (fill (param_value sj args (pb_params pb))) segs)
        \<and> (\<forall>n. Hole n \<in> set segs \<longrightarrow> param_value sj args (pb_params pb) n \<noteq> None)"
proof -
  let ?pv = "param_value sj args (pb_params pb)"
  let ?segs = "map (fill ?pv) segs"
  have "ok_seg (fill ?pv x)" if "x \<in> set segs" for x
    using that script(2) vals by (intro ok_fill ok_lit_value) (auto simp: list_all_iff)
  then have ok: "list_all ok_seg ?segs" by (simp add: list_all_iff)
  have hole: "Hole n \<in> set ?segs \<longleftrightarrow> Hole n \<in> set segs \<and> ?pv n = None" for n
    by (rule hole_fill)
  note sub = substitute_template [OF script(2) params vals]
  show ?thesis
  proof (cases "substitute sj args (pb_params pb) (pb_script pb)")
    case (Inl e)
    then show ?thesis using sub by (auto simp: render_script_def script(1))
  next
    case (Inr t)
    then have t: "t = template_text ?segs" using sub by (simp add: script(1))
    have "undeclared t = None \<longleftrightarrow> (\<forall>n. Hole n \<notin> set ?segs)"
      using undeclared_hole [OF ok] contains_lits [OF ok] find_str_None [of "''{{''" t]
      by (auto simp: t undeclared_def simp del: set_map)
    then show ?thesis using Inr t hole by (auto simp: render_script_def simp del: set_map split: option.split)
  qed
qed

text \<open>
  C24. Rendering is simultaneous substitution. Take a script made of text and placeholders, and
  arguments whose values contain no opening brace. Whatever order the parameters are visited in, the
  script renders exactly when every placeholder names a declared parameter with an argument or a
  default, and the result is then the script with every placeholder replaced by that value; otherwise
  rendering is an error.
\<close>

theorem render_substitutes:
  assumes script: "pb_script pb = template_text segs" "list_all ok_seg segs"
    and params: "distinct (map fst (pb_params pb))" "\<forall>n \<in> fst ` set (pb_params pb). ok_name n"
    and vals: "\<forall>n v. param_value sj args (pb_params pb) n = Some v \<longrightarrow> CHR 0x7B \<notin> set v"
  shows "case render_script sj pb args of
      Inl e \<Rightarrow> \<exists>n. Hole n \<in> set segs \<and> param_value sj args (pb_params pb) n = None
    | Inr t \<Rightarrow> t = template_text (map (fill (param_value sj args (pb_params pb))) segs)
        \<and> (\<forall>n. Hole n \<in> set segs \<longrightarrow> param_value sj args (pb_params pb) n \<noteq> None)"
  by (rule rendering_cases [OF assms])

definition ping_playbook :: playbook where
  "ping_playbook = \<lparr>pb_name = ''ping'', pb_description = ''d'',
     pb_params = [(''n'', \<lparr>pd_type = ''integer'', pd_description = [], pd_default = Some (JNum 3), pd_enum = None\<rparr>),
       (''host'', \<lparr>pd_type = ''string'', pd_description = [], pd_default = None, pd_enum = None\<rparr>)],
     pb_script = ''ping -c {{n}} {{host}}'', pb_source_device = ''r1'', pb_source_path = ''ping''\<rparr>"

theorem render_substitutes_witness:
  "render_script (\<lambda>_. []) ping_playbook (JObj [(''host'', JStr ''gw'')]) = Inr ''ping -c 3 gw''
   \<and> (case render_script (\<lambda>_. []) ping_playbook (JObj [(''host'', JStr ''gw'')]) of
        Inl e \<Rightarrow> False
      | Inr t \<Rightarrow> t = template_text (map (fill (param_value (\<lambda>_. []) (JObj [(''host'', JStr ''gw'')]) (pb_params ping_playbook)))
          [Lit ''ping -c '', Hole ''n'', Lit '' '', Hole ''host'']))"
proof -
  let ?args = "JObj [(''host'', JStr ''gw'')]"
  have pv: "param_value (\<lambda>_. []) ?args (pb_params ping_playbook) m
      = (if m = ''n'' then Some ''3'' else if m = ''host'' then Some ''gw'' else None)" for m
  proof -
    have "show_int 3 = ''3''" by code_simp
    then show ?thesis
      by (simp add: param_value_argument ping_playbook_def argument_def json_get_def rendered_value_def)
  qed
  have r: "render_script (\<lambda>_. []) ping_playbook ?args = Inr ''ping -c 3 gw''" by code_simp
  have "pb_script ping_playbook = template_text [Lit ''ping -c '', Hole ''n'', Lit '' '', Hole ''host'']" by code_simp
  moreover have "list_all ok_seg [Lit ''ping -c '', Hole ''n'', Lit '' '', Hole ''host'']" by code_simp
  moreover have "distinct (map fst (pb_params ping_playbook))" by code_simp
  moreover have "\<forall>n \<in> fst ` set (pb_params ping_playbook). ok_name n" by code_simp
  moreover have "\<forall>n v. param_value (\<lambda>_. []) ?args (pb_params ping_playbook) n = Some v \<longrightarrow> CHR 0x7B \<notin> set v"
    by (auto simp: pv split: if_splits)
  ultimately show ?thesis
    using render_substitutes [of ping_playbook "[Lit ''ping -c '', Hole ''n'', Lit '' '', Hole ''host'']" "\<lambda>_. []" ?args] r by simp
qed

subsection \<open>What the code does not promise\<close>

text \<open>
  A value that itself contains a placeholder is substituted again or not, depending on which parameter the
  hash map yields first.
\<close>

lemma render_depends_on_order:
  "let d = \<lparr>pd_type = ''string'', pd_description = [], pd_default = None, pd_enum = None\<rparr>;
       args = JObj [(''a'', JStr ''{{b}}''), (''b'', JStr ''x'')]
   in substitute (\<lambda>_. []) args [(''a'', d), (''b'', d)] ''{{a}}'' = Inr ''x''
    \<and> substitute (\<lambda>_. []) args [(''b'', d), (''a'', d)] ''{{a}}'' = Inr ''{{b}}''"
  by code_simp

text \<open>
  A playbook may be stored under a name its frontmatter does not give. The listing then shows a name that
  cannot be read, and the MCP server does not see the playbook.
\<close>

lemma misnamed_playbook_lost:
  assumes "fs ''/p/down.md'' = Some (FileNode (bytes demo_markdown) None 0)" "fs ''/p/up.md'' = None"
  shows "fst (list_playbooks demo_yaml ok_env ''/p'' Map.empty (Inr [(ok_env, ''down.md'')]) (s\<lparr>ff_fs := fs\<rparr>))
      = Inr (JObj [(''playbooks'', JArr [JObj [(''name'', JStr ''up''), (''description'', JStr ''d''), (''params'', JArr [])]])])"
    and "fetch_device_playbooks demo_yaml (device_client demo_yaml ok_env ''/p'' Map.empty [(ok_env, ''down.md'')] (s\<lparr>ff_fs := fs\<rparr>)) ''/p'' dev = []"
proof -
  have u: "utf8_valid (bytes demo_markdown)" by code_simp
  have f: "file_data fs ''/p/down.md'' = Some (bytes demo_markdown)" by (simp add: assms file_data_def)
  have "read_to_string ok_env ''/p/down.md'' fs = Inr demo_markdown" by (rule read_to_string_data [OF f u]) (simp add: ok_env_def)
  moreover have j: "join_path ''/p'' ''down.md'' = ''/p/down.md''" "has_md_extension ''down.md''" by code_simp+
  ultimately show l: "fst (list_playbooks demo_yaml ok_env ''/p'' Map.empty (Inr [(ok_env, ''down.md'')]) (s\<lparr>ff_fs := fs\<rparr>))
      = Inr (JObj [(''playbooks'', JArr [JObj [(''name'', JStr ''up''), (''description'', JStr ''d''), (''params'', JArr [])]])])"
    by (simp add: list_playbooks_def listed_playbook_def demo_parse playbook_summary_def List.map_filter_def)
  have v: "validate_playbook_name ''up'' = Inr ()" "playbook_path ''/p'' ''up'' = ''/p/up.md''" by code_simp+
  have "fst (get_playbook demo_yaml ok_env ''/p'' Map.empty ''up'' (s\<lparr>ff_fs := fs\<rparr>))
      = Inl (playbook_missing ''read'' ''up'' NotFound)"
    using assms(2) by (simp add: get_playbook_def v read_to_string_def ok_env_def)
  with l show "fetch_device_playbooks demo_yaml (device_client demo_yaml ok_env ''/p'' Map.empty [(ok_env, ''down.md'')] (s\<lparr>ff_fs := fs\<rparr>)) ''/p'' dev = []"
    by (simp add: fetch_device_playbooks_def fetch_device_playbooks_rest_def device_client_def http_result_def playbook_missing_def
        api_fail_def json_array_or_empty_def json_get_def json_as_array_def json_as_str_def unwrap_or_def fetch_one_rest_def List.map_filter_def)
qed

text \<open>
  A device that does not answer in time is remembered as a device without playbooks: it is not asked again
  until somebody refreshes or invalidates it.
\<close>

lemma slow_device_hidden:
  assumes "hm_get (pg_cache g) dev = None" "cl_slow cl"
  shows "is_loaded (ensure_loaded yaml [(dev, cl)] g) dev"
    and "ensure_loaded yaml [(dev, cl')] (ensure_loaded yaml [(dev, cl)] g) = ensure_loaded yaml [(dev, cl)] g"
    and "hm_get (pg_cache (ensure_loaded yaml [(dev, cl)] g)) dev = Some \<lparr>dp_loaded = True, dp_playbooks = []\<rparr>"
  using assms by (simp_all add: ensure_loaded_def is_loaded_def cache_playbooks_def hm_laws Let_def)

text \<open>
  Writing a playbook is not atomic, unlike writing a file: the truncated playbook is visible before the
  new content is.
\<close>

lemma playbook_write_truncates:
  assumes "fs_overwrite env p data s = (Inr u, s')"
  shows "\<exists>fs \<in> set (ff_trace s'). file_data fs p = Some []"
proof -
  have keep: "set (ff_trace s0) \<subseteq> set (ff_trace (fold (\<lambda>n. visit (overwrite_node env p (take n data))) ns s0))" for ns s0
  proof (induction ns arbitrary: s0)
    case (Cons n ns)
    have "set (ff_trace s0) \<subseteq> set (ff_trace (visit (overwrite_node env p (take n data)) s0))" by (auto simp: visit_def)
    with Cons show ?case by fastforce
  qed simp
  let ?s0 = "visit (overwrite_node env p (take 0 data)) s"
  let ?s1 = "fold (\<lambda>n. visit (overwrite_node env p (take n data))) (fe_progress env) ?s0"
  have "\<exists>fs \<in> set (ff_trace ?s0). file_data fs p = Some []" by (simp add: visit_def overwrite_node_def file_data_def)
  with keep [of ?s0 "fe_progress env"] have "\<exists>fs \<in> set (ff_trace ?s1). file_data fs p = Some []" by blast
  moreover have "s' = visit (overwrite_node env p data) ?s1"
    using assms by (simp add: fs_overwrite_def Let_def split: option.splits if_splits)
  ultimately show ?thesis by (auto simp: visit_def [of "overwrite_node env p data"])
qed

end
