(* ===== verification/Mcp_Ws_Props.thy ===== *)
theory Mcp_Ws_Props
  imports Mcp_Ws Playbook_Props
begin

text \<open>
  Properties of the MCP server's WebSocket connection: the buffers stay bounded, a reader gets the output
  of a session completely and in order, and a command that is executed with an end marker gives back its
  output and exit code however its output is cut into messages.
\<close>

subsection \<open>The wire format\<close>

definition mcp_entry_of :: "output_entry \<Rightarrow> mcp_entry" where
  "mcp_entry_of e =
     \<lparr>me_seq = oe_seq e, me_stream = stream_as_str (oe_stream e), me_data = oe_data e, me_timestamp_ms = oe_timestamp_ms e\<rparr>"

lemma json_as_u64_word: "json_as_u64 (JNum (uint w)) = Some w" for w :: u64
proof -
  have "uint w < 2 ^ 64" using uint_lt2p [of w] by simp
  then show ?thesis by (simp add: json_as_u64_def)
qed

lemma parse_output_message: "parse_output_entry (entry_to_ws_message sid e) = Some (sid, mcp_entry_of e)"
  by (cases "oe_stream e")
    (simp_all add: parse_output_entry_def entry_to_ws_message_def output_message_def str_field_def u64_field_def json_simps
      unwrap_or_def json_as_u64_word mcp_entry_of_def)

lemma dispatch_output:
  "dispatch_message (entry_to_ws_message sid e) c = on_session sid (buffer_push (mcp_entry_of e)) c"
proof -
  have "str_field (entry_to_ws_message sid e) ''type'' = Some (''session.'' @ stream_as_str (oe_stream e))"
    by (simp add: entry_to_ws_message_def output_message_def str_field_def json_simps)
  moreover have "''session.'' @ stream_as_str (oe_stream e) \<in> {''session.stdout'', ''session.stderr'', ''session.system''}"
    by (cases "oe_stream e") simp_all
  ultimately show ?thesis
    unfolding dispatch_message_def Let_def parse_output_message by (simp add: unwrap_or_def)
qed

subsection \<open>Buffers\<close>

definition buffer_ok :: "session_buffer \<Rightarrow> bool" where
  "buffer_ok b \<longleftrightarrow> length (sb_entries b) \<le> MAX_BUFFER_ENTRIES \<and> (\<forall>e \<in> set (sb_entries b). me_seq e \<le> sb_last_seq b)"

lemma sb_last_seq_push: "sb_last_seq (buffer_push e b) = max (sb_last_seq b) (me_seq e)"
  by (auto simp: buffer_push_def Let_def max_def)

lemma sb_entries_push:
  "sb_entries (buffer_push e b)
     = (if length (sb_entries b) \<ge> MAX_BUFFER_ENTRIES then tl (sb_entries b) else sb_entries b) @ [e]"
  by (simp add: buffer_push_def Let_def)

lemma sb_push_other [simp]:
  "sb_status (buffer_push e b) = sb_status b" "sb_exit_code (buffer_push e b) = sb_exit_code b"
  "sb_is_pty (buffer_push e b) = sb_is_pty b"
  by (simp_all add: buffer_push_def Let_def)

lemma buffer_ok_push: "buffer_ok b \<Longrightarrow> buffer_ok (buffer_push e b)"
  by (auto simp: buffer_ok_def sb_last_seq_push sb_entries_push MAX_BUFFER_ENTRIES_def le_max_iff_disj dest: list.set_sel(2) [rotated] split: if_splits)

lemma buffer_ok_cong:
  "sb_entries b' = sb_entries b \<Longrightarrow> sb_last_seq b' = sb_last_seq b \<Longrightarrow> buffer_ok b \<Longrightarrow> buffer_ok b'"
  by (simp add: buffer_ok_def)

lemma buffer_ok_new [simp]: "buffer_ok new_session_buffer"
  by (simp add: buffer_ok_def new_session_buffer_def)

lemma buffer_ok_exited: "buffer_ok b \<Longrightarrow> buffer_ok (on_exited msg b)"
  unfolding on_exited_def Let_def by (intro buffer_ok_push) (simp add: buffer_ok_def)

lemma buffer_ok_attached: "buffer_ok b \<Longrightarrow> buffer_ok (on_attached msg es b)"
proof -
  have fold: "buffer_ok b \<Longrightarrow> buffer_ok (fold (\<lambda>e b. case parse_output_entry e of None \<Rightarrow> b | Some (_, x) \<Rightarrow> buffer_push x b) es b)" for b
    by (induction es arbitrary: b) (auto intro: buffer_ok_push split: option.split)
  assume b: "buffer_ok b"
  let ?b1 = "case str_field msg ''status'' of None \<Rightarrow> b
    | Some st \<Rightarrow> if st = ''exited'' then b\<lparr>sb_status := McpExited, sb_exit_code := exit_code_of msg\<rparr> else b\<lparr>sb_status := McpRunning\<rparr>"
  have "buffer_ok ?b1" using b by (auto simp: buffer_ok_def split: option.split)
  then have "buffer_ok (case bool_field msg ''pty'' of None \<Rightarrow> ?b1 | Some p \<Rightarrow> ?b1\<lparr>sb_is_pty := p\<rparr>)"
    by (auto simp: buffer_ok_def split: option.splits)
  from fold [OF this] show ?thesis unfolding on_attached_def Let_def by (rule buffer_ok_cong [rotated 2]) simp_all
qed

text \<open>The connection: every buffer is bounded and its cursor covers its entries.\<close>

definition conn_ok :: "device_ws \<Rightarrow> bool" where
  "conn_ok c \<longleftrightarrow> hm_all buffer_ok (dw_sessions c)"

lemma conn_ok_on_session: "conn_ok c \<Longrightarrow> (\<And>b. buffer_ok b \<Longrightarrow> buffer_ok (f b)) \<Longrightarrow> conn_ok (on_session sid f c)"
  by (simp add: conn_ok_def on_session_def hm_all_modify)

lemma conn_ok_sessions: "dw_sessions c' = dw_sessions c \<Longrightarrow> conn_ok c \<Longrightarrow> conn_ok c'"
  by (simp add: conn_ok_def)

lemma conn_ok_if: "conn_ok a \<Longrightarrow> conn_ok b \<Longrightarrow> conn_ok (if P then a else b)"
  by simp

lemma conn_ok_option: "conn_ok a \<Longrightarrow> (\<And>x. conn_ok (f x)) \<Longrightarrow> conn_ok (case v of None \<Rightarrow> a | Some x \<Rightarrow> f x)"
  by (cases v) simp_all

lemma conn_ok_pair: "(\<And>x y. conn_ok (f x y)) \<Longrightarrow> conn_ok (case v of (x, y) \<Rightarrow> f x y)"
  by (cases v) simp

lemma conn_ok_updates:
  "conn_ok c \<Longrightarrow> conn_ok (set_working sid w c)" "conn_ok c \<Longrightarrow> conn_ok (ai_result msg c)"
  "conn_ok c \<Longrightarrow> conn_ok (start_result msg c)" "conn_ok c \<Longrightarrow> conn_ok (c\<lparr>dw_list_result := x, dw_list_notify := n\<rparr>)"
  by (simp_all add: conn_ok_def set_working_def ai_result_def start_result_def)

lemma conn_ok_marks:
  "conn_ok c \<Longrightarrow> conn_ok (on_session sid on_session_error c)"
  "conn_ok c \<Longrightarrow> conn_ok (on_session sid (\<lambda>b. b\<lparr>sb_status := McpExited, sb_notify := Suc (sb_notify b)\<rparr>) c)"
  by (rule conn_ok_on_session, assumption, simp add: buffer_ok_def on_session_error_def)+

lemma conn_ok_pushes:
  "conn_ok c \<Longrightarrow> conn_ok (on_session sid (buffer_push e) c)"
  "conn_ok c \<Longrightarrow> conn_ok (on_session sid (\<lambda>b. buffer_push (f b) b) c)"
  "conn_ok c \<Longrightarrow> conn_ok (on_session sid (on_exited msg) c)" "conn_ok c \<Longrightarrow> conn_ok (on_session sid (on_attached msg es) c)"
  by (rule conn_ok_on_session, assumption, erule buffer_ok_push buffer_ok_exited buffer_ok_attached)+

lemma conn_ok_dispatch: "conn_ok c \<Longrightarrow> conn_ok (dispatch_message msg c)"
  unfolding dispatch_message_def on_error_def on_gap_def Let_def
  by (intro conn_ok_if conn_ok_option conn_ok_pair conn_ok_updates conn_ok_marks conn_ok_pushes)

lemma conn_ok_dispatch_all: "conn_ok c \<Longrightarrow> conn_ok (dispatch_all msgs c)"
  unfolding dispatch_all_def by (induction msgs arbitrary: c) (simp_all add: conn_ok_dispatch)

text \<open>What drives a connection: frames of the socket, and the calls of the tools.\<close>

datatype ws_op =
    OnFrame ws_event
  | CallStart start_args "json list" "json list"
  | CallAiStatus string bool "string option" "string option" "json list"
  | CallList "json list"
  | CallRead string u64 "json list"
  | CallAttach string u64 "json list"
  | CallExecWait string instant string string nat "wait_round list"

fun ws_op_step :: "ws_op \<Rightarrow> device_ws \<Rightarrow> device_ws" where
  "ws_op_step (OnFrame ev) c = ws_io_step ev c"
| "ws_op_step (CallStart a wait before) c = snd (start_session a wait before c)"
| "ws_op_step (CallAiStatus sid w act m wait) c = snd (set_ai_status sid w act m wait c)"
| "ws_op_step (CallList wait) c = snd (list_sessions_remote wait c)"
| "ws_op_step (CallRead sid since wait) c = snd (read_output sid since wait c)"
| "ws_op_step (CallAttach sid since wait) c = snd (attach_session sid since wait c)"
| "ws_op_step (CallExecWait nonce now sid cmd t rounds) c = snd (exec_wait nonce now sid cmd t rounds c)"

lemma conn_ok_send: "conn_ok c \<Longrightarrow> conn_ok (snd (conn_send msg c))"
  by (simp add: conn_send_def conn_ok_def)

lemma conn_ok_sendD: "conn_send msg c = (r, c1) \<Longrightarrow> conn_ok c \<Longrightarrow> conn_ok c1"
  using conn_ok_send [of c msg] by simp

lemma conn_ok_results:
  "conn_ok (c\<lparr>dw_start_result := x\<rparr>) = conn_ok c" "conn_ok (c\<lparr>dw_ai_status_result := x\<rparr>) = conn_ok c"
  "conn_ok (c\<lparr>dw_list_result := x\<rparr>) = conn_ok c"
  by (simp_all add: conn_ok_def)

lemma conn_ok_insert: "conn_ok c \<Longrightarrow> buffer_ok b \<Longrightarrow> conn_ok (c\<lparr>dw_sessions := hm_insert sid b (dw_sessions c)\<rparr>)"
  by (simp add: conn_ok_def hm_all_insert)

lemma conn_ok_read: "conn_ok c \<Longrightarrow> conn_ok (snd (read_output sid since wait c))"
  by (simp add: read_output_def Let_def conn_ok_dispatch_all split: option.split)

lemma conn_ok_wait_loop: "conn_ok c \<Longrightarrow> conn_ok (snd (exec_wait_loop nonce sid deadline acc l gone rs c))"
proof (induction rs arbitrary: acc l gone c)
  case (Cons r rs)
  have "conn_ok (snd (read_output sid l (wr_wait r) c))" using Cons.prems by (rule conn_ok_read)
  then show ?case using Cons by (auto simp: Let_def split: prod.split sum.split option.split)
qed simp

lemma conn_ok_step: "conn_ok c \<Longrightarrow> conn_ok (ws_op_step op c)"
proof (induction op c rule: ws_op_step.induct)
  case (1 ev c)
  have "conn_ok (c\<lparr>dw_sent := x, dw_connected := True\<rparr>)" "conn_ok (c\<lparr>dw_connected := False\<rparr>)" for x using 1 by (simp_all add: conn_ok_def)
  with 1 show ?case by (auto simp: ws_io_step_def conn_ok_dispatch split: ws_event.split option.split)
next
  case (2 a wait before c)
  have "buffer_ok (new_session_buffer\<lparr>sb_is_pty := p\<rparr>)" for p by (simp add: buffer_ok_def new_session_buffer_def)
  with 2 show ?case
    by (auto simp: start_session_def conn_ok_results Let_def split: prod.split sum.split option.split
        dest!: conn_ok_sendD intro!: conn_ok_dispatch_all conn_ok_insert)
next
  case (6 sid since wait c)
  have "buffer_ok (unwrap_or new_session_buffer (hm_get (dw_sessions c) sid))"
    using 6 hm_all_get [of buffer_ok "dw_sessions c" sid] by (cases "hm_get (dw_sessions c) sid") (auto simp: unwrap_or_def conn_ok_def)
  then have "buffer_ok ((unwrap_or new_session_buffer (hm_get (dw_sessions c) sid))\<lparr>sb_attached := False\<rparr>)" by (simp add: buffer_ok_def)
  from conn_ok_insert [OF 6 this] show ?case
    by (auto simp: attach_session_def Let_def split: prod.split sum.split option.split dest!: conn_ok_sendD intro: conn_ok_dispatch_all)
next
  case (7 nonce now sid cmd t rounds c)
  then show ?case
    by (auto simp: exec_wait_def split: option.split prod.split sum.split dest!: conn_ok_sendD intro: conn_ok_wait_loop)
qed (auto simp: set_ai_status_def list_sessions_remote_def conn_ok_read conn_ok_results Let_def
    split: prod.split sum.split option.split dest!: conn_ok_sendD intro!: conn_ok_dispatch_all)

interpretation mcp: invariant_machine ws_op_step "\<lambda>_ _. True" conn_ok
  by unfold_locales (rule conn_ok_step)

text \<open>
  C29. The local buffers of the MCP server are bounded. Whatever frames arrive, in whatever order, and
  whatever the tools do, no session buffer of a connection has more than 5000 entries, and the cursor from
  which a session is attached again after a reconnection is not before any entry of its buffer.
\<close>

theorem mcp_buffers_bounded:
  "\<forall>(sid, b) \<in> set (dw_sessions (fold ws_op_step ops new_device_ws)).
     length (sb_entries b) \<le> 5000 \<and> (\<forall>e \<in> set (sb_entries b). me_seq e \<le> sb_last_seq b)"
proof -
  have "conn_ok new_device_ws" by (simp add: conn_ok_def new_device_ws_def)
  then have "conn_ok (fold ws_op_step ops new_device_ws)" using mcp.run_invar_all by (simp add: mcp.run_fold)
  then show ?thesis by (auto simp: conn_ok_def hm_all_def buffer_ok_def MAX_BUFFER_ENTRIES_def)
qed

theorem mcp_buffers_bounded_witness:
  "\<exists>b. dw_sessions (fold ws_op_step [CallAttach ''s'' 0 [], OnFrame (TextFrame (Some (JObj [(''type'', JStr ''session.stdout''),
       (''session_id'', JStr ''s''), (''data'', JStr ''x''), (''seq'', JNum 7)])))] new_device_ws) = [(''s'', b)]
     \<and> sb_last_seq b = 7 \<and> length (sb_entries b) = 1 \<and> (\<forall>e \<in> set (sb_entries b). me_seq e \<le> 7)"
proof -
  let ?ops = "[CallAttach ''s'' 0 [], OnFrame (TextFrame (Some (JObj [(''type'', JStr ''session.stdout''),
       (''session_id'', JStr ''s''), (''data'', JStr ''x''), (''seq'', JNum 7)])))]"
  have "map (\<lambda>(s, b). (s, sb_last_seq b, length (sb_entries b))) (dw_sessions (fold ws_op_step ?ops new_device_ws)) = [(''s'', 7, 1)]"
    by code_simp
  then obtain b where "dw_sessions (fold ws_op_step ?ops new_device_ws) = [(''s'', b)]" "sb_last_seq b = 7" "length (sb_entries b) = 1"
    by (auto simp: map_eq_Cons_conv)
  then show ?thesis using mcp_buffers_bounded [of ?ops] by simp
qed

subsection \<open>Output reaches the reader\<close>

fun increasing :: "u64 \<Rightarrow> output_entry list \<Rightarrow> bool" where
  "increasing l [] = True"
| "increasing l (e # es) = (l < oe_seq e \<and> increasing (oe_seq e) es)"

lemma increasing_append: "increasing l (xs @ ys) \<longleftrightarrow> increasing l xs \<and> increasing (if xs = [] then l else oe_seq (last xs)) ys"
  by (induction xs arbitrary: l) auto

lemma increasing_above: "increasing l es \<Longrightarrow> e \<in> set es \<Longrightarrow> l < oe_seq e"
  by (induction es arbitrary: l) (auto intro: less_trans)

definition push_outputs :: "output_entry list \<Rightarrow> session_buffer \<Rightarrow> session_buffer" where
  "push_outputs es b = fold buffer_push (map mcp_entry_of es) b"

lemma push_outputs_simps [simp]: "push_outputs [] b = b" "push_outputs (e # es) b = push_outputs es (buffer_push (mcp_entry_of e) b)"
  by (simp_all add: push_outputs_def)

lemma push_outputs_other: "sb_status (push_outputs es b) = sb_status b" "buffer_ok b \<Longrightarrow> buffer_ok (push_outputs es b)"
  by (induction es arbitrary: b) (simp_all add: buffer_ok_push)

lemma push_outputs_last:
  "increasing (sb_last_seq b) es \<Longrightarrow> sb_last_seq (push_outputs es b) = (if es = [] then sb_last_seq b else oe_seq (last es))"
  by (induction es arbitrary: b) (auto simp: sb_last_seq_push mcp_entry_of_def max_def)

lemma push_outputs_entries:
  "length (sb_entries b) \<le> MAX_BUFFER_ENTRIES \<Longrightarrow>
     sb_entries (push_outputs es b) = drop (length (sb_entries b) + length es - MAX_BUFFER_ENTRIES) (sb_entries b @ map mcp_entry_of es)"
proof (induction es arbitrary: b)
  case (Cons e es)
  show ?case
  proof (cases "length (sb_entries b) = MAX_BUFFER_ENTRIES")
    case True
    then obtain x xs where x: "sb_entries b = x # xs" by (cases "sb_entries b") (auto simp: MAX_BUFFER_ENTRIES_def)
    have "length (sb_entries (buffer_push (mcp_entry_of e) b)) = MAX_BUFFER_ENTRIES" using True by (simp add: sb_entries_push x)
    moreover have "Suc (length xs + length es) - MAX_BUFFER_ENTRIES = length es" using True by (simp add: x)
    ultimately show ?thesis
      using Cons.IH [of "buffer_push (mcp_entry_of e) b"] True by (simp add: sb_entries_push x del: drop_append)
  next
    case False
    with Cons.prems have "sb_entries (buffer_push (mcp_entry_of e) b) = sb_entries b @ [mcp_entry_of e]" by (simp add: sb_entries_push)
    then show ?thesis using Cons.IH [of "buffer_push (mcp_entry_of e) b"] Cons.prems False by (simp del: drop_append)
  qed
qed simp

lemma dispatch_outputs:
  "hm_get (dw_sessions c) sid = Some b \<Longrightarrow>
     hm_get (dw_sessions (dispatch_all (map (entry_to_ws_message sid) es) c)) sid = Some (push_outputs es b)"
  unfolding dispatch_all_def
  by (induction es arbitrary: b c) (simp_all add: dispatch_output on_session_def hm_laws)

lemma read_new:
  assumes "buffer_ok b" "increasing (sb_last_seq b) es" "length es \<le> MAX_BUFFER_ENTRIES"
  shows "rd_entries (read_of (sb_last_seq b) (push_outputs es b)) = map mcp_entry_of es"
proof -
  let ?k = "length (sb_entries b) + length es - MAX_BUFFER_ENTRIES"
  have "sb_entries (push_outputs es b) = drop ?k (sb_entries b) @ map mcp_entry_of es"
    using assms by (simp add: push_outputs_entries buffer_ok_def)
  moreover have "filter (\<lambda>e. me_seq e > sb_last_seq b) (drop ?k (sb_entries b)) = []"
    using assms(1) by (auto simp: filter_empty_conv buffer_ok_def dest!: in_set_dropD)
  moreover have "filter (\<lambda>e. me_seq e > sb_last_seq b) (map mcp_entry_of es) = map mcp_entry_of es"
    using increasing_above [OF assms(2)] by (auto simp: filter_id_conv mcp_entry_of_def)
  ultimately show ?thesis by (simp add: read_of_def)
qed

subsection \<open>Markers\<close>

lemma starts_with_prefix: "starts_with p s \<longleftrightarrow> (\<exists>r. s = p @ r)"
  by (simp add: starts_with_def) (metis not_None_eq strip_prefix_Some_iff)

lemma starts_with_inside: "p \<noteq> [] \<Longrightarrow> starts_with p (drop i s) \<Longrightarrow> i < length s"
  by (auto simp: starts_with_prefix) (metis append_is_Nil_conv drop_all linorder_not_less)

lemma rfind_None: "p \<noteq> [] \<Longrightarrow> rfind_str p s = None \<longleftrightarrow> (\<forall>i. \<not> starts_with p (drop i s))"
proof (induction s)
  case Nil
  then show ?case by (auto simp: starts_with_prefix)
next
  case (Cons c s)
  have "(\<forall>i. \<not> starts_with p (drop i (c # s))) \<longleftrightarrow> \<not> starts_with p (c # s) \<and> (\<forall>i. \<not> starts_with p (drop i s))"
    by (metis drop0 drop_Suc_Cons not0_implies_Suc)
  then show ?case using Cons by (cases "rfind_str p s") auto
qed

lemma rfind_last:
  assumes "p \<noteq> []" "starts_with p (drop k s)" "\<And>i. starts_with p (drop i s) \<Longrightarrow> i \<le> k"
  shows "rfind_str p s = Some k"
  using assms(2,3)
proof (induction s arbitrary: k)
  case Nil
  then show ?case using assms(1) by (auto simp: starts_with_prefix)
next
  case (Cons c s)
  have le: "i < k" if "starts_with p (drop i s)" for i using Cons.prems(2) [of "Suc i"] that by simp
  show ?case
  proof (cases k)
    case 0
    then have "rfind_str p s = None" using le rfind_None [OF assms(1)] by auto
    then show ?thesis using 0 Cons.prems(1) by simp
  next
    case (Suc j)
    then have "rfind_str p s = Some j" using Cons.prems(1) le by (intro Cons.IH) (auto simp: less_Suc_eq_le)
    then show ?thesis using Suc by simp
  qed
qed

lemma rfind_occurs: "p \<noteq> [] \<Longrightarrow> rfind_str p s = Some i \<Longrightarrow> starts_with p (drop i s)"
  by (induction s arbitrary: i) (auto split: option.splits if_splits)

text \<open>Position \<open>i\<close> has the marker followed by a digit.\<close>

definition marked :: "string \<Rightarrow> string \<Rightarrow> nat \<Rightarrow> bool" where
  "marked m acc i \<longleftrightarrow> starts_with m (drop i acc) \<and> i + length m < length acc \<and> is_digit (acc ! (i + length m))"

lemma starts_with_take: "starts_with p (drop i (take e s)) \<Longrightarrow> starts_with p (drop i s)"
  by (auto simp: starts_with_prefix drop_take) (metis append_assoc append_take_drop_id)

lemma done_position_None: "m \<noteq> [] \<Longrightarrow> (\<And>i. \<not> marked m acc i) \<Longrightarrow> done_position m acc e = None"
proof (induction m acc e rule: done_position.induct)
  case (1 m acc e)
  have nd: "\<not> (pos + length m < length acc \<and> is_digit (acc ! (pos + length m)))" if "rfind_str m (take e acc) = Some pos" for pos
    using starts_with_take [OF rfind_occurs [OF 1(2) that]] 1(3) [of pos] unfolding marked_def by blast
  moreover have "done_position m acc pos = None" if "rfind_str m (take e acc) = Some pos" "pos < e" for pos
    by (rule 1(1) [OF that(1) refl nd [OF that(1)] that(2) 1(2,3)])
  ultimately show ?case by (subst done_position.simps) (cases "rfind_str m (take e acc)", simp_all add: Let_def)
qed

lemma digit_char_is_digit: "d < 10 \<Longrightarrow> is_digit (digit_char d)"
  by (simp add: is_digit_def digit_val_digit_char)

lemma show_nat_digits: "c \<in> set (show_nat n) \<Longrightarrow> is_digit c"
  using show_nat_chars digit_char_is_digit by blast

lemma marked_exit_code_show:
  assumes "code < 2 ^ 31" shows "marked_exit_code (show_nat code @ ''__'' @ post) = Some (int code)"
proof -
  have no: "\<not> starts_with ''__'' (drop i (show_nat code) @ ''__'' @ post)" if "i < length (show_nat code)" for i
  proof -
    have "drop i (show_nat code) = show_nat code ! i # drop (Suc i) (show_nat code)" using that by (simp add: Cons_nth_drop_Suc)
    moreover have "is_digit (show_nat code ! i)" using that nth_mem show_nat_digits by blast
    moreover have "\<not> is_digit (CHR ''_'')" by code_simp
    ultimately show ?thesis by auto
  qed
  have "find_str ''__'' (show_nat code @ ''__'' @ post) = Some (length (show_nat code) + 0)"
    by (rule find_skip) (use no in simp_all)
  then have "before_str ''__'' (show_nat code @ ''__'' @ post) = show_nat code" by (simp add: before_str_def)
  moreover have s: "show_nat code = show_int (int code)" by (simp add: show_int_def)
  moreover have "trim (show_int (int code)) = show_int (int code)" using show_int_not_ws by (intro trim_id) auto
  ultimately show ?thesis using assms parse_i32_show_int [of "int code"] by (simp add: marked_exit_code_def in_i32_def)
qed

lemma marked_output_between:
  assumes "\<And>i. starts_with m (drop i (pre @ m @ [CHR 0x0A] @ out @ [CHR 0x0A])) \<Longrightarrow> i \<le> length pre" "m \<noteq> []"
  shows "marked_output m (pre @ m @ [CHR 0x0A] @ out @ [CHR 0x0A]) = out"
proof -
  let ?r = "pre @ m @ [CHR 0x0A] @ out @ [CHR 0x0A]"
  have "rfind_str m ?r = Some (length pre)" 
  proof (rule rfind_last)
    show "i \<le> length pre" if "starts_with m (drop i ?r)" for i by (rule assms(1) [OF that])
  qed (simp_all add: assms(2))
  moreover have "rfind_str [CHR 0x0A] ?r = Some (length pre + length m + 1 + length out)"
  proof (rule rfind_last)
    show "i \<le> length pre + length m + 1 + length out" if "starts_with [CHR 0x0A] (drop i ?r)" for i
      using starts_with_inside [OF _ that] by simp
  qed simp_all
  ultimately show ?thesis by (simp add: marked_output_def unwrap_or_def)
qed

text \<open>
  What the shell sends for a wrapped command: anything before (the echo of a terminal), the start marker,
  the output, and the end marker with the exit code. The end marker with a digit occurs only there.
\<close>

definition marked_text :: "string \<Rightarrow> string \<Rightarrow> string \<Rightarrow> string" where
  "marked_text nonce pre out = pre @ start_marker nonce @ [CHR 0x0A] @ out @ [CHR 0x0A]"

definition well_marked :: "string \<Rightarrow> string \<Rightarrow> string \<Rightarrow> string \<Rightarrow> bool" where
  "well_marked nonce pre out acc \<longleftrightarrow>
     (let k = length (marked_text nonce pre out) in
      (\<forall>i < length acc. starts_with (done_marker nonce) (drop i acc) \<longrightarrow>
         i = k \<or> i < k \<and> \<not> (i + length (done_marker nonce) < length acc \<and> is_digit (acc ! (i + length (done_marker nonce)))))
      \<and> (\<forall>i < k. starts_with (start_marker nonce) (drop i (marked_text nonce pre out)) \<longrightarrow> i \<le> length pre))"

lemma markers_nonempty [simp]: "done_marker n \<noteq> []" "start_marker n \<noteq> []"
  by (simp_all add: done_marker_def start_marker_def)

lemma scan_complete:
  assumes A: "A = marked_text nonce pre out @ done_marker nonce @ show_nat code @ ''__'' @ post"
    and ok: "well_marked nonce pre out A" "code < 2 ^ 31"
  shows "scan_output nonce A = Some \<lparr>ew_output = out, ew_exit_code = Some (int code), ew_timed_out = False\<rparr>"
proof -
  let ?k = "length (marked_text nonce pre out)" and ?m = "done_marker nonce"
  have occ: "starts_with ?m (drop ?k A)" by (simp add: A)
  have "i \<le> ?k" if "starts_with ?m (drop i A)" for i
    using that ok(1) starts_with_inside [OF _ that] by (auto simp: well_marked_def Let_def)
  then have "rfind_str ?m A = Some ?k" using occ by (intro rfind_last) simp_all
  moreover obtain d ds where d: "show_nat code = d # ds" by (cases "show_nat code") auto
  moreover have "is_digit d" using show_nat_digits [of d code] d by simp
  ultimately have "done_position ?m A (length A) = Some ?k"
    by (subst done_position.simps) (simp add: A nth_append)
  moreover have "marked_output (start_marker nonce) (marked_text nonce pre out) = out"
    unfolding marked_text_def
  proof (rule marked_output_between)
    show "i \<le> length pre" if "starts_with (start_marker nonce) (drop i (pre @ start_marker nonce @ [CHR 0x0A] @ out @ [CHR 0x0A]))" for i
    proof -
      have "i < length (marked_text nonce pre out)" using starts_with_inside [OF markers_nonempty(2) that] by (simp add: marked_text_def)
      then show ?thesis using ok(1) that unfolding well_marked_def Let_def marked_text_def by blast
    qed
  qed simp
  ultimately show ?thesis using marked_exit_code_show [OF ok(2)] by (simp add: scan_output_def A)
qed

lemma scan_prefix:
  assumes A: "A = marked_text nonce pre out @ done_marker nonce @ rest" and ok: "well_marked nonce pre out A"
    and n: "n \<le> length (marked_text nonce pre out) + length (done_marker nonce)"
  shows "scan_output nonce (take n A) = None"
proof -
  let ?k = "length (marked_text nonce pre out)" and ?m = "done_marker nonce"
  have "\<not> marked ?m (take n A) i" for i
  proof
    assume "marked ?m (take n A) i"
    then have m: "starts_with ?m (drop i (take n A))" "i + length ?m < n" "i + length ?m < length A" "is_digit (A ! (i + length ?m))"
      by (auto simp: marked_def)
    then have "starts_with ?m (drop i A)" using starts_with_take by blast
    moreover have "i < ?k" using m(2) n by simp
    ultimately show False using m(3,4) ok starts_with_inside [of ?m i A] unfolding well_marked_def Let_def by (metis nat_neq_iff markers_nonempty(1))
  qed
  then show ?thesis by (simp add: scan_output_def done_position_None)
qed

subsection \<open>Waiting for a command\<close>

text \<open>A round in which the connection is up and output of the session arrives.\<close>

definition output_round :: "string \<Rightarrow> instant \<times> output_entry list \<Rightarrow> wait_round" where
  "output_round sid x =
     \<lparr>wr_now = fst x, wr_connected = True, wr_wait = map (entry_to_ws_message sid) (snd x)\<rparr>"

definition batch_data :: "(instant \<times> output_entry list) list \<Rightarrow> string" where
  "batch_data bs = concat (map (\<lambda>x. concat (map oe_data (snd x))) bs)"

lemma batch_data_simps [simp]:
  "batch_data [] = []" "batch_data (x # bs) = concat (map oe_data (snd x)) @ batch_data bs"
  "batch_data (xs @ ys) = batch_data xs @ batch_data ys"
  by (simp_all add: batch_data_def)

lemma fold_last_seq:
  "increasing l es \<Longrightarrow> fold (\<lambda>e k. if me_seq e > k then me_seq e else k) (map mcp_entry_of es) l = (if es = [] then l else oe_seq (last es))"
  by (induction es arbitrary: l) (auto simp: mcp_entry_of_def)

lemma read_round:
  assumes "hm_get (dw_sessions c) sid = Some b" "buffer_ok b" "sb_status b = McpRunning"
    and "increasing (sb_last_seq b) es" "length es \<le> MAX_BUFFER_ENTRIES"
  shows "read_output sid (sb_last_seq b) (map (entry_to_ws_message sid) es) c
     = (Inr (read_of (sb_last_seq b) (push_outputs es b)), dispatch_all (map (entry_to_ws_message sid) es) c)"
proof -
  have "rd_entries (read_of (sb_last_seq b) b) = []" using read_new [OF assms(2), of "[]"] by simp
  then show ?thesis using assms(1,3) dispatch_outputs [OF assms(1), of es] by (simp add: read_output_def)
qed

lemma loop_round:
  assumes "hm_get (dw_sessions c) sid = Some b" "buffer_ok b" "sb_status b = McpRunning" "t < deadline"
    and "increasing (sb_last_seq b) es" "length es \<le> MAX_BUFFER_ENTRIES"
  shows "exec_wait_loop nonce sid deadline acc (sb_last_seq b) None (output_round sid (t, es) # rs) c
     = (let acc1 = acc @ concat (map oe_data es); c1 = dispatch_all (map (entry_to_ws_message sid) es) c in
        case scan_output nonce acc1 of
          Some w \<Rightarrow> (Some (Inr w), c1)
        | None \<Rightarrow> exec_wait_loop nonce sid deadline acc1 (sb_last_seq (push_outputs es b)) None rs c1)"
proof -
  have e: "rd_entries (read_of (sb_last_seq b) (push_outputs es b)) = map mcp_entry_of es" by (rule read_new [OF assms(2,5,6)])
  have st: "rd_status (read_of (sb_last_seq b) (push_outputs es b)) = McpRunning"
    using assms(3) by (simp add: read_of_def push_outputs_other)
  have d: "map (me_data \<circ> mcp_entry_of) es = map oe_data es" by (simp add: mcp_entry_of_def)
  show ?thesis
    using assms(4) fold_last_seq [OF assms(5)] push_outputs_last [OF assms(5)]
    by (simp add: output_round_def read_round [OF assms(1-3,5,6)] e st d Let_def split: option.split)
qed

lemma loop_answers:
  assumes A: "A = marked_text nonce pre out @ done_marker nonce @ show_nat code @ ''__'' @ post"
    and ok: "well_marked nonce pre out A" "code < 2 ^ 31"
    and rounds: "\<forall>(t, es) \<in> set (bs @ [x]). t < deadline \<and> length es \<le> MAX_BUFFER_ENTRIES"
    and cut: "length (acc @ batch_data bs) \<le> length (marked_text nonce pre out) + length (done_marker nonce)"
    and data: "acc @ batch_data (bs @ [x]) = A"
    and buf: "hm_get (dw_sessions c) sid = Some b" "buffer_ok b" "sb_status b = McpRunning"
    and inc: "increasing (sb_last_seq b) (concat (map snd (bs @ [x])))"
  shows "fst (exec_wait_loop nonce sid deadline acc (sb_last_seq b) None (map (output_round sid) (bs @ [x]) @ later) c)
     = Some (Inr \<lparr>ew_output = out, ew_exit_code = Some (int code), ew_timed_out = False\<rparr>)"
  using rounds cut data buf inc
proof (induction bs arbitrary: acc b c)
  case Nil
  obtain t es where x: "x = (t, es)" by (cases x)
  have "scan_output nonce (acc @ concat (map oe_data es)) = Some \<lparr>ew_output = out, ew_exit_code = Some (int code), ew_timed_out = False\<rparr>"
    using scan_complete [OF A ok] Nil.prems(3) by (simp add: x)
  then show ?case
    using Nil loop_round [of c sid b t deadline es nonce acc later] by (simp add: x Let_def)
next
  case (Cons y bs)
  obtain t es where y: "y = (t, es)" by (cases y)
  let ?acc = "acc @ concat (map oe_data es)"
  have inc: "increasing (sb_last_seq b) es" "increasing (sb_last_seq (push_outputs es b)) (concat (map snd (bs @ [x])))"
    using Cons.prems(7) by (auto simp: y increasing_append push_outputs_last)
  have "?acc = take (length ?acc) A" using Cons.prems(3) by (auto simp: y)
  moreover have "length ?acc \<le> length (marked_text nonce pre out) + length (done_marker nonce)"
    using Cons.prems(2) by (simp add: y)
  ultimately have "scan_output nonce ?acc = None" using scan_prefix [OF A ok(1)] by metis
  then show ?case
    using Cons.prems loop_round [of c sid b t deadline es nonce acc "map (output_round sid) (bs @ [x]) @ later"] inc
      Cons.IH [of ?acc "dispatch_all (map (entry_to_ws_message sid) es) c" "push_outputs es b"]
      dispatch_outputs [of c sid b es]
    by (simp add: y Let_def push_outputs_other)
qed


definition demo_buffer :: session_buffer where
  "demo_buffer = new_session_buffer\<lparr>sb_last_seq := 4\<rparr>"

definition demo_ws :: device_ws where
  "demo_ws = new_device_ws\<lparr>dw_sessions := [(''s'', demo_buffer)]\<rparr>"

definition demo_output :: "u64 \<Rightarrow> string \<Rightarrow> output_entry" where
  "demo_output n d = \<lparr>oe_seq = n, oe_stream = Stdout, oe_data = d, oe_timestamp_ms = 0\<rparr>"


subsection \<open>What the connection does not promise\<close>

text \<open>
  When the output is cut inside the exit code, the digits that have arrived are taken for it: a command
  that exits with 127 is reported with exit code 1.
\<close>

lemma cut_exit_code:
  "scan_output ''f'' (marked_text ''f'' [] ''ab'' @ done_marker ''f'' @ ''1'')
     = Some \<lparr>ew_output = ''ab'', ew_exit_code = Some 1, ew_timed_out = False\<rparr>"
  by code_simp

text \<open>
  The entry that stands for a gap, or for the exit of the process, takes the next sequence number, which
  belongs to the next real entry: a reader that continues after it never sees that entry.
\<close>

lemma synthetic_entry_hides_output:
  assumes "buffer_ok b" "unat (sb_last_seq b) + 1 < 2 ^ 64" "oe_seq e = sb_last_seq b + 1"
  shows "rd_entries (read_of (sb_last_seq (on_exited msg b)) (buffer_push (mcp_entry_of e) (on_exited msg b))) = []"
proof -
  have "sb_last_seq b < sb_last_seq b + 1" using assms(2) by (simp add: word_less_nat_alt unat_Suc_word)
  then have l: "sb_last_seq (on_exited msg b) = sb_last_seq b + 1"
    by (simp add: on_exited_def Let_def sb_last_seq_push system_entry_def)
  have "buffer_ok (on_exited msg b)" by (rule buffer_ok_exited [OF assms(1)])
  then have "\<forall>x \<in> set (sb_entries (buffer_push (mcp_entry_of e) (on_exited msg b))). me_seq x \<le> sb_last_seq (on_exited msg b)"
    using assms(3) buffer_ok_push [of "on_exited msg b" "mcp_entry_of e"] l
    by (simp add: buffer_ok_def sb_last_seq_push mcp_entry_of_def)
  then show ?thesis by (auto simp: read_of_def filter_empty_conv)
qed

text \<open>
  Attaching a session that has a buffer replays its entries into it a second time.
\<close>

lemma attach_duplicates:
  "map me_data (sb_entries (the (hm_get (dw_sessions (fold dispatch_message
      [entry_to_ws_message ''s'' (demo_output 5 ''x''),
       to_value (SessionAttached ''s'' [entry_to_ws_message ''s'' (demo_output 5 ''x'')] 0 None)] demo_ws)) ''s''))) = [''x'', ''x'']"
  by code_simp

text \<open>Output that arrives before the caller has created the buffer is lost, the first line of a session.\<close>

lemma first_output_lost:
  assumes "\<not> dw_closed c" "hm_get (dw_sessions c) sid = None" "str_field v ''session_id'' = Some sid" "str_field v ''type'' = Some ''session.started''"
  shows "hm_get (dw_sessions (snd (start_session a [v] [entry_to_ws_message sid e] c))) sid
    = Some (new_session_buffer\<lparr>sb_is_pty := unwrap_or False (bool_field v ''pty'')\<rparr>)"
proof -
  have "dispatch_message v c' = start_result v c'" for c'
    using assms(4) by (simp add: dispatch_message_def unwrap_or_def Let_def)
  then show ?thesis
    using assms by (simp add: start_session_def conn_send_def dispatch_all_def start_result_def dispatch_output on_session_def hm_laws Let_def)
qed

text \<open>
  Through the tunnel several entries travel in one message with the number of the last; the client counts
  the others as dropped although their text is there.
\<close>

lemma batches_counted_as_dropped:
  "batch_output_entries ''s'' [demo_output 5 ''a'', demo_output 6 ''b'', demo_output 7 ''c''] = [entry_to_ws_message ''s'' (demo_output 7 ''abc'')]"
  "sb_dropped_count (buffer_push (mcp_entry_of (demo_output 7 ''abc'')) demo_buffer) = 2"
  by code_simp+

end
