(* ===== verification/Mcp_Props.thy ===== *)
theory Mcp_Props
  imports Mcp_Server Mcp_Ws_Props Exec_Props
begin

text \<open>
  Properties of the MCP server: its definitions of tools are well formed, requests are answered once and
  in order, a call without a required parameter reaches no device, the pool has connections to configured
  devices only, and a playbook tool runs exactly the rendered script on the device.
\<close>

subsection \<open>Calls without a required parameter\<close>

text \<open>No request has been sent, no playbook changed, and no message put on a connection.\<close>

definition untouched :: "'w mcp_state \<Rightarrow> 'w mcp_state \<Rightarrow> bool" where
  "untouched s s' \<longleftrightarrow> ms_world s' = ms_world s \<and> ms_pb s' = ms_pb s
     \<and> (\<forall>name. dw_sent (conn_of name (ms_reg s')) \<in> {dw_sent (conn_of name (ms_reg s)), []})"

definition quiet_registry :: "device_registry \<Rightarrow> device_registry \<Rightarrow> bool" where
  "quiet_registry g g' \<longleftrightarrow> (\<forall>name. dw_sent (conn_of name g') \<in> {dw_sent (conn_of name g), []})"

lemma new_ws_sent [simp]: "dw_sent new_device_ws = []"
  by (simp add: new_device_ws_def)

lemma quiet_refl: "quiet_registry g g"
  by (simp add: quiet_registry_def)

lemma quiet_trans: "quiet_registry g g1 \<Longrightarrow> quiet_registry g1 g2 \<Longrightarrow> quiet_registry g g2"
  unfolding quiet_registry_def by (metis insertE insertI1 insertI2 singletonD)

lemma quiet_reload: "quiet_registry g (maybe_reload f g)"
  by (auto simp: maybe_reload_def reloaded_def quiet_registry_def conn_of_def hm_get_remove_all Let_def split: option.split sum.split)

lemma quiet_resolve: "resolve_with_name f d g = (r, g1) \<Longrightarrow> quiet_registry g g1"
  using quiet_reload by (auto simp: resolve_with_name_def Let_def)

lemma quiet_connect: "get_or_connect dial name cl g = (r, g1) \<Longrightarrow> quiet_registry g g1"
  by (auto simp: get_or_connect_def conn_connect_def quiet_registry_def conn_of_def hm_laws Let_def
      split: option.splits if_splits sum.splits)

lemma untouched_reg: "quiet_registry (ms_reg s) g \<Longrightarrow> untouched s (s\<lparr>ms_reg := g\<rparr>)"
  by (simp add: untouched_def quiet_registry_def)

lemma untouched_refl: "untouched s s"
  by (simp add: untouched_def)

definition tool_refused :: "(unit, tool_result) outcome \<times> 'w mcp_state \<Rightarrow> 'w mcp_state \<Rightarrow> bool" where
  "tool_refused x s \<longleftrightarrow> (\<exists>r s'. x = (Ok r, s') \<and> tr_is_error r \<and> untouched s s')"

lemma error_is_error [simp]: "tr_is_error (tool_error e)" "tr_is_error (missing_param e)"
  by (simp_all add: tool_error_def missing_param_def)

lemma refused_client:
  assumes "\<And>cl s. \<exists>e. k cl s = (missing_param e, s)"
  shows "tool_refused (answered (with_client ev args k s)) s"
proof (cases "resolve_with_name (te_file ev) (get_device_param args) (ms_reg s)")
  case (Pair r g)
  have u: "untouched s (s\<lparr>ms_reg := g\<rparr>)" using quiet_resolve [OF Pair] by (rule untouched_reg)
  show ?thesis
  proof (cases r)
    case (Inl e)
    then show ?thesis using u by (simp add: tool_refused_def answered_def with_client_def resolve_def Pair)
  next
    case (Inr x)
    obtain n cl where x: "x = (n, cl)" by (cases x)
    obtain e where "k cl (s\<lparr>ms_reg := g\<rparr>) = (missing_param e, s\<lparr>ms_reg := g\<rparr>)" using assms by blast
    then show ?thesis using u by (simp add: tool_refused_def answered_def with_client_def resolve_def Pair Inr x)
  qed
qed

lemma ws_connection_quiet: "get_ws_connection ev args s = (r, s1) \<Longrightarrow> untouched s s1 \<and> (\<forall>x. r = Inl x \<longrightarrow> tr_is_error x)"
proof (cases "resolve_with_name (te_file ev) (routed_device args (ms_reg s)) (ms_reg s)")
  case (Pair x g)
  assume "get_ws_connection ev args s = (r, s1)"
  moreover note quiet_resolve [OF Pair]
  moreover have "quiet_registry (ms_reg s) g1" if "get_or_connect (te_dial ev) name cl g = (y, g1)" for name cl y g1
    using quiet_trans [OF quiet_resolve [OF Pair] quiet_connect [OF that]] .
  ultimately show ?thesis by (auto simp: get_ws_connection_def Pair split: sum.splits prod.splits intro: untouched_reg)
qed

lemma refused_ws:
  assumes "\<And>name s. \<exists>e. k name s = (missing_param e, s)"
  shows "tool_refused (answered (with_ws ev args k s)) s"
proof (cases "get_ws_connection ev args s")
  case (Pair r s1)
  show ?thesis
  proof (cases r)
    case (Inl x)
    then show ?thesis using ws_connection_quiet [OF Pair] by (simp add: tool_refused_def answered_def with_ws_def Pair)
  next
    case (Inr name)
    obtain e where "k name s1 = (missing_param e, s1)" using assms by blast
    then show ?thesis using ws_connection_quiet [OF Pair] by (simp add: tool_refused_def answered_def with_ws_def Pair Inr)
  qed
qed

lemma arg_missing [simp]:
  "json_get args k = None \<Longrightarrow> arg_str args k = None" "json_get args k = None \<Longrightarrow> arg_bool args k = None"
  "json_get args k = None \<Longrightarrow> arg_u64 args k = None"
  by (simp_all add: arg_str_def arg_bool_def arg_u64_def)

lemma refused_http:
  "json_get args ''command'' = None \<Longrightarrow> tool_refused (answered (handle_device_exec ev args s)) s"
  "json_get args ''commands'' = None \<Longrightarrow> tool_refused (answered (handle_device_exec_batch ev args s)) s"
  "json_get args ''path'' = None \<Longrightarrow> tool_refused (answered (handle_device_file_read ev args s)) s"
  "json_get args ''path'' = None \<or> json_get args ''content'' = None \<Longrightarrow> tool_refused (answered (handle_device_file_write ev args s)) s"
  "json_get args ''path'' = None \<Longrightarrow> tool_refused (answered (handle_device_file_delete ev args s)) s"
  unfolding handle_device_exec_def handle_device_exec_batch_def handle_device_file_read_def handle_device_file_write_def handle_device_file_delete_def
  by (rule refused_client, auto split: option.split)+

lemma refused_session:
  "json_get args ''session_id'' = None \<or> json_get args ''command'' = None \<Longrightarrow> tool_refused (answered (handle_session_exec ev args s)) s"
  "json_get args ''session_id'' = None \<or> json_get args ''data'' = None \<Longrightarrow> tool_refused (answered (handle_session_send ev args s)) s"
  "json_get args ''session_id'' = None \<Longrightarrow> tool_refused (answered (handle_session_read ev args s)) s"
  "json_get args ''session_id'' = None \<or> json_get args ''signal'' = None \<Longrightarrow> tool_refused (answered (handle_session_signal ev args s)) s"
  "json_get args ''session_id'' = None \<Longrightarrow> tool_refused (answered (handle_session_kill ev args s)) s"
  "json_get args ''session_id'' = None \<or> json_get args ''rows'' = None \<or> json_get args ''cols'' = None \<Longrightarrow> tool_refused (answered (handle_session_resize ev args s)) s"
  "json_get args ''session_id'' = None \<Longrightarrow> tool_refused (answered (handle_session_attach ev args s)) s"
  "json_get args ''session_id'' = None \<or> json_get args ''name'' = None \<Longrightarrow> tool_refused (answered (handle_session_rename ev args s)) s"
  "json_get args ''session_id'' = None \<or> json_get args ''allowed'' = None \<Longrightarrow> tool_refused (answered (handle_session_allow_ai ev args s)) s"
  "json_get args ''session_id'' = None \<or> json_get args ''working'' = None \<Longrightarrow> tool_refused (answered (handle_session_ai_status ev args s)) s"
  unfolding handle_session_exec_def handle_session_send_def handle_session_read_def handle_session_signal_def handle_session_kill_def
    handle_session_resize_def handle_session_attach_def handle_session_rename_def handle_session_allow_ai_def handle_session_ai_status_def
  by (rule refused_ws, auto split: option.split)+

lemma refused_exec_wait:
  assumes "json_get args ''session_id'' = None \<or> json_get args ''command'' = None"
  shows "tool_refused (handle_session_exec_wait ev args s) s"
proof (cases "get_ws_connection ev args s")
  case (Pair r s1)
  then show ?thesis
    using ws_connection_quiet [OF Pair] assms by (auto simp: tool_refused_def handle_session_exec_wait_def Pair split: sum.split option.split)
qed

lemma refused_playbook:
  "json_get args ''name'' = None \<Longrightarrow> tool_refused (answered (handle_playbook_get ev args s)) s"
  "json_get args ''name'' = None \<or> json_get args ''content'' = None \<Longrightarrow> tool_refused (answered (handle_playbook_put ev args s)) s"
  by (auto simp: tool_refused_def answered_def handle_playbook_get_def handle_playbook_put_def untouched_refl split: option.split sum.split)

lemmas tool_defs = builtin_tools_def playbook_management_tools_def
  tool_device_list_def tool_device_health_def tool_device_info_def tool_device_exec_def tool_device_exec_batch_def
  tool_device_file_read_def tool_device_file_write_def tool_device_file_delete_def tool_device_activity_def tool_device_gps_def
  tool_session_start_def tool_session_exec_def tool_session_send_def tool_session_read_def tool_session_signal_def tool_session_kill_def
  tool_session_resize_def tool_session_list_def tool_session_exec_wait_def tool_session_attach_def tool_session_rename_def
  tool_session_allow_ai_def tool_session_ai_status_def tool_playbook_list_def tool_playbook_get_def tool_playbook_put_def

text \<open>The tools that require a parameter, each with its required parameters.\<close>

definition requirements :: "(string \<times> string list) list" where
  "requirements =
     [(''device_exec'', [''command'']), (''device_exec_batch'', [''commands'']), (''device_file_read'', [''path'']),
      (''device_file_write'', [''path'', ''content'']), (''device_file_delete'', [''path'']),
      (''session_exec'', [''session_id'', ''command'']), (''session_send'', [''session_id'', ''data'']),
      (''session_read'', [''session_id'']), (''session_signal'', [''session_id'', ''signal'']), (''session_kill'', [''session_id'']),
      (''session_resize'', [''session_id'', ''rows'', ''cols'']), (''session_exec_wait'', [''session_id'', ''command'']),
      (''session_attach'', [''session_id'']), (''session_rename'', [''session_id'', ''name'']),
      (''session_allow_ai'', [''session_id'', ''allowed'']), (''session_ai_status'', [''session_id'', ''working'']),
      (''playbook_get'', [''name'']), (''playbook_put'', [''name'', ''content''])]"

lemma requirements_of_tools:
  "filter (\<lambda>x. snd x \<noteq> []) (map (\<lambda>t. (tl_name t, tl_required t)) (builtin_tools @ playbook_management_tools)) = requirements"
  by (simp add: tool_defs requirements_def)

lemma tool_calls:
  "handle_tool_call ev ''device_exec'' args s = answered (handle_device_exec ev args s)"
  "handle_tool_call ev ''device_exec_batch'' args s = answered (handle_device_exec_batch ev args s)"
  "handle_tool_call ev ''device_file_read'' args s = answered (handle_device_file_read ev args s)"
  "handle_tool_call ev ''device_file_write'' args s = answered (handle_device_file_write ev args s)"
  "handle_tool_call ev ''device_file_delete'' args s = answered (handle_device_file_delete ev args s)"
  "handle_tool_call ev ''session_exec'' args s = answered (handle_session_exec ev args s)"
  "handle_tool_call ev ''session_send'' args s = answered (handle_session_send ev args s)"
  "handle_tool_call ev ''session_read'' args s = answered (handle_session_read ev args s)"
  "handle_tool_call ev ''session_signal'' args s = answered (handle_session_signal ev args s)"
  "handle_tool_call ev ''session_kill'' args s = answered (handle_session_kill ev args s)"
  "handle_tool_call ev ''session_resize'' args s = answered (handle_session_resize ev args s)"
  "handle_tool_call ev ''session_attach'' args s = answered (handle_session_attach ev args s)"
  "handle_tool_call ev ''session_rename'' args s = answered (handle_session_rename ev args s)"
  "handle_tool_call ev ''session_allow_ai'' args s = answered (handle_session_allow_ai ev args s)"
  "handle_tool_call ev ''session_ai_status'' args s = answered (handle_session_ai_status ev args s)"
  "handle_tool_call ev ''playbook_get'' args s = answered (handle_playbook_get ev args s)"
  "handle_tool_call ev ''playbook_put'' args s = answered (handle_playbook_put ev args s)"
  "handle_tool_call ev ''session_exec_wait'' args s = handle_session_exec_wait ev args s"
  by (simp_all add: handle_tool_call_def)

lemma requirements_refused:
  "list_all (\<lambda>(n, ks). \<forall>k \<in> set ks. json_get args k = None \<longrightarrow> tool_refused (handle_tool_call ev n args s) s) requirements"
  by (simp add: requirements_def tool_calls refused_http refused_session refused_exec_wait refused_playbook)



subsection \<open>Requests and responses\<close>

definition line_ids :: "(string \<Rightarrow> string + json) \<Rightarrow> string \<Rightarrow> json list" where
  "line_ids parse line =
     (if trim line = [] then []
      else (case parse (trim line) of
              Inl _ \<Rightarrow> [JNull]
            | Inr req \<Rightarrow> (case json_get req ''id'' of None \<Rightarrow> [] | Some i \<Rightarrow> [i])))"

fun request_ids :: "(string \<Rightarrow> string + json) \<Rightarrow> 'w mcp_input list \<Rightarrow> json list" where
  "request_ids parse [] = []"
| "request_ids parse (Line _ line # is) = line_ids parse line @ request_ids parse is"
| "request_ids parse (Loaded _ # is) = request_ids parse is"

definition response_ids :: "json list \<Rightarrow> json list" where
  "response_ids out = List.map_filter (\<lambda>r. json_get r ''id'') out"

text \<open>Every tool call of the run returns.\<close>

fun run_complete ::
    "(string \<Rightarrow> string + json) \<Rightarrow> string \<Rightarrow> (string \<Rightarrow> string \<Rightarrow> string) \<Rightarrow> 'w mcp_input list \<Rightarrow> 'w mcp_server \<Rightarrow> bool" where
  "run_complete parse version doc [] s = True"
| "run_complete parse version doc (Loaded ev # is) s = run_complete parse version doc is (snd (load_finished ev s))"
| "run_complete parse version doc (Line ev line # is) s =
     (is_ok (fst (mcp_line parse version doc ev line s)) \<and> run_complete parse version doc is (snd (mcp_line parse version doc ev line s)))"

lemma response_ids_simps [simp]:
  "response_ids [] = []" "response_ids (xs @ ys) = response_ids xs @ response_ids ys" "response_ids [list_changed] = []"
  by (simp_all add: response_ids_def List.map_filter_def list_changed_def json_get_def)

lemma respond_ids: "(\<exists>kvs. fst x = JObj kvs) \<Longrightarrow> response_ids (respond i x) = [i]"
  by (auto simp: respond_def response_ids_def List.map_filter_def inject_id_def json_set_def json_get_def map_of_put_field list_changed_def)

lemma tools_call_object: "handle_tools_call ev req s = (Ok x, s1) \<Longrightarrow> \<exists>kvs. fst x = JObj kvs"
  by (auto simp: handle_tools_call_def tool_call_result_def rpc_result_def Let_def split: prod.splits outcome.splits)

lemma mcp_line_ids: "mcp_line parse version doc ev line s = (Ok out, s1) \<Longrightarrow> response_ids out = line_ids parse line"
  by (auto simp: mcp_line_def line_ids_def Let_def respond_ids handle_initialize_def rpc_result_def handle_tools_list_def rpc_error_def
      response_ids_def [of "[JObj _]"] List.map_filter_def json_get_def [of "JObj _"]
      split: if_splits sum.splits option.splits prod.splits outcome.splits dest!: tools_call_object)

text \<open>
  C27. Requests are answered once and in order. Whatever lines arrive, with the background loads of
  playbooks ending at any time in between: the ids of the responses are those of the first requests, each
  answered exactly once, in the order of the requests (a line that is no JSON counts as a request with the
  id null; notifications are not answered). When every tool call returns, every request is answered.
\<close>

theorem mcp_answers_in_order:
  "\<exists>unanswered. request_ids parse is = response_ids (fst (run_stdio parse version doc is s)) @ unanswered
     \<and> (run_complete parse version doc is s \<longrightarrow> unanswered = [])"
proof (induction "is" arbitrary: s)
  case (Cons x xs)
  show ?case
  proof (cases x)
    case (Loaded ev)
    have "response_ids (fst (load_finished ev s)) = []" by (simp add: load_finished_def Let_def)
    then show ?thesis using Cons [of "snd (load_finished ev s)"] by (simp add: Loaded case_prod_beta Let_def)
  next
    case (Line ev line)
    obtain o' s1 where l: "mcp_line parse version doc ev line s = (o', s1)" by fastforce
    show ?thesis
    proof (cases o')
      case (Ok out)
      then show ?thesis using Cons [of s1] mcp_line_ids l by (fastforce simp: Line case_prod_beta Let_def)
    qed (simp_all add: Line l)
  qed
qed simp

definition demo_parse_line :: "string \<Rightarrow> string + json" where
  "demo_parse_line l = (if l = ''p'' then Inr (JObj [(''id'', JNum 1), (''method'', JStr ''ping'')]) else Inl ''bad'')"

theorem mcp_answers_in_order_witness:
  "\<forall>(ev :: unit tool_env) s. response_ids (fst (run_stdio demo_parse_line [] (\<lambda>_ _. []) [Line ev ''p'', Loaded ev, Line ev ''x''] s)) = [JNum 1, JNull]"
proof (intro allI)
  fix ev :: "unit tool_env" and s
  have t: "trim ''p'' = ''p''" "trim ''x'' = ''x''" by code_simp+
  have "run_complete demo_parse_line [] (\<lambda>_ _. []) [Line ev ''p'', Loaded ev, Line ev ''x''] s"
    by (simp add: mcp_line_def t demo_parse_line_def json_get_def arg_str_def json_as_str_def unwrap_or_def)
  moreover have "request_ids demo_parse_line [Line ev ''p'', Loaded ev, Line ev ''x''] = [JNum 1, JNull]"
    by (simp add: line_ids_def t demo_parse_line_def json_get_def)
  ultimately show "response_ids (fst (run_stdio demo_parse_line [] (\<lambda>_ _. []) [Line ev ''p'', Loaded ev, Line ev ''x''] s)) = [JNum 1, JNull]"
    using mcp_answers_in_order [of demo_parse_line "[Line ev ''p'', Loaded ev, Line ev ''x'']" "[]" "\<lambda>_ _. []" s] by auto
qed

subsection \<open>Tool definitions\<close>

text \<open>
  The definition of a tool as a client of the protocol needs it: a name, and an object schema whose
  required parameters are among its properties.
\<close>

definition required_ok :: "json option \<Rightarrow> string list \<Rightarrow> bool" where
  "required_ok req names =
     (case req of None \<Rightarrow> True | Some (JArr ks) \<Rightarrow> list_all (\<lambda>k. \<exists>n. k = JStr n \<and> n \<in> set names) ks | _ \<Rightarrow> False)"

definition tool_name_of :: "json \<Rightarrow> string" where
  "tool_name_of v = unwrap_or [] (arg_str v ''name'')"

definition schema_ok :: "json \<Rightarrow> bool" where
  "schema_ok v \<longleftrightarrow> tool_name_of v \<noteq> [] \<and>
     (case json_get v ''inputSchema'' of
        Some sch \<Rightarrow> arg_str sch ''type'' = Some ''object'' \<and>
          (case json_get sch ''properties'' of Some (JObj ps) \<Rightarrow> required_ok (json_get sch ''required'') (map fst ps) | _ \<Rightarrow> False)
      | None \<Rightarrow> False)"

lemma schema_ok_spec:
  "tl_name t \<noteq> [] \<Longrightarrow> set (tl_required t) \<subseteq> fst ` set (tl_properties t) \<Longrightarrow> schema_ok (tool_definition doc t)"
proof -
  assume "tl_name t \<noteq> []" "set (tl_required t) \<subseteq> fst ` set (tl_properties t)"
  then have "list_all (\<lambda>k. \<exists>n. k = JStr n \<and> n \<in> fst ` set (tl_properties t)) (map JStr (tl_required t))"
    by (auto simp: list_all_iff)
  with \<open>tl_name t \<noteq> []\<close> show ?thesis
    by (simp add: schema_ok_def tool_definition_def tool_name_of_def arg_str_def json_get_def json_as_str_def unwrap_or_def required_ok_def
        comp_def case_prod_beta image_image)
qed

lemma put_fields_keys:
  "fst ` set (fold (\<lambda>(n, d). put_field n (f d)) ps kvs) = fst ` set kvs \<union> fst ` set ps"
proof (induction ps arbitrary: kvs)
  case (Cons p ps)
  obtain n d where "p = (n, d)" by (cases p)
  moreover have "fst ` set (put_field n (f d) kvs) = insert n (fst ` set kvs)" by (force simp: put_field_def)
  ultimately show ?case using Cons by auto
qed simp

lemma schema_ok_playbook: "schema_ok (playbook_to_tool_definition pb)"
proof -
  have "list_all (\<lambda>k. \<exists>n. k = JStr n \<and> n \<in> fst ` set (tool_properties pb)) (tool_required pb)"
    by (auto simp: list_all_iff tool_required_def tool_properties_def put_fields_keys)
  then show ?thesis
    by (simp add: schema_ok_def playbook_to_tool_definition_def tool_name_of_def tool_name_def arg_str_def json_get_def json_as_str_def
        unwrap_or_def required_ok_def Let_def)
qed

text \<open>
  C38. Every tool the server offers is well formed. Whatever playbooks the devices have: each definition
  of the tool list has a name and an object schema that declares every parameter it requires; the names of
  the built-in tools are distinct, and no playbook tool has the name of a built-in one.
\<close>

theorem tool_definitions_well_formed:
  "list_all schema_ok (all_tool_definitions doc pb)
   \<and> distinct (map (tool_name_of \<circ> tool_definition doc) (builtin_tools @ playbook_management_tools))
   \<and> (tool_name_of \<circ> tool_definition doc) ` set (builtin_tools @ playbook_management_tools)
       \<inter> tool_name_of ` playbook_to_tool_definition ` set (all_playbooks pb) = {}"
proof -
  let ?ts = "builtin_tools @ playbook_management_tools"
  have "list_all (\<lambda>t. tl_name t \<noteq> [] \<and> set (tl_required t) \<subseteq> fst ` set (tl_properties t)) ?ts" by (simp add: tool_defs)
  then have "list_all schema_ok (all_tool_definitions doc pb)"
    using schema_ok_playbook by (auto simp: list_all_iff all_tool_definitions_def intro!: schema_ok_spec)
  moreover have n: "tool_name_of (tool_definition doc t) = tl_name t" for t
    by (simp add: tool_name_of_def tool_definition_def arg_str_def json_get_def json_as_str_def unwrap_or_def)
  moreover have "distinct (map tl_name ?ts)" by (simp add: tool_defs)
  moreover have "list_all (\<lambda>t. \<forall>r. tl_name t \<noteq> ''pb_'' @ r) ?ts" by (simp add: tool_defs)
  moreover have "tool_name_of (playbook_to_tool_definition b) = ''pb_'' @ pb_name b" for b
    by (simp add: tool_name_of_def playbook_to_tool_definition_def tool_name_def arg_str_def json_get_def json_as_str_def unwrap_or_def Let_def)
  ultimately show ?thesis by (auto simp: list_all_iff comp_def)
qed

subsection \<open>The connection pool\<close>

definition pool_ok :: "device_registry \<Rightarrow> bool" where
  "pool_ok g \<longleftrightarrow> hm_wf (rg_clients g) \<and> (\<forall>name p. hm_get (rg_pool g) name = Some p \<longrightarrow>
     (\<exists>cl. hm_get (rg_clients g) name = Some cl \<and> sh_base_url cl = pl_base_url p))"

lemma build_clients_wf: "hm_wf (build_clients devices)"
proof -
  have "hm_wf m \<Longrightarrow> hm_wf (fold (\<lambda>(name, e). hm_insert name (new_client (de_url e) (de_api_key e))) devices m)" for m
    by (induction devices arbitrary: m) (auto simp: hm.wf_insert)
  then show ?thesis by (simp add: build_clients_def)
qed

lemma pool_ok_reload: "pool_ok g \<Longrightarrow> pool_ok (maybe_reload f g)"
proof -
  assume g: "pool_ok g"
  have "pool_ok (reloaded cfg t g)" for cfg t
    unfolding pool_ok_def
  proof (intro conjI allI impI)
    show "hm_wf (rg_clients (reloaded cfg t g))" by (simp add: reloaded_def Let_def build_clients_wf)
    fix name p
    let ?new = "build_clients (rc_devices cfg)"
    assume "hm_get (rg_pool (reloaded cfg t g)) name = Some p"
    then have p: "hm_get (rg_pool g) name = Some p" and keep: "name \<notin> fst ` set (filter (stale_connection ?new) (rg_clients g))"
      by (auto simp: reloaded_def Let_def hm_get_remove_all split: if_splits)
    from p g obtain cl where cl: "hm_get (rg_clients g) name = Some cl" "sh_base_url cl = pl_base_url p" by (auto simp: pool_ok_def)
    have "(name, cl) \<in> set (rg_clients g)" using cl(1) by (rule hm_get_Some_set)
    with keep have "\<not> stale_connection ?new (name, cl)" by force
    then show "\<exists>cl. hm_get (rg_clients (reloaded cfg t g)) name = Some cl \<and> sh_base_url cl = pl_base_url p"
      using cl(2) by (auto simp: stale_connection_def reloaded_def Let_def split: option.splits)
  qed
  with g show ?thesis by (simp add: maybe_reload_def split: option.split sum.split)
qed

lemma pool_ok_resolve: "resolve_with_name f d g = (r, g1) \<Longrightarrow> pool_ok g \<Longrightarrow> pool_ok g1 \<and> (\<forall>n cl. r = Inr (n, cl) \<longrightarrow> hm_get (rg_clients g1) n = Some cl)"
  using pool_ok_reload [of g f] by (auto simp: resolve_with_name_def Let_def split: option.splits)

lemma pool_ok_connect:
  assumes "get_or_connect dial name cl g = (r, g1)" "pool_ok g" "hm_get (rg_clients g) name = Some cl"
  shows "pool_ok g1" "rg_clients g1 = rg_clients g"
  using assms by (auto simp: get_or_connect_def pool_ok_def hm_laws Let_def split: option.splits if_splits sum.splits)

lemma pool_ok_conn: "pool_ok g \<Longrightarrow> pool_ok (update_conn name f g)" "rg_clients (update_conn name f g) = rg_clients g"
  by (auto simp: update_conn_def pool_ok_def hm_laws)

lemma pool_ok_register: "pool_ok g \<Longrightarrow> pool_ok (register_session sid d g)"
  by (simp add: register_session_def pool_ok_def)

text \<open>A step of a tool keeps the pool.\<close>

definition keeps :: "('w mcp_state \<Rightarrow> 'a \<times> 'w mcp_state) \<Rightarrow> bool" where
  "keeps f \<longleftrightarrow> (\<forall>s. pool_ok (ms_reg s) \<longrightarrow> pool_ok (ms_reg (snd (f s))) )"

lemma keeps_const: "keeps (\<lambda>s. (r, s))" "keeps (\<lambda>s. (r s, s))"
  by (simp_all add: keeps_def)

lemma keeps_option: "keeps f \<Longrightarrow> (\<And>x. keeps (g x)) \<Longrightarrow> keeps (\<lambda>s. case v of None \<Rightarrow> f s | Some x \<Rightarrow> g x s)"
  by (cases v) simp_all

lemma keeps_sum: "(\<And>x. keeps (f x)) \<Longrightarrow> (\<And>x. keeps (g x)) \<Longrightarrow> keeps (\<lambda>s. case v of Inl x \<Rightarrow> f x s | Inr x \<Rightarrow> g x s)"
  by (cases v) simp_all

lemma keeps_if: "keeps f \<Longrightarrow> keeps g \<Longrightarrow> keeps (\<lambda>s. if b then f s else g s)"
  by (cases b) simp_all

lemma keeps_case_sum:
  "keeps h \<Longrightarrow> (\<And>x. keeps (f x)) \<Longrightarrow> (\<And>x. keeps (g x)) \<Longrightarrow> keeps (\<lambda>s. case h s of (Inl x, s1) \<Rightarrow> f x s1 | (Inr x, s1) \<Rightarrow> g x s1)"
  unfolding keeps_def by (auto split: prod.split sum.split)

lemma keeps_run_conn: "keeps (run_conn name f)"
  by (simp add: keeps_def run_conn_def pool_ok_conn case_prod_beta)

lemma keeps_show_answer: "keeps (show_answer ev call)"
  by (auto simp: keeps_def show_answer_def split: prod.split sum.split)

lemma keeps_client: "(\<And>cl. keeps (k cl)) \<Longrightarrow> keeps (with_client ev args k)"
  using pool_ok_resolve by (fastforce simp: keeps_def with_client_def resolve_def split: prod.splits sum.splits)

lemma keeps_connection: "keeps (get_ws_connection ev args)"
  unfolding keeps_def
proof (intro allI impI)
  fix s :: "'a mcp_state"
  assume s: "pool_ok (ms_reg s)"
  obtain r g where r: "resolve_with_name (te_file ev) (routed_device args (ms_reg s)) (ms_reg s) = (r, g)" by fastforce
  note pr = pool_ok_resolve [OF r s]
  show "pool_ok (ms_reg (snd (get_ws_connection ev args s)))"
  proof (cases r)
    case (Inl e)
    then show ?thesis using pr by (simp add: get_ws_connection_def r)
  next
    case (Inr x)
    obtain n cl where x: "x = (n, cl)" by (cases x)
    obtain r1 g1 where c: "get_or_connect (te_dial ev) n cl g = (r1, g1)" by fastforce
    have "pool_ok g1" using pool_ok_connect(1) [OF c] pr by (simp add: Inr x)
    then show ?thesis by (cases r1) (simp_all add: get_ws_connection_def r Inr x c)
  qed
qed

lemma keeps_ws: "(\<And>name. keeps (k name)) \<Longrightarrow> keeps (with_ws ev args k)"
  unfolding with_ws_def by (rule keeps_case_sum [OF keeps_connection]) (rule keeps_const, simp)

lemma keeps_send: "keeps (send_and_report ev name msg report)"
  unfolding send_and_report_def by (auto simp: keeps_def run_conn_def pool_ok_conn case_prod_beta split: sum.split)

lemma keeps_ai: "keeps f \<Longrightarrow> keeps (\<lambda>s. f (auto_ai ev name sid activity s))"
  using keeps_run_conn [of name "\<lambda>c. ((), auto_set_ai_working sid activity (te_ai_wait ev) c)"]
  unfolding keeps_def auto_ai_def by blast

lemma keeps_device_list: "keeps (handle_device_list ev)"
  using pool_ok_reload by (auto simp: keeps_def handle_device_list_def list_configured_def Let_def)

lemma keeps_http:
  "keeps (handle_device_health ev args)" "keeps (handle_device_info ev args)" "keeps (handle_device_exec ev args)"
  "keeps (handle_device_exec_batch ev args)" "keeps (handle_device_file_read ev args)" "keeps (handle_device_file_delete ev args)"
  "keeps (handle_device_activity ev args)"
  unfolding handle_device_health_def handle_device_info_def handle_device_exec_def handle_device_exec_batch_def handle_device_file_read_def
    handle_device_file_delete_def handle_device_activity_def
  by (intro keeps_client keeps_show_answer keeps_option keeps_const)+

lemma keeps_gps: "keeps (handle_device_gps ev args)"
  unfolding handle_device_gps_def by (rule keeps_client) (auto simp: keeps_def split: prod.split sum.split)

lemma keeps_file_write: "keeps (handle_device_file_write ev args)"
proof -
  have "ms_reg (make_parent ev cl path cd s) = ms_reg s" for cl path cd and s :: "'a mcp_state"
    by (simp add: make_parent_def split: option.split prod.split bool.split)
  then have "keeps (\<lambda>s. show_answer ev call (make_parent ev cl path cd s))" for call cl path cd
    using keeps_show_answer [of ev call] by (simp add: keeps_def)
  then show ?thesis
    unfolding handle_device_file_write_def Let_def
    by (intro keeps_client keeps_option keeps_const keeps_if keeps_sum keeps_show_answer)
qed

lemma keeps_session:
  "keeps (handle_session_exec ev args)" "keeps (handle_session_signal ev args)" "keeps (handle_session_kill ev args)"
  "keeps (handle_session_resize ev args)" "keeps (handle_session_rename ev args)" "keeps (handle_session_allow_ai ev args)"
  unfolding handle_session_exec_def handle_session_signal_def handle_session_kill_def handle_session_resize_def handle_session_rename_def
    handle_session_allow_ai_def Let_def
  by (intro keeps_ws keeps_option keeps_const keeps_send keeps_ai)+

lemma keeps_pair: "keeps f \<Longrightarrow> (\<And>r. keeps (g r)) \<Longrightarrow> keeps (\<lambda>s. case f s of (r, s1) \<Rightarrow> g r s1)"
  unfolding keeps_def by (auto split: prod.split)

lemma keeps_send_tool: "keeps (handle_session_send ev args)"
proof -
  have "keeps (\<lambda>s. send_and_report ev name (m (auto_ai ev name sid activity s)) rep (auto_ai ev name sid activity s))" for name m sid activity rep
  proof -
    have "keeps (\<lambda>s. send_and_report ev name (m s) rep s)" using keeps_send [of ev name] by (simp add: keeps_def)
    then show ?thesis by (rule keeps_ai)
  qed
  then show ?thesis unfolding handle_session_send_def Let_def by (intro keeps_ws keeps_option keeps_const)
qed

lemma keeps_reads:
  "keeps (handle_session_read ev args)" "keeps (handle_session_attach ev args)" "keeps (handle_session_ai_status ev args)"
  "keeps (handle_session_start ev args)"
proof -
  show "keeps (handle_session_read ev args)"
    unfolding handle_session_read_def Let_def
    by (intro keeps_ws keeps_option keeps_const keeps_pair keeps_sum keeps_ai keeps_run_conn)
  show "keeps (handle_session_attach ev args)"
    unfolding handle_session_attach_def Let_def by (intro keeps_ws keeps_option keeps_const keeps_case_sum keeps_run_conn)
  show "keeps (handle_session_ai_status ev args)"
    unfolding handle_session_ai_status_def Let_def
    by (intro keeps_ws keeps_option keeps_const keeps_case_sum keeps_run_conn) (simp add: keeps_def run_conn_def pool_ok_conn)
  show "keeps (handle_session_start ev args)"
    unfolding handle_session_start_def Let_def
    by (intro keeps_ws keeps_case_sum keeps_run_conn keeps_const keeps_if) (auto simp: keeps_def pool_ok_register split: option.split)
qed

lemma pool_ok_run_conn:
  "pool_ok (ms_reg s) \<Longrightarrow> pool_ok (ms_reg (snd (run_conn name f s)))" "rg_clients (ms_reg (snd (run_conn name f s))) = rg_clients (ms_reg s)"
  by (simp_all add: run_conn_def pool_ok_conn case_prod_beta)

lemma pool_ok_list_one:
  "pool_ok (ms_reg s) \<Longrightarrow> pool_ok (ms_reg (snd (list_one ev d s)))" "rg_clients (ms_reg (snd (list_one ev d s))) = rg_clients (ms_reg s)"
  using pool_ok_run_conn [where s = s and name = d and f = "list_sessions_remote (te_list_wait ev d)"]
  by (cases "run_conn d (list_sessions_remote (te_list_wait ev d)) s"; simp add: list_one_def split: sum.split)+

lemma pool_ok_list_every:
  "pool_ok (ms_reg s) \<Longrightarrow> (\<And>n cl. (n, cl) \<in> set cls \<Longrightarrow> hm_get (rg_clients (ms_reg s)) n = Some cl) \<Longrightarrow>
     pool_ok (ms_reg (snd (list_every ev cls s)))"
proof (induction cls arbitrary: s)
  case (Cons x cls)
  obtain n cl where x: "x = (n, cl)" by (cases x)
  obtain r g where c: "get_or_connect (te_dial ev) n cl (ms_reg s) = (r, g)" by fastforce
  have g: "pool_ok g" "rg_clients g = rg_clients (ms_reg s)" using pool_ok_connect [OF c Cons.prems(1)] Cons.prems(2) [of n cl] by (simp_all add: x)
  have IH: "pool_ok (ms_reg (snd (list_every ev cls s1)))" if "pool_ok (ms_reg s1)" "rg_clients (ms_reg s1) = rg_clients (ms_reg s)" for s1
    using that Cons.prems(2) by (intro Cons.IH) auto
  obtain r1 s1 where o: "list_one ev n (s\<lparr>ms_reg := g\<rparr>) = (r1, s1)" by fastforce
  have "pool_ok (ms_reg s1)" "rg_clients (ms_reg s1) = rg_clients (ms_reg s)"
    using pool_ok_list_one [where s = "s\<lparr>ms_reg := g\<rparr>" and ev = ev and d = n] g by (simp_all add: o)
  then show ?case using IH g by (cases r; cases r1) (auto simp: x c o case_prod_beta)
qed simp

lemma pool_ok_listed: "pool_ok g \<Longrightarrow> pool_ok (register_listed xs g)"
  unfolding register_listed_def by (induction xs arbitrary: g) (auto simp: pool_ok_register split: option.split)

lemma keeps_listed: "keeps (listed_report ev xs)"
  by (simp add: keeps_def listed_report_def Let_def pool_ok_listed split: outcome.split)

lemma keeps_list:
  assumes "pool_ok (ms_reg s)"
  shows "pool_ok (ms_reg (snd (handle_session_list ev args s)))"
proof (cases "get_device_param args")
  case None
  have "pool_ok (ms_reg (snd (list_every ev (rg_clients (ms_reg s)) s)))"
    using assms by (intro pool_ok_list_every) (auto simp: hm_get_iff_set pool_ok_def)
  then show ?thesis using keeps_listed by (auto simp: None handle_session_list_def keeps_def case_prod_beta)
next
  case (Some d)
  have "keeps (list_one ev d)" using pool_ok_list_one(1) by (auto simp: keeps_def)
  then have "keeps (\<lambda>s. case get_ws_connection ev args s of (Inl r, s1) \<Rightarrow> (Ok r, s1)
      | (Inr _, s1) \<Rightarrow> (case list_one ev d s1 of (Inl e, s2) \<Rightarrow> (Ok (tool_error e), s2) | (Inr xs, s2) \<Rightarrow> listed_report ev xs s2))"
    by (intro keeps_case_sum keeps_connection keeps_const keeps_listed)
  then show ?thesis using assms by (simp add: keeps_def handle_session_list_def Some)
qed

lemma keeps_session_list: "keeps (handle_session_list ev args)"
  using keeps_list by (auto simp: keeps_def)

lemma keeps_exec_wait: "keeps (handle_session_exec_wait ev args)"
  unfolding handle_session_exec_wait_def Let_def
  by (intro keeps_case_sum keeps_connection keeps_const keeps_option keeps_sum keeps_pair keeps_ai keeps_run_conn)

lemma keeps_playbook:
  "keeps (handle_playbook_list ev args)" "keeps (handle_playbook_get ev args)" "keeps (handle_playbook_put ev args)"
  "keeps (handle_playbook_exec ev name args)"
proof -
  have rep: "keeps (\<lambda>s. playbooks_report ev (x s) s)" for x by (simp add: keeps_def playbooks_report_def)
  show "keeps (handle_playbook_list ev args)"
    unfolding handle_playbook_list_def by (intro keeps_option keeps_client rep)
  have res: "pool_ok g" if "resolve_with_name f d (ms_reg s) = (r, g)" "pool_ok (ms_reg s)" for f d r g and s :: "'a mcp_state"
    using pool_ok_resolve [OF that] by simp
  show "keeps (handle_playbook_get ev args)"
    by (auto simp: keeps_def handle_playbook_get_def Let_def split: option.splits sum.splits prod.splits dest: res)
  have del: "ms_reg (snd (delete_tool ev n d cl s)) = ms_reg s" for n d cl and s :: "'a mcp_state"
    by (auto simp: delete_tool_def changed_report_def Let_def split: prod.split sum.split)
  have save: "ms_reg (snd (save_tool ev n c d cl s)) = ms_reg s" for n c d cl and s :: "'a mcp_state"
    by (auto simp: save_tool_def changed_report_def Let_def split: prod.split sum.split)
  show "keeps (handle_playbook_put ev args)"
    by (auto simp: keeps_def handle_playbook_put_def del save split: option.splits sum.splits prod.splits dest: res)
  show "keeps (handle_playbook_exec ev name args)"
    by (auto simp: keeps_def handle_playbook_exec_def resolve_def Let_def split: option.splits sum.splits prod.splits dest: res)
qed

lemma keeps_answered: "keeps f \<Longrightarrow> keeps (\<lambda>s. answered (f s))"
  by (simp add: keeps_def answered_def)

lemma keeps_tool_call: "keeps (handle_tool_call ev name args)"
  unfolding handle_tool_call_def
  by (intro keeps_if keeps_answered keeps_const keeps_device_list keeps_http keeps_gps keeps_file_write keeps_session keeps_send_tool keeps_reads
      keeps_session_list keeps_exec_wait keeps_playbook)

text \<open>A run of tool calls, each with what its environment answers.\<close>

type_synonym 'w tool_call = "'w tool_env \<times> string \<times> json"

definition call_step :: "'w tool_call \<Rightarrow> 'w mcp_state \<Rightarrow> 'w mcp_state" where
  "call_step c s = (case c of (ev, name, args) \<Rightarrow> snd (handle_tool_call ev name args s))"

interpretation calls: invariant_machine call_step "\<lambda>_ _. True" "\<lambda>s. pool_ok (ms_reg s)"
  using keeps_tool_call by unfold_locales (auto simp: call_step_def keeps_def split: prod.split)

text \<open>
  C25. Session traffic goes to configured devices only. Take any sequence of tool calls, with the
  configuration file changing in any way in between and connections failing at any time. Every connection
  in the pool of the server belongs to a device of the configuration in force, and was opened at the URL
  that the configuration gives for that device.
\<close>

theorem mcp_pool_configured:
  assumes "hm_get (rg_pool (ms_reg (fold call_step cs \<lparr>ms_reg = from_config_file cfg path t, ms_pb = pb, ms_world = w\<rparr>))) name = Some p"
  shows "\<exists>cl. hm_get (rg_clients (ms_reg (fold call_step cs \<lparr>ms_reg = from_config_file cfg path t, ms_pb = pb, ms_world = w\<rparr>))) name = Some cl
     \<and> sh_base_url cl = pl_base_url p"
proof -
  let ?s = "\<lparr>ms_reg = from_config_file cfg path t, ms_pb = pb, ms_world = w\<rparr>"
  have "pool_ok (ms_reg ?s)" by (simp add: pool_ok_def from_config_file_def from_config_def build_clients_wf)
  then have "pool_ok (ms_reg (fold call_step cs ?s))" using calls.run_invar_all [of ?s cs] by (simp add: calls.run_fold)
  then show ?thesis using assms by (simp add: pool_ok_def)
qed

subsection \<open>Playbook tools on the device\<close>

text \<open>
  A device that serves commands over HTTP: the endpoint of the server behind its middleware. How its
  answer is written on the wire, and the refusal of a body that is no command, are arguments.
\<close>

definition request_headers :: "device_request \<Rightarrow> headers" where
  "request_headers rq =
     (map_of (hq_headers rq))(''authorization'' := map_option (\<lambda>k. ''Bearer '' @ k) (hq_bearer rq))"

definition exec_net ::
    "os \<Rightarrow> exec_config \<Rightarrow> (api_failure + exec_response \<Rightarrow> device_answer) \<Rightarrow> device_answer \<Rightarrow> string \<Rightarrow> string \<Rightarrow> exec_state net" where
  "exec_net os cfg wire unreadable base key st rq =
     (if hq_method rq = ''POST'' \<and> hq_url rq = base @ ''/api/exec''
      then
        (case require_api_key (Some key) (request_headers rq) of
           Inl e \<Rightarrow> (Inr (wire (Inl e)), st)
         | Inr _ \<Rightarrow>
            (case hq_body rq of
               JsonBody v \<Rightarrow>
                (case exec_request_of v of
                   None \<Rightarrow> (Inr unreadable, st)
                 | Some r \<Rightarrow> (let (x, st') = exec os cfg (request_headers rq) r st in (Inr (wire x), st')))
             | _ \<Rightarrow> (Inr unreadable, st)))
      else (Inl ''connection refused'', st))"

lemma key_accepted: "require_api_key (Some key) (request_headers rq) = Inr () \<longleftrightarrow> hq_bearer rq = Some key"
proof -
  have "bytes a = bytes b \<longleftrightarrow> a = b" for a b by (rule bytes_inject)
  then show ?thesis
    by (cases "hq_bearer rq") (auto simp: require_api_key_def request_headers_def constant_time_eq_iff)
qed

lemma exec_spawns_one:
  "xs_spawned (snd (exec os cfg hs r st)) = xs_spawned st @ [spec_of cfg r]"
  by (simp add: exec_logged run_logged_def log_and_cache_def case_prod_beta)

lemma exec_body_request:
  "exec_request_of (exec_request_body script t None None)
     = Some \<lparr>xr_command = script, xr_timeout_ms = t, xr_request_id = None, xr_working_dir = None, xr_env = None, xr_shell = None\<rparr>"
  by (cases t) (simp_all add: exec_request_of_def de_req_def de_opt_def exec_request_body_def json_get_def map_of_fields str_def opt_str_def
      num_def json_as_str_def json_as_u64_word)

lemma exec_net_runs:
  "\<exists>x. snd (client_exec (exec_net os cfg wire unreadable (sh_base_url cl) (sh_api_key cl)) cl script t None None st) = x
     \<and> xs_spawned x = xs_spawned st @ [spec_of cfg \<lparr>xr_command = script, xr_timeout_ms = t, xr_request_id = None, xr_working_dir = None,
         xr_env = None, xr_shell = None\<rparr>]"
proof -
  let ?rq = "exec_http_request cl script t None None"
  have "hq_method ?rq = ''POST''" "hq_url ?rq = sh_base_url cl @ ''/api/exec''" "hq_bearer ?rq = Some (sh_api_key cl)"
      "hq_body ?rq = JsonBody (exec_request_body script t None None)"
    by (simp_all add: exec_http_request_def api_request_def Let_def split: option.split)
  then show ?thesis
    using key_accepted [of "sh_api_key cl" ?rq]
    by (simp add: client_exec_def client_call_def exec_net_def exec_body_request exec_spawns_one case_prod_beta)
qed


subsection \<open>Witnesses\<close>

definition demo_os :: os where
  "demo_os _ _ = \<lparr>px_spawn_err = None, px_stdout = [], px_stderr = [], px_wait = Inr (Some 0), px_done_ms = Some 1, px_clock_ms = None\<rparr>"

definition demo_device_config :: exec_config where
  "demo_device_config = \<lparr>xc_timeout_ms = 1000, xc_max_batch_size = 3,
     xc_shell = \<lparr>sc_default_terminal_rows = 24, sc_default_terminal_cols = 80, sc_default_working_dir = ''/'', sc_default_shell = ''/bin/sh''\<rparr>, xc_home = None\<rparr>"

definition demo_reply :: device_answer where
  "demo_reply = \<lparr>hp_status = 200, hp_text = [], hp_json = Inr JNull\<rparr>"

definition demo_devices :: resolved_config where
  "demo_devices = \<lparr>rc_devices = [(''r1'', \<lparr>de_url = ''http://r1/'', de_api_key = ''k'', de_playbooks_dir = None\<rparr>)], rc_default_device = ''r1''\<rparr>"

definition demo_file :: config_file where
  "demo_file = \<lparr>cf_mtime = Some 1, cf_config = Inl ''unread''\<rparr>"

definition demo_env :: "exec_state tool_env" where
  "demo_env =
     \<lparr>te_net = exec_net demo_os demo_device_config (\<lambda>_. demo_reply) demo_reply ''http://r1'' ''k'', te_pretty = (\<lambda>_. []), te_file = demo_file,
      te_url_err = (\<lambda>_. None), te_sha = id, te_build_err = None, te_b64 = (\<lambda>s. Inr (bytes s)), te_yaml = (\<lambda>_. Inl []), te_show_json = (\<lambda>_. []),
      te_dial = (\<lambda>_. Inr ()),
      te_client = (\<lambda>_. \<lparr>cl_list_playbooks = Inr JNull, cl_get_playbook = (\<lambda>_. Inr JNull), cl_file_read = (\<lambda>_ _. Inr JNull), cl_slow = False\<rparr>),
      te_ai_wait = [], te_wait = [], te_before = [], te_list_wait = (\<lambda>_. []), te_nonce = [], te_now = 0, te_rounds = []\<rparr>"

definition demo_mcp :: "exec_state mcp_state" where
  "demo_mcp =
     \<lparr>ms_reg = from_config_file demo_devices ''/c'' (Some 1),
      ms_pb = cache_playbooks ''r1'' [ping_playbook] (with_defaults []), ms_world = fresh_exec 10 10\<rparr>"

theorem mcp_pool_configured_witness:
  "\<exists>p cl. hm_get (rg_pool (ms_reg (fold call_step [(demo_env, ''session_kill'', JObj [(''session_id'', JStr ''s'')])]
       \<lparr>ms_reg = from_config_file demo_devices ''/c'' (Some 1), ms_pb = with_defaults [], ms_world = fresh_exec 1 1\<rparr>))) ''r1'' = Some p
     \<and> pl_base_url p = ''http://r1''
     \<and> hm_get (rg_clients (ms_reg (fold call_step [(demo_env, ''session_kill'', JObj [(''session_id'', JStr ''s'')])]
       \<lparr>ms_reg = from_config_file demo_devices ''/c'' (Some 1), ms_pb = with_defaults [], ms_world = fresh_exec 1 1\<rparr>))) ''r1'' = Some cl
     \<and> sh_base_url cl = ''http://r1''"
proof -
  let ?s = "\<lparr>ms_reg = from_config_file demo_devices ''/c'' (Some 1), ms_pb = with_defaults [], ms_world = fresh_exec 1 1\<rparr>"
    and ?cs = "[(demo_env, ''session_kill'', JObj [(''session_id'', JStr ''s'')])]"
  have "map_option pl_base_url (hm_get (rg_pool (ms_reg (fold call_step ?cs ?s))) ''r1'') = Some ''http://r1''" by code_simp
  then obtain p where p: "hm_get (rg_pool (ms_reg (fold call_step ?cs ?s))) ''r1'' = Some p" "pl_base_url p = ''http://r1''" by auto
  from mcp_pool_configured [OF p(1)] obtain cl where
    "hm_get (rg_clients (ms_reg (fold call_step ?cs ?s))) ''r1'' = Some cl" "sh_base_url cl = pl_base_url p" by blast
  with p show ?thesis by (intro exI conjI) simp_all
qed


subsection \<open>What the server does not promise\<close>

text \<open>
  The tool that reads a playbook looks for the fields \<open>content\<close> and \<open>path\<close>, which the device does not
  send: it shows every playbook as empty.
\<close>

lemma playbook_get_shows_nothing:
  assumes "fst (get_playbook yaml env dir hs name s) = Inr v"
  shows "content_report name dev (unwrap_or [] (arg_str v ''path'')) v
    = JObj [(''name'', JStr name), (''device'', JStr dev), (''path'', JStr []), (''content'', JStr [])]"
proof -
  have "json_get v ''content'' = None" "json_get v ''path'' = None"
    using assms by (auto simp: get_playbook_def json_get_def split: sum.splits)
  then show ?thesis by (simp add: content_report_def unwrap_or_def)
qed

text \<open>
  A large file is uploaded in chunks with its own path as the directory of the upload: unless a directory
  stands there, the device refuses, and the file is not written.
\<close>

lemma chunked_write_refused:
  assumes "iu_path u = path" "fst st path \<noteq> Some DirNode"
    and "fst (net st (api_request cl ''POST'' ''/api/stp/upload'' (JsonBody (init_body sha path data mode)))) = Inr a"
    and "\<And>e. fst (stp_init_upload env u st) = Some (Inl e) \<Longrightarrow> hp_status a = fst e"
    and "snd (net st (api_request cl ''POST'' ''/api/stp/upload'' (JsonBody (init_body sha path data mode)))) = snd (stp_init_upload env u st)"
  shows "\<exists>n t. client_file_write_chunked net sha be cl path data mode st = (Inl (Device n t), st)"
proof -
  have g: "\<exists>e. upload_guards env u (fst st) (snd st) = Err e"
  proof -
    have "(\<exists>e. stat_path env m (fst st) path = Inl e) \<or> (\<exists>a b c. stat_path env m (fst st) path = Inr (FileNode a b c))" for m
      using assms(2) by (cases "fst st path"; cases "the (fst st path)") (auto simp: stat_path_def split: option.split io_kind.split)
    from this [of "''Directory not found''"] show ?thesis using assms(1) by (auto simp: upload_guards_def validate_transfer_path_def)
  qed
  then obtain e where e: "stp_init_upload env u st = (Some (Inl (transfer_error_to_http e)), st)"
    by (auto simp: stp_init_upload_def init_upload_def http_outcome_def)
  have "\<not> (200 \<le> fst (transfer_error_to_http e) \<and> fst (transfer_error_to_http e) < 300)"
    by (simp add: transfer_error_to_http_def transfer_status_code_def)
  then have "\<exists>n t. handle_response a = Inl (Device n t)" using assms(4) e by (auto simp: handle_response_def)
  then show ?thesis
    using assms(3,5) e by (auto simp: client_file_write_chunked_def client_call_def Let_def split: prod.splits)
qed

end
