(* ===== verification/Spec2Isabelle.thy ===== *)
theory Spec2Isabelle
  imports Session_Props Auth Supervisor Gawdxfer_Props Watchdog_Props Tunnel_Client_Props Ws_Props
    Lte_Control Iso8601 Exec_Props Mcp_Props
begin

text \<open>
  \<^bold>\<open>sctl\<close> is a remote control agent for devices without inbound network access. The server
  (\<open>server/src\<close>) runs shell sessions and one-shot jobs, moves files in verified chunks, keeps an
  activity journal, supervises itself, looks after the LTE modem of the device, and reaches its
  clients through a WebSocket tunnel over a relay. This development models the parts of the server
  that keep state of their own and proves what its clients rely on.

  \<^bold>\<open>Parts and theories.\<close>

  \<^item> \<open>Prelude\<close>: machine integers, the outcome of a call (\<open>Ok\<close>, \<open>Err\<close>, \<open>Panic\<close>), time, the string
    operations of the sources with the round trip of decimal printing and parsing, and the locale
    \<open>invariant_machine\<close>.
  \<^item> \<open>Hash_Map\<close>: \<open>std::collections::HashMap\<close> behind the locale \<open>keyed_store\<close>, interpreted as \<open>hm\<close>.
  \<^item> \<open>Seq_Ring\<close>: bounded logs of numbered entries behind the locale \<open>seq_ring\<close>, interpreted as \<open>ob\<close>
    on the output buffer and as \<open>al\<close> on the activity log.
  \<^item> \<open>Output_Buffer\<close> (\<open>sessions/buffer.rs\<close>): \<open>push\<close>, \<open>read_since\<close>, \<open>has_entries_since\<close>; bounded and
    gap-free, and a poll returns exactly the held entries after the cursor with the number dropped.
  \<^item> \<open>Journal\<close> (\<open>sessions/journal.rs\<close>): writer task, recovery, clean-up, orphaned processes. What the
    writer made durable is what recovery reads back, whatever the crash left of the last line.
  \<^item> \<open>Session\<close> (\<open>sessions/session.rs\<close>): spawning with pipes or a PTY, the reader and exit tasks,
    signals, immediate and graceful killing.
  \<^item> \<open>Session_Manager\<close> and \<open>Session_Props\<close> (\<open>sessions/mod.rs\<close>): every operation of the pool, and the
    pool as a state machine over them: the limit on sessions, permission for AI work, the exact
    effect of the sweep, of recovery and of a graceful kill.
  \<^item> \<open>Activity\<close> (\<open>activity.rs\<close>, \<open>routes/activity.rs\<close>) with \<open>Json\<close>: the log, its filters and paging,
    concurrent calls of \<open>log\<close> as an inductive relation over their three steps, and the cache of exec
    results.
  \<^item> \<open>Auth\<close> (\<open>auth.rs\<close>, \<open>error.rs\<close>): the bearer middleware and the constant-time comparison.
  \<^item> \<open>Supervisor\<close> (\<open>supervisor.rs\<close>): the restart loop, its backoff, crash-loop detection, the safe-mode
    flag, forwarded signals.
  \<^item> \<open>Gawdxfer\<close> and \<open>Gawdxfer_Props\<close> (\<open>gawdxfer/\<close>, \<open>routes/stp.rs\<close>): every operation of the transfer
    manager over an explicit file system. Downloads and uploads deliver exactly the file in any
    chunk order; an upload is complete only with a verified file in place; the phases follow their
    lifecycle under every sequence of operations; resume and sweep are exact.
  \<^item> \<open>Watchdog\<close> and \<open>Watchdog_Props\<close> (\<open>lte_watchdog.rs\<close>, parts of \<open>lte.rs\<close>): one iteration of the
    watchdog loop from the suppression checks to the verification of the recovery, and runs of it. It
    leaves a working link alone, power cycles only as configured, and keeps its bounds per episode.

  \<^bold>\<open>How the code is read.\<close> A struct is a record with a prefix on its fields, an enum a datatype, a
  method a function from the old to the new state. A method that holds its lock throughout is one
  step. Where the code releases the lock (\<open>ActivityLog::log\<close>, \<open>receive_chunk\<close>, \<open>serve_chunk\<close>) the
  parts between are definitions of their own that can be interleaved. Integers keep their width
  where they can wrap. What the world decides (clock readings, fresh identifiers, results of system
  calls, answers of the modem) is an argument, so every early return is a branch. Every error of the
  code is a value; a panic is the outcome \<open>Panic\<close>. Log lines for the operator (\<open>info!\<close>, \<open>warn!\<close>) are
  left out.

  \<^bold>\<open>Code outside the repository.\<close> The JSON codec of a journal line is a pair of parameters with the
  round trip and the absence of line breaks as hypotheses (\<open>json_codec\<close>). The digest of the \<open>sha2\<close>
  crate is the parameter \<open>sha\<close>, about which nothing is assumed: the theorems on transfers speak of
  equal digests, and of equal contents only where the chunks sent are those of the file.

  \<^bold>\<open>Bounds.\<close> No definition needs fuel except the client loop \<open>page_all\<close> of the activity log, which
  is run for at least as many rounds as there are entries. The counters of the logs are 64 bits
  wide, and the theorems that need them not to wrap say so (\<open>seq_room\<close>, \<open>id_room\<close>). The supervisor's
  backoff is followed below \<open>2 ^ 62\<close> seconds. Runs of the supervisor and of the watchdog are over
  arbitrary finite lists of iterations.

  \<^bold>\<open>Behaviour the theorems point out.\<close> Some theorems state what the code does where this differs from
  what its comments promise: \<open>recovered_sessions_swept\<close>, \<open>signal_recovered_hits_own_group\<close>,
  \<open>duplicate_last_chunk_strands\<close>, \<open>zero_chunk_download_panics\<close>, \<open>dormant_survives_recovery\<close>,
  \<open>safe_mode_pause_resets\<close>, \<open>shutdown_signals_every_child\<close>, \<open>activity_poll_can_miss\<close>.

  \<^bold>\<open>Not modelled.\<close> The tunnel (\<open>tunnel/relay.rs\<close>, \<open>tunnel/client.rs\<close>), the WebSocket endpoint
  (\<open>ws/\<close>), the AT parsers and the band scan of \<open>lte.rs\<close>, the loading of the configuration, the file
  and playbook endpoints, infrastructure monitoring and the MCP server (\<open>mcp/src\<close>) come next, in
  this order. Serial ports, shell commands, \<open>/proc\<close> and HTTP plumbing stay outside: they are
  input and output without logic of their own.
\<close>

end
